(* ===== verification/Prelude.thy ===== *)
theory Prelude
  imports Main "HOL-Library.Sublist"
begin

text \<open>
  Shared vocabulary of the development.

  \<^item> \<open>i64\<close> reads an integer as a Go \<open>int64\<close> (two's complement wrap-around); \<open>go_div\<close> and
    \<open>go_mod\<close> are Go's truncating \<open>/\<close> and \<open>%\<close>.
  \<^item> Go strings are byte strings; \<open>to_upper\<close>, \<open>trim_space\<close>, \<open>itoa\<close> and the padded prints
    are the pieces of \<open>strings\<close>, \<open>strconv\<close> and \<open>fmt\<close> the program uses, on ASCII text.
  \<^item> An action \<open>'w \<Rightarrow> ('e + 'a) \<times> 'w\<close> is a Go call that reads and writes the state \<open>'w\<close> and
    returns a value or an error; \<open>bindA\<close> is the \<open>if err != nil { return err }\<close> chain,
    \<open>tryA\<close> keeps the error as a value, \<open>ignoreA\<close> is \<open>_ = f()\<close>.
  \<^item> \<open>keepsA\<close> says that an action preserves a predicate on the state on every path, success
    and error alike; the rules in \<open>keeps\<close> prove it by following the shape of the action.
\<close>

named_theorems act_simps \<open>how the action combinators compute\<close>
named_theorems keeps \<open>invariant preservation through the action combinators\<close>
named_theorems runs \<open>inversion of successful runs\<close>

section \<open>Machine integers\<close>

definition i64 :: "int \<Rightarrow> int" where
  "i64 x = (x + 2 ^ 63) mod 2 ^ 64 - 2 ^ 63"

definition in_i64 :: "int \<Rightarrow> bool" where
  "in_i64 x \<longleftrightarrow> - (2 ^ 63) \<le> x \<and> x < 2 ^ 63"

lemma i64_id [simp]: "in_i64 x \<Longrightarrow> i64 x = x"
  by (simp add: i64_def in_i64_def mod_pos_pos_trivial)

lemma in_i64_i64 [simp]: "in_i64 (i64 x)"
proof -
  have "0 \<le> (x + 2 ^ 63) mod 2 ^ 64" "(x + 2 ^ 63) mod 2 ^ 64 < (2 ^ 64 :: int)"
    by (simp_all add: pos_mod_sign pos_mod_bound)
  then show ?thesis by (simp add: i64_def in_i64_def)
qed

lemma i64_add_left: "i64 (i64 x + y) = i64 (x + y)"
  unfolding i64_def by (simp add: mod_simps algebra_simps)

lemma in_i64I: "\<bar>x\<bar> \<le> 9223372036854775807 \<Longrightarrow> in_i64 x"
  unfolding in_i64_def by auto

definition go_div :: "int \<Rightarrow> int \<Rightarrow> int" where
  "go_div a b = sgn a * sgn b * (\<bar>a\<bar> div \<bar>b\<bar>)"

definition go_mod :: "int \<Rightarrow> int \<Rightarrow> int" where
  "go_mod a b = a - b * go_div a b"

lemma go_div_pos: "0 \<le> a \<Longrightarrow> 0 < b \<Longrightarrow> go_div a b = a div b"
  by (cases "a = 0") (simp_all add: go_div_def)

lemma go_mod_pos: "0 \<le> a \<Longrightarrow> 0 < b \<Longrightarrow> go_mod a b = a mod b"
  by (simp add: go_mod_def go_div_pos minus_mult_div_eq_mod)

lemma go_div_mod: "b * go_div a b + go_mod a b = a"
  by (simp add: go_mod_def)

section \<open>Strings\<close>

definition char_upper :: "char \<Rightarrow> char" where
  "char_upper c = (let n = of_char c :: nat in if 97 \<le> n \<and> n \<le> 122 then char_of (n - 32) else c)"

definition to_upper :: "string \<Rightarrow> string" where
  "to_upper s = map char_upper s"

definition is_space :: "char \<Rightarrow> bool" where
  "is_space c \<longleftrightarrow> (of_char c :: nat) \<in> {9, 10, 11, 12, 13, 32}"

definition trim_space :: "string \<Rightarrow> string" where
  "trim_space s = rev (dropWhile is_space (rev (dropWhile is_space s)))"

definition has_prefix :: "string \<Rightarrow> string \<Rightarrow> bool" where
  "has_prefix s p \<longleftrightarrow> prefix p s"

definition digit_char :: "nat \<Rightarrow> char" where
  "digit_char d = char_of (48 + d)"

definition is_digit :: "char \<Rightarrow> bool" where
  "is_digit c \<longleftrightarrow> 48 \<le> (of_char c :: nat) \<and> (of_char c :: nat) \<le> 57"

definition digit_val :: "char \<Rightarrow> nat" where
  "digit_val c = of_char c - 48"

fun show_nat :: "nat \<Rightarrow> string" where
  "show_nat n = (if n < 10 then [digit_char n] else show_nat (n div 10) @ [digit_char (n mod 10)])"

declare show_nat.simps [simp del]

definition itoa :: "int \<Rightarrow> string" where
  "itoa x = (if x < 0 then CHR ''-'' # show_nat (nat (- x)) else show_nat (nat x))"

text \<open>\<open>fmt.Sprintf("%0wd", n)\<close> for a natural number.\<close>

definition pad0 :: "nat \<Rightarrow> nat \<Rightarrow> string" where
  "pad0 w n = replicate (w - length (show_nat n)) (CHR ''0'') @ show_nat n"

text \<open>The value of a string of decimal digits, read left to right.\<close>

definition digits_val :: "string \<Rightarrow> nat" where
  "digits_val s = foldl (\<lambda>n c. n * 10 + digit_val c) 0 s"

lemma of_char_digit_char: "d < 10 \<Longrightarrow> (of_char (digit_char d) :: nat) = 48 + d"
  by (simp add: digit_char_def)

lemma digit_char_simps [simp]:
  "digit_char 0 = CHR ''0''"
  "digit_char (Suc 0) = CHR ''1''"
  "digit_char 2 = CHR ''2''"
  "digit_char 3 = CHR ''3''"
  "digit_char 4 = CHR ''4''"
  "digit_char 5 = CHR ''5''"
  "digit_char 6 = CHR ''6''"
  "digit_char 7 = CHR ''7''"
  "digit_char 8 = CHR ''8''"
  "digit_char 9 = CHR ''9''"
  by code_simp+

lemma is_digit_digit_char [simp]: "d < 10 \<Longrightarrow> is_digit (digit_char d)"
  by (simp add: is_digit_def of_char_digit_char)

lemma digit_val_digit_char [simp]: "d < 10 \<Longrightarrow> digit_val (digit_char d) = d"
  by (simp add: digit_val_def of_char_digit_char)

lemma digits_foldl:
  "foldl (\<lambda>n c. n * 10 + digit_val c) a s = a * 10 ^ length s + digits_val s"
proof (induction s arbitrary: a)
  case Nil
  then show ?case by (simp add: digits_val_def)
next
  case (Cons c s)
  show ?case
    unfolding digits_val_def foldl.simps
    by (subst (1 2) Cons) (simp add: algebra_simps)
qed

lemma digits_val_append: "digits_val (s @ t) = digits_val s * 10 ^ length t + digits_val t"
proof -
  have "digits_val (s @ t) = foldl (\<lambda>n c. n * 10 + digit_val c) (digits_val s) t"
    by (simp add: digits_val_def)
  then show ?thesis by (simp only: digits_foldl)
qed

lemma digits_val_Nil [simp]: "digits_val [] = 0"
  by (simp add: digits_val_def)

lemma digits_val_single [simp]: "digits_val [c] = digit_val c"
  by (simp add: digits_val_def)

lemma digits_val_show_nat [simp]: "digits_val (show_nat n) = n"
proof (induction n rule: show_nat.induct)
  case (1 n)
  then show ?case
    by (subst show_nat.simps) (auto simp: digits_val_append)
qed

lemma show_nat_digits: "c \<in> set (show_nat n) \<Longrightarrow> is_digit c"
proof (induction n rule: show_nat.induct)
  case (1 n)
  then show ?case
    by (subst (asm) (2) show_nat.simps) (auto split: if_splits)
qed

lemma digits_val_zeros [simp]: "digits_val (replicate k (CHR ''0'')) = 0"
proof (induction k)
  case (Suc k)
  have "digits_val (replicate (Suc k) (CHR ''0'')) = digits_val (replicate k (CHR ''0'') @ [CHR ''0''])"
    by (simp only: replicate_append_same replicate_Suc)
  also have "\<dots> = 0" using Suc by (simp only: digits_val_append) (simp add: digit_val_def)
  finally show ?case .
qed simp

lemma digits_val_pad0 [simp]: "digits_val (pad0 w n) = n"
  by (simp add: pad0_def digits_val_append)

lemma pad0_digits: "c \<in> set (pad0 w n) \<Longrightarrow> is_digit c"
  by (auto simp: pad0_def is_digit_def dest: show_nat_digits)

lemma length_show_nat: "n < 10 ^ k \<Longrightarrow> 0 < k \<Longrightarrow> length (show_nat n) \<le> k"
proof (induction n arbitrary: k rule: show_nat.induct)
  case (1 n)
  show ?case
  proof (cases "n < 10")
    case True
    with 1 show ?thesis by (subst show_nat.simps) simp
  next
    case False
    with 1 obtain j where j: "k = Suc j" "0 < j"
      by (cases k; cases "k - 1") auto
    with 1 have "n div 10 < 10 ^ j" by (simp add: less_mult_imp_div_less mult.commute)
    with 1(1) [OF False, of j] j False show ?thesis by (subst show_nat.simps) simp
  qed
qed

lemma length_pad0: "n < 10 ^ w \<Longrightarrow> 0 < w \<Longrightarrow> length (pad0 w n) = w"
  using length_show_nat [of n w] by (simp add: pad0_def)

lemma show_nat_nonempty [simp]: "show_nat n \<noteq> []"
  by (subst show_nat.simps) simp

lemma length_to_upper [simp]: "length (to_upper s) = length s"
  by (simp add: to_upper_def)

lemma char_upper_idem [simp]: "char_upper (char_upper c) = char_upper c"
  by (auto simp: char_upper_def Let_def)

lemma to_upper_idem [simp]: "to_upper (to_upper s) = to_upper s"
  by (simp add: to_upper_def)

lemma to_upper_append: "to_upper (s @ t) = to_upper s @ to_upper t"
  by (simp add: to_upper_def)

section \<open>Actions\<close>

type_synonym ('w, 'e, 'a) act = "'w \<Rightarrow> ('e + 'a) \<times> 'w"

definition retA :: "'a \<Rightarrow> ('w, 'e, 'a) act" where
  "retA x w = (Inr x, w)"

definition throwA :: "'e \<Rightarrow> ('w, 'e, 'a) act" where
  "throwA e w = (Inl e, w)"

definition bindA :: "('w, 'e, 'a) act \<Rightarrow> ('a \<Rightarrow> ('w, 'e, 'b) act) \<Rightarrow> ('w, 'e, 'b) act" where
  "bindA m k w = (case m w of (Inl e, w1) \<Rightarrow> (Inl e, w1) | (Inr x, w1) \<Rightarrow> k x w1)"

definition tryA :: "('w, 'e, 'a) act \<Rightarrow> ('w, 'e, 'e + 'a) act" where
  "tryA m w = (case m w of (r, w1) \<Rightarrow> (Inr r, w1))"

definition ignoreA :: "('w, 'e, 'a) act \<Rightarrow> ('w, 'e, unit) act" where
  "ignoreA m w = (Inr (), snd (m w))"

definition guardA :: "bool \<Rightarrow> 'e \<Rightarrow> ('w, 'e, unit) act" where
  "guardA b e = (if b then retA () else throwA e)"

definition mapErrA :: "('e \<Rightarrow> 'e) \<Rightarrow> ('w, 'e, 'a) act \<Rightarrow> ('w, 'e, 'a) act" where
  "mapErrA f m w = (case m w of (Inl e, w1) \<Rightarrow> (Inl (f e), w1) | (Inr x, w1) \<Rightarrow> (Inr x, w1))"

definition liftE :: "'e + 'a \<Rightarrow> ('w, 'e, 'a) act" where
  "liftE r w = (r, w)"

definition getsA :: "('w \<Rightarrow> 'a) \<Rightarrow> ('w, 'e, 'a) act" where
  "getsA f w = (Inr (f w), w)"

definition modifyA :: "('w \<Rightarrow> 'w) \<Rightarrow> ('w, 'e, unit) act" where
  "modifyA f w = (Inr (), f w)"

definition whenA :: "bool \<Rightarrow> ('w, 'e, unit) act \<Rightarrow> ('w, 'e, unit) act" where
  "whenA b m = (if b then m else retA ())"

text \<open>A \<open>for ... range\<close> loop whose body may return early with an error, collecting results.\<close>

fun mapA :: "('x \<Rightarrow> ('w, 'e, 'a) act) \<Rightarrow> 'x list \<Rightarrow> ('w, 'e, 'a list) act" where
  "mapA f [] = retA []"
| "mapA f (x # xs) = bindA (f x) (\<lambda>y. bindA (mapA f xs) (\<lambda>ys. retA (y # ys)))"

subsection \<open>How actions compute\<close>

lemma run_simps [act_simps]:
  "retA x w = (Inr x, w)"
  "throwA e w = (Inl e, w)"
  "getsA f w = (Inr (f w), w)"
  "modifyA g w = (Inr (), g w)"
  "liftE r w = (r, w)"
  "ignoreA m w = (Inr (), snd (m w))"
  "whenA True m2 = m2"
  "whenA False m2 = retA ()"
  "guardA True e = retA ()"
  "guardA False e = throwA e"
  by (simp_all add: retA_def throwA_def getsA_def modifyA_def liftE_def ignoreA_def whenA_def
      guardA_def)

lemma bindA_Inl: "m w = (Inl e, w1) \<Longrightarrow> bindA m k w = (Inl e, w1)"
  by (simp add: bindA_def)

lemma bindA_Inr: "m w = (Inr x, w1) \<Longrightarrow> bindA m k w = k x w1"
  by (simp add: bindA_def)

lemma bindA_simps [act_simps]:
  "bindA (retA x) k = k x"
  "bindA (throwA e) k = throwA e"
  "bindA (getsA f) k w = k (f w) w"
  "bindA (modifyA g) k2 w = k2 () (g w)"
  "bindA (liftE (Inl e)) k = throwA e"
  "bindA (liftE (Inr x)) k = k x"
  "bindA (ignoreA m) k2 w = k2 () (snd (m w))"
  "bindA (tryA m) k3 w = k3 (fst (m w)) (snd (m w))"
  by (simp_all add: bindA_def retA_def throwA_def getsA_def modifyA_def liftE_def ignoreA_def
      tryA_def fun_eq_iff split: prod.split)

lemma bindA_guard [act_simps]: "bindA (guardA b e) k = (if b then k () else throwA e)"
  by (simp add: act_simps)

text \<open>Evaluation runs an action only when it is applied to a state.\<close>

lemma run_code [code]:
  "retA x w = (Inr x, w)" "throwA e w = (Inl e, w)" "getsA f w = (Inr (f w), w)" "modifyA g w = (Inr (), g w)"
  "liftE r w = (r, w)" "ignoreA m w = (Inr (), snd (m w))" "whenA b m2 w = (if b then m2 w else (Inr (), w))"
  "guardA b e w = (if b then (Inr (), w) else (Inl e, w))"
  by (simp_all add: retA_def throwA_def getsA_def modifyA_def liftE_def ignoreA_def whenA_def guardA_def)

subsection \<open>Inversion of runs\<close>

lemma bindA_run [runs]:
  "bindA m k w = (Inr y, w') \<longleftrightarrow> (\<exists>x w1. m w = (Inr x, w1) \<and> k x w1 = (Inr y, w'))"
  by (auto simp: bindA_def split: prod.splits sum.splits)

lemma run_of: "fst p = r \<Longrightarrow> p = (r, snd p)"
  by (cases p) simp

lemma bindA_err:
  "bindA m k w = (Inl e, w') \<longleftrightarrow>
     m w = (Inl e, w') \<or> (\<exists>x w1. m w = (Inr x, w1) \<and> k x w1 = (Inl e, w'))"
  by (auto simp: bindA_def split: prod.splits sum.splits)

lemma retA_run [runs]: "retA x w = (Inr y, w') \<longleftrightarrow> y = x \<and> w' = w"
  by (auto simp: retA_def)

lemma throwA_run [runs]: "throwA e w = (Inr y, w') \<longleftrightarrow> False"
  by (simp add: throwA_def)

lemma guardA_run [runs]: "guardA b e w = (Inr y, w') \<longleftrightarrow> b \<and> w' = w"
  by (auto simp: guardA_def retA_def throwA_def)

lemma liftE_run [runs]: "liftE r w = (Inr y, w') \<longleftrightarrow> r = Inr y \<and> w' = w"
  by (auto simp: liftE_def)

lemma getsA_run [runs]: "getsA f w = (Inr y, w') \<longleftrightarrow> y = f w \<and> w' = w"
  by (auto simp: getsA_def)

lemma modifyA_run [runs]: "modifyA f w = (Inr y, w') \<longleftrightarrow> w' = f w"
  by (auto simp: modifyA_def)

lemma ignoreA_run [runs]: "ignoreA m w = (Inr y, w') \<longleftrightarrow> w' = snd (m w)"
  by (auto simp: ignoreA_def)

lemma tryA_run [runs]: "tryA m w = (Inr y, w') \<longleftrightarrow> m w = (y, w')"
  by (auto simp: tryA_def split: prod.splits)

lemma mapErrA_run [runs]: "mapErrA f m w = (Inr y, w') \<longleftrightarrow> m w = (Inr y, w')"
  by (auto simp: mapErrA_def split: prod.splits sum.splits)

lemma if_throw_run [runs]:
  "(if b then throwA e else m) w = (Inr y, w') \<longleftrightarrow> \<not> b \<and> m w = (Inr y, w')"
  by (simp add: throwA_def)

lemma option_throw_run [runs]:
  "(case z of None \<Rightarrow> throwA e | Some x \<Rightarrow> k x) w = (Inr y, w') \<longleftrightarrow> (\<exists>x. z = Some x \<and> k x w = (Inr y, w'))"
  by (cases z) (simp_all add: throwA_def)

lemma sum_throw_run [runs]:
  "(case z of Inl e \<Rightarrow> throwA (h e) | Inr x \<Rightarrow> k x) w = (Inr y, w') \<longleftrightarrow> (\<exists>x. z = Inr x \<and> k x w = (Inr y, w'))"
  by (cases z) (simp_all add: throwA_def)

lemma whenA_run [runs]: "whenA b m w = (Inr y, w') \<longleftrightarrow> (if b then m w = (Inr (), w') else w' = w)"
  by (auto simp: whenA_def retA_def)

subsection \<open>Preservation\<close>

definition keepsA :: "('w \<Rightarrow> bool) \<Rightarrow> ('w, 'e, 'a) act \<Rightarrow> bool" where
  "keepsA I m \<longleftrightarrow> (\<forall>w. I w \<longrightarrow> I (snd (m w)))"

lemma keepsAI: "(\<And>w. I w \<Longrightarrow> I (snd (m w))) \<Longrightarrow> keepsA I m"
  by (simp add: keepsA_def)

lemma keepsAD: "keepsA I m \<Longrightarrow> I w \<Longrightarrow> I (snd (m w))"
  by (simp add: keepsA_def)

lemma keepsA_run: "keepsA I m \<Longrightarrow> I w \<Longrightarrow> m w = (r, w') \<Longrightarrow> I w'"
  by (auto dest: keepsAD)

lemma keeps_ret [keeps]: "keepsA I (retA x)"
  by (simp add: keepsA_def retA_def)

lemma keeps_throw [keeps]: "keepsA I (throwA e)"
  by (simp add: keepsA_def throwA_def)

lemma keeps_gets [keeps]: "keepsA I (getsA f)"
  by (simp add: keepsA_def getsA_def)

lemma keeps_lift [keeps]: "keepsA I (liftE r)"
  by (simp add: keepsA_def liftE_def)

lemma keeps_guard [keeps]: "keepsA I (guardA b e)"
  by (simp add: guardA_def keeps)

lemma keeps_bind [keeps]: "keepsA I m \<Longrightarrow> (\<And>x. keepsA I (k x)) \<Longrightarrow> keepsA I (bindA m k)"
  by (fastforce simp: keepsA_def bindA_def split: prod.splits sum.splits dest: spec)

lemma keeps_try [keeps]: "keepsA I m \<Longrightarrow> keepsA I (tryA m)"
  by (auto simp: keepsA_def tryA_def split: prod.splits)

lemma keeps_ignore [keeps]: "keepsA I m \<Longrightarrow> keepsA I (ignoreA m)"
  by (simp add: keepsA_def ignoreA_def)

lemma keeps_mapErr [keeps]: "keepsA I m \<Longrightarrow> keepsA I (mapErrA f m)"
  by (fastforce simp: keepsA_def mapErrA_def split: prod.splits sum.splits dest: spec)

lemma keeps_when [keeps]: "keepsA I m \<Longrightarrow> keepsA I (whenA b m)"
  by (simp add: whenA_def keeps)

lemma keeps_modify: "(\<And>w. I w \<Longrightarrow> I (f w)) \<Longrightarrow> keepsA I (modifyA f)"
  by (simp add: keepsA_def modifyA_def)

lemma keeps_if [keeps]:
  "(b \<Longrightarrow> keepsA I m) \<Longrightarrow> (\<not> b \<Longrightarrow> keepsA I n) \<Longrightarrow> keepsA I (if b then m else n)"
  by simp

lemma keeps_option [keeps]:
  "keepsA I m \<Longrightarrow> (\<And>x. keepsA I (k x)) \<Longrightarrow> keepsA I (case z of None \<Rightarrow> m | Some x \<Rightarrow> k x)"
  by (cases z) simp_all

lemma keeps_sum [keeps]:
  "(\<And>e. keepsA I (h e)) \<Longrightarrow> (\<And>x. keepsA I (k x)) \<Longrightarrow> keepsA I (case z of Inl e \<Rightarrow> h e | Inr x \<Rightarrow> k x)"
  by (cases z) simp_all

lemma keeps_let [keeps]: "keepsA I (f x) \<Longrightarrow> keepsA I (Let x f)"
  by simp

lemma keeps_mapA [keeps]: "(\<And>x. x \<in> set xs \<Longrightarrow> keepsA I (f x)) \<Longrightarrow> keepsA I (mapA f xs)"
  by (induction xs) (auto intro!: keeps)

lemma keeps_bind_post:
  assumes "keepsA I m" "\<And>x w w'. m w = (Inr x, w') \<Longrightarrow> keepsA I (k x)"
  shows "keepsA I (bindA m k)"
proof (rule keepsAI)
  fix w assume "I w"
  obtain r w1 where m: "m w = (r, w1)" by fastforce
  with assms(1) \<open>I w\<close> have "I w1" by (auto dest: keepsAD)
  then show "I (snd (bindA m k w))"
    using assms(2) m by (cases r) (auto simp: bindA_def dest: keepsAD)
qed

text \<open>From a stronger to a weaker predicate: \<open>J\<close> carries what a read has established up to the
  write that needs it.\<close>

definition leadsA :: "('w \<Rightarrow> bool) \<Rightarrow> ('w \<Rightarrow> bool) \<Rightarrow> ('w, 'e, 'a) act \<Rightarrow> bool" where
  "leadsA J I m \<longleftrightarrow> (\<forall>w. J w \<longrightarrow> I (snd (m w)))"

named_theorems leads \<open>from what a read established to the invariant\<close>

lemma leadsAI: "(\<And>w. J w \<Longrightarrow> I (snd (m w))) \<Longrightarrow> leadsA J I m"
  by (simp add: leadsA_def)

lemma leads_keeps: "keepsA I m \<Longrightarrow> (\<And>w. J w \<Longrightarrow> I w) \<Longrightarrow> leadsA J I m"
  by (simp add: leadsA_def keepsA_def)

lemma leads_bind:
  assumes "keepsA J m" "\<And>w. J w \<Longrightarrow> I w" "\<And>x. leadsA J I (k x)"
  shows "leadsA J I (bindA m k)"
proof (rule leadsAI)
  fix w assume J: "J w"
  obtain r w1 where m: "m w = (r, w1)" by fastforce
  with assms(1) J have "J w1" by (auto dest: keepsAD)
  then show "I (snd (bindA m k w))"
    using assms(2,3) m by (cases r) (auto simp: bindA_def leadsA_def)
qed

lemma leads_then:
  assumes "leadsA J I m" "\<And>x. keepsA I (k x)"
  shows "leadsA J I (bindA m k)"
proof (rule leadsAI)
  fix w assume J: "J w"
  obtain r w1 where m: "m w = (r, w1)" by fastforce
  with assms(1) J have "I w1" by (auto simp: leadsA_def dest: spec [of _ w])
  then show "I (snd (bindA m k w))"
    using assms(2) m by (cases r) (auto simp: bindA_def dest: keepsAD)
qed

lemma leads_if:
  "(b \<Longrightarrow> leadsA J I m) \<Longrightarrow> (\<not> b \<Longrightarrow> leadsA J I n) \<Longrightarrow> leadsA J I (if b then m else n)"
  by simp

lemma leads_option:
  "(z = None \<Longrightarrow> leadsA J I m) \<Longrightarrow> (\<And>x. z = Some x \<Longrightarrow> leadsA J I (k x)) \<Longrightarrow>
   leadsA J I (case z of None \<Rightarrow> m | Some x \<Rightarrow> k x)"
  by (cases z) simp_all

lemma leads_prod: "(\<And>a b. z = (a, b) \<Longrightarrow> leadsA J I (k a b)) \<Longrightarrow> leadsA J I (case z of (a, b) \<Rightarrow> k a b)"
  by (cases z) simp

section \<open>Tables\<close>

text \<open>
  A database table is the list of its rows. \<open>update_where\<close> is \<open>UPDATE ... SET f WHERE p\<close>,
  \<open>rows_affected\<close> the count in its command tag, \<open>select_one\<close> the first row \<open>QueryRow\<close> scans.
\<close>

definition update_where :: "('r \<Rightarrow> bool) \<Rightarrow> ('r \<Rightarrow> 'r) \<Rightarrow> 'r list \<Rightarrow> 'r list" where
  "update_where p f rs = map (\<lambda>r. if p r then f r else r) rs"

definition rows_affected :: "('r \<Rightarrow> bool) \<Rightarrow> 'r list \<Rightarrow> nat" where
  "rows_affected p rs = length (filter p rs)"

definition select_one :: "('r \<Rightarrow> bool) \<Rightarrow> 'r list \<Rightarrow> 'r option" where
  "select_one p rs = find p rs"

lemma find_SomeD: "find p xs = Some x \<Longrightarrow> x \<in> set xs \<and> p x"
  by (auto simp: find_Some_iff)

lemma select_one_Some: "select_one p rs = Some r \<Longrightarrow> r \<in> set rs \<and> p r"
  by (auto simp: select_one_def find_Some_iff)

lemma select_one_None: "select_one p rs = None \<longleftrightarrow> (\<forall>r \<in> set rs. \<not> p r)"
  by (auto simp: select_one_def find_None_iff)

lemma select_update:
  assumes "select_one p rs = Some r" "p (f r)"
  shows "select_one p (update_where p f rs) = Some (f r)"
  using assms by (induction rs) (auto simp: select_one_def update_where_def split: if_splits)

lemma update_where_Cons: "update_where p f (x # xs) = (if p x then f x else x) # update_where p f xs"
  by (simp add: update_where_def)

lemma update_where_set: "r \<in> set (update_where p f rs) \<Longrightarrow> \<exists>q \<in> set rs. r = (if p q then f q else q)"
  by (auto simp: update_where_def)

lemma update_where_all:
  "(\<And>r. r \<in> set rs \<Longrightarrow> I r) \<Longrightarrow> (\<And>r. I r \<Longrightarrow> p r \<Longrightarrow> I (f r)) \<Longrightarrow>
   r \<in> set (update_where p f rs) \<Longrightarrow> I r"
  by (auto simp: update_where_def split: if_splits)

lemma length_update_where [simp]: "length (update_where p f rs) = length rs"
  by (simp add: update_where_def)

lemma rows_affected_pos: "0 < rows_affected p rs \<longleftrightarrow> (\<exists>r \<in> set rs. p r)"
  by (auto simp: rows_affected_def filter_empty_conv)

lemma update_where_none: "rows_affected p rs = 0 \<Longrightarrow> update_where p f rs = rs"
  by (auto simp: rows_affected_def update_where_def filter_empty_conv intro!: map_idI)

end
