(* ===== verification/Float64.thy ===== *)
theory Float64
  imports Complex_Main Prelude "HOL-Library.Log_Nat"
begin

text \<open>
  Go's \<open>float64\<close> arithmetic, as far as the program uses it: the finite values are rational
  numbers with a 53-bit significand, and every operation computes the exact rational result
  and rounds it to the nearest such number, ties to even (\<open>fl\<close>). Exponent overflow and
  subnormal numbers are out of reach of the amounts and rates the program computes with and
  are not modelled. \<open>math_Round\<close>, \<open>math_Ceil\<close> and \<open>trunc64\<close> are \<open>math.Round\<close>,
  \<open>math.Ceil\<close> and the conversion \<open>int64(x)\<close>.

  The lemmas give what integer bookkeeping needs: rounding never crosses an integer below
  \<open>2 ^ 53\<close>, integers are exact, and the relative error is at most \<open>2 ^ -53\<close>.
\<close>

type_synonym float64 = rat

section \<open>Definitions\<close>

text \<open>\<open>flog2 x\<close> is the exponent of the leading bit of \<open>x > 0\<close>.\<close>

definition flog2 :: "rat \<Rightarrow> int" where
  "flog2 x = (if 1 \<le> x then int (floorlog 2 (nat \<lfloor>x\<rfloor>)) - 1
              else - int (floorlog 2 (nat (\<lceil>1 / x\<rceil> - 1))))"

definition pow2 :: "int \<Rightarrow> rat" where
  "pow2 e = (if 0 \<le> e then 2 ^ nat e else 1 / 2 ^ nat (- e))"

definition round_even :: "rat \<Rightarrow> int" where
  "round_even y = (let n = \<lfloor>y\<rfloor>; d = y - of_int n in
     if d < 1 / 2 then n else if 1 / 2 < d then n + 1 else if even n then n else n + 1)"

definition fl_pos :: "rat \<Rightarrow> float64" where
  "fl_pos x = (let e = flog2 x - 52 in of_int (round_even (x / pow2 e)) * pow2 e)"

definition fl :: "rat \<Rightarrow> float64" where
  "fl x = (if x = 0 then 0 else if 0 < x then fl_pos x else - fl_pos (- x))"

definition f_of_int :: "int \<Rightarrow> float64" where "f_of_int n = fl (of_int n)"
definition f_mul :: "float64 \<Rightarrow> float64 \<Rightarrow> float64" where "f_mul x y = fl (x * y)"
definition f_div :: "float64 \<Rightarrow> float64 \<Rightarrow> float64" where "f_div x y = fl (x / y)"
definition f_add :: "float64 \<Rightarrow> float64 \<Rightarrow> float64" where "f_add x y = fl (x + y)"
definition f_sub :: "float64 \<Rightarrow> float64 \<Rightarrow> float64" where "f_sub x y = fl (x - y)"

definition trunc64 :: "float64 \<Rightarrow> int" where
  "trunc64 x = i64 (if 0 \<le> x then \<lfloor>x\<rfloor> else - \<lfloor>- x\<rfloor>)"

text \<open>Half away from zero.\<close>

definition math_Round :: "float64 \<Rightarrow> float64" where
  "math_Round x = (if 0 \<le> x then of_int \<lfloor>x + 1 / 2\<rfloor> else - of_int \<lfloor>- x + 1 / 2\<rfloor>)"

definition math_Ceil :: "float64 \<Rightarrow> float64" where
  "math_Ceil x = of_int \<lceil>x\<rceil>"

section \<open>Powers of two and the exponent\<close>

lemma pow2_pos [simp]: "0 < pow2 e"
  by (simp add: pow2_def)

lemma pow2_nonzero [simp]: "pow2 e \<noteq> 0"
  by (simp add: pow2_def)

lemma pow2_nonneg_exp: "0 \<le> e \<Longrightarrow> pow2 e = 2 ^ nat e"
  by (simp add: pow2_def)

lemma pow2_neg: "pow2 (- e) = 1 / pow2 e"
  by (cases e rule: int_cases2) (auto simp: pow2_def)

lemma floorlog2_bounds:
  assumes "0 < n"
  shows "2 ^ (floorlog 2 n - 1) \<le> n" and "n < 2 ^ floorlog 2 n"
  using floorlog_bounds [of n 2] assms by auto

lemma floorlog2_pos: "0 < n \<Longrightarrow> 0 < floorlog 2 n"
  using floorlog2_bounds(2) [of n] by (cases "floorlog 2 n") auto

text \<open>Above one the exponent brackets the number; this is the range the amounts live in.\<close>

lemma flog2_ge1:
  assumes "1 \<le> x"
  shows "pow2 (flog2 x) \<le> x" and "0 \<le> flog2 x"
proof -
  let ?n = "nat \<lfloor>x\<rfloor>"
  have n: "0 < ?n" using assms by (simp add: le_floor_iff)
  have e: "flog2 x = int (floorlog 2 ?n - 1)"
    using assms floorlog2_pos [OF n] by (simp add: flog2_def)
  have "(2 :: rat) ^ (floorlog 2 ?n - 1) \<le> of_nat ?n"
    using floorlog2_bounds(1) [OF n] by (metis of_nat_le_iff of_nat_numeral of_nat_power)
  also have "\<dots> \<le> x" using assms by simp
  finally show "pow2 (flog2 x) \<le> x" by (simp add: e pow2_def)
  show "0 \<le> flog2 x" by (simp add: e)
qed

lemma flog2_lt1:
  assumes "0 < x" "x < 1"
  shows "pow2 (flog2 x) \<le> x" and "flog2 x < 0"
proof -
  let ?n = "nat (\<lceil>1 / x\<rceil> - 1)"
  have "1 < 1 / x" using assms by (simp add: field_simps)
  then have c: "1 < \<lceil>1 / x\<rceil>" by (metis less_ceiling_iff of_int_1)
  then have n: "0 < ?n" by linarith
  have "1 / x \<le> of_int \<lceil>1 / x\<rceil>" by simp
  also have "\<lceil>1 / x\<rceil> = int ?n + 1" using c by linarith
  also have "int ?n + 1 \<le> 2 ^ floorlog 2 ?n"
    using floorlog2_bounds(2) [OF n] by (metis of_nat_Suc of_nat_le_iff of_nat_numeral of_nat_power Suc_leI add.commute)
  finally have "1 / x \<le> 2 ^ floorlog 2 ?n" by simp
  then have "1 / 2 ^ floorlog 2 ?n \<le> x" using assms by (simp add: field_simps)
  moreover have e: "flog2 x = - int (floorlog 2 ?n)" using assms by (simp add: flog2_def)
  moreover have "0 < floorlog 2 ?n" by (rule floorlog2_pos [OF n])
  ultimately show "pow2 (flog2 x) \<le> x" and "flog2 x < 0" by (simp_all add: pow2_def)
qed

lemma flog2_le: "0 < x \<Longrightarrow> pow2 (flog2 x) \<le> x"
  using flog2_ge1(1) [of x] flog2_lt1(1) [of x] by (cases "1 \<le> x") auto

lemma flog2_bound:
  assumes "0 < x" "x < 2 ^ k" "0 < k"
  shows "flog2 x < int k"
proof (cases "1 \<le> x")
  case True
  then have "pow2 (flog2 x) < 2 ^ k" using flog2_ge1(1) [OF True] assms by simp
  then have "(2 :: rat) ^ nat (flog2 x) < 2 ^ k"
    using flog2_ge1(2) [OF True] by (simp add: pow2_nonneg_exp)
  then have "nat (flog2 x) < k" by simp
  then show ?thesis using assms by simp
next
  case False
  then show ?thesis using flog2_lt1(2) [of x] assms by simp
qed

section \<open>Rounding\<close>

lemma round_even_error: "\<bar>of_int (round_even y) - y\<bar> \<le> 1 / 2"
proof -
  define d where "d = y - of_int \<lfloor>y\<rfloor>"
  have "0 \<le> d" "d < 1" by (simp_all add: d_def) linarith
  then show ?thesis
    unfolding round_even_def Let_def d_def by (auto simp: abs_le_iff)
qed

lemma round_even_lower: "of_int m \<le> y \<Longrightarrow> m \<le> round_even y"
proof -
  assume "of_int m \<le> y"
  then have "m \<le> \<lfloor>y\<rfloor>" by (simp add: le_floor_iff)
  then show ?thesis by (simp add: round_even_def Let_def)
qed

lemma round_even_upper: "y \<le> of_int m \<Longrightarrow> round_even y \<le> m"
proof -
  assume y: "y \<le> of_int m"
  show ?thesis
  proof (cases "\<lfloor>y\<rfloor> = m")
    case True
    then have "y = of_int m" using y by (metis of_int_floor_le order_antisym)
    then show ?thesis by (simp add: round_even_def Let_def)
  next
    case False
    moreover have "\<lfloor>y\<rfloor> \<le> m" using y by (metis floor_mono floor_of_int)
    ultimately show ?thesis by (simp add: round_even_def Let_def)
  qed
qed

text \<open>Below \<open>2 ^ 53\<close> every integer is a multiple of the last bit, so rounding stops at it.\<close>

lemma int_scaled:
  assumes "e \<le> 0" shows "\<exists>m. of_int n / pow2 e = of_int m"
proof -
  have "of_int n / pow2 e = of_int (n * 2 ^ nat (- e))"
    using assms by (cases "e = 0") (simp_all add: pow2_def)
  then show ?thesis by blast
qed

lemma fl_pos_lower:
  assumes "0 < x" "x < 2 ^ 53" "of_int n \<le> x"
  shows "of_int n \<le> fl_pos x"
proof -
  define e where "e = flog2 x - 52"
  have "e \<le> 0" using flog2_bound [of x 53] assms by (simp add: e_def)
  then obtain m where m: "of_int n / pow2 e = of_int m" using int_scaled by blast
  have "of_int m \<le> x / pow2 e" using assms(3) by (simp flip: m add: divide_right_mono less_imp_le)
  then have "(of_int m :: rat) \<le> of_int (round_even (x / pow2 e))"
    using round_even_lower by simp
  then have "of_int n / pow2 e \<le> (of_int (round_even (x / pow2 e)) :: rat)" by (simp add: m)
  then show ?thesis by (simp add: fl_pos_def Let_def e_def [symmetric] pos_divide_le_eq)
qed

lemma fl_pos_upper:
  assumes "0 < x" "x < 2 ^ 53" "x \<le> of_int n"
  shows "fl_pos x \<le> of_int n"
proof -
  define e where "e = flog2 x - 52"
  have "e \<le> 0" using flog2_bound [of x 53] assms by (simp add: e_def)
  then obtain m where m: "of_int n / pow2 e = of_int m" using int_scaled by blast
  have "x / pow2 e \<le> of_int m" using assms(3) by (simp flip: m add: divide_right_mono less_imp_le)
  then have "(of_int (round_even (x / pow2 e)) :: rat) \<le> of_int m"
    using round_even_upper by simp
  then have "(of_int (round_even (x / pow2 e)) :: rat) \<le> of_int n / pow2 e" by (simp add: m)
  then show ?thesis by (simp add: fl_pos_def Let_def e_def [symmetric] pos_le_divide_eq)
qed

lemma fl_lower: "0 \<le> x \<Longrightarrow> x < 2 ^ 53 \<Longrightarrow> of_int n \<le> x \<Longrightarrow> of_int n \<le> fl x"
  using fl_pos_lower by (simp add: fl_def)

lemma fl_upper: "0 \<le> x \<Longrightarrow> x < 2 ^ 53 \<Longrightarrow> x \<le> of_int n \<Longrightarrow> fl x \<le> of_int n"
  using fl_pos_upper by (simp add: fl_def)

lemma fl_nonneg: "0 \<le> x \<Longrightarrow> x < 2 ^ 53 \<Longrightarrow> 0 \<le> fl x"
  using fl_lower [of x 0] by simp

lemma fl_of_int: "0 \<le> n \<Longrightarrow> n < 2 ^ 53 \<Longrightarrow> fl (of_int n) = of_int n"
proof -
  assume "0 \<le> n" "n < 2 ^ 53"
  then have "(0 :: rat) \<le> of_int n" "(of_int n :: rat) < 2 ^ 53"
    by (simp, metis of_int_less_iff of_int_numeral of_int_power)
  then show ?thesis using fl_lower fl_upper by (intro order_antisym) auto
qed

text \<open>The relative error of one rounding.\<close>

lemma pow2_diff52: "pow2 (e - 52) = pow2 e / 2 ^ 52"
proof (cases "e < 0")
  case True
  then have "nat (52 - e) = nat (- e) + 52" by linarith
  then show ?thesis using True by (simp add: pow2_def power_add)
next
  case False
  show ?thesis
  proof (cases "e < 52")
    case True
    have "(2 :: rat) ^ 52 = 2 ^ nat e * 2 ^ nat (52 - e)"
      using True False by (simp flip: power_add nat_add_distrib)
    then show ?thesis using True False by (simp add: pow2_def field_simps)
  next
    case f: False
    have "nat e = nat (e - 52) + 52" using f by linarith
    then show ?thesis using f by (simp add: pow2_def power_add)
  qed
qed

lemma fl_error: "0 \<le> x \<Longrightarrow> \<bar>fl x - x\<bar> \<le> x / 2 ^ 53"
proof (cases "x = 0")
  case False
  assume "0 \<le> x"
  with False have x: "0 < x" by simp
  define e where "e = flog2 x - 52"
  have "\<bar>of_int (round_even (x / pow2 e)) - x / pow2 e\<bar> * pow2 e \<le> 1 / 2 * pow2 e"
    by (rule mult_right_mono [OF round_even_error]) (simp add: less_imp_le)
  moreover have "\<bar>of_int (round_even (x / pow2 e)) - x / pow2 e\<bar> * pow2 e = \<bar>fl x - x\<bar>"
    using x by (simp add: fl_def fl_pos_def Let_def e_def [symmetric] abs_mult_pos less_imp_le
        left_diff_distrib)
  moreover have "1 / 2 * pow2 e \<le> x / 2 ^ 53"
    using flog2_le [OF x] by (simp add: e_def pow2_diff52)
  ultimately show ?thesis by simp
qed (simp add: fl_def)

section \<open>Back to integers\<close>

lemma trunc64_floor: "0 \<le> x \<Longrightarrow> x < 2 ^ 63 \<Longrightarrow> trunc64 x = \<lfloor>x\<rfloor>"
proof -
  assume "0 \<le> x" "x < 2 ^ 63"
  then have "0 \<le> \<lfloor>x\<rfloor>" "\<lfloor>x\<rfloor> < 2 ^ 63"
    by (simp_all add: floor_less_iff)
  then show ?thesis using \<open>0 \<le> x\<close> by (simp add: trunc64_def in_i64_def)
qed

lemma trunc64_eqI:
  "0 \<le> n \<Longrightarrow> n < 2 ^ 63 \<Longrightarrow> of_int n \<le> x \<Longrightarrow> x < of_int n + 1 \<Longrightarrow> trunc64 x = n"
proof -
  assume a: "0 \<le> n" "n < 2 ^ 63" "of_int n \<le> x" "x < of_int n + 1"
  then have "\<lfloor>x\<rfloor> = n" by (simp add: floor_eq_iff)
  moreover have "0 \<le> x" using a by (metis of_int_0_le_iff order_trans)
  ultimately show ?thesis using a by (simp add: trunc64_def in_i64_def)
qed

lemma f_of_int_exact [simp]: "0 \<le> n \<Longrightarrow> n < 2 ^ 53 \<Longrightarrow> f_of_int n = of_int n"
  by (simp add: f_of_int_def fl_of_int)

end
