(* ===== verification/Errors.thy ===== *)
theory Errors
  imports Prelude
begin

text \<open>
  The error values of the program (\<open>internal/domain/errors.go\<close>, \<open>pkg/money\<close>,
  \<open>pkg/validate\<close>) and their translation to HTTP responses.

  A Go error is identified by the sentinel at the root of its \<open>%w\<close> chain, which is what
  \<open>errors.Is\<close> compares; the text that wrapping adds is not modelled. The sentinels are
  grouped as the source groups them. \<open>Opaque\<close> is an error with no sentinel: one made by
  \<open>errors.New\<close> or \<open>fmt.Errorf\<close> without \<open>%w\<close>, or one that comes from a driver or a
  service; its text says where it comes from.
\<close>

section \<open>Sentinels\<close>

datatype identity_error =
    ErrUserNotFound | ErrUserFrozen | ErrUnauthorized | ErrForbidden | ErrSessionExpired
    | ErrSessionRevoked | ErrSessionNotFound | ErrUsernameTaken

datatype idempotency_error =
    ErrIdempotencyKeyMissing | ErrIdempotencyPayloadMismatch | ErrIdempotencyRequestInFlight

datatype financial_error =
    ErrInsufficientFunds | ErrNegativeAmount | ErrZeroAmount | ErrInvalidCurrency

datatype wallets_error =
    ErrWalletNotFound | ErrBalanceNotFound | ErrBalanceAlreadyExists
    | ErrBalanceAlreadyActive | ErrBalanceNotActive | ErrCannotDeletePrimary
    | ErrBalanceNotEmpty | ErrCurrencyNotActive

datatype pots_error =
    ErrPotNotFound | ErrPotArchived

datatype holds_error =
    ErrHoldNotFound | ErrHoldClosed

datatype cards_error =
    ErrCardNotFound | ErrCardFrozen | ErrCardExpired

datatype lending_error =
    ErrLoanNotFound | ErrLoanLimitExceeded | ErrNBEBlacklisted | ErrNoEligibleProfile
    | ErrActiveLoanExists

datatype overdrafts_error =
    ErrOverdraftNotEligible | ErrOverdraftAlreadyActive | ErrOverdraftNotActive
    | ErrOverdraftInUse | ErrOverdraftLimitExceeded | ErrOverdraftETBOnly

datatype external_error =
    ErrEthSwitchTimeout | ErrEthSwitchUnavailable | ErrFaydaUnavailable | ErrFaydaAuthFailed

datatype business_error =
    ErrBusinessNotFound | ErrBusinessFrozen | ErrBusinessNotActive | ErrMemberNotFound
    | ErrMemberNotActive | ErrRoleNotFound | ErrSystemRoleImmutable | ErrRoleInUse
    | ErrAlreadyMember | ErrCannotRemoveOwner | ErrSelfApproval | ErrTransferExceedsLimit
    | ErrDailyLimitExceeded | ErrApprovalRequired | ErrPendingTransferNotFound
    | ErrInvoiceNotFound | ErrDocumentNotFound | ErrCategoryNotFound | ErrTaxPotNotFound
    | ErrBatchNotFound | ErrBatchNotDraft

datatype regulatory_error =
    ErrKYCInsufficientForFX | ErrRegulatoryRuleNotFound | ErrTransferBlocked
    | ErrRemittanceCapExceeded | ErrDocumentRequired | ErrPurposeRequired
    | ErrInvestmentNotEnabled | ErrFXConversionDisabled | ErrRateStaleness
    | ErrBeneficiaryNotFound | ErrBeneficiaryNotVerified | ErrFamilyPaymentDisabled
    | ErrIntlCardSpendDisabled | ErrIntlCardCapExceeded | ErrAutoConversionDisabled
    | ErrWaterfallExhausted

datatype fx_rates_error =
    ErrFXRateNotFound | ErrFXRateStale

datatype pricing_error =
    ErrFeeScheduleNotFound | ErrNoProviderForCorridor | ErrQuoteExpired
    | ErrProviderUnavailable | ErrRemittanceNotFound

datatype admin_error =
    ErrStaffNotFound | ErrStaffDeactivated | ErrInvalidCredentials | ErrPermissionDenied
    | ErrFlagNotFound | ErrConfigNotFound

datatype recipients_error =
    ErrRecipientNotFound | ErrRecipientArchived | ErrUnknownInstitution | ErrSelfRecipient

datatype payment_requests_error =
    ErrPaymentRequestNotFound | ErrPaymentRequestNotPending | ErrSelfRequest
    | ErrReminderLimitReached | ErrNotRequester | ErrNotPayer

datatype general_error =
    ErrNotFound | ErrConflict | ErrInvalidInput | ErrInternal

datatype money_error = MErrNegativeAmount | MErrZeroAmount | MErrInvalidCurrency

datatype go_error =
    Identity identity_error
  | Idempotency idempotency_error
  | Financial financial_error
  | Wallets wallets_error
  | Pots pots_error
  | Holds holds_error
  | Cards cards_error
  | Lending lending_error
  | Overdrafts overdrafts_error
  | External external_error
  | Business business_error
  | Regulatory regulatory_error
  | FXRates fx_rates_error
  | Pricing pricing_error
  | Admin admin_error
  | Recipients recipients_error
  | PaymentRequests payment_requests_error
  | General general_error
  | Money money_error
  | ErrValidation
  | Opaque string
  | AppError int string "go_error option"

text \<open>\<open>errors.Is(err, target)\<close> unwraps an \<open>AppError\<close> to the error it carries.\<close>

fun root_error :: "go_error \<Rightarrow> go_error" where
  "root_error (AppError c m (Some e)) = root_error e"
| "root_error e = e"

definition errors_Is :: "go_error \<Rightarrow> go_error \<Rightarrow> bool" where
  "errors_Is e target \<longleftrightarrow> root_error e = target"

section \<open>Translation to HTTP\<close>

text \<open>What the client is told: the error's own text, or a fixed one.\<close>

datatype client_msg = ErrText go_error | FixedText string

definition ErrToCode_table :: "(int \<times> go_error list) list" where
  "ErrToCode_table = [
    (400, [General ErrInvalidInput, Financial ErrNegativeAmount, Financial ErrZeroAmount,
          Financial ErrInvalidCurrency, Money MErrInvalidCurrency, ErrValidation]),
    (401, [Identity ErrUnauthorized, Admin ErrInvalidCredentials, Identity ErrSessionExpired,
          Identity ErrSessionRevoked]),
    (403, [Admin ErrPermissionDenied, Identity ErrForbidden, Identity ErrUserFrozen,
          Cards ErrCardFrozen, Business ErrBusinessFrozen, Business ErrTransferExceedsLimit,
          Business ErrSelfApproval, Regulatory ErrTransferBlocked,
          Regulatory ErrRemittanceCapExceeded, Regulatory ErrInvestmentNotEnabled,
          Regulatory ErrIntlCardSpendDisabled, Regulatory ErrIntlCardCapExceeded,
          Regulatory ErrAutoConversionDisabled, Regulatory ErrFamilyPaymentDisabled,
          PaymentRequests ErrSelfRequest, Recipients ErrSelfRecipient,
          PaymentRequests ErrNotRequester, PaymentRequests ErrNotPayer]),
    (404, [Identity ErrUserNotFound, Wallets ErrWalletNotFound, Wallets ErrBalanceNotFound,
          Wallets ErrBalanceNotActive, Pots ErrPotNotFound, Holds ErrHoldNotFound,
          Cards ErrCardNotFound, Lending ErrLoanNotFound, General ErrNotFound,
          Lending ErrNoEligibleProfile, Business ErrBusinessNotFound,
          Business ErrMemberNotFound, Business ErrRoleNotFound,
          Business ErrPendingTransferNotFound, Business ErrInvoiceNotFound,
          Business ErrDocumentNotFound, Business ErrCategoryNotFound,
          Business ErrTaxPotNotFound, Business ErrBatchNotFound,
          Regulatory ErrRegulatoryRuleNotFound, Regulatory ErrBeneficiaryNotFound,
          Admin ErrStaffNotFound, Admin ErrFlagNotFound, Admin ErrConfigNotFound,
          Pricing ErrFeeScheduleNotFound, Pricing ErrRemittanceNotFound,
          Recipients ErrRecipientNotFound, PaymentRequests ErrPaymentRequestNotFound]),
    (410, [Recipients ErrRecipientArchived]),
    (409, [PaymentRequests ErrPaymentRequestNotPending]),
    (409, [General ErrConflict, Identity ErrUsernameTaken, Wallets ErrBalanceAlreadyExists,
          Wallets ErrBalanceAlreadyActive, Holds ErrHoldClosed, Pots ErrPotArchived,
          Business ErrAlreadyMember, Business ErrRoleInUse, Business ErrSystemRoleImmutable]),
    (422, [Financial ErrInsufficientFunds, Wallets ErrBalanceNotEmpty,
          Wallets ErrCannotDeletePrimary, Lending ErrLoanLimitExceeded,
          Lending ErrNBEBlacklisted, Overdrafts ErrOverdraftNotEligible,
          Overdrafts ErrOverdraftAlreadyActive, Overdrafts ErrOverdraftNotActive,
          Overdrafts ErrOverdraftInUse, Overdrafts ErrOverdraftLimitExceeded,
          Overdrafts ErrOverdraftETBOnly, Cards ErrCardExpired, Wallets ErrCurrencyNotActive,
          Business ErrBusinessNotActive, Business ErrMemberNotActive,
          Business ErrCannotRemoveOwner, Business ErrDailyLimitExceeded,
          Business ErrBatchNotDraft, Regulatory ErrKYCInsufficientForFX,
          Regulatory ErrDocumentRequired, Regulatory ErrPurposeRequired,
          Regulatory ErrBeneficiaryNotVerified, Regulatory ErrRateStaleness,
          Regulatory ErrFXConversionDisabled, Regulatory ErrWaterfallExhausted,
          Admin ErrStaffDeactivated, Pricing ErrNoProviderForCorridor,
          Pricing ErrQuoteExpired, PaymentRequests ErrReminderLimitReached,
          Lending ErrActiveLoanExists]),
    (404, [FXRates ErrFXRateNotFound]),
    (503, [External ErrEthSwitchTimeout, External ErrEthSwitchUnavailable,
          External ErrFaydaUnavailable, External ErrFaydaAuthFailed, FXRates ErrFXRateStale,
          Pricing ErrProviderUnavailable])]"

definition ErrToCode :: "go_error \<Rightarrow> int \<times> client_msg" where
  "ErrToCode e = (case find (\<lambda>(c, ts). \<exists>t \<in> set ts. errors_Is e t) ErrToCode_table of
      None \<Rightarrow> (500, FixedText ''internal error'')
    | Some (c, _) \<Rightarrow> (c, if c = 503 then FixedText ''service temporarily unavailable'' else ErrText e))"

text \<open>\<open>HandleError\<close>: an \<open>AppError\<close> anywhere in the chain decides code and message, any other
  error goes through \<open>ErrToCode\<close>.\<close>

fun HandleError :: "go_error \<Rightarrow> int \<times> client_msg" where
  "HandleError (AppError c m e) = (c, FixedText m)"
| "HandleError e = ErrToCode e"

section \<open>Properties\<close>

lemma ErrToCode_cases:
  obtains (known) c where "ErrToCode e = (c, if c = 503 then FixedText ''service temporarily unavailable''
      else ErrText e)" and "c \<in> {400, 401, 403, 404, 409, 410, 422, 503}"
  | (unknown) "ErrToCode e = (500, FixedText ''internal error'')"
proof (cases "find (\<lambda>(c, ts). \<exists>t \<in> set ts. errors_Is e t) ErrToCode_table")
  case None
  then show ?thesis by (intro unknown) (simp add: ErrToCode_def)
next
  case (Some r)
  obtain c ts where r: "r = (c, ts)" by (cases r)
  from Some have "r \<in> set ErrToCode_table" using find_SomeD by fast
  then have "c \<in> set (map fst ErrToCode_table)" using r by force
  then have "c \<in> {400, 401, 403, 404, 409, 410, 422, 503}"
    by (simp only: ErrToCode_table_def list.map fst_conv list.set) auto
  then show ?thesis using Some r by (intro known) (simp_all add: ErrToCode_def)
qed

text \<open>A server-side failure never leaks its text: the answer is one of nine status codes, and
  whenever the code is 500 or above the message is one of two fixed texts; an error the table does not
  list is answered with 500.\<close>

theorem ErrToCode_no_leak:
  "fst (ErrToCode e) \<in> {400, 401, 403, 404, 409, 410, 422, 500, 503}
   \<and> (fst (ErrToCode e) \<ge> 500 \<longleftrightarrow> (\<exists>m \<in> {''internal error'', ''service temporarily unavailable''}. snd (ErrToCode e) = FixedText m))
   \<and> (fst (ErrToCode e) < 500 \<longleftrightarrow> snd (ErrToCode e) = ErrText e)"
  by (cases rule: ErrToCode_cases [of e]) auto

text \<open>The two amount errors of the money package are not in the table although their namesakes of
  the domain are: the same mistake of a client is answered with 400 or with 500 depending on which
  package found it.\<close>

theorem ErrToCode_money_amounts:
  "map (fst \<circ> ErrToCode) [Financial ErrNegativeAmount, Financial ErrZeroAmount] = [400, 400]
   \<and> map (fst \<circ> ErrToCode) [Money MErrNegativeAmount, Money MErrZeroAmount] = [500, 500]"
  by code_simp

end
