(* ===== verification/Money.thy ===== *)
theory Money
  imports Errors Float64
begin

text \<open>
  Package \<open>pkg/money\<close>: the currency registry, asset names, conversion and display of minor
  units, amount validation and the account summary. Amounts are \<open>int64\<close> cents, kept as
  integers with \<open>i64\<close> where an operation can leave the range; rates are \<open>float64\<close>.
\<close>

section \<open>Currencies\<close>

record currency =
  Code :: string
  Exponent :: int
  Symbol :: string
  CName :: string
  Flag :: string
  HasAccountDetails :: bool

definition CurrencyETB :: string where "CurrencyETB = ''ETB''"
definition CurrencyUSD :: string where "CurrencyUSD = ''USD''"
definition CurrencyEUR :: string where "CurrencyEUR = ''EUR''"
definition CentsFactor :: int where "CentsFactor = 100"

definition ETB :: currency where
  "ETB = \<lparr>Code = ''ETB'', Exponent = 2, Symbol = ''Br'', CName = ''Ethiopian Birr'', Flag = ''ET'',
     HasAccountDetails = True\<rparr>"

definition USD :: currency where
  "USD = \<lparr>Code = ''USD'', Exponent = 2, Symbol = ''$'', CName = ''US Dollar'', Flag = ''US'',
     HasAccountDetails = True\<rparr>"

definition EUR :: currency where
  "EUR = \<lparr>Code = ''EUR'', Exponent = 2, Symbol = [CHR 0xE2, CHR 0x82, CHR 0xAC], CName = ''Euro'',
     Flag = ''EU'', HasAccountDetails = True\<rparr>"

definition SupportedCurrencies :: "currency list" where
  "SupportedCurrencies = [ETB, USD, EUR]"

definition registry :: "(string \<times> currency) list" where
  "registry = [(''ETB'', ETB), (''USD'', USD), (''EUR'', EUR)]"

definition LookupCurrency :: "string \<Rightarrow> go_error + currency" where
  "LookupCurrency code = (case map_of registry (to_upper code) of
      None \<Rightarrow> Inl (Money MErrInvalidCurrency)
    | Some c \<Rightarrow> Inr c)"

definition ValidateCurrency :: "string \<Rightarrow> go_error + unit" where
  "ValidateCurrency code = (case LookupCurrency code of Inl e \<Rightarrow> Inl e | Inr _ \<Rightarrow> Inr ())"

section \<open>Assets and display\<close>

definition FormatAsset :: "string list \<Rightarrow> string" where
  "FormatAsset codes =
     (let code = (case codes of [] \<Rightarrow> CurrencyETB
                   | c # _ \<Rightarrow> if c \<noteq> '''' then to_upper c else CurrencyETB) in
      case LookupCurrency code of
        Inl _ \<Rightarrow> code @ ''/'' @ itoa 2
      | Inr c \<Rightarrow> Code c @ ''/'' @ itoa (Exponent c))"

definition AllAssets :: "string list" where
  "AllAssets = map (\<lambda>c. Code c @ ''/'' @ itoa (Exponent c)) SupportedCurrencies"

definition ToCents :: "float64 \<Rightarrow> int" where
  "ToCents amount = trunc64 (math_Round (f_mul amount (f_of_int CentsFactor)))"

definition FormatMinorUnits :: "int \<Rightarrow> string" where
  "FormatMinorUnits cents =
     (let whole = go_div cents CentsFactor; frac = go_mod cents CentsFactor;
          frac = (if frac < 0 then - frac else frac)
      in itoa whole @ ''.'' @ pad0 2 (nat frac))"

definition Display :: "int \<Rightarrow> string \<Rightarrow> string" where
  "Display cents code = (case LookupCurrency code of
      Inl _ \<Rightarrow> FormatMinorUnits cents
    | Inr c \<Rightarrow> Symbol c @ '' '' @ FormatMinorUnits cents)"

definition ValidateAmountCents :: "int \<Rightarrow> go_error + unit" where
  "ValidateAmountCents cents =
     (if cents < 0 then Inl (Money MErrNegativeAmount)
      else if cents = 0 then Inl (Money MErrZeroAmount)
      else Inr ())"

section \<open>Conversion and summary\<close>

definition ConvertAmount ::
    "string \<Rightarrow> string \<Rightarrow> int \<Rightarrow> (string \<Rightarrow> float64 option) \<Rightarrow> go_error + (int \<times> float64)" where
  "ConvertAmount fromCode toCode amountCents rates =
     (if fromCode = toCode then Inl (Money MErrInvalidCurrency)
      else case ValidateCurrency fromCode of Inl e \<Rightarrow> Inl e | Inr _ \<Rightarrow>
      (case ValidateCurrency toCode of Inl e \<Rightarrow> Inl e | Inr _ \<Rightarrow>
      (case ValidateAmountCents amountCents of Inl e \<Rightarrow> Inl e | Inr _ \<Rightarrow>
      (case rates (fromCode @ ''_'' @ toCode) of
         None \<Rightarrow> Inl (Money MErrInvalidCurrency)
       | Some rate \<Rightarrow>
           if rate \<le> 0 then Inl (Money MErrInvalidCurrency)
           else Inr (trunc64 (math_Round (f_mul (f_of_int amountCents) rate)), rate)))))"

record currency_balance_view =
  cbCurrency :: string
  cbSymbol :: string
  cbName :: string
  cbBalanceCents :: int
  cbDisplay :: string

record account_summary =
  WalletID :: string
  PrimaryCurrency :: string
  Balances :: "currency_balance_view list"
  TotalInPrimaryCents :: int
  TotalDisplay :: string

definition balance_view :: "(string \<Rightarrow> int) \<Rightarrow> currency \<Rightarrow> currency_balance_view" where
  "balance_view balances cur =
     \<lparr>cbCurrency = Code cur, cbSymbol = Symbol cur, cbName = CName cur,
      cbBalanceCents = balances (Code cur), cbDisplay = Display (balances (Code cur)) (Code cur)\<rparr>"

definition summary_term :: "(string \<Rightarrow> int) \<Rightarrow> (string \<Rightarrow> float64 option) \<Rightarrow> currency \<Rightarrow> int" where
  "summary_term balances rates cur =
     (if Code cur = CurrencyETB then balances (Code cur)
      else case rates (Code cur) of
        None \<Rightarrow> 0
      | Some rate \<Rightarrow>
          if 0 < rate then trunc64 (math_Round (f_mul (f_of_int (balances (Code cur))) rate)) else 0)"

definition BuildAccountSummary ::
    "string \<Rightarrow> (string \<Rightarrow> int) \<Rightarrow> (string \<Rightarrow> float64 option) \<Rightarrow> currency list option \<Rightarrow> account_summary" where
  "BuildAccountSummary walletID balances rates currencies =
     (let curList = (case currencies of None \<Rightarrow> SupportedCurrencies | Some cs \<Rightarrow> cs);
          total = foldl (\<lambda>t cur. i64 (t + summary_term balances rates cur)) 0 curList
      in \<lparr>WalletID = walletID, PrimaryCurrency = CurrencyETB,
          Balances = map (balance_view balances) curList,
          TotalInPrimaryCents = total, TotalDisplay = Display total CurrencyETB\<rparr>)"

section \<open>Lemmas\<close>

lemma LookupCurrency_upper [simp]: "LookupCurrency (to_upper c) = LookupCurrency c"
  by (simp add: LookupCurrency_def)

lemma LookupCurrency_Inr: "LookupCurrency c = Inr cur \<Longrightarrow> Code cur = to_upper c \<and> Exponent cur = 2"
  by (auto simp: LookupCurrency_def registry_def ETB_def USD_def EUR_def split: option.splits if_splits)

lemma LookupCurrency_ok_iff:
  "(\<exists>cur. LookupCurrency c = Inr cur) \<longleftrightarrow> to_upper c \<in> {''ETB'', ''USD'', ''EUR''}"
  by (auto simp: LookupCurrency_def registry_def split: option.splits if_splits)

lemma ValidateCurrency_iff:
  "ValidateCurrency c = Inr () \<longleftrightarrow> to_upper c \<in> {''ETB'', ''USD'', ''EUR''}"
  using LookupCurrency_ok_iff [of c] by (auto simp: ValidateCurrency_def split: sum.splits)

lemma ValidateAmountCents_iff: "ValidateAmountCents c = Inr u \<longleftrightarrow> 0 < c"
  by (auto simp: ValidateAmountCents_def)

lemma itoa_2 [simp]: "itoa 2 = ''2''"
  by code_simp

lemma FormatAsset_nonempty: "c \<noteq> '''' \<Longrightarrow> FormatAsset [c] = to_upper c @ ''/2''"
  by (auto simp: FormatAsset_def Let_def split: sum.splits dest: LookupCurrency_Inr)

text \<open>A two-digit fraction and what it is the fraction of.\<close>

lemma FormatMinorUnits_nonneg:
  "0 \<le> c \<Longrightarrow> FormatMinorUnits c = show_nat (nat (c div 100)) @ ''.'' @ pad0 2 (nat (c mod 100))"
  using pos_imp_zdiv_nonneg_iff [of 100 c]
  by (simp add: FormatMinorUnits_def CentsFactor_def go_div_pos go_mod_pos itoa_def Let_def)

lemma go_div_uminus: "go_div (- a) b = - go_div a b"
  by (simp add: go_div_def)

lemma go_mod_uminus: "go_mod (- a) b = - go_mod a b"
  by (simp add: go_mod_def go_div_uminus)

lemma FormatMinorUnits_neg:
  assumes "c \<le> - 100"
  shows "FormatMinorUnits c = CHR ''-'' # FormatMinorUnits (- c)"
proof -
  have d: "go_div c 100 = - ((- c) div 100)" "go_mod c 100 = - ((- c) mod 100)"
    using assms go_div_uminus [of "- c" 100] go_mod_uminus [of "- c" 100]
    by (simp_all add: go_div_pos go_mod_pos)
  have "0 < (- c) div 100" using assms by simp
  then have "itoa (- ((- c) div 100)) = CHR ''-'' # show_nat (nat ((- c) div 100))"
    by (simp add: itoa_def)
  moreover have "(if - ((- c) mod 100) < 0 then - (- ((- c) mod 100)) else - ((- c) mod 100)) = (- c) mod 100"
    using pos_mod_sign [of 100 "- c"] by auto
  ultimately show ?thesis
    using assms FormatMinorUnits_nonneg [of "- c"]
    by (simp add: FormatMinorUnits_def CentsFactor_def d Let_def)
qed

lemma FormatMinorUnits_small_neg:
  assumes "- 100 < c" "c < 0"
  shows "FormatMinorUnits c = FormatMinorUnits (- c)"
proof -
  have d: "go_div c 100 = 0" "go_mod c 100 = c"
    using assms go_div_uminus [of "- c" 100] go_mod_uminus [of "- c" 100]
    by (simp_all add: go_div_pos go_mod_pos)
  show ?thesis
    using assms FormatMinorUnits_nonneg [of "- c"]
    by (simp add: FormatMinorUnits_def CentsFactor_def d Let_def itoa_def)
qed

section \<open>Reading a displayed amount back\<close>

text \<open>The reference reading of a decimal amount: drop the point, read the digits, keep the sign.\<close>

definition read_amount :: "string \<Rightarrow> int" where
  "read_amount s =
     (let n = int (digits_val (filter is_digit s))
      in if s \<noteq> [] \<and> hd s = CHR ''-'' then - n else n)"

lemma not_minus_digit: "is_digit c \<Longrightarrow> c \<noteq> CHR ''-''"
  by (auto simp: is_digit_def)

lemma read_amount_digits: "is_digit c \<Longrightarrow> read_amount (c # s) = int (digits_val (filter is_digit (c # s)))"
  using not_minus_digit [of c]
  by (simp add: read_amount_def)

lemma show_nat_head: "\<exists>c s. show_nat n = c # s \<and> is_digit c"
  using show_nat_digits [of _ n] by (cases "show_nat n") auto

lemma digits_FormatMinorUnits:
  assumes "0 \<le> c"
  shows "int (digits_val (filter is_digit (FormatMinorUnits c))) = c"
proof -
  have "filter is_digit (FormatMinorUnits c)
      = show_nat (nat (c div 100)) @ pad0 2 (nat (c mod 100))"
    using assms show_nat_digits pad0_digits
    by (simp add: FormatMinorUnits_nonneg is_digit_def [of "CHR ''.''"] filter_id_conv)
  moreover have "length (pad0 2 (nat (c mod 100))) = 2"
    by (rule length_pad0) simp_all
  ultimately have "int (digits_val (filter is_digit (FormatMinorUnits c)))
      = int (nat (c div 100)) * 100 + int (nat (c mod 100))"
    by (simp add: digits_val_append)
  then show ?thesis using assms pos_imp_zdiv_nonneg_iff [of 100 c] by simp
qed

lemma read_FormatMinorUnits_nonneg: "0 \<le> c \<Longrightarrow> read_amount (FormatMinorUnits c) = c"
proof -
  assume c: "0 \<le> c"
  obtain d s where "show_nat (nat (c div 100)) = d # s" "is_digit d"
    using show_nat_head by blast
  then have "\<exists>t. FormatMinorUnits c = d # t" using c by (simp add: FormatMinorUnits_nonneg)
  then show ?thesis
    using \<open>is_digit d\<close> digits_FormatMinorUnits [OF c] read_amount_digits by metis
qed

lemma read_FormatMinorUnits_neg: "c \<le> - 100 \<Longrightarrow> read_amount (FormatMinorUnits c) = c"
  using digits_FormatMinorUnits [of "- c"]
  by (simp add: FormatMinorUnits_neg read_amount_def Let_def is_digit_def)

section \<open>Properties\<close>

text \<open>A displayed amount can be read back: the decimal text determines the cents for every amount
  that is not between \<open>-99\<close> and \<open>-1\<close>.\<close>

lemma FormatMinorUnits_round_trip:
  assumes "0 \<le> c \<or> c \<le> - 100"
  shows "read_amount (FormatMinorUnits c) = c"
  using assms by (auto simp: read_FormatMinorUnits_nonneg read_FormatMinorUnits_neg)

lemma FormatMinorUnits_round_trip_witness:
  "read_amount (FormatMinorUnits 1205) = 1205 \<and> read_amount (FormatMinorUnits (- 1205)) = - 1205"
  using FormatMinorUnits_round_trip [of 1205] FormatMinorUnits_round_trip [of "- 1205"] by simp

text \<open>Between \<open>-99\<close> and \<open>-1\<close> cents the sign is lost: the amount is displayed like its
  opposite.\<close>

theorem FormatMinorUnits_loses_sign:
  assumes "- 100 < c" "c < 0"
  shows "FormatMinorUnits c = FormatMinorUnits (- c)"
  using assms by (rule FormatMinorUnits_small_neg)

theorem FormatMinorUnits_loses_sign_witness: "FormatMinorUnits (- 50) = ''0.50''"
  unfolding FormatMinorUnits_loses_sign [of "- 50", simplified] by code_simp

lemma convert_error:
  assumes "0 \<le> x" "x < 2 ^ 52"
  shows "\<bar>of_int (trunc64 (math_Round (fl x))) - x\<bar> \<le> (1 :: rat)"
proof -
  have f: "0 \<le> fl x" "\<bar>fl x - x\<bar> \<le> 1 / 2" using fl_nonneg [of x] fl_error [of x] assms by auto
  have r: "math_Round (fl x) = of_int \<lfloor>fl x + 1 / 2\<rfloor>" using f(1) by (simp add: math_Round_def)
  have "x < 4503599627370496" using assms(2) by simp
  then have "fl x + 1 / 2 < 9223372036854775808" using f(2) by linarith
  then have "\<lfloor>fl x + 1 / 2\<rfloor> < 2 ^ 63" "0 \<le> \<lfloor>fl x + 1 / 2\<rfloor>" using f(1) by (simp_all add: floor_less_iff)
  then have "trunc64 (math_Round (fl x)) = \<lfloor>fl x + 1 / 2\<rfloor>"
    unfolding r by (intro trunc64_eqI) simp_all
  then show ?thesis
    using f(2) floor_correct [of "fl x + 1 / 2"] by linarith
qed

text \<open>C30: a conversion is exact up to one cent: for amounts below \<open>2\<^sup>5\<^sup>2\<close> cents on both sides the converted
  amount differs from the exact product with the rate by at most one cent, in spite of floating point
  arithmetic, and the rate is the one listed for the pair.\<close>

theorem ConvertAmount_close:
  assumes "ConvertAmount from to n rates = Inr (m, rate)"
    and "n < 2 ^ 52" "of_int n * rate < 2 ^ 52"
  shows "rates (from @ ''_'' @ to) = Some rate \<and> 0 < rate \<and> \<bar>of_int m - of_int n * rate\<bar> \<le> 1"
proof -
  have c: "rates (from @ ''_'' @ to) = Some rate" "0 < rate" "0 < n"
      "m = trunc64 (math_Round (f_mul (f_of_int n) rate))"
    using assms(1) by (auto simp: ConvertAmount_def ValidateAmountCents_def split: if_splits sum.splits option.splits)
  then have "m = trunc64 (math_Round (fl (of_int n * rate)))"
    using assms(2) by (simp add: f_mul_def)
  then show ?thesis using convert_error [of "of_int n * rate"] c assms(3) by simp
qed

theorem ConvertAmount_close_witness:
  "\<exists>m. ConvertAmount ''USD'' ''ETB'' 10000 [''USD_ETB'' \<mapsto> 57] = Inr (m, 57) \<and> \<bar>of_int m - 570000\<bar> \<le> (1 :: rat)"
proof -
  have v: "ValidateCurrency ''USD'' = Inr ()" "ValidateCurrency ''ETB'' = Inr ()"
    by (code_simp, code_simp)
  have r: "ConvertAmount ''USD'' ''ETB'' 10000 [''USD_ETB'' \<mapsto> 57]
      = Inr (trunc64 (math_Round (f_mul (f_of_int 10000) 57)), 57)"
    by (simp add: ConvertAmount_def v ValidateAmountCents_def)
  from ConvertAmount_close [OF r] show ?thesis unfolding r by simp
qed

end
