(* ===== verification/Iban.thy ===== *)
theory Iban
  imports Prelude
begin

text \<open>
  Package \<open>pkg/iban\<close>: account numbers and Ethiopian-format IBANs with the ISO 13616 MOD-97
  check digits. \<open>big_SetString10\<close> is \<open>(*big.Int).SetString(s, 10)\<close>: an optional sign and
  at least one digit. \<open>None\<close> in \<open>computeCheckDigits\<close> and \<open>Generate\<close> is the panic of
  \<open>Mod\<close> on the nil integer that a failed \<open>SetString\<close> returns.
\<close>

section \<open>Definitions\<close>

definition countryCode :: string where "countryCode = ''ET''"
definition bankCode :: string where "bankCode = ''NEO''"
definition branchCode :: string where "branchCode = ''0001''"

definition big_SetString10 :: "string \<Rightarrow> int option" where
  "big_SetString10 s =
     (let neg = (s \<noteq> [] \<and> hd s = CHR ''-'');
          body = (if s \<noteq> [] \<and> (hd s = CHR ''-'' \<or> hd s = CHR ''+'') then tl s else s)
      in if body = [] \<or> \<not> list_all is_digit body then None
         else Some (if neg then - int (digits_val body) else int (digits_val body)))"

definition is_upper :: "char \<Rightarrow> bool" where
  "is_upper c \<longleftrightarrow> 65 \<le> (of_char c :: nat) \<and> (of_char c :: nat) \<le> 90"

definition letterDigits :: "char \<Rightarrow> string" where
  "letterDigits ch = (if is_upper ch then show_nat (of_char ch - 65 + 10) else [ch])"

definition lettersToDigits :: "string \<Rightarrow> string" where
  "lettersToDigits s = concat (map letterDigits (to_upper s))"

definition computeCheckDigits :: "string \<Rightarrow> string \<Rightarrow> string option" where
  "computeCheckDigits country bban =
     (case big_SetString10 (lettersToDigits bban @ lettersToDigits country @ ''00'') of
        None \<Rightarrow> None
      | Some n \<Rightarrow> Some (pad0 2 (nat (98 - n mod 97))))"

definition Generate :: "string \<Rightarrow> string \<Rightarrow> string option" where
  "Generate accountNumber currencyCode =
     (let bban = bankCode @ branchCode @ accountNumber @ to_upper currencyCode in
      case computeCheckDigits countryCode bban of
        None \<Rightarrow> None
      | Some checkDigits \<Rightarrow> Some (countryCode @ checkDigits @ bban))"

definition Validate :: "string \<Rightarrow> bool" where
  "Validate iban =
     (if length iban < 5 then False
      else let rearranged = drop 4 iban @ take 4 iban;
               numeric = lettersToDigits rearranged
           in case big_SetString10 numeric of
                None \<Rightarrow> False
              | Some n \<Rightarrow> n mod 97 = 1)"

definition FormatAccountNumber :: "int \<Rightarrow> string" where
  "FormatAccountNumber seq =
     (if seq < 0 then CHR ''-'' # pad0 9 (nat (- seq)) else pad0 10 (nat seq))"

section \<open>Lemmas\<close>

text \<open>Letters and digits: what an account number and a currency code consist of.\<close>

definition alnum :: "string \<Rightarrow> bool" where
  "alnum s \<longleftrightarrow> list_all (\<lambda>c. is_digit c \<or> is_upper (char_upper c)) s"

lemma alnum_append [simp]: "alnum (s @ t) \<longleftrightarrow> alnum s \<and> alnum t"
  by (simp add: alnum_def)

lemma alnum_to_upper [simp]: "alnum s \<Longrightarrow> alnum (to_upper s)"
  by (auto simp: alnum_def to_upper_def list_all_iff char_upper_def is_digit_def Let_def)

lemma lettersToDigits_append: "lettersToDigits (s @ t) = lettersToDigits s @ lettersToDigits t"
  by (simp add: lettersToDigits_def to_upper_append)

lemma char_upper_digit: "is_digit c \<Longrightarrow> char_upper c = c \<and> \<not> is_upper c"
  by (auto simp: is_digit_def char_upper_def is_upper_def Let_def)

lemma lettersToDigits_digits: "list_all is_digit s \<Longrightarrow> lettersToDigits s = s"
  by (induction s)
    (auto simp: lettersToDigits_def to_upper_def letterDigits_def char_upper_digit)

lemma lettersToDigits_all: "alnum s \<Longrightarrow> list_all is_digit (lettersToDigits s)"
proof (induction s)
  case (Cons c s)
  have "is_digit c \<or> is_upper (char_upper c)" using Cons.prems by (simp add: alnum_def)
  then have "list_all is_digit (letterDigits (char_upper c))"
  proof
    assume "is_digit c"
    then show ?thesis by (simp add: letterDigits_def char_upper_digit)
  next
    assume "is_upper (char_upper c)"
    then show ?thesis using show_nat_digits by (simp add: letterDigits_def list_all_iff)
  qed
  with Cons show ?case by (simp add: lettersToDigits_def to_upper_def alnum_def)
qed (simp add: lettersToDigits_def to_upper_def)

lemma SetString_digits:
  assumes "s \<noteq> []" "list_all is_digit s"
  shows "big_SetString10 s = Some (int (digits_val s))"
proof -
  from assms obtain c t where "s = c # t" "is_digit c" by (cases s) auto
  then have "hd s \<noteq> CHR ''-''" "hd s \<noteq> CHR ''+''" by (auto simp: is_digit_def)
  with assms show ?thesis by (simp add: big_SetString10_def Let_def)
qed

lemma check_sum: "(x + (98 - x mod 97)) mod 97 = 1" for x :: int
proof -
  have "x + (98 - x mod 97) = 98 + 97 * (x div 97)"
    using minus_mod_eq_mult_div [of x 97] by linarith
  then show ?thesis by (simp only: mod_mult_self2) simp
qed

lemma check_bounds: "98 - n mod 97 \<in> {2..98}" for n :: int
  using pos_mod_sign [of 97 n] pos_mod_bound [of 97 n] by auto

lemma computeCheckDigits_alnum:
  assumes "alnum bban" "alnum country"
  obtains cd where "computeCheckDigits country bban = Some cd"
    and "length cd = 2" and "list_all is_digit cd"
    and "int (digits_val (lettersToDigits bban @ lettersToDigits country @ cd)) mod 97 = 1"
proof -
  define L where "L = lettersToDigits bban @ lettersToDigits country"
  define v where "v = int (digits_val L)"
  define k where "k = 98 - (v * 100) mod 97"
  have L: "list_all is_digit L" using assms by (simp add: L_def lettersToDigits_all)
  have zero: "list_all is_digit ''00''" "digits_val ''00'' = 0"
    by (simp_all add: is_digit_def digits_val_def digit_val_def)
  have "big_SetString10 (L @ ''00'') = Some (v * 100)"
    using L zero by (subst SetString_digits) (simp_all add: digits_val_append v_def)
  then have cd: "computeCheckDigits country bban = Some (pad0 2 (nat k))"
    by (simp add: computeCheckDigits_def L_def k_def)
  have k: "2 \<le> k" "k \<le> 98" using check_bounds [of "v * 100"] by (auto simp: k_def)
  have len: "length (pad0 2 (nat k)) = 2" using k by (intro length_pad0) auto
  have "int (digits_val (L @ pad0 2 (nat k))) = v * 100 + k"
    using k len by (simp add: digits_val_append v_def)
  moreover have "(v * 100 + k) mod 97 = 1"
    unfolding k_def by (rule check_sum)
  ultimately have "int (digits_val (L @ pad0 2 (nat k))) mod 97 = 1" by simp
  then show thesis
    using that [OF cd len] pad0_digits by (simp add: list_all_iff L_def)
qed

lemma Validate_numeric:
  assumes "5 \<le> length s" "alnum s"
  shows "Validate s \<longleftrightarrow> int (digits_val (lettersToDigits (drop 4 s @ take 4 s))) mod 97 = 1"
proof -
  have al: "alnum (drop 4 s @ take 4 s)"
    using assms(2) by (metis alnum_append append_take_drop_id)
  have ne: "lettersToDigits (drop 4 s @ take 4 s) \<noteq> []"
    using assms(1) by (cases "drop 4 s") (auto simp: lettersToDigits_def to_upper_def letterDigits_def)
  show ?thesis
    using assms(1) SetString_digits [OF ne lettersToDigits_all [OF al]]
    by (simp add: Validate_def Let_def)
qed

lemma alnum_codes [simp]: "alnum bankCode" "alnum branchCode" "alnum countryCode"
  by (simp_all add: alnum_def bankCode_def branchCode_def countryCode_def is_digit_def is_upper_def
      char_upper_def Let_def)

lemma Generate_ok:
  assumes "alnum acct" "alnum cur"
  shows "\<exists>s. Generate acct cur = Some s \<and> Validate s \<and> length s = 11 + length acct + length cur"
proof -
  define bban where "bban = bankCode @ branchCode @ acct @ to_upper cur"
  have al: "alnum bban" using assms by (simp add: bban_def)
  obtain cd where cd: "computeCheckDigits countryCode bban = Some cd" "length cd = 2"
      "list_all is_digit cd"
      "int (digits_val (lettersToDigits bban @ lettersToDigits countryCode @ cd)) mod 97 = 1"
    using computeCheckDigits_alnum [OF al, of countryCode] by auto
  define s where "s = countryCode @ cd @ bban"
  have split4: "take 4 s = countryCode @ cd" "drop 4 s = bban"
    using cd(2) by (simp_all add: s_def countryCode_def)
  have "alnum cd" using cd(3) by (simp add: alnum_def list_all_iff)
  then have "alnum s" using al by (simp add: s_def)
  moreover have "5 \<le> length s" using cd(2) by (simp add: s_def countryCode_def bban_def bankCode_def)
  ultimately have "Validate s"
    using cd(4) by (simp add: Validate_numeric split4 lettersToDigits_append
        lettersToDigits_digits [OF cd(3)])
  moreover have "Generate acct cur = Some s"
    using cd(1) by (simp add: Generate_def bban_def [symmetric] s_def)
  moreover have "length s = 11 + length acct + length cur"
    using cd(2) by (simp add: s_def bban_def countryCode_def bankCode_def branchCode_def)
  ultimately show ?thesis by blast
qed

section \<open>Properties\<close>

text \<open>C26: every IBAN that \<open>Generate\<close> makes from an alphanumeric account number and currency
  passes \<open>Validate\<close>; it never panics, and the IBAN is 11 characters longer than the account
  number and currency together (24 for a ten-digit account number and an ISO currency).\<close>

theorem Generate_validates:
  assumes "alnum acct" "alnum cur"
  shows "\<exists>s. Generate acct cur = Some s \<and> Validate s \<and> length s = 11 + length acct + length cur"
  by (rule Generate_ok [OF assms])

theorem Generate_validates_witness:
  "alnum ''1000000001'' \<and> alnum ''ETB'' \<and>
   (\<exists>s. Generate ''1000000001'' ''ETB'' = Some s \<and> Validate s
      \<and> length s = 11 + length ''1000000001'' + length ''ETB'')"
proof -
  have "alnum ''1000000001''" "alnum ''ETB''" by code_simp+
  with Generate_validates [of "''1000000001''" "''ETB''"] show ?thesis by blast
qed

text \<open>Replacing one digit of the account part changes the number by a multiple of a power of
  ten that 97 does not divide.\<close>

lemma coprime_97_pow10: "\<not> 97 dvd (d :: int) * 10 ^ k" if "d \<noteq> 0" "\<bar>d\<bar> < 10"
proof
  assume "97 dvd d * 10 ^ k"
  moreover have "coprime (97 :: int) (10 ^ k)"
    by (rule coprime_power_right_iff [THEN iffD2])
      (simp add: coprime_iff_gcd_eq_1 gcd_non_0_int [of 10 97] gcd_non_0_int [of 7 10]
        gcd_non_0_int [of 3 7])
  ultimately have "97 dvd d" using coprime_dvd_mult_left_iff by blast
  with that show False using zdvd_imp_le [of 97 "\<bar>d\<bar>"] by simp
qed

text \<open>The check digits catch every single-digit typing error after the check digits: if an
  IBAN validates, the one with one digit replaced by another digit does not.\<close>

lemma Validate_single_digit_error:
  assumes "Validate (p @ [c] @ q)" "alnum (p @ [c] @ q)" "4 \<le> length p"
    and "is_digit c" "is_digit d" "d \<noteq> c"
  shows "\<not> Validate (p @ [d] @ q)"
proof
  assume bad: "Validate (p @ [d] @ q)"
  define R where "R = lettersToDigits (q @ take 4 p)"
  define k where "k = length R"
  have re: "drop 4 (p @ [x] @ q) @ take 4 (p @ [x] @ q) = drop 4 p @ [x] @ q @ take 4 p" for x
    using assms(3) by simp
  have num: "int (digits_val (lettersToDigits (drop 4 p @ [x] @ q @ take 4 p)))
      = int (digits_val (lettersToDigits (drop 4 p))) * 10 ^ (k + 1) + int (digit_val x) * 10 ^ k
        + int (digits_val R)" if "is_digit x" for x
  proof -
    have "lettersToDigits (drop 4 p @ [x] @ q @ take 4 p) = lettersToDigits (drop 4 p) @ [x] @ R"
      unfolding R_def using that lettersToDigits_digits [of "[x]"]
      by (simp only: lettersToDigits_append) simp
    then show ?thesis
      by (simp only: digits_val_append) (simp add: k_def algebra_simps)
  qed
  have "alnum (p @ [d] @ q)" using assms(2,5) by (simp add: alnum_def)
  then have "int (digits_val (lettersToDigits (drop 4 p @ [d] @ q @ take 4 p))) mod 97 = 1"
    using bad assms(3) Validate_numeric [of "p @ [d] @ q"] by (simp only: re) simp
  moreover have "int (digits_val (lettersToDigits (drop 4 p @ [c] @ q @ take 4 p))) mod 97 = 1"
    using assms(1,2,3) Validate_numeric [of "p @ [c] @ q"] by (simp only: re) simp
  ultimately have "97 dvd int (digits_val (lettersToDigits (drop 4 p @ [d] @ q @ take 4 p)))
      - int (digits_val (lettersToDigits (drop 4 p @ [c] @ q @ take 4 p)))"
    by (intro mod_eq_dvd_iff [THEN iffD1]) simp
  then have "97 dvd (int (digit_val d) - int (digit_val c)) * 10 ^ k"
    by (simp only: num [OF assms(4)] num [OF assms(5)]) (simp add: algebra_simps)
  moreover have "int (digit_val d) \<noteq> int (digit_val c)"
  proof
    assume "int (digit_val d) = int (digit_val c)"
    then have "(of_char d :: nat) = of_char c" 
      using assms(4,5) unfolding digit_val_def is_digit_def by arith
    with assms(6) show False by simp
  qed
  moreover have "\<bar>int (digit_val d) - int (digit_val c)\<bar> < 10"
    using assms(4,5) by (auto simp: digit_val_def is_digit_def)
  ultimately show False using coprime_97_pow10 by force
qed

lemma sample_iban: "Validate ''ET89NEO00011000000001ETB''" "alnum ''ET89NEO00011000000001ETB''"
proof -
  have "lettersToDigits ''NEO00011000000001ETBET89'' = ''23142400011000000001142911142989''"
    by code_simp
  moreover have "digits_val ''23142400011000000001142911142989''
      = 23142400011000000001142911142989"
    by (simp add: digits_val_def digit_val_def)
  moreover show al: "alnum ''ET89NEO00011000000001ETB''" by code_simp
  ultimately show "Validate ''ET89NEO00011000000001ETB''"
    by (subst Validate_numeric [OF _ al]) simp_all
qed

lemma Validate_single_digit_error_witness:
  "Validate (''ET89NEO0001100000000'' @ [CHR ''1''] @ ''ETB'') \<and>
   \<not> Validate (''ET89NEO0001100000000'' @ [CHR ''2''] @ ''ETB'')"
  using sample_iban Validate_single_digit_error
      [of "''ET89NEO0001100000000''" "CHR ''1''" "''ETB''" "CHR ''2''"]
  by (simp add: is_digit_def)

end
