(* ===== verification/Cache.thy ===== *)
theory Cache
  imports Prelude
begin

text \<open>
  Package \<open>pkg/cache\<close>: the \<open>Cache\<close> interface as the locale \<open>cache_api\<close>, with the
  facts its clients (fees, regulatory rules, exchange rates) rely on, and \<open>MemoryCache\<close>
  as its implementation. The value type is a parameter: clients store JSON of their own
  types and read it back. Every operation that reads the clock takes \<open>now\<close> (nanoseconds);
  each operation holds the mutex, so it is one step on the map.
\<close>

section \<open>The interface\<close>

text \<open>\<open>view c now k\<close> is what a \<open>Get\<close> of \<open>k\<close> at time \<open>now\<close> would return.\<close>

locale cache_api =
  fixes get :: "'c \<Rightarrow> int \<Rightarrow> string \<Rightarrow> 'v option \<times> 'c"
    and set' :: "'c \<Rightarrow> int \<Rightarrow> string \<Rightarrow> 'v \<Rightarrow> int \<Rightarrow> 'c"
    and delete :: "'c \<Rightarrow> string \<Rightarrow> 'c"
    and deleteByPrefix :: "'c \<Rightarrow> string \<Rightarrow> 'c"
    and view :: "'c \<Rightarrow> int \<Rightarrow> string \<Rightarrow> 'v option"
  assumes get_view: "fst (get c now k) = view c now k"
    and get_keeps: "now \<le> t \<Longrightarrow> view (snd (get c now k)) t k' = view c t k'"
    and set_view: "view (set' c now k v ttl) t k' =
      (if k' = k then if 0 < ttl \<and> now + ttl < t then None else Some v else view c t k')"
    and delete_view: "view (delete c k) t k' = (if k' = k then None else view c t k')"
    and deleteByPrefix_view:
      "view (deleteByPrefix c p) t k = (if has_prefix k p then None else view c t k)"
begin

text \<open>A value is served back until its time to live has passed, and not after.\<close>

lemma set_get: "0 < ttl \<Longrightarrow> t \<le> now + ttl \<Longrightarrow> fst (get (set' c now k v ttl) t k) = Some v"
  by (simp add: get_view set_view)

lemma set_expires: "0 < ttl \<Longrightarrow> now + ttl < t \<Longrightarrow> fst (get (set' c now k v ttl) t k) = None"
  by (simp add: get_view set_view)

lemma invalidate_get: "has_prefix k p \<Longrightarrow> fst (get (deleteByPrefix c p) t k) = None"
  by (simp add: get_view deleteByPrefix_view)

text \<open>The cache-aside read of the services: on a hit serve the cached value, on a miss load,
  store and serve. If every live entry of the key agrees with the store, the read returns what
  the store has, and the entry it leaves agrees too.\<close>

lemma cache_aside:
  assumes "\<And>v. view c now k = Some v \<Longrightarrow> v = load"
  shows "(case get c now k of (Some v, c1) \<Rightarrow> v | (None, c1) \<Rightarrow> load) = load"
  using assms get_view [of c now k] by (auto split: prod.splits option.splits)

lemma read_other_keys:
  assumes "now \<le> t" "k' \<noteq> k"
  shows "view (set' (snd (get c now k)) now k v ttl) t k' = view c t k'"
  using assms by (simp add: set_view get_keeps)

end

section \<open>The in-memory implementation\<close>

record 'v memoryEntry =
  me_value :: "'v option"
  me_expiresAt :: "int option"
  me_counter :: int

type_synonym 'v MemoryCache = "string \<rightharpoonup> 'v memoryEntry"

definition NewMemoryCache :: "'v MemoryCache" where
  "NewMemoryCache = Map.empty"

definition me_expired :: "'v memoryEntry \<Rightarrow> int \<Rightarrow> bool" where
  "me_expired e now \<longleftrightarrow> (case me_expiresAt e of None \<Rightarrow> False | Some x \<Rightarrow> x < now)"

definition deadline :: "int \<Rightarrow> int \<Rightarrow> int option" where
  "deadline now ttl = (if 0 < ttl then Some (now + ttl) else None)"

text \<open>The result pair \<open>([]byte, bool)\<close>: \<open>None\<close> is \<open>(nil, false)\<close>; a counter entry has
  no bytes and gives \<open>Some None\<close>.\<close>

definition cache_Get :: "'v MemoryCache \<Rightarrow> int \<Rightarrow> string \<Rightarrow> 'v option option \<times> 'v MemoryCache" where
  "cache_Get c now key =
     (case c key of
        None \<Rightarrow> (None, c)
      | Some entry \<Rightarrow>
          if me_expired entry now then (None, c(key := None)) else (Some (me_value entry), c))"

definition cache_Set :: "'v MemoryCache \<Rightarrow> int \<Rightarrow> string \<Rightarrow> 'v option \<Rightarrow> int \<Rightarrow> 'v MemoryCache" where
  "cache_Set c now key v ttl =
     c(key \<mapsto> \<lparr>me_value = v, me_expiresAt = deadline now ttl, me_counter = 0\<rparr>)"

definition cache_Delete :: "'v MemoryCache \<Rightarrow> string \<Rightarrow> 'v MemoryCache" where
  "cache_Delete c key = c(key := None)"

definition cache_DeleteByPrefix :: "'v MemoryCache \<Rightarrow> string \<Rightarrow> 'v MemoryCache" where
  "cache_DeleteByPrefix c p = (\<lambda>key. if has_prefix key p then None else c key)"

definition cache_Increment :: "'v MemoryCache \<Rightarrow> int \<Rightarrow> string \<Rightarrow> int \<Rightarrow> int \<times> 'v MemoryCache" where
  "cache_Increment c now key ttl =
     (case c key of
        Some entry \<Rightarrow>
          if me_expired entry now
          then (1, c(key \<mapsto> \<lparr>me_value = None, me_expiresAt = deadline now ttl, me_counter = 1\<rparr>))
          else (i64 (me_counter entry + 1), c(key \<mapsto> entry\<lparr>me_counter := i64 (me_counter entry + 1)\<rparr>))
      | None \<Rightarrow> (1, c(key \<mapsto> \<lparr>me_value = None, me_expiresAt = deadline now ttl, me_counter = 1\<rparr>)))"

definition cache_view :: "'v MemoryCache \<Rightarrow> int \<Rightarrow> string \<Rightarrow> 'v option option" where
  "cache_view c now key =
     (case c key of None \<Rightarrow> None
      | Some e \<Rightarrow> if me_expired e now then None else Some (me_value e))"

lemma expired_mono: "me_expired e now \<Longrightarrow> now \<le> t \<Longrightarrow> me_expired e t"
  by (auto simp: me_expired_def split: option.splits)

interpretation mem: cache_api cache_Get cache_Set cache_Delete cache_DeleteByPrefix cache_view
  by unfold_locales
    (auto simp: cache_Get_def cache_Set_def cache_Delete_def cache_DeleteByPrefix_def cache_view_def
      me_expired_def deadline_def split: option.splits if_splits)

section \<open>Properties\<close>

text \<open>\<open>MemoryCache\<close> meets the cache contract: a stored value is returned until its time to
  live has passed and is gone afterwards, writes to one key do not disturb another, and a prefix
  deletion removes the keys with that prefix and no other.\<close>

lemma MemoryCache_contract:
  "fst (cache_Get (cache_Set c now k v ttl) t k') =
     (if k' = k then if 0 < ttl \<and> now + ttl < t then None else Some v else fst (cache_Get c t k')) \<and>
   fst (cache_Get (cache_DeleteByPrefix c p) t k') =
     (if has_prefix k' p then None else fst (cache_Get c t k')) \<and>
   fst (cache_Get (cache_Delete c k) t k') = (if k' = k then None else fst (cache_Get c t k')) \<and>
   (now \<le> t \<longrightarrow> fst (cache_Get (snd (cache_Get c now k)) t k') = fst (cache_Get c t k'))"
  by (simp add: mem.get_view mem.set_view mem.delete_view mem.deleteByPrefix_view mem.get_keeps)

lemma MemoryCache_contract_witness:
  "fst (cache_Get (cache_Set (NewMemoryCache :: string MemoryCache) 0 ''a'' (Some ''v'') 60) 10 ''a'')
     = Some (Some ''v'') \<and>
   fst (cache_Get (snd (cache_Get (NewMemoryCache :: string MemoryCache) 0 ''a'')) 10 ''b'') = None"
  using MemoryCache_contract [where c = "NewMemoryCache :: string MemoryCache" and now = 0
      and k = "''a''" and v = "Some ''v''" and ttl = 60 and t = 10 and k' = "''a''" and p = "[]"]
    MemoryCache_contract [where c = "NewMemoryCache :: string MemoryCache" and now = 0
      and k = "''a''" and v = "Some ''v''" and ttl = 60 and t = 10 and k' = "''b''" and p = "[]"]
  by (simp add: cache_Get_def NewMemoryCache_def)

fun increments :: "'v MemoryCache \<Rightarrow> string \<Rightarrow> int \<Rightarrow> int list \<Rightarrow> int list" where
  "increments c key ttl [] = []"
| "increments c key ttl (t # ts) =
     (case cache_Increment c t key ttl of (n, c1) \<Rightarrow> n # increments c1 key ttl ts)"

lemma increments_live:
  assumes "c key = Some e" "me_expiresAt e = Some d" "\<forall>t \<in> set ts. t \<le> d"
    and "0 \<le> me_counter e" "me_counter e + int (length ts) < 2 ^ 63"
  shows "increments c key ttl ts = map (\<lambda>i. me_counter e + 1 + int i) [0..<length ts]"
  using assms
proof (induction ts arbitrary: c e)
  case (Cons t ts)
  let ?e = "e\<lparr>me_counter := me_counter e + 1\<rparr>"
  have i: "i64 (me_counter e + 1) = me_counter e + 1"
    using Cons.prems(4,5) by (intro i64_id) (auto simp: in_i64_def)
  have "cache_Increment c t key ttl = (me_counter e + 1, c(key \<mapsto> ?e))"
    using Cons.prems(1-3) by (simp add: cache_Increment_def me_expired_def i)
  moreover have "increments (c(key \<mapsto> ?e)) key ttl ts = map (\<lambda>i. me_counter ?e + 1 + int i) [0..<length ts]"
    using Cons.prems by (intro Cons.IH) auto
  ultimately show ?case
    by (simp add: upt_conv_Cons map_Suc_upt [symmetric] del: upt_Suc)
qed simp

text \<open>\<open>Increment\<close> counts: on a key that is absent it starts at 1, and every further call
  before the deadline fixed by the first adds one and never extends that deadline, so \<open>n + 1\<close>
  calls within the window return \<open>1, ..., n + 1\<close>.\<close>

lemma Increment_counts:
  assumes "c key = None" "0 < ttl" "\<forall>t \<in> set ts. t \<le> t0 + ttl" "int (length ts) < 2 ^ 62"
  shows "increments c key ttl (t0 # ts) = map (\<lambda>i. 1 + int i) [0..<length ts + 1]"
proof -
  let ?e = "\<lparr>me_value = None, me_expiresAt = Some (t0 + ttl), me_counter = 1\<rparr>"
  have "cache_Increment c t0 key ttl = (1, c(key \<mapsto> ?e))"
    using assms(1,2) by (simp add: cache_Increment_def deadline_def)
  moreover have "increments (c(key \<mapsto> ?e)) key ttl ts = map (\<lambda>i. 1 + 1 + int i) [0..<length ts]"
    using assms increments_live [of "c(key \<mapsto> ?e)" key ?e "t0 + ttl" ts ttl] by simp
  ultimately show ?thesis
    by (simp add: upt_conv_Cons map_Suc_upt [symmetric] del: upt_Suc)
qed

lemma Increment_counts_witness:
  "increments (NewMemoryCache :: string MemoryCache) ''k'' 60 [0, 10, 60] = [1, 2, 3]"
  using Increment_counts [of "NewMemoryCache :: string MemoryCache" "''k''" 60 "[10, 60]" 0]
  by (simp add: NewMemoryCache_def upt_rec)

end
