(* ===== verification/Chart.thy ===== *)
theory Chart
  imports Prelude
begin

text \<open>
  \<open>internal/ledger/chart.go\<close>: the names of the ledger accounts. The lemmas say when two
  addresses are the same account. A hold or pot identifier is a UUID in the program; what
  matters here is \<open>hex_id\<close>: without its hyphens it is a nonempty string of hexadecimal digits,
  so it holds no colon and is neither of the reserved words \<open>holds\<close> and \<open>biz\<close>. The wallet identifier
  stored with a customer is a UUID after \<open>wallet:\<close>, that of a business one after \<open>biz-wallet:\<close>, so its
  address has one field more.
\<close>

section \<open>Definitions\<close>

record Chart =
  prefix :: string

definition chart_base :: "Chart \<Rightarrow> string" where
  "chart_base c = (if prefix c \<noteq> '''' then prefix c @ '':'' else '''')"

definition sanitize :: "string \<Rightarrow> string" where
  "sanitize s = filter (\<lambda>ch. ch \<noteq> CHR ''-'') s"

definition MainAccount :: "Chart \<Rightarrow> string \<Rightarrow> string" where
  "MainAccount c walletID = chart_base c @ ''wallets:'' @ sanitize walletID @ '':main''"

definition BalanceAccount :: "Chart \<Rightarrow> string \<Rightarrow> string \<Rightarrow> string" where
  "BalanceAccount c walletID balanceName =
     chart_base c @ ''wallets:'' @ sanitize walletID @ '':'' @ balanceName"

definition HoldAccount :: "Chart \<Rightarrow> string \<Rightarrow> string" where
  "HoldAccount c holdID = chart_base c @ ''wallets:holds:'' @ sanitize holdID"

definition TransitEthSwitch :: "Chart \<Rightarrow> string" where
  "TransitEthSwitch c = chart_base c @ ''transit:ethswitch_out''"

definition TransitCardAuth :: "Chart \<Rightarrow> string" where
  "TransitCardAuth c = chart_base c @ ''transit:card_auth''"

definition TransitP2P :: "Chart \<Rightarrow> string" where
  "TransitP2P c = chart_base c @ ''transit:p2p''"

definition SystemFX :: "Chart \<Rightarrow> string" where
  "SystemFX c = chart_base c @ ''system:fx''"

definition SystemLoanCapital :: "Chart \<Rightarrow> string" where
  "SystemLoanCapital c = chart_base c @ ''system:loan_capital''"

definition SystemFees :: "Chart \<Rightarrow> string" where
  "SystemFees c = chart_base c @ ''system:fees''"

definition SystemInterest :: "Chart \<Rightarrow> string" where
  "SystemInterest c = chart_base c @ ''system:interest''"

definition SystemOverdraftCapital :: "Chart \<Rightarrow> string" where
  "SystemOverdraftCapital c = chart_base c @ ''system:overdraft_capital''"

definition PotAccount :: "Chart \<Rightarrow> string \<Rightarrow> string \<Rightarrow> string" where
  "PotAccount c walletID potID =
     chart_base c @ ''wallets:'' @ sanitize walletID @ '':pot:'' @ sanitize potID"

definition BusinessMainAccount :: "Chart \<Rightarrow> string \<Rightarrow> string" where
  "BusinessMainAccount c bizWalletID =
     chart_base c @ ''wallets:biz:'' @ sanitize bizWalletID @ '':main''"

definition BusinessPotAccount :: "Chart \<Rightarrow> string \<Rightarrow> string \<Rightarrow> string" where
  "BusinessPotAccount c bizWalletID potID =
     chart_base c @ ''wallets:biz:'' @ sanitize bizWalletID @ '':pot:'' @ sanitize potID"

definition BusinessHoldAccount :: "Chart \<Rightarrow> string \<Rightarrow> string" where
  "BusinessHoldAccount c holdID = chart_base c @ ''wallets:biz:holds:'' @ sanitize holdID"

definition World :: "Chart \<Rightarrow> string" where
  "World c = ''world''"

section \<open>Addresses are distinct\<close>

definition is_hex :: "char \<Rightarrow> bool" where
  "is_hex ch \<longleftrightarrow> ch \<in> set ''0123456789abcdef''"

definition hex_id :: "string \<Rightarrow> bool" where
  "hex_id s \<longleftrightarrow> sanitize s \<noteq> '''' \<and> list_all is_hex (sanitize s)"

definition wallet_id :: "string \<Rightarrow> bool" where
  "wallet_id w \<longleftrightarrow> hex_id w \<or> (take 7 w = ''wallet:'' \<and> hex_id (drop 7 w)) \<or> (take 11 w = ''biz-wallet:'' \<and> hex_id (drop 11 w))"

text \<open>Splitting at the first colon recovers the field before it.\<close>

lemma colon_split:
  assumes "CHR '':'' \<notin> set a" "CHR '':'' \<notin> set b"
  shows "a @ CHR '':'' # x = b @ CHR '':'' # y \<longleftrightarrow> a = b \<and> x = y"
  using assms
proof (induction a arbitrary: b)
  case Nil
  then show ?case by (cases b) auto
next
  case (Cons h a)
  then show ?case by (cases b) auto
qed

lemma hex_no_colon: "hex_id s \<Longrightarrow> CHR '':'' \<notin> set (sanitize s)"
proof -
  have "\<not> is_hex (CHR '':'')" by code_simp
  then show "hex_id s \<Longrightarrow> ?thesis" by (auto simp only: hex_id_def list_all_iff)
qed

lemma hex_not_reserved: "hex_id s \<Longrightarrow> sanitize s \<noteq> ''holds'' \<and> sanitize s \<noteq> ''biz''"
proof -
  have "\<not> list_all is_hex ''holds''" "\<not> list_all is_hex ''biz''" by code_simp+
  then show "hex_id s \<Longrightarrow> ?thesis" by (auto simp only: hex_id_def)
qed

lemma wallet_fields:
  assumes "wallet_id w"
  obtains h where "CHR '':'' \<notin> set h" "list_all is_hex h" "h \<noteq> []"
    "sanitize w = h \<or> sanitize w = ''wallet'' @ CHR '':'' # h \<or> sanitize w = ''bizwallet'' @ CHR '':'' # h"
proof -
  have san: "sanitize (take n w) @ sanitize (drop n w) = sanitize w" for n
    unfolding sanitize_def filter_append [symmetric] by simp
  have pre: "sanitize ''wallet:'' = ''wallet'' @ [CHR '':'']" "sanitize ''biz-wallet:'' = ''bizwallet'' @ [CHR '':'']" by code_simp+
  from assms consider "hex_id w" | "take 7 w = ''wallet:''" "hex_id (drop 7 w)" | "take 11 w = ''biz-wallet:''" "hex_id (drop 11 w)"
    unfolding wallet_id_def by blast
  then show ?thesis
  proof cases
    case 1
    then show ?thesis using that [of "sanitize w"] hex_no_colon [OF 1] by (simp add: hex_id_def)
  next
    case 2
    then show ?thesis using that [of "sanitize (drop 7 w)"] hex_no_colon [OF 2(2)] san [of 7] pre(1) by (simp add: hex_id_def)
  next
    case 3
    then show ?thesis using that [of "sanitize (drop 11 w)"] hex_no_colon [OF 3(2)] san [of 11] pre(2) by (simp add: hex_id_def)
  qed
qed

lemma hex_words: "list_all is_hex h \<Longrightarrow> h \<noteq> ''wallet'' \<and> h \<noteq> ''bizwallet'' \<and> h \<noteq> ''holds'' \<and> h \<noteq> ''biz''"
proof -
  have "\<not> list_all is_hex ''wallet''" "\<not> list_all is_hex ''bizwallet''" "\<not> list_all is_hex ''holds''" "\<not> list_all is_hex ''biz''"
    by code_simp+
  then show "list_all is_hex h \<Longrightarrow> ?thesis" by (auto simp only:)
qed

text \<open>What follows the wallet identifier in an address is determined by the address.\<close>

lemma fields_split:
  assumes "CHR '':'' \<notin> set h" "CHR '':'' \<notin> set k" "CHR '':'' \<notin> set a" "CHR '':'' \<notin> set b" "a \<noteq> b" "h \<notin> {a, b}" "k \<notin> {a, b}"
    and "s = h \<or> s = a @ CHR '':'' # h \<or> s = b @ CHR '':'' # h" "t = k \<or> t = a @ CHR '':'' # k \<or> t = b @ CHR '':'' # k"
  shows "s @ CHR '':'' # x = t @ CHR '':'' # y \<longleftrightarrow> s = t \<and> x = y"
  using assms(8,9) assms(1-7) by (elim disjE) (auto simp: colon_split)

lemma wallet_split:
  assumes "wallet_id w" "wallet_id v"
  shows "sanitize w @ CHR '':'' # x = sanitize v @ CHR '':'' # y \<longleftrightarrow> sanitize w = sanitize v \<and> x = y"
proof -
  obtain h where h: "CHR '':'' \<notin> set h" "list_all is_hex h"
    and w: "sanitize w = h \<or> sanitize w = ''wallet'' @ CHR '':'' # h \<or> sanitize w = ''bizwallet'' @ CHR '':'' # h"
    using wallet_fields [OF assms(1)] by metis
  obtain k where k: "CHR '':'' \<notin> set k" "list_all is_hex k"
    and v: "sanitize v = k \<or> sanitize v = ''wallet'' @ CHR '':'' # k \<or> sanitize v = ''bizwallet'' @ CHR '':'' # k"
    using wallet_fields [OF assms(2)] by metis
  show ?thesis
    by (rule fields_split [OF h(1) k(1) _ _ _ _ _ w v]) (use hex_words [OF h(2)] hex_words [OF k(2)] in simp_all)
qed

lemma wallet_not_holds:
  assumes "wallet_id w"
  shows "sanitize w @ CHR '':'' # x \<noteq> ''holds'' @ CHR '':'' # y"
proof -
  obtain h where h: "CHR '':'' \<notin> set h" "list_all is_hex h"
    and w: "sanitize w = h \<or> sanitize w = ''wallet'' @ CHR '':'' # h \<or> sanitize w = ''bizwallet'' @ CHR '':'' # h"
    using wallet_fields [OF assms] by metis
  show ?thesis using w colon_split [OF h(1), of "''holds''" x y] hex_words [OF h(2)] by (elim disjE) simp_all
qed

lemma MainAccount_eq [simp]: "MainAccount c a = MainAccount c b \<longleftrightarrow> sanitize a = sanitize b"
  by (simp add: MainAccount_def)

lemma HoldAccount_eq [simp]: "HoldAccount c a = HoldAccount c b \<longleftrightarrow> sanitize a = sanitize b"
  by (simp add: HoldAccount_def)

lemma Main_Hold: "wallet_id w \<Longrightarrow> MainAccount c w \<noteq> HoldAccount c h"
  using wallet_not_holds [of w "''main''" "sanitize h"] by (simp add: MainAccount_def HoldAccount_def)

lemma Main_Pot: "wallet_id w \<Longrightarrow> wallet_id v \<Longrightarrow> MainAccount c w \<noteq> PotAccount c v p"
  using wallet_split [of w v "''main''" "''pot:'' @ sanitize p"] by (simp add: MainAccount_def PotAccount_def)

lemma Pot_eq:
  "wallet_id w \<Longrightarrow> wallet_id v \<Longrightarrow> PotAccount c w p = PotAccount c v q \<longleftrightarrow> sanitize w = sanitize v \<and> sanitize p = sanitize q"
  using wallet_split [of w v "''pot:'' @ sanitize p" "''pot:'' @ sanitize q"] by (simp add: PotAccount_def)

lemma Main_System [simp]:
  "MainAccount c w \<noteq> SystemLoanCapital c" "MainAccount c w \<noteq> SystemFees c"
  "MainAccount c w \<noteq> SystemInterest c" "MainAccount c w \<noteq> SystemOverdraftCapital c"
  "MainAccount c w \<noteq> SystemFX c" "MainAccount c w \<noteq> TransitEthSwitch c"
  "MainAccount c w \<noteq> TransitCardAuth c" "MainAccount c w \<noteq> TransitP2P c"
  by (simp_all add: MainAccount_def SystemLoanCapital_def SystemFees_def SystemInterest_def
      SystemOverdraftCapital_def SystemFX_def TransitEthSwitch_def TransitCardAuth_def TransitP2P_def)

lemma Hold_System [simp]:
  "HoldAccount c h \<noteq> TransitEthSwitch c" "HoldAccount c h \<noteq> TransitCardAuth c"
  "HoldAccount c h \<noteq> SystemOverdraftCapital c" "HoldAccount c h \<noteq> SystemFees c"
  by (simp_all add: HoldAccount_def TransitEthSwitch_def TransitCardAuth_def
      SystemOverdraftCapital_def SystemFees_def)

lemma Main_World [simp]: "MainAccount c w \<noteq> World c" "World c \<noteq> MainAccount c w"
proof -
  have "CHR '':'' \<in> set (MainAccount c w)" by (simp add: MainAccount_def)
  moreover have "CHR '':'' \<notin> set (World c)" by (simp add: World_def)
  ultimately show "MainAccount c w \<noteq> World c" "World c \<noteq> MainAccount c w" by metis+
qed

lemma Hold_World [simp]: "HoldAccount c h \<noteq> World c"
proof -
  have "CHR '':'' \<in> set (HoldAccount c h)" by (simp add: HoldAccount_def)
  moreover have "CHR '':'' \<notin> set (World c)" by (simp add: World_def)
  ultimately show ?thesis by metis
qed

section \<open>Properties\<close>



end
