(* ===== verification/Ledger.thy ===== *)
theory Ledger
  imports Chart Errors
begin

text \<open>
  \<open>internal/ledger\<close>: the Numscript templates, the \<open>Client\<close> interface and the
  \<open>FormanceClient\<close> that implements it.

  The Formance ledger server and its SDK are not part of the repository: they are the record
  \<open>'f formance\<close> of the four API calls the client makes, over an opaque server state \<open>'f\<close>.
  A script is kept as the abstract syntax of the rendered template with its variables
  substituted (the \<open>"ASSET amount"\<close> strings of \<open>Vars\<close> are read by the server as monetary
  values). The state of the client is the server together with the position in the stream
  of random UUIDs, \<open>uuid :: nat \<Rightarrow> string\<close>.
\<close>

section \<open>Numscript\<close>

type_synonym monetary = "string \<times> int"
type_synonym metadata = "(string \<times> string) list"

record Posting =
  p_Source :: string
  p_Destination :: string
  p_Amount :: int
  p_Asset :: string

text \<open>\<open>SendAllMax\<close> sends everything an account has to the listed \<open>max [m] to @a\<close> clauses, in
  order, and keeps what remains.\<close>

datatype nstmt =
    Send monetary "string list" string
  | SendAll string string string
  | SendAllMax string string "(monetary \<times> string) list"
  | SetAccountMeta string string string

type_synonym numscript = "nstmt list"

definition BuildCreditWalletScript :: "string list \<Rightarrow> monetary \<Rightarrow> string \<Rightarrow> numscript" where
  "BuildCreditWalletScript sources amount destination = [Send amount sources destination]"

definition BuildDebitWalletScript ::
    "(string \<times> metadata) list \<Rightarrow> string list \<Rightarrow> monetary \<Rightarrow> string \<Rightarrow> numscript" where
  "BuildDebitWalletScript md sources amount destination =
     Send amount sources destination
     # concat (map (\<lambda>(account, kvs). map (\<lambda>(k, v). SetAccountMeta account k v) kvs) md)"

definition BuildConfirmHoldScript ::
    "bool \<Rightarrow> string \<Rightarrow> string \<Rightarrow> string \<Rightarrow> string \<Rightarrow> monetary \<Rightarrow> numscript" where
  "BuildConfirmHoldScript final asset hold dest void_destination amount =
     Send amount [hold] dest
     # (if final then [SendAll asset hold void_destination] else [])"

definition BuildCancelHoldScript :: "string \<Rightarrow> Posting list \<Rightarrow> string \<Rightarrow> numscript" where
  "BuildCancelHoldScript asset postings hold =
     [SendAllMax asset hold (map (\<lambda>p. ((p_Asset p, p_Amount p), p_Source p)) postings)]"

definition BuildDisburseLoanScript :: "string \<Rightarrow> monetary \<Rightarrow> string \<Rightarrow> numscript" where
  "BuildDisburseLoanScript loanCapitalAccount amount destination =
     [Send amount [loanCapitalAccount] destination]"

definition BuildCollectRepaymentScript ::
    "string \<Rightarrow> string \<Rightarrow> string \<Rightarrow> monetary \<Rightarrow> monetary \<Rightarrow> numscript" where
  "BuildCollectRepaymentScript loanCapitalAccount interestAccount source principalAmt fee =
     [Send principalAmt [source] loanCapitalAccount,
      Send fee [source] interestAccount]"

definition BuildConvertCurrencyScript ::
    "monetary \<Rightarrow> monetary \<Rightarrow> string \<Rightarrow> string \<Rightarrow> numscript" where
  "BuildConvertCurrencyScript from_amount to_amount user_account fx_account =
     [Send from_amount [user_account] fx_account,
      Send to_amount [fx_account, ''world''] user_account]"

section \<open>The Formance API\<close>

datatype fm_error = WalletsErrorResponse string string | SdkError string

fun fm_msg :: "fm_error \<Rightarrow> string" where
  "fm_msg (WalletsErrorResponse code m) = m"
| "fm_msg (SdkError m) = m"

record fm_account =
  fa_Metadata :: metadata
  fa_Volumes :: "(string \<times> int \<times> int) list option"

record fm_tx =
  ft_ID :: int
  ft_Postings :: "Posting list"
  ft_Metadata :: metadata
  ft_Timestamp :: string

record ListTxQuery =
  q_Account :: string
  q_Source :: string
  q_Destination :: string
  q_Limit :: int
  q_Cursor :: string

record 'f formance =
  fm_CreateTransaction :: "string \<Rightarrow> numscript \<Rightarrow> metadata \<Rightarrow> ('f, fm_error, int) act"
  fm_GetAccount :: "string \<Rightarrow> ('f, fm_error, fm_account) act"
  fm_ListTransactions :: "ListTxQuery \<Rightarrow> ('f, fm_error, fm_tx list) act"
  fm_AddMetadataToAccount :: "string \<Rightarrow> string \<Rightarrow> metadata \<Rightarrow> ('f, fm_error, unit) act"

definition isFormanceNotFound :: "fm_error \<Rightarrow> bool" where
  "isFormanceNotFound e \<longleftrightarrow> sublist ''NOT_FOUND'' (fm_msg e) \<or> sublist ''not found'' (fm_msg e)"

text \<open>A metadata or volume map read with a missing key: the zero value.\<close>

definition meta_get :: "metadata \<Rightarrow> string \<Rightarrow> string" where
  "meta_get m k = (case map_of m k of None \<Rightarrow> '''' | Some v \<Rightarrow> v)"

definition accountBalance :: "fm_account \<Rightarrow> string \<Rightarrow> int" where
  "accountBalance account asset =
     (case fa_Volumes account of
        None \<Rightarrow> 0
      | Some vs \<Rightarrow> (case map_of vs asset of None \<Rightarrow> 0 | Some (i, out) \<Rightarrow> i - out))"

definition filterUserMetadata :: "metadata \<Rightarrow> metadata" where
  "filterUserMetadata m =
     filter (\<lambda>(k, v). \<not> (has_prefix k ''wallets/'' \<or> has_prefix k ''formance/'')) m"

section \<open>The client interface\<close>

record Transaction =
  tx_ID :: string
  tx_Source :: string
  tx_Destination :: string
  tx_AmountCents :: int
  tx_Asset :: string
  tx_IsCredit :: bool
  tx_Metadata :: metadata
  tx_Timestamp :: string

text \<open>The Go interface \<open>ledger.Client\<close> as a record of its methods over the client's state \<open>'l\<close>;
  the services take it as an argument, the way they are given a \<open>ledger.Client\<close>.\<close>

record 'l Client =
  CreateWallet :: "string \<Rightarrow> string \<Rightarrow> ('l, go_error, unit) act"
  GetWalletBalance :: "string \<Rightarrow> string \<Rightarrow> ('l, go_error, int) act"
  GetMultiCurrencyBalances :: "string \<Rightarrow> string list \<Rightarrow> ('l, go_error, (string \<times> int) list) act"
  CreditWallet :: "string \<Rightarrow> string \<Rightarrow> int \<Rightarrow> string \<Rightarrow> string \<Rightarrow> ('l, go_error, unit) act"
  DebitWallet :: "string \<Rightarrow> string \<Rightarrow> int \<Rightarrow> string \<Rightarrow> string \<Rightarrow> bool \<Rightarrow> ('l, go_error, string) act"
  HoldFunds :: "string \<Rightarrow> string \<Rightarrow> string \<Rightarrow> int \<Rightarrow> string \<Rightarrow> ('l, go_error, string) act"
  SettleHold :: "string \<Rightarrow> string \<Rightarrow> ('l, go_error, unit) act"
  VoidHold :: "string \<Rightarrow> string \<Rightarrow> ('l, go_error, unit) act"
  DebitWalletWithFee ::
    "string \<Rightarrow> string \<Rightarrow> int \<Rightarrow> int \<Rightarrow> string \<Rightarrow> string \<Rightarrow> string \<Rightarrow> ('l, go_error, string) act"
  DisburseLoan :: "string \<Rightarrow> string \<Rightarrow> int \<Rightarrow> string \<Rightarrow> ('l, go_error, string) act"
  CollectLoanRepayment :: "string \<Rightarrow> string \<Rightarrow> int \<Rightarrow> int \<Rightarrow> string \<Rightarrow> ('l, go_error, unit) act"
  CreditFromOverdraft :: "string \<Rightarrow> string \<Rightarrow> int \<Rightarrow> string \<Rightarrow> ('l, go_error, string) act"
  DebitToOverdraft :: "string \<Rightarrow> string \<Rightarrow> int \<Rightarrow> string \<Rightarrow> ('l, go_error, unit) act"
  TransferToPot :: "string \<Rightarrow> string \<Rightarrow> string \<Rightarrow> int \<Rightarrow> string \<Rightarrow> ('l, go_error, unit) act"
  TransferFromPot :: "string \<Rightarrow> string \<Rightarrow> string \<Rightarrow> int \<Rightarrow> string \<Rightarrow> ('l, go_error, unit) act"
  GetPotBalance :: "string \<Rightarrow> string \<Rightarrow> string \<Rightarrow> ('l, go_error, int) act"
  ConvertCurrency ::
    "string \<Rightarrow> string \<Rightarrow> int \<Rightarrow> string \<Rightarrow> int \<Rightarrow> string \<Rightarrow> string \<Rightarrow> ('l, go_error, string) act"
  GetAccountBalance :: "string \<Rightarrow> string \<Rightarrow> ('l, go_error, int) act"
  GetAccountHistory :: "string \<Rightarrow> int \<Rightarrow> ('l, go_error, Transaction list) act"

section \<open>FormanceClient\<close>

record 'f fclient =
  fc_server :: 'f
  fc_uuids :: nat

text \<open>A call to the server from the client; the client's error for it.\<close>

definition sdk :: "('f, fm_error, 'a) act \<Rightarrow> ('f fclient, fm_error, 'a) act" where
  "sdk m l = (case m (fc_server l) of (r, s) \<Rightarrow> (r, l\<lparr>fc_server := s\<rparr>))"

definition fm_fail :: "fm_error \<Rightarrow> go_error" where
  "fm_fail e = Opaque (fm_msg e)"

definition newUUID :: "(nat \<Rightarrow> string) \<Rightarrow> ('f fclient, go_error, string) act" where
  "newUUID uuid l = (Inr (uuid (fc_uuids l)), l\<lparr>fc_uuids := Suc (fc_uuids l)\<rparr>)"

definition wrapE :: "('l, fm_error, 'a) act \<Rightarrow> ('l, go_error, 'a) act" where
  "wrapE m l = (case m l of (Inl e, l1) \<Rightarrow> (Inl (fm_fail e), l1) | (Inr x, l1) \<Rightarrow> (Inr x, l1))"

definition getAccount :: "'f formance \<Rightarrow> string \<Rightarrow> ('f fclient, fm_error, fm_account) act" where
  "getAccount F address = sdk (fm_GetAccount F address)"

definition listTransactions :: "'f formance \<Rightarrow> ListTxQuery \<Rightarrow> ('f fclient, fm_error, fm_tx list) act" where
  "listTransactions F q = sdk (fm_ListTransactions F q)"

definition createTransaction ::
    "'f formance \<Rightarrow> string \<Rightarrow> numscript \<Rightarrow> metadata \<Rightarrow> ('f fclient, go_error, string) act" where
  "createTransaction F ik script md =
     bindA (wrapE (sdk (fm_CreateTransaction F ik script md))) (\<lambda>i. retA (itoa i))"

definition fc_CreateWallet ::
    "'f formance \<Rightarrow> Chart \<Rightarrow> string \<Rightarrow> string \<Rightarrow> ('f fclient, go_error, unit) act" where
  "fc_CreateWallet F c walletID name =
     wrapE (sdk (fm_AddMetadataToAccount F (''create-wallet-'' @ walletID) (MainAccount c walletID)
       [(''wallets/spec/type'', ''wallets.primary''), (''wallets/name'', name),
        (''wallets/id'', walletID), (''wallets/balances'', ''true'')]))"

text \<open>The body that the three balance reads share: not found is a zero balance.\<close>

definition readBalance ::
    "'f formance \<Rightarrow> string \<Rightarrow> string \<Rightarrow> ('f fclient, go_error, int) act" where
  "readBalance F address asset =
     bindA (wrapE (tryA (getAccount F address))) (\<lambda>r. case r of
       Inl e \<Rightarrow> if isFormanceNotFound e then retA 0 else throwA (fm_fail e)
     | Inr account \<Rightarrow> retA (accountBalance account asset))"

definition fc_GetWalletBalance ::
    "'f formance \<Rightarrow> Chart \<Rightarrow> string \<Rightarrow> string \<Rightarrow> ('f fclient, go_error, int) act" where
  "fc_GetWalletBalance F c walletID asset = readBalance F (MainAccount c walletID) asset"

definition fc_GetPotBalance ::
    "'f formance \<Rightarrow> Chart \<Rightarrow> string \<Rightarrow> string \<Rightarrow> string \<Rightarrow> ('f fclient, go_error, int) act" where
  "fc_GetPotBalance F c walletID potID asset = readBalance F (PotAccount c walletID potID) asset"

definition fc_GetAccountBalance ::
    "'f formance \<Rightarrow> string \<Rightarrow> string \<Rightarrow> ('f fclient, go_error, int) act" where
  "fc_GetAccountBalance F accountAddress asset = readBalance F accountAddress asset"

definition fc_GetMultiCurrencyBalances ::
    "'f formance \<Rightarrow> Chart \<Rightarrow> string \<Rightarrow> string list \<Rightarrow> ('f fclient, go_error, (string \<times> int) list) act" where
  "fc_GetMultiCurrencyBalances F c walletID assets =
     bindA (wrapE (tryA (getAccount F (MainAccount c walletID)))) (\<lambda>r. case r of
       Inl e \<Rightarrow> if isFormanceNotFound e then retA (map (\<lambda>a. (a, 0)) assets) else throwA (fm_fail e)
     | Inr account \<Rightarrow> retA (map (\<lambda>a. (a, accountBalance account a)) assets))"

definition fc_CreditWallet ::
    "'f formance \<Rightarrow> Chart \<Rightarrow> string \<Rightarrow> string \<Rightarrow> int \<Rightarrow> string \<Rightarrow> string \<Rightarrow> ('f fclient, go_error, unit) act" where
  "fc_CreditWallet F c ik walletID amountCents asset source =
     (let source = (if source = '''' then World c else source);
          script = BuildCreditWalletScript [source] (asset, amountCents) (MainAccount c walletID)
      in bindA (createTransaction F ik script
           [(''wallets/transaction'', ''true''), (''neo/type'', ''credit''), (''neo/wallet_id'', walletID)])
         (\<lambda>_. retA ()))"

definition hold_metadata :: "string \<Rightarrow> string \<Rightarrow> string \<Rightarrow> metadata" where
  "hold_metadata walletID holdID asset =
     [(''wallets/spec/type'', ''wallets.hold''), (''wallets/holds/wallet_id'', walletID),
      (''wallets/holds/id'', holdID), (''wallets/holds/asset'', asset)]"

definition fc_DebitWallet ::
    "'f formance \<Rightarrow> Chart \<Rightarrow> (nat \<Rightarrow> string) \<Rightarrow> string \<Rightarrow> string \<Rightarrow> int \<Rightarrow> string \<Rightarrow> string \<Rightarrow> bool \<Rightarrow>
      ('f fclient, go_error, string) act" where
  "fc_DebitWallet F c uuid ik walletID amountCents asset destination pending =
     bindA (if pending then newUUID uuid else retA '''') (\<lambda>holdID.
     let destination = (if pending then HoldAccount c holdID
                        else if destination = '''' then World c else destination);
         md = (if pending then [(HoldAccount c holdID, hold_metadata walletID holdID asset)] else []);
         script = BuildDebitWalletScript md [MainAccount c walletID] (asset, amountCents) destination
     in bindA (createTransaction F ik script
          [(''wallets/transaction'', ''true''), (''neo/type'', ''debit''), (''neo/wallet_id'', walletID)])
        (\<lambda>_. retA holdID))"

definition fc_HoldFunds ::
    "'f formance \<Rightarrow> Chart \<Rightarrow> (nat \<Rightarrow> string) \<Rightarrow> string \<Rightarrow> string \<Rightarrow> string \<Rightarrow> int \<Rightarrow> string \<Rightarrow>
      ('f fclient, go_error, string) act" where
  "fc_HoldFunds F c uuid ik walletID transitAccount amountCents asset =
     bindA (newUUID uuid) (\<lambda>holdID.
     let holdAccount = HoldAccount c holdID;
         script = BuildDebitWalletScript
           [(holdAccount, hold_metadata walletID holdID asset @ [(''neo/transit_account'', transitAccount)])]
           [MainAccount c walletID] (asset, amountCents) holdAccount
     in bindA (createTransaction F ik script
          [(''wallets/transaction'', ''true''), (''neo/type'', ''hold''), (''neo/wallet_id'', walletID),
           (''neo/hold_id'', holdID), (''neo/transit_account'', transitAccount)])
        (\<lambda>_. retA holdID))"

definition fc_SettleHold ::
    "'f formance \<Rightarrow> Chart \<Rightarrow> string \<Rightarrow> string \<Rightarrow> ('f fclient, go_error, unit) act" where
  "fc_SettleHold F c ik holdID =
     (let holdAccount = HoldAccount c holdID in
      bindA (wrapE (getAccount F holdAccount)) (\<lambda>account.
      let asset = meta_get (fa_Metadata account) ''wallets/holds/asset'';
          transit = meta_get (fa_Metadata account) ''neo/transit_account'';
          transitAccount = (if transit = '''' then World c else transit);
          remaining = accountBalance account asset
      in if remaining \<le> 0 then throwA (Opaque ''hold is already closed (zero remaining)'')
         else
           let walletID = meta_get (fa_Metadata account) ''wallets/holds/wallet_id'';
               script = BuildConfirmHoldScript True asset holdAccount transitAccount
                 (MainAccount c walletID) (asset, remaining)
           in bindA (createTransaction F ik script
                [(''wallets/transaction'', ''true''), (''neo/type'', ''settle_hold''), (''neo/hold_id'', holdID)])
              (\<lambda>_. retA ())))"

definition fc_VoidHold ::
    "'f formance \<Rightarrow> Chart \<Rightarrow> string \<Rightarrow> string \<Rightarrow> ('f fclient, go_error, unit) act" where
  "fc_VoidHold F c ik holdID =
     (let holdAccount = HoldAccount c holdID in
      bindA (wrapE (listTransactions F
        \<lparr>q_Account = '''', q_Source = '''', q_Destination = holdAccount, q_Limit = 0, q_Cursor = ''''\<rparr>))
      (\<lambda>txs. if length txs \<noteq> 1 then throwA (Opaque ''expected 1 transaction for hold'')
       else bindA (wrapE (getAccount F holdAccount)) (\<lambda>account.
         let asset = meta_get (fa_Metadata account) ''wallets/holds/asset'';
             remaining = accountBalance account asset
         in if remaining \<le> 0 then throwA (Opaque ''hold is already closed (zero remaining)'')
            else
              let postings = map (\<lambda>p. p\<lparr>p_Amount := i64 (p_Amount p)\<rparr>) (ft_Postings (hd txs));
                  script = BuildCancelHoldScript asset postings holdAccount
              in bindA (createTransaction F ik script
                   [(''wallets/transaction'', ''true''), (''neo/type'', ''void_hold''), (''neo/hold_id'', holdID)])
                 (\<lambda>_. retA ()))))"

definition fc_DisburseLoan ::
    "'f formance \<Rightarrow> Chart \<Rightarrow> string \<Rightarrow> string \<Rightarrow> int \<Rightarrow> string \<Rightarrow> ('f fclient, go_error, string) act" where
  "fc_DisburseLoan F c ik walletID principalCents asset =
     createTransaction F ik
       (BuildDisburseLoanScript (SystemLoanCapital c) (asset, principalCents) (MainAccount c walletID))
       [(''wallets/transaction'', ''true''), (''neo/type'', ''loan_disbursement''), (''neo/wallet_id'', walletID)]"

definition fc_CollectLoanRepayment ::
    "'f formance \<Rightarrow> Chart \<Rightarrow> string \<Rightarrow> string \<Rightarrow> int \<Rightarrow> int \<Rightarrow> string \<Rightarrow> ('f fclient, go_error, unit) act" where
  "fc_CollectLoanRepayment F c ik walletID principalCents feeCents asset =
     bindA (createTransaction F ik
       (BuildCollectRepaymentScript (SystemLoanCapital c) (SystemInterest c) (MainAccount c walletID)
          (asset, principalCents) (asset, feeCents))
       [(''wallets/transaction'', ''true''), (''neo/type'', ''loan_repayment''), (''neo/wallet_id'', walletID)])
     (\<lambda>_. retA ())"

definition fc_CreditFromOverdraft ::
    "'f formance \<Rightarrow> Chart \<Rightarrow> string \<Rightarrow> string \<Rightarrow> int \<Rightarrow> string \<Rightarrow> ('f fclient, go_error, string) act" where
  "fc_CreditFromOverdraft F c ik walletID amountCents asset =
     createTransaction F ik
       (BuildDisburseLoanScript (SystemOverdraftCapital c) (asset, amountCents) (MainAccount c walletID))
       [(''wallets/transaction'', ''true''), (''neo/type'', ''overdraft_credit''), (''neo/wallet_id'', walletID)]"

definition fc_DebitToOverdraft ::
    "'f formance \<Rightarrow> Chart \<Rightarrow> string \<Rightarrow> string \<Rightarrow> int \<Rightarrow> string \<Rightarrow> ('f fclient, go_error, unit) act" where
  "fc_DebitToOverdraft F c ik walletID amountCents asset =
     bindA (createTransaction F ik
       (BuildDebitWalletScript [] [MainAccount c walletID] (asset, amountCents) (SystemOverdraftCapital c))
       [(''wallets/transaction'', ''true''), (''neo/type'', ''overdraft_debit''), (''neo/wallet_id'', walletID)])
     (\<lambda>_. retA ())"

definition fc_TransferToPot ::
    "'f formance \<Rightarrow> Chart \<Rightarrow> string \<Rightarrow> string \<Rightarrow> string \<Rightarrow> int \<Rightarrow> string \<Rightarrow> ('f fclient, go_error, unit) act" where
  "fc_TransferToPot F c ik walletID potID amountCents asset =
     bindA (createTransaction F ik
       (BuildCreditWalletScript [MainAccount c walletID] (asset, amountCents) (PotAccount c walletID potID))
       [(''wallets/transaction'', ''true''), (''neo/type'', ''pot_deposit''), (''neo/wallet_id'', walletID),
        (''neo/pot_id'', potID)])
     (\<lambda>_. retA ())"

definition fc_TransferFromPot ::
    "'f formance \<Rightarrow> Chart \<Rightarrow> string \<Rightarrow> string \<Rightarrow> string \<Rightarrow> int \<Rightarrow> string \<Rightarrow> ('f fclient, go_error, unit) act" where
  "fc_TransferFromPot F c ik walletID potID amountCents asset =
     bindA (createTransaction F ik
       (BuildCreditWalletScript [PotAccount c walletID potID] (asset, amountCents) (MainAccount c walletID))
       [(''wallets/transaction'', ''true''), (''neo/type'', ''pot_withdrawal''), (''neo/wallet_id'', walletID),
        (''neo/pot_id'', potID)])
     (\<lambda>_. retA ())"

definition fc_ConvertCurrency ::
    "'f formance \<Rightarrow> Chart \<Rightarrow> string \<Rightarrow> string \<Rightarrow> int \<Rightarrow> string \<Rightarrow> int \<Rightarrow> string \<Rightarrow> string \<Rightarrow>
      ('f fclient, go_error, string) act" where
  "fc_ConvertCurrency F c ik walletID fromCents fromAsset toCents toAsset fxAccount =
     createTransaction F ik
       (BuildConvertCurrencyScript (fromAsset, fromCents) (toAsset, toCents) (MainAccount c walletID) fxAccount)
       [(''wallets/transaction'', ''true''), (''neo/type'', ''conversion''), (''neo/wallet_id'', walletID),
        (''neo/from_asset'', fromAsset), (''neo/to_asset'', toAsset)]"

definition fc_DebitWalletWithFee ::
    "'f formance \<Rightarrow> Chart \<Rightarrow> (nat \<Rightarrow> string) \<Rightarrow> string \<Rightarrow> string \<Rightarrow> int \<Rightarrow> int \<Rightarrow> string \<Rightarrow> string \<Rightarrow> string \<Rightarrow>
      ('f fclient, go_error, string) act" where
  "fc_DebitWalletWithFee F c uuid ik walletID principalCents feeCents asset destination feeAccount =
     (if feeCents = 0 then fc_DebitWallet F c uuid ik walletID principalCents asset destination False
      else let totalCents = i64 (principalCents + feeCents)
           in fc_DebitWallet F c uuid (ik @ ''-total'') walletID totalCents asset destination False)"

definition history_entries :: "string \<Rightarrow> fm_tx \<Rightarrow> Transaction list" where
  "history_entries account tx =
     map (\<lambda>p. \<lparr>tx_ID = itoa (ft_ID tx), tx_Source = p_Source p, tx_Destination = p_Destination p,
                tx_AmountCents = i64 (p_Amount p), tx_Asset = p_Asset p,
                tx_IsCredit = (p_Destination p = account),
                tx_Metadata = filterUserMetadata (ft_Metadata tx), tx_Timestamp = ft_Timestamp tx\<rparr>)
       (ft_Postings tx)"

definition fc_GetAccountHistory ::
    "'f formance \<Rightarrow> string \<Rightarrow> int \<Rightarrow> ('f fclient, go_error, Transaction list) act" where
  "fc_GetAccountHistory F account limit =
     bindA (wrapE (tryA (listTransactions F
        \<lparr>q_Account = account, q_Source = '''', q_Destination = '''', q_Limit = limit, q_Cursor = ''''\<rparr>)))
     (\<lambda>r. case r of
        Inl e \<Rightarrow> if isFormanceNotFound e then retA [] else throwA (fm_fail e)
      | Inr txs \<Rightarrow> retA (concat (map (history_entries account) txs)))"

text \<open>\<open>NewFormanceClient\<close>: the client's methods as the interface.\<close>

definition FormanceClient :: "'f formance \<Rightarrow> Chart \<Rightarrow> (nat \<Rightarrow> string) \<Rightarrow> 'f fclient Client" where
  "FormanceClient F c uuid =
     \<lparr>CreateWallet = fc_CreateWallet F c,
      GetWalletBalance = fc_GetWalletBalance F c,
      GetMultiCurrencyBalances = fc_GetMultiCurrencyBalances F c,
      CreditWallet = fc_CreditWallet F c,
      DebitWallet = fc_DebitWallet F c uuid,
      HoldFunds = fc_HoldFunds F c uuid,
      SettleHold = fc_SettleHold F c,
      VoidHold = fc_VoidHold F c,
      DebitWalletWithFee = fc_DebitWalletWithFee F c uuid,
      DisburseLoan = fc_DisburseLoan F c,
      CollectLoanRepayment = fc_CollectLoanRepayment F c,
      CreditFromOverdraft = fc_CreditFromOverdraft F c,
      DebitToOverdraft = fc_DebitToOverdraft F c,
      TransferToPot = fc_TransferToPot F c,
      TransferFromPot = fc_TransferFromPot F c,
      GetPotBalance = fc_GetPotBalance F c,
      ConvertCurrency = fc_ConvertCurrency F c,
      GetAccountBalance = fc_GetAccountBalance F,
      GetAccountHistory = fc_GetAccountHistory F\<rparr>"

end
