(* ===== verification/Ledger_Client.thy ===== *)
theory Ledger_Client
  imports Ledger
begin

text \<open>
  What the program relies on from its ledger.

  \<^item> \<open>numscript_eval\<close> states the documented meaning of the Numscript statements the templates
    use: a send takes from its sources in order, each up to its balance (\<open>world\<close> without
    limit), and fails if they do not cover the amount.
  \<^item> The locale \<open>formance_service\<close> is the documented behaviour of the Formance API: a
    transaction is atomic, an idempotency key commits once, reads report what is recorded.
  \<^item> The locale \<open>ledger_client\<close> is the contract of the Go interface \<open>ledger.Client\<close> that
    the services use. \<open>FormanceClient\<close> over a \<open>formance_service\<close> provides it.
  \<^item> The reference engine at the end is a ledger in memory with that behaviour; it shows that the
    two contracts can be met.
\<close>

section \<open>Balances and postings\<close>

type_synonym balances = "string \<Rightarrow> string \<Rightarrow> int"

definition P :: "string \<Rightarrow> string \<Rightarrow> int \<Rightarrow> string \<Rightarrow> Posting" where
  "P src dst amt asset = \<lparr>p_Source = src, p_Destination = dst, p_Amount = amt, p_Asset = asset\<rparr>"

definition apply_posting :: "Posting \<Rightarrow> balances \<Rightarrow> balances" where
  "apply_posting p b = (\<lambda>acct asset.
     b acct asset + (if asset = p_Asset p
       then (if acct = p_Destination p then p_Amount p else 0) - (if acct = p_Source p then p_Amount p else 0)
       else 0))"

definition apply_postings :: "Posting list \<Rightarrow> balances \<Rightarrow> balances" where
  "apply_postings ps b = fold apply_posting ps b"

lemma apply_postings_simps [simp]:
  "apply_postings [] b = b"
  "apply_postings (p # ps) b = apply_postings ps (apply_posting p b)"
  by (simp_all add: apply_postings_def)

lemma apply_postings_append [simp]:
  "apply_postings (ps @ qs) b = apply_postings qs (apply_postings ps b)"
  by (simp add: apply_postings_def)

lemma apply_P: "apply_posting (P s d n a) b x y =
    b x y + (if y = a then (if x = d then n else 0) - (if x = s then n else 0) else 0)"
  by (simp add: apply_posting_def P_def)

lemma P_sel [simp]: "p_Source (P s d n a) = s" "p_Destination (P s d n a) = d"
  "p_Amount (P s d n a) = n" "p_Asset (P s d n a) = a"
  by (simp_all add: P_def)

text \<open>No posting makes or destroys money: the total over any set of accounts that holds both ends of
  every posting stays the same.\<close>

lemma apply_posting_total:
  assumes "finite S" "p_Source p \<in> S" "p_Destination p \<in> S"
  shows "(\<Sum>x\<in>S. apply_posting p b x a) = (\<Sum>x\<in>S. b x a)"
  using assms by (cases "a = p_Asset p") (simp_all add: apply_posting_def sum.distrib sum_subtractf)

lemma apply_postings_total:
  assumes "finite S" "\<And>p. p \<in> set ps \<Longrightarrow> p_Source p \<in> S \<and> p_Destination p \<in> S"
  shows "(\<Sum>x\<in>S. apply_postings ps b x a) = (\<Sum>x\<in>S. b x a)"
  using assms by (induction ps arbitrary: b) (simp_all add: apply_posting_total)

section \<open>The meaning of scripts\<close>

fun take_from :: "balances \<Rightarrow> string \<Rightarrow> string list \<Rightarrow> int \<Rightarrow> (string \<times> int) list option" where
  "take_from b a [] n = (if n \<le> 0 then Some [] else None)"
| "take_from b a (s # ss) n =
     (if n \<le> 0 then Some []
      else if s = ''world'' then Some [(s, n)]
      else let k = min n (max 0 (b s a))
           in if k = 0 then take_from b a ss n
              else map_option (\<lambda>r. (s, k) # r) (take_from b a ss (n - k)))"

fun allocate :: "(monetary \<times> string) list \<Rightarrow> int \<Rightarrow> (string \<times> int) list" where
  "allocate [] n = []"
| "allocate ((m, d) # cs) n = (let k = min n (snd m) in (d, k) # allocate cs (n - k))"

fun eval_stmt :: "balances \<Rightarrow> nstmt \<Rightarrow> Posting list option" where
  "eval_stmt b (Send (a, n) srcs d) =
     (if n < 0 then None
      else if n = 0 then Some (map (\<lambda>s. P s d 0 a) (take 1 srcs))
      else map_option (map (\<lambda>(s, k). P s d k a)) (take_from b a srcs n))"
| "eval_stmt b (SendAll a s d) = Some (if b s a \<le> 0 then [] else [P s d (b s a) a])"
| "eval_stmt b (SendAllMax a s cs) =
     Some (if b s a \<le> 0 then [] else map (\<lambda>(d, k). P s d k a) (allocate cs (b s a)))"
| "eval_stmt b (SetAccountMeta x k v) = Some []"

fun numscript_eval :: "balances \<Rightarrow> numscript \<Rightarrow> Posting list option" where
  "numscript_eval b [] = Some []"
| "numscript_eval b (st # ss) =
     (case eval_stmt b st of None \<Rightarrow> None
      | Some ps \<Rightarrow> map_option (append ps) (numscript_eval (apply_postings ps b) ss))"

fun script_meta :: "numscript \<Rightarrow> (string \<Rightarrow> string \<Rightarrow> string) \<Rightarrow> (string \<Rightarrow> string \<Rightarrow> string)" where
  "script_meta [] m = m"
| "script_meta (SetAccountMeta x k v # ss) m = script_meta ss (m(x := (m x)(k := v)))"
| "script_meta (st # ss) m = script_meta ss m"

text \<open>A single source pays the whole amount or the script fails.\<close>

lemma take_from_single:
  "0 < n \<Longrightarrow> take_from b a [s] n =
    (if s = ''world'' \<or> n \<le> b s a then Some [(s, n)] else None)"
  by (auto simp: Let_def min_def max_def)

definition funded :: "balances \<Rightarrow> string \<Rightarrow> string \<Rightarrow> int \<Rightarrow> bool" where
  "funded b s a n \<longleftrightarrow> 0 \<le> n \<and> (s = ''world'' \<or> n \<le> b s a \<or> n = 0)"

lemma eval_single:
  "eval_stmt b (Send (a, n) [s] d) = (if funded b s a n then Some [P s d n a] else None)"
proof (cases "0 < n")
  case True
  then show ?thesis using take_from_single [OF True, of b a s] by (simp add: funded_def del: take_from.simps)
next
  case False
  then show ?thesis by (auto simp: funded_def)
qed

lemma eval_metas [simp]:
  "numscript_eval b (map (\<lambda>(k, v). SetAccountMeta x k v) kvs) = Some []"
  by (induction kvs) auto

lemma script_meta_kvs:
  "script_meta (map (\<lambda>(k, v). SetAccountMeta x k v) kvs) m =
    m(x := fold (\<lambda>(k, v) f. f(k := v)) kvs (m x))"
  by (induction kvs arbitrary: m) (auto simp: fun_eq_iff)

section \<open>The Formance service\<close>

record fm_ghost =
  fg_bal :: balances
  fg_meta :: "string \<Rightarrow> string \<Rightarrow> string"
  fg_txs :: "fm_tx list"
  fg_used :: "string set"

definition commit_tx :: "string \<Rightarrow> fm_tx \<Rightarrow> numscript \<Rightarrow> fm_ghost \<Rightarrow> fm_ghost" where
  "commit_tx ik tx s v =
     v\<lparr>fg_bal := apply_postings (ft_Postings tx) (fg_bal v), fg_meta := script_meta s (fg_meta v),
       fg_txs := tx # fg_txs v, fg_used := insert ik (fg_used v)\<rparr>"

definition tx_matches :: "ListTxQuery \<Rightarrow> fm_tx \<Rightarrow> bool" where
  "tx_matches q tx \<longleftrightarrow>
     (q_Destination q = '''' \<or> (\<exists>p \<in> set (ft_Postings tx). p_Destination p = q_Destination q)) \<and>
     (q_Source q = '''' \<or> (\<exists>p \<in> set (ft_Postings tx). p_Source p = q_Source q)) \<and>
     (q_Account q = '''' \<or> (\<exists>p \<in> set (ft_Postings tx).
        p_Source p = q_Account q \<or> p_Destination p = q_Account q))"

definition page_size :: "ListTxQuery \<Rightarrow> nat" where
  "page_size q = (if 0 < q_Limit q then nat (q_Limit q) else 15)"

locale formance_service =
  fixes F :: "'f formance"
    and g :: "'f \<Rightarrow> fm_ghost"
  assumes create_err: "fm_CreateTransaction F ik s md f = (Inl e, f') \<Longrightarrow> g f' = g f"
    and create_used: "fm_CreateTransaction F ik s md f = (Inr i, f') \<Longrightarrow> ik \<in> fg_used (g f) \<Longrightarrow> g f' = g f"
    and create_ok: "fm_CreateTransaction F ik s md f = (Inr i, f') \<Longrightarrow> ik \<notin> fg_used (g f) \<Longrightarrow>
      \<exists>ps ts. numscript_eval (fg_bal (g f)) s = Some ps \<and>
        g f' = commit_tx ik \<lparr>ft_ID = i, ft_Postings = ps, ft_Metadata = md, ft_Timestamp = ts\<rparr> s (g f)"
    and get_view: "fm_GetAccount F x f = (r, f') \<Longrightarrow> g f' = g f"
    and get_ok: "fm_GetAccount F x f = (Inr acc, f') \<Longrightarrow>
      meta_get (fa_Metadata acc) k = fg_meta (g f) x k \<and> accountBalance acc a = fg_bal (g f) x a"
    and get_not_found: "fm_GetAccount F x f = (Inl e, f') \<Longrightarrow> isFormanceNotFound e \<Longrightarrow> fg_bal (g f) x a = 0"
    and list_view: "fm_ListTransactions F q f = (lr, f') \<Longrightarrow> g f' = g f"
    and list_ok: "fm_ListTransactions F q f = (Inr txs, f') \<Longrightarrow> q_Cursor q = '''' \<Longrightarrow>
      txs = take (page_size q) (filter (tx_matches q) (fg_txs (g f)))"
    and addmeta: "fm_AddMetadataToAccount F ik x kvs f = (mr, f') \<Longrightarrow>
      fg_bal (g f') = fg_bal (g f) \<and> fg_txs (g f') = fg_txs (g f) \<and>
      fg_used (g f') \<subseteq> insert ik (fg_used (g f))"
begin

lemma createTransaction_cases:
  assumes "createTransaction F ik s md l = (r, l')"
  obtains (err) e where "r = Inl e" "g (fc_server l') = g (fc_server l)" "fc_uuids l' = fc_uuids l"
  | (used) t where "r = Inr t" "ik \<in> fg_used (g (fc_server l))" "g (fc_server l') = g (fc_server l)"
      "fc_uuids l' = fc_uuids l"
  | (committed) t ps i ts where "r = Inr t" "ik \<notin> fg_used (g (fc_server l))"
      "numscript_eval (fg_bal (g (fc_server l))) s = Some ps"
      "g (fc_server l') = commit_tx ik
         \<lparr>ft_ID = i, ft_Postings = ps, ft_Metadata = md, ft_Timestamp = ts\<rparr> s (g (fc_server l))"
      "fc_uuids l' = fc_uuids l"
proof -
  obtain x f' where x: "fm_CreateTransaction F ik s md (fc_server l) = (x, f')" by fastforce
  have l': "l' = l\<lparr>fc_server := f'\<rparr>"
    using assms x by (cases x) (simp_all add: createTransaction_def bindA_def wrapE_def sdk_def retA_def)
  show thesis
  proof (cases x)
    case (Inl e)
    then have "r = Inl (fm_fail e)"
      using assms x by (simp add: createTransaction_def bindA_def wrapE_def sdk_def)
    then show ?thesis using err create_err x Inl l' by fastforce
  next
    case (Inr i)
    then have r: "r = Inr (itoa i)"
      using assms x by (simp add: createTransaction_def bindA_def wrapE_def sdk_def retA_def)
    show ?thesis
    proof (cases "ik \<in> fg_used (g (fc_server l))")
      case True
      then show ?thesis using used [OF r] create_used x Inr l' by fastforce
    next
      case False
      then obtain ps ts where "numscript_eval (fg_bal (g (fc_server l))) s = Some ps"
        "g f' = commit_tx ik \<lparr>ft_ID = i, ft_Postings = ps, ft_Metadata = md, ft_Timestamp = ts\<rparr> s (g (fc_server l))"
        using create_ok x Inr by blast
      then show ?thesis using \<open>r = Inr (itoa i)\<close> False l' by (intro committed) simp_all
    qed
  qed
qed

lemma readBalance_run:
  assumes "readBalance F x a l = (r, l')"
  shows "g (fc_server l') = g (fc_server l) \<and> fc_uuids l' = fc_uuids l \<and>
    (\<forall>n. r = Inr n \<longrightarrow> n = fg_bal (g (fc_server l)) x a)"
proof -
  obtain y f' where y: "fm_GetAccount F x (fc_server l) = (y, f')" by fastforce
  show ?thesis
    using assms y get_view [OF y]
    by (cases y)
      (auto simp: readBalance_def bindA_def wrapE_def tryA_def getAccount_def sdk_def retA_def throwA_def
        get_ok get_not_found split: if_splits)
qed

lemma getAccount_run:
  assumes "getAccount F x l = (r, l')"
  shows "g (fc_server l') = g (fc_server l) \<and> fc_uuids l' = fc_uuids l \<and>
    (\<forall>acc k a. r = Inr acc \<longrightarrow> meta_get (fa_Metadata acc) k = fg_meta (g (fc_server l)) x k
       \<and> accountBalance acc a = fg_bal (g (fc_server l)) x a)"
proof -
  obtain y f' where y: "fm_GetAccount F x (fc_server l) = (y, f')" by fastforce
  then have "l' = l\<lparr>fc_server := f'\<rparr>" "r = y" using assms by (simp_all add: getAccount_def sdk_def)
  then show ?thesis using y get_view [OF y] get_ok by auto
qed

end

section \<open>The contract of the client\<close>

record lview =
  lv_bal :: balances
  lv_used :: "string set"
  lv_recv :: "string set"

text \<open>\<open>post ik ps v\<close>: the ledger after a transaction with key \<open>ik\<close> and postings \<open>ps\<close>; a key
  that was used before changes nothing. \<open>lv_recv\<close> is the set of accounts that have been the
  destination of a posting.\<close>

definition post :: "string \<Rightarrow> Posting list \<Rightarrow> lview \<Rightarrow> lview" where
  "post ik ps v = (if ik \<in> lv_used v then v else
     v\<lparr>lv_bal := apply_postings ps (lv_bal v), lv_used := insert ik (lv_used v),
       lv_recv := p_Destination ` set ps \<union> lv_recv v\<rparr>)"

lemma post_fresh: "ik \<notin> lv_used v \<Longrightarrow> post ik ps v =
    v\<lparr>lv_bal := apply_postings ps (lv_bal v), lv_used := insert ik (lv_used v),
      lv_recv := p_Destination ` set ps \<union> lv_recv v\<rparr>"
  by (simp add: post_def)

lemma post_used [simp]: "lv_used (post ik ps v) = insert ik (lv_used v)"
  by (auto simp: post_def)

text \<open>A hold that was opened by \<open>HoldFunds\<close> and not touched otherwise: its wallet, the account it
  settles to and its asset.\<close>

record hold_info =
  h_wallet :: string
  h_transit :: string
  h_asset :: string

text \<open>An account nobody has paid into, with nothing in it.\<close>

definition unused_account :: "lview \<Rightarrow> string \<Rightarrow> bool" where
  "unused_account v x \<longleftrightarrow> x \<notin> lv_recv v \<and> (\<forall>a. lv_bal v x a = 0)"

definition or_world :: "string \<Rightarrow> string" where
  "or_world a = (if a = '''' then ''world'' else a)"

text \<open>Shapes of the laws: an operation that only reads, and one that commits the postings \<open>ps\<close>
  under \<open>ik\<close>, whose first source covers its amount, or fails without effect.\<close>

definition reads :: "('l \<Rightarrow> 'v) \<Rightarrow> ('l, 'e, 'a) act \<Rightarrow> bool" where
  "reads obs m \<longleftrightarrow> (\<forall>l. obs (snd (m l)) = obs l)"

definition writes :: "('l \<Rightarrow> lview) \<Rightarrow> ('l \<Rightarrow> 'h) \<Rightarrow> ('l, go_error, 'a) act \<Rightarrow> string \<Rightarrow> Posting list \<Rightarrow> bool" where
  "writes view rest m ik ps \<longleftrightarrow> (\<forall>l r l'. m l = (r, l') \<longrightarrow>
     (case r of
        Inl e \<Rightarrow> view l' = view l \<and> rest l' = rest l
      | Inr x \<Rightarrow> view l' = post ik ps (view l) \<and>
          (ik \<notin> lv_used (view l) \<longrightarrow>
             funded (lv_bal (view l)) (p_Source (hd ps)) (p_Asset (hd ps)) (p_Amount (hd ps)))))"

lemma writes_ok:
  assumes "writes view rest m ik ps" "m l = (Inr x, l')"
  shows "view l' = post ik ps (view l)"
  using assms by (fastforce simp: writes_def)

lemma writes_err:
  assumes "writes view rest m ik ps" "m l = (Inl e, l')"
  shows "view l' = view l \<and> rest l' = rest l"
  using assms by (fastforce simp: writes_def)

lemma writes_funded:
  assumes "writes view rest m ik (p # qs)" "m l = (Inr x, l')" "ik \<notin> lv_used (view l)"
  shows "funded (lv_bal (view l)) (p_Source p) (p_Asset p) (p_Amount p)"
  using assms by (fastforce simp: writes_def)

locale ledger_client =
  fixes L :: "'l Client"
    and c :: Chart
    and view :: "'l \<Rightarrow> lview"
    and holdOf :: "'l \<Rightarrow> string \<Rightarrow> hold_info option"
    and nexth :: "'l \<Rightarrow> string"
  assumes get_balance: "GetWalletBalance L w a l = (r, l') \<Longrightarrow>
      view l' = view l \<and> nexth l' = nexth l \<and> (\<forall>n. r = Inr n \<longrightarrow> n = lv_bal (view l) (MainAccount c w) a)"
    and pot_balance: "GetPotBalance L w p a l = (r, l') \<Longrightarrow>
      view l' = view l \<and> nexth l' = nexth l \<and> (\<forall>n. r = Inr n \<longrightarrow> n = lv_bal (view l) (PotAccount c w p) a)"
    and account_balance: "GetAccountBalance L x a l = (r, l') \<Longrightarrow>
      view l' = view l \<and> nexth l' = nexth l \<and> (\<forall>n. r = Inr n \<longrightarrow> n = lv_bal (view l) x a)"
    and history: "reads view (GetAccountHistory L x lim)"
    and credit: "writes view (\<lambda>l. (holdOf l, nexth l)) (CreditWallet L ik w n a src) ik
      [P (or_world src) (MainAccount c w) n a]"
    and debit: "writes view (\<lambda>l. (holdOf l, nexth l)) (DebitWallet L ik w n a dst False) ik
      [P (MainAccount c w) (or_world dst) n a]"
    and debit_fee: "writes view (\<lambda>l. (holdOf l, nexth l)) (DebitWalletWithFee L ik w n fee a dst fa)
      (if fee = 0 then ik else ik @ ''-total'')
      [P (MainAccount c w) (or_world dst) (if fee = 0 then n else i64 (n + fee)) a]"
    and hold_err: "HoldFunds L ik w t n a l = (Inl e, l') \<Longrightarrow> view l' = view l \<and> holdOf l' = holdOf l"
    and hold_ok: "HoldFunds L ik w t n a l = (Inr h, l') \<Longrightarrow>
      h = nexth l \<and> view l' = post ik [P (MainAccount c w) (HoldAccount c h) n a] (view l) \<and>
      (ik \<notin> lv_used (view l) \<longrightarrow> funded (lv_bal (view l)) (MainAccount c w) a n)"
    and hold_info: "HoldFunds L ik w t n a l = (Inr h, l') \<Longrightarrow> ik \<notin> lv_used (view l) \<Longrightarrow>
      unused_account (view l) (HoldAccount c h) \<Longrightarrow> MainAccount c w \<noteq> HoldAccount c h \<Longrightarrow>
      or_world t \<noteq> HoldAccount c h \<Longrightarrow> in_i64 n \<Longrightarrow> 0 < n \<Longrightarrow>
      holdOf l' h = Some \<lparr>h_wallet = w, h_transit = or_world t, h_asset = a\<rparr> \<and>
      lv_bal (view l') (HoldAccount c h) a = n"
    and settle_err: "SettleHold L ik h l = (Inl e, l') \<Longrightarrow> view l' = view l \<and> holdOf l' = holdOf l"
    and settle_ok: "SettleHold L ik h l = (Inr u, l') \<Longrightarrow> holdOf l h = Some i \<Longrightarrow>
      view l' = post ik [P (HoldAccount c h) (h_transit i) (lv_bal (view l) (HoldAccount c h) (h_asset i)) (h_asset i)]
        (view l)"
    and void_err: "VoidHold L ik h l = (Inl e, l') \<Longrightarrow> view l' = view l \<and> holdOf l' = holdOf l"
    and void_ok: "VoidHold L ik h l = (Inr u, l') \<Longrightarrow> holdOf l h = Some i \<Longrightarrow>
      view l' = post ik [P (HoldAccount c h) (MainAccount c (h_wallet i))
        (lv_bal (view l) (HoldAccount c h) (h_asset i)) (h_asset i)] (view l)"
    and disburse: "writes view (\<lambda>l. (holdOf l, nexth l)) (DisburseLoan L ik w n a) ik
      [P (SystemLoanCapital c) (MainAccount c w) n a]"
    and collect: "writes view (\<lambda>l. (holdOf l, nexth l)) (CollectLoanRepayment L ik w n fee a) ik
      [P (MainAccount c w) (SystemLoanCapital c) n a, P (MainAccount c w) (SystemInterest c) fee a]"
    and overdraft_credit: "writes view (\<lambda>l. (holdOf l, nexth l)) (CreditFromOverdraft L ik w n a) ik
      [P (SystemOverdraftCapital c) (MainAccount c w) n a]"
    and overdraft_debit: "writes view (\<lambda>l. (holdOf l, nexth l)) (DebitToOverdraft L ik w n a) ik
      [P (MainAccount c w) (SystemOverdraftCapital c) n a]"
    and to_pot: "writes view (\<lambda>l. (holdOf l, nexth l)) (TransferToPot L ik w p n a) ik
      [P (MainAccount c w) (PotAccount c w p) n a]"
    and from_pot: "writes view (\<lambda>l. (holdOf l, nexth l)) (TransferFromPot L ik w p n a) ik
      [P (PotAccount c w p) (MainAccount c w) n a]"
    and convert_err: "ConvertCurrency L ik w n a m b fx l = (Inl e, l') \<Longrightarrow> view l' = view l"
    and convert_ok: "ConvertCurrency L ik w n a m b fx l = (Inr t, l') \<Longrightarrow> ik \<notin> lv_used (view l) \<Longrightarrow>
      fx \<noteq> ''world'' \<Longrightarrow>
      \<exists>k. 0 \<le> k \<and> k \<le> m \<and> funded (lv_bal (view l)) (MainAccount c w) a n \<and>
        lv_used (view l') = insert ik (lv_used (view l)) \<and>
        lv_bal (view l') = apply_postings [P (MainAccount c w) fx n a, P fx (MainAccount c w) k b,
          P ''world'' (MainAccount c w) (m - k) b] (lv_bal (view l))"
begin

text \<open>A wallet that pays has the money: a committed debit never overdraws a wallet.\<close>

lemma debit_covered:
  assumes "DebitWallet L ik w n a dst False l = (Inr h, l')" "ik \<notin> lv_used (view l)"
  shows "0 \<le> n \<and> (n \<le> lv_bal (view l) (MainAccount c w) a \<or> n = 0)"
proof -
  have "MainAccount c w \<noteq> ''world''" using Main_World(1) [of c w] by (simp add: World_def)
  then show ?thesis
    using writes_funded [OF debit assms] by (auto simp: funded_def)
qed

text \<open>Holding and settling is a transfer to the transit account; holding and voiding is nothing.\<close>

lemma hold_then_settle:
  assumes h: "HoldFunds L ik w t n a l = (Inr h, l1)"
    and s: "SettleHold L ik2 h l1 = (Inr u, l2)"
    and fresh: "ik \<notin> lv_used (view l)" "ik2 \<notin> lv_used (view l)" "ik2 \<noteq> ik"
      "unused_account (view l) (HoldAccount c h)"
    and ok: "MainAccount c w \<noteq> HoldAccount c h" "or_world t \<noteq> HoldAccount c h" "in_i64 n" "0 < n"
  shows "lv_bal (view l2) = apply_posting (P (HoldAccount c h) (or_world t) n a)
    (apply_posting (P (MainAccount c w) (HoldAccount c h) n a) (lv_bal (view l)))"
proof -
  have i: "holdOf l1 h = Some \<lparr>h_wallet = w, h_transit = or_world t, h_asset = a\<rparr>"
      "lv_bal (view l1) (HoldAccount c h) a = n"
    using hold_info [OF h fresh(1,4) ok] by simp_all
  have v1: "view l1 = post ik [P (MainAccount c w) (HoldAccount c h) n a] (view l)"
    using hold_ok [OF h] by simp
  show ?thesis
    using settle_ok [OF s i(1)] fresh i(2) by (simp add: v1 post_fresh)
qed

lemma hold_then_void:
  assumes h: "HoldFunds L ik w t n a l = (Inr h, l1)"
    and s: "VoidHold L ik2 h l1 = (Inr u, l2)"
    and fresh: "ik \<notin> lv_used (view l)" "ik2 \<notin> lv_used (view l)" "ik2 \<noteq> ik"
      "unused_account (view l) (HoldAccount c h)"
    and ok: "MainAccount c w \<noteq> HoldAccount c h" "or_world t \<noteq> HoldAccount c h" "in_i64 n" "0 < n"
  shows "lv_bal (view l2) = lv_bal (view l)"
proof -
  have i: "holdOf l1 h = Some \<lparr>h_wallet = w, h_transit = or_world t, h_asset = a\<rparr>"
      "lv_bal (view l1) (HoldAccount c h) a = n"
    using hold_info [OF h fresh(1,4) ok] by simp_all
  have v1: "view l1 = post ik [P (MainAccount c w) (HoldAccount c h) n a] (view l)"
    using hold_ok [OF h] by simp
  have "lv_bal (view l2) = apply_posting (P (HoldAccount c h) (MainAccount c w) n a)
      (apply_posting (P (MainAccount c w) (HoldAccount c h) n a) (lv_bal (view l)))"
    using void_ok [OF s i(1)] fresh i(2) by (simp add: v1 post_fresh)
  then show ?thesis by (auto simp: fun_eq_iff apply_P)
qed

end

section \<open>FormanceClient meets the contract\<close>

definition received :: "fm_tx list \<Rightarrow> string set" where
  "received txs = (\<Union>tx \<in> set txs. p_Destination ` set (ft_Postings tx))"

definition fc_view :: "('f \<Rightarrow> fm_ghost) \<Rightarrow> 'f fclient \<Rightarrow> lview" where
  "fc_view g l = (let v = g (fc_server l) in
     \<lparr>lv_bal = fg_bal v, lv_used = fg_used v, lv_recv = received (fg_txs v)\<rparr>)"

definition paid_into :: "string \<Rightarrow> fm_tx \<Rightarrow> bool" where
  "paid_into x tx \<longleftrightarrow> (\<exists>p \<in> set (ft_Postings tx). p_Destination p = x)"

definition ghost_hold :: "Chart \<Rightarrow> fm_ghost \<Rightarrow> string \<Rightarrow> hold_info option" where
  "ghost_hold c v h =
     (let x = HoldAccount c h; w = fg_meta v x ''wallets/holds/wallet_id'';
          a = fg_meta v x ''wallets/holds/asset''; t = or_world (fg_meta v x ''neo/transit_account'')
      in if \<exists>tx n. filter (paid_into x) (fg_txs v) = [tx] \<and> ft_Postings tx = [P (MainAccount c w) x n a]
            \<and> in_i64 n \<and> fg_bal v x a \<le> n \<and> t \<noteq> x
         then Some \<lparr>h_wallet = w, h_transit = t, h_asset = a\<rparr> else None)"

definition fc_holdOf :: "Chart \<Rightarrow> ('f \<Rightarrow> fm_ghost) \<Rightarrow> 'f fclient \<Rightarrow> string \<Rightarrow> hold_info option" where
  "fc_holdOf c g l = ghost_hold c (g (fc_server l))"

definition fc_nexth :: "(nat \<Rightarrow> string) \<Rightarrow> 'f fclient \<Rightarrow> string" where
  "fc_nexth uuid l = uuid (fc_uuids l)"

lemma received_Cons [simp]: "received (tx # txs) = p_Destination ` set (ft_Postings tx) \<union> received txs"
  by (simp add: received_def)

lemma not_received: "x \<notin> received txs \<Longrightarrow> filter (paid_into x) txs = []"
  by (auto simp: received_def paid_into_def filter_empty_conv)

lemma fc_view_same: "g (fc_server l') = g (fc_server l) \<Longrightarrow> fc_view g l' = fc_view g l"
  by (simp add: fc_view_def)

lemma fc_view_commit:
  assumes "g (fc_server l') = commit_tx ik tx s (g (fc_server l))" "ik \<notin> fg_used (g (fc_server l))"
  shows "fc_view g l' = post ik (ft_Postings tx) (fc_view g l)"
  using assms by (simp add: fc_view_def post_def commit_tx_def Let_def)

lemma fc_view_sel [simp]:
  "lv_bal (fc_view g l) = fg_bal (g (fc_server l))" "lv_used (fc_view g l) = fg_used (g (fc_server l))"
  "lv_recv (fc_view g l) = received (fg_txs (g (fc_server l)))"
  by (simp_all add: fc_view_def Let_def)

lemma Hold_not_world [simp]: "HoldAccount c h \<noteq> ''world''"
  using Hold_World [of c h] by (simp add: World_def)

lemma Hold_not_empty [simp]: "HoldAccount c h \<noteq> ''''"
  by (simp add: HoldAccount_def)

lemma or_world_World: "(if x = '''' then World c else x) = or_world x"
  by (simp add: or_world_def World_def)

context formance_service
begin

text \<open>One lemma for every operation that is a single script: if a committed script makes the
  postings \<open>ps\<close> up to the balances, the operation writes \<open>ps\<close>.\<close>

lemma createTransaction_writes:
  assumes "\<And>b qs. numscript_eval b s = Some qs \<Longrightarrow> qs = ps"
    and "\<And>b qs. numscript_eval b s = Some qs \<Longrightarrow>
      funded b (p_Source (hd ps)) (p_Asset (hd ps)) (p_Amount (hd ps))"
  shows "writes (fc_view g) (\<lambda>l. (fc_holdOf c g l, fc_nexth uuid l))
    (bindA (createTransaction F ik s md) (\<lambda>x. retA (f x))) ik ps"
  unfolding writes_def
proof (intro allI impI)
  fix l r l'
  assume run: "bindA (createTransaction F ik s md) (\<lambda>x. retA (f x)) l = (r, l')"
  obtain r0 where c: "createTransaction F ik s md l = (r0, l')"
    using run by (auto simp: bindA_def retA_def split: prod.splits sum.splits)
  from c show "case r of
        Inl e \<Rightarrow> fc_view g l' = fc_view g l \<and> (fc_holdOf c g l', fc_nexth uuid l') = (fc_holdOf c g l, fc_nexth uuid l)
      | Inr x \<Rightarrow> fc_view g l' = post ik ps (fc_view g l) \<and>
          (ik \<notin> lv_used (fc_view g l) \<longrightarrow> funded (lv_bal (fc_view g l))
             (p_Source (hd ps)) (p_Asset (hd ps)) (p_Amount (hd ps)))"
  proof (cases rule: createTransaction_cases)
    case (err e)
    then have "r = Inl e" using run c by (simp add: bindA_def)
    then show ?thesis using err by (simp add: fc_view_def fc_holdOf_def fc_nexth_def)
  next
    case (used t)
    then have "r = Inr (f t)" using run c by (simp add: bindA_def retA_def)
    then show ?thesis using used fc_view_same [OF used(3)] by (simp add: post_def)
  next
    case (committed t qs i ts)
    then have "r = Inr (f t)" using run c by (simp add: bindA_def retA_def)
    moreover have "qs = ps" using assms(1) committed(3) by blast
    ultimately show ?thesis
      using committed fc_view_commit [OF committed(4,2)] assms(2) [OF committed(3)] by simp
  qed
qed

lemma createTransaction_writes0:
  assumes "\<And>b qs. numscript_eval b s = Some qs \<Longrightarrow> qs = ps"
    and "\<And>b qs. numscript_eval b s = Some qs \<Longrightarrow>
      funded b (p_Source (hd ps)) (p_Asset (hd ps)) (p_Amount (hd ps))"
  shows "writes (fc_view g) (\<lambda>l. (fc_holdOf c g l, fc_nexth uuid l)) (createTransaction F ik s md) ik ps"
proof -
  have "bindA (createTransaction F ik s md) (\<lambda>x. retA (id x)) = createTransaction F ik s md"
    by (auto simp: fun_eq_iff bindA_def retA_def split: prod.splits sum.splits)
  moreover have "writes (fc_view g) (\<lambda>l. (fc_holdOf c g l, fc_nexth uuid l))
      (bindA (createTransaction F ik s md) (\<lambda>x. retA (id x))) ik ps"
    by (rule createTransaction_writes [OF assms])
  ultimately show ?thesis by simp
qed

lemma single_send:
  assumes "numscript_eval b [Send (a, n) [x] d] = Some qs"
  shows "qs = [P x d n a] \<and> funded b x a n"
  using assms by (auto simp: eval_single simp del: eval_stmt.simps split: if_splits)

end

lemma hold_script:
  defines "kvs w h a t \<equiv> hold_metadata w h a @ [(''neo/transit_account'', t)]"
  shows "BuildDebitWalletScript [(x, kvs w h a t)] [s] (a, n) d
    = Send (a, n) [s] d # map (\<lambda>(k, v). SetAccountMeta x k v) (kvs w h a t)"
  by (simp add: BuildDebitWalletScript_def)

locale formance_wallets = formance_service F g
  for F :: "'f formance" and g :: "'f \<Rightarrow> fm_ghost" +
  fixes c :: Chart and uuid :: "nat \<Rightarrow> string"
begin

lemma hold_run:
  assumes "fc_HoldFunds F c uuid ik w t n a l = (r, l')"
  obtains (err) e where "r = Inl e" "g (fc_server l') = g (fc_server l)"
  | (used) "r = Inr (fc_nexth uuid l)" "ik \<in> fg_used (g (fc_server l))" "g (fc_server l') = g (fc_server l)"
  | (committed) i ts md s where "r = Inr (fc_nexth uuid l)" "ik \<notin> fg_used (g (fc_server l))"
      "funded (fg_bal (g (fc_server l))) (MainAccount c w) a n"
      "g (fc_server l') = commit_tx ik \<lparr>ft_ID = i,
         ft_Postings = [P (MainAccount c w) (HoldAccount c (fc_nexth uuid l)) n a],
         ft_Metadata = md, ft_Timestamp = ts\<rparr> s (g (fc_server l))"
      "script_meta s (fg_meta (g (fc_server l))) = (fg_meta (g (fc_server l)))
         (HoldAccount c (fc_nexth uuid l) := fold (\<lambda>(k, v) f. f(k := v))
            (hold_metadata w (fc_nexth uuid l) a @ [(''neo/transit_account'', t)])
            (fg_meta (g (fc_server l)) (HoldAccount c (fc_nexth uuid l))))"
proof -
  let ?h = "fc_nexth uuid l" and ?x = "HoldAccount c (fc_nexth uuid l)"
  let ?kvs = "hold_metadata w ?h a @ [(''neo/transit_account'', t)]"
  let ?s = "Send (a, n) [MainAccount c w] ?x # map (\<lambda>(k, v). SetAccountMeta ?x k v) ?kvs"
  let ?l1 = "l\<lparr>fc_uuids := Suc (fc_uuids l)\<rparr>"
  obtain md r0 where c: "createTransaction F ik ?s md ?l1 = (r0, l')"
    and r: "r = (case r0 of Inl e \<Rightarrow> Inl e | Inr _ \<Rightarrow> Inr ?h)"
    using assms unfolding fc_HoldFunds_def hold_script Let_def
    by (fastforce simp: bindA_def newUUID_def retA_def fc_nexth_def split: prod.splits sum.splits)
  from c show thesis
  proof (cases rule: createTransaction_cases)
    case (err e)
    then show ?thesis using that(1) r by simp
  next
    case (used t')
    then show ?thesis using that(2) r by simp
  next
    case (committed t' ps i ts)
    have "ps = [P (MainAccount c w) ?x n a]" "funded (fg_bal (g (fc_server l))) (MainAccount c w) a n"
      using committed(3)
      by (auto simp: eval_single simp del: eval_stmt.simps(1) map_append split: if_splits)
    then show ?thesis
      using committed r by (intro that(3) [of i md ts ?s]) (simp_all add: script_meta_kvs del: map_append)
  qed
qed

lemma hold_info_run:
  assumes run: "fc_HoldFunds F c uuid ik w t n a l = (Inr h, l')"
    and fresh: "ik \<notin> fg_used (g (fc_server l))" "unused_account (fc_view g l) (HoldAccount c h)"
    and ok: "MainAccount c w \<noteq> HoldAccount c h" "or_world t \<noteq> HoldAccount c h" "in_i64 n" "0 < n"
  shows "ghost_hold c (g (fc_server l')) h = Some \<lparr>h_wallet = w, h_transit = or_world t, h_asset = a\<rparr> \<and>
    fg_bal (g (fc_server l')) (HoldAccount c h) a = n"
  using run
proof (cases rule: hold_run)
  case (committed i ts md s)
  let ?v = "g (fc_server l')" and ?x = "HoldAccount c h"
  have h: "h = fc_nexth uuid l" using committed(1) by simp
  have bal: "fg_bal ?v ?x a = n"
    using committed(4) fresh(2) ok(1) by (simp add: commit_tx_def h unused_account_def apply_P)
  have m: "fg_meta ?v ?x ''wallets/holds/wallet_id'' = w" "fg_meta ?v ?x ''wallets/holds/asset'' = a"
      "fg_meta ?v ?x ''neo/transit_account'' = t"
    using committed(4,5) by (simp_all add: commit_tx_def h hold_metadata_def)
  have "filter (paid_into ?x) (fg_txs (g (fc_server l))) = []"
    using fresh(2) by (intro not_received) (simp add: unused_account_def)
  then have "filter (paid_into ?x) (fg_txs ?v) = [\<lparr>ft_ID = i, ft_Postings = [P (MainAccount c w) ?x n a],
      ft_Metadata = md, ft_Timestamp = ts\<rparr>]"
    using committed(4) by (simp add: commit_tx_def h paid_into_def)
  then show ?thesis using bal m ok by (auto simp: ghost_hold_def Let_def)
qed (use fresh in simp_all)

lemma ghost_holdD:
  assumes "ghost_hold c v h = Some i"
  defines "x \<equiv> HoldAccount c h"
  shows "h_wallet i = fg_meta v x ''wallets/holds/wallet_id''"
    and "h_asset i = fg_meta v x ''wallets/holds/asset''"
    and "h_transit i = or_world (fg_meta v x ''neo/transit_account'')"
    and "h_transit i \<noteq> x"
    and "\<exists>tx n. filter (paid_into x) (fg_txs v) = [tx] \<and>
      ft_Postings tx = [P (MainAccount c (h_wallet i)) x n (h_asset i)] \<and> in_i64 n \<and> fg_bal v x (h_asset i) \<le> n"
  using assms(1) unfolding ghost_hold_def Let_def x_def by (auto split: if_splits)

lemma settle_ok_run:
  assumes run: "fc_SettleHold F c ik h l = (Inr u, l')" and i: "ghost_hold c (g (fc_server l)) h = Some i"
  defines "x \<equiv> HoldAccount c h"
  shows "fc_view g l' = post ik [P x (h_transit i) (fg_bal (g (fc_server l)) x (h_asset i)) (h_asset i)] (fc_view g l)"
proof -
  let ?v = "g (fc_server l)" let ?a = "h_asset i" let ?n = "fg_bal ?v x ?a"
  obtain acc l1 where acc: "getAccount F x l = (Inr acc, l1)"
    using run unfolding fc_SettleHold_def x_def Let_def
    by (auto simp: bindA_def wrapE_def split: prod.splits sum.splits)
  note ga = getAccount_run [OF acc, simplified]
  have v1: "g (fc_server l1) = ?v" using ga by simp
  have m: "meta_get (fa_Metadata acc) k = fg_meta ?v x k" "accountBalance acc a = fg_bal ?v x a" for k a
    using ga by simp_all
  have n: "0 < ?n" and tr: "\<exists>md t. createTransaction F ik (BuildConfirmHoldScript True ?a x (h_transit i)
      (MainAccount c (h_wallet i)) (?a, ?n)) md l1 = (Inr t, l')"
    using run acc ghost_holdD(1-3) [OF i]
    unfolding fc_SettleHold_def x_def [symmetric] Let_def
    by (auto simp: bindA_def wrapE_def m or_world_def World_def retA_def throwA_def x_def split: prod.splits sum.splits if_splits)
  then obtain md t where ct: "createTransaction F ik (BuildConfirmHoldScript True ?a x (h_transit i)
      (MainAccount c (h_wallet i)) (?a, ?n)) md l1 = (Inr t, l')" by blast
  have tx: "h_transit i \<noteq> x" using ghost_holdD(4) [OF i] by (simp add: x_def)
  from ct show ?thesis
  proof (cases rule: createTransaction_cases)
    case (used t')
    then show ?thesis using v1 fc_view_same [of g l' l] by (simp add: post_def)
  next
    case (committed t' ps j ts)
    have "ps = [P x (h_transit i) ?n ?a]"
      using committed(3) n tx
      by (auto simp: BuildConfirmHoldScript_def v1 eval_single apply_P simp del: eval_stmt.simps(1) split: if_splits)
    then show ?thesis
      using committed fc_view_commit [OF committed(4)] v1 fc_view_same [of g l1 l] by simp
  qed simp
qed

lemma void_ok_run:
  assumes run: "fc_VoidHold F c ik h l = (Inr u, l')" and i: "ghost_hold c (g (fc_server l)) h = Some i"
  defines "x \<equiv> HoldAccount c h"
  shows "fc_view g l' = post ik [P x (MainAccount c (h_wallet i)) (fg_bal (g (fc_server l)) x (h_asset i))
    (h_asset i)] (fc_view g l)"
proof -
  let ?v = "g (fc_server l)" let ?a = "h_asset i" let ?n = "fg_bal ?v x ?a"
  let ?q = "\<lparr>q_Account = '''', q_Source = '''', q_Destination = x, q_Limit = 0, q_Cursor = ''''\<rparr>"
  obtain txs l1 where ls: "listTransactions F ?q l = (Inr txs, l1)"
    using run unfolding fc_VoidHold_def x_def Let_def
    by (auto simp: bindA_def wrapE_def split: prod.splits sum.splits)
  have v1: "g (fc_server l1) = ?v" and txs: "txs = take (page_size ?q) (filter (tx_matches ?q) (fg_txs ?v))"
    using ls list_view list_ok by (fastforce simp: listTransactions_def sdk_def split: prod.splits)+
  have "tx_matches ?q = paid_into x"
    by (simp add: fun_eq_iff tx_matches_def paid_into_def x_def)
  then obtain tx n where tx: "txs = [tx]" "ft_Postings tx = [P (MainAccount c (h_wallet i)) x n ?a]"
      "in_i64 n" "?n \<le> n"
    using txs ghost_holdD(5) [OF i] by (auto simp: page_size_def x_def)
  obtain acc l2 where acc: "getAccount F x l1 = (Inr acc, l2)"
    using run ls tx(1) unfolding fc_VoidHold_def x_def Let_def
    by (auto simp: bindA_def wrapE_def split: prod.splits sum.splits)
  note ga = getAccount_run [OF acc, simplified]
  have v2: "g (fc_server l2) = ?v" using ga v1 by simp
  have m: "meta_get (fa_Metadata acc) k = fg_meta ?v x k" "accountBalance acc a = fg_bal ?v x a" for k a
    using ga v1 by simp_all
  have n: "0 < ?n" and "\<exists>md t. createTransaction F ik
      (BuildCancelHoldScript ?a [P (MainAccount c (h_wallet i)) x n ?a] x) md l2 = (Inr t, l')"
    using run ls acc ghost_holdD(2) [OF i] tx
    unfolding fc_VoidHold_def x_def [symmetric] Let_def
    by (auto simp: bindA_def wrapE_def m retA_def throwA_def x_def P_def split: prod.splits sum.splits if_splits)
  then obtain md t where ct: "createTransaction F ik
      (BuildCancelHoldScript ?a [P (MainAccount c (h_wallet i)) x n ?a] x) md l2 = (Inr t, l')" by blast
  from ct show ?thesis
  proof (cases rule: createTransaction_cases)
    case (used t')
    then show ?thesis using v2 fc_view_same [of g l' l] by (simp add: post_def)
  next
    case (committed t' ps j ts)
    have "ps = [P x (MainAccount c (h_wallet i)) ?n ?a]"
      using committed(3) n tx(4) by (auto simp: BuildCancelHoldScript_def v2 Let_def)
    then show ?thesis
      using committed fc_view_commit [OF committed(4)] v2 fc_view_same [of g l2 l] by simp
  qed simp
qed

lemma hold_ops_err:
  "fc_SettleHold F c ik h l = (Inl e, l') \<Longrightarrow> g (fc_server l') = g (fc_server l)"
  "fc_VoidHold F c ik h l = (Inl e, l') \<Longrightarrow> g (fc_server l') = g (fc_server l)"
proof -
  have cr: "createTransaction F ik s md l0 = (Inl e0, l1) \<Longrightarrow> g (fc_server l1) = g (fc_server l0)"
    for s md l0 e0 l1 by (erule createTransaction_cases) auto
  have ga: "getAccount F x l0 = (r, l1) \<Longrightarrow> g (fc_server l1) = g (fc_server l0)" for x l0 r l1
    using getAccount_run by blast
  have ls: "listTransactions F q l0 = (r, l1) \<Longrightarrow> g (fc_server l1) = g (fc_server l0)" for q l0 r l1
    using list_view by (fastforce simp: listTransactions_def sdk_def split: prod.splits)
  show "fc_SettleHold F c ik h l = (Inl e, l') \<Longrightarrow> g (fc_server l') = g (fc_server l)"
    by (auto simp: fc_SettleHold_def Let_def bindA_def wrapE_def retA_def throwA_def
        split: prod.splits sum.splits if_splits dest!: cr ga)
  show "fc_VoidHold F c ik h l = (Inl e, l') \<Longrightarrow> g (fc_server l') = g (fc_server l)"
    by (auto simp: fc_VoidHold_def Let_def bindA_def wrapE_def retA_def throwA_def
        split: prod.splits sum.splits if_splits dest!: cr ga ls)
qed

lemma readBalance_client:
  assumes "readBalance F x a l = (r, l')"
  shows "fc_view g l' = fc_view g l \<and> fc_nexth uuid l' = fc_nexth uuid l \<and>
    (\<forall>n. r = Inr n \<longrightarrow> n = lv_bal (fc_view g l) x a)"
  using readBalance_run [OF assms] fc_view_same [of g l' l] by (simp add: fc_nexth_def)

lemma history_reads: "reads (fc_view g) (fc_GetAccountHistory F x lim)"
  unfolding reads_def
proof
  fix l :: "'f fclient"
  let ?q = "\<lparr>q_Account = x, q_Source = '''', q_Destination = '''', q_Limit = lim, q_Cursor = ''''\<rparr>"
  obtain y f' where y: "fm_ListTransactions F ?q (fc_server l) = (y, f')" by fastforce
  then have "g f' = g (fc_server l)" by (rule list_view)
  then show "fc_view g (snd (fc_GetAccountHistory F x lim l)) = fc_view g l"
    using y by (cases y) (auto simp: fc_GetAccountHistory_def bindA_def wrapE_def tryA_def listTransactions_def
        sdk_def retA_def throwA_def fc_view_def)
qed

lemma convert_script:
  assumes e: "numscript_eval b (BuildConvertCurrencyScript (a, n) (a', m) x fx) = Some ps" and "fx \<noteq> ''world''"
  shows "\<exists>k. 0 \<le> k \<and> k \<le> m \<and> funded b x a n \<and>
    apply_postings ps b = apply_postings [P x fx n a, P fx x k a', P ''world'' x (m - k) a'] b"
proof -
  let ?b = "apply_posting (P x fx n a) b"
  obtain qs where f: "funded b x a n" and ps: "ps = P x fx n a # qs"
    and qs: "eval_stmt ?b (Send (a', m) [fx, ''world''] x) = Some qs"
    using e by (auto simp: BuildConvertCurrencyScript_def eval_single simp del: eval_stmt.simps
        split: if_splits option.splits)
  have "\<exists>k. 0 \<le> k \<and> k \<le> m \<and> apply_postings qs ?b = apply_postings [P fx x k a', P ''world'' x (m - k) a'] ?b"
  proof (cases "m = 0")
    case True
    then have "qs = [P fx x 0 a']" using qs by simp
    then show ?thesis using True by (intro exI [of _ 0]) (simp add: fun_eq_iff apply_P)
  next
    case False
    define k where "k = min m (max 0 (?b fx a'))"
    have "0 \<le> k" "k \<le> m" using qs False by (auto simp: k_def split: if_splits)
    moreover have "take_from ?b a' [fx, ''world''] m = Some (if k = 0 then [(''world'', m)]
        else if m - k \<le> 0 then [(fx, k)] else [(fx, k), (''world'', m - k)])"
      using qs False assms(2) by (simp add: Let_def k_def [symmetric] split: if_splits)
    then have "qs = map (\<lambda>(s, k). P s x k a') (if k = 0 then [(''world'', m)]
        else if m - k \<le> 0 then [(fx, k)] else [(fx, k), (''world'', m - k)])"
      using qs False by (simp del: take_from.simps split: if_splits)
    then have "apply_postings qs ?b = apply_postings [P fx x k a', P ''world'' x (m - k) a'] ?b"
      using \<open>k \<le> m\<close> by (auto simp: fun_eq_iff apply_P)
    ultimately show ?thesis by blast
  qed
  then show ?thesis using f ps by auto
qed

lemma convert_run:
  assumes "fc_ConvertCurrency F c ik w n a m b fx l = (Inr t, l')" "ik \<notin> fg_used (g (fc_server l))" "fx \<noteq> ''world''"
  shows "\<exists>k. 0 \<le> k \<and> k \<le> m \<and> funded (fg_bal (g (fc_server l))) (MainAccount c w) a n \<and>
    lv_used (fc_view g l') = insert ik (lv_used (fc_view g l)) \<and>
    lv_bal (fc_view g l') = apply_postings [P (MainAccount c w) fx n a, P fx (MainAccount c w) k b,
      P ''world'' (MainAccount c w) (m - k) b] (lv_bal (fc_view g l))"
  using assms(1) unfolding fc_ConvertCurrency_def
proof (cases rule: createTransaction_cases)
  case (committed t' ps i ts)
  then show ?thesis
    using convert_script [OF committed(3) assms(3)] fc_view_commit [OF committed(4,2)]
    by (simp add: post_def)
qed (use assms(2) in simp_all)

end

lemma FormanceClient_sel [simp]:
  "CreateWallet (FormanceClient F c uuid) = fc_CreateWallet F c"
  "GetWalletBalance (FormanceClient F c uuid) = fc_GetWalletBalance F c"
  "GetPotBalance (FormanceClient F c uuid) = fc_GetPotBalance F c"
  "GetAccountBalance (FormanceClient F c uuid) = fc_GetAccountBalance F"
  "GetAccountHistory (FormanceClient F c uuid) = fc_GetAccountHistory F"
  "CreditWallet (FormanceClient F c uuid) = fc_CreditWallet F c"
  "DebitWallet (FormanceClient F c uuid) = fc_DebitWallet F c uuid"
  "DebitWalletWithFee (FormanceClient F c uuid) = fc_DebitWalletWithFee F c uuid"
  "HoldFunds (FormanceClient F c uuid) = fc_HoldFunds F c uuid"
  "SettleHold (FormanceClient F c uuid) = fc_SettleHold F c"
  "VoidHold (FormanceClient F c uuid) = fc_VoidHold F c"
  "DisburseLoan (FormanceClient F c uuid) = fc_DisburseLoan F c"
  "CollectLoanRepayment (FormanceClient F c uuid) = fc_CollectLoanRepayment F c"
  "CreditFromOverdraft (FormanceClient F c uuid) = fc_CreditFromOverdraft F c"
  "DebitToOverdraft (FormanceClient F c uuid) = fc_DebitToOverdraft F c"
  "TransferToPot (FormanceClient F c uuid) = fc_TransferToPot F c"
  "TransferFromPot (FormanceClient F c uuid) = fc_TransferFromPot F c"
  "ConvertCurrency (FormanceClient F c uuid) = fc_ConvertCurrency F c"
  by (simp_all add: FormanceClient_def)

lemma collect_script:
  assumes "numscript_eval b (BuildCollectRepaymentScript lc ia x (a, n) (a, m)) = Some qs"
  shows "qs = [P x lc n a, P x ia m a] \<and> funded b x a n"
  using assms by (auto simp: BuildCollectRepaymentScript_def eval_single simp del: eval_stmt.simps
      split: if_splits option.splits)

context formance_wallets
begin

lemma single_writes:
  "writes (fc_view g) (\<lambda>l. (fc_holdOf c g l, fc_nexth uuid l))
    (bindA (createTransaction F ik [Send (a, n) [x] d] md) (\<lambda>_. retA z)) ik [P x d n a]"
  by (rule createTransaction_writes) (auto dest: single_send simp del: numscript_eval.simps)

lemma single_writes0:
  "writes (fc_view g) (\<lambda>l. (fc_holdOf c g l, fc_nexth uuid l))
    (createTransaction F ik [Send (a, n) [x] d] md) ik [P x d n a]"
  by (rule createTransaction_writes0) (auto dest: single_send simp del: numscript_eval.simps)

lemma fc_debit_writes:
  "writes (fc_view g) (\<lambda>l. (fc_holdOf c g l, fc_nexth uuid l)) (fc_DebitWallet F c uuid ik w n a dst False) ik
    [P (MainAccount c w) (or_world dst) n a]"
  by (simp add: fc_DebitWallet_def BuildDebitWalletScript_def act_simps or_world_World single_writes)

lemma fc_writes:
  "writes (fc_view g) (\<lambda>l. (fc_holdOf c g l, fc_nexth uuid l)) (fc_CreditWallet F c ik w n a src) ik
    [P (or_world src) (MainAccount c w) n a]"
  "writes (fc_view g) (\<lambda>l. (fc_holdOf c g l, fc_nexth uuid l)) (fc_DisburseLoan F c ik w n a) ik
    [P (SystemLoanCapital c) (MainAccount c w) n a]"
  "writes (fc_view g) (\<lambda>l. (fc_holdOf c g l, fc_nexth uuid l)) (fc_CreditFromOverdraft F c ik w n a) ik
    [P (SystemOverdraftCapital c) (MainAccount c w) n a]"
  "writes (fc_view g) (\<lambda>l. (fc_holdOf c g l, fc_nexth uuid l)) (fc_DebitToOverdraft F c ik w n a) ik
    [P (MainAccount c w) (SystemOverdraftCapital c) n a]"
  "writes (fc_view g) (\<lambda>l. (fc_holdOf c g l, fc_nexth uuid l)) (fc_TransferToPot F c ik w p n a) ik
    [P (MainAccount c w) (PotAccount c w p) n a]"
  "writes (fc_view g) (\<lambda>l. (fc_holdOf c g l, fc_nexth uuid l)) (fc_TransferFromPot F c ik w p n a) ik
    [P (PotAccount c w p) (MainAccount c w) n a]"
  by (simp_all add: fc_CreditWallet_def fc_DisburseLoan_def fc_CreditFromOverdraft_def fc_DebitToOverdraft_def
      fc_TransferToPot_def fc_TransferFromPot_def BuildCreditWalletScript_def BuildDisburseLoanScript_def
      BuildDebitWalletScript_def or_world_World single_writes single_writes0)

lemma fc_collect_writes:
  "writes (fc_view g) (\<lambda>l. (fc_holdOf c g l, fc_nexth uuid l)) (fc_CollectLoanRepayment F c ik w n fee a) ik
    [P (MainAccount c w) (SystemLoanCapital c) n a, P (MainAccount c w) (SystemInterest c) fee a]"
  unfolding fc_CollectLoanRepayment_def
  by (rule createTransaction_writes) (auto dest: collect_script)

lemma fc_debit_fee_writes:
  "writes (fc_view g) (\<lambda>l. (fc_holdOf c g l, fc_nexth uuid l))
    (fc_DebitWalletWithFee F c uuid ik w n fee a dst fa) (if fee = 0 then ik else ik @ ''-total'')
    [P (MainAccount c w) (or_world dst) (if fee = 0 then n else i64 (n + fee)) a]"
  by (simp add: fc_DebitWalletWithFee_def fc_debit_writes)

lemma hold_client:
  assumes "fc_HoldFunds F c uuid ik w t n a l = (r, l')"
  shows "case r of Inl e \<Rightarrow> fc_view g l' = fc_view g l \<and> fc_holdOf c g l' = fc_holdOf c g l
    | Inr h \<Rightarrow> h = fc_nexth uuid l \<and>
        fc_view g l' = post ik [P (MainAccount c w) (HoldAccount c h) n a] (fc_view g l) \<and>
        (ik \<notin> lv_used (fc_view g l) \<longrightarrow> funded (lv_bal (fc_view g l)) (MainAccount c w) a n)"
  using assms
proof (cases rule: hold_run)
  case (err e)
  then show ?thesis using fc_view_same [OF err(2)] by (simp add: fc_holdOf_def)
next
  case used
  then show ?thesis using fc_view_same [OF used(3)] by (simp add: post_def)
next
  case (committed i ts md s)
  then show ?thesis using fc_view_commit [OF committed(4,2)] by simp
qed

end

sublocale formance_wallets \<subseteq> wallets: ledger_client "FormanceClient F c uuid" c "fc_view g"
    "fc_holdOf c g" "fc_nexth uuid"
proof (unfold_locales, goal_cases)
  case 1 then show ?case using readBalance_client by (simp add: fc_GetWalletBalance_def)
next
  case 2 then show ?case using readBalance_client by (simp add: fc_GetPotBalance_def)
next
  case 3 then show ?case using readBalance_client by (simp add: fc_GetAccountBalance_def)
next
  case 4 then show ?case by (simp add: history_reads)
next
  case 5 then show ?case by (simp add: fc_writes)
next
  case 6 then show ?case by (simp add: fc_debit_writes)
next
  case (7 ik w n fee a dst fa) then show ?case using fc_debit_fee_writes by simp
next
  case 8 then show ?case using hold_client by fastforce
next
  case 9 then show ?case using hold_client by fastforce
next
  case (10 ik w t n a l h l')
  then show ?case using hold_info_run [of ik w t n a l h l'] by (simp add: fc_holdOf_def)
next
  case 11 then show ?case using hold_ops_err(1) fc_view_same by (fastforce simp: fc_holdOf_def)
next
  case 12 then show ?case using settle_ok_run by (simp add: fc_holdOf_def)
next
  case 13 then show ?case using hold_ops_err(2) fc_view_same by (fastforce simp: fc_holdOf_def)
next
  case 14 then show ?case using void_ok_run by (simp add: fc_holdOf_def)
next
  case 15 then show ?case by (simp add: fc_writes)
next
  case 16 then show ?case by (simp add: fc_collect_writes)
next
  case 17 then show ?case by (simp add: fc_writes)
next
  case 18 then show ?case by (simp add: fc_writes)
next
  case 19 then show ?case by (simp add: fc_writes)
next
  case 20 then show ?case by (simp add: fc_writes)
next
  case (21 ik w n a m b fx l e l')
  then have "createTransaction F ik (BuildConvertCurrencyScript (a, n) (b, m) (MainAccount c w) fx)
    [(''wallets/transaction'', ''true''), (''neo/type'', ''conversion''), (''neo/wallet_id'', w),
     (''neo/from_asset'', a), (''neo/to_asset'', b)] l = (Inl e, l')"
    by (simp add: fc_ConvertCurrency_def)
  then show ?case by (cases rule: createTransaction_cases) (simp_all add: fc_view_def)
next
  case 22 then show ?case using convert_run by simp
qed

context formance_wallets
begin

lemma client_contract: "ledger_client (FormanceClient F c uuid) c (fc_view g) (fc_holdOf c g) (fc_nexth uuid)"
  by (rule wallets.ledger_client_axioms)

end

section \<open>A reference engine\<close>

text \<open>A ledger in memory with the documented behaviour: the log of transactions, the metadata of the
  accounts and the response recorded for every idempotency key. Balances are the sums over the log.\<close>

record engine =
  e_txs :: "fm_tx list"
  e_meta :: "string \<Rightarrow> metadata"
  e_ids :: "(string \<times> int) list"

definition e_postings :: "engine \<Rightarrow> Posting list" where
  "e_postings f = concat (map ft_Postings (rev (e_txs f)))"

definition inputs :: "Posting list \<Rightarrow> balances" where
  "inputs ps x a = sum_list (map (\<lambda>p. if p_Asset p = a \<and> p_Destination p = x then p_Amount p else 0) ps)"

definition outputs :: "Posting list \<Rightarrow> balances" where
  "outputs ps x a = sum_list (map (\<lambda>p. if p_Asset p = a \<and> p_Source p = x then p_Amount p else 0) ps)"

definition e_ghost :: "engine \<Rightarrow> fm_ghost" where
  "e_ghost f =
     \<lparr>fg_bal = apply_postings (e_postings f) (\<lambda>x a. 0), fg_meta = (\<lambda>x k. meta_get (e_meta f x) k),
      fg_txs = e_txs f, fg_used = set (map fst (e_ids f))\<rparr>"

fun e_set_meta :: "numscript \<Rightarrow> (string \<Rightarrow> metadata) \<Rightarrow> (string \<Rightarrow> metadata)" where
  "e_set_meta [] m = m"
| "e_set_meta (SetAccountMeta x k v # ss) m = e_set_meta ss (m(x := (k, v) # m x))"
| "e_set_meta (st # ss) m = e_set_meta ss m"

definition e_create :: "string \<Rightarrow> numscript \<Rightarrow> metadata \<Rightarrow> (engine, fm_error, int) act" where
  "e_create ik s md f =
     (case map_of (e_ids f) ik of
        Some i \<Rightarrow> (Inr i, f)
      | None \<Rightarrow> (case numscript_eval (fg_bal (e_ghost f)) s of
          None \<Rightarrow> (Inl (SdkError ''INSUFFICIENT_FUND''), f)
        | Some ps \<Rightarrow>
            let i = int (length (e_txs f));
                tx = \<lparr>ft_ID = i, ft_Postings = ps, ft_Metadata = md, ft_Timestamp = ''''\<rparr>
            in (Inr i, \<lparr>e_txs = tx # e_txs f, e_meta = e_set_meta s (e_meta f), e_ids = (ik, i) # e_ids f\<rparr>)))"

definition e_get :: "string \<Rightarrow> (engine, fm_error, fm_account) act" where
  "e_get x f =
     (Inr \<lparr>fa_Metadata = e_meta f x,
           fa_Volumes = Some (map (\<lambda>p. (p_Asset p, inputs (e_postings f) x (p_Asset p),
             outputs (e_postings f) x (p_Asset p))) (e_postings f))\<rparr>, f)"

definition e_list :: "ListTxQuery \<Rightarrow> (engine, fm_error, fm_tx list) act" where
  "e_list q f = (Inr (take (page_size q) (filter (tx_matches q) (e_txs f))), f)"

definition e_addmeta :: "string \<Rightarrow> string \<Rightarrow> metadata \<Rightarrow> (engine, fm_error, unit) act" where
  "e_addmeta ik x kvs f = (Inr (), f\<lparr>e_meta := (e_meta f)(x := kvs @ e_meta f x)\<rparr>)"

definition engine :: "engine formance" where
  "engine = \<lparr>fm_CreateTransaction = e_create, fm_GetAccount = e_get, fm_ListTransactions = e_list,
     fm_AddMetadataToAccount = e_addmeta\<rparr>"

lemma e_set_meta: "meta_get (e_set_meta s m x) k = script_meta s (\<lambda>x k. meta_get (m x) k) x k"
proof (induction s m rule: e_set_meta.induct)
  case (2 x' k' v ss m)
  have "(\<lambda>x k. meta_get (m x) k)(x' := (meta_get (m x'))(k' := v))
      = (\<lambda>x k. meta_get ((m(x' := (k', v) # m x')) x) k)"
    by (auto simp: fun_eq_iff meta_get_def)
  then show ?case using 2 by (simp only: e_set_meta.simps script_meta.simps)
qed simp_all

lemma apply_postings_sums: "apply_postings ps b x a = b x a + inputs ps x a - outputs ps x a"
  by (induction ps arbitrary: b) (auto simp: inputs_def outputs_def apply_posting_def)

lemma e_volumes:
  "(case map_of (map (\<lambda>p. (p_Asset p, f (p_Asset p), h (p_Asset p))) ps) a of None \<Rightarrow> 0 | Some (i, j) \<Rightarrow> i - j)
    = (if a \<in> p_Asset ` set ps then f a - h a else (0 :: int))"
  by (induction ps) auto

lemma no_asset_no_money: "a \<notin> p_Asset ` set ps \<Longrightarrow> inputs ps x a - outputs ps x a = 0"
  by (induction ps) (auto simp: inputs_def outputs_def)

interpretation eng: formance_service engine e_ghost
proof (unfold_locales, goal_cases)
  case 1
  then show ?case by (auto simp: engine_def e_create_def Let_def split: option.splits)
next
  case (2 ik s md f i f')
  then have "map_of (e_ids f) ik \<noteq> None" by (auto simp: e_ghost_def map_of_eq_None_iff)
  with 2 show ?case by (auto simp: engine_def e_create_def)
next
  case (3 ik s md f i f')
  then have n: "map_of (e_ids f) ik = None" by (simp add: e_ghost_def map_of_eq_None_iff)
  with 3(1) obtain ps where ps: "numscript_eval (fg_bal (e_ghost f)) s = Some ps"
      and i: "i = int (length (e_txs f))"
      and f': "f' = \<lparr>e_txs = \<lparr>ft_ID = i, ft_Postings = ps, ft_Metadata = md, ft_Timestamp = ''''\<rparr> # e_txs f,
        e_meta = e_set_meta s (e_meta f), e_ids = (ik, i) # e_ids f\<rparr>"
    by (auto simp: engine_def e_create_def Let_def split: option.splits)
  have "e_ghost f' = commit_tx ik \<lparr>ft_ID = i, ft_Postings = ps, ft_Metadata = md, ft_Timestamp = ''''\<rparr> s (e_ghost f)"
    by (simp add: f' e_ghost_def commit_tx_def e_postings_def e_set_meta fun_eq_iff)
  with ps show ?case by blast
next
  case 4
  then show ?case by (simp add: engine_def e_get_def)
next
  case (5 x f acc f' k a)
  then have "accountBalance acc a = fg_bal (e_ghost f) x a"
    using no_asset_no_money [of a "e_postings f" x]
    by (auto simp: engine_def e_get_def accountBalance_def e_volumes e_ghost_def apply_postings_sums)
  with 5 show ?case by (auto simp: engine_def e_get_def e_ghost_def)
next
  case 6
  then show ?case by (simp add: engine_def e_get_def)
next
  case 7
  then show ?case by (simp add: engine_def e_list_def)
next
  case 8
  then show ?case by (auto simp: engine_def e_list_def e_ghost_def)
next
  case 9
  then show ?case by (auto simp: engine_def e_addmeta_def e_ghost_def e_postings_def)
qed

text \<open>The client over the engine, with the account prefix of the default configuration.\<close>

definition neo :: Chart where "neo = \<lparr>prefix = ''neo''\<rparr>"

definition uuids :: "nat \<Rightarrow> string" where "uuids n = ''a'' @ show_nat n"

interpretation eng_client: formance_wallets engine e_ghost neo uuids ..

definition eclient :: "engine fclient Client" where
  "eclient = FormanceClient engine neo uuids"

lemma eclient_contract: "ledger_client eclient neo (fc_view e_ghost) (fc_holdOf neo e_ghost) (fc_nexth uuids)"
  unfolding eclient_def by (rule eng_client.wallets.ledger_client_axioms)

text \<open>An engine in which each listed wallet account holds an amount of an asset.\<close>

definition seeded :: "(string \<times> int \<times> string) list \<Rightarrow> engine fclient" where
  "seeded xs = \<lparr>fc_server = \<lparr>e_txs = map (\<lambda>(x, n, a). \<lparr>ft_ID = 0, ft_Postings = [P ''world'' x n a],
       ft_Metadata = [], ft_Timestamp = ''''\<rparr>) xs, e_meta = (\<lambda>x. []), e_ids = []\<rparr>, fc_uuids = 0\<rparr>"

section \<open>Properties\<close>

lemma formance_wallets_contract:
  assumes "formance_service F g"
  shows "ledger_client (FormanceClient F c uuid) c (fc_view g) (fc_holdOf c g) (fc_nexth uuid)"
proof -
  have "formance_wallets F g" using assms by (simp add: formance_wallets_def)
  then show ?thesis by (rule formance_wallets.client_contract)
qed

text \<open>C3: over any Formance server with the documented behaviour (atomic transactions, idempotency keys,
  Numscript sources that must be funded, newest-first listings) \<open>FormanceClient\<close> implements the ledger
  contract the services rely on: every operation commits exactly its postings under its key or fails
  without effect, reads change nothing, and settling or voiding a hold moves its balance.\<close>

theorem FormanceClient_contract:
  assumes "formance_service F g"
  shows "ledger_client (FormanceClient F c uuid) c (fc_view g) (fc_holdOf c g) (fc_nexth uuid)"
  using assms by (rule formance_wallets_contract)

theorem FormanceClient_contract_witness:
  "ledger_client (FormanceClient engine neo uuids) neo (fc_view e_ghost) (fc_holdOf neo e_ghost) (fc_nexth uuids)"
  by (rule FormanceClient_contract) (rule eng.formance_service_axioms)

text \<open>C7: money on hold is neither lost nor doubled: holding an amount and settling the hold moves
  exactly that amount from the wallet to the transit account named when the hold was made; holding and
  voiding leaves every balance as it was.\<close>

theorem hold_life_cycle:
  assumes F: "formance_service F g"
    and h: "fc_HoldFunds F c uuid ik w t n a l = (Inr h, l1)"
    and fresh: "ik \<notin> fg_used (g (fc_server l))" "ik2 \<notin> fg_used (g (fc_server l))" "ik2 \<noteq> ik"
      "unused_account (fc_view g l) (HoldAccount c h)"
    and ok: "MainAccount c w \<noteq> HoldAccount c h" "or_world t \<noteq> HoldAccount c h" "in_i64 n" "0 < n"
  shows "(fc_SettleHold F c ik2 h l1 = (Inr u, l2) \<longrightarrow> lv_bal (fc_view g l2)
      = apply_posting (P (MainAccount c w) (or_world t) n a) (lv_bal (fc_view g l)))
    \<and> (fc_VoidHold F c ik2 h l1 = (Inr u, l2) \<longrightarrow> lv_bal (fc_view g l2) = lv_bal (fc_view g l))"
proof -
  let ?L = "FormanceClient F c uuid"
  note lc = formance_wallets_contract [OF F, of c uuid]
  have h': "HoldFunds ?L ik w t n a l = (Inr h, l1)" using h by simp
  have fresh': "ik \<notin> lv_used (fc_view g l)" "ik2 \<notin> lv_used (fc_view g l)" using fresh by simp_all
  have "lv_bal (fc_view g l2) = apply_posting (P (MainAccount c w) (or_world t) n a) (lv_bal (fc_view g l))"
    if "fc_SettleHold F c ik2 h l1 = (Inr u, l2)"
    using ledger_client.hold_then_settle [OF lc h' _ fresh' fresh(3,4) ok, of u l2] that
    by (auto simp: fun_eq_iff apply_P)
  moreover have "lv_bal (fc_view g l2) = lv_bal (fc_view g l)" if "fc_VoidHold F c ik2 h l1 = (Inr u, l2)"
    using ledger_client.hold_then_void [OF lc h' _ fresh' fresh(3,4) ok, of u l2] that by simp
  ultimately show ?thesis by blast
qed

definition held :: "engine fclient" where
  "held = snd (fc_HoldFunds engine neo uuids ''k1'' ''wa'' ''t'' 300 ''ETB/2'' (seeded [(MainAccount neo ''wa'', 1000, ''ETB/2'')]))"

theorem hold_life_cycle_witness:
  "lv_bal (fc_view e_ghost (snd (fc_SettleHold engine neo ''k2'' ''a0'' held))) ''t'' ''ETB/2'' = 300
   \<and> lv_bal (fc_view e_ghost (snd (fc_VoidHold engine neo ''k2'' ''a0'' held))) (MainAccount neo ''wa'') ''ETB/2'' = 1000"
proof -
  let ?l = "seeded [(MainAccount neo ''wa'', 1000, ''ETB/2'')]"
  have h: "fc_HoldFunds engine neo uuids ''k1'' ''wa'' ''t'' 300 ''ETB/2'' ?l = (Inr ''a0'', held)"
    unfolding held_def by (rule run_of) code_simp
  have s: "fc_SettleHold engine neo ''k2'' ''a0'' held = (Inr (), snd (fc_SettleHold engine neo ''k2'' ''a0'' held))"
    "fc_VoidHold engine neo ''k2'' ''a0'' held = (Inr (), snd (fc_VoidHold engine neo ''k2'' ''a0'' held))"
    by (rule run_of; code_simp)+
  have free: "ik \<notin> fg_used (e_ghost (fc_server ?l))" for ik by (simp add: seeded_def e_ghost_def)
  have ne: "MainAccount neo ''wa'' \<noteq> HoldAccount neo ''a0''" "or_world ''t'' \<noteq> HoldAccount neo ''a0''"
    by (code_simp, code_simp)
  have un: "unused_account (fc_view e_ghost ?l) (HoldAccount neo ''a0'')"
    using ne by (simp add: unused_account_def seeded_def e_ghost_def received_def e_postings_def apply_P)
  have 0: "lv_bal (fc_view e_ghost ?l) ''t'' ''ETB/2'' = 0" "MainAccount neo ''wa'' \<noteq> ''t''"
    "lv_bal (fc_view e_ghost ?l) (MainAccount neo ''wa'') ''ETB/2'' = 1000" "or_world ''t'' = ''t''"
    by (code_simp, code_simp, code_simp, code_simp)
  note life = hold_life_cycle [OF eng.formance_service_axioms h free free _ un ne, of "''k2''" "()"]
  show ?thesis
    using life [of "snd (fc_SettleHold engine neo ''k2'' ''a0'' held)"]
      life [of "snd (fc_VoidHold engine neo ''k2'' ''a0'' held)"] s 0
    by (auto simp: in_i64_def apply_P)
qed

text \<open>A purchase with a fee debits amount plus fee from the wallet and pays all of it to the
  destination; the fee account named by the caller receives nothing.\<close>

lemma DebitWalletWithFee_ignores_fee_account:
  assumes F: "formance_service F g"
    and run: "DebitWalletWithFee (FormanceClient F c uuid) ik w n fee a dst feeAcct l = (Inr u, l')"
    and "ik @ ''-total'' \<notin> fg_used (g (fc_server l))" "fee \<noteq> 0" "feeAcct \<noteq> or_world dst" "feeAcct \<noteq> MainAccount c w"
  shows "lv_bal (fc_view g l') = apply_posting (P (MainAccount c w) (or_world dst) (i64 (n + fee)) a) (lv_bal (fc_view g l))
    \<and> lv_bal (fc_view g l') feeAcct = lv_bal (fc_view g l) feeAcct"
proof -
  have "fc_view g l' = post (ik @ ''-total'') [P (MainAccount c w) (or_world dst) (i64 (n + fee)) a] (fc_view g l)"
    using writes_ok [OF ledger_client.debit_fee [OF formance_wallets_contract [OF F]] run] assms(4) by simp
  then show ?thesis using assms(3,5,6) by (simp add: post_fresh fun_eq_iff apply_P)
qed

lemma DebitWalletWithFee_ignores_fee_account_witness:
  "let l = seeded [(MainAccount neo ''wa'', 1000, ''ETB/2'')];
       l' = snd (DebitWalletWithFee (FormanceClient engine neo uuids) ''k'' ''wa'' 300 20 ''ETB/2'' ''shop'' (SystemFees neo) l)
   in lv_bal (fc_view e_ghost l') (SystemFees neo) ''ETB/2'' = 0"
proof -
  let ?l = "seeded [(MainAccount neo ''wa'', 1000, ''ETB/2'')]"
  let ?r = "DebitWalletWithFee (FormanceClient engine neo uuids) ''k'' ''wa'' 300 20 ''ETB/2'' ''shop'' (SystemFees neo) ?l"
  have "case fst ?r of Inl e \<Rightarrow> False | Inr t \<Rightarrow> True" by code_simp
  then obtain t where r: "?r = (Inr t, snd ?r)" by (cases ?r) (auto split: sum.splits)
  have ne: "SystemFees neo \<noteq> or_world ''shop''" "SystemFees neo \<noteq> MainAccount neo ''wa''"
    "lv_bal (fc_view e_ghost ?l) (SystemFees neo) ''ETB/2'' = 0"
    by (code_simp, code_simp, code_simp)
  have free: "ik \<notin> fg_used (e_ghost (fc_server ?l))" for ik by (simp add: seeded_def e_ghost_def)
  show ?thesis
    using DebitWalletWithFee_ignores_fee_account [OF eng.formance_service_axioms r free _ ne(1,2)] ne
    by (simp add: Let_def apply_P)
qed

text \<open>A currency conversion is one transaction: the wallet gives the full amount of the first
  currency, which it must have, and receives exactly the quoted amount of the second; what the exchange
  account cannot cover comes from outside the ledger.\<close>

lemma ConvertCurrency_atomic:
  assumes F: "formance_service F g"
    and run: "ConvertCurrency (FormanceClient F c uuid) ik w n a m b fx l = (r, l')"
    and fresh: "ik \<notin> fg_used (g (fc_server l))" and "fx \<noteq> ''world''" "fx \<noteq> MainAccount c w" "a \<noteq> b"
  shows "case r of
      Inl e \<Rightarrow> lv_bal (fc_view g l') = lv_bal (fc_view g l)
    | Inr tx \<Rightarrow> n \<le> max 0 (lv_bal (fc_view g l) (MainAccount c w) a)
        \<and> lv_bal (fc_view g l') (MainAccount c w) a = lv_bal (fc_view g l) (MainAccount c w) a - n
        \<and> lv_bal (fc_view g l') (MainAccount c w) b = lv_bal (fc_view g l) (MainAccount c w) b + m
        \<and> lv_bal (fc_view g l') fx a = lv_bal (fc_view g l) fx a + n"
proof -
  let ?L = "FormanceClient F c uuid"
  note lc = formance_wallets_contract [OF F, of c uuid]
  have nw: "MainAccount c w \<noteq> ''world''" using Main_World(1) [of c w] by (simp add: World_def)
  show ?thesis
  proof (cases r)
    case (Inl e)
    then show ?thesis using ledger_client.convert_err [OF lc] run by fastforce
  next
    case (Inr tx)
    have "ik \<notin> lv_used (fc_view g l)" using fresh by simp
    from ledger_client.convert_ok [OF lc run [unfolded Inr] this assms(4)]
    show ?thesis using Inr nw assms(4-6) by (auto simp: apply_P funded_def)
  qed
qed

lemma ConvertCurrency_atomic_witness:
  "lv_bal (fc_view e_ghost (snd (ConvertCurrency (FormanceClient engine neo uuids) ''k'' ''wa'' 100 ''USD/2'' 5700 ''ETB/2'' (SystemFX neo)
     (seeded [(MainAccount neo ''wa'', 100, ''USD/2'')])))) (MainAccount neo ''wa'') ''ETB/2'' = 5700"
proof -
  let ?l = "seeded [(MainAccount neo ''wa'', 100, ''USD/2'')]"
  let ?r = "ConvertCurrency (FormanceClient engine neo uuids) ''k'' ''wa'' 100 ''USD/2'' 5700 ''ETB/2'' (SystemFX neo) ?l"
  have "case fst ?r of Inl e \<Rightarrow> False | Inr t \<Rightarrow> True" by code_simp
  then obtain t where r: "?r = (Inr t, snd ?r)" by (cases ?r) (auto split: sum.splits)
  have ne: "SystemFX neo \<noteq> ''world''" "SystemFX neo \<noteq> MainAccount neo ''wa''"
    "lv_bal (fc_view e_ghost ?l) (MainAccount neo ''wa'') ''ETB/2'' = 0"
    by (code_simp, code_simp, code_simp)
  have free: "''k'' \<notin> fg_used (e_ghost (fc_server ?l))" by (simp add: seeded_def e_ghost_def)
  show ?thesis
    using ConvertCurrency_atomic [OF eng.formance_service_axioms r free ne(1,2)] ne(3) by simp
qed

end
