(* ===== verification/Phone.thy ===== *)
theory Phone
  imports Errors
begin

text \<open>
  Package \<open>pkg/phone\<close>: the phone number value type with its JSON and SQL representations.
  The library \<open>github.com/nyaruka/phonenumbers\<close> is the record \<open>phonelib\<close> of the functions the
  package calls, on its \<open>(country code, national number)\<close> values. \<open>phonelib_ok\<close> is what its
  documentation says of E.164: a valid number formatted as E.164 parses back to itself, and
  that form is not empty.
\<close>

section \<open>Definitions\<close>

record PhoneNumber =
  CountryCode :: string
  Number :: string

type_synonym lib_number = "int \<times> nat"

record phonelib =
  pl_Parse :: "string \<Rightarrow> lib_number option"
  pl_IsValidNumber :: "lib_number \<Rightarrow> bool"
  pl_FormatE164 :: "lib_number \<Rightarrow> string"
  pl_IsMobile :: "lib_number \<Rightarrow> bool"
  pl_RegionCode :: "int \<Rightarrow> string"

definition zero_phone :: PhoneNumber where
  "zero_phone = \<lparr>CountryCode = '''', Number = ''''\<rparr>"

text \<open>\<open>strconv.Atoi\<close> and \<open>ParseUint\<close> on the strings \<open>Itoa\<close> and \<open>FormatUint\<close> make; anything
  else gives the zero that the ignored error leaves.\<close>

definition atoi :: "string \<Rightarrow> int option" where
  "atoi s = (if s \<noteq> [] \<and> list_all is_digit s then Some (int (digits_val s))
             else if s \<noteq> [] \<and> hd s = CHR ''-'' \<and> tl s \<noteq> [] \<and> list_all is_digit (tl s)
             then Some (- int (digits_val (tl s)))
             else if s \<noteq> [] \<and> hd s = CHR ''+'' \<and> tl s \<noteq> [] \<and> list_all is_digit (tl s)
             then Some (int (digits_val (tl s)))
             else None)"

definition parseUint :: "string \<Rightarrow> nat" where
  "parseUint s = (if s \<noteq> [] \<and> list_all is_digit s then min (digits_val s) (2 ^ 64 - 1) else 0)"

definition RegionForCountryCode :: "phonelib \<Rightarrow> string \<Rightarrow> string" where
  "RegionForCountryCode lib cc = (case atoi cc of None \<Rightarrow> '''' | Some n \<Rightarrow> pl_RegionCode lib n)"

definition phone_Parse :: "phonelib \<Rightarrow> string \<Rightarrow> go_error + PhoneNumber" where
  "phone_Parse lib raw =
     (if raw = '''' then Inl (Opaque ''phone number is empty'')
      else case pl_Parse lib raw of
        None \<Rightarrow> Inl (Opaque ''invalid phone number'')
      | Some p \<Rightarrow>
          if \<not> pl_IsValidNumber lib p then Inl (Opaque ''phone number is not valid for region'')
          else Inr \<lparr>CountryCode = itoa (fst p), Number = show_nat (snd p)\<rparr>)"

text \<open>\<open>parsed\<close>: the country code is cut to an \<open>int32\<close>.\<close>

definition phone_parsed :: "PhoneNumber \<Rightarrow> lib_number" where
  "phone_parsed p =
     (let cc = (case atoi (CountryCode p) of None \<Rightarrow> 0 | Some n \<Rightarrow> n)
      in ((cc + 2 ^ 31) mod 2 ^ 32 - 2 ^ 31, parseUint (Number p)))"

definition E164 :: "phonelib \<Rightarrow> PhoneNumber \<Rightarrow> string" where
  "E164 lib p = pl_FormatE164 lib (phone_parsed p)"

definition phone_IsMobile :: "phonelib \<Rightarrow> PhoneNumber \<Rightarrow> bool" where
  "phone_IsMobile lib p = pl_IsMobile lib (phone_parsed p)"

definition phone_IsValid :: "phonelib \<Rightarrow> PhoneNumber \<Rightarrow> bool" where
  "phone_IsValid lib p = pl_IsValidNumber lib (phone_parsed p)"

definition phone_IsZero :: "PhoneNumber \<Rightarrow> bool" where
  "phone_IsZero p \<longleftrightarrow> CountryCode p = '''' \<and> Number p = ''''"

text \<open>JSON values as the decoder sees them: a string, an object with the two fields, or other.\<close>

datatype phone_json = JString string | JObject string string | JOther

definition phone_MarshalJSON :: "phonelib \<Rightarrow> PhoneNumber \<Rightarrow> phone_json" where
  "phone_MarshalJSON lib p = JString (if phone_IsZero p then '''' else E164 lib p)"

fun phone_UnmarshalJSON :: "phonelib \<Rightarrow> phone_json \<Rightarrow> go_error + PhoneNumber" where
  "phone_UnmarshalJSON lib (JString raw) =
     (if raw = '''' then Inr zero_phone else phone_Parse lib raw)"
| "phone_UnmarshalJSON lib (JObject cc n) =
     (if cc = '''' \<and> n = '''' then Inr zero_phone else phone_Parse lib (''+'' @ cc @ n))"
| "phone_UnmarshalJSON lib JOther =
     Inl (Opaque ''phone: expected JSON string or {countryCode, number} object'')"

definition phone_Value :: "phonelib \<Rightarrow> PhoneNumber \<Rightarrow> string option" where
  "phone_Value lib p = (if phone_IsZero p then None else Some (E164 lib p))"

definition phone_Scan :: "phonelib \<Rightarrow> string option \<Rightarrow> go_error + PhoneNumber" where
  "phone_Scan lib src =
     (case src of
        None \<Rightarrow> Inr zero_phone
      | Some s \<Rightarrow> if s = '''' then Inr zero_phone else phone_Parse lib s)"

section \<open>Round trips\<close>

definition phonelib_ok :: "phonelib \<Rightarrow> bool" where
  "phonelib_ok lib \<longleftrightarrow> (\<forall>n. pl_IsValidNumber lib n \<longrightarrow>
     0 < fst n \<and> fst n < 1000 \<and> snd n < 10 ^ 15 \<and>
     pl_FormatE164 lib n \<noteq> '''' \<and> pl_Parse lib (pl_FormatE164 lib n) = Some n)"

lemma atoi_itoa: "0 \<le> n \<Longrightarrow> atoi (itoa n) = Some n"
  using show_nat_digits by (auto simp: atoi_def itoa_def list_all_iff)

lemma parseUint_show: "n < 2 ^ 64 \<Longrightarrow> parseUint (show_nat n) = n"
  using show_nat_digits by (auto simp: parseUint_def list_all_iff)

lemma phone_parsed_Parse:
  assumes "phonelib_ok lib" "phone_Parse lib raw = Inr p"
  obtains n where "phone_parsed p = n" "pl_IsValidNumber lib n" "p = \<lparr>CountryCode = itoa (fst n), Number = show_nat (snd n)\<rparr>"
proof -
  obtain n where n: "pl_IsValidNumber lib n" "p = \<lparr>CountryCode = itoa (fst n), Number = show_nat (snd n)\<rparr>"
    using assms(2) by (auto simp: phone_Parse_def split: if_splits option.splits)
  then have b: "0 < fst n" "fst n < 1000" "snd n < 10 ^ 15" using assms(1) by (cases n; simp add: phonelib_ok_def)+
  then have "phone_parsed p = n"
    using n(2) by (cases n) (simp add: phone_parsed_def atoi_itoa parseUint_show)
  with n that show ?thesis by blast
qed

text \<open>A phone number the program has parsed survives the database and the wire: reading back what
  \<open>Value\<close> or \<open>MarshalJSON\<close> wrote gives the same number, and its E.164 form parses to it.\<close>

lemma phone_round_trip:
  assumes "phonelib_ok lib" "phone_Parse lib raw = Inr p"
  shows "phone_Scan lib (phone_Value lib p) = Inr p
    \<and> phone_UnmarshalJSON lib (phone_MarshalJSON lib p) = Inr p
    \<and> phone_Parse lib (E164 lib p) = Inr p"
proof -
  obtain n where n: "phone_parsed p = n" "pl_IsValidNumber lib n"
      "p = \<lparr>CountryCode = itoa (fst n), Number = show_nat (snd n)\<rparr>"
    using phone_parsed_Parse [OF assms] by metis
  have f: "pl_FormatE164 lib n \<noteq> ''''" "pl_Parse lib (pl_FormatE164 lib n) = Some n"
    using assms(1) n(2) by (cases n; simp add: phonelib_ok_def)+
  have e: "E164 lib p = pl_FormatE164 lib n" by (simp add: E164_def n(1))
  have p: "phone_Parse lib (E164 lib p) = Inr p"
    using f n(2) unfolding e phone_Parse_def by (simp add: n(3))
  moreover have "\<not> phone_IsZero p" by (simp add: phone_IsZero_def n(3))
  ultimately show ?thesis using f(1) by (simp add: phone_Scan_def phone_Value_def phone_MarshalJSON_def e)
qed

text \<open>A library that knows Ethiopian mobile numbers of nine digits.\<close>

definition et_lib :: phonelib where
  "et_lib = \<lparr>pl_Parse = (\<lambda>s. if take 4 s = ''+251'' \<and> length s = 13 \<and> list_all is_digit (tl s)
         \<and> 10 ^ 8 \<le> digits_val (drop 4 s) then Some (251, digits_val (drop 4 s)) else None),
     pl_IsValidNumber = (\<lambda>n. fst n = 251 \<and> 10 ^ 8 \<le> snd n \<and> snd n < 10 ^ 9),
     pl_FormatE164 = (\<lambda>n. ''+251'' @ pad0 9 (snd n)),
     pl_IsMobile = (\<lambda>n. True), pl_RegionCode = (\<lambda>n. ''ET'')\<rparr>"

lemma et_lib_ok: "phonelib_ok et_lib"
proof -
  have "pl_Parse et_lib (pl_FormatE164 et_lib n) = Some n" if "pl_IsValidNumber et_lib n" for n
  proof -
    have n: "fst n = 251" "10 ^ 8 \<le> snd n" "snd n < 10 ^ 9" using that by (auto simp: et_lib_def)
    then have "length (pad0 9 (snd n)) = 9" by (intro length_pad0) auto
    moreover have "list_all is_digit (pad0 9 (snd n))" using pad0_digits by (auto simp: list_all_iff)
    moreover have "list_all is_digit ''251''" by code_simp
    ultimately show ?thesis using n by (cases n) (simp add: et_lib_def)
  qed
  then show ?thesis by (auto simp: phonelib_ok_def et_lib_def)
qed

lemma phone_round_trip_witness:
  "phone_Scan et_lib (phone_Value et_lib \<lparr>CountryCode = ''251'', Number = ''911223344''\<rparr>)
     = Inr \<lparr>CountryCode = ''251'', Number = ''911223344''\<rparr>"
proof -
  have d: "digits_val ''911223344'' = 911223344" by (simp add: digits_val_def digit_val_def)
  have "list_all is_digit ''251911223344''" by code_simp
  then have "pl_Parse et_lib ''+251911223344'' = Some (251, 911223344)"
    by (simp add: et_lib_def d)
  moreover have "show_nat 911223344 = ''911223344''" "itoa 251 = ''251''"
    by (simp_all add: show_nat.simps itoa_def)
  ultimately have "phone_Parse et_lib ''+251911223344'' = Inr \<lparr>CountryCode = ''251'', Number = ''911223344''\<rparr>"
    by (simp add: phone_Parse_def et_lib_def)
  from phone_round_trip [OF et_lib_ok this] show ?thesis by blast
qed

end
