(* ===== verification/Domain.thy ===== *)
theory Domain
  imports Money Phone
begin

text \<open>
  The data of \<open>internal/domain\<close>: one record per struct, one datatype per enumeration. Times are
  nanoseconds as integers, \<open>*T\<close> is \<open>option\<close>, \<open>int64\<close> and \<open>int\<close> are integers. Audit actions stay
  the strings they are in the source. JSON stored in receipts is the value that was marshalled.
  Columns that no modelled operation reads or decides on (timestamps of the last update, routing
  numbers, client addresses of audit rows) are left out of the records.
\<close>

section \<open>Users\<close>

datatype AccountType = AccountTypePersonal | AccountTypeBusiness

record User =
  u_ID :: string
  u_PhoneNumber :: PhoneNumber
  u_Username :: "string option"
  u_PasswordHash :: string
  u_AccountType :: AccountType
  u_FaydaIDNumber :: "string option"
  u_FirstName :: "string option"
  u_MiddleName :: "string option"
  u_LastName :: "string option"
  u_DateOfBirth :: "int option"
  u_Gender :: "string option"
  u_FaydaPhotoURL :: "string option"
  u_KYCLevel :: int
  u_IsFrozen :: bool
  u_FrozenReason :: "string option"
  u_FrozenAt :: "int option"
  u_LedgerWalletID :: string
  u_TelegramID :: "int option"
  u_TelegramUsername :: "string option"
  u_SpendWaterfallOrder :: "string list"
  u_CreatedAt :: int
  u_UpdatedAt :: int

definition FullName :: "User \<Rightarrow> string" where
  "FullName u =
     (case u_FirstName u of None \<Rightarrow> '''' | Some n \<Rightarrow> n)
     @ (case u_MiddleName u of None \<Rightarrow> '''' | Some n \<Rightarrow> '' '' @ n)
     @ (case u_LastName u of None \<Rightarrow> '''' | Some n \<Rightarrow> '' '' @ n)"

section \<open>Fees\<close>

datatype FeeType = FeeTypeFXSpread | FeeTypeTransferFlat | FeeTypeTransferPercent | FeeTypeCorridorMarkup

datatype TransactionType = TxTypeP2P | TxTypeEthSwitchOut | TxTypeFXConversion
  | TxTypeCardInternational | TxTypeInternationalTransfer

record FeeSchedule =
  fs_ID :: string
  fs_Name :: string
  fs_FeeType :: FeeType
  fs_TransactionType :: TransactionType
  fs_Currency :: "string option"
  fs_Channel :: "string option"
  fs_FlatAmountCents :: int
  fs_PercentBps :: int
  fs_MinFeeCents :: int
  fs_MaxFeeCents :: int
  fs_IsActive :: bool
  fs_EffectiveFrom :: int
  fs_EffectiveTo :: "int option"
  fs_CreatedAt :: int
  fs_UpdatedAt :: int

record FeeDetail =
  fd_Name :: string
  fd_AmountCents :: int
  fd_Type :: string

record FeeBreakdown =
  fb_OurFeeCents :: int
  fb_PartnerFeeCents :: int
  fb_TotalFeeCents :: int
  fb_Details :: "FeeDetail list"

section \<open>Overdrafts\<close>

datatype OverdraftStatus = OverdraftInactive | OverdraftActive | OverdraftUsed | OverdraftSuspended

record Overdraft =
  od_ID :: string
  od_UserID :: string
  od_LimitCents :: int
  od_UsedCents :: int
  od_DailyFeeBasisPoints :: int
  od_InterestFreeDays :: int
  od_AccruedFeeCents :: int
  od_Status :: OverdraftStatus
  od_OverdrawnSince :: "int option"
  od_LastFeeAccrualAt :: "int option"
  od_OptedInAt :: "int option"
  od_CreatedAt :: int
  od_UpdatedAt :: int

text \<open>\<open>available_cents\<close> is a generated column of the table.\<close>

definition od_AvailableCents :: "Overdraft \<Rightarrow> int" where
  "od_AvailableCents d = od_LimitCents d - od_UsedCents d"

section \<open>Receipts\<close>

datatype ReceiptType = ReceiptP2PSend | ReceiptP2PReceive | ReceiptEthSwitchOut | ReceiptEthSwitchIn
  | ReceiptCardPurchase | ReceiptCardATM | ReceiptLoanDisbursement | ReceiptLoanRepayment | ReceiptFee
  | ReceiptConvertOut | ReceiptConvertIn | ReceiptBatchSend | ReceiptPotDeposit | ReceiptPotWithdraw

datatype ReceiptStatus = ReceiptPending | ReceiptCompleted | ReceiptFailed | ReceiptReversed

record BatchSendRecipient =
  br_Name :: string
  br_Phone :: string
  br_UserID :: string
  br_AmountCents :: int
  br_Narration :: string

record InflowOverdraftMetadata =
  io_TotalInflowCents :: int
  io_OverdraftRepaymentCents :: int
  io_NetInflowCents :: int

record ConvertMetadata =
  cm_FromCurrency :: string
  cm_ToCurrency :: string
  cm_Inflow :: "InflowOverdraftMetadata option"

datatype receipt_metadata =
    MetaBatchSend "BatchSendRecipient list"
  | MetaInflowOverdraft InflowOverdraftMetadata
  | MetaPotTransfer string string
  | MetaConvert ConvertMetadata

record TransactionReceipt =
  rc_ID :: string
  rc_UserID :: string
  rc_LedgerTransactionID :: string
  rc_EthSwitchReference :: "string option"
  rc_IdempotencyKey :: "string option"
  rc_Type :: ReceiptType
  rc_Status :: ReceiptStatus
  rc_AmountCents :: int
  rc_Currency :: string
  rc_CounterpartyName :: "string option"
  rc_CounterpartyPhone :: "PhoneNumber option"
  rc_CounterpartyInstitution :: "string option"
  rc_Narration :: "string option"
  rc_Purpose :: "string option"
  rc_BeneficiaryID :: "string option"
  rc_FeeCents :: int
  rc_Metadata :: "receipt_metadata option"
  rc_CreatedAt :: int

definition receipt0 :: TransactionReceipt where
  "receipt0 = \<lparr>rc_ID = '''', rc_UserID = '''', rc_LedgerTransactionID = '''', rc_EthSwitchReference = None,
     rc_IdempotencyKey = None, rc_Type = ReceiptP2PSend, rc_Status = ReceiptPending, rc_AmountCents = 0,
     rc_Currency = '''', rc_CounterpartyName = None, rc_CounterpartyPhone = None,
     rc_CounterpartyInstitution = None, rc_Narration = None, rc_Purpose = None, rc_BeneficiaryID = None,
     rc_FeeCents = 0, rc_Metadata = None, rc_CreatedAt = 0\<rparr>"

section \<open>Audit\<close>

datatype json = JS string | JI int | JB bool

record AuditEntry =
  au_Action :: string
  au_ActorType :: string
  au_ActorID :: "string option"
  au_ResourceType :: string
  au_ResourceID :: string
  au_Metadata :: "(string \<times> json) list"

section \<open>Regulation\<close>

datatype RuleValueType = RuleTypeAmountCents | RuleTypeBool | RuleTypePercent | RuleTypeEnum | RuleTypeDuration

datatype RuleScope = RuleScopeGlobal | RuleScopeKYCLevel | RuleScopeAccountType | RuleScopeCurrency

record RegulatoryRule =
  rr_ID :: string
  rr_Key :: string
  rr_Description :: string
  rr_ValueType :: RuleValueType
  rr_Value :: string
  rr_Scope :: RuleScope
  rr_ScopeValue :: string
  rr_EffectiveFrom :: int
  rr_EffectiveTo :: "int option"
  rr_NBEReference :: string
  rr_CreatedAt :: int
  rr_UpdatedAt :: int

record TransferTotal =
  tt_UserID :: string
  tt_Currency :: string
  tt_Direction :: string
  tt_Date :: int
  tt_TotalCents :: int
  tt_TxCount :: int

section \<open>Recipients\<close>

datatype RecipientType = RecipientNeoUser | RecipientBankAccount

datatype RecipientStatus = RecipientActive | RecipientArchived

record Recipient =
  rp_ID :: string
  rp_OwnerUserID :: string
  rp_Type :: RecipientType
  rp_DisplayName :: string
  rp_NeoUserID :: "string option"
  rp_CountryCode :: "string option"
  rp_Number :: "string option"
  rp_Username :: "string option"
  rp_InstitutionCode :: "string option"
  rp_BankName :: "string option"
  rp_SwiftBIC :: "string option"
  rp_AccountNumber :: "string option"
  rp_AccountNumberMasked :: "string option"
  rp_BankCountryCode :: "string option"
  rp_BeneficiaryID :: "string option"
  rp_IsBeneficiary :: bool
  rp_IsFavorite :: bool
  rp_LastUsedAt :: "int option"
  rp_LastUsedCurrency :: "string option"
  rp_TransferCount :: int
  rp_Status :: RecipientStatus
  rp_CreatedAt :: int

section \<open>Lending\<close>

datatype LoanStatus = LoanActive | LoanInArrears | LoanDefaulted | LoanRepaid | LoanWrittenOff

record Loan =
  ln_ID :: string
  ln_UserID :: string
  ln_PrincipalAmountCents :: int
  ln_InterestFeeCents :: int
  ln_TotalDueCents :: int
  ln_TotalPaidCents :: int
  ln_DurationDays :: int
  ln_DisbursedAt :: int
  ln_DueDate :: int
  ln_Status :: LoanStatus
  ln_DaysPastDue :: int
  ln_LedgerLoanAccount :: string
  ln_LedgerDisbursementTx :: "string option"
  ln_IdempotencyKey :: "string option"

definition RemainingCents :: "Loan \<Rightarrow> int" where
  "RemainingCents l = i64 (ln_TotalDueCents l - ln_TotalPaidCents l)"

record LoanInstallment =
  li_ID :: string
  li_LoanID :: string
  li_InstallmentNumber :: int
  li_AmountDueCents :: int
  li_AmountPaidCents :: int
  li_DueDate :: int
  li_IsPaid :: bool
  li_PaidAt :: "int option"
  li_LedgerRepaymentTx :: "string option"

record CreditProfile =
  cp_UserID :: string
  cp_TrustScore :: int
  cp_ApprovedLimitCents :: int
  cp_AvgMonthlyInflowCents :: int
  cp_AvgMonthlyBalanceCents :: int
  cp_ActiveDaysPerMonth :: int
  cp_TotalLoansRepaid :: int
  cp_LatePaymentsCount :: int
  cp_CurrentOutstandingCents :: int
  cp_IsNBEBlacklisted :: bool
  cp_BlacklistCheckedAt :: "int option"
  cp_LastCalculatedAt :: int

definition IsEligibleForLoan :: "CreditProfile \<Rightarrow> bool" where
  "IsEligibleForLoan cp \<longleftrightarrow> cp_TrustScore cp > 600 \<and> cp_ApprovedLimitCents cp > 0
     \<and> cp_CurrentOutstandingCents cp = 0 \<and> \<not> cp_IsNBEBlacklisted cp"

definition AvailableBorrowingCents :: "CreditProfile \<Rightarrow> int" where
  "AvailableBorrowingCents cp =
     (let available = i64 (cp_ApprovedLimitCents cp - cp_CurrentOutstandingCents cp)
      in if available < 0 then 0 else available)"

section \<open>Pots and balances\<close>

record Pot =
  pt_ID :: string
  pt_UserID :: string
  pt_Name :: string
  pt_CurrencyCode :: string
  pt_TargetCents :: "int option"
  pt_Emoji :: "string option"
  pt_IsArchived :: bool
  pt_ArchivedAt :: "int option"
  pt_CreatedAt :: int
  pt_BalanceCents :: int
  pt_Display :: string
  pt_ProgressPercent :: float64

record CurrencyBalance =
  cb_ID :: string
  cb_UserID :: string
  cb_CurrencyCode :: string
  cb_IsPrimary :: bool
  cb_FXSource :: "string option"
  cb_CreatedAt :: int
  cb_DeletedAt :: "int option"

record AccountDetails =
  ad_ID :: string
  ad_CurrencyBalanceID :: string
  ad_IBAN :: string
  ad_AccountNumber :: string
  ad_BankName :: string
  ad_SwiftCode :: string
  ad_RoutingNumber :: "string option"

record CurrencyBalanceWithDetails =
  cw_CurrencyBalance :: CurrencyBalance
  cw_AccountDetails :: "AccountDetails option"
  cw_BalanceCents :: int
  cw_Display :: string

section \<open>Payment requests\<close>

text \<open>Without the display names the queries join in and without \<open>updated_at\<close>.\<close>

datatype PaymentRequestStatus = PaymentRequestPending | PaymentRequestPaid | PaymentRequestDeclined
  | PaymentRequestCancelled | PaymentRequestExpired

record PaymentRequest =
  pr_ID :: string
  pr_RequesterID :: string
  pr_PayerID :: "string option"
  pr_PayerPhone :: PhoneNumber
  pr_AmountCents :: int
  pr_CurrencyCode :: string
  pr_Narration :: string
  pr_Status :: PaymentRequestStatus
  pr_TransactionID :: "string option"
  pr_DeclineReason :: "string option"
  pr_ReminderCount :: int
  pr_LastRemindedAt :: "int option"
  pr_PaidAt :: "int option"
  pr_DeclinedAt :: "int option"
  pr_CancelledAt :: "int option"
  pr_ExpiresAt :: int
  pr_CreatedAt :: int

section \<open>Exchange rates\<close>

datatype FXRateSource = FXRateSourceNBE | FXRateSourceManual | FXRateSourceAPI

record FXRate =
  fx_FromCurrency :: string
  fx_ToCurrency :: string
  fx_MidRate :: float64
  fx_BidRate :: float64
  fx_AskRate :: float64
  fx_SpreadPercent :: float64
  fx_Source :: FXRateSource
  fx_FetchedAt :: int
  fx_CreatedAt :: int

text \<open>The quote of a rate provider.\<close>

record Rate =
  rt_From :: string
  rt_To :: string
  rt_Mid :: float64
  rt_Bid :: float64
  rt_Ask :: float64
  rt_Spread :: float64
  rt_Timestamp :: int
  rt_Source :: string

record ConvertRequest =
  cq_FromCurrency :: string
  cq_ToCurrency :: string
  cq_AmountCents :: int

record ConvertResponse =
  cs_FromCurrency :: string
  cs_ToCurrency :: string
  cs_FromAmountCents :: int
  cs_ToAmountCents :: int
  cs_Rate :: float64
  cs_Spread :: "float64 option"
  cs_EffectiveRate :: "float64 option"
  cs_TransactionID :: string

section \<open>Idempotency\<close>

datatype IdempotencyStatus = IdempotencyStarted | IdempotencyCompleted | IdempotencyFailed

record IdempotencyRecord =
  ir_Key :: string
  ir_UserID :: string
  ir_RequestHash :: string
  ir_Endpoint :: string
  ir_Status :: IdempotencyStatus
  ir_ResponseCode :: "int option"
  ir_ResponseBody :: "string option"
  ir_LockExpiresAt :: int
  ir_CreatedAt :: int

definition IsCompleted :: "IdempotencyRecord \<Rightarrow> bool" where
  "IsCompleted r \<longleftrightarrow> ir_Status r = IdempotencyCompleted"

definition IsFailed :: "IdempotencyRecord \<Rightarrow> bool" where
  "IsFailed r \<longleftrightarrow> ir_Status r = IdempotencyFailed"

definition IsInFlight :: "IdempotencyRecord \<Rightarrow> int \<Rightarrow> bool" where
  "IsInFlight r now \<longleftrightarrow> ir_Status r = IdempotencyStarted \<and> now < ir_LockExpiresAt r"

definition IsLockExpired :: "IdempotencyRecord \<Rightarrow> int \<Rightarrow> bool" where
  "IsLockExpired r now \<longleftrightarrow> ir_Status r = IdempotencyStarted \<and> \<not> now < ir_LockExpiresAt r"

section \<open>Cards\<close>

datatype CardStatus = CardStatusActive | CardStatusFrozen | CardStatusCancelled | CardStatusExpired
  | CardStatusPendingActivation

datatype CardType = CardTypePhysical | CardTypeVirtual | CardTypeEphemeral

record Card =
  cd_ID :: string
  cd_UserID :: string
  cd_TokenizedPAN :: string
  cd_LastFour :: string
  cd_ExpiryMonth :: int
  cd_ExpiryYear :: int
  cd_Type :: CardType
  cd_Status :: CardStatus
  cd_AllowOnline :: bool
  cd_AllowContactless :: bool
  cd_AllowATM :: bool
  cd_AllowInternational :: bool
  cd_DailyLimitCents :: int
  cd_MonthlyLimitCents :: int
  cd_PerTxnLimitCents :: int

definition card_IsActive :: "Card \<Rightarrow> bool" where
  "card_IsActive c \<longleftrightarrow> cd_Status c = CardStatusActive"

datatype AuthStatus = AuthApproved | AuthDeclined | AuthCleared | AuthReversed | AuthPartiallyCleared
  | AuthExpired

record CardAuthorization =
  ca_ID :: string
  ca_CardID :: string
  ca_RRN :: string
  ca_STAN :: string
  ca_AuthCode :: "string option"
  ca_MerchantName :: "string option"
  ca_MerchantID :: "string option"
  ca_MerchantCategoryCode :: "string option"
  ca_TerminalID :: "string option"
  ca_AcquiringInstitution :: "string option"
  ca_AuthAmountCents :: int
  ca_SettlementAmountCents :: "int option"
  ca_Currency :: string
  ca_MerchantCurrency :: "string option"
  ca_FXRateApplied :: "float64 option"
  ca_FXFromCurrency :: "string option"
  ca_FXFromAmountCents :: "int option"
  ca_Status :: AuthStatus
  ca_DeclineReason :: "string option"
  ca_ResponseCode :: "string option"
  ca_LedgerHoldID :: "string option"
  ca_AuthorizedAt :: int
  ca_SettledAt :: "int option"
  ca_ReversedAt :: "int option"
  ca_ExpiresAt :: int

section \<open>Businesses\<close>

datatype BusinessStatus = BusinessStatusPendingVerification | BusinessStatusActive | BusinessStatusSuspended
  | BusinessStatusDeactivated

record Business =
  bz_ID :: string
  bz_OwnerUserID :: string
  bz_Name :: string
  bz_TradeName :: "string option"
  bz_TINNumber :: string
  bz_TradeLicenseNumber :: string
  bz_IndustryCategory :: string
  bz_IndustrySubCategory :: "string option"
  bz_Address :: "string option"
  bz_City :: "string option"
  bz_SubCity :: "string option"
  bz_Woreda :: "string option"
  bz_PhoneNumber :: PhoneNumber
  bz_Email :: "string option"
  bz_Website :: "string option"
  bz_Status :: BusinessStatus
  bz_LedgerWalletID :: string
  bz_KYBLevel :: int
  bz_IsFrozen :: bool
  bz_FrozenReason :: "string option"
  bz_FrozenAt :: "int option"

text \<open>A permission is its string.\<close>

record BusinessRole =
  ro_ID :: string
  ro_BusinessID :: "string option"
  ro_Name :: string
  ro_Description :: "string option"
  ro_IsSystem :: bool
  ro_IsDefault :: bool
  ro_MaxTransferCents :: "int option"
  ro_DailyTransferLimitCents :: "int option"
  ro_RequiresApprovalAboveCents :: "int option"
  ro_Permissions :: "string list"

definition role_HasPermission :: "BusinessRole \<Rightarrow> string \<Rightarrow> bool" where
  "role_HasPermission r perm \<longleftrightarrow> perm \<in> set (ro_Permissions r)"

record BusinessMember =
  bm_ID :: string
  bm_BusinessID :: string
  bm_UserID :: string
  bm_RoleID :: string
  bm_Title :: "string option"
  bm_InvitedBy :: string
  bm_JoinedAt :: int
  bm_IsActive :: bool
  bm_RemovedAt :: "int option"
  bm_RemovedBy :: "string option"

datatype PendingTransferStatus = PendingTransferPending | PendingTransferApproved | PendingTransferRejected
  | PendingTransferExpired

record PendingTransfer =
  pd_ID :: string
  pd_BusinessID :: string
  pd_InitiatedBy :: string
  pd_TransferType :: string
  pd_AmountCents :: int
  pd_CurrencyCode :: string
  pd_RecipientInfo :: string
  pd_Status :: PendingTransferStatus
  pd_Reason :: "string option"
  pd_ApprovedBy :: "string option"
  pd_ApprovedAt :: "int option"
  pd_RejectedBy :: "string option"
  pd_RejectedAt :: "int option"
  pd_ExpiresAt :: int
  pd_CreatedAt :: int

section \<open>Reconciliation\<close>

datatype ExceptionType = ExceptionMissingInLedger | ExceptionMissingInEthSwitch | ExceptionAmountMismatch
  | ExceptionStatusMismatch | ExceptionDuplicateReference | ExceptionOrphanedHold

datatype ExceptionStatus = ExceptionOpen | ExceptionInvestigating | ExceptionResolved | ExceptionEscalated

record ReconException =
  re_ID :: string
  re_EthSwitchReference :: string
  re_ErrorType :: ExceptionType
  re_EthSwitchReportedAmountCents :: int
  re_PostgresReportedAmountCents :: "int option"
  re_AmountDifferenceCents :: "int option"
  re_Status :: ExceptionStatus
  re_AssignedTo :: "string option"
  re_ResolutionNotes :: "string option"
  re_ResolutionAction :: "string option"
  re_ReconRunDate :: int
  re_ClearingFileName :: "string option"
  re_CreatedAt :: int
  re_ResolvedAt :: "int option"

record ReconRun =
  rn_ID :: string
  rn_RunDate :: int
  rn_ClearingFileName :: string
  rn_TotalRecords :: int
  rn_MatchedCount :: int
  rn_ExceptionCount :: int
  rn_StartedAt :: int
  rn_FinishedAt :: "int option"
  rn_Status :: string
  rn_ErrorMessage :: "string option"

section \<open>Beneficiaries and remittance quotes\<close>

datatype BeneficiaryRelType = BeneficiarySpouse | BeneficiaryChild | BeneficiaryParent

record Beneficiary =
  bf_ID :: string
  bf_UserID :: string
  bf_FullName :: string
  bf_Relationship :: BeneficiaryRelType
  bf_DocumentURL :: "string option"
  bf_IsVerified :: bool
  bf_CreatedAt :: int
  bf_DeletedAt :: "int option"

record RemittanceQuote =
  qt_ProviderID :: string
  qt_ProviderName :: string
  qt_QuoteID :: string
  qt_SourceCurrency :: string
  qt_TargetCurrency :: string
  qt_SourceAmount :: int
  qt_TargetAmount :: int
  qt_ExchangeRate :: float64
  qt_ProviderFeeCents :: int
  qt_DeliveryEstimate :: string
  qt_ExpiresAt :: int
  qt_Fee :: "FeeBreakdown option"

section \<open>Sessions, identity checks and staff\<close>

record Session =
  ss_ID :: string
  ss_UserID :: string
  ss_RefreshToken :: string
  ss_UserAgent :: "string option"
  ss_IPAddress :: "string option"
  ss_ExpiresAt :: int
  ss_RevokedAt :: "int option"
  ss_CreatedAt :: int

datatype KYCVerificationStatus = KYCStatusPending | KYCStatusVerified | KYCStatusFailed | KYCStatusExpired

record KYCVerification =
  ky_ID :: string
  ky_UserID :: string
  ky_FaydaFIN :: string
  ky_FaydaTransactionID :: string
  ky_Status :: KYCVerificationStatus
  ky_VerifiedAt :: "int option"
  ky_FaydaExpiryDate :: "int option"
  ky_RawResponseHash :: "string option"
  ky_CreatedAt :: int

record TelegramLinkToken =
  tl_Token :: string
  tl_UserID :: string
  tl_Consumed :: bool
  tl_ExpiresAt :: int
  tl_CreatedAt :: int

record Staff =
  sf_ID :: string
  sf_Email :: string
  sf_FullName :: string
  sf_Role :: string
  sf_Department :: string
  sf_IsActive :: bool
  sf_PasswordHash :: string
  sf_LastLoginAt :: "int option"
  sf_CreatedBy :: "string option"
  sf_CreatedAt :: int
  sf_DeactivatedAt :: "int option"

record CustomerFlag =
  fg_ID :: string
  fg_UserID :: string
  fg_FlagType :: string
  fg_Severity :: string
  fg_Description :: string
  fg_CreatedBy :: "string option"
  fg_IsResolved :: bool
  fg_ResolvedBy :: "string option"
  fg_ResolvedAt :: "int option"
  fg_ResolutionNote :: "string option"
  fg_CreatedAt :: int

record SystemConfig =
  sc_Key :: string
  sc_Value :: json
  sc_Description :: "string option"
  sc_UpdatedBy :: "string option"
  sc_UpdatedAt :: int

section \<open>Books of a business\<close>

datatype BatchStatus = BatchDraft | BatchApproved | BatchProcessing | BatchCompleted | BatchPartial | BatchFailed

datatype BatchItemStatus = BatchItemPending | BatchItemProcessing | BatchItemCompleted | BatchItemFailed

record BatchPayment =
  ba_ID :: string
  ba_BusinessID :: string
  ba_Name :: string
  ba_TotalCents :: int
  ba_CurrencyCode :: string
  ba_ItemCount :: int
  ba_Status :: BatchStatus
  ba_InitiatedBy :: string
  ba_ApprovedBy :: "string option"
  ba_ApprovedAt :: "int option"
  ba_ProcessedAt :: "int option"
  ba_CompletedAt :: "int option"
  ba_CreatedAt :: int

record BatchPaymentItem =
  bx_ID :: string
  bx_BatchID :: string
  bx_RecipientName :: string
  bx_RecipientPhone :: "PhoneNumber option"
  bx_RecipientBank :: "string option"
  bx_RecipientAccount :: "string option"
  bx_AmountCents :: int
  bx_Narration :: "string option"
  bx_CategoryID :: "string option"
  bx_Status :: BatchItemStatus
  bx_TransactionID :: "string option"
  bx_ErrorMessage :: "string option"
  bx_CreatedAt :: int

record TransactionCategory =
  kt_ID :: string
  kt_BusinessID :: "string option"
  kt_Name :: string
  kt_Color :: "string option"
  kt_Icon :: "string option"
  kt_IsSystem :: bool
  kt_CreatedAt :: int

record TransactionLabel =
  lb_ID :: string
  lb_TransactionID :: string
  lb_CategoryID :: "string option"
  lb_CustomLabel :: "string option"
  lb_Notes :: "string option"
  lb_TaggedBy :: string
  lb_TaxDeductible :: bool
  lb_CreatedAt :: int

definition ValidTaxTypes :: "string list" where
  "ValidTaxTypes = [''vat'', ''income_tax'', ''withholding_tax'', ''pension'', ''excise'', ''custom_duty'', ''other'']"

record TaxPot =
  tp_ID :: string
  tp_BusinessID :: string
  tp_PotID :: string
  tp_TaxType :: string
  tp_AutoSweepPercent :: "rat option"
  tp_DueDate :: "string option"
  tp_Notes :: "string option"
  tp_CreatedAt :: int
  tp_Pot :: "Pot option"

datatype InvoiceStatus = InvoiceDraft | InvoiceSent | InvoiceViewed | InvoicePartiallyPaid | InvoicePaid | InvoiceOverdue
  | InvoiceCancelled

record InvoiceLineItem =
  il_ID :: string
  il_InvoiceID :: string
  il_Description :: string
  il_Quantity :: rat
  il_UnitPriceCents :: int
  il_TotalCents :: int
  il_CategoryID :: "string option"
  il_SortOrder :: int
  il_CreatedAt :: int

record Invoice =
  iv_ID :: string
  iv_BusinessID :: string
  iv_InvoiceNumber :: string
  iv_CustomerName :: string
  iv_CustomerPhone :: "PhoneNumber option"
  iv_CustomerEmail :: "string option"
  iv_CustomerUserID :: "string option"
  iv_CurrencyCode :: string
  iv_SubtotalCents :: int
  iv_TaxCents :: int
  iv_TotalCents :: int
  iv_PaidCents :: int
  iv_Status :: InvoiceStatus
  iv_IssueDate :: string
  iv_DueDate :: string
  iv_Notes :: "string option"
  iv_PaymentLink :: "string option"
  iv_CreatedBy :: string
  iv_CreatedAt :: int
  iv_UpdatedAt :: int
  iv_LineItems :: "InvoiceLineItem list"

text \<open>The values of \<open>DocumentType\<close>.\<close>

definition DocumentTypes :: "string list" where
  "DocumentTypes = [''trade_license'', ''tin_certificate'', ''memorandum'', ''articles_of_association'', ''bank_statement'',
     ''tax_return'', ''contract'', ''invoice_attachment'', ''receipt'', ''id_document'', ''other'']"

record BusinessDocument =
  dm_ID :: string
  dm_BusinessID :: string
  dm_Name :: string
  dm_DocumentType :: string
  dm_FileKey :: string
  dm_FileSizeBytes :: int
  dm_MimeType :: string
  dm_UploadedBy :: string
  dm_Description :: "string option"
  dm_Tags :: "string list"
  dm_IsArchived :: bool
  dm_ExpiresAt :: "string option"
  dm_CreatedAt :: int

record BusinessCreditProfile =
  bc_BusinessID :: string
  bc_TrustScore :: int
  bc_ApprovedLimitCents :: int
  bc_AvgMonthlyRevenueCents :: int
  bc_AvgMonthlyExpensesCents :: int
  bc_CashFlowScore :: int
  bc_TimeInBusinessMonths :: int
  bc_IndustryRiskScore :: int
  bc_TotalLoansRepaid :: int
  bc_LatePaymentsCount :: int
  bc_CurrentOutstandingCents :: int
  bc_CollateralValueCents :: int
  bc_IsNBEBlacklisted :: bool
  bc_LastCalculatedAt :: int

definition business_IsEligibleForLoan :: "BusinessCreditProfile \<Rightarrow> bool" where
  "business_IsEligibleForLoan cp \<longleftrightarrow> bc_TrustScore cp > 600 \<and> bc_ApprovedLimitCents cp > 0 \<and> \<not> bc_IsNBEBlacklisted cp"

definition business_AvailableBorrowingCents :: "BusinessCreditProfile \<Rightarrow> int" where
  "business_AvailableBorrowingCents cp =
     (let available = i64 (bc_ApprovedLimitCents cp - bc_CurrentOutstandingCents cp)
      in if available < 0 then 0 else available)"

record BusinessLoan =
  bl_ID :: string
  bl_BusinessID :: string
  bl_PrincipalAmountCents :: int
  bl_InterestFeeCents :: int
  bl_TotalDueCents :: int
  bl_TotalPaidCents :: int
  bl_DurationDays :: int
  bl_DisbursedAt :: int
  bl_DueDate :: int
  bl_Status :: LoanStatus
  bl_DaysPastDue :: int
  bl_Purpose :: "string option"
  bl_CollateralDescription :: "string option"
  bl_LedgerLoanAccount :: string
  bl_LedgerDisbursementTx :: "string option"
  bl_AppliedBy :: string
  bl_ApprovedBy :: "string option"
  bl_CreatedAt :: int

definition business_RemainingCents :: "BusinessLoan \<Rightarrow> int" where
  "business_RemainingCents l = i64 (bl_TotalDueCents l - bl_TotalPaidCents l)"

record BusinessLoanInstallment =
  bn_ID :: string
  bn_LoanID :: string
  bn_InstallmentNumber :: int
  bn_AmountDueCents :: int
  bn_AmountPaidCents :: int
  bn_DueDate :: int
  bn_IsPaid :: bool
  bn_PaidAt :: "int option"
  bn_LedgerRepaymentTx :: "string option"
  bn_CreatedAt :: int

end
