(* ===== verification/World.thy ===== *)
theory World
  imports Domain Cache Ledger_Client
begin

text \<open>
  The state the services work on. \<open>'l world\<close> holds the ledger client's state, the clock, the shared
  cache and one list of rows per database table. \<open>env\<close> collects what comes from outside the
  repository: the stream of random UUIDs, which database round trip fails (\<open>e_db_ok\<close>), the phone
  library, the UUID syntax check, the tags of the validator library (\<open>e_tag\<close>), the times at
  which the caller's context is cancelled, and two conversions of PostgreSQL: of text to a date, given back as text
  (\<open>e_date\<close>), and of a float to a decimal with two places (\<open>e_numeric\<close>).

  Every repository method is one round trip, \<open>dbA\<close>: it fails with an opaque error and no effect
  when the environment says so, otherwise it is the SQL statement on the lists.
\<close>

section \<open>State\<close>

datatype cached = CFees "FeeSchedule list" | CRules "RegulatoryRule list" | CRate Rate | CRole BusinessRole
  | CQuote RemittanceQuote

text \<open>A field of a request struct as the validator library sees it: a string, an integer, a phone
  number, or a slice by its length.\<close>

datatype fval = FStr string | FInt int | FPhone PhoneNumber | FLen nat

record env =
  e_uuid :: "nat \<Rightarrow> string"
  e_db_ok :: "nat \<Rightarrow> bool"
  e_phone :: phonelib
  e_is_uuid :: "string \<Rightarrow> bool"
  e_tag :: "string \<Rightarrow> fval \<Rightarrow> bool"
  e_cancelled :: "int \<Rightarrow> bool"
  e_date :: "string \<Rightarrow> string option"
  e_numeric :: "rat \<Rightarrow> rat option"

record 'l world =
  w_ledger :: 'l
  w_now :: int
  w_dbn :: nat
  w_uuidn :: nat
  w_cache :: "cached MemoryCache"
  w_users :: "User list"
  w_overdrafts :: "Overdraft list"
  w_profiles :: "CreditProfile list"
  w_loans :: "Loan list"
  w_installments :: "LoanInstallment list"
  w_receipts :: "TransactionReceipt list"
  w_audit :: "AuditEntry list"
  w_rules :: "RegulatoryRule list"
  w_totals :: "TransferTotal list"
  w_recipients :: "Recipient list"
  w_fees :: "FeeSchedule list"
  w_pots :: "Pot list"
  w_balances :: "CurrencyBalance list"
  w_requests :: "PaymentRequest list"
  w_cards :: "Card list"
  w_auths :: "CardAuthorization list"
  w_rates :: "FXRate list"
  w_details :: "AccountDetails list"
  w_acctseq :: int
  w_idem :: "IdempotencyRecord list"
  w_businesses :: "Business list"
  w_broles :: "BusinessRole list"
  w_bperms :: "(string \<times> string) list"
  w_members :: "BusinessMember list"
  w_pending :: "PendingTransfer list"
  w_runs :: "ReconRun list"
  w_exceptions :: "ReconException list"
  w_beneficiaries :: "Beneficiary list"
  w_sessions :: "Session list"
  w_kyc :: "KYCVerification list"
  w_link_tokens :: "TelegramLinkToken list"
  w_staff :: "Staff list"
  w_flags :: "CustomerFlag list"
  w_config :: "SystemConfig list"
  w_batches :: "BatchPayment list"
  w_batch_items :: "BatchPaymentItem list"
  w_categories :: "TransactionCategory list"
  w_labels :: "TransactionLabel list"
  w_tax_pots :: "TaxPot list"
  w_invoices :: "Invoice list"
  w_line_items :: "InvoiceLineItem list"
  w_documents :: "BusinessDocument list"
  w_bprofiles :: "BusinessCreditProfile list"
  w_bloans :: "BusinessLoan list"
  w_binstallments :: "BusinessLoanInstallment list"

type_synonym ('l, 'a) go = "('l world, go_error, 'a) act"

definition empty_world :: "'l \<Rightarrow> int \<Rightarrow> 'l world" where
  "empty_world l now =
     \<lparr>w_ledger = l, w_now = now, w_dbn = 0, w_uuidn = 0, w_cache = NewMemoryCache, w_users = [],
      w_overdrafts = [], w_profiles = [], w_loans = [], w_installments = [], w_receipts = [], w_audit = [],
      w_rules = [], w_totals = [], w_recipients = [], w_fees = [], w_pots = [], w_balances = [],
      w_requests = [], w_cards = [], w_auths = [], w_rates = [], w_details = [], w_acctseq = 1000000001,
      w_idem = [], w_businesses = [], w_broles = [], w_bperms = [], w_members = [], w_pending = [], w_runs = [],
      w_exceptions = [], w_beneficiaries = [], w_sessions = [], w_kyc = [], w_link_tokens = [], w_staff = [],
      w_flags = [], w_config = [], w_batches = [], w_batch_items = [], w_categories = [], w_labels = [], w_tax_pots = [],
      w_invoices = [], w_line_items = [], w_documents = [], w_bprofiles = [], w_bloans = [], w_binstallments = []\<rparr>"

text \<open>The tags of the validator library the request structs use.\<close>

fun ok_tag :: "string \<Rightarrow> fval \<Rightarrow> bool" where
  "ok_tag t (FStr s) = (if t = ''required'' then s \<noteq> [] else if t = ''min=3'' then 3 \<le> length s
     else if t = ''max=30'' then length s \<le> 30 else True)"
| "ok_tag t (FInt n) = (if t = ''required'' then n \<noteq> 0 else if t = ''gt=0'' then 0 < n else True)"
| "ok_tag t (FPhone p) = (t = ''required'' \<longrightarrow> CountryCode p \<noteq> [] \<or> Number p \<noteq> [])"
| "ok_tag t (FLen n) = (if t = ''required'' then n \<noteq> 0 else if t = ''min=1'' then 1 \<le> n
     else if t = ''min=2'' then 2 \<le> n else if t = ''max=10'' then n \<le> 10 else True)"

text \<open>A concrete environment: every database round trip succeeds.\<close>

definition ok_env :: env where
  "ok_env = \<lparr>e_uuid = (\<lambda>n. ''b'' @ show_nat n), e_db_ok = (\<lambda>n. True), e_phone = et_lib,
     e_is_uuid = (\<lambda>s. length s = 36), e_tag = ok_tag, e_cancelled = (\<lambda>t. False),
     e_date = (\<lambda>s. if length s = 10 then Some s else None), e_numeric = Some\<rparr>"

section \<open>Calls\<close>

definition db_error :: go_error where "db_error = Opaque ''database error''"

definition dbA :: "env \<Rightarrow> ('l, 'a) go \<Rightarrow> ('l, 'a) go" where
  "dbA E m w =
     (let w1 = w\<lparr>w_dbn := Suc (w_dbn w)\<rparr>
      in if e_db_ok E (w_dbn w) then m w1 else (Inl db_error, w1))"

definition ledA :: "('l, go_error, 'a) act \<Rightarrow> ('l, 'a) go" where
  "ledA m w = (case m (w_ledger w) of (r, l) \<Rightarrow> (r, w\<lparr>w_ledger := l\<rparr>))"

definition newID :: "env \<Rightarrow> ('l, string) go" where
  "newID E w = (Inr (e_uuid E (w_uuidn w)), w\<lparr>w_uuidn := Suc (w_uuidn w)\<rparr>)"

definition nowA :: "('l, int) go" where
  "nowA = getsA w_now"

text \<open>The shared cache: \<open>Get\<close> drops an expired entry, so it writes.\<close>

definition cacheGet :: "string \<Rightarrow> ('l, cached option) go" where
  "cacheGet k w = (case cache_Get (w_cache w) (w_now w) k of
     (r, c) \<Rightarrow> (Inr (case r of Some (Some v) \<Rightarrow> Some v | _ \<Rightarrow> None), w\<lparr>w_cache := c\<rparr>))"

definition cacheSet :: "string \<Rightarrow> cached \<Rightarrow> int \<Rightarrow> ('l, unit) go" where
  "cacheSet k v ttl = modifyA (\<lambda>w. w\<lparr>w_cache := cache_Set (w_cache w) (w_now w) k (Some v) ttl\<rparr>)"

definition cacheDeleteByPrefix :: "string \<Rightarrow> ('l, unit) go" where
  "cacheDeleteByPrefix p = modifyA (\<lambda>w. w\<lparr>w_cache := cache_DeleteByPrefix (w_cache w) p\<rparr>)"

text \<open>Evaluation unfolds an action only when it runs.\<close>

lemmas world_code [code] =
  nowA_def [THEN fun_cong]
  cacheSet_def [THEN fun_cong]
  cacheDeleteByPrefix_def [THEN fun_cong]

definition second :: int where "second = 1000000000"
definition day_ns :: int where "day_ns = 86400 * second"

section \<open>Dates\<close>

text \<open>\<open>CURRENT_DATE\<close> as a day number, and the first day of its month in the proleptic Gregorian
  calendar (the usual day-number arithmetic on eras of 400 years).\<close>

definition day_of :: "int \<Rightarrow> int" where
  "day_of t = t div day_ns"

definition day_in_month :: "int \<Rightarrow> int" where
  "day_in_month z =
     (let z = z + 719468;
          doe = z mod 146097;
          yoe = (doe - doe div 1460 + doe div 36524 - doe div 146096) div 365;
          doy = doe - (365 * yoe + yoe div 4 - yoe div 100);
          mp = (5 * doy + 2) div 153
      in doy - (153 * mp + 2) div 5 + 1)"

definition month_start :: "int \<Rightarrow> int" where
  "month_start z = z - (day_in_month z - 1)"

section \<open>What calls leave alone\<close>

text \<open>\<open>calm m\<close>: the action never touches the ledger. The rules follow the shape of the action.\<close>

definition calm :: "('l, 'a) go \<Rightarrow> bool" where
  "calm m \<longleftrightarrow> (\<forall>w. w_ledger (snd (m w)) = w_ledger w)"

named_theorems calms \<open>actions that leave the ledger alone\<close>

lemma calm_keeps: "calm m \<longleftrightarrow> (\<forall>l. keepsA (\<lambda>w. w_ledger w = l) m)"
  by (auto simp: calm_def keepsA_def)

lemma calmD: "calm m \<Longrightarrow> m w = (r, w') \<Longrightarrow> w_ledger w' = w_ledger w"
  by (metis calm_def snd_conv)

lemma calm_snd: "calm m \<Longrightarrow> w_ledger (snd (m w)) = w_ledger w"
  by (simp add: calm_def)

lemma calm_combinators [calms]:
  "calm (retA x)" "calm (throwA e)" "calm (getsA f)" "calm (liftE r)" "calm (guardA b e)"
  by (simp_all add: calm_keeps keeps)

lemma calm_bind [calms]: "calm m \<Longrightarrow> (\<And>x. calm (k x)) \<Longrightarrow> calm (bindA m k)"
  by (simp add: calm_keeps keeps)

lemma calm_try [calms]: "calm m \<Longrightarrow> calm (tryA m)"
  by (simp add: calm_keeps keeps)

lemma calm_ignore [calms]: "calm m \<Longrightarrow> calm (ignoreA m)"
  by (simp add: calm_keeps keeps)

lemma calm_mapErr [calms]: "calm m \<Longrightarrow> calm (mapErrA f m)"
  by (simp add: calm_keeps keeps)

lemma calm_when [calms]: "calm m \<Longrightarrow> calm (whenA b m)"
  by (simp add: calm_keeps keeps)

lemma calm_if [calms]: "calm m \<Longrightarrow> calm n \<Longrightarrow> calm (if b then m else n)"
  by simp

lemma calm_option [calms]: "calm m \<Longrightarrow> (\<And>x. calm (k x)) \<Longrightarrow> calm (case z of None \<Rightarrow> m | Some x \<Rightarrow> k x)"
  by (cases z) simp_all

lemma calm_sum [calms]: "(\<And>e. calm (h e)) \<Longrightarrow> (\<And>x. calm (k x)) \<Longrightarrow> calm (case z of Inl e \<Rightarrow> h e | Inr x \<Rightarrow> k x)"
  by (cases z) simp_all

lemma calm_prod [calms]: "(\<And>a b. calm (k a b)) \<Longrightarrow> calm (case z of (a, b) \<Rightarrow> k a b)"
  by (cases z) simp

lemma calm_list [calms]: "calm m \<Longrightarrow> (\<And>x xs. calm (k x xs)) \<Longrightarrow> calm (case z of [] \<Rightarrow> m | x # xs \<Rightarrow> k x xs)"
  by (cases z) simp_all

lemma calm_cached [calms]: "(\<And>x. calm (f x)) \<Longrightarrow> (\<And>x. calm (g x)) \<Longrightarrow> (\<And>x. calm (h x)) \<Longrightarrow> (\<And>x. calm (i x)) \<Longrightarrow> (\<And>x. calm (j x)) \<Longrightarrow>
    calm (case z of CFees x \<Rightarrow> f x | CRules x \<Rightarrow> g x | CRate x \<Rightarrow> h x | CRole x \<Rightarrow> i x
      | CQuote x \<Rightarrow> j x)"
  by (cases z) simp_all

lemma calm_let [calms]: "calm (f x) \<Longrightarrow> calm (Let x f)"
  by simp

lemma calm_mapA [calms]: "(\<And>x. calm (f x)) \<Longrightarrow> calm (mapA f xs)"
  by (simp add: calm_keeps keeps_mapA)

lemma calm_modify [calms]: "(\<And>w. w_ledger (f w) = w_ledger w) \<Longrightarrow> calm (modifyA f)"
  by (simp add: calm_def modifyA_def)

lemma calm_db [calms]: "calm m \<Longrightarrow> calm (dbA E m)"
  by (simp add: calm_def dbA_def Let_def)

lemma calm_basic [calms]:
  "calm (newID E)" "calm nowA" "calm (cacheGet k)" "calm (cacheSet k v t)" "calm (cacheDeleteByPrefix p)"
  by (simp_all add: calm_def newID_def nowA_def getsA_def cacheGet_def cacheSet_def cacheDeleteByPrefix_def
      modifyA_def split: prod.splits)

lemma keeps_db: "keepsA I m \<Longrightarrow> (\<And>w. I (w\<lparr>w_dbn := Suc (w_dbn w)\<rparr>) = I w) \<Longrightarrow> keepsA I (dbA E m)"
  by (simp add: keepsA_def dbA_def Let_def)

text \<open>A call to the ledger changes nothing else.\<close>

lemma ledA_run:
  "ledA m w = (r, w') \<longleftrightarrow> m (w_ledger w) = (r, w_ledger w') \<and> w' = w\<lparr>w_ledger := w_ledger w'\<rparr>"
  by (auto simp: ledA_def split: prod.splits)

lemma ledA_D: "ledA m w = (r, w') \<Longrightarrow> \<exists>l. m (w_ledger w) = (r, l) \<and> w' = w\<lparr>w_ledger := l\<rparr>"
  by (auto simp: ledA_def split: prod.splits)

lemma dbA_run:
  "dbA E m w = (Inr x, w') \<longleftrightarrow> e_db_ok E (w_dbn w) \<and> m (w\<lparr>w_dbn := Suc (w_dbn w)\<rparr>) = (Inr x, w')"
  by (simp add: dbA_def Let_def)

lemma dbA_ok [act_simps]: "e_db_ok E (w_dbn w) \<Longrightarrow> dbA E m w = m (w\<lparr>w_dbn := Suc (w_dbn w)\<rparr>)"
  by (simp add: dbA_def Let_def)

end
