(* ===== verification/Effects.thy ===== *)
theory Effects
  imports World
begin

text \<open>
  Reasoning about what a service does to the ledger. \<open>readerA\<close> marks actions that only read: they may
  count database round trips and touch the cache, and change nothing else. \<open>postsA view F m Q\<close> says
  that \<open>m\<close>, started in a state where none of the idempotency keys \<open>F\<close> is used, ends in a state whose
  balances are those of the start after some list of postings \<open>ps\<close> with \<open>Q v r ps\<close>, where \<open>v\<close> is the
  ledger seen at the start and \<open>r\<close> the result of the action. The rules follow the structure of actions, so a
  proof about a handler reads like the handler.
\<close>

section \<open>Readers\<close>

definition stable :: "'l world \<Rightarrow> 'l world" where
  "stable w = w\<lparr>w_dbn := 0, w_cache := NewMemoryCache\<rparr>"

definition readerA :: "('l, 'a) go \<Rightarrow> bool" where
  "readerA m \<longleftrightarrow> (\<forall>w. stable (snd (m w)) = stable w)"

named_theorems readers \<open>actions that only read\<close>

lemma reader_keeps: "readerA m \<longleftrightarrow> (\<forall>v. keepsA (\<lambda>w. stable w = v) m)"
  by (auto simp: readerA_def keepsA_def)

lemma readerD: "readerA m \<Longrightarrow> m w = (r, w') \<Longrightarrow> stable w' = stable w"
  by (metis readerA_def snd_conv)

lemma stable_fields:
  assumes "stable w' = stable w"
  shows "w_ledger w' = w_ledger w" "w_users w' = w_users w" "w_overdrafts w' = w_overdrafts w" "w_now w' = w_now w"
    "w_uuidn w' = w_uuidn w"
  using arg_cong [OF assms, of w_ledger] arg_cong [OF assms, of w_users] arg_cong [OF assms, of w_overdrafts]
    arg_cong [OF assms, of w_now] arg_cong [OF assms, of w_uuidn]
  by (simp_all add: stable_def)

lemma reader_calm: "readerA m \<Longrightarrow> calm m"
  unfolding calm_def readerA_def using stable_fields(1) by blast

lemma reader_basic [readers]:
  "readerA (retA x)" "readerA (throwA e)" "readerA (getsA f)" "readerA (liftE r)" "readerA (guardA b e)"
  by (simp_all add: reader_keeps keeps)

lemma reader_bind [readers]: "readerA m \<Longrightarrow> (\<And>x. readerA (k x)) \<Longrightarrow> readerA (bindA m k)"
  by (simp add: reader_keeps keeps)

lemma reader_try [readers]: "readerA m \<Longrightarrow> readerA (tryA m)"
  by (simp add: reader_keeps keeps)

lemma reader_mapErr [readers]: "readerA m \<Longrightarrow> readerA (mapErrA f m)"
  by (simp add: reader_keeps keeps)

lemma reader_when [readers]: "readerA m \<Longrightarrow> readerA (whenA b m)"
  by (simp add: reader_keeps keeps)

lemma reader_if [readers]: "readerA m \<Longrightarrow> readerA n \<Longrightarrow> readerA (if b then m else n)"
  by simp

lemma reader_option [readers]: "readerA m \<Longrightarrow> (\<And>x. readerA (k x)) \<Longrightarrow> readerA (case z of None \<Rightarrow> m | Some x \<Rightarrow> k x)"
  by (cases z) simp_all

lemma reader_sum [readers]: "(\<And>e. readerA (h e)) \<Longrightarrow> (\<And>x. readerA (k x)) \<Longrightarrow> readerA (case z of Inl e \<Rightarrow> h e | Inr x \<Rightarrow> k x)"
  by (cases z) simp_all

lemma reader_prod [readers]: "(\<And>a b. readerA (k a b)) \<Longrightarrow> readerA (case z of (a, b) \<Rightarrow> k a b)"
  by (cases z) simp

lemma reader_list [readers]: "readerA m \<Longrightarrow> (\<And>x xs. readerA (k x xs)) \<Longrightarrow> readerA (case z of [] \<Rightarrow> m | x # xs \<Rightarrow> k x xs)"
  by (cases z) simp_all

lemma reader_cached [readers]: "(\<And>x. readerA (f x)) \<Longrightarrow> (\<And>x. readerA (g x)) \<Longrightarrow> (\<And>x. readerA (h x)) \<Longrightarrow> (\<And>x. readerA (i x)) \<Longrightarrow> (\<And>x. readerA (j x)) \<Longrightarrow>
    readerA (case z of CFees x \<Rightarrow> f x | CRules x \<Rightarrow> g x | CRate x \<Rightarrow> h x | CRole x \<Rightarrow> i x
      | CQuote x \<Rightarrow> j x)"
  by (cases z) simp_all

lemma reader_mapA [readers]: "(\<And>x. readerA (f x)) \<Longrightarrow> readerA (mapA f xs)"
  by (simp add: reader_keeps keeps_mapA)

lemma reader_db [readers]: "readerA m \<Longrightarrow> readerA (dbA E m)"
  by (simp add: readerA_def dbA_def Let_def stable_def)

lemma reader_clock [readers]: "readerA nowA" "readerA (cacheGet k)" "readerA (cacheSet k v t)"
  by (simp_all add: readerA_def nowA_def getsA_def cacheGet_def cacheSet_def modifyA_def stable_def split: prod.splits)

section \<open>Postings\<close>

definition postsA :: "('l \<Rightarrow> lview) \<Rightarrow> string set \<Rightarrow> ('l, 'a) go \<Rightarrow> (lview \<Rightarrow> go_error + 'a \<Rightarrow> Posting list \<Rightarrow> bool) \<Rightarrow> bool" where
  "postsA view F m Q \<longleftrightarrow> (\<forall>w r w'. F \<inter> lv_used (view (w_ledger w)) = {} \<longrightarrow> m w = (r, w') \<longrightarrow>
     (\<exists>ps. Q (view (w_ledger w)) r ps \<and> lv_bal (view (w_ledger w')) = apply_postings ps (lv_bal (view (w_ledger w)))
        \<and> lv_used (view (w_ledger w')) \<subseteq> lv_used (view (w_ledger w)) \<union> F))"

named_theorems posts \<open>the postings of actions\<close>

lemma postsD:
  assumes "postsA view F m Q" "F \<inter> lv_used (view (w_ledger w)) = {}" "m w = (r, w')"
  obtains ps where "Q (view (w_ledger w)) r ps" "lv_bal (view (w_ledger w')) = apply_postings ps (lv_bal (view (w_ledger w)))"
    "lv_used (view (w_ledger w')) \<subseteq> lv_used (view (w_ledger w)) \<union> F"
  using assms by (fastforce simp: postsA_def)

lemma posts_mono:
  assumes "postsA view F m Q" "F \<subseteq> G" "\<And>l r ps. Q l r ps \<Longrightarrow> R l r ps"
  shows "postsA view G m R"
  unfolding postsA_def
proof (intro allI impI)
  fix w r w' assume "G \<inter> lv_used (view (w_ledger w)) = {}" and m: "m w = (r, w')"
  then have "F \<inter> lv_used (view (w_ledger w)) = {}" using assms(2) by blast
  from postsD [OF assms(1) this m] assms(2,3)
  show "\<exists>ps. R (view (w_ledger w)) r ps \<and> lv_bal (view (w_ledger w')) = apply_postings ps (lv_bal (view (w_ledger w)))
      \<and> lv_used (view (w_ledger w')) \<subseteq> lv_used (view (w_ledger w)) \<union> G"
    by (metis Un_mono order_refl order_trans)
qed

lemma posts_calm:
  assumes "calm m" "\<And>l r. Q l r []"
  shows "postsA view F m Q"
  using assms calmD [OF assms(1)] by (auto simp: postsA_def intro!: exI [of _ "[]"])

lemma posts_throw: "(\<And>v. Q v (Inl e) []) \<Longrightarrow> postsA view F (throwA e) Q"
  by (auto simp: postsA_def throwA_def intro!: exI [of _ "[]"])

lemma posts_ret: "(\<And>v. Q v (Inr x) []) \<Longrightarrow> postsA view F (retA x) Q"
  by (auto simp: postsA_def retA_def intro!: exI [of _ "[]"])

text \<open>Sequencing: the continuation must use other keys.\<close>

lemma posts_bind:
  assumes m: "postsA view F m Q" and k: "\<And>x. postsA view G (k x) (R x)" and FG: "F \<inter> G = {}"
    and e: "\<And>l e ps. Q l (Inl e) ps \<Longrightarrow> S l (Inl e) ps"
    and s: "\<And>l x ps l' r qs. Q l (Inr x) ps \<Longrightarrow> R x l' r qs \<Longrightarrow> S l r (ps @ qs)"
  shows "postsA view (F \<union> G) (bindA m k) S"
  unfolding postsA_def
proof (intro allI impI)
  fix w r w'
  assume fresh: "(F \<union> G) \<inter> lv_used (view (w_ledger w)) = {}" and run: "bindA m k w = (r, w')"
  obtain r1 w1 where m1: "m w = (r1, w1)" by fastforce
  have "F \<inter> lv_used (view (w_ledger w)) = {}" using fresh by blast
  from postsD [OF m this m1] obtain ps where ps: "Q (view (w_ledger w)) r1 ps"
      "lv_bal (view (w_ledger w1)) = apply_postings ps (lv_bal (view (w_ledger w)))"
      "lv_used (view (w_ledger w1)) \<subseteq> lv_used (view (w_ledger w)) \<union> F" .
  show "\<exists>ps. S (view (w_ledger w)) r ps \<and> lv_bal (view (w_ledger w')) = apply_postings ps (lv_bal (view (w_ledger w)))
      \<and> lv_used (view (w_ledger w')) \<subseteq> lv_used (view (w_ledger w)) \<union> (F \<union> G)"
  proof (cases r1)
    case (Inl err)
    then have "S (view (w_ledger w)) r ps" "w' = w1" using run m1 ps(1) e by (auto simp: bindA_def)
    then show ?thesis using ps(2,3) by blast
  next
    case (Inr x)
    have "G \<inter> lv_used (view (w_ledger w1)) = {}" using fresh ps(3) FG by blast
    moreover have "k x w1 = (r, w')" using run m1 Inr by (simp add: bindA_def)
    ultimately obtain qs where qs: "R x (view (w_ledger w1)) r qs"
        "lv_bal (view (w_ledger w')) = apply_postings qs (lv_bal (view (w_ledger w1)))"
        "lv_used (view (w_ledger w')) \<subseteq> lv_used (view (w_ledger w1)) \<union> G"
      using postsD [OF k] by metis
    then have "S (view (w_ledger w)) r (ps @ qs)" using s ps(1) Inr by blast
    then show ?thesis using ps qs by (intro exI [of _ "ps @ qs"]) (auto simp: apply_postings_append)
  qed
qed

text \<open>A calm action in front or behind changes no posting.\<close>

lemma posts_calm_bind:
  assumes "calm m" "\<And>x. postsA view F (k x) Q" "\<And>l e. Q l (Inl e) []"
  shows "postsA view F (bindA m k) Q"
  unfolding postsA_def
proof (intro allI impI)
  fix w r w'
  assume fresh: "F \<inter> lv_used (view (w_ledger w)) = {}" and run: "bindA m k w = (r, w')"
  obtain r1 w1 where m1: "m w = (r1, w1)" by fastforce
  have l: "w_ledger w1 = w_ledger w" using calmD [OF assms(1) m1] .
  show "\<exists>ps. Q (view (w_ledger w)) r ps \<and> lv_bal (view (w_ledger w')) = apply_postings ps (lv_bal (view (w_ledger w)))
      \<and> lv_used (view (w_ledger w')) \<subseteq> lv_used (view (w_ledger w)) \<union> F"
  proof (cases r1)
    case (Inl e)
    then show ?thesis using run m1 l assms(3) by (auto simp: bindA_def intro!: exI [of _ "[]"])
  next
    case (Inr x)
    then have "k x w1 = (r, w')" using run m1 by (simp add: bindA_def)
    from postsD [OF assms(2) _ this] fresh l show ?thesis by metis
  qed
qed

lemma posts_bind_calm:
  assumes "postsA view F m Q" "\<And>x. calm (k x)" "\<And>l e ps. Q l (Inl e) ps \<Longrightarrow> S l (Inl e) ps"
    and "\<And>l x ps r. Q l (Inr x) ps \<Longrightarrow> S l r ps"
  shows "postsA view F (bindA m k) S"
proof -
  have "postsA view (F \<union> {}) (bindA m k) S"
    by (rule posts_bind [OF assms(1) posts_calm, where R = "\<lambda>x l r ps. ps = []"]) (use assms in auto)
  then show ?thesis by simp
qed

lemma posts_if:
  "(b \<Longrightarrow> postsA view F m Q) \<Longrightarrow> (\<not> b \<Longrightarrow> postsA view F n Q) \<Longrightarrow> postsA view F (if b then m else n) Q"
  by simp

lemma posts_option:
  "(z = None \<Longrightarrow> postsA view F m Q) \<Longrightarrow> (\<And>x. z = Some x \<Longrightarrow> postsA view F (k x) Q) \<Longrightarrow>
   postsA view F (case z of None \<Rightarrow> m | Some x \<Rightarrow> k x) Q"
  by (cases z) simp_all

lemma posts_prod: "(\<And>a b. z = (a, b) \<Longrightarrow> postsA view F (k a b) Q) \<Longrightarrow> postsA view F (case z of (a, b) \<Rightarrow> k a b) Q"
  by (cases z) simp

lemma posts_try:
  assumes "postsA view F m Q" "\<And>l r ps. Q l r ps \<Longrightarrow> R l (Inr r) ps"
  shows "postsA view F (tryA m) R"
  using assms unfolding postsA_def tryA_def by (fastforce split: prod.splits)

lemma posts_mapErr:
  assumes "postsA view F m Q" "\<And>v e ps. Q v (Inl e) ps \<Longrightarrow> R v (Inl (f e)) ps" "\<And>v x ps. Q v (Inr x) ps \<Longrightarrow> R v (Inr x) ps"
  shows "postsA view F (mapErrA f m) R"
  unfolding postsA_def
proof (intro allI impI)
  fix w r w' assume fresh: "F \<inter> lv_used (view (w_ledger w)) = {}" and run: "mapErrA f m w = (r, w')"
  obtain r1 where m: "m w = (r1, w')" "r = (case r1 of Inl e \<Rightarrow> Inl (f e) | Inr x \<Rightarrow> Inr x)"
    using run by (auto simp: mapErrA_def split: prod.splits sum.splits)
  from postsD [OF assms(1) fresh m(1)] obtain ps where ps: "Q (view (w_ledger w)) r1 ps"
      "lv_bal (view (w_ledger w')) = apply_postings ps (lv_bal (view (w_ledger w)))"
      "lv_used (view (w_ledger w')) \<subseteq> lv_used (view (w_ledger w)) \<union> F" .
  moreover have "R (view (w_ledger w)) r ps" using ps(1) m(2) assms(2,3) by (simp split: sum.splits)
  ultimately show "\<exists>ps. R (view (w_ledger w)) r ps \<and> lv_bal (view (w_ledger w')) = apply_postings ps (lv_bal (view (w_ledger w)))
      \<and> lv_used (view (w_ledger w')) \<subseteq> lv_used (view (w_ledger w)) \<union> F" by blast
qed

text \<open>A single ledger transaction.\<close>

lemma posts_write:
  assumes "writes view rest m ik ps"
  shows "postsA view {ik} (ledA m) (\<lambda>l r qs. case r of Inl _ \<Rightarrow> qs = [] | Inr _ \<Rightarrow> qs = ps)"
  unfolding postsA_def
proof (intro allI impI)
  fix w r w' assume fresh: "{ik} \<inter> lv_used (view (w_ledger w)) = {}" and run: "ledA m w = (r, w')"
  then have m: "m (w_ledger w) = (r, w_ledger w')" by (auto dest: ledA_D)
  show "\<exists>qs. (case r of Inl _ \<Rightarrow> qs = [] | Inr _ \<Rightarrow> qs = ps)
      \<and> lv_bal (view (w_ledger w')) = apply_postings qs (lv_bal (view (w_ledger w)))
      \<and> lv_used (view (w_ledger w')) \<subseteq> lv_used (view (w_ledger w)) \<union> {ik}"
  proof (cases r)
    case (Inl e)
    then show ?thesis using writes_err [OF assms] m by fastforce
  next
    case (Inr x)
    then have "view (w_ledger w') = post ik ps (view (w_ledger w))" using writes_ok [OF assms] m by blast
    then show ?thesis using Inr fresh by (simp add: post_fresh)
  qed
qed

text \<open>The keys derived from the identifiers an environment can hand out.\<close>

definition keys_of :: "string \<Rightarrow> string set" where
  "keys_of ik = {ik @ s |s. True}"

definition uuid_keys :: "env \<Rightarrow> string set" where
  "uuid_keys E = (\<Union>n. keys_of (e_uuid E n))"

lemma keys_ofI [simp, intro]: "ik @ s \<in> keys_of ik"
  by (auto simp: keys_of_def)

lemma posts_newID:
  assumes "\<And>n. postsA view (keys_of (e_uuid E n)) (k (e_uuid E n)) Q"
  shows "postsA view (uuid_keys E) (bindA (newID E) k) Q"
  unfolding postsA_def
proof (intro allI impI)
  fix w r w' assume fresh: "uuid_keys E \<inter> lv_used (view (w_ledger w)) = {}" and run: "bindA (newID E) k w = (r, w')"
  let ?w1 = "w\<lparr>w_uuidn := Suc (w_uuidn w)\<rparr>"
  have A: "k (e_uuid E (w_uuidn w)) ?w1 = (r, w')" using run by (simp add: bindA_def newID_def)
  have B: "postsA view (uuid_keys E) (k (e_uuid E (w_uuidn w))) Q"
    by (rule posts_mono [OF assms]) (auto simp: uuid_keys_def)
  have C: "uuid_keys E \<inter> lv_used (view (w_ledger ?w1)) = {}" using fresh by simp
  from postsD [OF B C A] obtain ps where "Q (view (w_ledger ?w1)) r ps"
      "lv_bal (view (w_ledger w')) = apply_postings ps (lv_bal (view (w_ledger ?w1)))"
      "lv_used (view (w_ledger w')) \<subseteq> lv_used (view (w_ledger ?w1)) \<union> uuid_keys E" .
  then show "\<exists>ps. Q (view (w_ledger w)) r ps \<and> lv_bal (view (w_ledger w')) = apply_postings ps (lv_bal (view (w_ledger w)))
      \<and> lv_used (view (w_ledger w')) \<subseteq> lv_used (view (w_ledger w)) \<union> uuid_keys E"
    by (intro exI [of _ ps]) simp
qed

section \<open>Actions that do not fail\<close>

definition okA :: "('w, 'e, 'a) act \<Rightarrow> bool" where
  "okA m \<longleftrightarrow> (\<forall>w. \<exists>x. fst (m w) = Inr x)"

named_theorems oks \<open>actions that do not fail\<close>

lemma ok_basic [oks]: "okA (retA x)" "okA (ignoreA m)" "okA (tryA m2)" "okA (getsA f)" "okA (modifyA g)" "okA (newID E)"
  by (auto simp: okA_def retA_def ignoreA_def tryA_def getsA_def modifyA_def newID_def split: prod.splits)

lemma ok_bind [oks]: "okA m \<Longrightarrow> (\<And>x. okA (k x)) \<Longrightarrow> okA (bindA m k)"
  unfolding okA_def bindA_def by (metis (no_types, lifting) case_prod_beta sum.simps(6))

lemma ok_when [oks]: "okA m \<Longrightarrow> okA (whenA b m)"
  by (simp add: whenA_def ok_basic)

lemma ok_if [oks]: "okA m \<Longrightarrow> okA n \<Longrightarrow> okA (if b then m else n)"
  by simp

lemma ok_sum [oks]: "(\<And>e. okA (h e)) \<Longrightarrow> (\<And>x. okA (k x)) \<Longrightarrow> okA (case z of Inl e \<Rightarrow> h e | Inr x \<Rightarrow> k x)"
  by (cases z) simp_all

lemma okD: "okA m \<Longrightarrow> \<exists>x w'. m w = (Inr x, w')"
  by (metis okA_def surjective_pairing)

lemma posts_ok:
  assumes "postsA view F m Q" "okA m"
  shows "postsA view F m (\<lambda>v r ps. Q v r ps \<and> (\<exists>x. r = Inr x))"
  using assms unfolding postsA_def okA_def by (metis fst_conv)

section \<open>Postings of the ledger client\<close>

context ledger_client
begin

lemma posts_balance:
  assumes "\<And>n. postsA view F (k n) (R n)" "\<And>v e. Q v (Inl e) []"
    and "\<And>v r ps. R (lv_bal v (MainAccount c wid) a) v r ps \<Longrightarrow> Q v r ps"
  shows "postsA view F (bindA (ledA (GetWalletBalance L wid a)) k) Q"
  unfolding postsA_def
proof (intro allI impI)
  fix w r w'
  assume fresh: "F \<inter> lv_used (view (w_ledger w)) = {}" and run: "bindA (ledA (GetWalletBalance L wid a)) k w = (r, w')"
  obtain r1 l where g: "GetWalletBalance L wid a (w_ledger w) = (r1, l)" by fastforce
  then have m1: "ledA (GetWalletBalance L wid a) w = (r1, w\<lparr>w_ledger := l\<rparr>)" by (simp add: ledA_def)
  have l: "view l = view (w_ledger w)" using get_balance [OF g] by simp
  show "\<exists>ps. Q (view (w_ledger w)) r ps \<and> lv_bal (view (w_ledger w')) = apply_postings ps (lv_bal (view (w_ledger w)))
      \<and> lv_used (view (w_ledger w')) \<subseteq> lv_used (view (w_ledger w)) \<union> F"
  proof (cases r1)
    case (Inl e)
    then show ?thesis using run m1 l assms(2) by (auto simp: bindA_def intro!: exI [of _ "[]"])
  next
    case (Inr n)
    then have n: "n = lv_bal (view (w_ledger w)) (MainAccount c wid) a" using get_balance [OF g] by simp
    have A: "k n (w\<lparr>w_ledger := l\<rparr>) = (r, w')" using run m1 Inr by (simp add: bindA_def)
    have C: "F \<inter> lv_used (view (w_ledger (w\<lparr>w_ledger := l\<rparr>))) = {}" using fresh l by simp
    from postsD [OF assms(1) C A] obtain ps where "R n (view l) r ps"
        "lv_bal (view (w_ledger w')) = apply_postings ps (lv_bal (view l))"
        "lv_used (view (w_ledger w')) \<subseteq> lv_used (view l) \<union> F" by auto
    then show ?thesis using assms(3) n l by (intro exI [of _ ps]) simp
  qed
qed

lemmas client_posts = posts_write [OF credit] posts_write [OF debit] posts_write [OF debit_fee]
  posts_write [OF disburse] posts_write [OF collect] posts_write [OF overdraft_credit] posts_write [OF overdraft_debit]
  posts_write [OF to_pot] posts_write [OF from_pot]

end

end
