(* ===== verification/Repositories.thy ===== *)
theory Repositories
  imports World
begin

text \<open>
  \<open>internal/repository\<close>: the repositories the services of this development use. \<open>QueryRow\<close> is
  \<open>select_one\<close>, \<open>UPDATE ... WHERE\<close> is \<open>update_where\<close>, \<open>tag.RowsAffected()\<close> is \<open>rows_affected\<close>;
  \<open>NOW()\<close> is the clock of the world. A \<open>CHECK\<close> constraint of the schema that a statement can
  violate makes the statement fail. The lemmas say that no repository touches the ledger.
\<close>

section \<open>Audit log\<close>

definition safeMetadataKeys :: "string list" where
  "safeMetadataKeys = [''action'', ''amount_cents'', ''currency'', ''status'', ''reason'', ''loan_id'',
     ''pot_id'', ''card_id'', ''hold_id'', ''transaction_id'', ''source'', ''destination'',
     ''business_id'', ''role_id'', ''role_name'', ''member_id'', ''member_user_id'', ''batch_id'',
     ''invoice_id'', ''transfer_type'', ''permission'', ''old_role_id'', ''new_role_id'', ''approver_id'',
     ''rule_key'', ''rule_value'', ''nbe_reference'', ''purpose'', ''beneficiary_id'', ''fx_rate'',
     ''from_currency'', ''to_currency'', ''spread'', ''merchant_currency'', ''direction'']"

definition sanitizeMetadata :: "(string \<times> json) list \<Rightarrow> (string \<times> json) list" where
  "sanitizeMetadata m =
     map (\<lambda>(k, v). (k, if k \<in> set safeMetadataKeys then v else JS ''[REDACTED]'')) m"

text \<open>The values of the enumeration \<open>audit_action\<close> in the migrations; a row with any other action is refused.\<close>

definition audit_actions :: "string list" where
  "audit_actions = [''user_created'', ''user_frozen'', ''user_unfrozen'', ''user_deleted'',
     ''kyc_otp_requested'', ''kyc_verified'', ''kyc_failed'', ''kyc_level_upgraded'', ''transfer_initiated'',
     ''transfer_settled'', ''transfer_voided'', ''transfer_failed'', ''card_issued'', ''card_frozen'',
     ''card_unfrozen'', ''card_cancelled'', ''card_limit_changed'', ''card_auth_approved'',
     ''card_auth_declined'', ''card_auth_settled'', ''card_auth_reversed'', ''loan_disbursed'',
     ''loan_repayment'', ''loan_defaulted'', ''loan_written_off'', ''credit_score_updated'',
     ''recon_exception_opened'', ''recon_exception_resolved'', ''telegram_bound'', ''telegram_unbound'',
     ''p2p_transfer'', ''business_registered'', ''business_updated'', ''business_verified'',
     ''business_suspended'', ''business_deactivated'', ''business_role_created'', ''business_role_updated'',
     ''business_role_deleted'', ''business_member_invited'', ''business_member_role_changed'',
     ''business_member_removed'', ''business_transfer_approval_requested'', ''business_transfer_approved'',
     ''business_transfer_rejected'', ''business_transfer_expired'', ''business_batch_created'',
     ''business_batch_approved'', ''business_batch_processed'', ''business_loan_applied'',
     ''business_loan_disbursed'', ''fx_rate_updated'', ''fx_rate_manual_override'', ''transfer_blocked'',
     ''transfer_pending_review'', ''rule_evaluated'', ''rule_updated'', ''fx_conversion'',
     ''beneficiary_added'', ''beneficiary_removed'', ''admin_note'', ''admin_freeze'', ''admin_unfreeze'',
     ''admin_kyc_override'', ''admin_loan_writeoff'', ''admin_credit_override'', ''admin_card_issued'',
     ''admin_card_freeze'', ''admin_card_cancel'', ''admin_txn_reversed'', ''flag_created'', ''flag_resolved'',
     ''staff_created'', ''staff_deactivated'', ''staff_updated'', ''config_changed'', ''bulk_freeze'',
     ''recon_assigned'', ''recon_escalated'', ''recon_investigating'', ''fee_schedule_created'',
     ''fee_schedule_updated'', ''fee_schedule_disabled'', ''fee_collected'', ''remittance_initiated'',
     ''remittance_completed'', ''remittance_failed'', ''admin_override'', ''recipient_saved'',
     ''recipient_favorited'', ''recipient_archived'', ''payment_request_created'', ''payment_request_paid'',
     ''payment_request_declined'', ''payment_request_cancelled'', ''payment_request_expired'',
     ''payment_request_reminded'', ''loan_manual_repayment'']"

definition audit_Log :: "env \<Rightarrow> AuditEntry \<Rightarrow> ('l, unit) go" where
  "audit_Log E e = dbA E (if au_Action e \<notin> set audit_actions then throwA db_error else modifyA (\<lambda>w.
     w\<lparr>w_audit := w_audit w @ [e\<lparr>au_Metadata := sanitizeMetadata (au_Metadata e)\<rparr>]\<rparr>))"

definition audit_ListByResource :: "env \<Rightarrow> string \<Rightarrow> string \<Rightarrow> nat \<Rightarrow> ('l, AuditEntry list) go" where
  "audit_ListByResource E rt rid limit = dbA E (getsA (\<lambda>w.
     take limit (rev (filter (\<lambda>e. au_ResourceType e = rt \<and> au_ResourceID e = rid) (w_audit w)))))"

definition audit_entry :: "string \<Rightarrow> string \<Rightarrow> string option \<Rightarrow> string \<Rightarrow> string \<Rightarrow> AuditEntry" where
  "audit_entry action actorType actorID resourceType resourceID =
     \<lparr>au_Action = action, au_ActorType = actorType, au_ActorID = actorID,
      au_ResourceType = resourceType, au_ResourceID = resourceID, au_Metadata = []\<rparr>"

section \<open>Users\<close>

definition user_query :: "env \<Rightarrow> (User \<Rightarrow> bool) \<Rightarrow> ('l, User) go" where
  "user_query E p = dbA E (bindA (getsA (\<lambda>w. select_one p (w_users w)))
     (\<lambda>r. case r of None \<Rightarrow> throwA (Identity ErrUserNotFound) | Some u \<Rightarrow> retA u))"

definition user_GetByID :: "env \<Rightarrow> string \<Rightarrow> ('l, User) go" where
  "user_GetByID E i = user_query E (\<lambda>u. u_ID u = i)"

definition user_GetByPhone :: "env \<Rightarrow> PhoneNumber \<Rightarrow> ('l, User) go" where
  "user_GetByPhone E p = user_query E (\<lambda>u. CountryCode (u_PhoneNumber u) = CountryCode p
     \<and> Number (u_PhoneNumber u) = Number p)"

definition user_GetByTelegramID :: "env \<Rightarrow> int \<Rightarrow> ('l, User) go" where
  "user_GetByTelegramID E i = user_query E (\<lambda>u. u_TelegramID u = Some i)"

definition user_GetByUsername :: "env \<Rightarrow> string \<Rightarrow> ('l, User) go" where
  "user_GetByUsername E n = user_query E (\<lambda>u. u_Username u = Some n)"

text \<open>The \<open>UPDATE users ... WHERE id = $1\<close> methods share the rows-affected check.\<close>

definition user_update :: "env \<Rightarrow> string \<Rightarrow> (int \<Rightarrow> User \<Rightarrow> User) \<Rightarrow> ('l, unit) go" where
  "user_update E i f = dbA E (bindA (getsA (\<lambda>w. rows_affected (\<lambda>u. u_ID u = i) (w_users w))) (\<lambda>n.
     bindA (modifyA (\<lambda>w. w\<lparr>w_users := update_where (\<lambda>u. u_ID u = i)
        (\<lambda>u. f (w_now w) u\<lparr>u_UpdatedAt := w_now w\<rparr>) (w_users w)\<rparr>)) (\<lambda>_.
     if n = 0 then throwA (Identity ErrUserNotFound) else retA ())))"

definition user_UpdateKYCLevel :: "env \<Rightarrow> string \<Rightarrow> int \<Rightarrow> ('l, unit) go" where
  "user_UpdateKYCLevel E i level = user_update E i (\<lambda>now u. u\<lparr>u_KYCLevel := level\<rparr>)"

definition user_Freeze :: "env \<Rightarrow> string \<Rightarrow> string \<Rightarrow> ('l, unit) go" where
  "user_Freeze E i reason = user_update E i (\<lambda>now u.
     u\<lparr>u_IsFrozen := True, u_FrozenReason := Some reason, u_FrozenAt := Some now\<rparr>)"

definition user_Unfreeze :: "env \<Rightarrow> string \<Rightarrow> ('l, unit) go" where
  "user_Unfreeze E i = user_update E i (\<lambda>now u.
     u\<lparr>u_IsFrozen := False, u_FrozenReason := None, u_FrozenAt := None\<rparr>)"

definition user_BindTelegram :: "env \<Rightarrow> string \<Rightarrow> int \<Rightarrow> string \<Rightarrow> ('l, unit) go" where
  "user_BindTelegram E i tid name =
     bindA (getsA (\<lambda>w. list_ex (\<lambda>u. u_ID u \<noteq> i \<and> u_TelegramID u = Some tid) (w_users w)
       \<and> list_ex (\<lambda>u. u_ID u = i) (w_users w))) (\<lambda>taken.
     if taken then dbA E (throwA db_error)
     else user_update E i (\<lambda>now u. u\<lparr>u_TelegramID := Some tid, u_TelegramUsername := Some name\<rparr>))"

definition user_UnbindTelegram :: "env \<Rightarrow> string \<Rightarrow> ('l, unit) go" where
  "user_UnbindTelegram E i = user_update E i (\<lambda>now u. u\<lparr>u_TelegramID := None, u_TelegramUsername := None\<rparr>)"

definition user_UpdateSpendWaterfall :: "env \<Rightarrow> string \<Rightarrow> string list \<Rightarrow> ('l, unit) go" where
  "user_UpdateSpendWaterfall E i order = user_update E i (\<lambda>now u. u\<lparr>u_SpendWaterfallOrder := order\<rparr>)"

definition user_UpdatePassword :: "env \<Rightarrow> string \<Rightarrow> string \<Rightarrow> ('l, unit) go" where
  "user_UpdatePassword E i h = user_update E i (\<lambda>now u. u\<lparr>u_PasswordHash := h\<rparr>)"

text \<open>The unique keys of \<open>users\<close> and its CHECK on the phone number. An empty password hash is stored as
  \<open>NULL\<close> and read back as empty; the order of the spend waterfall has a default.\<close>

definition user_row_taken :: "User \<Rightarrow> User \<Rightarrow> bool" where
  "user_row_taken u v \<longleftrightarrow> u_ID v = u_ID u \<or> u_LedgerWalletID v = u_LedgerWalletID u \<or> u_PhoneNumber v = u_PhoneNumber u
     \<or> (u_Username u \<noteq> None \<and> u_Username v = u_Username u)"

definition user_Create :: "env \<Rightarrow> User \<Rightarrow> ('l, User) go" where
  "user_Create E u = dbA E (bindA nowA (\<lambda>now. bindA (getsA w_users) (\<lambda>us.
     if list_ex (user_row_taken u) us \<or> Number (u_PhoneNumber u) = [] \<or> CountryCode (u_PhoneNumber u) = []
     then throwA db_error
     else bindA (modifyA (\<lambda>w. w\<lparr>w_users := us @ [\<lparr>u_ID = u_ID u, u_PhoneNumber = u_PhoneNumber u, u_Username = u_Username u,
         u_PasswordHash = u_PasswordHash u, u_AccountType = u_AccountType u, u_FaydaIDNumber = None, u_FirstName = None,
         u_MiddleName = None, u_LastName = None, u_DateOfBirth = None, u_Gender = None, u_FaydaPhotoURL = None,
         u_KYCLevel = u_KYCLevel u, u_IsFrozen = False, u_FrozenReason = None, u_FrozenAt = None,
         u_LedgerWalletID = u_LedgerWalletID u, u_TelegramID = None, u_TelegramUsername = None,
         u_SpendWaterfallOrder = [''merchant_currency'', ''ETB''], u_CreatedAt = now, u_UpdatedAt = now\<rparr>]\<rparr>)) (\<lambda>_.
       retA (u\<lparr>u_CreatedAt := now, u_UpdatedAt := now\<rparr>)))))"

text \<open>\<open>pgdate\<close> is PostgreSQL's reading of a text as a date (a day number); a cast that fails is an error.\<close>

definition user_UpdateDemographics ::
    "env \<Rightarrow> (string \<Rightarrow> int option) \<Rightarrow> string \<Rightarrow> string option \<Rightarrow> string option \<Rightarrow> string option \<Rightarrow> string option \<Rightarrow> string option
      \<Rightarrow> string option \<Rightarrow> ('l, unit) go" where
  "user_UpdateDemographics E pgdate i firstName middleName lastName dob gender photoURL =
     (let or_else = (\<lambda>x y. case x of None \<Rightarrow> y | Some _ \<Rightarrow> x);
          update = (\<lambda>d. user_update E i (\<lambda>now u. u\<lparr>u_FirstName := or_else firstName (u_FirstName u),
            u_MiddleName := or_else middleName (u_MiddleName u), u_LastName := or_else lastName (u_LastName u),
            u_DateOfBirth := (case d of None \<Rightarrow> u_DateOfBirth u | Some _ \<Rightarrow> d), u_Gender := or_else gender (u_Gender u),
            u_FaydaPhotoURL := or_else photoURL (u_FaydaPhotoURL u)\<rparr>))
      in case dob of
           None \<Rightarrow> update None
         | Some t \<Rightarrow> (case pgdate t of None \<Rightarrow> dbA E (throwA db_error) | Some d \<Rightarrow> update (Some d)))"

section \<open>Receipts\<close>

text \<open>The column list of the INSERT has no \<open>fee_cents\<close>, \<open>fee_breakdown\<close>, \<open>purpose\<close> or
  \<open>beneficiary_id\<close>: the stored row has their defaults. The phone is stored as E.164 text.\<close>

definition receipt_Create :: "env \<Rightarrow> TransactionReceipt \<Rightarrow> ('l, string) go" where
  "receipt_Create E rec = dbA E (bindA (newID E) (\<lambda>i. bindA nowA (\<lambda>now.
     bindA (modifyA (\<lambda>w. w\<lparr>w_receipts := w_receipts w @ [rec\<lparr>rc_ID := i, rc_CreatedAt := now,
        rc_Purpose := None, rc_BeneficiaryID := None, rc_FeeCents := 0\<rparr>]\<rparr>)) (\<lambda>_. retA i))))"

definition receipt_GetByID :: "env \<Rightarrow> string \<Rightarrow> ('l, TransactionReceipt) go" where
  "receipt_GetByID E i = dbA E (bindA (getsA (\<lambda>w. select_one (\<lambda>r. rc_ID r = i) (w_receipts w)))
     (\<lambda>r. case r of None \<Rightarrow> throwA (General ErrNotFound) | Some x \<Rightarrow> retA x))"

section \<open>Overdrafts\<close>

definition overdraft_row_ok :: "Overdraft \<Rightarrow> bool" where
  "overdraft_row_ok d \<longleftrightarrow> 0 \<le> od_LimitCents d \<and> 0 \<le> od_UsedCents d \<and> 0 \<le> od_AccruedFeeCents d
     \<and> in_i64 (od_LimitCents d) \<and> in_i64 (od_UsedCents d) \<and> in_i64 (od_AccruedFeeCents d)"

definition overdraft_GetByUser :: "env \<Rightarrow> string \<Rightarrow> ('l, Overdraft option) go" where
  "overdraft_GetByUser E uid = dbA E (getsA (\<lambda>w. select_one (\<lambda>d. od_UserID d = uid) (w_overdrafts w)))"

text \<open>An UPDATE that would violate a CHECK fails and changes nothing.\<close>

definition overdraft_update :: "env \<Rightarrow> string \<Rightarrow> (Overdraft \<Rightarrow> Overdraft) \<Rightarrow> ('l, unit) go" where
  "overdraft_update E uid f = dbA E (bindA (getsA w_overdrafts) (\<lambda>ds.
     let ds' = update_where (\<lambda>d. od_UserID d = uid) f ds
     in if list_all (\<lambda>d. od_UserID d = uid \<longrightarrow> overdraft_row_ok d) ds'
        then modifyA (\<lambda>w. w\<lparr>w_overdrafts := ds'\<rparr>) else throwA db_error))"

definition overdraft_CreateOrUpdate :: "env \<Rightarrow> Overdraft \<Rightarrow> ('l, Overdraft) go" where
  "overdraft_CreateOrUpdate E o' = dbA E (bindA nowA (\<lambda>now. bindA (getsA w_overdrafts) (\<lambda>ds.
     case select_one (\<lambda>d. od_UserID d = od_UserID o') ds of
       None \<Rightarrow> bindA (newID E) (\<lambda>i.
         let d = o'\<lparr>od_ID := i, od_UsedCents := 0, od_AccruedFeeCents := 0, od_OverdrawnSince := None,
           od_LastFeeAccrualAt := None, od_CreatedAt := now, od_UpdatedAt := now\<rparr>
         in if overdraft_row_ok d
            then bindA (modifyA (\<lambda>w. w\<lparr>w_overdrafts := ds @ [d]\<rparr>)) (\<lambda>_. retA d)
            else throwA db_error)
     | Some old \<Rightarrow>
         let upd = (\<lambda>d. d\<lparr>od_LimitCents := od_LimitCents o', od_Status := od_Status o',
               od_OptedInAt := (case od_OptedInAt o' of None \<Rightarrow> od_OptedInAt d | Some t \<Rightarrow> Some t),
               od_UpdatedAt := now\<rparr>)
         in if overdraft_row_ok (upd old)
            then bindA (modifyA (\<lambda>w. w\<lparr>w_overdrafts := update_where (\<lambda>d. od_UserID d = od_UserID o') upd ds\<rparr>))
              (\<lambda>_. retA (o'\<lparr>od_ID := od_ID old, od_UsedCents := od_UsedCents old,
                 od_AccruedFeeCents := od_AccruedFeeCents old, od_OverdrawnSince := od_OverdrawnSince old,
                 od_LastFeeAccrualAt := od_LastFeeAccrualAt old, od_CreatedAt := od_CreatedAt old,
                 od_UpdatedAt := now\<rparr>))
            else throwA db_error)))"

definition overdraft_UpdateUsedAndStatus ::
    "env \<Rightarrow> string \<Rightarrow> int \<Rightarrow> OverdraftStatus \<Rightarrow> int option \<Rightarrow> ('l, unit) go" where
  "overdraft_UpdateUsedAndStatus E uid delta status since =
     overdraft_update E uid (\<lambda>d. d\<lparr>od_UsedCents := od_UsedCents d + delta, od_Status := status,
       od_OverdrawnSince := (case since of None \<Rightarrow> od_OverdrawnSince d | Some t \<Rightarrow> Some t)\<rparr>)"

definition overdraft_UpdateRepaid ::
    "env \<Rightarrow> string \<Rightarrow> int \<Rightarrow> int \<Rightarrow> OverdraftStatus \<Rightarrow> ('l, unit) go" where
  "overdraft_UpdateRepaid E uid used accrued status =
     overdraft_update E uid (\<lambda>d. d\<lparr>od_UsedCents := used, od_AccruedFeeCents := accrued, od_Status := status,
       od_OverdrawnSince := None\<rparr>)"

definition overdraft_UpdateFeeAccrual :: "env \<Rightarrow> string \<Rightarrow> int \<Rightarrow> int \<Rightarrow> ('l, unit) go" where
  "overdraft_UpdateFeeAccrual E uid delta t =
     overdraft_update E uid (\<lambda>d. d\<lparr>od_AccruedFeeCents := od_AccruedFeeCents d + delta,
       od_LastFeeAccrualAt := Some t\<rparr>)"

section \<open>Transfer totals\<close>

definition totals_row :: "string \<Rightarrow> string \<Rightarrow> string \<Rightarrow> int \<Rightarrow> TransferTotal \<Rightarrow> bool" where
  "totals_row uid cur dir day t \<longleftrightarrow> tt_UserID t = uid \<and> tt_Currency t = cur \<and> tt_Direction t = dir \<and> tt_Date t = day"

text \<open>A failed query reads as zero, like a missing row.\<close>

definition totals_GetDailyTotal :: "env \<Rightarrow> string \<Rightarrow> string \<Rightarrow> string \<Rightarrow> ('l, int) go" where
  "totals_GetDailyTotal E uid cur dir =
     bindA (tryA (dbA E (getsA (\<lambda>w. select_one (totals_row uid cur dir (day_of (w_now w))) (w_totals w)))))
       (\<lambda>r. case r of Inr (Some t) \<Rightarrow> retA (tt_TotalCents t) | _ \<Rightarrow> retA 0)"

definition month_total :: "string \<Rightarrow> string \<Rightarrow> string \<Rightarrow> int \<Rightarrow> TransferTotal list \<Rightarrow> int" where
  "month_total uid cur dir today ts = sum_list (map tt_TotalCents (filter (\<lambda>t. tt_UserID t = uid
     \<and> tt_Currency t = cur \<and> tt_Direction t = dir \<and> month_start today \<le> tt_Date t) ts))"

definition totals_GetMonthlyTotal :: "env \<Rightarrow> string \<Rightarrow> string \<Rightarrow> string \<Rightarrow> ('l, int) go" where
  "totals_GetMonthlyTotal E uid cur dir =
     bindA (tryA (dbA E (getsA (\<lambda>w. month_total uid cur dir (day_of (w_now w)) (w_totals w)))))
       (\<lambda>r. case r of Inl e \<Rightarrow> retA 0 | Inr n \<Rightarrow> retA n)"

definition totals_Increment :: "env \<Rightarrow> string \<Rightarrow> string \<Rightarrow> string \<Rightarrow> int \<Rightarrow> ('l, unit) go" where
  "totals_Increment E uid cur dir amt = dbA E (modifyA (\<lambda>w.
     let p = totals_row uid cur dir (day_of (w_now w)) in
     w\<lparr>w_totals := (case select_one p (w_totals w) of
        None \<Rightarrow> w_totals w @ [\<lparr>tt_UserID = uid, tt_Currency = cur, tt_Direction = dir,
          tt_Date = day_of (w_now w), tt_TotalCents = amt, tt_TxCount = 1\<rparr>]
      | Some t \<Rightarrow> update_where p (\<lambda>t. t\<lparr>tt_TotalCents := tt_TotalCents t + amt,
          tt_TxCount := tt_TxCount t + 1\<rparr>) (w_totals w))\<rparr>))"

section \<open>Fee schedules\<close>

definition fee_effective :: "int \<Rightarrow> FeeSchedule \<Rightarrow> bool" where
  "fee_effective now fs \<longleftrightarrow> fs_IsActive fs \<and> fs_EffectiveFrom fs \<le> now
     \<and> (case fs_EffectiveTo fs of None \<Rightarrow> True | Some t \<Rightarrow> now < t)"

text \<open>In SQL a comparison with a NULL argument is not true, so with no currency (channel) given only
  the schedules without one match.\<close>

definition fee_matches :: "TransactionType \<Rightarrow> string option \<Rightarrow> string option \<Rightarrow> int \<Rightarrow> FeeSchedule \<Rightarrow> bool" where
  "fee_matches tt cur ch now fs \<longleftrightarrow> fs_TransactionType fs = tt \<and> fee_effective now fs
     \<and> (fs_Currency fs = None \<or> (cur \<noteq> None \<and> fs_Currency fs = cur))
     \<and> (fs_Channel fs = None \<or> (ch \<noteq> None \<and> fs_Channel fs = ch))"

definition fee_rank :: "FeeSchedule \<Rightarrow> int" where
  "fee_rank fs = (if fs_Currency fs \<noteq> None \<and> fs_Channel fs \<noteq> None then 0
     else if fs_Currency fs \<noteq> None then 1 else if fs_Channel fs \<noteq> None then 2 else 3)"

definition fee_FindMatching ::
    "env \<Rightarrow> TransactionType \<Rightarrow> string option \<Rightarrow> string option \<Rightarrow> ('l, FeeSchedule list) go" where
  "fee_FindMatching E tt cur ch = dbA E (getsA (\<lambda>w.
     sort_key fee_rank (sort_key (\<lambda>fs. - fs_CreatedAt fs) (filter (fee_matches tt cur ch (w_now w)) (w_fees w)))))"

definition fee_ListActive :: "env \<Rightarrow> TransactionType \<Rightarrow> ('l, FeeSchedule list) go" where
  "fee_ListActive E tt = dbA E (getsA (\<lambda>w. sort_key (\<lambda>fs. - fs_CreatedAt fs)
     (filter (\<lambda>fs. fs_TransactionType fs = tt \<and> fee_effective (w_now w) fs) (w_fees w))))"

definition fee_GetByID :: "env \<Rightarrow> string \<Rightarrow> ('l, FeeSchedule) go" where
  "fee_GetByID E i = dbA E (bindA (getsA (\<lambda>w. select_one (\<lambda>fs. fs_ID fs = i) (w_fees w)))
     (\<lambda>r. case r of None \<Rightarrow> throwA (Pricing ErrFeeScheduleNotFound) | Some fs \<Rightarrow> retA fs))"

definition fee_row_ok :: "FeeSchedule \<Rightarrow> bool" where
  "fee_row_ok fs \<longleftrightarrow> 0 \<le> fs_FlatAmountCents fs \<and> 0 \<le> fs_PercentBps fs \<and> 0 \<le> fs_MinFeeCents fs \<and> 0 \<le> fs_MaxFeeCents fs"

definition fee_Create :: "env \<Rightarrow> FeeSchedule \<Rightarrow> ('l, FeeSchedule) go" where
  "fee_Create E fs = dbA E (if \<not> fee_row_ok fs then throwA db_error else
     bindA (newID E) (\<lambda>i. bindA nowA (\<lambda>now.
     let row = fs\<lparr>fs_ID := i, fs_CreatedAt := now, fs_UpdatedAt := now\<rparr>
     in bindA (modifyA (\<lambda>w. w\<lparr>w_fees := w_fees w @ [row]\<rparr>)) (\<lambda>_. retA row))))"

definition fee_update :: "env \<Rightarrow> string \<Rightarrow> (int \<Rightarrow> FeeSchedule \<Rightarrow> FeeSchedule) \<Rightarrow> ('l, unit) go" where
  "fee_update E i f = dbA E (bindA (getsA (\<lambda>w. rows_affected (\<lambda>fs. fs_ID fs = i) (w_fees w))) (\<lambda>n.
     bindA (modifyA (\<lambda>w. w\<lparr>w_fees := update_where (\<lambda>fs. fs_ID fs = i) (f (w_now w)) (w_fees w)\<rparr>)) (\<lambda>_.
     if n = 0 then throwA (Pricing ErrFeeScheduleNotFound) else retA ())))"

definition fee_Update :: "env \<Rightarrow> FeeSchedule \<Rightarrow> ('l, unit) go" where
  "fee_Update E fs = (if \<not> fee_row_ok fs then dbA E (throwA db_error)
     else fee_update E (fs_ID fs) (\<lambda>now old. fs\<lparr>fs_CreatedAt := fs_CreatedAt old, fs_UpdatedAt := now\<rparr>))"

definition fee_Deactivate :: "env \<Rightarrow> string \<Rightarrow> ('l, unit) go" where
  "fee_Deactivate E i = fee_update E i (\<lambda>now fs. fs\<lparr>fs_IsActive := False, fs_UpdatedAt := now\<rparr>)"

section \<open>Regulatory rules\<close>

definition rule_effective :: "int \<Rightarrow> RegulatoryRule \<Rightarrow> bool" where
  "rule_effective now r \<longleftrightarrow> rr_EffectiveFrom r \<le> now
     \<and> (case rr_EffectiveTo r of None \<Rightarrow> True | Some t \<Rightarrow> now < t)"

text \<open>The order of the scope names as text.\<close>

fun scope_rank :: "RuleScope \<Rightarrow> int" where
  "scope_rank RuleScopeAccountType = 0"
| "scope_rank RuleScopeCurrency = 1"
| "scope_rank RuleScopeGlobal = 2"
| "scope_rank RuleScopeKYCLevel = 3"

fun string_less :: "string \<Rightarrow> string \<Rightarrow> bool" where
  "string_less [] [] = False"
| "string_less [] (c # t) = True"
| "string_less (c # s) [] = False"
| "string_less (c # s) (d # t) = ((of_char c :: nat) < of_char d \<or> (c = d \<and> string_less s t))"

fun insert_rule :: "RegulatoryRule \<Rightarrow> RegulatoryRule list \<Rightarrow> RegulatoryRule list" where
  "insert_rule r [] = [r]"
| "insert_rule r (q # qs) = (if string_less (rr_ScopeValue r) (rr_ScopeValue q) then r # q # qs
     else q # insert_rule r qs)"

definition order_rules :: "RegulatoryRule list \<Rightarrow> RegulatoryRule list" where
  "order_rules rs = sort_key (\<lambda>r. scope_rank (rr_Scope r)) (foldl (\<lambda>acc r. insert_rule r acc) [] rs)"

definition rule_ListEffectiveByKey :: "env \<Rightarrow> string \<Rightarrow> ('l, RegulatoryRule list) go" where
  "rule_ListEffectiveByKey E key = dbA E (getsA (\<lambda>w.
     order_rules (filter (\<lambda>r. rr_Key r = key \<and> rule_effective (w_now w) r) (w_rules w))))"

definition rule_GetByID :: "env \<Rightarrow> string \<Rightarrow> ('l, RegulatoryRule) go" where
  "rule_GetByID E i = dbA E (bindA (getsA (\<lambda>w. select_one (\<lambda>r. rr_ID r = i) (w_rules w)))
     (\<lambda>r. case r of None \<Rightarrow> throwA (Regulatory ErrRegulatoryRuleNotFound) | Some x \<Rightarrow> retA x))"

definition rule_Create :: "env \<Rightarrow> RegulatoryRule \<Rightarrow> ('l, RegulatoryRule) go" where
  "rule_Create E r = dbA E (bindA (getsA (\<lambda>w. select_one (\<lambda>q. rr_Key q = rr_Key r \<and> rr_Scope q = rr_Scope r
       \<and> rr_ScopeValue q = rr_ScopeValue r \<and> rr_EffectiveFrom q = rr_EffectiveFrom r) (w_rules w))) (\<lambda>dup.
     case dup of Some _ \<Rightarrow> throwA db_error
     | None \<Rightarrow> bindA (newID E) (\<lambda>i. bindA nowA (\<lambda>now.
         let row = r\<lparr>rr_ID := i, rr_CreatedAt := now, rr_UpdatedAt := now\<rparr>
         in bindA (modifyA (\<lambda>w. w\<lparr>w_rules := w_rules w @ [row]\<rparr>)) (\<lambda>_. retA row)))))"

definition rule_Update :: "env \<Rightarrow> RegulatoryRule \<Rightarrow> ('l, unit) go" where
  "rule_Update E r = dbA E (bindA (getsA (\<lambda>w. rows_affected (\<lambda>q. rr_ID q = rr_ID r) (w_rules w))) (\<lambda>n.
     if n = 0 then throwA db_error
     else modifyA (\<lambda>w. w\<lparr>w_rules := update_where (\<lambda>q. rr_ID q = rr_ID r)
       (\<lambda>q. q\<lparr>rr_Description := rr_Description r, rr_Value := rr_Value r,
          rr_EffectiveTo := rr_EffectiveTo r, rr_UpdatedAt := w_now w\<rparr>) (w_rules w)\<rparr>)))"

section \<open>Recipients\<close>

text \<open>The row an upsert conflicts with, by the partial unique indexes of the table.\<close>

definition recipient_conflict :: "Recipient \<Rightarrow> Recipient \<Rightarrow> bool" where
  "recipient_conflict r q \<longleftrightarrow> rp_OwnerUserID q = rp_OwnerUserID r \<and> rp_Status q = RecipientActive \<and>
     (case rp_Type r of
        RecipientNeoUser \<Rightarrow> rp_NeoUserID r \<noteq> None \<and> rp_NeoUserID q = rp_NeoUserID r
      | RecipientBankAccount \<Rightarrow> rp_InstitutionCode r \<noteq> None \<and> rp_AccountNumber r \<noteq> None
          \<and> rp_InstitutionCode q = rp_InstitutionCode r \<and> rp_AccountNumber q = rp_AccountNumber r)"

definition coalesce :: "'a option \<Rightarrow> 'a option \<Rightarrow> 'a option" where
  "coalesce a b = (case a of None \<Rightarrow> b | Some x \<Rightarrow> Some x)"

definition recipient_merge :: "Recipient \<Rightarrow> Recipient \<Rightarrow> Recipient" where
  "recipient_merge r q = q\<lparr>rp_DisplayName := rp_DisplayName r,
     rp_CountryCode := coalesce (rp_CountryCode r) (rp_CountryCode q),
     rp_Number := coalesce (rp_Number r) (rp_Number q),
     rp_Username := coalesce (rp_Username r) (rp_Username q),
     rp_LastUsedAt := rp_LastUsedAt r, rp_LastUsedCurrency := rp_LastUsedCurrency r,
     rp_TransferCount := rp_TransferCount q + 1\<rparr>"

definition recipient_Upsert :: "env \<Rightarrow> Recipient \<Rightarrow> ('l, Recipient) go" where
  "recipient_Upsert E r = dbA E (bindA (getsA (\<lambda>w. select_one (recipient_conflict r) (w_recipients w))) (\<lambda>c.
     case c of
       None \<Rightarrow> bindA (newID E) (\<lambda>i. bindA nowA (\<lambda>now.
         let row = r\<lparr>rp_ID := i, rp_IsFavorite := False, rp_TransferCount := 1, rp_Status := RecipientActive,
           rp_CreatedAt := now\<rparr>
         in bindA (modifyA (\<lambda>w. w\<lparr>w_recipients := w_recipients w @ [row]\<rparr>)) (\<lambda>_. retA row)))
     | Some q \<Rightarrow> bindA (modifyA (\<lambda>w. w\<lparr>w_recipients :=
           update_where (recipient_conflict r) (recipient_merge r) (w_recipients w)\<rparr>))
         (\<lambda>_. retA (recipient_merge r q))))"

definition recipient_GetByID :: "env \<Rightarrow> string \<Rightarrow> string \<Rightarrow> ('l, Recipient) go" where
  "recipient_GetByID E i owner = dbA E (bindA (getsA (\<lambda>w.
       select_one (\<lambda>r. rp_ID r = i \<and> rp_OwnerUserID r = owner) (w_recipients w)))
     (\<lambda>r. case r of None \<Rightarrow> throwA (Recipients ErrRecipientNotFound) | Some x \<Rightarrow> retA x))"

definition recipient_update :: "env \<Rightarrow> string \<Rightarrow> string \<Rightarrow> (Recipient \<Rightarrow> Recipient) \<Rightarrow> ('l, unit) go" where
  "recipient_update E i owner f =
     (let p = (\<lambda>r. rp_ID r = i \<and> rp_OwnerUserID r = owner \<and> rp_Status r = RecipientActive)
      in dbA E (bindA (getsA (\<lambda>w. rows_affected p (w_recipients w))) (\<lambda>n.
         bindA (modifyA (\<lambda>w. w\<lparr>w_recipients := update_where p f (w_recipients w)\<rparr>)) (\<lambda>_.
         if n = 0 then throwA (Recipients ErrRecipientNotFound) else retA ()))))"

definition recipient_UpdateFavorite :: "env \<Rightarrow> string \<Rightarrow> string \<Rightarrow> bool \<Rightarrow> ('l, unit) go" where
  "recipient_UpdateFavorite E i owner fav = recipient_update E i owner (\<lambda>r. r\<lparr>rp_IsFavorite := fav\<rparr>)"

definition recipient_Archive :: "env \<Rightarrow> string \<Rightarrow> string \<Rightarrow> ('l, unit) go" where
  "recipient_Archive E i owner = recipient_update E i owner (\<lambda>r. r\<lparr>rp_Status := RecipientArchived\<rparr>)"

section \<open>Loans and credit profiles\<close>

definition profile_row_ok :: "CreditProfile \<Rightarrow> bool" where
  "profile_row_ok p \<longleftrightarrow> 300 \<le> cp_TrustScore p \<and> cp_TrustScore p \<le> 1000 \<and> 0 \<le> cp_ApprovedLimitCents p
     \<and> 0 \<le> cp_ActiveDaysPerMonth p \<and> cp_ActiveDaysPerMonth p \<le> 31"

definition loan_UpsertCreditProfile :: "env \<Rightarrow> CreditProfile \<Rightarrow> ('l, unit) go" where
  "loan_UpsertCreditProfile E p = dbA E (if \<not> profile_row_ok p then throwA db_error else
     modifyA (\<lambda>w. w\<lparr>w_profiles := (case select_one (\<lambda>q. cp_UserID q = cp_UserID p) (w_profiles w) of
        None \<Rightarrow> w_profiles w @ [p]
      | Some _ \<Rightarrow> update_where (\<lambda>q. cp_UserID q = cp_UserID p) (\<lambda>_. p) (w_profiles w))\<rparr>))"

definition loan_GetCreditProfile :: "env \<Rightarrow> string \<Rightarrow> ('l, CreditProfile) go" where
  "loan_GetCreditProfile E uid = dbA E (bindA (getsA (\<lambda>w. select_one (\<lambda>p. cp_UserID p = uid) (w_profiles w)))
     (\<lambda>r. case r of None \<Rightarrow> throwA (Lending ErrNoEligibleProfile) | Some p \<Rightarrow> retA p))"

definition loan_row_ok :: "Loan \<Rightarrow> bool" where
  "loan_row_ok l \<longleftrightarrow> 0 < ln_PrincipalAmountCents l \<and> 0 \<le> ln_InterestFeeCents l \<and> 0 < ln_TotalDueCents l
     \<and> 0 \<le> ln_TotalPaidCents l \<and> 0 < ln_DurationDays l"

text \<open>The INSERT leaves \<open>status\<close>, \<open>total_paid_cents\<close> and \<open>days_past_due\<close> to their defaults.\<close>

definition loan_CreateLoan :: "env \<Rightarrow> Loan \<Rightarrow> ('l, Loan) go" where
  "loan_CreateLoan E l = dbA E (bindA (newID E) (\<lambda>i. bindA nowA (\<lambda>now.
     let row = l\<lparr>ln_ID := i, ln_TotalPaidCents := 0, ln_Status := LoanActive, ln_DaysPastDue := 0,
                 ln_DisbursedAt := now\<rparr>
     in if \<not> loan_row_ok row then throwA db_error
        else bindA (modifyA (\<lambda>w. w\<lparr>w_loans := w_loans w @ [row]\<rparr>))
          (\<lambda>_. retA (l\<lparr>ln_ID := i, ln_DisbursedAt := now\<rparr>)))))"

definition loan_GetLoan :: "env \<Rightarrow> string \<Rightarrow> ('l, Loan) go" where
  "loan_GetLoan E i = dbA E (bindA (getsA (\<lambda>w. select_one (\<lambda>l. ln_ID l = i) (w_loans w)))
     (\<lambda>r. case r of None \<Rightarrow> throwA (Lending ErrLoanNotFound) | Some l \<Rightarrow> retA l))"

definition loan_ListActiveByUser :: "env \<Rightarrow> string \<Rightarrow> ('l, Loan list) go" where
  "loan_ListActiveByUser E uid = dbA E (getsA (\<lambda>w. sort_key (\<lambda>l. - ln_DisbursedAt l)
     (filter (\<lambda>l. ln_UserID l = uid \<and> ln_Status l \<in> {LoanActive, LoanInArrears}) (w_loans w))))"

definition loan_ListAllByUser :: "env \<Rightarrow> string \<Rightarrow> nat \<Rightarrow> nat \<Rightarrow> ('l, Loan list) go" where
  "loan_ListAllByUser E uid limit offset = dbA E (getsA (\<lambda>w. take limit (drop offset
     (sort_key (\<lambda>l. - ln_DisbursedAt l) (filter (\<lambda>l. ln_UserID l = uid) (w_loans w))))))"

definition loan_CountByUser :: "env \<Rightarrow> string \<Rightarrow> ('l, int) go" where
  "loan_CountByUser E uid = dbA E (getsA (\<lambda>w. int (length (filter (\<lambda>l. ln_UserID l = uid) (w_loans w)))))"

definition loan_UpdateLoanStatus :: "env \<Rightarrow> string \<Rightarrow> LoanStatus \<Rightarrow> int \<Rightarrow> ('l, unit) go" where
  "loan_UpdateLoanStatus E i st dpd = dbA E (modifyA (\<lambda>w. w\<lparr>w_loans := update_where (\<lambda>l. ln_ID l = i)
     (\<lambda>l. l\<lparr>ln_Status := st, ln_DaysPastDue := dpd\<rparr>) (w_loans w)\<rparr>))"

definition loan_IncrementPaid :: "env \<Rightarrow> string \<Rightarrow> int \<Rightarrow> ('l, unit) go" where
  "loan_IncrementPaid E i amt = dbA E (bindA (getsA w_loans) (\<lambda>ls.
     let ls' = update_where (\<lambda>l. ln_ID l = i) (\<lambda>l. l\<lparr>ln_TotalPaidCents := ln_TotalPaidCents l + amt\<rparr>) ls
     in if list_all (\<lambda>l. ln_ID l = i \<longrightarrow> 0 \<le> ln_TotalPaidCents l) ls'
        then modifyA (\<lambda>w. w\<lparr>w_loans := ls'\<rparr>) else throwA db_error))"

text \<open>The batch of INSERTs is one implicit transaction: it commits as a whole or not at all.\<close>

definition loan_CreateInstallments :: "env \<Rightarrow> LoanInstallment list \<Rightarrow> ('l, unit) go" where
  "loan_CreateInstallments E is =
     (if is = [] then retA () else
      dbA E (if list_all (\<lambda>i. 0 < li_AmountDueCents i) is
             then bindA (mapA (\<lambda>i. bindA (newID E) (\<lambda>n. retA (i\<lparr>li_ID := n, li_AmountPaidCents := 0,
                    li_IsPaid := False, li_PaidAt := None, li_LedgerRepaymentTx := None\<rparr>))) is)
                  (\<lambda>rows. modifyA (\<lambda>w. w\<lparr>w_installments := w_installments w @ rows\<rparr>))
             else throwA db_error))"

definition loan_ListInstallmentsByLoan :: "env \<Rightarrow> string \<Rightarrow> ('l, LoanInstallment list) go" where
  "loan_ListInstallmentsByLoan E lid = dbA E (getsA (\<lambda>w. sort_key li_InstallmentNumber
     (filter (\<lambda>i. li_LoanID i = lid) (w_installments w))))"

definition loan_ListDueUnpaidInstallments :: "env \<Rightarrow> ('l, LoanInstallment list) go" where
  "loan_ListDueUnpaidInstallments E = dbA E (getsA (\<lambda>w. sort_key li_DueDate
     (filter (\<lambda>i. \<not> li_IsPaid i \<and> li_DueDate i \<le> w_now w) (w_installments w))))"

definition loan_MarkInstallmentPaid :: "env \<Rightarrow> string \<Rightarrow> string \<Rightarrow> ('l, unit) go" where
  "loan_MarkInstallmentPaid E i tx = dbA E (modifyA (\<lambda>w. w\<lparr>w_installments := update_where (\<lambda>x. li_ID x = i)
     (\<lambda>x. x\<lparr>li_IsPaid := True, li_PaidAt := Some (w_now w), li_AmountPaidCents := li_AmountDueCents x,
           li_LedgerRepaymentTx := Some tx\<rparr>) (w_installments w)\<rparr>))"

definition loan_CountLatePayments :: "env \<Rightarrow> string \<Rightarrow> ('l, int) go" where
  "loan_CountLatePayments E uid = dbA E (getsA (\<lambda>w. int (length (filter (\<lambda>i. \<not> li_IsPaid i \<and> li_DueDate i < w_now w
     \<and> (\<exists>l \<in> set (w_loans w). ln_ID l = li_LoanID i \<and> ln_UserID l = uid)) (w_installments w)))))"

text \<open>Evaluation unfolds an action only when it runs.\<close>

lemmas repositories_code [code] =
  audit_Log_def [THEN fun_cong]
  audit_ListByResource_def [THEN fun_cong]
  user_query_def [THEN fun_cong]
  user_GetByID_def [THEN fun_cong]
  user_GetByPhone_def [THEN fun_cong]
  user_GetByTelegramID_def [THEN fun_cong]
  user_GetByUsername_def [THEN fun_cong]
  user_update_def [THEN fun_cong]
  user_UpdateKYCLevel_def [THEN fun_cong]
  user_Freeze_def [THEN fun_cong]
  user_Unfreeze_def [THEN fun_cong]
  user_BindTelegram_def [THEN fun_cong]
  user_UnbindTelegram_def [THEN fun_cong]
  user_UpdateSpendWaterfall_def [THEN fun_cong]
  user_UpdatePassword_def [THEN fun_cong]
  user_Create_def [THEN fun_cong]
  user_UpdateDemographics_def [THEN fun_cong]
  receipt_Create_def [THEN fun_cong]
  receipt_GetByID_def [THEN fun_cong]
  overdraft_update_def [THEN fun_cong]
  overdraft_CreateOrUpdate_def [THEN fun_cong]
  overdraft_UpdateUsedAndStatus_def [THEN fun_cong]
  overdraft_UpdateRepaid_def [THEN fun_cong]
  overdraft_UpdateFeeAccrual_def [THEN fun_cong]
  totals_GetDailyTotal_def [THEN fun_cong]
  totals_GetMonthlyTotal_def [THEN fun_cong]
  totals_Increment_def [THEN fun_cong]
  fee_FindMatching_def [THEN fun_cong]
  fee_ListActive_def [THEN fun_cong]
  fee_GetByID_def [THEN fun_cong]
  fee_update_def [THEN fun_cong]
  fee_Update_def [THEN fun_cong]
  fee_Deactivate_def [THEN fun_cong]
  rule_ListEffectiveByKey_def [THEN fun_cong]
  rule_GetByID_def [THEN fun_cong]
  rule_Create_def [THEN fun_cong]
  rule_Update_def [THEN fun_cong]
  recipient_Upsert_def [THEN fun_cong]
  recipient_GetByID_def [THEN fun_cong]
  recipient_update_def [THEN fun_cong]
  recipient_UpdateFavorite_def [THEN fun_cong]
  recipient_Archive_def [THEN fun_cong]
  loan_GetCreditProfile_def [THEN fun_cong]
  loan_GetLoan_def [THEN fun_cong]
  loan_ListActiveByUser_def [THEN fun_cong]
  loan_ListAllByUser_def [THEN fun_cong]
  loan_CountByUser_def [THEN fun_cong]
  loan_UpdateLoanStatus_def [THEN fun_cong]
  loan_IncrementPaid_def [THEN fun_cong]
  loan_CreateInstallments_def [THEN fun_cong]
  loan_ListInstallmentsByLoan_def [THEN fun_cong]
  loan_ListDueUnpaidInstallments_def [THEN fun_cong]
  loan_MarkInstallmentPaid_def [THEN fun_cong]
  loan_CountLatePayments_def [THEN fun_cong]

section \<open>No repository touches the ledger\<close>

lemma calm_update_helpers [calms]:
  "calm (user_query E p)" "calm (user_update E i f)" "calm (overdraft_update E i g)"
  "calm (fee_update E i h)" "calm (recipient_update E i ow k)"
  unfolding user_query_def user_update_def overdraft_update_def fee_update_def recipient_update_def Let_def
  by (rule calms | simp)+

lemma calm_audit [calms]: "calm (audit_Log E e)" "calm (audit_ListByResource E t i n)"
  unfolding audit_Log_def audit_ListByResource_def by (rule calms | simp)+

lemma calm_users [calms]:
  "calm (user_GetByID E i)" "calm (user_GetByPhone E p)" "calm (user_GetByTelegramID E t)"
  "calm (user_GetByUsername E n)" "calm (user_UpdateKYCLevel E i lv)" "calm (user_Freeze E i r)"
  "calm (user_Unfreeze E i)" "calm (user_BindTelegram E i t n)" "calm (user_UnbindTelegram E i)"
  "calm (user_UpdateSpendWaterfall E i order)" "calm (user_UpdatePassword E i h)"
  unfolding user_GetByID_def user_GetByPhone_def user_GetByTelegramID_def user_GetByUsername_def
    user_UpdateKYCLevel_def user_Freeze_def user_Unfreeze_def user_BindTelegram_def user_UnbindTelegram_def
    user_UpdateSpendWaterfall_def user_UpdatePassword_def
  by (rule calms | simp)+

lemma calm_user_rows [calms]:
  "calm (user_Create E u)" "calm (user_UpdateDemographics E pgdate i firstName middleName lastName dob gender photoURL)"
  unfolding user_Create_def user_UpdateDemographics_def Let_def nowA_def by (rule calms | simp)+

lemma calm_receipts [calms]: "calm (receipt_Create E r)" "calm (receipt_GetByID E i)"
  unfolding receipt_Create_def receipt_GetByID_def by (rule calms | simp)+

lemma calm_overdrafts [calms]:
  "calm (overdraft_GetByUser E u)" "calm (overdraft_CreateOrUpdate E d)"
  "calm (overdraft_UpdateUsedAndStatus E u n s t)" "calm (overdraft_UpdateRepaid E u a b s)"
  "calm (overdraft_UpdateFeeAccrual E u a t')"
  unfolding overdraft_GetByUser_def overdraft_CreateOrUpdate_def overdraft_UpdateUsedAndStatus_def
    overdraft_UpdateRepaid_def overdraft_UpdateFeeAccrual_def Let_def
  by (rule calms | simp)+

lemma calm_totals [calms]:
  "calm (totals_GetDailyTotal E u c d)" "calm (totals_GetMonthlyTotal E u c d)" "calm (totals_Increment E u c d n)"
  unfolding totals_GetDailyTotal_def totals_GetMonthlyTotal_def totals_Increment_def
  by (rule calms | simp add: Let_def)+

lemma calm_fees [calms]:
  "calm (fee_FindMatching E tt c ch)" "calm (fee_ListActive E tt)" "calm (fee_GetByID E i)"
  "calm (fee_Create E fs)" "calm (fee_Update E fs)" "calm (fee_Deactivate E i)"
  unfolding fee_FindMatching_def fee_ListActive_def fee_GetByID_def fee_Create_def fee_Update_def
    fee_Deactivate_def Let_def
  by (rule calms | simp)+

lemma calm_rules [calms]:
  "calm (rule_ListEffectiveByKey E k)" "calm (rule_GetByID E i)" "calm (rule_Create E r)" "calm (rule_Update E r)"
  unfolding rule_ListEffectiveByKey_def rule_GetByID_def rule_Create_def rule_Update_def Let_def
  by (rule calms | simp)+

lemma calm_recipients [calms]:
  "calm (recipient_Upsert E r)" "calm (recipient_GetByID E i ow)" "calm (recipient_UpdateFavorite E i ow b)"
  "calm (recipient_Archive E i ow)"
  unfolding recipient_Upsert_def recipient_GetByID_def recipient_UpdateFavorite_def recipient_Archive_def Let_def
  by (rule calms | simp)+

lemma calm_loans [calms]:
  "calm (loan_UpsertCreditProfile E p)" "calm (loan_GetCreditProfile E u)" "calm (loan_CreateLoan E l)"
  "calm (loan_GetLoan E i)" "calm (loan_ListActiveByUser E u)" "calm (loan_ListAllByUser E u a b)"
  "calm (loan_CountByUser E u)" "calm (loan_UpdateLoanStatus E i st d)" "calm (loan_IncrementPaid E i n)"
  "calm (loan_CreateInstallments E is)" "calm (loan_ListInstallmentsByLoan E i)"
  "calm (loan_ListDueUnpaidInstallments E)" "calm (loan_MarkInstallmentPaid E i tx)"
  "calm (loan_CountLatePayments E u)"
  unfolding loan_UpsertCreditProfile_def loan_GetCreditProfile_def loan_CreateLoan_def loan_GetLoan_def
    loan_ListActiveByUser_def loan_ListAllByUser_def loan_CountByUser_def loan_UpdateLoanStatus_def
    loan_IncrementPaid_def loan_CreateInstallments_def loan_ListInstallmentsByLoan_def
    loan_ListDueUnpaidInstallments_def loan_MarkInstallmentPaid_def loan_CountLatePayments_def Let_def
  by (rule calms | simp)+

end
