(* ===== verification/Pricing.thy ===== *)
theory Pricing
  imports Repositories
begin

text \<open>
  \<open>internal/services/pricing\<close>: the fee of a transaction from the fee schedules, with the sixty-second
  cache, and the FX spread. The quote that includes a remittance partner
  (\<open>GetQuote\<close>) is in \<open>Remittance\<close>.
\<close>

section \<open>Definitions\<close>

definition computeFee :: "FeeSchedule \<Rightarrow> int \<Rightarrow> int" where
  "computeFee sched amountCents =
     (case fs_FeeType sched of
        FeeTypeTransferFlat \<Rightarrow> fs_FlatAmountCents sched
      | FeeTypeFXSpread \<Rightarrow> 0
      | _ \<Rightarrow>
        (let fee = go_div (i64 (amountCents * fs_PercentBps sched)) 10000;
             fee = (if fs_MinFeeCents sched > 0 \<and> fee < fs_MinFeeCents sched then fs_MinFeeCents sched else fee);
             fee = (if fs_MaxFeeCents sched > 0 \<and> fee > fs_MaxFeeCents sched then fs_MaxFeeCents sched else fee)
         in fee))"

fun txType_string :: "TransactionType \<Rightarrow> string" where
  "txType_string TxTypeP2P = ''p2p''"
| "txType_string TxTypeEthSwitchOut = ''ethswitch_out''"
| "txType_string TxTypeFXConversion = ''fx_conversion''"
| "txType_string TxTypeCardInternational = ''card_international''"
| "txType_string TxTypeInternationalTransfer = ''international_transfer''"

fun feeType_string :: "FeeType \<Rightarrow> string" where
  "feeType_string FeeTypeFXSpread = ''fx_spread''"
| "feeType_string FeeTypeTransferFlat = ''transfer_flat''"
| "feeType_string FeeTypeTransferPercent = ''transfer_percent''"
| "feeType_string FeeTypeCorridorMarkup = ''corridor_markup''"

text \<open>The loop over the schedules.\<close>

definition fee_step :: "int \<Rightarrow> FeeBreakdown \<Rightarrow> FeeSchedule \<Rightarrow> FeeBreakdown" where
  "fee_step amountCents b sched =
     (if fs_FeeType sched = FeeTypeFXSpread then b
      else let fee = computeFee sched amountCents in
        b\<lparr>fb_OurFeeCents := i64 (fb_OurFeeCents b + fee),
          fb_Details := fb_Details b @ [\<lparr>fd_Name = fs_Name sched, fd_AmountCents = fee,
            fd_Type = feeType_string (fs_FeeType sched)\<rparr>]\<rparr>)"

definition fee_breakdown :: "int \<Rightarrow> FeeSchedule list \<Rightarrow> FeeBreakdown" where
  "fee_breakdown amountCents scheds =
     (let b = foldl (fee_step amountCents)
           \<lparr>fb_OurFeeCents = 0, fb_PartnerFeeCents = 0, fb_TotalFeeCents = 0, fb_Details = []\<rparr> scheds
      in b\<lparr>fb_TotalFeeCents := i64 (fb_OurFeeCents b + fb_PartnerFeeCents b)\<rparr>)"

definition fee_cache_key :: "TransactionType \<Rightarrow> string \<Rightarrow> string option \<Rightarrow> string" where
  "fee_cache_key tt currency channel =
     ''neo:fees:'' @ txType_string tt @ ''|'' @ currency @ ''|'' @ (case channel of None \<Rightarrow> '''' | Some c \<Rightarrow> c)"

text \<open>An empty result is stored as JSON \<open>null\<close>, which reads back as a nil slice and is loaded again.\<close>

definition load_schedules ::
    "env \<Rightarrow> TransactionType \<Rightarrow> string \<Rightarrow> string option \<Rightarrow> ('l, FeeSchedule list) go" where
  "load_schedules E tt currency channel =
     bindA (cacheGet (fee_cache_key tt currency channel)) (\<lambda>data.
     case data of
       Some (CFees (f # fs)) \<Rightarrow> retA (f # fs)
     | _ \<Rightarrow>
       bindA (fee_FindMatching E tt (Some currency) channel) (\<lambda>s1.
       bindA (if s1 = [] then fee_FindMatching E tt None None else retA s1) (\<lambda>s2.
       bindA (cacheSet (fee_cache_key tt currency channel) (CFees s2) (60 * second)) (\<lambda>_.
       retA s2))))"

definition CalculateFee ::
    "env \<Rightarrow> TransactionType \<Rightarrow> int \<Rightarrow> string \<Rightarrow> string option \<Rightarrow> ('l, FeeBreakdown) go" where
  "CalculateFee E tt amountCents currency channel =
     bindA (load_schedules E tt currency channel) (\<lambda>scheds. retA (fee_breakdown amountCents scheds))"

definition spread_of :: "FeeSchedule list \<Rightarrow> int option" where
  "spread_of scheds = map_option fs_PercentBps (find (\<lambda>s. fs_FeeType s = FeeTypeFXSpread) scheds)"

definition GetFXSpreadBps :: "env \<Rightarrow> ('l, int) go" where
  "GetFXSpreadBps E =
     (let cacheKey = ''neo:fees:fx_conversion||'' in
      bindA (cacheGet cacheKey) (\<lambda>data.
      case (case data of Some (CFees scheds) \<Rightarrow> spread_of scheds | _ \<Rightarrow> None) of
        Some bps \<Rightarrow> retA bps
      | None \<Rightarrow>
        bindA (tryA (fee_FindMatching E TxTypeFXConversion None None)) (\<lambda>r.
        case r of
          Inl e \<Rightarrow> retA 150
        | Inr scheds \<Rightarrow>
          bindA (cacheSet cacheKey (CFees scheds) (60 * second)) (\<lambda>_.
          retA (case spread_of scheds of Some bps \<Rightarrow> bps | None \<Rightarrow> 150)))))"

text \<open>Evaluation unfolds an action only when it runs.\<close>

lemmas pricing_code [code] =
  load_schedules_def [THEN fun_cong]
  CalculateFee_def [THEN fun_cong]
  GetFXSpreadBps_def [THEN fun_cong]

section \<open>Lemmas\<close>

lemma calm_load_schedules [calms]: "calm (load_schedules E tt c ch)"
  unfolding load_schedules_def by (rule calms)+

lemma calm_CalculateFee [calms]: "calm (CalculateFee E tt n c ch)"
  unfolding CalculateFee_def by (rule calms)+

lemma calm_GetFXSpreadBps [calms]: "calm (GetFXSpreadBps E)"
  unfolding GetFXSpreadBps_def Let_def by (rule calms)+

text \<open>A percentage of an amount fits in an \<open>int64\<close>.\<close>

lemma percent_fits: "0 \<le> a \<Longrightarrow> a \<le> 10 ^ 13 \<Longrightarrow> 0 \<le> b \<Longrightarrow> b \<le> 100000 \<Longrightarrow> i64 (a * b) = a * b"
proof -
  assume a: "0 \<le> a" "a \<le> 10 ^ 13" "0 \<le> b" "b \<le> 100000"
  then have "a * b \<le> 10 ^ 13 * 100000" by (intro mult_mono) auto
  with a show ?thesis by (intro i64_id in_i64I) (simp add: abs_of_nonneg)
qed

lemma computeFee_nonneg:
  assumes "fee_row_ok sched" "0 \<le> a" "a \<le> 10 ^ 13" "fs_PercentBps sched \<le> 100000"
  shows "0 \<le> computeFee sched a"
proof -
  have "0 \<le> go_div (i64 (a * fs_PercentBps sched)) 10000"
    using assms percent_fits [of a "fs_PercentBps sched"]
    by (simp add: fee_row_ok_def go_div_pos pos_imp_zdiv_nonneg_iff)
  then show ?thesis using assms by (auto simp: computeFee_def Let_def fee_row_ok_def split: FeeType.split)
qed

lemma fee_breakdown_fold:
  "fb_Details (foldl (fee_step a) b scheds) = fb_Details b @
     map (\<lambda>s. \<lparr>fd_Name = fs_Name s, fd_AmountCents = computeFee s a, fd_Type = feeType_string (fs_FeeType s)\<rparr>)
       (filter (\<lambda>s. fs_FeeType s \<noteq> FeeTypeFXSpread) scheds)"
  "fb_PartnerFeeCents (foldl (fee_step a) b scheds) = fb_PartnerFeeCents b"
  by (induction scheds arbitrary: b) (auto simp: fee_step_def Let_def)

lemma i64_idem [simp]: "i64 (i64 x) = i64 x"
  by (rule i64_id) simp

lemma fee_breakdown_our:
  "in_i64 (fb_OurFeeCents b) \<Longrightarrow> fb_OurFeeCents (foldl (fee_step a) b scheds) =
     i64 (fb_OurFeeCents b + sum_list (map (\<lambda>s. computeFee s a) (filter (\<lambda>s. fs_FeeType s \<noteq> FeeTypeFXSpread) scheds)))"
proof (induction scheds arbitrary: b)
  case (Cons s ss)
  show ?case
  proof (cases "fs_FeeType s = FeeTypeFXSpread")
    case True
    with Cons show ?thesis by (simp add: fee_step_def)
  next
    case False
    have "fb_OurFeeCents (foldl (fee_step a) (fee_step a b s) ss) = i64 (fb_OurFeeCents (fee_step a b s)
        + sum_list (map (\<lambda>s. computeFee s a) (filter (\<lambda>s. fs_FeeType s \<noteq> FeeTypeFXSpread) ss)))"
      using False by (intro Cons.IH) (simp add: fee_step_def Let_def)
    moreover have "fb_OurFeeCents (fee_step a b s) = i64 (fb_OurFeeCents b + computeFee s a)"
      using False by (simp add: fee_step_def Let_def)
    ultimately show ?thesis using False by (simp add: i64_add_left add.assoc)
  qed
qed simp

section \<open>Properties\<close>


definition sample_fee :: FeeSchedule where
  "sample_fee = \<lparr>fs_ID = ''1'', fs_Name = ''P2P'', fs_FeeType = FeeTypeTransferPercent,
     fs_TransactionType = TxTypeP2P, fs_Currency = None, fs_Channel = None, fs_FlatAmountCents = 0,
     fs_PercentBps = 50, fs_MinFeeCents = 200, fs_MaxFeeCents = 5000, fs_IsActive = True,
     fs_EffectiveFrom = 0, fs_EffectiveTo = None, fs_CreatedAt = 0, fs_UpdatedAt = 0\<rparr>"


text \<open>\<open>CalculateFee\<close> never moves money, and what it charges is accounted for: the total fee is the
  sum of the details it lists (in \<open>int64\<close> arithmetic) and no detail is an FX spread.\<close>

lemma CalculateFee_accounts:
  assumes "CalculateFee E tt a cur ch w = (Inr b, w')"
  shows "w_ledger w' = w_ledger w \<and> fb_TotalFeeCents b = i64 (sum_list (map fd_AmountCents (fb_Details b)))
    \<and> fb_OurFeeCents b = fb_TotalFeeCents b \<and> (\<forall>d \<in> set (fb_Details b). fd_Type d \<noteq> ''fx_spread'')"
proof -
  obtain scheds where b: "b = fee_breakdown a scheds"
    using assms by (auto simp: CalculateFee_def bindA_run retA_run)
  have "\<forall>d \<in> set (fb_Details b). fd_Type d \<noteq> ''fx_spread''"
  proof
    fix d assume "d \<in> set (fb_Details b)"
    then obtain s where s: "s \<in> set (filter (\<lambda>s. fs_FeeType s \<noteq> FeeTypeFXSpread) scheds)"
      "d = \<lparr>fd_Name = fs_Name s, fd_AmountCents = computeFee s a, fd_Type = feeType_string (fs_FeeType s)\<rparr>"
      unfolding b fee_breakdown_def Let_def by (simp add: fee_breakdown_fold image_iff) metis
    then show "fd_Type d \<noteq> ''fx_spread''" by (cases "fs_FeeType s") auto
  qed
  moreover have "w_ledger w' = w_ledger w" using calmD [OF calm_CalculateFee assms] .
  ultimately show ?thesis
    by (simp add: b fee_breakdown_def Let_def fee_breakdown_fold fee_breakdown_our in_i64I o_def)
qed

definition fee_world :: "unit world" where
  "fee_world = (empty_world () 1000)\<lparr>w_fees := [sample_fee]\<rparr>"

lemma fee_world_load:
  "load_schedules ok_env TxTypeP2P ''ETB'' None fee_world
     = (Inr [sample_fee], snd (load_schedules ok_env TxTypeP2P ''ETB'' None fee_world))"
  by (simp add: load_schedules_def bindA_def cacheGet_def cache_Get_def fee_world_def empty_world_def
      NewMemoryCache_def fee_FindMatching_def dbA_def ok_env_def getsA_def fee_matches_def fee_effective_def
      sample_fee_def retA_def cacheSet_def modifyA_def)

lemma CalculateFee_accounts_witness:
  "\<exists>b w'. CalculateFee ok_env TxTypeP2P 10000 ''ETB'' None fee_world = (Inr b, w') \<and>
     fb_TotalFeeCents b = i64 (sum_list (map fd_AmountCents (fb_Details b))) \<and> length (fb_Details b) = 1"
proof -
  let ?b = "fee_breakdown 10000 [sample_fee]"
  let ?w = "snd (CalculateFee ok_env TxTypeP2P 10000 ''ETB'' None fee_world)"
  have "CalculateFee ok_env TxTypeP2P 10000 ''ETB'' None fee_world
      = retA ?b (snd (load_schedules ok_env TxTypeP2P ''ETB'' None fee_world))"
    unfolding CalculateFee_def by (rule bindA_Inr) (rule fee_world_load)
  then have "CalculateFee ok_env TxTypeP2P 10000 ''ETB'' None fee_world = (Inr ?b, ?w)"
    by (simp add: retA_def)
  moreover from CalculateFee_accounts [OF this]
  have "fb_TotalFeeCents ?b = i64 (sum_list (map fd_AmountCents (fb_Details ?b)))" by blast
  moreover have "length (fb_Details ?b) = 1"
    by (simp add: fee_breakdown_def fee_step_def sample_fee_def Let_def)
  ultimately show ?thesis by blast
qed

text \<open>What the cache serves: once a fee was calculated from a nonempty set of schedules, every
  calculation with the same key during the next sixty seconds uses the same schedules, whatever
  happened to the table in between.\<close>

lemma CalculateFee_cached:
  assumes "load_schedules E tt cur ch w = (Inr (f # fs), w')"
    and "w_cache w2 = w_cache w'" "w_now w \<le> w_now w2" "w_now w2 \<le> w_now w + 60 * second"
    and "w_cache w (fee_cache_key tt cur ch) = None"
  shows "fst (CalculateFee E2 tt a cur ch w2) = Inr (fee_breakdown a (f # fs))"
proof -
  let ?k = "fee_cache_key tt cur ch"
  have miss: "cacheGet ?k w = (Inr None, w)"
    using assms(5) by (simp add: cacheGet_def cache_Get_def)
  have "\<exists>c. w_cache w' = cache_Set c (w_now w) ?k (Some (CFees (f # fs))) (60 * second)"
    using assms(1) miss
    by (auto simp: load_schedules_def bindA_run retA_run cacheSet_def modifyA_def fee_FindMatching_def dbA_run
        getsA_run split: if_splits)
  then obtain c where c: "w_cache w' = cache_Set c (w_now w) ?k (Some (CFees (f # fs))) (60 * second)" by blast
  have "fst (cache_Get (w_cache w2) (w_now w2) ?k) = Some (Some (CFees (f # fs)))"
    unfolding assms(2) c using assms(4) by (intro mem.set_get) (simp_all add: second_def)
  then have "fst (cacheGet ?k w2) = Inr (Some (CFees (f # fs)))"
    by (auto simp: cacheGet_def split: prod.splits)
  then show ?thesis
    by (auto simp: CalculateFee_def load_schedules_def bindA_def retA_def split: prod.splits sum.splits)
qed

lemma CalculateFee_cached_witness:
  "fst (CalculateFee ok_env TxTypeP2P 10000 ''ETB'' None
     ((snd (load_schedules ok_env TxTypeP2P ''ETB'' None fee_world))\<lparr>w_fees := [], w_now := 2000\<rparr>))
   = Inr (fee_breakdown 10000 [sample_fee])"
  by (rule CalculateFee_cached [OF fee_world_load])
    (simp_all add: fee_world_def empty_world_def NewMemoryCache_def second_def)

end
