(* ===== verification/Overdraft.thy ===== *)
theory Overdraft
  imports Repositories
begin

text \<open>
  \<open>internal/services/overdraft\<close>: eligibility, opt-in and opt-out, covering a shortfall from the
  overdraft capital and repaying it. The service reads the row, moves money in the ledger and then
  writes the row; each of the three steps can fail on its own.
\<close>

section \<open>Definitions\<close>

definition OverdraftLimitPctOfLoan :: int where "OverdraftLimitPctOfLoan = 10"
definition OverdraftMaxLimitCents :: int where "OverdraftMaxLimitCents = 5000000"

definition isETB :: "string \<Rightarrow> bool" where
  "isETB asset \<longleftrightarrow> asset = ''ETB'' \<or> asset = ''ETB/2''"

definition assetETB :: string where
  "assetETB = FormatAsset [CurrencyETB]"

definition Eligibility :: "env \<Rightarrow> string \<Rightarrow> ('l, int \<times> bool) go" where
  "Eligibility E userID =
     bindA (tryA (loan_GetCreditProfile E userID)) (\<lambda>r.
     case r of
       Inl e \<Rightarrow> retA (0, False)
     | Inr profile \<Rightarrow>
         if cp_IsNBEBlacklisted profile \<or> cp_TrustScore profile \<le> 600 \<or> cp_ApprovedLimitCents profile \<le> 0
         then retA (0, False)
         else
           let limitCents = go_div (i64 (cp_ApprovedLimitCents profile * OverdraftLimitPctOfLoan)) 100;
               limitCents = (if limitCents > OverdraftMaxLimitCents then OverdraftMaxLimitCents else limitCents)
           in retA (limitCents, limitCents > 0))"

definition new_overdraft :: "string \<Rightarrow> int \<Rightarrow> int option \<Rightarrow> OverdraftStatus \<Rightarrow> Overdraft" where
  "new_overdraft userID limit optedIn status =
     \<lparr>od_ID = '''', od_UserID = userID, od_LimitCents = limit, od_UsedCents = 0,
      od_DailyFeeBasisPoints = 15, od_InterestFreeDays = 7, od_AccruedFeeCents = 0, od_Status = status,
      od_OverdrawnSince = None, od_LastFeeAccrualAt = None, od_OptedInAt = optedIn, od_CreatedAt = 0, od_UpdatedAt = 0\<rparr>"

definition GetStatus :: "env \<Rightarrow> string \<Rightarrow> ('l, Overdraft) go" where
  "GetStatus E userID =
     bindA (overdraft_GetByUser E userID) (\<lambda>o'.
     case o' of
       Some d \<Rightarrow> retA d
     | None \<Rightarrow> bindA (Eligibility E userID) (\<lambda>(limit, _).
         retA (new_overdraft userID limit None OverdraftInactive)))"

definition opted_in :: "string \<Rightarrow> int \<Rightarrow> int \<Rightarrow> Overdraft option \<Rightarrow> Overdraft" where
  "opted_in userID limitCents now o' = (case o' of
       None \<Rightarrow> new_overdraft userID limitCents (Some now) OverdraftActive
     | Some d \<Rightarrow> d\<lparr>od_LimitCents := limitCents, od_Status := OverdraftActive, od_OptedInAt := Some now\<rparr>)"

definition OptIn :: "env \<Rightarrow> string \<Rightarrow> ('l, Overdraft) go" where
  "OptIn E userID =
     bindA (Eligibility E userID) (\<lambda>(limitCents, eligible).
     if \<not> eligible then throwA (Overdrafts ErrOverdraftNotEligible)
     else bindA (overdraft_GetByUser E userID) (\<lambda>o'.
       if (case o' of Some d \<Rightarrow> od_Status d = OverdraftActive | None \<Rightarrow> False)
       then throwA (Overdrafts ErrOverdraftAlreadyActive)
       else if (case o' of Some d \<Rightarrow> od_Status d = OverdraftUsed | None \<Rightarrow> False)
       then throwA (Overdrafts ErrOverdraftInUse)
       else bindA nowA (\<lambda>now.
            bindA (overdraft_CreateOrUpdate E (opted_in userID limitCents now o')) (\<lambda>row.
            bindA (ignoreA (audit_Log E ((audit_entry ''overdraft_opted_in'' ''user'' (Some userID) ''overdraft''
              (od_ID row))\<lparr>au_Metadata := [(''limit_cents'', JI limitCents)]\<rparr>))) (\<lambda>_.
            retA row)))))"

definition OptOut :: "env \<Rightarrow> string \<Rightarrow> ('l, unit) go" where
  "OptOut E userID =
     bindA (overdraft_GetByUser E userID) (\<lambda>o'.
     case o' of
       None \<Rightarrow> throwA (Overdrafts ErrOverdraftNotActive)
     | Some d \<Rightarrow>
         if od_UsedCents d > 0 \<or> od_AccruedFeeCents d > 0 then throwA (Overdrafts ErrOverdraftInUse)
         else if od_Status d = OverdraftInactive then throwA (Overdrafts ErrOverdraftNotActive)
         else bindA (overdraft_CreateOrUpdate E (d\<lparr>od_Status := OverdraftInactive, od_OptedInAt := None\<rparr>)) (\<lambda>row.
           ignoreA (audit_Log E (audit_entry ''overdraft_opted_out'' ''user'' (Some userID) ''overdraft'' (od_ID row)))))"

definition UseCover :: "env \<Rightarrow> 'l Client \<Rightarrow> string \<Rightarrow> string \<Rightarrow> string \<Rightarrow> int \<Rightarrow> string \<Rightarrow> ('l, unit) go" where
  "UseCover E L userID walletID ik shortfallCents asset =
     (if \<not> isETB asset then throwA (Overdrafts ErrOverdraftETBOnly)
      else bindA (overdraft_GetByUser E userID) (\<lambda>o'.
        case o' of
          None \<Rightarrow> throwA (Overdrafts ErrOverdraftNotActive)
        | Some d \<Rightarrow>
            if od_Status d \<noteq> OverdraftActive \<and> od_Status d \<noteq> OverdraftUsed
            then throwA (Overdrafts ErrOverdraftNotActive)
            else
              let available = i64 (od_LimitCents d - od_UsedCents d) in
              if available < shortfallCents then throwA (Overdrafts ErrOverdraftLimitExceeded)
              else bindA (ledA (CreditFromOverdraft L ik walletID shortfallCents asset)) (\<lambda>_.
                bindA nowA (\<lambda>now.
                let overdrawnSince = (if od_UsedCents d = 0 then Some now else None) in
                bindA (overdraft_UpdateUsedAndStatus E userID shortfallCents OverdraftUsed overdrawnSince) (\<lambda>_.
                ignoreA (audit_Log E ((audit_entry ''overdraft_used'' ''system'' None ''overdraft'' (od_ID d))
                  \<lparr>au_Metadata := [(''shortfall_cents'', JI shortfallCents)]\<rparr>)))))))"

text \<open>The split of a repayment that \<open>Repay\<close> and \<open>AutoRepayOnInflow\<close> share: fee first, then
  principal. The result is the new used amount, the new accrued fee and the new status.\<close>

definition split_repayment :: "Overdraft \<Rightarrow> int \<Rightarrow> int \<times> int \<times> OverdraftStatus" where
  "split_repayment d amountCents =
     (let feeRepay = (if amountCents > od_AccruedFeeCents d then od_AccruedFeeCents d else amountCents);
          remaining = i64 (amountCents - feeRepay);
          principalRepay = (if remaining > od_UsedCents d then od_UsedCents d else remaining);
          newUsed = i64 (od_UsedCents d - principalRepay);
          newAccrued = i64 (od_AccruedFeeCents d - feeRepay);
          newAccrued = (if newAccrued < 0 then 0 else newAccrued);
          newStatus = (if newUsed > 0 \<or> newAccrued > 0 then OverdraftUsed else OverdraftActive)
      in (newUsed, newAccrued, newStatus))"

definition Repay :: "env \<Rightarrow> 'l Client \<Rightarrow> string \<Rightarrow> string \<Rightarrow> int \<Rightarrow> ('l, unit) go" where
  "Repay E L userID ik amountCents =
     (if amountCents \<le> 0 then throwA (Financial ErrZeroAmount)
      else bindA (user_GetByID E userID) (\<lambda>user.
      bindA (overdraft_GetByUser E userID) (\<lambda>o'.
        case o' of
          None \<Rightarrow> throwA (Overdrafts ErrOverdraftNotActive)
        | Some d \<Rightarrow>
            if od_Status d \<noteq> OverdraftUsed then throwA (Overdrafts ErrOverdraftNotActive)
            else
              let totalOwed = i64 (od_UsedCents d + od_AccruedFeeCents d);
                  amount = (if amountCents > totalOwed then totalOwed else amountCents)
              in bindA (ledA (DebitToOverdraft L ik (u_LedgerWalletID user) amount assetETB)) (\<lambda>_.
                 case split_repayment d amount of (newUsed, newAccrued, newStatus) \<Rightarrow>
                 bindA (overdraft_UpdateRepaid E userID newUsed newAccrued newStatus) (\<lambda>_.
                 ignoreA (audit_Log E ((audit_entry ''overdraft_repaid'' ''user'' (Some userID) ''overdraft'' (od_ID d))
                   \<lparr>au_Metadata := [(''amount_cents'', JI amount)]\<rparr>)))))))"

definition AutoRepayOnInflow :: "env \<Rightarrow> 'l Client \<Rightarrow> string \<Rightarrow> string \<Rightarrow> string \<Rightarrow> int \<Rightarrow> ('l, int) go" where
  "AutoRepayOnInflow E L userID walletID ik creditAmountCents =
     bindA (overdraft_GetByUser E userID) (\<lambda>o'.
     case o' of
       None \<Rightarrow> retA 0
     | Some d \<Rightarrow>
         if od_Status d \<noteq> OverdraftUsed then retA 0
         else
           let totalOwed = i64 (od_UsedCents d + od_AccruedFeeCents d) in
           if totalOwed \<le> 0 then retA 0
           else
             let repayCents = (if creditAmountCents > totalOwed then totalOwed else creditAmountCents) in
             if repayCents \<le> 0 then retA 0
             else bindA (ledA (DebitToOverdraft L ik walletID repayCents assetETB)) (\<lambda>_.
               case split_repayment d repayCents of (newUsed, newAccrued, newStatus) \<Rightarrow>
               bindA (overdraft_UpdateRepaid E userID newUsed newAccrued newStatus) (\<lambda>_.
               bindA (ignoreA (audit_Log E ((audit_entry ''overdraft_repaid'' ''system'' None ''overdraft'' (od_ID d))
                 \<lparr>au_Metadata := [(''amount_cents'', JI repayCents)]\<rparr>))) (\<lambda>_.
               retA repayCents))))"

text \<open>Evaluation unfolds an action only when it runs.\<close>

lemmas overdraft_code [code] =
  Eligibility_def [THEN fun_cong]
  GetStatus_def [THEN fun_cong]
  OptIn_def [THEN fun_cong]
  OptOut_def [THEN fun_cong]
  UseCover_def [THEN fun_cong]
  Repay_def [THEN fun_cong]
  AutoRepayOnInflow_def [THEN fun_cong]

section \<open>The row invariant\<close>

text \<open>A facility is never drawn beyond its limit, an inactive one carries no debt, a used one
  carries some, and each user has at most one.\<close>

definition od_inv :: "Overdraft \<Rightarrow> bool" where
  "od_inv d \<longleftrightarrow> 0 \<le> od_UsedCents d \<and> od_UsedCents d \<le> od_LimitCents d \<and> od_LimitCents d \<le> OverdraftMaxLimitCents
     \<and> 0 \<le> od_AccruedFeeCents d \<and> od_AccruedFeeCents d < 2 ^ 62
     \<and> (od_Status d \<in> {OverdraftInactive, OverdraftActive} \<longrightarrow> od_UsedCents d = 0 \<and> od_AccruedFeeCents d = 0)
     \<and> od_Status d \<noteq> OverdraftSuspended"

definition overdrafts_inv :: "Overdraft list \<Rightarrow> bool" where
  "overdrafts_inv ds \<longleftrightarrow> list_all od_inv ds \<and> distinct (map od_UserID ds)"

abbreviation W_inv :: "'l world \<Rightarrow> bool" where
  "W_inv w \<equiv> overdrafts_inv (w_overdrafts w)"

text \<open>The rows of a user after a read: the row that was read is the only one.\<close>

lemma overdraft_row:
  assumes "overdrafts_inv ds" "select_one (\<lambda>d. od_UserID d = uid) ds = Some d"
  shows "od_inv d" "od_UserID d = uid" "\<And>q. q \<in> set ds \<Longrightarrow> od_UserID q = uid \<Longrightarrow> q = d"
  using assms by (auto simp: overdrafts_inv_def list_all_iff distinct_map inj_on_def dest!: select_one_Some)

lemma map_UserID_update:
  assumes "\<And>d. od_UserID (f d) = od_UserID d"
  shows "map od_UserID (update_where p f ds) = map od_UserID ds"
  using assms by (simp add: update_where_def)

lemma overdrafts_inv_update:
  assumes "overdrafts_inv ds" "\<And>d. od_UserID (f d) = od_UserID d"
    and "\<And>q. q \<in> set ds \<Longrightarrow> p q \<Longrightarrow> od_inv (f q)"
  shows "overdrafts_inv (update_where p f ds)"
proof -
  have "list_all od_inv (update_where p f ds)"
    using assms(1,3) by (auto simp: overdrafts_inv_def update_where_def list_all_iff)
  then show ?thesis using assms(1,2) by (simp add: overdrafts_inv_def map_UserID_update)
qed

text \<open>Actions that leave the table of overdrafts alone, by the shape of the action.\<close>

lemma W_inv_led [keeps]: "keepsA W_inv (ledA m)"
  by (simp add: keepsA_def ledA_def split: prod.splits)

lemma W_inv_audit [keeps]: "keepsA W_inv (audit_Log E e)"
  unfolding audit_Log_def by (rule keeps_db) (simp_all add: keeps_modify keeps_throw)

lemma W_inv_now [keeps]: "keepsA W_inv nowA"
  unfolding nowA_def by (rule keeps)

lemma W_inv_reads [keeps]:
  "keepsA W_inv (overdraft_GetByUser E u)" "keepsA W_inv (loan_GetCreditProfile E u)" "keepsA W_inv (user_GetByID E u)"
  unfolding overdraft_GetByUser_def loan_GetCreditProfile_def user_GetByID_def user_query_def
  by (rule keeps_db; (intro keeps)?; simp)+

section \<open>Every operation keeps the invariant\<close>

text \<open>What holds after the row of \<open>uid\<close> was read.\<close>

definition row_read :: "string \<Rightarrow> Overdraft option \<Rightarrow> 'l world \<Rightarrow> bool" where
  "row_read uid r w \<longleftrightarrow> W_inv w \<and> select_one (\<lambda>d. od_UserID d = uid) (w_overdrafts w) = r"

lemma row_read_inv: "row_read uid r w \<Longrightarrow> W_inv w"
  by (simp add: row_read_def)

lemma row_read_cong: "w_overdrafts w' = w_overdrafts w \<Longrightarrow> row_read uid r w' = row_read uid r w"
  by (simp add: row_read_def)

lemma keeps_read:
  fixes k :: "Overdraft option \<Rightarrow> ('l, 'b) go"
  assumes "\<And>r. (\<And>d. r = Some d \<Longrightarrow> od_inv d \<and> od_UserID d = uid) \<Longrightarrow> leadsA (row_read uid r) W_inv (k r)"
  shows "keepsA W_inv (bindA (overdraft_GetByUser E uid) k)"
proof (rule keepsAI)
  fix w :: "'l world" assume inv: "W_inv w"
  let ?w = "w\<lparr>w_dbn := Suc (w_dbn w)\<rparr>"
  let ?r = "select_one (\<lambda>d. od_UserID d = uid) (w_overdrafts w)"
  have "leadsA (row_read uid ?r) W_inv (k ?r)"
    using overdraft_row(1,2) [OF inv] by (intro assms) blast
  then have "W_inv (snd (k ?r ?w))"
    using inv by (simp add: leadsA_def row_read_def)
  then show "W_inv (snd (bindA (overdraft_GetByUser E uid) k w))"
    using inv by (simp add: bindA_def overdraft_GetByUser_def dbA_def getsA_def Let_def)
qed

lemma row_read_keeps [keeps]:
  "keepsA (row_read uid r) (ledA m)" "keepsA (row_read uid r) nowA"
  by (auto simp: keepsA_def ledA_def nowA_def getsA_def row_read_def split: prod.splits)

text \<open>The write that follows a read: it is enough that the new row is good.\<close>

lemma leads_update:
  assumes "\<And>d. od_UserID (f d) = od_UserID d" "\<And>d. r = Some d \<Longrightarrow> od_inv d \<Longrightarrow> od_inv (f d)"
  shows "leadsA (row_read uid r) W_inv (overdraft_update E uid f)"
proof (rule leadsAI)
  fix w :: "'a world" assume J: "row_read uid r w"
  then have inv: "W_inv w" by (rule row_read_inv)
  have "od_inv (f q)" if "q \<in> set (w_overdrafts w)" "od_UserID q = uid" for q
  proof (cases r)
    case None
    with J that show ?thesis by (auto simp: row_read_def select_one_None)
  next
    case (Some d)
    then have sel: "select_one (\<lambda>d. od_UserID d = uid) (w_overdrafts w) = Some d"
      using J by (simp add: row_read_def)
    show ?thesis
      using overdraft_row(3) [OF inv sel that] overdraft_row(1) [OF inv sel] assms(2) [OF Some] by simp
  qed
  then have "overdrafts_inv (update_where (\<lambda>d. od_UserID d = uid) f (w_overdrafts w))"
    using inv assms(1) by (intro overdrafts_inv_update) auto
  then show "W_inv (snd (overdraft_update E uid f w))"
    using inv by (simp add: overdraft_update_def dbA_def bindA_def getsA_def modifyA_def throwA_def Let_def)
qed

lemma row_leads [leads]:
  "leadsA (row_read uid r) W_inv (throwA e)" "leadsA (row_read uid r) W_inv (retA x)"
  "(\<And>x. leadsA (row_read uid r) W_inv (k1 x)) \<Longrightarrow> leadsA (row_read uid r) W_inv (bindA (ledA m) k1)"
  "(\<And>x. leadsA (row_read uid r) W_inv (k2 x)) \<Longrightarrow> leadsA (row_read uid r) W_inv (bindA nowA k2)"
proof -
  show "leadsA (row_read uid r) W_inv (throwA e)" "leadsA (row_read uid r) W_inv (retA x)"
    by (rule leads_keeps, rule keeps, erule row_read_inv)+
  show "(\<And>x. leadsA (row_read uid r) W_inv (k1 x)) \<Longrightarrow> leadsA (row_read uid r) W_inv (bindA (ledA m) k1)"
    by (rule leads_bind, rule row_read_keeps, erule row_read_inv)
  show "(\<And>x. leadsA (row_read uid r) W_inv (k2 x)) \<Longrightarrow> leadsA (row_read uid r) W_inv (bindA nowA k2)"
    by (rule leads_bind, rule row_read_keeps, erule row_read_inv)
qed

lemma row_leads_update [leads]:
  assumes "\<And>d. r = Some d \<Longrightarrow> od_inv d \<Longrightarrow> od_inv (f d)" "\<And>d. od_UserID (f d) = od_UserID d"
    and "\<And>x. keepsA W_inv (k x)"
  shows "leadsA (row_read uid r) W_inv (bindA (overdraft_update E uid f) k)"
  using assms by (intro leads_then leads_update)

lemma od_inv_range: "od_inv d \<Longrightarrow> in_i64 (od_UsedCents d) \<and> in_i64 (od_AccruedFeeCents d)
    \<and> in_i64 (od_LimitCents d - od_UsedCents d) \<and> in_i64 (od_UsedCents d + od_AccruedFeeCents d)"
  by (auto simp: od_inv_def OverdraftMaxLimitCents_def in_i64_def)

text \<open>A repayment of at most what is owed reduces fee and principal by exactly that amount, the fee
  first.\<close>

lemma split_repayment_exact:
  assumes "od_inv d" "0 \<le> n" "n \<le> od_UsedCents d + od_AccruedFeeCents d"
    and "split_repayment d n = (u, a, s)"
  shows "u + a = od_UsedCents d + od_AccruedFeeCents d - n"
    and "a = max 0 (od_AccruedFeeCents d - n)" "0 \<le> u" "u \<le> od_UsedCents d" "0 \<le> a"
    and "s = (if u + a > 0 then OverdraftUsed else OverdraftActive)"
proof -
  let ?F = "od_AccruedFeeCents d" and ?U = "od_UsedCents d"
  define f where "f = min n ?F"
  have f: "0 \<le> f" "f \<le> n" "f \<le> ?F" "n - f \<le> ?U" using assms(1-3) by (auto simp: f_def od_inv_def)
  have e1: "(if n > ?F then ?F else n) = f" by (simp add: f_def)
  have e2: "i64 (n - f) = n - f" "i64 (?U - (n - f)) = ?U - (n - f)" "i64 (?F - f) = ?F - f"
    using f assms(1) by (auto simp: od_inv_def in_i64_def OverdraftMaxLimitCents_def)
  have e3: "(if n - f > ?U then ?U else n - f) = n - f" "(if ?F - f < 0 then 0 else ?F - f) = ?F - f"
    using f by auto
  have "split_repayment d n = (?U - (n - f), ?F - f, if ?U - (n - f) > 0 \<or> ?F - f > 0 then OverdraftUsed else OverdraftActive)"
    unfolding split_repayment_def Let_def e1 e2 e3 ..
  then have e: "u = ?U - (n - f)" "a = ?F - f" "s = (if u > 0 \<or> a > 0 then OverdraftUsed else OverdraftActive)"
    using assms(4) by simp_all
  show "u + a = ?U + ?F - n" "a = max 0 (?F - n)" "0 \<le> u" "u \<le> ?U" "0 \<le> a"
    using e f by (auto simp: f_def)
  then show "s = (if u + a > 0 then OverdraftUsed else OverdraftActive)"
    using e by auto
qed

lemma repaid_inv:
  assumes "od_inv d" "0 \<le> n" "n \<le> od_UsedCents d + od_AccruedFeeCents d" "split_repayment d n = (u, a, s)"
  shows "od_inv (d\<lparr>od_UsedCents := u, od_AccruedFeeCents := a, od_Status := s, od_OverdrawnSince := None\<rparr>)"
  using assms(1,2) split_repayment_exact [OF assms] by (auto simp: od_inv_def)

lemma UseCover_keeps:
  assumes "0 \<le> n"
  shows "keepsA W_inv (UseCover E L uid wid ik n a)"
proof -
  have drawn: "od_inv (d\<lparr>od_UsedCents := od_UsedCents d + n, od_Status := OverdraftUsed, od_OverdrawnSince := t\<rparr>)"
    if "\<not> i64 (od_LimitCents d - od_UsedCents d) < n" "od_inv d" for d t
    using that assms od_inv_range [of d] by (auto simp: od_inv_def)
  show ?thesis
    unfolding UseCover_def overdraft_UpdateUsedAndStatus_def Let_def
    by (intro keeps_if keeps keeps_read leads_option leads_if leads drawn) auto
qed

text \<open>The amount both repayments move: what is offered, at most what is owed.\<close>

lemma capped_repayment:
  assumes "od_inv d" "0 < n"
  defines "m \<equiv> (if n > i64 (od_UsedCents d + od_AccruedFeeCents d) then i64 (od_UsedCents d + od_AccruedFeeCents d) else n)"
  shows "m = min n (od_UsedCents d + od_AccruedFeeCents d)" "0 \<le> m" "m \<le> od_UsedCents d + od_AccruedFeeCents d"
  using assms od_inv_range [OF assms(1)] by (auto simp: od_inv_def)

lemma repay_tail:
  assumes "r = Some d" "od_inv d" "0 < n" "\<And>x. keepsA W_inv (k x)"
  shows "leadsA (row_read uid r) W_inv (case split_repayment d (if n > i64 (od_UsedCents d + od_AccruedFeeCents d)
      then i64 (od_UsedCents d + od_AccruedFeeCents d) else n) of (u, a, s) \<Rightarrow>
        bindA (overdraft_update E uid (\<lambda>d. d\<lparr>od_UsedCents := u, od_AccruedFeeCents := a, od_Status := s,
          od_OverdrawnSince := None\<rparr>)) k)"
proof (intro leads_prod row_leads_update)
  fix u b a s d'
  assume sp: "split_repayment d (if n > i64 (od_UsedCents d + od_AccruedFeeCents d)
      then i64 (od_UsedCents d + od_AccruedFeeCents d) else n) = (u, b)" "b = (a, s)" and "r = Some d'"
  then have "d' = d" using assms(1) by simp
  then show "od_inv (d'\<lparr>od_UsedCents := u, od_AccruedFeeCents := a, od_Status := s, od_OverdrawnSince := None\<rparr>)"
    using repaid_inv [OF assms(2) capped_repayment(2,3) [OF assms(2,3)]] sp by simp
qed (simp_all add: assms(4))

lemma AutoRepay_keeps: "keepsA W_inv (AutoRepayOnInflow E L uid wid ik n)"
  unfolding AutoRepayOnInflow_def overdraft_UpdateRepaid_def Let_def
  by (intro keeps_read leads_option leads_if leads repay_tail keeps) (auto split: if_splits)

lemma Repay_keeps: "keepsA W_inv (Repay E L uid ik n)"
  unfolding Repay_def overdraft_UpdateRepaid_def Let_def
  by (rule keeps_if, rule keeps, rule keeps_bind, rule keeps)
    (intro keeps_read leads_option leads_if leads repay_tail keeps; auto split: if_splits)

text \<open>An eligible user gets a positive limit of at most 50,000 ETB.\<close>

lemma Eligibility_run:
  assumes "Eligibility E uid w = (Inr (limit, eligible), w')"
  shows "eligible \<longleftrightarrow> 0 < limit" "limit \<le> OverdraftMaxLimitCents"
  using assms
  by (cases "fst (loan_GetCreditProfile E uid w)";
      auto simp: Eligibility_def bindA_def tryA_def retA_def Let_def OverdraftMaxLimitCents_def
        split: prod.splits if_splits)+

lemma Eligibility_keeps [keeps]: "keepsA W_inv (Eligibility E uid)"
  unfolding Eligibility_def Let_def by (intro keeps)

lemma leads_create [leads]:
  assumes "od_UserID o' = uid" "0 \<le> od_LimitCents o'" "od_LimitCents o' \<le> OverdraftMaxLimitCents"
    and "od_Status o' \<in> {OverdraftActive, OverdraftInactive}"
    and "\<And>d. r = Some d \<Longrightarrow> od_UsedCents d = 0 \<and> od_AccruedFeeCents d = 0"
    and "\<And>x. keepsA W_inv (k x)"
  shows "leadsA (row_read uid r) W_inv (bindA (overdraft_CreateOrUpdate E o') k)"
proof (rule leads_then [OF leadsAI])
  fix w :: "'a world" assume J: "row_read uid r w"
  then have inv: "W_inv w" and sel: "select_one (\<lambda>d. od_UserID d = uid) (w_overdrafts w) = r"
    by (auto simp: row_read_def)
  show "W_inv (snd (overdraft_CreateOrUpdate E o' w))"
  proof (cases r)
    case None
    then have "uid \<notin> set (map od_UserID (w_overdrafts w))" using sel by (auto simp: select_one_None)
    then show ?thesis
      using inv sel None assms(1-4)
      by (auto simp: overdraft_CreateOrUpdate_def dbA_def bindA_def nowA_def getsA_def newID_def modifyA_def
          throwA_def retA_def Let_def overdrafts_inv_def od_inv_def)
  next
    case (Some d)
    let ?upd = "\<lambda>d. d\<lparr>od_LimitCents := od_LimitCents o', od_Status := od_Status o',
      od_OptedInAt := (case od_OptedInAt o' of None \<Rightarrow> od_OptedInAt d | Some t \<Rightarrow> Some t), od_UpdatedAt := w_now w\<rparr>"
    have "overdrafts_inv (update_where (\<lambda>d. od_UserID d = uid) ?upd (w_overdrafts w))"
    proof (rule overdrafts_inv_update [OF inv])
      fix q assume "q \<in> set (w_overdrafts w)" "od_UserID q = uid"
      then have "q = d" using overdraft_row(3) [OF inv] sel Some by blast
      then show "od_inv (?upd q)" using assms(2-5) Some by (auto simp: od_inv_def)
    qed simp
    then show ?thesis
      using inv sel Some assms(1)
      by (simp add: overdraft_CreateOrUpdate_def dbA_def bindA_def nowA_def getsA_def newID_def modifyA_def
          throwA_def retA_def Let_def)
  qed
qed (rule assms(6))

lemma OptOut_keeps: "keepsA W_inv (OptOut E uid)"
  unfolding OptOut_def
  by (intro keeps_read leads_option leads_if leads keeps) (auto simp: od_inv_def)

lemma debt_free:
  assumes "od_inv d" "od_Status d \<noteq> OverdraftUsed"
  shows "od_UsedCents d = 0 \<and> od_AccruedFeeCents d = 0"
  using assms by (cases "od_Status d") (auto simp: od_inv_def)

lemma OptIn_keeps: "keepsA W_inv (OptIn E uid)"
  unfolding OptIn_def
proof (rule keeps_bind_post [OF Eligibility_keeps], unfold case_prod_beta, rule keeps_if, rule keeps, rule keeps_read)
  fix x :: "int \<times> bool" and w w' :: "'a world" and r
  assume "Eligibility E uid w = (Inr x, w')" and e: "\<not> \<not> snd x"
    and r: "\<And>d. r = Some d \<Longrightarrow> od_inv d \<and> od_UserID d = uid"
  then have x: "0 < fst x" "fst x \<le> OverdraftMaxLimitCents"
    using Eligibility_run [of E uid w "fst x" "snd x" w'] by (cases x; simp)+
  have row: "od_UserID (opted_in uid (fst x) now r) = uid" "od_LimitCents (opted_in uid (fst x) now r) = fst x"
    "od_Status (opted_in uid (fst x) now r) = OverdraftActive" for now
    using r by (auto simp: opted_in_def new_overdraft_def split: option.splits)
  show "leadsA (row_read uid r) W_inv
     (if case r of None \<Rightarrow> False | Some d \<Rightarrow> od_Status d = OverdraftActive
      then throwA (Overdrafts ErrOverdraftAlreadyActive)
      else if case r of None \<Rightarrow> False | Some d \<Rightarrow> od_Status d = OverdraftUsed
      then throwA (Overdrafts ErrOverdraftInUse)
      else bindA nowA (\<lambda>now. bindA (overdraft_CreateOrUpdate E (opted_in uid (fst x) now r)) (\<lambda>row.
            bindA (ignoreA (audit_Log E ((audit_entry ''overdraft_opted_in'' ''user'' (Some uid) ''overdraft''
              (od_ID row))\<lparr>au_Metadata := [(''limit_cents'', JI (fst x))]\<rparr>))) (\<lambda>_.
            retA row))))"
  proof (intro leads_if row_leads leads_create row)
    fix d assume "\<not> (case r of None \<Rightarrow> False | Some d \<Rightarrow> od_Status d = OverdraftUsed)" "r = Some d"
    then show "od_UsedCents d = 0 \<and> od_AccruedFeeCents d = 0" using debt_free [of d] r by simp
  qed (use x row in \<open>auto intro!: keeps\<close>)
qed

section \<open>Runs of the service\<close>

text \<open>The steps of the system as the table of overdrafts sees them: a call of the service, or
  anything that leaves the table alone.\<close>

inductive od_step :: "env \<Rightarrow> 'l Client \<Rightarrow> 'l world \<Rightarrow> 'l world \<Rightarrow> bool" for E L where
  step_OptIn: "OptIn E u w = (r1, w') \<Longrightarrow> od_step E L w w'"
| step_OptOut: "OptOut E u w = (r2, w') \<Longrightarrow> od_step E L w w'"
| step_UseCover: "0 \<le> n \<Longrightarrow> UseCover E L u wid ik n a w = (r3, w') \<Longrightarrow> od_step E L w w'"
| step_Repay: "Repay E L u ik n w = (r4, w') \<Longrightarrow> od_step E L w w'"
| step_AutoRepay: "AutoRepayOnInflow E L u wid ik n w = (r5, w') \<Longrightarrow> od_step E L w w'"
| step_other: "w_overdrafts w' = w_overdrafts w \<Longrightarrow> od_step E L w w'"

inductive_cases od_stepE: "od_step E L w w'"

lemma od_step_inv: "od_step E L w w' \<Longrightarrow> W_inv w \<Longrightarrow> W_inv w'"
  by (erule od_stepE)
    (auto intro: keepsA_run [OF OptIn_keeps] keepsA_run [OF OptOut_keeps] keepsA_run [OF UseCover_keeps]
      keepsA_run [OF Repay_keeps] keepsA_run [OF AutoRepay_keeps])

lemma overdraft_read_run:
  "overdraft_GetByUser E uid w = (Inr r, w1) \<Longrightarrow>
     w1 = w\<lparr>w_dbn := Suc (w_dbn w)\<rparr> \<and> r = select_one (\<lambda>d. od_UserID d = uid) (w_overdrafts w)"
  by (auto simp: overdraft_GetByUser_def dbA_run getsA_run)

lemma overdraft_update_run:
  assumes "overdraft_update E uid f w = (Inr x, w')"
  shows "w_overdrafts w' = update_where (\<lambda>d. od_UserID d = uid) f (w_overdrafts w)" "w_ledger w' = w_ledger w"
  using assms by (auto simp: overdraft_update_def dbA_run bindA_run getsA_run modifyA_run throwA_run retA_run
      Let_def split: if_splits)

lemma audit_overdrafts:
  "w_overdrafts (snd (audit_Log E e w)) = w_overdrafts w" "w_ledger (snd (audit_Log E e w)) = w_ledger w"
  using calm_snd [OF calm_audit(1), of E e w]
  by (simp_all add: audit_Log_def dbA_def Let_def modifyA_def throwA_def)

section \<open>Properties\<close>

text \<open>C4: the table of overdrafts stays sound through every run of the service, whatever fails in the
  database or the ledger on the way: no facility is drawn beyond its limit or above 50,000 ETB, an
  inactive or merely active one carries no debt, and each user has at most one.\<close>

theorem overdraft_invariant:
  assumes "(od_step E L)\<^sup>*\<^sup>* w w'" "overdrafts_inv (w_overdrafts w)"
  shows "overdrafts_inv (w_overdrafts w')"
  using assms by (induction rule: rtranclp_induct) (auto intro: od_step_inv)

text \<open>A draw that succeeds moves exactly the shortfall from the overdraft capital to the wallet,
  adds it to the user's used amount and stays within the limit.\<close>

lemma UseCover_draws:
  assumes lc: "ledger_client L c view holdOf nexth"
    and inv: "overdrafts_inv (w_overdrafts w)"
    and run: "UseCover E L uid wid ik n a w = (Inr x, w')"
    and fresh: "ik \<notin> lv_used (view (w_ledger w))" and "0 \<le> n"
  shows "view (w_ledger w') = post ik [P (SystemOverdraftCapital c) (MainAccount c wid) n a] (view (w_ledger w))
    \<and> (\<exists>d d'. select_one (\<lambda>d. od_UserID d = uid) (w_overdrafts w) = Some d
        \<and> select_one (\<lambda>d. od_UserID d = uid) (w_overdrafts w') = Some d'
        \<and> od_UsedCents d' = od_UsedCents d + n \<and> od_UsedCents d' \<le> od_LimitCents d'
        \<and> od_Status d' = OverdraftUsed \<and> isETB a)"
proof -
  let ?w1 = "w\<lparr>w_dbn := Suc (w_dbn w)\<rparr>"
  let ?f = "\<lambda>t d. d\<lparr>od_UsedCents := od_UsedCents d + n, od_Status := OverdraftUsed,
      od_OverdrawnSince := (case t of None \<Rightarrow> od_OverdrawnSince d | Some t \<Rightarrow> Some t)\<rparr>"
  obtain d t tx w2 w3 where d: "select_one (\<lambda>d. od_UserID d = uid) (w_overdrafts w) = Some d"
    and a: "isETB a" and lim: "\<not> i64 (od_LimitCents d - od_UsedCents d) < n"
    and led: "ledA (CreditFromOverdraft L ik wid n a) ?w1 = (Inr tx, w2)"
    and upd: "overdraft_update E uid (?f t) w2 = (Inr (), w3)"
    and w': "w_overdrafts w' = w_overdrafts w3" "w_ledger w' = w_ledger w3"
    using run
    by (auto simp: UseCover_def runs Let_def nowA_def audit_overdrafts overdraft_UpdateUsedAndStatus_def
        dest!: overdraft_read_run)
  have od: "od_inv d" "od_UserID d = uid" using overdraft_row [OF inv d] by simp_all
  have l: "CreditFromOverdraft L ik wid n a (w_ledger w) = (Inr tx, w_ledger w2)" "w_overdrafts w2 = w_overdrafts w"
    using led by (auto dest!: ledA_D)
  have "view (w_ledger w') = post ik [P (SystemOverdraftCapital c) (MainAccount c wid) n a] (view (w_ledger w))"
    using writes_ok [OF ledger_client.overdraft_credit [OF lc] l(1)] overdraft_update_run(2) [OF upd] w' by simp
  moreover have "select_one (\<lambda>d. od_UserID d = uid) (w_overdrafts w') = Some (?f t d)"
    unfolding w'(1) overdraft_update_run(1) [OF upd] l(2) by (rule select_update [OF d]) (simp add: od)
  ultimately show ?thesis using d a lim od_inv_range [OF od(1)] by auto
qed

text \<open>What a user owes: principal and fee of a facility in use.\<close>

definition owed_by :: "string \<Rightarrow> Overdraft list \<Rightarrow> int" where
  "owed_by uid ds = (case select_one (\<lambda>d. od_UserID d = uid) ds of
     Some d \<Rightarrow> if od_Status d = OverdraftUsed then od_UsedCents d + od_AccruedFeeCents d else 0
   | None \<Rightarrow> 0)"

lemma repaid_row:
  assumes inv: "overdrafts_inv ds" and d: "select_one (\<lambda>d. od_UserID d = uid) ds = Some d"
    and "od_Status d = OverdraftUsed" "0 \<le> m" "m \<le> od_UsedCents d + od_AccruedFeeCents d"
    and sp: "split_repayment d m = (u, a, s)"
  shows "owed_by uid (update_where (\<lambda>d. od_UserID d = uid) (\<lambda>d. d\<lparr>od_UsedCents := u, od_AccruedFeeCents := a,
      od_Status := s, od_OverdrawnSince := None\<rparr>) ds) = owed_by uid ds - m"
proof -
  have od: "od_inv d" "od_UserID d = uid" using overdraft_row [OF inv d] by simp_all
  show ?thesis
    using select_update [OF d, of "\<lambda>d. d\<lparr>od_UsedCents := u, od_AccruedFeeCents := a, od_Status := s,
        od_OverdrawnSince := None\<rparr>"] split_repayment_exact [OF od(1) assms(4,5) sp] d assms(3) od
    by (auto simp: owed_by_def)
qed

text \<open>C23: an inflow repays as much of the debt as it covers: the amount reported is the smaller of the
  inflow and the debt (never negative), exactly that much goes from the wallet back to the overdraft
  capital, and the debt shrinks by it.\<close>

theorem AutoRepayOnInflow_repays:
  assumes lc: "ledger_client L c view holdOf nexth"
    and inv: "overdrafts_inv (w_overdrafts w)"
    and run: "AutoRepayOnInflow E L uid wid ik n w = (Inr m, w')"
  shows "m = max 0 (min n (owed_by uid (w_overdrafts w)))
    \<and> owed_by uid (w_overdrafts w') = owed_by uid (w_overdrafts w) - m
    \<and> view (w_ledger w') = (if m = 0 then view (w_ledger w)
        else post ik [P (MainAccount c wid) (SystemOverdraftCapital c) m assetETB] (view (w_ledger w)))"
proof -
  let ?w1 = "w\<lparr>w_dbn := Suc (w_dbn w)\<rparr>" and ?o = "select_one (\<lambda>d. od_UserID d = uid) (w_overdrafts w)"
  have idle: ?thesis if "m = 0" "w' = ?w1" "min n (owed_by uid (w_overdrafts w)) \<le> 0"
    using that by simp
  show ?thesis
  proof (cases ?o)
    case None
    then have "m = 0 \<and> w' = ?w1" using run by (auto simp: AutoRepayOnInflow_def runs dest!: overdraft_read_run)
    then show ?thesis using None by (intro idle) (auto simp: owed_by_def)
  next
    case (Some d)
    have od: "od_inv d" "od_UserID d = uid" using overdraft_row [OF inv Some] by simp_all
    let ?owed = "od_UsedCents d + od_AccruedFeeCents d"
    have owed: "owed_by uid (w_overdrafts w) = (if od_Status d = OverdraftUsed then ?owed else 0)"
      using Some by (simp add: owed_by_def)
    have i: "i64 ?owed = ?owed" "0 \<le> ?owed" using od_inv_range [OF od(1)] od(1) by (simp_all add: od_inv_def)
    show ?thesis
    proof (cases "od_Status d = OverdraftUsed \<and> 0 < ?owed \<and> 0 < n")
      case False
      then have "m = 0 \<and> w' = ?w1"
        using run Some i by (auto simp: AutoRepayOnInflow_def runs Let_def dest!: overdraft_read_run split: if_splits)
      then show ?thesis using False owed i by (intro idle) auto
    next
      case True
      let ?m = "min n ?owed"
      obtain u a s where sp: "split_repayment d ?m = (u, a, s)" using prod_cases3 by blast
      obtain tx w2 w3 where led: "ledA (DebitToOverdraft L ik wid ?m assetETB) ?w1 = (Inr tx, w2)"
        and upd: "overdraft_UpdateRepaid E uid u a s w2 = (Inr (), w3)" and m: "m = ?m"
        and w': "w_overdrafts w' = w_overdrafts w3" "w_ledger w' = w_ledger w3"
        using run Some i True sp
        by (auto simp: AutoRepayOnInflow_def runs Let_def audit_overdrafts min_def dest!: overdraft_read_run
            split: if_splits)
      obtain l where l: "DebitToOverdraft L ik wid ?m assetETB (w_ledger w) = (Inr tx, l)" "w2 = ?w1\<lparr>w_ledger := l\<rparr>"
        using ledA_D [OF led] by auto
      note upd = overdraft_update_run [OF upd [unfolded overdraft_UpdateRepaid_def]]
      have "owed_by uid (w_overdrafts w') = owed_by uid (w_overdrafts w) - m"
        unfolding w'(1) upd(1) m using repaid_row [OF inv Some _ _ _ sp] True l(2) by simp
      moreover have "view (w_ledger w') = post ik [P (MainAccount c wid) (SystemOverdraftCapital c) m assetETB]
          (view (w_ledger w))"
        using writes_ok [OF ledger_client.overdraft_debit [OF lc] l(1)] upd(2) l(2) w' m by simp
      moreover have "0 < m \<and> m = max 0 (min n (owed_by uid (w_overdrafts w)))" using True m owed by simp
      ultimately show ?thesis by auto
    qed
  qed
qed

text \<open>An overdraft offer is a tenth of the approved loan limit, at most 50,000 ETB, and only for a
  user with a trust score above 600 who is not blacklisted; a user without a profile gets none.\<close>

lemma Eligibility_offer:
  assumes "Eligibility E uid w = (Inr (limit, eligible), w')" "e_db_ok E (w_dbn w)"
    and "\<forall>p \<in> set (w_profiles w). 0 \<le> cp_ApprovedLimitCents p \<and> cp_ApprovedLimitCents p < 2 ^ 59"
  shows "(limit, eligible) = (case select_one (\<lambda>p. cp_UserID p = uid) (w_profiles w) of
      None \<Rightarrow> (0, False)
    | Some p \<Rightarrow> if cp_IsNBEBlacklisted p \<or> cp_TrustScore p \<le> 600 \<or> cp_ApprovedLimitCents p = 0 then (0, False)
        else (min 5000000 (cp_ApprovedLimitCents p div 10), 10 \<le> cp_ApprovedLimitCents p))"
proof (cases "select_one (\<lambda>p. cp_UserID p = uid) (w_profiles w)")
  case None
  then show ?thesis
    using assms(1,2) by (simp add: Eligibility_def loan_GetCreditProfile_def act_simps bindA_def tryA_def getsA_def)
next
  case (Some p)
  then have p: "0 \<le> cp_ApprovedLimitCents p" "cp_ApprovedLimitCents p < 2 ^ 59"
    using assms(3) by (auto dest: select_one_Some)
  have "go_div (i64 (cp_ApprovedLimitCents p * 10)) 100 = cp_ApprovedLimitCents p div 10"
    using p by (simp add: go_div_pos in_i64_def)
  then show ?thesis
    using assms(1,2) Some p
    by (auto simp: Eligibility_def loan_GetCreditProfile_def act_simps bindA_def tryA_def getsA_def Let_def
        OverdraftLimitPctOfLoan_def OverdraftMaxLimitCents_def split: if_splits)
qed

section \<open>Witnesses\<close>

text \<open>A user with a facility of 1,000 ETB, on the reference engine.\<close>

definition od_world :: "OverdraftStatus \<Rightarrow> int \<Rightarrow> engine fclient world" where
  "od_world s used = (empty_world (seeded [(SystemOverdraftCapital neo, 1000000, ''ETB/2''),
       (MainAccount neo ''wa'', 5000, ''ETB/2'')]) 1000)
     \<lparr>w_overdrafts := [(new_overdraft ''ua'' 100000 (Some 5) s)\<lparr>od_UsedCents := used\<rparr>],
      w_profiles := [\<lparr>cp_UserID = ''ua'', cp_TrustScore = 750, cp_ApprovedLimitCents = 400000,
        cp_AvgMonthlyInflowCents = 0, cp_AvgMonthlyBalanceCents = 0, cp_ActiveDaysPerMonth = 20,
        cp_TotalLoansRepaid = 1, cp_LatePaymentsCount = 0, cp_CurrentOutstandingCents = 0,
        cp_IsNBEBlacklisted = False, cp_BlacklistCheckedAt = None, cp_LastCalculatedAt = 0\<rparr>]\<rparr>"

definition drawn_world :: "engine fclient world" where
  "drawn_world = snd (UseCover ok_env eclient ''ua'' ''wa'' ''k1'' 300 ''ETB/2'' (od_world OverdraftActive 0))"

lemma od_world_inv: "overdrafts_inv (w_overdrafts (od_world OverdraftActive 0))"
  "overdrafts_inv (w_overdrafts (od_world OverdraftUsed 200))"
  by (simp_all add: od_world_def overdrafts_inv_def od_inv_def new_overdraft_def OverdraftMaxLimitCents_def)

lemma drawn_run: "UseCover ok_env eclient ''ua'' ''wa'' ''k1'' 300 ''ETB/2'' (od_world OverdraftActive 0) = (Inr (), drawn_world)"
  unfolding drawn_world_def by (rule run_of) code_simp

lemma od_world_fresh: "ik \<notin> lv_used (fc_view e_ghost (w_ledger (od_world s n)))"
  by (simp add: od_world_def empty_world_def seeded_def e_ghost_def)

theorem overdraft_invariant_witness: "overdrafts_inv (w_overdrafts drawn_world) \<and> w_overdrafts drawn_world \<noteq> []"
proof -
  have "od_step ok_env eclient (od_world OverdraftActive 0) drawn_world"
    by (rule step_UseCover [OF _ drawn_run]) simp
  then have "overdrafts_inv (w_overdrafts drawn_world)"
    using overdraft_invariant [OF r_into_rtranclp od_world_inv(1)] by blast
  moreover have "w_overdrafts drawn_world \<noteq> []" by code_simp
  ultimately show ?thesis by simp
qed

lemma UseCover_draws_witness:
  "lv_bal (fc_view e_ghost (w_ledger drawn_world)) (MainAccount neo ''wa'') ''ETB/2'' = 5300
   \<and> (\<exists>d. select_one (\<lambda>d. od_UserID d = ''ua'') (w_overdrafts drawn_world) = Some d \<and> od_UsedCents d = 300)"
proof -
  have v: "fc_view e_ghost (w_ledger drawn_world) = post ''k1'' [P (SystemOverdraftCapital neo) (MainAccount neo ''wa'') 300 ''ETB/2'']
      (fc_view e_ghost (w_ledger (od_world OverdraftActive 0)))"
    and row: "\<exists>d d'. select_one (\<lambda>d. od_UserID d = ''ua'') (w_overdrafts (od_world OverdraftActive 0)) = Some d
        \<and> select_one (\<lambda>d. od_UserID d = ''ua'') (w_overdrafts drawn_world) = Some d' \<and> od_UsedCents d' = od_UsedCents d + 300"
    using UseCover_draws [OF eclient_contract od_world_inv(1) drawn_run od_world_fresh] by auto
  have "lv_bal (fc_view e_ghost (w_ledger (od_world OverdraftActive 0))) (MainAccount neo ''wa'') ''ETB/2'' = 5000" by code_simp
  moreover have "SystemOverdraftCapital neo \<noteq> MainAccount neo ''wa''" by code_simp
  moreover have "select_one (\<lambda>d. od_UserID d = ''ua'') (w_overdrafts (od_world OverdraftActive 0))
      = Some (new_overdraft ''ua'' 100000 (Some 5) OverdraftActive)" by code_simp
  ultimately show ?thesis
    using row by (auto simp: v post_fresh [OF od_world_fresh] apply_P new_overdraft_def)
qed

theorem AutoRepayOnInflow_repays_witness:
  "\<exists>w'. AutoRepayOnInflow ok_env eclient ''ua'' ''wa'' ''k1'' 300 (od_world OverdraftUsed 200) = (Inr 200, w')
     \<and> owed_by ''ua'' (w_overdrafts w') = 0"
proof -
  let ?r = "AutoRepayOnInflow ok_env eclient ''ua'' ''wa'' ''k1'' 300 (od_world OverdraftUsed 200)"
  have r: "?r = (Inr 200, snd ?r)" by (rule run_of) code_simp
  have "owed_by ''ua'' (w_overdrafts (od_world OverdraftUsed 200)) = 200" by code_simp
  then have "owed_by ''ua'' (w_overdrafts (snd ?r)) = 0"
    using AutoRepayOnInflow_repays [OF eclient_contract od_world_inv(2) r] by simp
  with r show ?thesis by blast
qed

lemma Eligibility_offer_witness:
  "fst (Eligibility ok_env ''ua'' (od_world OverdraftActive 0)) = Inr (40000, True)"
proof -
  let ?r = "Eligibility ok_env ''ua'' (od_world OverdraftActive 0)"
  obtain l e w' where r: "?r = (Inr (l, e), w')"
    by (auto simp: Eligibility_def loan_GetCreditProfile_def bindA_def tryA_def dbA_def ok_env_def getsA_def
        retA_def throwA_def Let_def od_world_def select_one_def)
  then show ?thesis
    using Eligibility_offer [OF r] by (simp add: od_world_def ok_env_def select_one_def)
qed

text \<open>The ledger is credited before the row is written. When the second database round trip fails
  the caller sees an error, the wallet keeps the money and the facility shows nothing drawn.\<close>

lemma UseCover_not_atomic:
  "let w = od_world OverdraftActive 0;
       E = ok_env\<lparr>e_db_ok := (\<lambda>n. n = 0)\<rparr>;
       (r, w') = UseCover E eclient ''ua'' ''wa'' ''k1'' 300 ''ETB/2'' w
   in r = Inl db_error \<and> w_overdrafts w' = w_overdrafts w
      \<and> lv_bal (fc_view e_ghost (w_ledger w')) (MainAccount neo ''wa'') ''ETB/2'' = 5300"
  by code_simp

text \<open>Opting out clears the opt-in time in the object, but the UPDATE coalesces the missing value
  with the stored one, so the row keeps the old time.\<close>

lemma OptOut_keeps_opted_in_at:
  "let (r, w') = OptOut ok_env ''ua'' (od_world OverdraftActive 0)
   in r = Inr () \<and> map od_Status (w_overdrafts w') = [OverdraftInactive]
      \<and> map od_OptedInAt (w_overdrafts w') = [Some 5]"
  by code_simp

end
