(* ===== verification/Validate.thy ===== *)
theory Validate
  imports World
begin

text \<open>
  \<open>pkg/validate\<close>: validation of request structs by their tags. A request is the list of its tagged
  fields. The tags \<open>currency\<close>, \<open>e164\<close> and \<open>amount_cents\<close> are registered by the repository; the
  others belong to the validator library and come from the environment.
\<close>

section \<open>Definitions\<close>

definition currencyValidator :: "fval \<Rightarrow> bool" where
  "currencyValidator v = (case v of FStr s \<Rightarrow> ValidateCurrency s = Inr () | _ \<Rightarrow> False)"

definition phoneE164Validator :: "phonelib \<Rightarrow> fval \<Rightarrow> bool" where
  "phoneE164Validator lib v = (case v of FStr s \<Rightarrow> (case phone_Parse lib s of Inr p \<Rightarrow> True | Inl e \<Rightarrow> False) | _ \<Rightarrow> False)"

definition amountCentsValidator :: "fval \<Rightarrow> bool" where
  "amountCentsValidator v = (case v of FInt n \<Rightarrow> 0 < n | _ \<Rightarrow> False)"

definition tag_ok :: "env \<Rightarrow> fval \<Rightarrow> string \<Rightarrow> bool" where
  "tag_ok E v t = (if t = ''currency'' then currencyValidator v
     else if t = ''e164'' then phoneE164Validator (e_phone E) v
     else if t = ''amount_cents'' then amountCentsValidator v
     else e_tag E t v)"

definition Struct :: "env \<Rightarrow> (fval \<times> string list) list \<Rightarrow> go_error + unit" where
  "Struct E fs = (if list_all (\<lambda>(v, ts). list_all (tag_ok E v) ts) fs then Inr () else Inl ErrValidation)"

definition PhoneE164 :: "phonelib \<Rightarrow> string \<Rightarrow> go_error + unit" where
  "PhoneE164 lib raw = (case phone_Parse lib raw of
     Inl e \<Rightarrow> Inl (Opaque ''invalid phone number format: must be E.164 (e.g. +251911223344)'') | Inr p \<Rightarrow> Inr ())"

definition AmountCents :: "int \<Rightarrow> go_error + unit" where
  "AmountCents cents = (if cents \<le> 0 then Inl (Opaque ''amount must be greater than zero'')
     else if cents > 10000000000 then Inl (Opaque ''amount exceeds maximum allowed (100,000,000.00)'')
     else Inr ())"

definition StringLength :: "string \<Rightarrow> string \<Rightarrow> int \<Rightarrow> int \<Rightarrow> go_error + unit" where
  "StringLength val field mn mx =
     (if int (length val) < mn then Inl (Opaque (field @ '' must be at least '' @ itoa mn @ '' characters''))
      else if int (length val) > mx then Inl (Opaque (field @ '' must be at most '' @ itoa mx @ '' characters''))
      else Inr ())"

definition Required :: "string \<Rightarrow> string \<Rightarrow> go_error + unit" where
  "Required val field = (if val = '''' then Inl (Opaque (field @ '' is required'')) else Inr ())"

definition CurrencyCode' :: "string \<Rightarrow> go_error + unit" where
  "CurrencyCode' code = (case ValidateCurrency code of
     Inl e \<Rightarrow> Inl (Opaque ''unsupported currency'') | Inr u \<Rightarrow> Inr ())"

definition EnumValue :: "string \<Rightarrow> string \<Rightarrow> string list \<Rightarrow> go_error + unit" where
  "EnumValue val field allowed = (if val \<in> set allowed then Inr () else Inl (Opaque (''invalid '' @ field)))"

section \<open>Lemmas\<close>

lemma Struct_ok: "Struct E fs = Inr u \<longleftrightarrow> (\<forall>(v, ts) \<in> set fs. \<forall>t \<in> set ts. tag_ok E v t)"
  by (auto simp: Struct_def list_all_iff)

lemma Struct_err: "Struct E fs = Inl e \<Longrightarrow> e = ErrValidation"
  by (simp add: Struct_def split: if_splits)

lemma currency_tag: "tag_ok E (FStr s) ''currency'' \<longleftrightarrow> to_upper s \<in> {''ETB'', ''USD'', ''EUR''}"
  by (simp add: tag_ok_def currencyValidator_def ValidateCurrency_iff)

lemma AmountCents_iff: "AmountCents n = Inr u \<longleftrightarrow> 0 < n \<and> n \<le> 10000000000"
  by (simp add: AmountCents_def)

end
