(* ===== verification/Recipient.thy ===== *)
theory Recipient
  imports Repositories
begin

text \<open>
  \<open>internal/services/recipient\<close> and the bank directory of \<open>internal/domain/banks.go\<close>: saved
  counterparties of a user. \<open>Create\<close> adds one explicitly, \<open>SaveFromTransfer\<close> after a transfer; both
  go through the upsert of the repository.
\<close>

section \<open>The bank directory\<close>

record BankInfo =
  bk_InstitutionCode :: string
  bk_Name :: string
  bk_SwiftBIC :: string
  bk_CountryCode :: string

definition bank :: "string \<Rightarrow> string \<Rightarrow> string \<Rightarrow> string \<times> BankInfo" where
  "bank code name swift = (code, \<lparr>bk_InstitutionCode = code, bk_Name = name, bk_SwiftBIC = swift, bk_CountryCode = ''ET''\<rparr>)"

definition EthiopianBanks :: "(string \<times> BankInfo) list" where
  "EthiopianBanks = [
     bank ''CBE'' ''Commercial Bank of Ethiopia'' ''CBETETAA'',
     bank ''DASHEN'' ''Dashen Bank'' ''DASHETAA'',
     bank ''AWASH'' ''Awash International Bank'' ''AWINETAA'',
     bank ''ABYSSINIA'' ''Bank of Abyssinia'' ''AABORETAA'',
     bank ''TELEBIRR'' ''Telebirr (Ethio Telecom)'' '''',
     bank ''COOP'' ''Cooperative Bank of Oromia'' ''CBORETAA'',
     bank ''WEGAGEN'' ''Wegagen Bank'' ''WEBAETAA'',
     bank ''UNITED'' ''United Bank'' ''UNTDETAA'',
     bank ''NIB'' ''Nib International Bank'' ''NIBIETET'',
     bank ''ZEMEN'' ''Zemen Bank'' ''ZEMEETAA'',
     bank ''BUNNA'' ''Bunna International Bank'' ''BUNAETAA'',
     bank ''BERHAN'' ''Berhan International Bank'' ''BEHAETAA'',
     bank ''ABAY'' ''Abay Bank'' ''ABAYETAA'',
     bank ''ENAT'' ''Enat Bank'' ''ABORETAA'',
     bank ''OROMIA'' ''Oromia International Bank'' ''ORIRETAA'',
     bank ''MPESA'' ''M-PESA (Safaricom Ethiopia)'' '''',
     bank ''DBE'' ''Development Bank of Ethiopia'' ''DBETETAA'',
     bank ''NEOBANK'' ''Neo'' ''NEOBETET'']"

definition LookupBank :: "string \<Rightarrow> BankInfo option" where
  "LookupBank code = map_of EthiopianBanks code"

section \<open>The service\<close>

text \<open>\<open>cr_Type\<close> is \<open>None\<close> for a type that is neither of the two constants.\<close>

record CreateRequest =
  cr_Type :: "RecipientType option"
  cr_Identifier :: string
  cr_InstitutionCode :: string
  cr_AccountNumber :: string
  cr_DisplayName :: string

record TransferCounterparty =
  tc_Type :: RecipientType
  tc_DisplayName :: string
  tc_NeoUserID :: string
  tc_CountryCode :: string
  tc_Number :: string
  tc_Username :: string
  tc_InstitutionCode :: string
  tc_AccountNumber :: string

definition maskAccountNumber :: "string \<Rightarrow> string" where
  "maskAccountNumber acct = (if length acct \<le> 4 then acct else ''****'' @ drop (length acct - 4) acct)"

definition recipient0 :: "string \<Rightarrow> RecipientType \<Rightarrow> string \<Rightarrow> Recipient" where
  "recipient0 owner t name =
     \<lparr>rp_ID = '''', rp_OwnerUserID = owner, rp_Type = t, rp_DisplayName = name, rp_NeoUserID = None,
      rp_CountryCode = None, rp_Number = None, rp_Username = None, rp_InstitutionCode = None, rp_BankName = None,
      rp_SwiftBIC = None, rp_AccountNumber = None, rp_AccountNumberMasked = None, rp_BankCountryCode = None,
      rp_BeneficiaryID = None, rp_IsBeneficiary = False, rp_IsFavorite = False, rp_LastUsedAt = None,
      rp_LastUsedCurrency = None, rp_TransferCount = 0, rp_Status = RecipientActive, rp_CreatedAt = 0\<rparr>"

definition non_empty :: "string \<Rightarrow> string option" where
  "non_empty s = (if s = '''' then None else Some s)"

text \<open>The fields both operations copy from the directory.\<close>

definition with_bank :: "string \<Rightarrow> BankInfo \<Rightarrow> string \<Rightarrow> Recipient \<Rightarrow> Recipient" where
  "with_bank code b acct r =
     r\<lparr>rp_InstitutionCode := Some code, rp_BankName := Some (bk_Name b), rp_SwiftBIC := non_empty (bk_SwiftBIC b),
       rp_BankCountryCode := Some (bk_CountryCode b), rp_AccountNumber := non_empty acct,
       rp_AccountNumberMasked := (if acct = '''' then None else Some (maskAccountNumber acct))\<rparr>"

definition resolveUser :: "env \<Rightarrow> string \<Rightarrow> ('l, User) go" where
  "resolveUser E identifier =
     (case phone_Parse (e_phone E) identifier of
        Inr p \<Rightarrow> bindA (tryA (user_GetByPhone E p)) (\<lambda>r.
          case r of Inr user \<Rightarrow> retA user | Inl e \<Rightarrow> user_GetByUsername E identifier)
      | Inl e \<Rightarrow> user_GetByUsername E identifier)"

definition upsert_and_log :: "env \<Rightarrow> string \<Rightarrow> string \<Rightarrow> Recipient \<Rightarrow> ('l, Recipient) go" where
  "upsert_and_log E action owner r =
     bindA (recipient_Upsert E r) (\<lambda>row.
     bindA (ignoreA (audit_Log E (audit_entry action ''user'' (Some owner) ''recipient'' (rp_ID row)))) (\<lambda>_.
     retA row))"

definition Create :: "env \<Rightarrow> string \<Rightarrow> CreateRequest \<Rightarrow> ('l, Recipient) go" where
  "Create E owner req =
     (case cr_Type req of
        None \<Rightarrow> throwA (General ErrInvalidInput)
      | Some RecipientNeoUser \<Rightarrow>
          bindA (resolveUser E (cr_Identifier req)) (\<lambda>user.
          if u_ID user = owner then throwA (Recipients ErrSelfRecipient)
          else upsert_and_log E ''recipient_created'' owner
            ((recipient0 owner RecipientNeoUser (if cr_DisplayName req = '''' then FullName user else cr_DisplayName req))
              \<lparr>rp_NeoUserID := Some (u_ID user), rp_CountryCode := Some (CountryCode (u_PhoneNumber user)),
               rp_Number := Some (Number (u_PhoneNumber user)), rp_Username := u_Username user\<rparr>))
      | Some RecipientBankAccount \<Rightarrow>
          (case LookupBank (cr_InstitutionCode req) of
             None \<Rightarrow> throwA (Recipients ErrUnknownInstitution)
           | Some b \<Rightarrow> upsert_and_log E ''recipient_created'' owner
               (with_bank (cr_InstitutionCode req) b (cr_AccountNumber req)
                 (recipient0 owner RecipientBankAccount
                   (if cr_DisplayName req = '''' then bk_Name b @ '' '' @ cr_AccountNumber req else cr_DisplayName req)))))"

definition SaveFromTransfer :: "env \<Rightarrow> string \<Rightarrow> TransferCounterparty \<Rightarrow> string \<Rightarrow> ('l, unit) go" where
  "SaveFromTransfer E owner cp currency =
     bindA nowA (\<lambda>now.
     let r = (recipient0 owner (tc_Type cp) (tc_DisplayName cp))
           \<lparr>rp_LastUsedAt := Some now, rp_LastUsedCurrency := Some currency\<rparr> in
     bindA (case tc_Type cp of
        RecipientNeoUser \<Rightarrow>
          upsert_and_log E ''recipient_saved'' owner
            (r\<lparr>rp_NeoUserID := Some (tc_NeoUserID cp), rp_CountryCode := non_empty (tc_CountryCode cp),
               rp_Number := non_empty (tc_Number cp), rp_Username := non_empty (tc_Username cp)\<rparr>)
      | RecipientBankAccount \<Rightarrow>
          (case LookupBank (tc_InstitutionCode cp) of
             None \<Rightarrow> throwA (Recipients ErrUnknownInstitution)
           | Some b \<Rightarrow> upsert_and_log E ''recipient_saved'' owner
               (with_bank (tc_InstitutionCode cp) b (tc_AccountNumber cp) r))) (\<lambda>_. retA ()))"

definition SaveFromTransferFireAndForget :: "env \<Rightarrow> string \<Rightarrow> TransferCounterparty \<Rightarrow> string \<Rightarrow> ('l, unit) go" where
  "SaveFromTransferFireAndForget E owner cp currency = ignoreA (SaveFromTransfer E owner cp currency)"

definition recipient_service_GetByID :: "env \<Rightarrow> string \<Rightarrow> string \<Rightarrow> ('l, Recipient) go" where
  "recipient_service_GetByID E owner i =
     bindA (recipient_GetByID E i owner) (\<lambda>r.
     if rp_Status r = RecipientArchived then throwA (Recipients ErrRecipientArchived) else retA r)"

definition SetFavorite :: "env \<Rightarrow> string \<Rightarrow> string \<Rightarrow> bool \<Rightarrow> ('l, unit) go" where
  "SetFavorite E owner i fav =
     bindA (recipient_UpdateFavorite E i owner fav) (\<lambda>_.
     ignoreA (audit_Log E (audit_entry ''recipient_favorited'' ''user'' (Some owner) ''recipient'' i)))"

definition Archive :: "env \<Rightarrow> string \<Rightarrow> string \<Rightarrow> ('l, unit) go" where
  "Archive E owner i =
     bindA (recipient_Archive E i owner) (\<lambda>_.
     ignoreA (audit_Log E (audit_entry ''recipient_archived'' ''user'' (Some owner) ''recipient'' i)))"

text \<open>Evaluation unfolds an action only when it runs.\<close>

lemmas recipient_code [code] =
  resolveUser_def [THEN fun_cong]
  upsert_and_log_def [THEN fun_cong]
  Create_def [THEN fun_cong]
  SaveFromTransfer_def [THEN fun_cong]
  SaveFromTransferFireAndForget_def [THEN fun_cong]
  recipient_service_GetByID_def [THEN fun_cong]
  SetFavorite_def [THEN fun_cong]
  Archive_def [THEN fun_cong]

section \<open>The service never touches the ledger\<close>

lemma calm_resolveUser [calms]: "calm (resolveUser E i)"
  unfolding resolveUser_def by (rule calms)+

lemma calm_upsert [calms]: "calm (upsert_and_log E a ow r)"
  unfolding upsert_and_log_def by (rule calms)+

lemma calm_RecipientType [calms]: "calm f \<Longrightarrow> calm g \<Longrightarrow>
    calm (case t of RecipientNeoUser \<Rightarrow> f | RecipientBankAccount \<Rightarrow> g)"
  by (cases t) simp_all

lemma calm_recipient_service [calms]:
  "calm (Create E ow req)" "calm (SaveFromTransfer E ow cp c)" "calm (SaveFromTransferFireAndForget E ow cp c)"
  "calm (SetFavorite E ow i b)" "calm (Archive E ow i)"
  unfolding Create_def SaveFromTransfer_def SaveFromTransferFireAndForget_def SetFavorite_def Archive_def Let_def
  by (rule calms)+

section \<open>One active entry per counterparty\<close>

text \<open>What identifies the counterparty of a row; a bank entry without an account number has no
  identity.\<close>

definition identity :: "Recipient \<Rightarrow> (string \<times> (string + string \<times> string)) option" where
  "identity r = (case rp_Type r of
     RecipientNeoUser \<Rightarrow> map_option (\<lambda>u. (rp_OwnerUserID r, Inl u)) (rp_NeoUserID r)
   | RecipientBankAccount \<Rightarrow> (case (rp_InstitutionCode r, rp_AccountNumber r) of
       (Some i, Some a) \<Rightarrow> Some (rp_OwnerUserID r, Inr (i, a)) | _ \<Rightarrow> None))"

definition rp_wf :: "Recipient \<Rightarrow> bool" where
  "rp_wf r \<longleftrightarrow> (case rp_Type r of RecipientNeoUser \<Rightarrow> rp_NeoUserID r \<noteq> None \<and> rp_InstitutionCode r = None
     | RecipientBankAccount \<Rightarrow> rp_NeoUserID r = None)"

definition active_identities :: "Recipient list \<Rightarrow> (string \<times> (string + string \<times> string)) list" where
  "active_identities rs = List.map_filter identity (filter (\<lambda>r. rp_Status r = RecipientActive) rs)"

definition recipients_inv :: "Recipient list \<Rightarrow> bool" where
  "recipients_inv rs \<longleftrightarrow> list_all rp_wf rs \<and> distinct (active_identities rs)"

lemma conflict_identity:
  assumes "rp_wf r" "rp_wf q"
  shows "recipient_conflict r q \<longleftrightarrow> rp_Status q = RecipientActive \<and> identity r \<noteq> None \<and> identity q = identity r"
  using assms
  by (auto simp: recipient_conflict_def identity_def rp_wf_def split: RecipientType.splits option.splits)

lemma merge_same [simp]:
  "identity (recipient_merge r q) = identity q" "rp_wf (recipient_merge r q) = rp_wf q"
  "rp_Status (recipient_merge r q) = rp_Status q"
  "rp_TransferCount (recipient_merge r q) = rp_TransferCount q + 1"
  by (simp_all add: recipient_merge_def identity_def rp_wf_def split: RecipientType.split option.split)

lemma map_filter_append: "List.map_filter f (xs @ ys) = List.map_filter f xs @ List.map_filter f ys"
  by (induction xs) (auto simp: List.map_filter_def)

lemma active_identities_append:
  "active_identities (rs @ [r]) = active_identities rs @
     (if rp_Status r = RecipientActive then (case identity r of None \<Rightarrow> [] | Some i \<Rightarrow> [i]) else [])"
  by (auto simp: active_identities_def map_filter_append List.map_filter_def split: option.splits)

lemma active_identities_set:
  "i \<in> set (active_identities rs) \<longleftrightarrow> (\<exists>q \<in> set rs. rp_Status q = RecipientActive \<and> identity q = Some i)"
  by (force simp: active_identities_def List.map_filter_def)

lemma active_identities_update:
  assumes "\<And>r. identity (f r) = identity r" "\<And>r. rp_Status (f r) = rp_Status r"
  shows "active_identities (update_where p f rs) = active_identities rs"
  using assms by (induction rs) (auto simp: active_identities_def update_where_def List.map_filter_def)

lemma active_identities_Cons:
  "active_identities (r # rs) = (if rp_Status r = RecipientActive then (case identity r of None \<Rightarrow> [] | Some i \<Rightarrow> [i]) else [])
     @ active_identities rs"
  by (auto simp: active_identities_def List.map_filter_def split: option.splits)

lemma distinct_archive:
  assumes "distinct (active_identities rs)"
  shows "distinct (active_identities (update_where p (\<lambda>r. r\<lparr>rp_Status := RecipientArchived\<rparr>) rs))
     \<and> set (active_identities (update_where p (\<lambda>r. r\<lparr>rp_Status := RecipientArchived\<rparr>) rs)) \<subseteq> set (active_identities rs)"
  using assms
proof (induction rs)
  case (Cons r rs)
  then show ?case
    by (cases "p r"; cases "identity r"; cases "rp_Status r") (auto simp: active_identities_Cons update_where_Cons)
qed (simp add: update_where_def)

text \<open>At most one row conflicts with a new one.\<close>

lemma conflicts_counted:
  assumes "list_all rp_wf rs" "rp_wf r" "identity r = Some i"
  shows "length (filter (recipient_conflict r) rs) = count_list (active_identities rs) i"
  using assms(1)
proof (induction rs)
  case (Cons q rs)
  then show ?case
    using conflict_identity [OF assms(2), of q] assms(3)
    by (cases "identity q"; cases "rp_Status q") (auto simp: active_identities_Cons)
qed (simp add: active_identities_def)

lemma count_list_distinct: "distinct xs \<Longrightarrow> x \<in> set xs \<Longrightarrow> count_list xs x = 1"
  by (induction xs) (auto simp: count_notin)

lemma one_conflict:
  assumes "recipients_inv rs" "rp_wf r" "select_one (recipient_conflict r) rs = Some q"
  shows "length (filter (recipient_conflict r) rs) = 1"
proof -
  have q: "q \<in> set rs" "recipient_conflict r q" using select_one_Some [OF assms(3)] by simp_all
  then obtain i where i: "identity r = Some i" "i \<in> set (active_identities rs)"
    using assms(1,2) conflict_identity [of r q]
    by (fastforce simp: recipients_inv_def list_all_iff active_identities_set)
  then show ?thesis
    using assms(1) conflicts_counted [OF _ assms(2) i(1)] by (simp add: recipients_inv_def count_list_distinct)
qed

lemma sum_update_where:
  fixes f :: "Recipient \<Rightarrow> Recipient"
  assumes "\<And>r. rp_TransferCount (f r) = rp_TransferCount r + 1"
  shows "sum_list (map rp_TransferCount (update_where p f rs)) = sum_list (map rp_TransferCount rs) + int (length (filter p rs))"
  using assms by (induction rs) (simp_all add: update_where_def)

text \<open>What a successful upsert does to the table.\<close>

lemma Upsert_run:
  assumes run: "recipient_Upsert E r w = (Inr x, w')" and inv: "recipients_inv (w_recipients w)" and "rp_wf r"
  shows "recipients_inv (w_recipients w')"
    and "sum_list (map rp_TransferCount (w_recipients w')) = sum_list (map rp_TransferCount (w_recipients w)) + 1"
proof -
  let ?rs = "w_recipients w"
  have "recipients_inv (w_recipients w') \<and>
    sum_list (map rp_TransferCount (w_recipients w')) = sum_list (map rp_TransferCount ?rs) + 1"
  proof (cases "select_one (recipient_conflict r) ?rs")
    case None
    obtain i t where w': "w_recipients w' = ?rs @ [r\<lparr>rp_ID := i, rp_IsFavorite := False, rp_TransferCount := 1,
        rp_Status := RecipientActive, rp_CreatedAt := t\<rparr>]"
      using run None by (auto simp: recipient_Upsert_def runs dbA_run newID_def nowA_def Let_def)
    let ?n = "r\<lparr>rp_ID := i, rp_IsFavorite := False, rp_TransferCount := 1, rp_Status := RecipientActive, rp_CreatedAt := t\<rparr>"
    have n: "identity ?n = identity r" "rp_wf ?n"
      using assms(3) by (auto simp: identity_def rp_wf_def split: RecipientType.split option.split)
    have "identity r = Some k \<Longrightarrow> k \<notin> set (active_identities ?rs)" for k
      using None inv assms(3) conflict_identity [OF assms(3)]
      by (fastforce simp: active_identities_set select_one_None recipients_inv_def list_all_iff)
    then show ?thesis
      using inv n unfolding w' recipients_inv_def active_identities_append by (auto split: option.splits)
  next
    case (Some q)
    then have "w_recipients w' = update_where (recipient_conflict r) (recipient_merge r) ?rs"
      using run by (auto simp: recipient_Upsert_def runs dbA_run)
    then show ?thesis
      using inv one_conflict [OF inv assms(3) Some]
      by (auto simp: recipients_inv_def active_identities_update sum_update_where list_all_iff dest: update_where_set)
  qed
  then show "recipients_inv (w_recipients w')"
    "sum_list (map rp_TransferCount (w_recipients w')) = sum_list (map rp_TransferCount ?rs) + 1" by simp_all
qed

lemma Upsert_err: "recipient_Upsert E r w = (Inl e, w') \<Longrightarrow> w_recipients w' = w_recipients w"
  by (auto simp: recipient_Upsert_def dbA_def bindA_def getsA_def newID_def nowA_def modifyA_def retA_def Let_def
      split: if_splits option.splits)

abbreviation R_inv :: "'l world \<Rightarrow> bool" where
  "R_inv w \<equiv> recipients_inv (w_recipients w)"

lemma R_inv_upsert: "rp_wf r \<Longrightarrow> keepsA R_inv (recipient_Upsert E r)"
proof (rule keepsAI)
  fix w :: "'a world" assume a: "rp_wf r" "R_inv w"
  obtain x w' where x: "recipient_Upsert E r w = (x, w')" by fastforce
  with a show "R_inv (snd (recipient_Upsert E r w))"
    using Upsert_run(1) Upsert_err by (cases x) (fastforce, fastforce)
qed

lemma R_inv_others [keeps]:
  "keepsA R_inv (audit_Log E e)" "keepsA R_inv (user_query E p)" "keepsA R_inv nowA"
  unfolding audit_Log_def user_query_def nowA_def
  by (intro keeps_db keeps keeps_modify; simp)+

lemma R_inv_resolve [keeps]: "keepsA R_inv (resolveUser E i)"
  unfolding resolveUser_def user_GetByPhone_def user_GetByUsername_def by (intro keeps)

lemma R_inv_upsert_and_log: "rp_wf r \<Longrightarrow> keepsA R_inv (upsert_and_log E a ow r)"
  unfolding upsert_and_log_def by (intro keeps R_inv_upsert)

lemma wf_rows:
  "rp_wf ((recipient0 ow RecipientNeoUser n)\<lparr>rp_NeoUserID := Some u, rp_CountryCode := c, rp_Number := d, rp_Username := e\<rparr>)"
  "rp_wf ((recipient0 ow RecipientNeoUser n)\<lparr>rp_LastUsedAt := t, rp_LastUsedCurrency := s, rp_NeoUserID := Some u,
     rp_CountryCode := c, rp_Number := d, rp_Username := e\<rparr>)"
  "rp_wf (with_bank i b ac (recipient0 ow RecipientBankAccount n))"
  "rp_wf (with_bank i b ac ((recipient0 ow RecipientBankAccount n)\<lparr>rp_LastUsedAt := t, rp_LastUsedCurrency := s\<rparr>))"
  by (simp_all add: rp_wf_def recipient0_def with_bank_def)

lemma keeps_RecipientType: "(t = RecipientNeoUser \<Longrightarrow> keepsA I f) \<Longrightarrow> (t = RecipientBankAccount \<Longrightarrow> keepsA I g) \<Longrightarrow>
    keepsA I (case t of RecipientNeoUser \<Rightarrow> f | RecipientBankAccount \<Rightarrow> g)"
  by (cases t) simp_all

lemma Create_keeps: "keepsA R_inv (Create E ow req)"
  unfolding Create_def
  by (intro keeps keeps_RecipientType R_inv_upsert_and_log wf_rows)

lemma SaveFromTransfer_keeps: "keepsA R_inv (SaveFromTransfer E ow cp cur)"
  unfolding SaveFromTransfer_def Let_def
  by (rule keeps_bind, rule keeps, rule keeps_bind, rule keeps_RecipientType)
    (simp_all add: keeps R_inv_upsert_and_log wf_rows keeps_option)

lemma flag_same [simp]:
  "identity (r\<lparr>rp_IsFavorite := b\<rparr>) = identity r" "rp_wf (r\<lparr>rp_IsFavorite := b\<rparr>) = rp_wf r"
  "rp_wf (r\<lparr>rp_Status := s\<rparr>) = rp_wf r"
  by (simp_all add: identity_def rp_wf_def split: RecipientType.split option.split)

lemma list_all_update: "list_all Q rs \<Longrightarrow> (\<And>r. Q r \<Longrightarrow> Q (f r)) \<Longrightarrow> list_all Q (update_where p f rs)"
  by (auto simp: update_where_def list_all_iff)

lemma recipient_update_keeps:
  assumes "\<And>rs p. recipients_inv rs \<Longrightarrow> recipients_inv (update_where p f rs)"
  shows "keepsA R_inv (recipient_update E i ow f)"
  unfolding recipient_update_def Let_def
  by (rule keeps_db) (intro keeps keeps_modify, simp_all add: assms)

lemma SetFavorite_keeps: "keepsA R_inv (SetFavorite E ow i b)"
proof -
  have "recipients_inv (update_where p (\<lambda>r. r\<lparr>rp_IsFavorite := b\<rparr>) rs)" if "recipients_inv rs" for rs p
    using that by (simp add: recipients_inv_def active_identities_update list_all_update)
  then show ?thesis
    unfolding SetFavorite_def recipient_UpdateFavorite_def by (intro keeps recipient_update_keeps)
qed

lemma Archive_keeps: "keepsA R_inv (Archive E ow i)"
proof -
  have "recipients_inv (update_where p (\<lambda>r. r\<lparr>rp_Status := RecipientArchived\<rparr>) rs)" if "recipients_inv rs" for rs p
    using that distinct_archive [of rs p] by (simp add: recipients_inv_def list_all_update)
  then show ?thesis
    unfolding Archive_def recipient_Archive_def by (intro keeps recipient_update_keeps)
qed

section \<open>Properties\<close>

inductive rp_step :: "env \<Rightarrow> 'l world \<Rightarrow> 'l world \<Rightarrow> bool" for E where
  step_Create: "Create E ow req w = (r1, w') \<Longrightarrow> rp_step E w w'"
| step_Save: "SaveFromTransfer E ow cp cur w = (r2, w') \<Longrightarrow> rp_step E w w'"
| step_Favorite: "SetFavorite E ow i b w = (r3, w') \<Longrightarrow> rp_step E w w'"
| step_Archive: "Archive E ow i w = (r4, w') \<Longrightarrow> rp_step E w w'"
| step_elsewhere: "w_recipients w' = w_recipients w \<Longrightarrow> rp_step E w w'"

lemma rp_step_inv: "rp_step E w w' \<Longrightarrow> R_inv w \<Longrightarrow> R_inv w'"
  by (induction rule: rp_step.induct)
    (auto intro: keepsA_run [OF Create_keeps] keepsA_run [OF SaveFromTransfer_keeps] keepsA_run [OF SetFavorite_keeps]
      keepsA_run [OF Archive_keeps])


definition alice_to_bob :: TransferCounterparty where
  "alice_to_bob = \<lparr>tc_Type = RecipientNeoUser, tc_DisplayName = ''Bob'', tc_NeoUserID = ''ub'', tc_CountryCode = ''251'',
     tc_Number = ''911111111'', tc_Username = '''', tc_InstitutionCode = '''', tc_AccountNumber = ''''\<rparr>"

definition saved_world :: "unit world" where
  "saved_world = snd (SaveFromTransfer ok_env ''ua'' alice_to_bob ''ETB'' (empty_world () 1000))"


text \<open>Every saved transfer is counted once: a successful save raises the sum of the transfer counts
  by exactly one, whether it adds an entry or merges into the existing one.\<close>

lemma SaveFromTransfer_counts:
  assumes run: "SaveFromTransfer E ow cp cur w = (Inr u, w')" and inv: "recipients_inv (w_recipients w)"
  shows "sum_list (map rp_TransferCount (w_recipients w')) = sum_list (map rp_TransferCount (w_recipients w)) + 1"
proof -
  have audit: "w_recipients (snd (audit_Log E e w1)) = w_recipients w1" for e and w1 :: "'a world"
    by (simp add: audit_Log_def dbA_def modifyA_def throwA_def Let_def)
  have up: "sum_list (map rp_TransferCount (w_recipients w2)) = sum_list (map rp_TransferCount (w_recipients w)) + 1"
    if "upsert_and_log E a ow r w = (Inr x, w2)" "rp_wf r" for a r x w2
    using that Upsert_run(2) [OF _ inv that(2)] by (auto simp: upsert_and_log_def runs audit)
  show ?thesis
    using run wf_rows(2) wf_rows(4)
    by (cases "tc_Type cp"; cases "LookupBank (tc_InstitutionCode cp)")
      (auto simp: SaveFromTransfer_def runs nowA_def Let_def dest!: up)
qed

lemma SaveFromTransfer_counts_witness:
  "map rp_TransferCount (w_recipients (snd (SaveFromTransfer ok_env ''ua'' alice_to_bob ''ETB'' saved_world))) = [2]"
proof -
  let ?r = "SaveFromTransfer ok_env ''ua'' alice_to_bob ''ETB'' saved_world"
  have "?r = (Inr (), snd ?r)" by (rule run_of) code_simp
  moreover have "recipients_inv (w_recipients saved_world)" by code_simp
  moreover have "sum_list (map rp_TransferCount (w_recipients saved_world)) = 1" by code_simp
  ultimately have "sum_list (map rp_TransferCount (w_recipients (snd ?r))) = 2"
    using SaveFromTransfer_counts [of ok_env "''ua''" alice_to_bob "''ETB''" saved_world "()" "snd ?r"] by simp
  moreover have "length (w_recipients (snd ?r)) = 1" by code_simp
  ultimately show ?thesis by (cases "w_recipients (snd ?r)") auto
qed

text \<open>Adding a recipient explicitly that is already saved counts as a transfer and forgets when it
  was last used: the upsert adds one to the transfer count and overwrites the last use with the missing
  value of the request.\<close>

theorem Create_forgets_last_use:
  "let bob = \<lparr>u_ID = ''ub'', u_PhoneNumber = \<lparr>CountryCode = ''251'', Number = ''911111111''\<rparr>, u_Username = Some ''bob'',
         u_PasswordHash = '''', u_AccountType = AccountTypePersonal, u_FaydaIDNumber = None, u_FirstName = None,
         u_MiddleName = None, u_LastName = None, u_DateOfBirth = None, u_Gender = None, u_FaydaPhotoURL = None, u_KYCLevel = 1, u_IsFrozen = False, u_FrozenReason = None,
         u_FrozenAt = None, u_LedgerWalletID = ''wb'', u_TelegramID = None, u_TelegramUsername = None,
         u_SpendWaterfallOrder = [], u_CreatedAt = 0, u_UpdatedAt = 0\<rparr>;
       req = \<lparr>cr_Type = Some RecipientNeoUser, cr_Identifier = ''bob'', cr_InstitutionCode = '''',
         cr_AccountNumber = '''', cr_DisplayName = ''''\<rparr>;
       w = saved_world\<lparr>w_users := [bob]\<rparr>;
       w' = snd (Create ok_env ''ua'' req w)
   in map rp_LastUsedAt (w_recipients w) = [Some 1000] \<and> map rp_LastUsedAt (w_recipients w') = [None]
      \<and> map rp_TransferCount (w_recipients w') = [2]"
  by code_simp

end
