(* ===== verification/Reads.thy ===== *)
theory Reads
  imports Effects Repositories
begin

text \<open>
  What the lookups of the repositories return, shared by the services: a lookup changes nothing but the
  count of database round trips, and what it returns is a row of the table.
\<close>

lemma reader_repositories [readers]:
  "readerA (user_query E p)" "readerA (rule_ListEffectiveByKey E k)" "readerA (totals_GetDailyTotal E u c d)"
  "readerA (totals_GetMonthlyTotal E u c d)"
  unfolding user_query_def rule_ListEffectiveByKey_def totals_GetDailyTotal_def totals_GetMonthlyTotal_def
  by (rule readers)+

lemma reader_users [readers]:
  "readerA (user_GetByID E i)" "readerA (user_GetByPhone E p)" "readerA (user_GetByUsername E n)"
  unfolding user_GetByID_def user_GetByPhone_def user_GetByUsername_def by (rule readers)+

lemma reader_loans [readers]:
  "readerA (loan_GetCreditProfile E u)" "readerA (loan_GetLoan E i)" "readerA (loan_ListActiveByUser E u)"
  "readerA (loan_ListInstallmentsByLoan E i)" "readerA (loan_ListDueUnpaidInstallments E)" "readerA (loan_CountLatePayments E u)"
  unfolding loan_GetCreditProfile_def loan_GetLoan_def loan_ListActiveByUser_def loan_ListInstallmentsByLoan_def
    loan_ListDueUnpaidInstallments_def loan_CountLatePayments_def by (rule readers)+

lemma user_query_run:
  assumes "user_query E p w = (Inr u, w')"
  shows "select_one p (w_users w) = Some u" "stable w' = stable w"
  using assms by (auto simp: user_query_def runs dbA_run stable_def)

lemma user_GetByID_run:
  assumes "user_GetByID E i w = (Inr u, w')"
  shows "u \<in> set (w_users w)" "u_ID u = i" "stable w' = stable w"
  using user_query_run [of E _ w u w'] assms select_one_Some unfolding user_GetByID_def by fast+

lemma audit_ledger: "w_ledger (snd (audit_Log E e w)) = w_ledger w"
  by (rule calm_snd) (rule calms)

text \<open>A customer for the examples.\<close>

definition user0 :: User where
  "user0 = \<lparr>u_ID = ''ua'', u_PhoneNumber = \<lparr>CountryCode = ''251'', Number = ''911111111''\<rparr>, u_Username = Some ''alice'',
     u_PasswordHash = '''', u_AccountType = AccountTypePersonal, u_FaydaIDNumber = None, u_FirstName = Some ''Alice'',
     u_MiddleName = None, u_LastName = None, u_DateOfBirth = None, u_Gender = None, u_FaydaPhotoURL = None, u_KYCLevel = 1, u_IsFrozen = False, u_FrozenReason = None,
     u_FrozenAt = None, u_LedgerWalletID = ''wa'', u_TelegramID = None, u_TelegramUsername = None,
     u_SpendWaterfallOrder = [], u_CreatedAt = 0, u_UpdatedAt = 0\<rparr>"

end
