(* ===== verification/Regulatory.thy ===== *)
theory Regulatory
  imports Reads
begin

text \<open>
  \<open>internal/services/regulatory\<close>: the rules of the central bank. A rule has a scope; the most specific
  one that matches the user decides. \<open>CheckTransferAllowed\<close> is the gate every transfer passes. The
  exchange rate function is injected by the caller and is a parameter.
\<close>

section \<open>Definitions\<close>

record 'l regulatory =
  rg_ratesFn :: "string \<Rightarrow> string \<Rightarrow> ('l, float64) go"
  rg_ttl :: int

record TransferCheckRequest =
  tr_UserID :: string
  tr_User :: User
  tr_Direction :: string
  tr_AmountCents :: int
  tr_Currency :: string
  tr_Purpose :: string
  tr_Destination :: string

definition KYCVerified :: int where "KYCVerified = 2"

fun accountType_string :: "AccountType \<Rightarrow> string" where
  "accountType_string AccountTypePersonal = ''personal''"
| "accountType_string AccountTypeBusiness = ''business''"

definition matchPriority :: "RegulatoryRule \<Rightarrow> User \<Rightarrow> string \<Rightarrow> int" where
  "matchPriority r user currency = (case rr_Scope r of
     RuleScopeCurrency \<Rightarrow> if currency \<noteq> '''' \<and> rr_ScopeValue r = currency then 4 else -1
   | RuleScopeAccountType \<Rightarrow>
       if accountType_string (u_AccountType user) = rr_ScopeValue r then 3
       else if rr_ScopeValue r = ''fx_holder'' then 2 else -1
   | RuleScopeKYCLevel \<Rightarrow> if itoa (u_KYCLevel user) = rr_ScopeValue r then 2 else -1
   | RuleScopeGlobal \<Rightarrow> 1)"

text \<open>The loop over the rules, with \<open>best\<close> and \<open>bestPriority\<close>.\<close>

fun best_rule :: "User \<Rightarrow> string \<Rightarrow> RegulatoryRule list \<Rightarrow> RegulatoryRule option \<times> int \<Rightarrow> RegulatoryRule option" where
  "best_rule user currency [] (best, p) = best"
| "best_rule user currency (r # rs) (best, p) =
     (if matchPriority r user currency > p then best_rule user currency rs (Some r, matchPriority r user currency)
      else best_rule user currency rs (best, p))"

definition rules_key :: "string \<Rightarrow> string" where
  "rules_key key = ''neo:rules:'' @ key"

definition getEffectiveRules :: "env \<Rightarrow> 'l regulatory \<Rightarrow> string \<Rightarrow> ('l, RegulatoryRule list) go" where
  "getEffectiveRules E s key =
     bindA (cacheGet (rules_key key)) (\<lambda>data.
     case data of
       Some (CRules rules) \<Rightarrow> retA rules
     | _ \<Rightarrow>
       bindA (rule_ListEffectiveByKey E key) (\<lambda>rules.
       bindA (cacheSet (rules_key key) (CRules rules) (rg_ttl s)) (\<lambda>_.
       retA rules)))"

definition bestRule :: "env \<Rightarrow> 'l regulatory \<Rightarrow> string \<Rightarrow> User \<Rightarrow> string \<Rightarrow> ('l, RegulatoryRule) go" where
  "bestRule E s key user currency =
     bindA (getEffectiveRules E s key) (\<lambda>rules.
     case best_rule user currency rules (None, -1) of
       None \<Rightarrow> throwA (Regulatory ErrRegulatoryRuleNotFound)
     | Some best \<Rightarrow> retA best)"

definition parseInt64 :: "string \<Rightarrow> int option" where
  "parseInt64 s = (case atoi s of None \<Rightarrow> None | Some n \<Rightarrow> if in_i64 n then Some n else None)"

definition GetAmountLimit :: "env \<Rightarrow> 'l regulatory \<Rightarrow> string \<Rightarrow> User \<Rightarrow> string \<Rightarrow> ('l, int) go" where
  "GetAmountLimit E s key user currency =
     bindA (bestRule E s key user currency) (\<lambda>best.
     case parseInt64 (rr_Value best) of
       None \<Rightarrow> throwA (Opaque ''parsing rule value as amount_cents'')
     | Some cents \<Rightarrow> retA cents)"

definition IsEnabled :: "env \<Rightarrow> 'l regulatory \<Rightarrow> string \<Rightarrow> User \<Rightarrow> ('l, bool) go" where
  "IsEnabled E s key user = bindA (bestRule E s key user '''') (\<lambda>best. retA (rr_Value best = ''true''))"

definition usd_of :: "int \<Rightarrow> float64 \<Rightarrow> ('l, int) go" where
  "usd_of amountCents mid w = (Inr (trunc64 (math_Round (f_mul (f_of_int amountCents) mid))), w)"

definition convertToUSD :: "'l regulatory \<Rightarrow> string \<Rightarrow> int \<Rightarrow> ('l, int) go" where
  "convertToUSD s currency amountCents =
     (if currency = ''USD'' then retA amountCents
      else bindA (rg_ratesFn s currency ''USD'') (usd_of amountCents))"

text \<open>The pattern of the amount checks: a limit that cannot be read, or is not positive, is no limit.\<close>

definition with_limit :: "env \<Rightarrow> 'l regulatory \<Rightarrow> string \<Rightarrow> User \<Rightarrow> string \<Rightarrow> (int \<Rightarrow> ('l, unit) go) \<Rightarrow> ('l, unit) go" where
  "with_limit E s key user currency check =
     bindA (tryA (GetAmountLimit E s key user currency)) (\<lambda>r.
     case r of
       Inl e \<Rightarrow> retA ()
     | Inr limit \<Rightarrow> if limit > 0 then check limit else retA ())"

definition CheckTransferAllowed :: "env \<Rightarrow> 'l regulatory \<Rightarrow> TransferCheckRequest \<Rightarrow> ('l, unit) go" where
  "CheckTransferAllowed E s req =
     bindA (with_limit E s ''daily_transfer_limit'' (tr_User req) (tr_Currency req) (\<lambda>dailyLimit.
       bindA (totals_GetDailyTotal E (tr_UserID req) (tr_Currency req) (tr_Direction req)) (\<lambda>dailyTotal.
       if i64 (dailyTotal + tr_AmountCents req) > dailyLimit then throwA (Business ErrDailyLimitExceeded)
       else retA ()))) (\<lambda>_.
     bindA (whenA (tr_Direction req = ''outbound'' \<or> tr_Direction req = ''card_international'')
       (with_limit E s ''outbound_remittance_monthly_cap'' (tr_User req) (tr_Currency req) (\<lambda>monthlyCapCents.
         bindA (totals_GetMonthlyTotal E (tr_UserID req) ''USD'' (tr_Direction req)) (\<lambda>monthlyTotal.
         bindA (convertToUSD s (tr_Currency req) (tr_AmountCents req)) (\<lambda>amountInUSD.
         if i64 (monthlyTotal + amountInUSD) > monthlyCapCents then throwA (Regulatory ErrRemittanceCapExceeded)
         else retA ()))))) (\<lambda>_.
     bindA (whenA (tr_Purpose req = ''medical'' \<or> tr_Purpose req = ''education'')
       (with_limit E s ''advance_payment_medical_education_cap'' (tr_User req) ''USD'' (\<lambda>advanceCap.
         bindA (convertToUSD s (tr_Currency req) (tr_AmountCents req)) (\<lambda>amountInUSD.
         if amountInUSD > advanceCap then throwA (Regulatory ErrTransferBlocked) else retA ())))) (\<lambda>_.
     if tr_Currency req = CurrencyETB \<and> tr_Destination req \<noteq> '''' \<and> tr_Destination req \<noteq> ''domestic''
        \<and> tr_Direction req = ''outbound''
     then throwA (Regulatory ErrTransferBlocked)
     else if tr_Direction req = ''outbound'' \<and> tr_Destination req \<noteq> ''domestic'' \<and> tr_Destination req \<noteq> ''''
        \<and> u_KYCLevel (tr_User req) < KYCVerified
     then throwA (Regulatory ErrKYCInsufficientForFX)
     else
     bindA (whenA (tr_Purpose req = ''investment'')
       (bindA (tryA (IsEnabled E s ''outbound_investment_enabled'' (tr_User req))) (\<lambda>r.
         case r of
           Inl e \<Rightarrow> throwA (Regulatory ErrInvestmentNotEnabled)
         | Inr enabled \<Rightarrow> if \<not> enabled then throwA (Regulatory ErrInvestmentNotEnabled) else retA ()))) (\<lambda>_.
     whenA (tr_Direction req = ''outbound'')
       (with_limit E s ''outbound_remittance_doc_threshold'' (tr_User req) ''USD'' (\<lambda>docThreshold.
         bindA (convertToUSD s (tr_Currency req) (tr_AmountCents req)) (\<lambda>amountInUSD.
         if amountInUSD > docThreshold \<and> tr_Purpose req = ''general'' then throwA (Regulatory ErrDocumentRequired)
         else retA ())))))))"

definition InvalidateCache :: "('l, unit) go" where
  "InvalidateCache = cacheDeleteByPrefix ''neo:rules:''"

text \<open>Evaluation unfolds an action only when it runs.\<close>

lemmas regulatory_code [code] =
  getEffectiveRules_def [THEN fun_cong]
  bestRule_def [THEN fun_cong]
  GetAmountLimit_def [THEN fun_cong]
  IsEnabled_def [THEN fun_cong]
  convertToUSD_def [THEN fun_cong]
  with_limit_def [THEN fun_cong]
  CheckTransferAllowed_def [THEN fun_cong]
  InvalidateCache_def [THEN fun_cong]

section \<open>Lemmas\<close>

lemma calm_rules_service [calms]:
  "calm (getEffectiveRules E s k)" "calm (bestRule E s k u c)" "calm (GetAmountLimit E s k u c)" "calm (IsEnabled E s k u)"
  unfolding getEffectiveRules_def bestRule_def GetAmountLimit_def IsEnabled_def by (rule calms)+

lemma calm_with_limit [calms]: "(\<And>n. calm (f n)) \<Longrightarrow> calm (with_limit E s k u c f)"
  unfolding with_limit_def by (rule calms | assumption)+

lemma calm_usd_of [calms]: "calm (usd_of n m)"
  by (simp add: calm_def usd_of_def)

text \<open>The rate function only reads.\<close>

lemma calm_CheckTransferAllowed:
  assumes "\<And>a b. calm (rg_ratesFn s a b)"
  shows "calm (CheckTransferAllowed E s req)"
  unfolding CheckTransferAllowed_def convertToUSD_def by (rule calms assms)+

text \<open>The loop returns a rule of highest priority, the first of them.\<close>

lemma best_rule_acc:
  assumes "\<forall>b. best = Some b \<longrightarrow> matchPriority b user c = p"
  shows "case best_rule user c rs (best, p) of
      None \<Rightarrow> best = None \<and> (\<forall>q \<in> set rs. matchPriority q user c \<le> p)
    | Some r \<Rightarrow> (best = Some r \<or> r \<in> set rs) \<and> (\<forall>q \<in> set rs. matchPriority q user c \<le> matchPriority r user c)
        \<and> p \<le> matchPriority r user c"
  using assms
proof (induction rs arbitrary: best p)
  case (Cons q rs)
  show ?case
  proof (cases "matchPriority q user c > p")
    case True
    then show ?thesis
      using Cons.IH [of "Some q" "matchPriority q user c"]
      by (cases "best_rule user c rs (Some q, matchPriority q user c)") auto
  next
    case False
    then show ?thesis
      using Cons.IH [of best p] Cons.prems by (cases "best_rule user c rs (best, p)") auto
  qed
qed (simp split: option.split)

lemma matchPriority_range: "matchPriority r u c \<in> {-1, 1, 2, 3, 4}"
  by (auto simp: matchPriority_def split: RuleScope.splits)

lemma with_limit_run:
  assumes "with_limit E s k u c f w = (Inr x, w')" "fst (GetAmountLimit E s k u c w) = Inr n" "0 < n"
  shows "f n (snd (GetAmountLimit E s k u c w)) = (Inr x, w')"
  using assms by (auto simp: with_limit_def runs)

section \<open>Properties\<close>

text \<open>C25: the most specific rule decides: the limit comes from a rule that applies to the user, no other
  effective rule for the key is more specific, and there is no limit exactly when no rule applies.\<close>

theorem best_rule_most_specific:
  "case best_rule user c rs (None, -1) of
     None \<Rightarrow> (\<forall>q \<in> set rs. matchPriority q user c = -1)
   | Some r \<Rightarrow> r \<in> set rs \<and> matchPriority r user c > 0
       \<and> (\<forall>q \<in> set rs. matchPriority q user c \<le> matchPriority r user c)"
proof (cases "best_rule user c rs (None, -1)")
  case None
  then have "\<forall>q \<in> set rs. matchPriority q user c \<le> -1" using best_rule_acc [of None user c "-1" rs] by simp
  then show ?thesis using None matchPriority_range [of _ user c] by fastforce
next
  case (Some r)
  have gt: "p < matchPriority b user c" if "best_rule user c xs (None, p) = Some b" for xs p b
    using that
  proof (induction xs)
    case (Cons q xs)
    then show ?case
      using best_rule_acc [of "Some q" user c "matchPriority q user c" xs] by (auto split: if_splits)
  qed simp
  from gt [OF Some] have "0 < matchPriority r user c" using matchPriority_range [of r user c] by auto
  then show ?thesis using Some best_rule_acc [of None user c "-1" rs] by simp
qed

text \<open>The user and rules of the examples.\<close>

definition rule0 :: "string \<Rightarrow> RuleScope \<Rightarrow> string \<Rightarrow> string \<Rightarrow> RegulatoryRule" where
  "rule0 key scope sv v = \<lparr>rr_ID = '''', rr_Key = key, rr_Description = '''', rr_ValueType = RuleTypeAmountCents,
     rr_Value = v, rr_Scope = scope, rr_ScopeValue = sv, rr_EffectiveFrom = 0, rr_EffectiveTo = None,
     rr_NBEReference = '''', rr_CreatedAt = 0, rr_UpdatedAt = 0\<rparr>"

theorem best_rule_most_specific_witness:
  "best_rule user0 ''ETB'' [rule0 ''k'' RuleScopeGlobal '''' ''5'', rule0 ''k'' RuleScopeKYCLevel ''1'' ''7''] (None, -1)
   = Some (rule0 ''k'' RuleScopeKYCLevel ''1'' ''7'')"
proof -
  let ?a = "rule0 ''k'' RuleScopeGlobal '''' ''5''" and ?b = "rule0 ''k'' RuleScopeKYCLevel ''1'' ''7''"
  have p: "matchPriority ?a user0 ''ETB'' = 1" "matchPriority ?b user0 ''ETB'' = 2" by (code_simp, code_simp)
  show ?thesis
    using best_rule_most_specific [where user = user0 and c = "''ETB''" and rs = "[?a, ?b]"] p by (auto split: option.splits)
qed


definition rules_world :: "RegulatoryRule list \<Rightarrow> TransferTotal list \<Rightarrow> unit world" where
  "rules_world rs ts = (empty_world () 1000)\<lparr>w_rules := rs, w_totals := ts\<rparr>"

definition eur_rates :: "unit regulatory" where
  "eur_rates = \<lparr>rg_ratesFn = (\<lambda>a b. retA (if a = ''EUR'' then 2 else 1)), rg_ttl = 60 * second\<rparr>"

definition check_req :: "string \<Rightarrow> int \<Rightarrow> string \<Rightarrow> string \<Rightarrow> TransferCheckRequest" where
  "check_req dir n cur dest = \<lparr>tr_UserID = ''ua'', tr_User = user0, tr_Direction = dir, tr_AmountCents = n,
     tr_Currency = cur, tr_Purpose = '''', tr_Destination = dest\<rparr>"


text \<open>Birr never leaves the country and only verified customers send abroad: a transfer abroad that
  passes the gate is not in ETB and its sender is at KYC level 2 or above.\<close>

lemma CheckTransferAllowed_abroad:
  assumes "CheckTransferAllowed E s req w = (Inr u, w')"
    and "tr_Direction req = ''outbound''" "tr_Destination req \<notin> {'''', ''domestic''}"
  shows "tr_Currency req \<noteq> CurrencyETB \<and> KYCVerified \<le> u_KYCLevel (tr_User req)"
  using assms by (auto simp: CheckTransferAllowed_def runs)

lemma CheckTransferAllowed_abroad_witness:
  "let req = (check_req ''outbound'' 3000 ''EUR'' ''DE'')\<lparr>tr_User := user0\<lparr>u_KYCLevel := 2\<rparr>\<rparr> in
   fst (CheckTransferAllowed ok_env eur_rates req (rules_world [] [])) = Inr () \<and> tr_Currency req \<noteq> CurrencyETB"
proof -
  let ?q = "(check_req ''outbound'' 3000 ''EUR'' ''DE'')\<lparr>tr_User := user0\<lparr>u_KYCLevel := 2\<rparr>\<rparr>"
  let ?r = "CheckTransferAllowed ok_env eur_rates ?q (rules_world [] [])"
  have f: "fst ?r = Inr ()" by code_simp
  note r = run_of [OF f]
  have "tr_Currency ?q \<noteq> CurrencyETB"
    using CheckTransferAllowed_abroad [OF r] by (simp add: check_req_def)
  then show ?thesis using f by (simp add: Let_def)
qed

lemma limit_unreadable:
  assumes "w_cache w (rules_key key) = None" "\<not> e_db_ok E (w_dbn w)"
  shows "with_limit E s key u c f w = (Inr (), w\<lparr>w_dbn := Suc (w_dbn w)\<rparr>)"
  using assms
  by (simp add: with_limit_def GetAmountLimit_def bestRule_def getEffectiveRules_def bindA_def tryA_def cacheGet_def
      cache_Get_def rule_ListEffectiveByKey_def dbA_def retA_def Let_def)

text \<open>The gate fails open: while the rules are not cached and the database does not answer, every
  peer-to-peer transfer passes, whatever its amount and whatever was sent before.\<close>

lemma CheckTransferAllowed_fails_open:
  assumes "w_cache w (rules_key ''daily_transfer_limit'') = None" "\<not> e_db_ok E (w_dbn w)"
    and "tr_Direction req = ''p2p''" "tr_Purpose req \<notin> {''medical'', ''education'', ''investment''}"
  shows "fst (CheckTransferAllowed E s req w) = Inr ()"
  using assms limit_unreadable [OF assms(1,2)]
  by (simp add: CheckTransferAllowed_def bindA_def whenA_def retA_def)

lemma CheckTransferAllowed_fails_open_witness:
  "fst (CheckTransferAllowed (ok_env\<lparr>e_db_ok := (\<lambda>n. False)\<rparr>) eur_rates (check_req ''p2p'' (10 ^ 15) ''ETB'' ''domestic'')
     (rules_world [rule0 ''daily_transfer_limit'' RuleScopeGlobal '''' ''5000''] [])) = Inr ()"
  by (rule CheckTransferAllowed_fails_open)
    (simp_all add: rules_world_def empty_world_def NewMemoryCache_def ok_env_def check_req_def)

text \<open>The monthly remittance cap only counts what was sent in US dollars: a user who has already
  sent ninety times the cap in euros this month still passes the gate.\<close>

theorem monthly_cap_ignores_other_currencies:
  "fst (CheckTransferAllowed ok_env eur_rates (check_req ''outbound'' 3000 ''USD'' ''domestic'')
     (rules_world [rule0 ''outbound_remittance_monthly_cap'' RuleScopeGlobal '''' ''10000'']
       [\<lparr>tt_UserID = ''ua'', tt_Currency = ''EUR'', tt_Direction = ''outbound'', tt_Date = day_of 1000,
         tt_TotalCents = 900000, tt_TxCount = 3\<rparr>])) = Inr ()"
  by code_simp

end
