(* ===== verification/Payments.thy ===== *)
theory Payments
  imports Validate Recipient Regulatory Overdraft Reads
begin

text \<open>
  \<open>internal/services/payments\<close>: peer-to-peer, batch and outbound transfers. The optional collaborators
  of the service (\<open>nil\<close> in the source) are flags; the national switch EthSwitch is a parameter. Wrapped
  errors are the errors they wrap.
\<close>

section \<open>Requests\<close>

record OutboundTransferRequest =
  ob_AmountCents :: int
  ob_Currency :: string
  ob_DestPhone :: PhoneNumber
  ob_DestInstitution :: string
  ob_Narration :: string
  ob_Purpose :: string
  ob_Destination :: string
  ob_BeneficiaryID :: string

definition outbound_Validate :: "env \<Rightarrow> OutboundTransferRequest \<Rightarrow> go_error + unit" where
  "outbound_Validate E r =
     (case Struct E [(FInt (ob_AmountCents r), [''required'', ''gt=0'']), (FStr (ob_Currency r), [''required'', ''currency'']),
        (FPhone (ob_DestPhone r), [''required'']), (FStr (ob_DestInstitution r), [''required'']),
        (FStr (ob_Narration r), [''required''])] of
        Inl e \<Rightarrow> Inl e
      | Inr _ \<Rightarrow> ValidateAmountCents (ob_AmountCents r))"

record InboundTransferRequest =
  ib_Recipient :: string
  ib_RecipientPhone :: PhoneNumber
  ib_AmountCents :: int
  ib_Currency :: string
  ib_Narration :: string
  ib_Purpose :: string

definition validateRecipient :: "env \<Rightarrow> InboundTransferRequest \<Rightarrow> go_error + unit" where
  "validateRecipient E r =
     (if ib_Recipient r = '''' \<and> phone_IsZero (ib_RecipientPhone r) then Inl (General ErrInvalidInput)
      else if ib_Recipient r \<noteq> '''' then
        (case phone_Parse (e_phone E) (ib_Recipient r) of
           Inr _ \<Rightarrow> Inr ()
         | Inl _ \<Rightarrow> if length (ib_Recipient r) < 3 \<or> length (ib_Recipient r) > 30 then Inl (General ErrInvalidInput)
             else Inr ())
      else if \<not> phone_IsValid (e_phone E) (ib_RecipientPhone r) then Inl (General ErrInvalidInput)
      else Inr ())"

definition inbound_Validate :: "env \<Rightarrow> InboundTransferRequest \<Rightarrow> go_error + unit" where
  "inbound_Validate E r =
     (case Struct E [(FInt (ib_AmountCents r), [''required'', ''gt=0'']), (FStr (ib_Currency r), [''required'', ''currency'']),
        (FStr (ib_Narration r), [''required''])] of
        Inl e \<Rightarrow> Inl e
      | Inr _ \<Rightarrow> (case ValidateAmountCents (ib_AmountCents r) of Inl e \<Rightarrow> Inl e | Inr _ \<Rightarrow> validateRecipient E r))"

record BatchTransferItem =
  bi_Recipient :: string
  bi_AmountCents :: int
  bi_Narration :: string

record BatchTransferRequest =
  bt_Currency :: string
  bt_Items :: "BatchTransferItem list"

definition norm_recipient :: "env \<Rightarrow> string \<Rightarrow> string" where
  "norm_recipient E s = (case phone_Parse (e_phone E) s of Inr p \<Rightarrow> E164 (e_phone E) p | Inl _ \<Rightarrow> s)"

fun validate_items :: "env \<Rightarrow> string list \<Rightarrow> BatchTransferItem list \<Rightarrow> go_error + unit" where
  "validate_items E seen [] = Inr ()"
| "validate_items E seen (item # items) =
     (case ValidateAmountCents (bi_AmountCents item) of
        Inl e \<Rightarrow> Inl e
      | Inr _ \<Rightarrow>
          if norm_recipient E (bi_Recipient item) \<in> set seen then Inl (General ErrInvalidInput)
          else validate_items E (norm_recipient E (bi_Recipient item) # seen) items)"

text \<open>Without \<open>dive\<close> the validator does not look into the items.\<close>

definition batch_Validate :: "env \<Rightarrow> BatchTransferRequest \<Rightarrow> go_error + unit" where
  "batch_Validate E r =
     (case Struct E [(FStr (bt_Currency r), [''required'', ''currency'']),
        (FLen (length (bt_Items r)), [''required'', ''min=2'', ''max=10''])] of
        Inl e \<Rightarrow> Inl e
      | Inr _ \<Rightarrow> validate_items E [] (bt_Items r))"

definition TotalCents :: "BatchTransferRequest \<Rightarrow> int" where
  "TotalCents r = foldl (\<lambda>t item. i64 (t + bi_AmountCents item)) 0 (bt_Items r)"

record BatchTransferResponse =
  bs_Status :: string
  bs_ReceiptID :: string
  bs_RecipientCount :: int
  bs_TotalCents :: int
  bs_Currency :: string

section \<open>The service\<close>

record 'l payments =
  pm_chart :: Chart
  pm_regulatory :: "'l regulatory option"
  pm_totals :: bool
  pm_recipients :: bool
  pm_overdraft :: bool

record TransferRequest =
  sw_IdempotencyKey :: string
  sw_SourceInstitution :: string
  sw_DestInstitution :: string
  sw_SourceAccount :: string
  sw_DestinationAccount :: string
  sw_AmountCents :: int
  sw_Currency :: string
  sw_Narration :: string

record TransferResponse =
  sr_Status :: string
  sr_EthSwitchReference :: string
  sr_ErrorMessage :: string

definition overdraftErrOrInsufficientFunds :: "go_error \<Rightarrow> go_error" where
  "overdraftErrOrInsufficientFunds e =
     (if errors_Is e (Overdrafts ErrOverdraftNotActive) \<or> errors_Is e (Overdrafts ErrOverdraftNotEligible)
        \<or> errors_Is e (Overdrafts ErrOverdraftLimitExceeded) \<or> errors_Is e (Overdrafts ErrOverdraftETBOnly)
      then e else Financial ErrInsufficientFunds)"

text \<open>\<open>retryLedgerOp\<close>: the loop over the backoff delays. Waiting advances the clock; a context that is
  cancelled while waiting ends the loop.\<close>

definition context_canceled :: go_error where "context_canceled = Opaque ''context canceled''"

fun retry_loop :: "env \<Rightarrow> ('l, unit) go \<Rightarrow> int list \<Rightarrow> go_error \<Rightarrow> ('l, unit) go" where
  "retry_loop E op [] lastErr = throwA lastErr"
| "retry_loop E op (delay # ds) lastErr =
     bindA (tryA op) (\<lambda>r.
     case r of
       Inr _ \<Rightarrow> retA ()
     | Inl e \<Rightarrow> bindA nowA (\<lambda>now.
         if e_cancelled E (now + delay) then throwA context_canceled
         else bindA (modifyA (\<lambda>w. w\<lparr>w_now := now + delay\<rparr>)) (\<lambda>_. retry_loop E op ds e)))"

definition retryLedgerOp :: "env \<Rightarrow> ('l, unit) go \<Rightarrow> ('l, unit) go" where
  "retryLedgerOp E op = retry_loop E op [second, 2 * second, 4 * second] (Opaque '''')"

text \<open>The regulatory gate with its audit entry, common to the two single transfers.\<close>

definition check_regulatory :: "env \<Rightarrow> 'l payments \<Rightarrow> TransferCheckRequest \<Rightarrow> ('l, unit) go" where
  "check_regulatory E s req =
     (case pm_regulatory s of
        None \<Rightarrow> retA ()
      | Some rg \<Rightarrow> bindA (tryA (CheckTransferAllowed E rg req)) (\<lambda>r.
          case r of
            Inr _ \<Rightarrow> retA ()
          | Inl e \<Rightarrow> bindA (ignoreA (audit_Log E (audit_entry ''transfer_blocked'' ''system'' (Some (tr_UserID req))
              ''transfer'' (tr_Direction req)))) (\<lambda>_. throwA e)))"

text \<open>The checks before a transfer; the sender they return is who pays.\<close>

definition outbound_sender :: "env \<Rightarrow> 'l payments \<Rightarrow> string \<Rightarrow> OutboundTransferRequest \<Rightarrow> ('l, User) go" where
  "outbound_sender E s userID req =
     bindA (liftE (outbound_Validate E req)) (\<lambda>_.
     bindA (user_GetByID E userID) (\<lambda>user.
     if u_IsFrozen user then throwA (Identity ErrUserFrozen) else
     bindA (check_regulatory E s \<lparr>tr_UserID = userID, tr_User = user, tr_Direction = ''outbound'',
       tr_AmountCents = ob_AmountCents req, tr_Currency = ob_Currency req, tr_Purpose = ob_Purpose req,
       tr_Destination = ob_Destination req\<rparr>) (\<lambda>_.
     retA user)))"

text \<open>The three phases: hold, transmit, then settle, void or leave pending.\<close>

definition switch_request :: "env \<Rightarrow> OutboundTransferRequest \<Rightarrow> User \<Rightarrow> string \<Rightarrow> TransferRequest" where
  "switch_request E req user idempotencyKey =
     \<lparr>sw_IdempotencyKey = idempotencyKey, sw_SourceInstitution = ''NEOBANK'',
      sw_DestInstitution = ob_DestInstitution req, sw_SourceAccount = u_LedgerWalletID user,
      sw_DestinationAccount = E164 (e_phone E) (ob_DestPhone req), sw_AmountCents = ob_AmountCents req,
      sw_Currency = ob_Currency req, sw_Narration = ob_Narration req\<rparr>"

text \<open>What follows a settled hold: receipt, audit, totals and the address book.\<close>

definition outbound_finish ::
    "env \<Rightarrow> 'l payments \<Rightarrow> string \<Rightarrow> OutboundTransferRequest \<Rightarrow> string \<Rightarrow> string \<Rightarrow> TransferResponse \<Rightarrow> ('l, unit) go" where
  "outbound_finish E s userID req idempotencyKey holdID resp =
     bindA (ignoreA (receipt_Create E (receipt0\<lparr>rc_UserID := userID, rc_LedgerTransactionID := holdID,
       rc_EthSwitchReference := Some (sr_EthSwitchReference resp), rc_IdempotencyKey := Some idempotencyKey,
       rc_Type := ReceiptEthSwitchOut, rc_Status := ReceiptCompleted, rc_AmountCents := ob_AmountCents req,
       rc_Currency := ob_Currency req, rc_CounterpartyPhone := Some (ob_DestPhone req),
       rc_Narration := Some (ob_Narration req), rc_Purpose := non_empty (ob_Purpose req),
       rc_BeneficiaryID := non_empty (ob_BeneficiaryID req)\<rparr>))) (\<lambda>_.
     bindA (ignoreA (audit_Log E (audit_entry ''transfer_settled'' ''system'' None ''transfer'' holdID))) (\<lambda>_.
     bindA (whenA (pm_totals s) (ignoreA (totals_Increment E userID (ob_Currency req) ''outbound'' (ob_AmountCents req)))) (\<lambda>_.
     whenA (pm_recipients s) (SaveFromTransferFireAndForget E userID
       \<lparr>tc_Type = RecipientBankAccount, tc_DisplayName = E164 (e_phone E) (ob_DestPhone req), tc_NeoUserID = '''',
        tc_CountryCode = '''', tc_Number = '''', tc_Username = '''', tc_InstitutionCode = ob_DestInstitution req,
        tc_AccountNumber = E164 (e_phone E) (ob_DestPhone req)\<rparr> (ob_Currency req)))))"

definition outbound_move ::
    "env \<Rightarrow> 'l Client \<Rightarrow> 'l payments \<Rightarrow> (TransferRequest \<Rightarrow> go_error + TransferResponse) \<Rightarrow> string
      \<Rightarrow> OutboundTransferRequest \<Rightarrow> User \<Rightarrow> ('l, unit) go" where
  "outbound_move E L s InitiateTransfer userID req user =
     bindA (newID E) (\<lambda>idempotencyKey.
     bindA (ledA (HoldFunds L (idempotencyKey @ ''-hold'') (u_LedgerWalletID user) (TransitEthSwitch (pm_chart s))
       (ob_AmountCents req) (FormatAsset [ob_Currency req]))) (\<lambda>holdID.
     bindA (ignoreA (audit_Log E (audit_entry ''transfer_initiated'' ''user'' (Some userID) ''transfer'' holdID))) (\<lambda>_.
     case InitiateTransfer (switch_request E req user idempotencyKey) of
       Inl e \<Rightarrow>
         bindA (ignoreA (audit_Log E (audit_entry ''transfer_failed'' ''system'' None ''transfer'' holdID))) (\<lambda>_.
         throwA (External ErrEthSwitchTimeout))
     | Inr resp \<Rightarrow>
         if sr_Status resp = ''SUCCESS'' then
           bindA (retryLedgerOp E (ledA (SettleHold L (idempotencyKey @ ''-settle'') holdID))) (\<lambda>_.
           outbound_finish E s userID req idempotencyKey holdID resp)
         else
           bindA (retryLedgerOp E (ledA (VoidHold L (idempotencyKey @ ''-void'') holdID))) (\<lambda>_.
           bindA (ignoreA (audit_Log E (audit_entry ''transfer_voided'' ''system'' None ''transfer'' holdID))) (\<lambda>_.
           throwA (Opaque (''transfer failed: '' @ sr_ErrorMessage resp)))))))"

definition ProcessOutboundTransfer ::
    "env \<Rightarrow> 'l Client \<Rightarrow> 'l payments \<Rightarrow> (TransferRequest \<Rightarrow> go_error + TransferResponse) \<Rightarrow> string
      \<Rightarrow> OutboundTransferRequest \<Rightarrow> ('l, unit) go" where
  "ProcessOutboundTransfer E L s InitiateTransfer userID req =
     bindA (outbound_sender E s userID req) (outbound_move E L s InitiateTransfer userID req)"

definition resolveRecipient :: "env \<Rightarrow> InboundTransferRequest \<Rightarrow> ('l, User) go" where
  "resolveRecipient E req =
     (if ib_Recipient req \<noteq> '''' then
        (case phone_Parse (e_phone E) (ib_Recipient req) of
           Inr p \<Rightarrow> user_GetByPhone E p
         | Inl _ \<Rightarrow> user_GetByUsername E (ib_Recipient req))
      else if \<not> phone_IsZero (ib_RecipientPhone req) then user_GetByPhone E (ib_RecipientPhone req)
      else throwA (Identity ErrUserNotFound))"

text \<open>The balance check before a debit: the overdraft covers a shortfall in ETB.\<close>

definition cover_shortfall ::
    "env \<Rightarrow> 'l Client \<Rightarrow> 'l payments \<Rightarrow> string \<Rightarrow> User \<Rightarrow> string \<Rightarrow> string \<Rightarrow> int \<Rightarrow> ('l, unit) go" where
  "cover_shortfall E L s senderID sender ik currency need =
     (let asset = FormatAsset [currency] in
      bindA (ledA (GetWalletBalance L (u_LedgerWalletID sender) asset)) (\<lambda>balance.
      if i64 balance < need then
        (if currency = CurrencyETB \<and> pm_overdraft s then
           mapErrA overdraftErrOrInsufficientFunds
             (UseCover E L senderID (u_LedgerWalletID sender) ik (i64 (need - i64 balance)) asset)
         else throwA (Financial ErrInsufficientFunds))
      else retA ()))"

text \<open>The automatic repayment of the recipient's overdraft and the metadata it leaves on the receipt.\<close>

definition repay_recipient ::
    "env \<Rightarrow> 'l Client \<Rightarrow> 'l payments \<Rightarrow> User \<Rightarrow> string \<Rightarrow> string \<Rightarrow> int \<Rightarrow> ('l, receipt_metadata option) go" where
  "repay_recipient E L s recipient ik currency amount =
     (if currency = CurrencyETB \<and> pm_overdraft s then
        bindA (tryA (AutoRepayOnInflow E L (u_ID recipient) (u_LedgerWalletID recipient) ik amount)) (\<lambda>r.
        case r of
          Inl _ \<Rightarrow> retA None
        | Inr repayCents \<Rightarrow> retA (if repayCents > 0 then Some (MetaInflowOverdraft \<lparr>io_TotalInflowCents = amount,
            io_OverdraftRepaymentCents = repayCents, io_NetInflowCents = i64 (amount - repayCents)\<rparr>) else None))
      else retA None)"

definition neo_counterparty :: "User \<Rightarrow> TransferCounterparty" where
  "neo_counterparty u = \<lparr>tc_Type = RecipientNeoUser, tc_DisplayName = FullName u, tc_NeoUserID = u_ID u,
     tc_CountryCode = CountryCode (u_PhoneNumber u), tc_Number = Number (u_PhoneNumber u),
     tc_Username = (case u_Username u of None \<Rightarrow> '''' | Some n \<Rightarrow> n), tc_InstitutionCode = '''', tc_AccountNumber = ''''\<rparr>"

definition p2p_parties :: "env \<Rightarrow> 'l payments \<Rightarrow> string \<Rightarrow> InboundTransferRequest \<Rightarrow> ('l, User \<times> User) go" where
  "p2p_parties E s senderID req =
     bindA (liftE (inbound_Validate E req)) (\<lambda>_.
     bindA (user_GetByID E senderID) (\<lambda>sender.
     if u_IsFrozen sender then throwA (Identity ErrUserFrozen) else
     bindA (check_regulatory E s \<lparr>tr_UserID = senderID, tr_User = sender, tr_Direction = ''p2p'',
       tr_AmountCents = ib_AmountCents req, tr_Currency = ib_Currency req, tr_Purpose = ib_Purpose req,
       tr_Destination = ''domestic''\<rparr>) (\<lambda>_.
     bindA (mapErrA (\<lambda>_. Identity ErrUserNotFound) (resolveRecipient E req)) (\<lambda>recipient.
     if u_IsFrozen recipient then throwA (Identity ErrUserFrozen) else
     if u_ID sender = u_ID recipient then throwA (General ErrInvalidInput) else
     retA (sender, recipient)))))"

text \<open>What follows the debit: receipts, the recipient's repayment, audit, totals and the address book.\<close>

definition p2p_finish ::
    "env \<Rightarrow> 'l Client \<Rightarrow> 'l payments \<Rightarrow> string \<Rightarrow> InboundTransferRequest \<Rightarrow> User \<Rightarrow> User \<Rightarrow> string \<Rightarrow> ('l, unit) go" where
  "p2p_finish E L s senderID req sender recipient idempotencyKey =
     bindA (ignoreA (receipt_Create E (receipt0\<lparr>rc_UserID := senderID, rc_LedgerTransactionID := idempotencyKey,
       rc_IdempotencyKey := Some idempotencyKey, rc_Type := ReceiptP2PSend, rc_Status := ReceiptCompleted,
       rc_AmountCents := ib_AmountCents req, rc_Currency := ib_Currency req,
       rc_CounterpartyPhone := Some (u_PhoneNumber recipient), rc_Narration := Some (ib_Narration req)\<rparr>))) (\<lambda>_.
     bindA (repay_recipient E L s recipient (idempotencyKey @ ''-od-repay'') (ib_Currency req) (ib_AmountCents req)) (\<lambda>meta.
     bindA (ignoreA (receipt_Create E (receipt0\<lparr>rc_UserID := u_ID recipient, rc_LedgerTransactionID := idempotencyKey @ ''-in'',
       rc_IdempotencyKey := Some idempotencyKey, rc_Type := ReceiptP2PReceive, rc_Status := ReceiptCompleted,
       rc_AmountCents := ib_AmountCents req, rc_Currency := ib_Currency req,
       rc_CounterpartyPhone := Some (u_PhoneNumber sender), rc_Narration := Some (ib_Narration req), rc_Metadata := meta\<rparr>))) (\<lambda>_.
     bindA (ignoreA (audit_Log E (audit_entry ''p2p_transfer'' ''user'' (Some senderID) ''transfer'' idempotencyKey))) (\<lambda>_.
     bindA (whenA (pm_totals s) (ignoreA (totals_Increment E senderID (ib_Currency req) ''p2p'' (ib_AmountCents req)))) (\<lambda>_.
     whenA (pm_recipients s) (SaveFromTransferFireAndForget E senderID (neo_counterparty recipient) (ib_Currency req)))))))"

definition p2p_move ::
    "env \<Rightarrow> 'l Client \<Rightarrow> 'l payments \<Rightarrow> string \<Rightarrow> InboundTransferRequest \<Rightarrow> User \<Rightarrow> User \<Rightarrow> ('l, unit) go" where
  "p2p_move E L s senderID req sender recipient =
     bindA (newID E) (\<lambda>idempotencyKey.
     bindA (cover_shortfall E L s senderID sender (idempotencyKey @ ''-od'') (ib_Currency req) (ib_AmountCents req)) (\<lambda>_.
     bindA (ledA (DebitWallet L (idempotencyKey @ ''-debit'') (u_LedgerWalletID sender) (ib_AmountCents req)
       (FormatAsset [ib_Currency req]) (MainAccount (pm_chart s) (u_LedgerWalletID recipient)) False)) (\<lambda>_.
     p2p_finish E L s senderID req sender recipient idempotencyKey)))"

definition ProcessInboundTransfer ::
    "env \<Rightarrow> 'l Client \<Rightarrow> 'l payments \<Rightarrow> string \<Rightarrow> InboundTransferRequest \<Rightarrow> ('l, unit) go" where
  "ProcessInboundTransfer E L s senderID req =
     bindA (p2p_parties E s senderID req) (\<lambda>(sender, recipient). p2p_move E L s senderID req sender recipient)"

definition resolveBatchRecipient :: "env \<Rightarrow> string \<Rightarrow> ('l, User) go" where
  "resolveBatchRecipient E identifier =
     (if e_is_uuid E identifier then user_GetByID E identifier
      else case phone_Parse (e_phone E) identifier of
        Inr p \<Rightarrow> user_GetByPhone E p
      | Inl _ \<Rightarrow> user_GetByUsername E identifier)"

definition resolve_item :: "env \<Rightarrow> string \<Rightarrow> BatchTransferItem \<Rightarrow> ('l, User \<times> BatchTransferItem) go" where
  "resolve_item E senderID item =
     bindA (mapErrA (\<lambda>_. Identity ErrUserNotFound) (resolveBatchRecipient E (bi_Recipient item))) (\<lambda>user.
     if u_IsFrozen user then throwA (Identity ErrUserFrozen)
     else if u_ID user = senderID then throwA (General ErrInvalidInput)
     else retA (user, item))"

text \<open>One round of the loop over the resolved recipients.\<close>

definition batch_item ::
    "env \<Rightarrow> 'l Client \<Rightarrow> 'l payments \<Rightarrow> string \<Rightarrow> User \<Rightarrow> string \<Rightarrow> string \<Rightarrow> nat \<Rightarrow> User \<times> BatchTransferItem
      \<Rightarrow> ('l, BatchSendRecipient) go" where
  "batch_item E L s senderID sender batchKey currency i = (\<lambda>(user, item).
     let ik = batchKey @ ''-'' @ show_nat i in
     bindA (ledA (DebitWallet L (ik @ ''-debit'') (u_LedgerWalletID sender) (bi_AmountCents item) (FormatAsset [currency])
       (MainAccount (pm_chart s) (u_LedgerWalletID user)) False)) (\<lambda>_.
     bindA (repay_recipient E L s user (ik @ ''-od-repay'') currency (bi_AmountCents item)) (\<lambda>meta.
     bindA (ignoreA (receipt_Create E (receipt0\<lparr>rc_UserID := u_ID user, rc_LedgerTransactionID := ik @ ''-in'',
       rc_Type := ReceiptP2PReceive, rc_Status := ReceiptCompleted, rc_AmountCents := bi_AmountCents item,
       rc_Currency := currency, rc_CounterpartyPhone := Some (u_PhoneNumber sender),
       rc_Narration := Some (bi_Narration item), rc_Metadata := meta\<rparr>))) (\<lambda>_.
     bindA (whenA (pm_recipients s) (SaveFromTransferFireAndForget E senderID (neo_counterparty user) currency)) (\<lambda>_.
     retA \<lparr>br_Name = FullName user, br_Phone = E164 (e_phone E) (u_PhoneNumber user), br_UserID = u_ID user,
       br_AmountCents = bi_AmountCents item, br_Narration = bi_Narration item\<rparr>)))))"

fun batch_loop ::
    "env \<Rightarrow> 'l Client \<Rightarrow> 'l payments \<Rightarrow> string \<Rightarrow> User \<Rightarrow> string \<Rightarrow> string \<Rightarrow> nat \<Rightarrow> (User \<times> BatchTransferItem) list
      \<Rightarrow> ('l, BatchSendRecipient list) go" where
  "batch_loop E L s senderID sender batchKey currency i [] = retA []"
| "batch_loop E L s senderID sender batchKey currency i (r # rs) =
     bindA (batch_item E L s senderID sender batchKey currency i r) (\<lambda>m.
     bindA (batch_loop E L s senderID sender batchKey currency (Suc i) rs) (\<lambda>ms. retA (m # ms)))"

definition batch_parties ::
    "env \<Rightarrow> string \<Rightarrow> BatchTransferRequest \<Rightarrow> ('l, User \<times> (User \<times> BatchTransferItem) list) go" where
  "batch_parties E senderID req =
     bindA (liftE (batch_Validate E req)) (\<lambda>_.
     bindA (user_GetByID E senderID) (\<lambda>sender.
     if u_IsFrozen sender then throwA (Identity ErrUserFrozen) else
     bindA (mapA (resolve_item E senderID) (bt_Items req)) (\<lambda>recipients.
     retA (sender, recipients))))"

definition batch_move ::
    "env \<Rightarrow> 'l Client \<Rightarrow> 'l payments \<Rightarrow> string \<Rightarrow> BatchTransferRequest \<Rightarrow> User \<Rightarrow> (User \<times> BatchTransferItem) list
      \<Rightarrow> ('l, BatchTransferResponse) go" where
  "batch_move E L s senderID req sender recipients =
     bindA (newID E) (\<lambda>batchKey.
     bindA (cover_shortfall E L s senderID sender (batchKey @ ''-od'') (bt_Currency req) (TotalCents req)) (\<lambda>_.
     bindA (batch_loop E L s senderID sender batchKey (bt_Currency req) 0 recipients) (\<lambda>metaRecipients.
     bindA (tryA (receipt_Create E (receipt0\<lparr>rc_UserID := senderID, rc_LedgerTransactionID := batchKey,
       rc_IdempotencyKey := Some batchKey, rc_Type := ReceiptBatchSend, rc_Status := ReceiptCompleted,
       rc_AmountCents := TotalCents req, rc_Currency := bt_Currency req,
       rc_Metadata := Some (MetaBatchSend metaRecipients)\<rparr>))) (\<lambda>r.
     bindA (ignoreA (audit_Log E (audit_entry ''p2p_transfer'' ''user'' (Some senderID) ''transfer'' batchKey))) (\<lambda>_.
     bindA (whenA (pm_totals s) (ignoreA (totals_Increment E senderID (bt_Currency req) ''p2p'' (TotalCents req)))) (\<lambda>_.
     retA \<lparr>bs_Status = ''completed'', bs_ReceiptID = (case r of Inl _ \<Rightarrow> '''' | Inr i \<Rightarrow> i),
       bs_RecipientCount = int (length recipients), bs_TotalCents = TotalCents req, bs_Currency = bt_Currency req\<rparr>))))))"

definition ProcessBatchTransfer ::
    "env \<Rightarrow> 'l Client \<Rightarrow> 'l payments \<Rightarrow> string \<Rightarrow> BatchTransferRequest \<Rightarrow> ('l, BatchTransferResponse) go" where
  "ProcessBatchTransfer E L s senderID req =
     bindA (batch_parties E senderID req) (\<lambda>(sender, recipients). batch_move E L s senderID req sender recipients)"

text \<open>Evaluation unfolds an action only when it runs.\<close>

lemmas payments_code [code] =
  retryLedgerOp_def [THEN fun_cong]
  check_regulatory_def [THEN fun_cong]
  outbound_sender_def [THEN fun_cong]
  outbound_finish_def [THEN fun_cong]
  outbound_move_def [THEN fun_cong]
  ProcessOutboundTransfer_def [THEN fun_cong]
  resolveRecipient_def [THEN fun_cong]
  cover_shortfall_def [THEN fun_cong]
  repay_recipient_def [THEN fun_cong]
  p2p_parties_def [THEN fun_cong]
  p2p_finish_def [THEN fun_cong]
  p2p_move_def [THEN fun_cong]
  ProcessInboundTransfer_def [THEN fun_cong]
  resolveBatchRecipient_def [THEN fun_cong]
  resolve_item_def [THEN fun_cong]
  batch_item_def [THEN fun_cong]
  batch_parties_def [THEN fun_cong]
  batch_move_def [THEN fun_cong]
  ProcessBatchTransfer_def [THEN fun_cong]

section \<open>What the pieces post\<close>

text \<open>The postings of a cover, of an automatic repayment and of the balance check.\<close>

definition cover_posting :: "Chart \<Rightarrow> string \<Rightarrow> int \<Rightarrow> string \<Rightarrow> Posting" where
  "cover_posting c wid n a = P (SystemOverdraftCapital c) (MainAccount c wid) n a"

definition repay_postings :: "Chart \<Rightarrow> string \<Rightarrow> int \<Rightarrow> Posting list" where
  "repay_postings c wid m = (if m = 0 then [] else [P (MainAccount c wid) (SystemOverdraftCapital c) m assetETB])"

definition shortfall_postings :: "Chart \<Rightarrow> lview \<Rightarrow> string \<Rightarrow> int \<Rightarrow> string \<Rightarrow> Posting list" where
  "shortfall_postings c v wid need a =
     (let b = lv_bal v (MainAccount c wid) a
      in if i64 b < need then [cover_posting c wid (i64 (need - i64 b)) a] else [])"

definition repays :: "Chart \<Rightarrow> string \<Rightarrow> int \<Rightarrow> Posting list \<Rightarrow> bool" where
  "repays c wid n ps \<longleftrightarrow> (\<exists>m. 0 \<le> m \<and> m \<le> max 0 n \<and> ps = repay_postings c wid m)"

lemma repays_intros [simp]:
  "repays c wid n []" "0 < m \<Longrightarrow> m \<le> n \<Longrightarrow> repays c wid n [P (MainAccount c wid) (SystemOverdraftCapital c) m assetETB]"
proof -
  show "repays c wid n []" unfolding repays_def repay_postings_def by (rule exI [of _ 0]) simp
  show "0 < m \<Longrightarrow> m \<le> n \<Longrightarrow> repays c wid n [P (MainAccount c wid) (SystemOverdraftCapital c) m assetETB]"
    unfolding repays_def repay_postings_def by (rule exI [of _ m]) simp
qed

lemma calm_Overdraft_split [calms]: "(\<And>a b c. calm (k a b c)) \<Longrightarrow> calm (case z of (a, b, c) \<Rightarrow> k a b c)"
  by (cases z) simp

context ledger_client
begin

lemma posts_UseCover:
  "postsA view {ik} (UseCover E L uid wid ik n a) (\<lambda>v r ps.
     case r of Inr _ \<Rightarrow> ps = [cover_posting c wid n a] | Inl _ \<Rightarrow> ps = [] \<or> ps = [cover_posting c wid n a])"
  unfolding UseCover_def Let_def cover_posting_def
  by (rule posts_throw posts_ret posts_if posts_option posts_bind_calm [OF posts_write [OF overdraft_credit]]
      | (rule posts_calm_bind, (rule calms)+)[1] | (rule calms)+ | simp split: sum.splits)+

lemma posts_AutoRepay: "postsA view {ik} (AutoRepayOnInflow E L uid wid ik n) (\<lambda>v r ps. repays c wid n ps)"
  unfolding AutoRepayOnInflow_def Let_def
  by (rule posts_throw posts_ret posts_if posts_option posts_bind_calm [OF posts_write [OF overdraft_debit]]
      | (rule posts_calm_bind, (rule calms)+)[1] | (rule calms)+ | simp split: sum.splits)+

lemma posts_cover:
  "postsA view {ik} (cover_shortfall E L s uid sender ik cur need) (\<lambda>v r ps.
     case r of
       Inr _ \<Rightarrow> ps = shortfall_postings c v (u_LedgerWalletID sender) need (FormatAsset [cur])
     | Inl _ \<Rightarrow> ps = [] \<or> ps = shortfall_postings c v (u_LedgerWalletID sender) need (FormatAsset [cur]))"
proof -
  let ?a = "FormatAsset [cur]" and ?wid = "u_LedgerWalletID sender"
  let ?P = "\<lambda>n. cover_posting c ?wid (i64 (need - i64 n)) ?a"
  have k: "postsA view {ik} (if i64 n < need then
        (if cur = CurrencyETB \<and> pm_overdraft s then mapErrA overdraftErrOrInsufficientFunds
           (UseCover E L uid ?wid ik (i64 (need - i64 n)) ?a)
         else throwA (Financial ErrInsufficientFunds))
      else retA ()) (\<lambda>v r ps. case r of Inr _ \<Rightarrow> ps = (if i64 n < need then [?P n] else [])
        | Inl _ \<Rightarrow> ps = [] \<or> ps = (if i64 n < need then [?P n] else []))" for n
    by (rule posts_throw posts_ret posts_if posts_mapErr [OF posts_UseCover] | simp split: sum.splits)+
  show ?thesis
    unfolding cover_shortfall_def Let_def
    by (rule posts_balance [OF k]) (auto simp: shortfall_postings_def Let_def split: sum.splits if_splits)
qed

lemma posts_repay:
  "postsA view {ik} (repay_recipient E L s u ik cur n) (\<lambda>v r ps. repays c (u_LedgerWalletID u) n ps \<and> (\<exists>x. r = Inr x))"
proof (rule posts_ok)
  show "postsA view {ik} (repay_recipient E L s u ik cur n) (\<lambda>v r ps. repays c (u_LedgerWalletID u) n ps)"
    unfolding repay_recipient_def
    by (rule posts_if posts_bind_calm [OF posts_try [OF posts_AutoRepay, where R = "\<lambda>v r ps. repays c (u_LedgerWalletID u) n ps"]]
        posts_ret | (rule calms)+ | simp)+
  show "okA (repay_recipient E L s u ik cur n)"
    unfolding repay_recipient_def by (rule oks)+
qed

end

text \<open>What a peer-to-peer transfer posts: the cover of a shortfall, the transfer itself, and the repayment
  of the recipient's overdraft; a failed one posts at most the cover.\<close>

definition p2p_postings :: "Chart \<Rightarrow> string \<Rightarrow> string \<Rightarrow> int \<Rightarrow> string \<Rightarrow> lview \<Rightarrow> go_error + unit \<Rightarrow> Posting list \<Rightarrow> bool" where
  "p2p_postings c from to n a v r ps \<longleftrightarrow> (case r of
     Inr _ \<Rightarrow> (\<exists>qs. repays c to n qs \<and> ps = shortfall_postings c v from n a @ [P (MainAccount c from) (MainAccount c to) n a] @ qs)
   | Inl _ \<Rightarrow> ps = [] \<or> ps = shortfall_postings c v from n a)"

lemma ok_p2p_finish: "okA (p2p_finish E L s uid req sender recipient ik)"
  unfolding p2p_finish_def SaveFromTransferFireAndForget_def repay_recipient_def by (rule oks)+

lemma or_world_Main [simp]: "or_world (MainAccount c w) = MainAccount c w"
  by (simp add: or_world_def MainAccount_def)

context ledger_client
begin

lemma posts_p2p_finish:
  "postsA view {ik @ ''-od-repay''} (p2p_finish E L s uid req sender recipient ik) (\<lambda>v r ps.
     repays c (u_LedgerWalletID recipient) (ib_AmountCents req) ps \<and> (\<exists>x. r = Inr x))"
proof (rule posts_ok [OF _ ok_p2p_finish])
  show "postsA view {ik @ ''-od-repay''} (p2p_finish E L s uid req sender recipient ik)
      (\<lambda>v r ps. repays c (u_LedgerWalletID recipient) (ib_AmountCents req) ps)"
    unfolding p2p_finish_def
    by (rule posts_calm_bind, (rule calms)+, rule posts_bind_calm [OF posts_repay]) ((rule calms)+ | simp)+
qed

lemma posts_p2p_move:
  assumes "pm_chart s = c"
  shows "postsA view (uuid_keys E) (p2p_move E L s uid req sender recipient)
    (p2p_postings c (u_LedgerWalletID sender) (u_LedgerWalletID recipient) (ib_AmountCents req) (FormatAsset [ib_Currency req]))"
  unfolding p2p_move_def assms
proof (rule posts_newID, goal_cases)
  case (1 n)
  let ?ik = "e_uuid E n" and ?S = "u_LedgerWalletID sender" and ?R = "u_LedgerWalletID recipient"
  let ?n = "ib_AmountCents req" and ?a = "FormatAsset [ib_Currency req]"
  have "postsA view ({?ik @ ''-od''} \<union> ({?ik @ ''-debit''} \<union> {?ik @ ''-od-repay''}))
    (bindA (cover_shortfall E L s uid sender (?ik @ ''-od'') (ib_Currency req) ?n) (\<lambda>_.
     bindA (ledA (DebitWallet L (?ik @ ''-debit'') ?S ?n ?a (MainAccount c ?R) False)) (\<lambda>_.
     p2p_finish E L s uid req sender recipient ?ik))) (p2p_postings c ?S ?R ?n ?a)"
    by (rule posts_bind [OF posts_cover posts_bind [OF posts_write [OF debit] posts_p2p_finish, where S = "\<lambda>v r ps.
          case r of Inr _ \<Rightarrow> \<exists>qs. repays c ?R ?n qs \<and> ps = P (MainAccount c ?S) (MainAccount c ?R) ?n ?a # qs | Inl _ \<Rightarrow> ps = []"]])
      (auto simp: p2p_postings_def split: sum.splits)
  then show ?case by (rule posts_mono) auto
qed

end

section \<open>The checks before a transfer\<close>

definition rates_read :: "'l payments \<Rightarrow> bool" where
  "rates_read s \<longleftrightarrow> (\<forall>rg a b. pm_regulatory s = Some rg \<longrightarrow> readerA (rg_ratesFn rg a b))"

lemma reader_rules [readers]: "readerA (bestRule E s k u c)" "readerA (GetAmountLimit E s k u c)" "readerA (IsEnabled E s k u)"
  unfolding bestRule_def GetAmountLimit_def IsEnabled_def getEffectiveRules_def by (rule readers)+

lemma reader_CheckTransferAllowed:
  assumes "\<And>a b. readerA (rg_ratesFn s a b)"
  shows "readerA (CheckTransferAllowed E s req)"
proof -
  have [readers]: "readerA (usd_of n m)" for n m by (simp add: readerA_def usd_of_def)
  show ?thesis
    unfolding CheckTransferAllowed_def convertToUSD_def with_limit_def by (rule readers assms)+
qed

lemma calm_check:
  assumes "rates_read s"
  shows "calm (check_regulatory E s req)"
proof -
  have c: "calm (CheckTransferAllowed E rg req)" if "pm_regulatory s = Some rg" for rg
    using assms that by (intro reader_calm reader_CheckTransferAllowed) (simp add: rates_read_def)
  show ?thesis
  proof (cases "pm_regulatory s")
    case (Some rg)
    show ?thesis unfolding check_regulatory_def Some option.case by (rule calms c [OF Some])+
  qed (simp add: check_regulatory_def calms)
qed

lemma check_regulatory_run:
  assumes "rates_read s" "check_regulatory E s req w = (Inr u, w')"
  shows "stable w' = stable w"
proof (cases "pm_regulatory s")
  case (Some rg)
  then have rd: "readerA (CheckTransferAllowed E rg req)"
    using assms(1) by (intro reader_CheckTransferAllowed) (simp add: rates_read_def)
  obtain r w1 where c: "CheckTransferAllowed E rg req w = (r, w1)" by fastforce
  with assms(2) Some have "w' = w1" by (cases r) (auto simp: check_regulatory_def bindA_def tryA_def retA_def throwA_def ignoreA_def)
  then show ?thesis using readerD [OF rd c] by simp
qed (use assms in \<open>simp add: check_regulatory_def runs\<close>)

lemma resolveRecipient_run:
  assumes "resolveRecipient E req w = (Inr u, w')"
  shows "u \<in> set (w_users w)" "stable w' = stable w"
  using assms user_query_run [of E _ w u w'] select_one_Some
  unfolding resolveRecipient_def user_GetByPhone_def user_GetByUsername_def
  by (auto simp: runs split: if_splits sum.splits) fast+

lemma p2p_parties_run:
  assumes "rates_read s" "p2p_parties E s uid req w = (Inr (sender, recipient), w')"
  shows "stable w' = stable w" "sender \<in> set (w_users w)" "recipient \<in> set (w_users w)" "u_ID sender = uid"
    "u_ID recipient \<noteq> uid" "\<not> u_IsFrozen sender" "\<not> u_IsFrozen recipient" "0 < ib_AmountCents req"
proof -
  obtain w1 w2 where v: "inbound_Validate E req = Inr ()" and s: "user_GetByID E uid w = (Inr sender, w1)"
    and f: "\<not> u_IsFrozen sender"
    and c: "check_regulatory E s \<lparr>tr_UserID = uid, tr_User = sender, tr_Direction = ''p2p'',
       tr_AmountCents = ib_AmountCents req, tr_Currency = ib_Currency req, tr_Purpose = ib_Purpose req,
       tr_Destination = ''domestic''\<rparr> w1 = (Inr (), w2)"
    and r: "resolveRecipient E req w2 = (Inr recipient, w')" "\<not> u_IsFrozen recipient" "u_ID sender \<noteq> u_ID recipient"
    using assms(2) by (auto simp: p2p_parties_def runs)
  note st = user_GetByID_run(3) [OF s] check_regulatory_run [OF assms(1) c] resolveRecipient_run(2) [OF r(1)]
  show "stable w' = stable w" using st by simp
  show "sender \<in> set (w_users w)" "u_ID sender = uid" using user_GetByID_run [OF s] by simp_all
  show "recipient \<in> set (w_users w)"
    using resolveRecipient_run(1) [OF r(1)] st stable_fields(2) [of w2 w] by simp
  show "u_ID recipient \<noteq> uid" "\<not> u_IsFrozen sender" "\<not> u_IsFrozen recipient"
    using r f user_GetByID_run(2) [OF s] by auto
  show "0 < ib_AmountCents req"
    using v by (auto simp: inbound_Validate_def ValidateAmountCents_def split: sum.splits if_splits)
qed

lemma calm_users_query [calms]: "calm (resolveRecipient E req)"
  unfolding resolveRecipient_def by (rule calms)+

lemma calm_p2p_parties:
  assumes "rates_read s"
  shows "calm (p2p_parties E s uid req)"
  unfolding p2p_parties_def by (rule calms calm_check [OF assms])+

section \<open>Properties of peer-to-peer transfers\<close>

text \<open>C1: a peer-to-peer transfer that reports success moved the money: sender and recipient are two
  different registered users, neither frozen; the sender's wallet first received from the overdraft
  exactly what it lacked, if it lacked anything; then the amount went from the sender's wallet to the
  recipient's; and at most that amount went on to repay the recipient's own overdraft. Nothing else in
  the ledger changed.\<close>

theorem p2p_transfer_moves:
  assumes lc: "ledger_client L c view holdOf nexth" and s: "pm_chart s = c" "rates_read s"
    and run: "ProcessInboundTransfer E L s senderID req w = (Inr u, w')"
    and fresh: "uuid_keys E \<inter> lv_used (view (w_ledger w)) = {}"
  shows "\<exists>sender recipient m.
    sender \<in> set (w_users w) \<and> u_ID sender = senderID \<and> \<not> u_IsFrozen sender
    \<and> recipient \<in> set (w_users w) \<and> u_ID recipient \<noteq> senderID \<and> \<not> u_IsFrozen recipient
    \<and> 0 < ib_AmountCents req \<and> 0 \<le> m \<and> m \<le> ib_AmountCents req
    \<and> lv_bal (view (w_ledger w')) = apply_postings
        (shortfall_postings c (view (w_ledger w)) (u_LedgerWalletID sender) (ib_AmountCents req) (FormatAsset [ib_Currency req])
         @ [P (MainAccount c (u_LedgerWalletID sender)) (MainAccount c (u_LedgerWalletID recipient))
              (ib_AmountCents req) (FormatAsset [ib_Currency req])]
         @ repay_postings c (u_LedgerWalletID recipient) m) (lv_bal (view (w_ledger w)))"
proof -
  obtain sender recipient w1 where p: "p2p_parties E s senderID req w = (Inr (sender, recipient), w1)"
    and m: "p2p_move E L s senderID req sender recipient w1 = (Inr u, w')"
    using run by (auto simp: ProcessInboundTransfer_def runs)
  note party = p2p_parties_run [OF s(2) p]
  have l: "w_ledger w1 = w_ledger w" using stable_fields(1) [OF party(1)] .
  have "uuid_keys E \<inter> lv_used (view (w_ledger w1)) = {}" using fresh l by simp
  from postsD [OF ledger_client.posts_p2p_move [OF lc s(1)] this m]
  obtain ps where ps: "p2p_postings c (u_LedgerWalletID sender) (u_LedgerWalletID recipient) (ib_AmountCents req)
      (FormatAsset [ib_Currency req]) (view (w_ledger w1)) (Inr u) ps"
    and bal: "lv_bal (view (w_ledger w')) = apply_postings ps (lv_bal (view (w_ledger w1)))" .
  from ps obtain qs where "repays c (u_LedgerWalletID recipient) (ib_AmountCents req) qs"
    "ps = shortfall_postings c (view (w_ledger w)) (u_LedgerWalletID sender) (ib_AmountCents req) (FormatAsset [ib_Currency req])
         @ [P (MainAccount c (u_LedgerWalletID sender)) (MainAccount c (u_LedgerWalletID recipient))
              (ib_AmountCents req) (FormatAsset [ib_Currency req])] @ qs"
    by (auto simp: p2p_postings_def l)
  moreover from this(1) obtain m where "0 \<le> m" "m \<le> ib_AmountCents req" "qs = repay_postings c (u_LedgerWalletID recipient) m"
    using party(8) by (auto simp: repays_def)
  ultimately show ?thesis using party(2-8) bal l by (intro exI [of _ sender] exI [of _ recipient] exI [of _ m]) simp
qed


text \<open>Two users on the reference engine.\<close>

definition alice :: User where "alice = user0"

definition bob :: User where
  "bob = user0\<lparr>u_ID := ''ub'', u_PhoneNumber := \<lparr>CountryCode = ''251'', Number = ''922222222''\<rparr>, u_Username := Some ''bobby'',
     u_LedgerWalletID := ''wb''\<rparr>"

definition pay_svc :: "engine fclient payments" where
  "pay_svc = \<lparr>pm_chart = neo, pm_regulatory = Some \<lparr>rg_ratesFn = (\<lambda>a b. retA 1), rg_ttl = 60 * second\<rparr>, pm_totals = True,
     pm_recipients = True, pm_overdraft = True\<rparr>"

definition pay_world :: "int \<Rightarrow> engine fclient world" where
  "pay_world n = (empty_world (seeded [(SystemOverdraftCapital neo, 1000000, ''ETB/2''), (MainAccount neo ''wa'', n, ''ETB/2'')]) 1000)
     \<lparr>w_users := [alice, bob], w_overdrafts := [new_overdraft ''ua'' 100000 (Some 5) OverdraftActive]\<rparr>"

definition p2p_req :: "int \<Rightarrow> InboundTransferRequest" where
  "p2p_req n = \<lparr>ib_Recipient = ''bobby'', ib_RecipientPhone = \<lparr>CountryCode = '''', Number = ''''\<rparr>, ib_AmountCents = n,
     ib_Currency = ''ETB'', ib_Narration = ''lunch'', ib_Purpose = ''''\<rparr>"

lemma pay_svc_ok: "pm_chart pay_svc = neo" "rates_read pay_svc"
  by (simp_all add: pay_svc_def rates_read_def readers)

lemma pay_world_fresh: "uuid_keys E \<inter> lv_used (fc_view e_ghost (w_ledger (pay_world n))) = {}"
  by (simp add: pay_world_def empty_world_def seeded_def e_ghost_def)

text \<open>After the debit nothing can fail any more.\<close>

lemma p2p_succeeds:
  assumes "p2p_parties E s uid req w = (Inr (sender, recipient), w1)"
    and "cover_shortfall E L s uid sender (e_uuid E (w_uuidn w1) @ ''-od'') (ib_Currency req) (ib_AmountCents req)
      (w1\<lparr>w_uuidn := Suc (w_uuidn w1)\<rparr>) = (Inr (), w2)"
    and "fst (ledA (DebitWallet L (e_uuid E (w_uuidn w1) @ ''-debit'') (u_LedgerWalletID sender) (ib_AmountCents req)
      (FormatAsset [ib_Currency req]) (MainAccount (pm_chart s) (u_LedgerWalletID recipient)) False) w2) = Inr tx"
  shows "\<exists>w'. ProcessInboundTransfer E L s uid req w = (Inr (), w')"
proof -
  let ?ik = "e_uuid E (w_uuidn w1)"
  let ?d = "ledA (DebitWallet L (?ik @ ''-debit'') (u_LedgerWalletID sender) (ib_AmountCents req)
      (FormatAsset [ib_Currency req]) (MainAccount (pm_chart s) (u_LedgerWalletID recipient)) False) w2"
  obtain w3 where d: "?d = (Inr tx, w3)" using assms(3) by (metis surjective_pairing)
  obtain w' where t: "p2p_finish E L s uid req sender recipient ?ik w3 = (Inr (), w')"
    using okD [OF ok_p2p_finish, of E L s uid req sender recipient ?ik w3] by auto
  have id: "newID E w1 = (Inr ?ik, w1\<lparr>w_uuidn := Suc (w_uuidn w1)\<rparr>)" by (simp add: newID_def)
  have "p2p_move E L s uid req sender recipient w1 = (Inr (), w')"
    using id assms(2) d t by (simp add: p2p_move_def bindA_def)
  then show ?thesis
    using assms(1) by (simp add: ProcessInboundTransfer_def bindA_def)
qed

definition parties_world :: "engine fclient world" where
  "parties_world = snd (p2p_parties ok_env pay_svc ''ua'' (p2p_req 300) (pay_world 100))"

definition covered_world :: "engine fclient world" where
  "covered_world = snd (cover_shortfall ok_env eclient pay_svc ''ua'' alice ''b0-od'' ''ETB'' 300
     (parties_world\<lparr>w_uuidn := Suc (w_uuidn parties_world)\<rparr>))"

lemma paid_run: "\<exists>w'. ProcessInboundTransfer ok_env eclient pay_svc ''ua'' (p2p_req 300) (pay_world 100) = (Inr (), w')"
proof -
  have 1: "p2p_parties ok_env pay_svc ''ua'' (p2p_req 300) (pay_world 100) = (Inr (alice, bob), parties_world)"
    unfolding parties_world_def by (rule run_of) code_simp
  have k: "e_uuid ok_env (w_uuidn parties_world) = ''b0''" by code_simp
  have 2: "cover_shortfall ok_env eclient pay_svc ''ua'' alice (''b0'' @ ''-od'') (ib_Currency (p2p_req 300)) (ib_AmountCents (p2p_req 300))
      (parties_world\<lparr>w_uuidn := Suc (w_uuidn parties_world)\<rparr>) = (Inr (), covered_world)"
    unfolding covered_world_def p2p_req_def by (simp del: One_nat_def, rule run_of) code_simp
  have "case fst (ledA (DebitWallet eclient (''b0'' @ ''-debit'') (u_LedgerWalletID alice) (ib_AmountCents (p2p_req 300))
      (FormatAsset [ib_Currency (p2p_req 300)]) (MainAccount (pm_chart pay_svc) (u_LedgerWalletID bob)) False) covered_world) of
      Inl _ \<Rightarrow> False | Inr _ \<Rightarrow> True" by code_simp
  then obtain tx where 3: "fst (ledA (DebitWallet eclient (''b0'' @ ''-debit'') (u_LedgerWalletID alice) (ib_AmountCents (p2p_req 300))
      (FormatAsset [ib_Currency (p2p_req 300)]) (MainAccount (pm_chart pay_svc) (u_LedgerWalletID bob)) False) covered_world) = Inr tx"
    by (auto split: sum.splits)
  show ?thesis by (rule p2p_succeeds [OF 1, unfolded k, OF 2 3])
qed

theorem p2p_transfer_moves_witness:
  "\<exists>w'. ProcessInboundTransfer ok_env eclient pay_svc ''ua'' (p2p_req 300) (pay_world 100) = (Inr (), w')
     \<and> lv_bal (fc_view e_ghost (w_ledger w')) (MainAccount neo ''wa'') ''ETB/2'' = 0"
proof -
  obtain w' where r: "ProcessInboundTransfer ok_env eclient pay_svc ''ua'' (p2p_req 300) (pay_world 100) = (Inr (), w')"
    using paid_run by blast
  let ?v = "fc_view e_ghost (w_ledger (pay_world 100))"
  obtain sender recipient m where su: "sender \<in> set (w_users (pay_world 100))" "u_ID sender = ''ua''"
      "recipient \<in> set (w_users (pay_world 100))" "u_ID recipient \<noteq> ''ua''"
    and bal: "lv_bal (fc_view e_ghost (w_ledger w')) = apply_postings
        (shortfall_postings neo ?v (u_LedgerWalletID sender) (ib_AmountCents (p2p_req 300)) (FormatAsset [ib_Currency (p2p_req 300)])
         @ [P (MainAccount neo (u_LedgerWalletID sender)) (MainAccount neo (u_LedgerWalletID recipient))
              (ib_AmountCents (p2p_req 300)) (FormatAsset [ib_Currency (p2p_req 300)])]
         @ repay_postings neo (u_LedgerWalletID recipient) m) (lv_bal ?v)"
    using p2p_transfer_moves [OF eclient_contract pay_svc_ok r pay_world_fresh] by blast
  have p: "sender = alice" "recipient = bob"
    using su by (auto simp: pay_world_def alice_def bob_def user0_def)
  have a: "FormatAsset [ib_Currency (p2p_req 300)] = ''ETB/2''" "lv_bal ?v (MainAccount neo ''wa'') ''ETB/2'' = 100"
    "MainAccount neo ''wa'' \<noteq> MainAccount neo ''wb''" "MainAccount neo ''wa'' \<noteq> SystemOverdraftCapital neo"
    "MainAccount neo ''wb'' \<noteq> MainAccount neo ''wa''" "SystemOverdraftCapital neo \<noteq> MainAccount neo ''wa''"
    by (code_simp, code_simp, code_simp, code_simp, code_simp, code_simp)
  have wids: "u_LedgerWalletID alice = ''wa''" "u_LedgerWalletID bob = ''wb''" "ib_AmountCents (p2p_req 300) = 300"
    by (simp_all add: alice_def bob_def user0_def p2p_req_def)
  have "lv_bal (fc_view e_ghost (w_ledger w')) (MainAccount neo ''wa'') ''ETB/2'' = 0"
    unfolding bal p a(1) wids shortfall_postings_def repay_postings_def cover_posting_def Let_def a(2)
    using a(2-6) by (simp add: apply_P in_i64_def)
  then show ?thesis using r by blast
qed


end
