(* ===== verification/Outbound.thy ===== *)
theory Outbound
  imports Payments
begin

text \<open>
  Properties of outbound transfers (\<open>ProcessOutboundTransfer\<close> of \<open>internal/services/payments\<close>): the
  two-phase protocol hold, transmit, settle or void, with \<open>retryLedgerOp\<close> around the last phase.
\<close>

section \<open>Retries\<close>

text \<open>Over a ledger operation whose failures are not observable, the whole loop fails without
  observable effect or ends with the effect of one successful attempt.\<close>

lemma retry_loop_obs:
  assumes "\<And>l e l'. m l = (Inl e, l') \<Longrightarrow> obs l' = obs l"
    and "retry_loop E (ledA m) ds err w = (r, w')"
  shows "case r of Inl _ \<Rightarrow> obs (w_ledger w') = obs (w_ledger w)
    | Inr _ \<Rightarrow> \<exists>l. obs l = obs (w_ledger w) \<and> m l = (Inr (), w_ledger w')"
  using assms(2)
proof (induction ds arbitrary: err w)
  case Nil
  then show ?case by (auto simp: throwA_def)
next
  case (Cons d ds)
  obtain x l where m: "m (w_ledger w) = (x, l)" by fastforce
  then have led: "ledA m w = (x, w\<lparr>w_ledger := l\<rparr>)" by (simp add: ledA_def)
  show ?case
  proof (cases x)
    case (Inr u)
    then show ?thesis using Cons.prems led m by (auto simp: bindA_def tryA_def retA_def)
  next
    case (Inl e)
    then have o: "obs l = obs (w_ledger w)" using assms(1) m by blast
    let ?w = "w\<lparr>w_ledger := l, w_now := w_now w + d\<rparr>"
    show ?thesis
    proof (cases "e_cancelled E (w_now w + d)")
      case True
      then show ?thesis
        using Cons.prems led Inl o by (auto simp: bindA_def tryA_def nowA_def getsA_def throwA_def)
    next
      case False
      then have "retry_loop E (ledA m) ds e ?w = (r, w')"
        using Cons.prems led Inl by (simp add: bindA_def tryA_def nowA_def getsA_def modifyA_def)
      from Cons.IH [OF this] show ?thesis using o by (auto split: sum.splits)
    qed
  qed
qed

definition sleep :: "int \<Rightarrow> 'l world \<Rightarrow> 'l world" where
  "sleep d w = w\<lparr>w_now := w_now w + d\<rparr>"


definition flaky :: "nat \<Rightarrow> (nat, go_error, unit) act" where
  "flaky k n = (if k \<le> n then Inr () else Inl (Opaque ''ledger down''), Suc n)"


section \<open>The protocol\<close>

context ledger_client
begin

lemma retry_settle:
  assumes "retryLedgerOp E (ledA (SettleHold L ik h)) w = (r, w')" "holdOf (w_ledger w) h = Some i"
  shows "case r of Inl _ \<Rightarrow> view (w_ledger w') = view (w_ledger w)
    | Inr _ \<Rightarrow> view (w_ledger w') = post ik [P (HoldAccount c h) (h_transit i)
        (lv_bal (view (w_ledger w)) (HoldAccount c h) (h_asset i)) (h_asset i)] (view (w_ledger w))"
proof -
  have obs: "(view l', holdOf l') = (view l, holdOf l)" if "SettleHold L ik h l = (Inl e, l')" for l e l'
    using settle_err [OF that] by simp
  show ?thesis
    using retry_loop_obs [of "SettleHold L ik h" "\<lambda>l. (view l, holdOf l)", OF obs assms(1) [unfolded retryLedgerOp_def]]
      settle_ok assms(2) by (cases r) fastforce+
qed

lemma retry_void:
  assumes "retryLedgerOp E (ledA (VoidHold L ik h)) w = (r, w')" "holdOf (w_ledger w) h = Some i"
  shows "case r of Inl _ \<Rightarrow> view (w_ledger w') = view (w_ledger w)
    | Inr _ \<Rightarrow> view (w_ledger w') = post ik [P (HoldAccount c h) (MainAccount c (h_wallet i))
        (lv_bal (view (w_ledger w)) (HoldAccount c h) (h_asset i)) (h_asset i)] (view (w_ledger w))"
proof -
  have obs: "(view l', holdOf l') = (view l, holdOf l)" if "VoidHold L ik h l = (Inl e, l')" for l e l'
    using void_err [OF that] by simp
  show ?thesis
    using retry_loop_obs [of "VoidHold L ik h" "\<lambda>l. (view l, holdOf l)", OF obs assms(1) [unfolded retryLedgerOp_def]]
      void_ok assms(2) by (cases r) fastforce+
qed

end

text \<open>The balances after the three phases: a success is a transfer to the transit account of the switch, a
  failure leaves the balances alone or the amount on hold.\<close>

definition outbound_result ::
    "Chart \<Rightarrow> string \<Rightarrow> string \<Rightarrow> int \<Rightarrow> string \<Rightarrow> balances \<Rightarrow> go_error + unit \<Rightarrow> balances \<Rightarrow> bool" where
  "outbound_result c wid h n a b r b' \<longleftrightarrow> (case r of
     Inr _ \<Rightarrow> b' = apply_posting (P (MainAccount c wid) (TransitEthSwitch c) n a) b
   | Inl e \<Rightarrow> b' = b \<or> b' = apply_posting (P (MainAccount c wid) (HoldAccount c h) n a) b)"

lemma outbound_finish_calm: "calm (outbound_finish E s uid req ik hid resp)" "okA (outbound_finish E s uid req ik hid resp)"
  unfolding outbound_finish_def SaveFromTransferFireAndForget_def by (rule calms oks)+

context ledger_client
begin

lemma outbound_settle_phase:
  assumes run: "bindA (retryLedgerOp E (ledA (SettleHold L ik hid))) (\<lambda>_. outbound_finish E s uid req ik0 hid resp) w = (r, w')"
    and i: "holdOf (w_ledger w) hid = Some \<lparr>h_wallet = wid, h_transit = TransitEthSwitch c, h_asset = a\<rparr>"
      "lv_bal (view (w_ledger w)) (HoldAccount c hid) a = n"
    and b: "lv_bal (view (w_ledger w)) = apply_posting (P (MainAccount c wid) (HoldAccount c hid) n a) b0"
    and ik: "ik \<notin> lv_used (view (w_ledger w))"
  shows "outbound_result c wid hid n a b0 r (lv_bal (view (w_ledger w')))"
proof -
  obtain r1 w1 where r1: "retryLedgerOp E (ledA (SettleHold L ik hid)) w = (r1, w1)" by fastforce
  show ?thesis
  proof (cases r1)
    case (Inl e)
    then have "r = Inl e" "w' = w1" using run r1 by (simp_all add: bindA_def)
    then show ?thesis using retry_settle [OF r1 i(1)] Inl b by (simp add: outbound_result_def)
  next
    case (Inr u)
    then have f: "outbound_finish E s uid req ik0 hid resp w1 = (r, w')" using run r1 by (simp add: bindA_def)
    have "w_ledger w' = w_ledger w1" using calmD [OF outbound_finish_calm(1) f] .
    moreover obtain x where "r = Inr x" using okD [OF outbound_finish_calm(2), of E s uid req ik0 hid resp w1] f by auto
    ultimately show ?thesis
      using retry_settle [OF r1 i(1)] Inr i(2) ik b by (auto simp: outbound_result_def post_fresh apply_P fun_eq_iff)
  qed
qed

lemma outbound_void_phase:
  assumes run: "bindA (retryLedgerOp E (ledA (VoidHold L ik hid))) (\<lambda>_. bindA (ignoreA (audit_Log E e)) (\<lambda>_. throwA err)) w = (r, w')"
    and i: "holdOf (w_ledger w) hid = Some \<lparr>h_wallet = wid, h_transit = t, h_asset = a\<rparr>"
      "lv_bal (view (w_ledger w)) (HoldAccount c hid) a = n"
    and b: "lv_bal (view (w_ledger w)) = apply_posting (P (MainAccount c wid) (HoldAccount c hid) n a) b0"
    and ik: "ik \<notin> lv_used (view (w_ledger w))"
  shows "outbound_result c wid hid n a b0 r (lv_bal (view (w_ledger w'))) \<and> (\<exists>e. r = Inl e)"
proof -
  obtain r1 w1 where r1: "retryLedgerOp E (ledA (VoidHold L ik hid)) w = (r1, w1)" by fastforce
  show ?thesis
  proof (cases r1)
    case (Inl e)
    then have "r = Inl e" "w' = w1" using run r1 by (simp_all add: bindA_def)
    then show ?thesis using retry_void [OF r1 i(1)] Inl b by (simp add: outbound_result_def)
  next
    case (Inr u)
    then have "r = Inl err" "w_ledger w' = w_ledger w1"
      using run r1 by (auto simp: bindA_def ignoreA_def throwA_def audit_ledger)
    moreover have "lv_bal (view (w_ledger w1)) = b0"
      using retry_void [OF r1 i(1)] Inr i(2) ik b by (auto simp: post_fresh apply_P fun_eq_iff)
    ultimately show ?thesis by (simp add: outbound_result_def)
  qed
qed

lemma outbound_move_run:
  assumes run: "outbound_move E L s sw uid req user w = (r, w')" and s: "pm_chart s = c"
    and fresh: "uuid_keys E \<inter> lv_used (view (w_ledger w)) = {}"
    and new: "unused_account (view (w_ledger w)) (HoldAccount c (nexth (w_ledger w)))"
    and sep: "MainAccount c (u_LedgerWalletID user) \<noteq> HoldAccount c (nexth (w_ledger w))"
    and n: "in_i64 (ob_AmountCents req)" "0 < ob_AmountCents req"
  shows "outbound_result c (u_LedgerWalletID user) (nexth (w_ledger w)) (ob_AmountCents req) (FormatAsset [ob_Currency req])
      (lv_bal (view (w_ledger w))) r (lv_bal (view (w_ledger w')))
    \<and> (r = Inr () \<longrightarrow> (\<exists>ik resp. sw (switch_request E req user ik) = Inr resp \<and> sr_Status resp = ''SUCCESS''))"
proof -
  let ?ik = "e_uuid E (w_uuidn w)" and ?wid = "u_LedgerWalletID user" and ?n = "ob_AmountCents req"
  let ?a = "FormatAsset [ob_Currency req]" and ?l = "w_ledger w" and ?v = "view (w_ledger w)"
  have keys: "?ik @ x \<notin> lv_used ?v" for x using fresh by (auto simp: uuid_keys_def)
  have nw: "or_world (TransitEthSwitch c) = TransitEthSwitch c" "TransitEthSwitch c \<noteq> HoldAccount c h" for h
    by (auto simp: or_world_def TransitEthSwitch_def HoldAccount_def)
  obtain rh l where h: "HoldFunds L (?ik @ ''-hold'') ?wid (TransitEthSwitch c) ?n ?a ?l = (rh, l)" by fastforce
  show ?thesis
  proof (cases rh)
    case (Inl e)
    then have "r = Inl e" "w_ledger w' = l"
      using run h s by (auto simp: outbound_move_def bindA_def newID_def ledA_def)
    then show ?thesis using hold_err h Inl by (fastforce simp: outbound_result_def)
  next
    case (Inr hid)
    have hid: "hid = nexth ?l" and v1: "view l = post (?ik @ ''-hold'') [P (MainAccount c ?wid) (HoldAccount c hid) ?n ?a] ?v"
      using hold_ok [OF h [unfolded Inr]] by auto
    have i: "holdOf l hid = Some \<lparr>h_wallet = ?wid, h_transit = TransitEthSwitch c, h_asset = ?a\<rparr>"
        "lv_bal (view l) (HoldAccount c hid) ?a = ?n"
      using hold_info [OF h [unfolded Inr] keys] new sep n nw hid by simp_all
    have b1: "lv_bal (view l) = apply_posting (P (MainAccount c ?wid) (HoldAccount c hid) ?n ?a) (lv_bal ?v)"
      using v1 keys by (simp add: post_fresh)
    have used1: "?ik @ x \<notin> lv_used (view l)" if "x \<noteq> ''-hold''" for x using v1 keys that by simp
    define w3 where "w3 = snd (audit_Log E (audit_entry ''transfer_initiated'' ''user'' (Some uid) ''transfer'' hid)
      (w\<lparr>w_uuidn := Suc (w_uuidn w), w_ledger := l\<rparr>))"
    have l3: "w_ledger w3 = l" by (simp add: w3_def audit_ledger)
    show ?thesis
    proof (cases "sw (switch_request E req user ?ik)")
      case (Inl e)
      then have "r = Inl (External ErrEthSwitchTimeout)" "w_ledger w' = l"
        using run h s Inr by (auto simp: outbound_move_def bindA_def newID_def ledA_def ignoreA_def throwA_def audit_ledger)
      then show ?thesis using b1 hid by (simp add: outbound_result_def)
    next
      case (Inr resp)
      show ?thesis
      proof (cases "sr_Status resp = ''SUCCESS''")
        case True
        then have "bindA (retryLedgerOp E (ledA (SettleHold L (?ik @ ''-settle'') hid))) (\<lambda>_.
            outbound_finish E s uid req ?ik hid resp) w3 = (r, w')"
          using run h s \<open>rh = Inr hid\<close> Inr
          by (simp add: outbound_move_def bindA_def newID_def ledA_def ignoreA_def w3_def)
        from outbound_settle_phase [OF this, unfolded l3, OF i b1 used1] show ?thesis using True Inr hid by auto
      next
        case False
        then have "bindA (retryLedgerOp E (ledA (VoidHold L (?ik @ ''-void'') hid))) (\<lambda>_. bindA (ignoreA (audit_Log E
            (audit_entry ''transfer_voided'' ''system'' None ''transfer'' hid))) (\<lambda>_.
            throwA (Opaque (''transfer failed: '' @ sr_ErrorMessage resp)))) w3 = (r, w')"
          using run h s \<open>rh = Inr hid\<close> Inr
          by (simp add: outbound_move_def bindA_def newID_def ledA_def ignoreA_def w3_def)
        from outbound_void_phase [OF this, unfolded l3, OF i b1 used1] show ?thesis using hid by auto
      qed
    qed
  qed
qed

end

lemma outbound_sender_run:
  assumes "rates_read s" "outbound_sender E s uid req w = (Inr user, w')"
  shows "stable w' = stable w" "user \<in> set (w_users w)" "u_ID user = uid" "\<not> u_IsFrozen user" "0 < ob_AmountCents req"
proof -
  obtain w1 where v: "outbound_Validate E req = Inr ()" and u: "user_GetByID E uid w = (Inr user, w1)"
    and f: "\<not> u_IsFrozen user"
    and c: "check_regulatory E s \<lparr>tr_UserID = uid, tr_User = user, tr_Direction = ''outbound'',
       tr_AmountCents = ob_AmountCents req, tr_Currency = ob_Currency req, tr_Purpose = ob_Purpose req,
       tr_Destination = ob_Destination req\<rparr> w1 = (Inr (), w')"
    using assms(2) by (auto simp: outbound_sender_def runs)
  show "stable w' = stable w" using user_GetByID_run(3) [OF u] check_regulatory_run [OF assms(1) c] by simp
  show "user \<in> set (w_users w)" "u_ID user = uid" "\<not> u_IsFrozen user" using user_GetByID_run [OF u] f by simp_all
  show "0 < ob_AmountCents req"
    using v by (auto simp: outbound_Validate_def ValidateAmountCents_def split: sum.splits if_splits)
qed

lemma calm_outbound_sender: "rates_read s \<Longrightarrow> calm (outbound_sender E s uid req)"
  unfolding outbound_sender_def by (rule calms calm_check | assumption)+

section \<open>The outcome of an outbound transfer\<close>


text \<open>After the settlement nothing can fail any more.\<close>

lemma outbound_succeeds:
  assumes "outbound_sender E s uid req w = (Inr user, w1)"
    and hold: "HoldFunds L (e_uuid E (w_uuidn w1) @ ''-hold'') (u_LedgerWalletID user) (TransitEthSwitch (pm_chart s))
      (ob_AmountCents req) (FormatAsset [ob_Currency req]) (w_ledger w1) = (Inr hid, l)"
    and sw: "sw (switch_request E req user (e_uuid E (w_uuidn w1))) = Inr resp" "sr_Status resp = ''SUCCESS''"
    and "fst (SettleHold L (e_uuid E (w_uuidn w1) @ ''-settle'') hid l) = Inr ()"
  shows "\<exists>w'. ProcessOutboundTransfer E L s sw uid req w = (Inr (), w')"
proof -
  let ?ik = "e_uuid E (w_uuidn w1)"
  define w3 where "w3 = snd (audit_Log E (audit_entry ''transfer_initiated'' ''user'' (Some uid) ''transfer'' hid)
      (w1\<lparr>w_uuidn := Suc (w_uuidn w1), w_ledger := l\<rparr>))"
  have l3: "w_ledger w3 = l" by (simp add: w3_def audit_ledger)
  obtain l4 where "SettleHold L (?ik @ ''-settle'') hid l = (Inr (), l4)" using assms(5) by (metis surjective_pairing)
  then have settle: "retryLedgerOp E (ledA (SettleHold L (?ik @ ''-settle'') hid)) w3 = (Inr (), w3\<lparr>w_ledger := l4\<rparr>)"
    by (simp add: retryLedgerOp_def bindA_def tryA_def retA_def ledA_def l3)
  obtain w' where t: "outbound_finish E s uid req ?ik hid resp (w3\<lparr>w_ledger := l4\<rparr>) = (Inr (), w')"
    using okD [OF outbound_finish_calm(2), of E s uid req ?ik hid resp "w3\<lparr>w_ledger := l4\<rparr>"] by auto
  have "outbound_move E L s sw uid req user w1 = (Inr (), w')"
    using hold sw settle t
    by (simp add: outbound_move_def bindA_def newID_def ledA_def ignoreA_def flip: w3_def)
  then show ?thesis using assms(1) by (simp add: ProcessOutboundTransfer_def bindA_def)
qed

definition accept_switch :: "TransferRequest \<Rightarrow> go_error + TransferResponse" where
  "accept_switch q = Inr \<lparr>sr_Status = ''SUCCESS'', sr_EthSwitchReference = ''es1'', sr_ErrorMessage = ''''\<rparr>"

definition out_req :: OutboundTransferRequest where
  "out_req = \<lparr>ob_AmountCents = 300, ob_Currency = ''ETB'', ob_DestPhone = \<lparr>CountryCode = ''251'', Number = ''933333333''\<rparr>,
     ob_DestInstitution = ''CBE'', ob_Narration = ''rent'', ob_Purpose = '''', ob_Destination = '''', ob_BeneficiaryID = ''''\<rparr>"

definition sender_world :: "engine fclient world" where
  "sender_world = snd (outbound_sender ok_env pay_svc ''ua'' out_req (pay_world 500))"

definition out_held :: "engine fclient" where
  "out_held = snd (HoldFunds eclient ''b0-hold'' ''wa'' (TransitEthSwitch neo) 300 ''ETB/2'' (w_ledger sender_world))"

lemma out_run:
  "\<exists>w'. ProcessOutboundTransfer ok_env eclient pay_svc accept_switch ''ua'' out_req (pay_world 500) = (Inr (), w')"
proof (rule outbound_succeeds)
  show "outbound_sender ok_env pay_svc ''ua'' out_req (pay_world 500) = (Inr alice, sender_world)"
    unfolding sender_world_def by (rule run_of) code_simp
  have k: "e_uuid ok_env (w_uuidn sender_world) = ''b0''" "u_LedgerWalletID alice = ''wa''" "pm_chart pay_svc = neo"
    "ob_AmountCents out_req = 300" "FormatAsset [ob_Currency out_req] = ''ETB/2''"
    by (code_simp, code_simp, code_simp, code_simp, code_simp)
  show "HoldFunds eclient (e_uuid ok_env (w_uuidn sender_world) @ ''-hold'') (u_LedgerWalletID alice)
      (TransitEthSwitch (pm_chart pay_svc)) (ob_AmountCents out_req) (FormatAsset [ob_Currency out_req]) (w_ledger sender_world)
      = (Inr ''a0'', out_held)"
    unfolding k out_held_def append.simps by (rule run_of) code_simp
  show "accept_switch (switch_request ok_env out_req alice (e_uuid ok_env (w_uuidn sender_world)))
      = Inr \<lparr>sr_Status = ''SUCCESS'', sr_EthSwitchReference = ''es1'', sr_ErrorMessage = ''''\<rparr>"
    by (simp add: accept_switch_def)
  show "fst (SettleHold eclient (e_uuid ok_env (w_uuidn sender_world) @ ''-settle'') ''a0'' out_held) = Inr ()"
    unfolding k by code_simp
qed simp


end
