(* ===== verification/Account_Tables.thy ===== *)
theory Account_Tables
  imports Reads
begin

text \<open>
  More repositories of \<open>internal/repository\<close>: pots, currency balances with their account details, payment
  requests, cards and card authorizations, exchange rates. The conventions are those of \<open>Repositories\<close>; a
  unique index of the schema that a statement would violate makes the statement fail.
\<close>

section \<open>Pots\<close>

text \<open>The index \<open>uq_user_pot_name_active\<close>: the names of a user's open pots differ.\<close>

definition pot_name_taken :: "Pot \<Rightarrow> Pot list \<Rightarrow> bool" where
  "pot_name_taken p ps \<longleftrightarrow> (\<exists>q \<in> set ps. pt_ID q \<noteq> pt_ID p \<and> pt_UserID q = pt_UserID p \<and> pt_Name q = pt_Name p
     \<and> \<not> pt_IsArchived q)"

definition pot_Create :: "env \<Rightarrow> Pot \<Rightarrow> ('l, Pot) go" where
  "pot_Create E pot = dbA E (bindA (newID E) (\<lambda>i. bindA nowA (\<lambda>now. bindA (getsA w_pots) (\<lambda>ps.
     let row = pot\<lparr>pt_ID := i, pt_CreatedAt := now, pt_IsArchived := False, pt_ArchivedAt := None\<rparr>
     in if pot_name_taken row ps then throwA db_error
        else bindA (modifyA (\<lambda>w. w\<lparr>w_pots := ps @ [row]\<rparr>)) (\<lambda>_. retA (pot\<lparr>pt_ID := i, pt_CreatedAt := now\<rparr>))))))"

definition pot_open :: "string \<Rightarrow> string \<Rightarrow> Pot \<Rightarrow> bool" where
  "pot_open i uid p \<longleftrightarrow> pt_ID p = i \<and> pt_UserID p = uid \<and> \<not> pt_IsArchived p"

definition pot_Update :: "env \<Rightarrow> Pot \<Rightarrow> ('l, unit) go" where
  "pot_Update E pot = dbA E (bindA (getsA w_pots) (\<lambda>ps.
     if rows_affected (pot_open (pt_ID pot) (pt_UserID pot)) ps = 0 then throwA (Pots ErrPotNotFound)
     else if pot_name_taken pot ps then throwA db_error
     else modifyA (\<lambda>w. w\<lparr>w_pots := update_where (pot_open (pt_ID pot) (pt_UserID pot))
       (\<lambda>p. p\<lparr>pt_Name := pt_Name pot, pt_TargetCents := pt_TargetCents pot, pt_Emoji := pt_Emoji pot\<rparr>) ps\<rparr>)))"

definition pot_Archive :: "env \<Rightarrow> string \<Rightarrow> string \<Rightarrow> ('l, unit) go" where
  "pot_Archive E i uid = dbA E (bindA (getsA w_pots) (\<lambda>ps. bindA nowA (\<lambda>now.
     if rows_affected (pot_open i uid) ps = 0 then throwA (Pots ErrPotNotFound)
     else modifyA (\<lambda>w. w\<lparr>w_pots := update_where (pot_open i uid)
       (\<lambda>p. p\<lparr>pt_IsArchived := True, pt_ArchivedAt := Some now\<rparr>) ps\<rparr>))))"

definition pot_GetByID :: "env \<Rightarrow> string \<Rightarrow> ('l, Pot) go" where
  "pot_GetByID E i = dbA E (bindA (getsA (\<lambda>w. select_one (\<lambda>p. pt_ID p = i) (w_pots w)))
     (\<lambda>r. case r of None \<Rightarrow> throwA (Pots ErrPotNotFound) | Some p \<Rightarrow> retA p))"

definition pot_ListActiveByUser :: "env \<Rightarrow> string \<Rightarrow> ('l, Pot list) go" where
  "pot_ListActiveByUser E uid = dbA E (getsA (\<lambda>w. sort_key pt_CreatedAt
     (filter (\<lambda>p. pt_UserID p = uid \<and> \<not> pt_IsArchived p) (w_pots w))))"

section \<open>Currency balances and account details\<close>

definition bal_active :: "string \<Rightarrow> string \<Rightarrow> CurrencyBalance \<Rightarrow> bool" where
  "bal_active uid cur b \<longleftrightarrow> cb_UserID b = uid \<and> cb_CurrencyCode b = cur \<and> cb_DeletedAt b = None"

definition bal_deleted :: "string \<Rightarrow> string \<Rightarrow> CurrencyBalance \<Rightarrow> bool" where
  "bal_deleted uid cur b \<longleftrightarrow> cb_UserID b = uid \<and> cb_CurrencyCode b = cur \<and> cb_DeletedAt b \<noteq> None"

text \<open>The index \<open>uq_user_currency_active\<close> allows one active balance per user and currency.\<close>

definition balance_Create :: "env \<Rightarrow> CurrencyBalance \<Rightarrow> ('l, CurrencyBalance) go" where
  "balance_Create E bal = dbA E (bindA (newID E) (\<lambda>i. bindA nowA (\<lambda>now. bindA (getsA w_balances) (\<lambda>bs.
     let row = bal\<lparr>cb_ID := i, cb_CreatedAt := now, cb_DeletedAt := None\<rparr>
     in if rows_affected (bal_active (cb_UserID bal) (cb_CurrencyCode bal)) bs \<noteq> 0 then throwA db_error
        else bindA (modifyA (\<lambda>w. w\<lparr>w_balances := bs @ [row]\<rparr>)) (\<lambda>_. retA row)))))"

text \<open>The CHECK \<open>chk_primary_not_deleted\<close> stops the deletion of a primary balance.\<close>

definition balance_SoftDelete :: "env \<Rightarrow> string \<Rightarrow> string \<Rightarrow> ('l, unit) go" where
  "balance_SoftDelete E uid cur = dbA E (bindA (getsA w_balances) (\<lambda>bs. bindA nowA (\<lambda>now.
     if rows_affected (bal_active uid cur) bs = 0 then throwA (Wallets ErrBalanceNotActive)
     else if list_ex (\<lambda>b. bal_active uid cur b \<and> cb_IsPrimary b) bs then throwA db_error
     else modifyA (\<lambda>w. w\<lparr>w_balances := update_where (bal_active uid cur) (\<lambda>b. b\<lparr>cb_DeletedAt := Some now\<rparr>) bs\<rparr>))))"

definition balance_Reactivate :: "env \<Rightarrow> string \<Rightarrow> string \<Rightarrow> ('l, CurrencyBalance) go" where
  "balance_Reactivate E uid cur = dbA E (bindA (getsA w_balances) (\<lambda>bs.
     if 1 < rows_affected (bal_deleted uid cur) bs
       \<or> rows_affected (bal_deleted uid cur) bs = 1 \<and> rows_affected (bal_active uid cur) bs \<noteq> 0 then throwA db_error
     else case select_one (bal_deleted uid cur) bs of
       None \<Rightarrow> throwA (Wallets ErrBalanceNotFound)
     | Some b \<Rightarrow> bindA (modifyA (\<lambda>w. w\<lparr>w_balances := update_where (bal_deleted uid cur) (\<lambda>b. b\<lparr>cb_DeletedAt := None\<rparr>) bs\<rparr>))
         (\<lambda>_. retA (b\<lparr>cb_DeletedAt := None\<rparr>))))"

definition balance_ListActiveByUser :: "env \<Rightarrow> string \<Rightarrow> ('l, CurrencyBalance list) go" where
  "balance_ListActiveByUser E uid = dbA E (getsA (\<lambda>w. sort_key (\<lambda>b. if cb_IsPrimary b then 0 else 1 :: nat)
     (sort_key cb_CreatedAt (filter (\<lambda>b. cb_UserID b = uid \<and> cb_DeletedAt b = None) (w_balances w)))))"

definition balance_GetByUserAndCurrency :: "env \<Rightarrow> string \<Rightarrow> string \<Rightarrow> ('l, CurrencyBalance) go" where
  "balance_GetByUserAndCurrency E uid cur = dbA E (bindA (getsA (\<lambda>w. select_one (bal_active uid cur) (w_balances w)))
     (\<lambda>r. case r of None \<Rightarrow> throwA (Wallets ErrBalanceNotActive) | Some b \<Rightarrow> retA b))"

definition balance_GetSoftDeleted :: "env \<Rightarrow> string \<Rightarrow> string \<Rightarrow> ('l, CurrencyBalance) go" where
  "balance_GetSoftDeleted E uid cur = dbA E (bindA (getsA (\<lambda>w. select_one (bal_deleted uid cur) (w_balances w)))
     (\<lambda>r. case r of None \<Rightarrow> throwA (Wallets ErrBalanceNotFound) | Some b \<Rightarrow> retA b))"

text \<open>Account details are unique per balance, IBAN and account number. The sequence advances even when the
  statement that uses its value fails later.\<close>

definition details_Create :: "env \<Rightarrow> AccountDetails \<Rightarrow> ('l, AccountDetails) go" where
  "details_Create E d = dbA E (bindA (newID E) (\<lambda>i. bindA (getsA w_details) (\<lambda>ds.
     let row = d\<lparr>ad_ID := i\<rparr>
     in if list_ex (\<lambda>e. ad_CurrencyBalanceID e = ad_CurrencyBalanceID d \<or> ad_IBAN e = ad_IBAN d
          \<or> ad_AccountNumber e = ad_AccountNumber d) ds then throwA db_error
        else bindA (modifyA (\<lambda>w. w\<lparr>w_details := ds @ [row]\<rparr>)) (\<lambda>_. retA row))))"

definition details_GetByCurrencyBalanceID :: "env \<Rightarrow> string \<Rightarrow> ('l, AccountDetails option) go" where
  "details_GetByCurrencyBalanceID E i = dbA E (getsA (\<lambda>w. select_one (\<lambda>d. ad_CurrencyBalanceID d = i) (w_details w)))"

definition details_NextAccountNumber :: "env \<Rightarrow> ('l, int) go" where
  "details_NextAccountNumber E = dbA E (bindA (getsA w_acctseq) (\<lambda>n.
     bindA (modifyA (\<lambda>w. w\<lparr>w_acctseq := n + 1\<rparr>)) (\<lambda>_. retA n)))"

section \<open>Payment requests\<close>

definition request_Create :: "env \<Rightarrow> PaymentRequest \<Rightarrow> ('l, PaymentRequest) go" where
  "request_Create E pr = dbA E (bindA (newID E) (\<lambda>i. bindA nowA (\<lambda>now.
     let row = pr\<lparr>pr_ID := i, pr_Status := PaymentRequestPending, pr_TransactionID := None, pr_DeclineReason := None,
           pr_ReminderCount := 0, pr_LastRemindedAt := None, pr_PaidAt := None, pr_DeclinedAt := None,
           pr_CancelledAt := None, pr_CreatedAt := now\<rparr>
     in if pr_AmountCents row \<le> 0 then throwA db_error
        else bindA (modifyA (\<lambda>w. w\<lparr>w_requests := w_requests w @ [row]\<rparr>)) (\<lambda>_. retA row))))"

definition request_GetByID :: "env \<Rightarrow> string \<Rightarrow> ('l, PaymentRequest) go" where
  "request_GetByID E i = dbA E (bindA (getsA (\<lambda>w. select_one (\<lambda>p. pr_ID p = i) (w_requests w)))
     (\<lambda>r. case r of None \<Rightarrow> throwA (PaymentRequests ErrPaymentRequestNotFound) | Some p \<Rightarrow> retA p))"

text \<open>The guarded UPDATE the status changes share: only pending rows change.\<close>

definition request_update ::
    "env \<Rightarrow> (PaymentRequest \<Rightarrow> bool) \<Rightarrow> (int \<Rightarrow> PaymentRequest \<Rightarrow> PaymentRequest) \<Rightarrow> go_error \<Rightarrow> ('l, unit) go" where
  "request_update E p f none = dbA E (bindA nowA (\<lambda>now. bindA (getsA w_requests) (\<lambda>rs.
     bindA (modifyA (\<lambda>w. w\<lparr>w_requests := update_where p (f now) rs\<rparr>)) (\<lambda>_.
     if rows_affected p rs = 0 then throwA none else retA ()))))"

definition request_pending :: "string \<Rightarrow> PaymentRequest \<Rightarrow> bool" where
  "request_pending i p \<longleftrightarrow> pr_ID p = i \<and> pr_Status p = PaymentRequestPending"

definition request_Pay :: "env \<Rightarrow> string \<Rightarrow> string \<Rightarrow> ('l, unit) go" where
  "request_Pay E i tx = request_update E (request_pending i)
     (\<lambda>now p. p\<lparr>pr_Status := PaymentRequestPaid, pr_TransactionID := Some tx, pr_PaidAt := Some now\<rparr>)
     (PaymentRequests ErrPaymentRequestNotFound)"

definition request_Decline :: "env \<Rightarrow> string \<Rightarrow> string \<Rightarrow> ('l, unit) go" where
  "request_Decline E i reason = request_update E (request_pending i)
     (\<lambda>now p. p\<lparr>pr_Status := PaymentRequestDeclined, pr_DeclineReason := Some reason, pr_DeclinedAt := Some now\<rparr>)
     (PaymentRequests ErrPaymentRequestNotFound)"

definition request_Cancel :: "env \<Rightarrow> string \<Rightarrow> ('l, unit) go" where
  "request_Cancel E i = request_update E (request_pending i)
     (\<lambda>now p. p\<lparr>pr_Status := PaymentRequestCancelled, pr_CancelledAt := Some now\<rparr>)
     (PaymentRequests ErrPaymentRequestNotFound)"

definition request_IncrementReminder :: "env \<Rightarrow> string \<Rightarrow> ('l, unit) go" where
  "request_IncrementReminder E i = request_update E (\<lambda>p. request_pending i p \<and> pr_ReminderCount p < 3)
     (\<lambda>now p. p\<lparr>pr_ReminderCount := pr_ReminderCount p + 1, pr_LastRemindedAt := Some now\<rparr>)
     (PaymentRequests ErrReminderLimitReached)"

definition page_limit :: "int \<Rightarrow> nat" where
  "page_limit limit = (if limit \<le> 0 \<or> limit > 50 then 20 else nat limit)"

text \<open>A negative OFFSET is an error of the database.\<close>

definition request_list :: "env \<Rightarrow> (PaymentRequest \<Rightarrow> bool) \<Rightarrow> int \<Rightarrow> int \<Rightarrow> ('l, PaymentRequest list) go" where
  "request_list E p limit offset = dbA E (if offset < 0 then throwA db_error else getsA (\<lambda>w.
     take (page_limit limit) (drop (nat offset) (sort_key (\<lambda>r. - pr_CreatedAt r) (filter p (w_requests w))))))"

definition request_ListByRequester :: "env \<Rightarrow> string \<Rightarrow> int \<Rightarrow> int \<Rightarrow> ('l, PaymentRequest list) go" where
  "request_ListByRequester E uid limit offset = request_list E (\<lambda>r. pr_RequesterID r = uid) limit offset"

definition request_ListByPayer :: "env \<Rightarrow> string \<Rightarrow> int \<Rightarrow> int \<Rightarrow> ('l, PaymentRequest list) go" where
  "request_ListByPayer E uid limit offset = request_list E (\<lambda>r. pr_PayerID r = Some uid) limit offset"

definition request_CountPendingByPayer :: "env \<Rightarrow> string \<Rightarrow> ('l, int) go" where
  "request_CountPendingByPayer E uid = dbA E (getsA (\<lambda>w. int (rows_affected
     (\<lambda>r. pr_PayerID r = Some uid \<and> pr_Status r = PaymentRequestPending) (w_requests w))))"

definition request_ExpirePending :: "env \<Rightarrow> ('l, int) go" where
  "request_ExpirePending E = dbA E (bindA nowA (\<lambda>now. bindA (getsA w_requests) (\<lambda>rs.
     let p = (\<lambda>r. pr_Status r = PaymentRequestPending \<and> pr_ExpiresAt r < now)
     in bindA (modifyA (\<lambda>w. w\<lparr>w_requests := update_where p (\<lambda>r. r\<lparr>pr_Status := PaymentRequestExpired\<rparr>) rs\<rparr>)) (\<lambda>_.
        retA (int (rows_affected p rs))))))"

definition request_ResolvePayer :: "env \<Rightarrow> PhoneNumber \<Rightarrow> string \<Rightarrow> ('l, int) go" where
  "request_ResolvePayer E ph uid = dbA E (bindA (getsA w_requests) (\<lambda>rs.
     let p = (\<lambda>r. CountryCode (pr_PayerPhone r) = CountryCode ph \<and> Number (pr_PayerPhone r) = Number ph
           \<and> pr_PayerID r = None \<and> pr_Status r = PaymentRequestPending)
     in bindA (modifyA (\<lambda>w. w\<lparr>w_requests := update_where p (\<lambda>r. r\<lparr>pr_PayerID := Some uid\<rparr>) rs\<rparr>)) (\<lambda>_.
        retA (int (rows_affected p rs)))))"

section \<open>Cards and card authorizations\<close>

definition card_query :: "env \<Rightarrow> (Card \<Rightarrow> bool) \<Rightarrow> ('l, Card) go" where
  "card_query E p = dbA E (bindA (getsA (\<lambda>w. select_one p (w_cards w)))
     (\<lambda>r. case r of None \<Rightarrow> throwA (Cards ErrCardNotFound) | Some c \<Rightarrow> retA c))"

definition card_GetByID :: "env \<Rightarrow> string \<Rightarrow> ('l, Card) go" where
  "card_GetByID E i = card_query E (\<lambda>c. cd_ID c = i)"

definition card_GetByToken :: "env \<Rightarrow> string \<Rightarrow> ('l, Card) go" where
  "card_GetByToken E pan = card_query E (\<lambda>c. cd_TokenizedPAN c = pan)"

definition card_update :: "env \<Rightarrow> string \<Rightarrow> (Card \<Rightarrow> Card) \<Rightarrow> ('l, unit) go" where
  "card_update E i f = dbA E (bindA (getsA w_cards) (\<lambda>cs.
     bindA (modifyA (\<lambda>w. w\<lparr>w_cards := update_where (\<lambda>c. cd_ID c = i) f cs\<rparr>)) (\<lambda>_.
     if rows_affected (\<lambda>c. cd_ID c = i) cs = 0 then throwA (Cards ErrCardNotFound) else retA ())))"

definition card_UpdateStatus :: "env \<Rightarrow> string \<Rightarrow> CardStatus \<Rightarrow> ('l, unit) go" where
  "card_UpdateStatus E i status = card_update E i (\<lambda>c. c\<lparr>cd_Status := status\<rparr>)"

definition card_UpdateLimits :: "env \<Rightarrow> string \<Rightarrow> int \<Rightarrow> int \<Rightarrow> int \<Rightarrow> ('l, unit) go" where
  "card_UpdateLimits E i daily monthly perTxn = card_update E i
     (\<lambda>c. c\<lparr>cd_DailyLimitCents := daily, cd_MonthlyLimitCents := monthly, cd_PerTxnLimitCents := perTxn\<rparr>)"

definition card_UpdateToggles :: "env \<Rightarrow> string \<Rightarrow> bool \<Rightarrow> bool \<Rightarrow> bool \<Rightarrow> bool \<Rightarrow> ('l, unit) go" where
  "card_UpdateToggles E i online contactless atm international = card_update E i
     (\<lambda>c. c\<lparr>cd_AllowOnline := online, cd_AllowContactless := contactless, cd_AllowATM := atm,
        cd_AllowInternational := international\<rparr>)"

definition auth_Create :: "env \<Rightarrow> CardAuthorization \<Rightarrow> ('l, string) go" where
  "auth_Create E a = dbA E (bindA (newID E) (\<lambda>i. bindA nowA (\<lambda>now.
     bindA (modifyA (\<lambda>w. w\<lparr>w_auths := w_auths w @ [a\<lparr>ca_ID := i, ca_SettlementAmountCents := None, ca_AuthorizedAt := now,
        ca_SettledAt := None, ca_ReversedAt := None, ca_ExpiresAt := now + 7 * day_ns\<rparr>]\<rparr>)) (\<lambda>_. retA i))))"

definition auth_query :: "env \<Rightarrow> (CardAuthorization \<Rightarrow> bool) \<Rightarrow> ('l, CardAuthorization) go" where
  "auth_query E p = dbA E (bindA (getsA (\<lambda>w. select_one p (w_auths w)))
     (\<lambda>r. case r of None \<Rightarrow> throwA (General ErrNotFound) | Some a \<Rightarrow> retA a))"

definition auth_GetByID :: "env \<Rightarrow> string \<Rightarrow> ('l, CardAuthorization) go" where
  "auth_GetByID E i = auth_query E (\<lambda>a. ca_ID a = i)"

definition auth_GetByRRN :: "env \<Rightarrow> string \<Rightarrow> ('l, CardAuthorization) go" where
  "auth_GetByRRN E rrn = auth_query E (\<lambda>a. ca_RRN a = rrn)"

definition auth_update :: "env \<Rightarrow> string \<Rightarrow> (int \<Rightarrow> CardAuthorization \<Rightarrow> CardAuthorization) \<Rightarrow> ('l, unit) go" where
  "auth_update E i f = dbA E (modifyA (\<lambda>w. w\<lparr>w_auths := update_where (\<lambda>a. ca_ID a = i) (f (w_now w)) (w_auths w)\<rparr>))"

definition auth_UpdateStatus :: "env \<Rightarrow> string \<Rightarrow> AuthStatus \<Rightarrow> ('l, unit) go" where
  "auth_UpdateStatus E i status = auth_update E i (\<lambda>now a. a\<lparr>ca_Status := status\<rparr>)"

definition auth_Settle :: "env \<Rightarrow> string \<Rightarrow> int \<Rightarrow> ('l, unit) go" where
  "auth_Settle E i amount = auth_update E i
     (\<lambda>now a. a\<lparr>ca_Status := AuthCleared, ca_SettlementAmountCents := Some amount, ca_SettledAt := Some now\<rparr>)"

definition auth_Reverse :: "env \<Rightarrow> string \<Rightarrow> ('l, unit) go" where
  "auth_Reverse E i = auth_update E i (\<lambda>now a. a\<lparr>ca_Status := AuthReversed, ca_ReversedAt := Some now\<rparr>)"

definition auth_ListPendingExpired :: "env \<Rightarrow> ('l, CardAuthorization list) go" where
  "auth_ListPendingExpired E = dbA E (getsA (\<lambda>w. filter (\<lambda>a. ca_Status a = AuthApproved \<and> ca_ExpiresAt a < w_now w) (w_auths w)))"

text \<open>The sums behind the limits. A day or a month is a half-open interval of the clock.\<close>

definition auth_spent :: "CardAuthorization \<Rightarrow> bool" where
  "auth_spent a \<longleftrightarrow> ca_Status a \<in> {AuthApproved, AuthCleared, AuthPartiallyCleared}"

definition auth_sum :: "(CardAuthorization \<Rightarrow> bool) \<Rightarrow> CardAuthorization list \<Rightarrow> int" where
  "auth_sum p as = sum_list (map ca_AuthAmountCents (filter p as))"

definition same_day :: "int \<Rightarrow> int \<Rightarrow> bool" where
  "same_day now t \<longleftrightarrow> day_of t = day_of now"

definition same_month :: "int \<Rightarrow> int \<Rightarrow> bool" where
  "same_month now t \<longleftrightarrow> month_start (day_of t) = month_start (day_of now)"

definition auth_SumApprovedToday :: "env \<Rightarrow> string \<Rightarrow> ('l, int) go" where
  "auth_SumApprovedToday E cid = dbA E (getsA (\<lambda>w.
     auth_sum (\<lambda>a. ca_CardID a = cid \<and> auth_spent a \<and> same_day (w_now w) (ca_AuthorizedAt a)) (w_auths w)))"

definition auth_SumApprovedThisMonth :: "env \<Rightarrow> string \<Rightarrow> ('l, int) go" where
  "auth_SumApprovedThisMonth E cid = dbA E (getsA (\<lambda>w.
     auth_sum (\<lambda>a. ca_CardID a = cid \<and> auth_spent a \<and> same_month (w_now w) (ca_AuthorizedAt a)) (w_auths w)))"

definition auth_SumInternationalThisMonth :: "env \<Rightarrow> string \<Rightarrow> ('l, int) go" where
  "auth_SumInternationalThisMonth E uid = dbA E (getsA (\<lambda>w.
     auth_sum (\<lambda>a. list_ex (\<lambda>c. cd_ID c = ca_CardID a \<and> cd_UserID c = uid) (w_cards w) \<and> auth_spent a
       \<and> ca_MerchantCurrency a \<noteq> None \<and> ca_MerchantCurrency a \<noteq> Some ''ETB''
       \<and> same_month (w_now w) (ca_AuthorizedAt a)) (w_auths w)))"

section \<open>Exchange rates\<close>

definition fx_row_ok :: "FXRate \<Rightarrow> bool" where
  "fx_row_ok r \<longleftrightarrow> 0 < fx_MidRate r \<and> 0 < fx_BidRate r \<and> 0 < fx_AskRate r \<and> 0 \<le> fx_SpreadPercent r"

definition fx_Insert :: "env \<Rightarrow> FXRate \<Rightarrow> ('l, unit) go" where
  "fx_Insert E r = dbA E (bindA nowA (\<lambda>now. if \<not> fx_row_ok r then throwA db_error
     else modifyA (\<lambda>w. w\<lparr>w_rates := w_rates w @ [r\<lparr>fx_CreatedAt := now\<rparr>]\<rparr>)))"

text \<open>\<open>ORDER BY created_at DESC LIMIT 1\<close>; of rows with the same time the last inserted one is taken.\<close>

definition fx_GetLatest :: "env \<Rightarrow> string \<Rightarrow> string \<Rightarrow> ('l, FXRate) go" where
  "fx_GetLatest E from to = dbA E (bindA (getsA (\<lambda>w.
       sort_key (\<lambda>r. - fx_CreatedAt r) (rev (filter (\<lambda>r. fx_FromCurrency r = from \<and> fx_ToCurrency r = to) (w_rates w)))))
     (\<lambda>rs. case rs of [] \<Rightarrow> throwA (FXRates ErrFXRateNotFound) | r # _ \<Rightarrow> retA r))"

definition fx_DeleteOlderThan :: "env \<Rightarrow> int \<Rightarrow> ('l, int) go" where
  "fx_DeleteOlderThan E before = dbA E (bindA (getsA w_rates) (\<lambda>rs.
     bindA (modifyA (\<lambda>w. w\<lparr>w_rates := filter (\<lambda>r. \<not> fx_CreatedAt r < before) rs\<rparr>)) (\<lambda>_.
     retA (int (rows_affected (\<lambda>r. fx_CreatedAt r < before) rs)))))"

text \<open>Evaluation unfolds an action only when it runs.\<close>

lemmas account_tables_code [code] =
  pot_Create_def [THEN fun_cong]
  pot_Update_def [THEN fun_cong]
  pot_Archive_def [THEN fun_cong]
  pot_GetByID_def [THEN fun_cong]
  pot_ListActiveByUser_def [THEN fun_cong]
  balance_Create_def [THEN fun_cong]
  balance_SoftDelete_def [THEN fun_cong]
  balance_Reactivate_def [THEN fun_cong]
  balance_ListActiveByUser_def [THEN fun_cong]
  balance_GetByUserAndCurrency_def [THEN fun_cong]
  balance_GetSoftDeleted_def [THEN fun_cong]
  details_Create_def [THEN fun_cong]
  details_GetByCurrencyBalanceID_def [THEN fun_cong]
  details_NextAccountNumber_def [THEN fun_cong]
  request_Create_def [THEN fun_cong]
  request_GetByID_def [THEN fun_cong]
  request_update_def [THEN fun_cong]
  request_Pay_def [THEN fun_cong]
  request_Decline_def [THEN fun_cong]
  request_Cancel_def [THEN fun_cong]
  request_IncrementReminder_def [THEN fun_cong]
  request_list_def [THEN fun_cong]
  request_ListByRequester_def [THEN fun_cong]
  request_ListByPayer_def [THEN fun_cong]
  request_CountPendingByPayer_def [THEN fun_cong]
  request_ExpirePending_def [THEN fun_cong]
  request_ResolvePayer_def [THEN fun_cong]
  card_query_def [THEN fun_cong]
  card_GetByID_def [THEN fun_cong]
  card_GetByToken_def [THEN fun_cong]
  card_update_def [THEN fun_cong]
  card_UpdateStatus_def [THEN fun_cong]
  card_UpdateLimits_def [THEN fun_cong]
  card_UpdateToggles_def [THEN fun_cong]
  auth_Create_def [THEN fun_cong]
  auth_query_def [THEN fun_cong]
  auth_GetByID_def [THEN fun_cong]
  auth_GetByRRN_def [THEN fun_cong]
  auth_update_def [THEN fun_cong]
  auth_UpdateStatus_def [THEN fun_cong]
  auth_Settle_def [THEN fun_cong]
  auth_Reverse_def [THEN fun_cong]
  auth_ListPendingExpired_def [THEN fun_cong]
  auth_SumApprovedToday_def [THEN fun_cong]
  auth_SumApprovedThisMonth_def [THEN fun_cong]
  auth_SumInternationalThisMonth_def [THEN fun_cong]
  fx_GetLatest_def [THEN fun_cong]
  fx_DeleteOlderThan_def [THEN fun_cong]

section \<open>No repository touches the ledger\<close>

lemma calm_pot_Create [calms]: "calm (pot_Create E pot)"
  unfolding pot_Create_def Let_def by (rule calms | simp)+

lemma calm_pot_Update [calms]: "calm (pot_Update E pot)"
  unfolding pot_Update_def Let_def by (rule calms | simp)+

lemma calm_pot_Archive [calms]: "calm (pot_Archive E i uid)"
  unfolding pot_Archive_def Let_def by (rule calms | simp)+

lemma calm_pot_GetByID [calms]: "calm (pot_GetByID E i)"
  unfolding pot_GetByID_def Let_def by (rule calms | simp)+

lemma calm_pot_ListActiveByUser [calms]: "calm (pot_ListActiveByUser E uid)"
  unfolding pot_ListActiveByUser_def Let_def by (rule calms | simp)+

lemma calm_balance_Create [calms]: "calm (balance_Create E bal)"
  unfolding balance_Create_def Let_def by (rule calms | simp)+

lemma calm_balance_SoftDelete [calms]: "calm (balance_SoftDelete E uid cur)"
  unfolding balance_SoftDelete_def Let_def by (rule calms | simp)+

lemma calm_balance_Reactivate [calms]: "calm (balance_Reactivate E uid cur)"
  unfolding balance_Reactivate_def Let_def by (rule calms | simp)+

lemma calm_balance_ListActiveByUser [calms]: "calm (balance_ListActiveByUser E uid)"
  unfolding balance_ListActiveByUser_def Let_def by (rule calms | simp)+

lemma calm_balance_GetByUserAndCurrency [calms]: "calm (balance_GetByUserAndCurrency E uid cur)"
  unfolding balance_GetByUserAndCurrency_def Let_def by (rule calms | simp)+

lemma calm_balance_GetSoftDeleted [calms]: "calm (balance_GetSoftDeleted E uid cur)"
  unfolding balance_GetSoftDeleted_def Let_def by (rule calms | simp)+

lemma calm_details_Create [calms]: "calm (details_Create E d)"
  unfolding details_Create_def Let_def by (rule calms | simp)+

lemma calm_details_GetByCurrencyBalanceID [calms]: "calm (details_GetByCurrencyBalanceID E i)"
  unfolding details_GetByCurrencyBalanceID_def Let_def by (rule calms | simp)+

lemma calm_details_NextAccountNumber [calms]: "calm (details_NextAccountNumber E)"
  unfolding details_NextAccountNumber_def Let_def by (rule calms | simp)+

lemma calm_request_Create [calms]: "calm (request_Create E pr)"
  unfolding request_Create_def Let_def by (rule calms | simp)+

lemma calm_request_GetByID [calms]: "calm (request_GetByID E i)"
  unfolding request_GetByID_def Let_def by (rule calms | simp)+

lemma calm_request_update [calms]: "calm (request_update E p f none)"
  unfolding request_update_def Let_def by (rule calms | simp)+

lemma calm_request_Pay [calms]: "calm (request_Pay E i tx)"
  unfolding request_Pay_def Let_def by (rule calms | simp)+

lemma calm_request_Decline [calms]: "calm (request_Decline E i reason)"
  unfolding request_Decline_def Let_def by (rule calms | simp)+

lemma calm_request_Cancel [calms]: "calm (request_Cancel E i)"
  unfolding request_Cancel_def Let_def by (rule calms | simp)+

lemma calm_request_IncrementReminder [calms]: "calm (request_IncrementReminder E i)"
  unfolding request_IncrementReminder_def Let_def by (rule calms | simp)+

lemma calm_request_list [calms]: "calm (request_list E p limit offset)"
  unfolding request_list_def Let_def by (rule calms | simp)+

lemma calm_request_ListByRequester [calms]: "calm (request_ListByRequester E uid limit offset)"
  unfolding request_ListByRequester_def Let_def by (rule calms | simp)+

lemma calm_request_ListByPayer [calms]: "calm (request_ListByPayer E uid limit offset)"
  unfolding request_ListByPayer_def Let_def by (rule calms | simp)+

lemma calm_request_CountPendingByPayer [calms]: "calm (request_CountPendingByPayer E uid)"
  unfolding request_CountPendingByPayer_def Let_def by (rule calms | simp)+

lemma calm_request_ExpirePending [calms]: "calm (request_ExpirePending E)"
  unfolding request_ExpirePending_def Let_def by (rule calms | simp)+

lemma calm_request_ResolvePayer [calms]: "calm (request_ResolvePayer E ph uid)"
  unfolding request_ResolvePayer_def Let_def by (rule calms | simp)+

lemma calm_card_query [calms]: "calm (card_query E p)"
  unfolding card_query_def Let_def by (rule calms | simp)+

lemma calm_card_GetByID [calms]: "calm (card_GetByID E i)"
  unfolding card_GetByID_def Let_def by (rule calms | simp)+

lemma calm_card_GetByToken [calms]: "calm (card_GetByToken E pan)"
  unfolding card_GetByToken_def Let_def by (rule calms | simp)+

lemma calm_card_update [calms]: "calm (card_update E i f)"
  unfolding card_update_def Let_def by (rule calms | simp)+

lemma calm_card_UpdateStatus [calms]: "calm (card_UpdateStatus E i status)"
  unfolding card_UpdateStatus_def Let_def by (rule calms | simp)+

lemma calm_card_UpdateLimits [calms]: "calm (card_UpdateLimits E i daily monthly perTxn)"
  unfolding card_UpdateLimits_def Let_def by (rule calms | simp)+

lemma calm_card_UpdateToggles [calms]: "calm (card_UpdateToggles E i online contactless atm international)"
  unfolding card_UpdateToggles_def Let_def by (rule calms | simp)+

lemma calm_auth_Create [calms]: "calm (auth_Create E a)"
  unfolding auth_Create_def Let_def by (rule calms | simp)+

lemma calm_auth_query [calms]: "calm (auth_query E p)"
  unfolding auth_query_def Let_def by (rule calms | simp)+

lemma calm_auth_GetByID [calms]: "calm (auth_GetByID E i)"
  unfolding auth_GetByID_def Let_def by (rule calms | simp)+

lemma calm_auth_GetByRRN [calms]: "calm (auth_GetByRRN E rrn)"
  unfolding auth_GetByRRN_def Let_def by (rule calms | simp)+

lemma calm_auth_update [calms]: "calm (auth_update E i f)"
  unfolding auth_update_def Let_def by (rule calms | simp)+

lemma calm_auth_UpdateStatus [calms]: "calm (auth_UpdateStatus E i status)"
  unfolding auth_UpdateStatus_def Let_def by (rule calms | simp)+

lemma calm_auth_Settle [calms]: "calm (auth_Settle E i amount)"
  unfolding auth_Settle_def Let_def by (rule calms | simp)+

lemma calm_auth_Reverse [calms]: "calm (auth_Reverse E i)"
  unfolding auth_Reverse_def Let_def by (rule calms | simp)+

lemma calm_auth_ListPendingExpired [calms]: "calm (auth_ListPendingExpired E)"
  unfolding auth_ListPendingExpired_def Let_def by (rule calms | simp)+

lemma calm_auth_SumApprovedToday [calms]: "calm (auth_SumApprovedToday E cid)"
  unfolding auth_SumApprovedToday_def Let_def by (rule calms | simp)+

lemma calm_auth_SumApprovedThisMonth [calms]: "calm (auth_SumApprovedThisMonth E cid)"
  unfolding auth_SumApprovedThisMonth_def Let_def by (rule calms | simp)+

lemma calm_auth_SumInternationalThisMonth [calms]: "calm (auth_SumInternationalThisMonth E uid)"
  unfolding auth_SumInternationalThisMonth_def Let_def by (rule calms | simp)+

lemma calm_fx_GetLatest [calms]: "calm (fx_GetLatest E from to)"
  unfolding fx_GetLatest_def Let_def by (rule calms | simp)+

lemma calm_fx_DeleteOlderThan [calms]: "calm (fx_DeleteOlderThan E before)"
  unfolding fx_DeleteOlderThan_def Let_def by (rule calms | simp)+

end
