(* ===== verification/Lending.thy ===== *)
theory Lending
  imports Validate Account_Tables
begin

text \<open>
  \<open>internal/services/lending\<close>: applying for a loan, repaying it by hand or by the daily sweep, the weekly
  trust score and the read-only views. The blacklist of the central bank is a parameter; its boolean is
  \<open>false\<close> when the call fails.
\<close>

section \<open>Dates\<close>

text \<open>\<open>time.AddDate\<close> in UTC. \<open>month_index\<close> counts the months since March of the year 0; adding months keeps
  the day of the month and lets it run over into the next month.\<close>

definition add_days :: "int \<Rightarrow> int \<Rightarrow> int" where
  "add_days now d = now + d * day_ns"

definition month_index :: "int \<Rightarrow> int" where
  "month_index z =
     (let z = z + 719468;
          doe = z mod 146097;
          yoe = (doe - doe div 1460 + doe div 36524 - doe div 146096) div 365;
          doy = doe - (365 * yoe + yoe div 4 - yoe div 100)
      in (yoe + z div 146097 * 400) * 12 + (5 * doy + 2) div 153)"

definition first_of_month :: "int \<Rightarrow> int" where
  "first_of_month k =
     (let y = k div 12; mp = k mod 12 in 365 * y + y div 4 - y div 100 + y div 400 + (153 * mp + 2) div 5 - 719468)"

definition add_months :: "int \<Rightarrow> int \<Rightarrow> int" where
  "add_months now k =
     (first_of_month (month_index (day_of now) + k) + day_in_month (day_of now) - 1) * day_ns + now mod day_ns"

text \<open>The layout \<open>2006-01\<close>.\<close>

definition format_month :: "int \<Rightarrow> string" where
  "format_month t = (let k = month_index (day_of t) + 2 in pad0 4 (nat (k div 12)) @ ''-'' @ pad0 2 (nat (k mod 12 + 1)))"

section \<open>Disbursement and manual repayment\<close>

record LoanApplyRequest =
  la_PrincipalCents :: int
  la_DurationDays :: int

definition apply_Validate :: "env \<Rightarrow> LoanApplyRequest \<Rightarrow> go_error + unit" where
  "apply_Validate E r =
     (case Struct E [(FInt (la_PrincipalCents r), [''required'', ''gt=0'']),
        (FInt (la_DurationDays r), [''required'', ''gte=7'', ''lte=365''])] of
        Inl e \<Rightarrow> Inl e
      | Inr _ \<Rightarrow> AmountCents (la_PrincipalCents r))"

record LoanRepayRequest =
  lr_AmountCents :: int

definition repay_Validate :: "env \<Rightarrow> LoanRepayRequest \<Rightarrow> go_error + unit" where
  "repay_Validate E r =
     (case Struct E [(FInt (lr_AmountCents r), [''required'', ''gt=0''])] of
        Inl e \<Rightarrow> Inl e
      | Inr _ \<Rightarrow> AmountCents (lr_AmountCents r))"

text \<open>The Go constants \<open>0.05\<close>, \<open>0.20\<close> and \<open>0.8\<close> are the nearest doubles.\<close>

definition facilitation_fee :: "int \<Rightarrow> int" where
  "facilitation_fee principalCents = trunc64 (f_mul (f_of_int principalCents) (fl (5 / 100)))"

text \<open>The split of a payment between principal and fee by the ratio of the loan.\<close>

definition principal_portion :: "Loan \<Rightarrow> int \<Rightarrow> int" where
  "principal_portion loan amountCents =
     (let ratio = f_div (f_of_int (ln_PrincipalAmountCents loan)) (f_of_int (ln_TotalDueCents loan))
      in trunc64 (f_mul (f_of_int amountCents) ratio))"

text \<open>Number of installments, and the loop that builds them: the last one takes the rest.\<close>

definition installment_months :: "int \<Rightarrow> int" where
  "installment_months durationDays = (let m = go_div durationDays 30 in if m < 1 then 1 else m)"

definition installment :: "string \<Rightarrow> int \<Rightarrow> int \<Rightarrow> int \<Rightarrow> int \<Rightarrow> LoanInstallment" where
  "installment loanID totalDueCents months now i =
     (let amount = go_div totalDueCents months;
          amt = (if i = months then i64 (totalDueCents - i64 (amount * (months - 1))) else amount)
      in \<lparr>li_ID = '''', li_LoanID = loanID, li_InstallmentNumber = i, li_AmountDueCents = amt, li_AmountPaidCents = 0,
          li_DueDate = add_months now i, li_IsPaid = False, li_PaidAt = None, li_LedgerRepaymentTx = None\<rparr>)"

definition installments :: "string \<Rightarrow> int \<Rightarrow> int \<Rightarrow> int \<Rightarrow> LoanInstallment list" where
  "installments loanID totalDueCents months now = map (installment loanID totalDueCents months now) [1..months]"

definition check_blacklist :: "(string \<Rightarrow> go_error + bool) \<Rightarrow> User \<Rightarrow> ('l, unit) go" where
  "check_blacklist nbe user =
     (case u_FaydaIDNumber user of
        None \<Rightarrow> retA ()
      | Some fid \<Rightarrow> bindA (liftE (nbe fid)) (\<lambda>isBlacklisted.
          if isBlacklisted then throwA (Lending ErrNBEBlacklisted) else retA ()))"

text \<open>The checks of an application.\<close>

definition loan_applicant ::
    "env \<Rightarrow> (string \<Rightarrow> go_error + bool) \<Rightarrow> string \<Rightarrow> LoanApplyRequest \<Rightarrow> ('l, User) go" where
  "loan_applicant E nbe userID req =
     bindA (liftE (apply_Validate E req)) (\<lambda>_.
     bindA (user_GetByID E userID) (\<lambda>user.
     if u_IsFrozen user then throwA (Identity ErrUserFrozen) else
     bindA (loan_GetCreditProfile E userID) (\<lambda>profile.
     if \<not> IsEligibleForLoan profile then throwA (Lending ErrNoEligibleProfile)
     else if la_PrincipalCents req > cp_ApprovedLimitCents profile then throwA (Lending ErrLoanLimitExceeded)
     else
     bindA (loan_ListActiveByUser E userID) (\<lambda>activeLoans.
     if activeLoans \<noteq> [] then throwA (Lending ErrActiveLoanExists) else
     bindA (check_blacklist nbe user) (\<lambda>_.
     retA user)))))"

text \<open>The status of the row is the default of its column; the Go value that is returned leaves it empty.\<close>

definition new_loan :: "string \<Rightarrow> LoanApplyRequest \<Rightarrow> int \<Rightarrow> string \<Rightarrow> string \<Rightarrow> Loan" where
  "new_loan userID req now ik txID =
     \<lparr>ln_ID = '''', ln_UserID = userID, ln_PrincipalAmountCents = la_PrincipalCents req,
      ln_InterestFeeCents = facilitation_fee (la_PrincipalCents req),
      ln_TotalDueCents = i64 (la_PrincipalCents req + facilitation_fee (la_PrincipalCents req)),
      ln_TotalPaidCents = 0, ln_DurationDays = la_DurationDays req, ln_DisbursedAt = 0,
      ln_DueDate = add_days now (la_DurationDays req), ln_Status = LoanActive, ln_DaysPastDue = 0,
      ln_LedgerLoanAccount = ''loan:'' @ ik, ln_LedgerDisbursementTx = Some txID, ln_IdempotencyKey = Some ik\<rparr>"

text \<open>Everything after the money has moved.\<close>

definition record_loan :: "env \<Rightarrow> string \<Rightarrow> LoanApplyRequest \<Rightarrow> string \<Rightarrow> string \<Rightarrow> ('l, Loan) go" where
  "record_loan E userID req ik txID =
     bindA nowA (\<lambda>now.
     bindA (loan_CreateLoan E (new_loan userID req now ik txID)) (\<lambda>loan.
     bindA nowA (\<lambda>now.
     bindA (loan_CreateInstallments E (installments (ln_ID loan) (ln_TotalDueCents loan)
       (installment_months (la_DurationDays req)) now)) (\<lambda>_.
     bindA (ignoreA (receipt_Create E (receipt0\<lparr>rc_UserID := userID, rc_LedgerTransactionID := txID,
       rc_IdempotencyKey := Some ik, rc_Type := ReceiptLoanDisbursement, rc_Status := ReceiptCompleted,
       rc_AmountCents := la_PrincipalCents req, rc_Currency := CurrencyETB, rc_Narration := Some ''Loan disbursed''\<rparr>))) (\<lambda>_.
     bindA (ignoreA (audit_Log E (audit_entry ''loan_disbursed'' ''user'' (Some userID) ''loan'' (ln_ID loan)))) (\<lambda>_.
     retA loan))))))"

definition DisburseLoan' ::
    "env \<Rightarrow> 'l Client \<Rightarrow> (string \<Rightarrow> go_error + bool) \<Rightarrow> string \<Rightarrow> LoanApplyRequest \<Rightarrow> ('l, Loan) go" where
  "DisburseLoan' E L nbe userID req =
     bindA (loan_applicant E nbe userID req) (\<lambda>user.
     bindA (newID E) (\<lambda>ik.
     bindA (ledA (DisburseLoan L ik (u_LedgerWalletID user) (la_PrincipalCents req) (FormatAsset []))) (\<lambda>txID.
     record_loan E userID req ik txID)))"

text \<open>The loop over the installments: whole unpaid ones are marked as long as the payment covers them.\<close>

fun mark_covered :: "env \<Rightarrow> string \<Rightarrow> int \<Rightarrow> int \<Rightarrow> LoanInstallment list \<Rightarrow> ('l, unit) go" where
  "mark_covered E ik amountCents covered [] = retA ()"
| "mark_covered E ik amountCents covered (inst # is) =
     (if li_IsPaid inst then mark_covered E ik amountCents covered is
      else if i64 (covered + li_AmountDueCents inst) \<le> amountCents then
        bindA (ignoreA (loan_MarkInstallmentPaid E (li_ID inst) ik)) (\<lambda>_.
        mark_covered E ik amountCents (i64 (covered + li_AmountDueCents inst)) is)
      else retA ())"

definition repayment_receipt :: "string \<Rightarrow> string \<Rightarrow> int \<Rightarrow> int \<Rightarrow> TransactionReceipt" where
  "repayment_receipt userID ik amountCents feePortion =
     receipt0\<lparr>rc_UserID := userID, rc_LedgerTransactionID := ik, rc_IdempotencyKey := Some ik, rc_Type := ReceiptLoanRepayment,
       rc_Status := ReceiptCompleted, rc_AmountCents := amountCents, rc_Currency := CurrencyETB, rc_FeeCents := feePortion,
       rc_Narration := Some ''Loan repayment''\<rparr>"

definition repayable :: "env \<Rightarrow> string \<Rightarrow> string \<Rightarrow> LoanRepayRequest \<Rightarrow> ('l, Loan) go" where
  "repayable E userID loanID req =
     bindA (liftE (repay_Validate E req)) (\<lambda>_.
     bindA (loan_GetLoan E loanID) (\<lambda>loan.
     if ln_UserID loan \<noteq> userID then throwA (Identity ErrForbidden)
     else if ln_Status loan \<noteq> LoanActive \<and> ln_Status loan \<noteq> LoanInArrears then throwA (Lending ErrLoanNotFound)
     else retA loan))"

definition record_repayment :: "env \<Rightarrow> string \<Rightarrow> Loan \<Rightarrow> string \<Rightarrow> string \<Rightarrow> int \<Rightarrow> int \<Rightarrow> ('l, unit) go" where
  "record_repayment E userID loan loanID ik amountCents feePortion =
     bindA (ignoreA (receipt_Create E (repayment_receipt userID ik amountCents feePortion))) (\<lambda>_.
     bindA (loan_IncrementPaid E loanID amountCents) (\<lambda>_.
     bindA (loan_ListInstallmentsByLoan E loanID) (\<lambda>is.
     bindA (mark_covered E ik amountCents 0 is) (\<lambda>_.
     bindA (whenA (i64 (ln_TotalPaidCents loan + amountCents) \<ge> ln_TotalDueCents loan)
       (ignoreA (loan_UpdateLoanStatus E loanID LoanRepaid 0))) (\<lambda>_.
     ignoreA (audit_Log E (audit_entry ''loan_manual_repayment'' ''user'' (Some userID) ''loan'' loanID)))))))"

definition ManualRepay :: "env \<Rightarrow> 'l Client \<Rightarrow> string \<Rightarrow> string \<Rightarrow> LoanRepayRequest \<Rightarrow> ('l, unit) go" where
  "ManualRepay E L userID loanID req =
     bindA (repayable E userID loanID req) (\<lambda>loan.
     let remaining = RemainingCents loan;
         amountCents = (if lr_AmountCents req > remaining then remaining else lr_AmountCents req) in
     bindA (user_GetByID E userID) (\<lambda>user.
     bindA (newID E) (\<lambda>ik.
     let principalPortion = principal_portion loan amountCents;
         feePortion = i64 (amountCents - principalPortion) in
     bindA (ledA (CollectLoanRepayment L ik (u_LedgerWalletID user) principalPortion feePortion (FormatAsset []))) (\<lambda>_.
     record_repayment E userID loan loanID ik amountCents feePortion))))"

section \<open>The daily sweep\<close>

definition processInstallment :: "env \<Rightarrow> 'l Client \<Rightarrow> LoanInstallment \<Rightarrow> ('l, unit) go" where
  "processInstallment E L inst =
     bindA (loan_GetLoan E (li_LoanID inst)) (\<lambda>loan.
     bindA (user_GetByID E (ln_UserID loan)) (\<lambda>user.
     bindA (newID E) (\<lambda>ik.
     let principalPortion = principal_portion loan (li_AmountDueCents inst);
         feePortion = i64 (li_AmountDueCents inst - principalPortion) in
     bindA (ledA (CollectLoanRepayment L ik (u_LedgerWalletID user) principalPortion feePortion (FormatAsset []))) (\<lambda>_.
     bindA (ignoreA (receipt_Create E (repayment_receipt (ln_UserID loan) ik (li_AmountDueCents inst) feePortion))) (\<lambda>_.
     bindA (loan_MarkInstallmentPaid E (li_ID inst) ik) (\<lambda>_.
     bindA (loan_IncrementPaid E (ln_ID loan) (li_AmountDueCents inst)) (\<lambda>_.
     ignoreA (audit_Log E (audit_entry ''loan_repayment'' ''cron'' (Some (ln_UserID loan)) ''loan'' (ln_ID loan))))))))))"

definition AutoSweep :: "env \<Rightarrow> 'l Client \<Rightarrow> ('l, unit) go" where
  "AutoSweep E L =
     bindA (loan_ListDueUnpaidInstallments E) (\<lambda>is.
     bindA (mapA (\<lambda>inst. ignoreA (processInstallment E L inst)) is) (\<lambda>_. retA ()))"

section \<open>The trust score\<close>

definition total_inflow :: "string \<Rightarrow> Transaction list \<Rightarrow> int" where
  "total_inflow asset history = foldl (\<lambda>t tx. if tx_IsCredit tx \<and> tx_Asset tx = asset then i64 (t + tx_AmountCents tx) else t) 0 history"

definition trust_score :: "int \<Rightarrow> int \<Rightarrow> int \<Rightarrow> int" where
  "trust_score totalInflow balance latePayments =
     (let monthlyInflowETB = f_div (f_div (f_of_int totalInflow) 3) (f_of_int CentsFactor);
          cashFlowPoints = min 400 (f_mul (f_div monthlyInflowETB 1000) 10);
          score = f_add 300 cashFlowPoints;
          balanceETB = f_div (f_of_int balance) (f_of_int CentsFactor);
          stabilityPoints = min 200 (f_mul (f_div balanceETB 500) 20);
          score = f_add score stabilityPoints;
          score = f_sub score (f_of_int (i64 (latePayments * 50)))
      in trunc64 (max 300 (min 1000 score)))"

definition new_limit :: "int \<Rightarrow> int \<Rightarrow> int" where
  "new_limit finalScore totalInflow =
     (if finalScore > 600 then trunc64 (f_mul (f_of_int (go_div totalInflow 3)) (fl (20 / 100))) else 0)"

text \<open>The float computations run inside an action, so that evaluation meets numbers only.\<close>

definition scored_profile :: "string \<Rightarrow> int \<Rightarrow> int \<Rightarrow> int \<Rightarrow> bool \<Rightarrow> int \<Rightarrow> ('l, CreditProfile) go" where
  "scored_profile userID totalInflow balance latePayments isBlacklisted now w =
     (let finalScore = trust_score totalInflow balance latePayments in
      (Inr \<lparr>cp_UserID = userID, cp_TrustScore = finalScore, cp_ApprovedLimitCents = new_limit finalScore totalInflow,
        cp_AvgMonthlyInflowCents = go_div totalInflow 3, cp_AvgMonthlyBalanceCents = balance, cp_ActiveDaysPerMonth = 0,
        cp_TotalLoansRepaid = 0, cp_LatePaymentsCount = latePayments, cp_CurrentOutstandingCents = 0,
        cp_IsNBEBlacklisted = isBlacklisted, cp_BlacklistCheckedAt = Some now, cp_LastCalculatedAt = now\<rparr>, w))"

definition is_blacklisted :: "(string \<Rightarrow> go_error + bool) \<Rightarrow> User \<Rightarrow> bool" where
  "is_blacklisted nbe user =
     (case u_FaydaIDNumber user of None \<Rightarrow> False | Some fid \<Rightarrow> (case nbe fid of Inl e \<Rightarrow> False | Inr b \<Rightarrow> b))"

definition CalculateTrustScore ::
    "env \<Rightarrow> 'l Client \<Rightarrow> Chart \<Rightarrow> (string \<Rightarrow> go_error + bool) \<Rightarrow> string \<Rightarrow> ('l, unit) go" where
  "CalculateTrustScore E L chart nbe userID =
     bindA (user_GetByID E userID) (\<lambda>user.
     let asset = FormatAsset [] in
     bindA (ledA (GetAccountHistory L (MainAccount chart (u_LedgerWalletID user)) 500)) (\<lambda>history.
     bindA (ledA (GetWalletBalance L (u_LedgerWalletID user) asset)) (\<lambda>balance.
     bindA (loan_CountLatePayments E userID) (\<lambda>latePayments.
     bindA nowA (\<lambda>now.
     bindA (scored_profile userID (total_inflow asset history) (i64 balance) latePayments (is_blacklisted nbe user) now) (\<lambda>profile.
     bindA (loan_UpsertCreditProfile E profile) (\<lambda>_.
     ignoreA (audit_Log E (audit_entry ''credit_score_updated'' ''cron'' (Some userID) ''credit_profile'' userID)))))))))"

section \<open>Queries\<close>

record LoanEligibility =
  le_IsEligible :: bool
  le_HasActiveLoan :: bool
  le_TrustScore :: int
  le_ApprovedLimitCents :: int
  le_ApprovedLimitDisplay :: string
  le_OutstandingCents :: int
  le_OutstandingDisplay :: string
  le_AvailableCents :: int
  le_AvailableDisplay :: string
  le_IsNBEBlacklisted :: bool
  le_TotalLoansRepaid :: int
  le_LatePaymentsCount :: int
  le_FacilitationFeePct :: string
  le_Reason :: string

definition ineligibilityReason :: "CreditProfile \<Rightarrow> string" where
  "ineligibilityReason p =
     (if cp_IsNBEBlacklisted p then ''Your account is flagged by the National Bank of Ethiopia credit registry.''
      else if cp_CurrentOutstandingCents p > 0 then ''You have an outstanding loan. Repay it to unlock new borrowing.''
      else if cp_TrustScore p \<le> 600 then ''Your trust score ('' @ itoa (cp_TrustScore p)
        @ '') is below the minimum (600). Keep using your wallet to improve it.''
      else if AvailableBorrowingCents p \<le> 0 then ''You have reached your borrowing limit. Repay existing loans to unlock more credit.''
      else ''You are not eligible for a loan at this time.'')"

definition GetEligibility :: "env \<Rightarrow> string \<Rightarrow> ('l, LoanEligibility) go" where
  "GetEligibility E userID =
     bindA (user_GetByID E userID) (\<lambda>_.
     bindA (tryA (loan_GetCreditProfile E userID)) (\<lambda>r.
     case r of
       Inl e \<Rightarrow> retA \<lparr>le_IsEligible = False, le_HasActiveLoan = False, le_TrustScore = 0, le_ApprovedLimitCents = 0,
         le_ApprovedLimitDisplay = '''', le_OutstandingCents = 0, le_OutstandingDisplay = '''', le_AvailableCents = 0,
         le_AvailableDisplay = '''', le_IsNBEBlacklisted = False, le_TotalLoansRepaid = 0, le_LatePaymentsCount = 0,
         le_FacilitationFeePct = ''5%'', le_Reason = ''No credit profile yet. Keep using your wallet to build a trust score.''\<rparr>
     | Inr profile \<Rightarrow>
         let available = AvailableBorrowingCents profile;
             eligible = (IsEligibleForLoan profile \<and> available > 0) in
         retA \<lparr>le_IsEligible = eligible, le_HasActiveLoan = cp_CurrentOutstandingCents profile > 0,
           le_TrustScore = cp_TrustScore profile, le_ApprovedLimitCents = cp_ApprovedLimitCents profile,
           le_ApprovedLimitDisplay = Display (cp_ApprovedLimitCents profile) CurrencyETB,
           le_OutstandingCents = cp_CurrentOutstandingCents profile,
           le_OutstandingDisplay = Display (cp_CurrentOutstandingCents profile) CurrencyETB,
           le_AvailableCents = available, le_AvailableDisplay = Display available CurrencyETB,
           le_IsNBEBlacklisted = cp_IsNBEBlacklisted profile, le_TotalLoansRepaid = cp_TotalLoansRepaid profile,
           le_LatePaymentsCount = cp_LatePaymentsCount profile, le_FacilitationFeePct = ''5%'',
           le_Reason = (if eligible then '''' else ineligibilityReason profile)\<rparr>))"

record LoanSummary =
  ls_Loan :: Loan
  ls_RemainingCents :: int
  ls_RemainingDisplay :: string
  ls_ProgressPct :: int

record LoanStats =
  lt_TotalBorrowedCents :: int
  lt_TotalBorrowedDisplay :: string
  lt_TotalRepaidCents :: int
  lt_TotalRepaidDisplay :: string
  lt_ActiveLoansCount :: int
  lt_CompletedLoansCount :: int

record LoanHistoryPage =
  lh_Loans :: "LoanSummary list"
  lh_TotalCount :: int
  lh_Limit :: int
  lh_Offset :: int
  lh_Stats :: LoanStats

definition progressPct :: "Loan \<Rightarrow> int" where
  "progressPct loan = (if ln_TotalDueCents loan > 0 then go_div (i64 (ln_TotalPaidCents loan * 100)) (ln_TotalDueCents loan) else 0)"

definition loan_summary :: "Loan \<Rightarrow> LoanSummary" where
  "loan_summary loan = \<lparr>ls_Loan = loan, ls_RemainingCents = RemainingCents loan,
     ls_RemainingDisplay = Display (RemainingCents loan) CurrencyETB, ls_ProgressPct = progressPct loan\<rparr>"

definition loan_stats :: "Loan list \<Rightarrow> LoanStats" where
  "loan_stats loans =
     (let borrowed = foldl (\<lambda>t l. i64 (t + ln_PrincipalAmountCents l)) 0 loans;
          repaid = foldl (\<lambda>t l. i64 (t + ln_TotalPaidCents l)) 0 loans
      in \<lparr>lt_TotalBorrowedCents = borrowed, lt_TotalBorrowedDisplay = Display borrowed CurrencyETB,
          lt_TotalRepaidCents = repaid, lt_TotalRepaidDisplay = Display repaid CurrencyETB,
          lt_ActiveLoansCount = int (length (filter (\<lambda>l. ln_Status l \<in> {LoanActive, LoanInArrears}) loans)),
          lt_CompletedLoansCount = int (length (filter (\<lambda>l. ln_Status l = LoanRepaid) loans))\<rparr>)"

definition ListHistory :: "env \<Rightarrow> string \<Rightarrow> int \<Rightarrow> int \<Rightarrow> ('l, LoanHistoryPage) go" where
  "ListHistory E userID limit offset =
     (let limit = (if limit \<le> 0 \<or> limit > 50 then 20 else limit);
          offset = (if offset < 0 then 0 else offset) in
      bindA (loan_ListAllByUser E userID (nat limit) (nat offset)) (\<lambda>loans.
      bindA (loan_CountByUser E userID) (\<lambda>count.
      retA \<lparr>lh_Loans = map loan_summary loans, lh_TotalCount = count, lh_Limit = limit, lh_Offset = offset,
        lh_Stats = loan_stats loans\<rparr>)))"

definition GetLoanDetail :: "env \<Rightarrow> string \<Rightarrow> string \<Rightarrow> ('l, LoanSummary \<times> LoanInstallment list) go" where
  "GetLoanDetail E userID loanID =
     bindA (loan_GetLoan E loanID) (\<lambda>loan.
     if ln_UserID loan \<noteq> userID then throwA (Identity ErrForbidden) else
     bindA (loan_ListInstallmentsByLoan E loanID) (\<lambda>is.
     retA (loan_summary loan, is)))"

record CreditScoreBreakdown =
  sb_TrustScore :: int
  sb_MaxScore :: int
  sb_CashFlowPoints :: int
  sb_StabilityPoints :: int
  sb_PenaltyPoints :: int
  sb_BasePoints :: int
  sb_Tips :: "string list"

definition generateTips :: "CreditProfile \<Rightarrow> string list" where
  "generateTips p =
     (let tips = (if cp_AvgMonthlyInflowCents p < 5000000
                    then [''Increase your monthly deposits to improve your cash flow score.''] else [])
            @ (if cp_AvgMonthlyBalanceCents p < 1000000
                 then [''Maintain a higher average balance to boost your stability score.''] else [])
            @ (if cp_LatePaymentsCount p > 0
                 then [''Avoid late loan payments -- each one reduces your score by 50 points.''] else [])
            @ (if cp_TotalLoansRepaid p = 0
                 then [''Successfully repaying your first loan will significantly improve your profile.''] else [])
      in if tips = [] then [''Your credit profile is strong. Keep it up!''] else tips)"

definition score_breakdown :: "CreditProfile \<Rightarrow> CreditScoreBreakdown" where
  "score_breakdown profile =
     (let penaltyPoints = i64 (cp_LatePaymentsCount profile * 50);
          cashFlow = i64 (cp_TrustScore profile - 300 + penaltyPoints);
          stability = (if cashFlow > 400 then cashFlow - 400 else 0);
          cashFlow = (if cashFlow > 400 then 400 else cashFlow)
      in \<lparr>sb_TrustScore = cp_TrustScore profile, sb_MaxScore = 1000,
          sb_CashFlowPoints = (if cashFlow < 0 then 0 else cashFlow),
          sb_StabilityPoints = (if stability > 200 then 200 else stability),
          sb_PenaltyPoints = i64 (- penaltyPoints), sb_BasePoints = 300, sb_Tips = generateTips profile\<rparr>)"

definition GetCreditScore :: "env \<Rightarrow> string \<Rightarrow> ('l, CreditScoreBreakdown) go" where
  "GetCreditScore E userID =
     bindA (user_GetByID E userID) (\<lambda>_.
     bindA (tryA (loan_GetCreditProfile E userID)) (\<lambda>r.
     case r of
       Inl e \<Rightarrow> retA \<lparr>sb_TrustScore = 300, sb_MaxScore = 1000, sb_CashFlowPoints = 0, sb_StabilityPoints = 0,
         sb_PenaltyPoints = 0, sb_BasePoints = 300, sb_Tips = [''Keep using your wallet to build a trust score.'']\<rparr>
     | Inr profile \<Rightarrow> retA (score_breakdown profile)))"

record CreditScoreHistoryEntry =
  sh_Month :: string
  sh_Score :: int

definition history_score :: "int \<Rightarrow> int \<Rightarrow> int" where
  "history_score currentScore i =
     (if i = 5 then currentScore
      else 300 + trunc64 (f_mul (f_mul (f_of_int (currentScore - 300)) (f_div (f_of_int i) 5)) (fl (8 / 10))))"

definition GetCreditScoreHistory :: "env \<Rightarrow> string \<Rightarrow> ('l, CreditScoreHistoryEntry list) go" where
  "GetCreditScoreHistory E userID =
     bindA (user_GetByID E userID) (\<lambda>_.
     bindA (tryA (loan_GetCreditProfile E userID)) (\<lambda>r.
     bindA nowA (\<lambda>now.
     case r of
       Inl e \<Rightarrow> retA [\<lparr>sh_Month = format_month now, sh_Score = 300\<rparr>]
     | Inr profile \<Rightarrow> retA (map (\<lambda>i. \<lparr>sh_Month = format_month (add_months now (- (5 - i))),
         sh_Score = history_score (cp_TrustScore profile) i\<rparr>) [0..5]))))"

text \<open>Evaluation unfolds an action only when it runs.\<close>

lemmas lending_code [code] =
  check_blacklist_def [THEN fun_cong]
  loan_applicant_def [THEN fun_cong]
  record_loan_def [THEN fun_cong]
  DisburseLoan'_def [THEN fun_cong]
  repayable_def [THEN fun_cong]
  record_repayment_def [THEN fun_cong]
  ManualRepay_def [THEN fun_cong]
  processInstallment_def [THEN fun_cong]
  AutoSweep_def [THEN fun_cong]
  CalculateTrustScore_def [THEN fun_cong]
  GetEligibility_def [THEN fun_cong]
  ListHistory_def [THEN fun_cong]
  GetLoanDetail_def [THEN fun_cong]
  GetCreditScore_def [THEN fun_cong]
  GetCreditScoreHistory_def [THEN fun_cong]

section \<open>Amounts\<close>

lemma installments_split: "1 \<le> m \<Longrightarrow> [1..m] = [1..m - 1] @ [m]"
  by (simp add: upto_rec2)

lemma installment_amounts:
  assumes "1 \<le> m" "0 \<le> t" "in_i64 t"
  shows "map li_AmountDueCents (installments lid t m now) = map (\<lambda>_. t div m) [1..m - 1] @ [t - t div m * (m - 1)]"
proof -
  have le: "t div m * (m - 1) \<le> t" "0 \<le> t div m * (m - 1)" 
  proof -
    have "t div m * (m - 1) \<le> t div m * m" using assms by (intro mult_left_mono) (auto simp: pos_imp_zdiv_nonneg_iff)
    also have "\<dots> \<le> t" using assms by (simp add: minus_mod_eq_div_mult [symmetric])
    finally show "t div m * (m - 1) \<le> t" .
  qed (use assms in \<open>simp add: pos_imp_zdiv_nonneg_iff\<close>)
  have g: "go_div t m = t div m" using assms by (simp add: go_div_pos)
  have i: "i64 (t div m * (m - 1)) = t div m * (m - 1)" "i64 (t - t div m * (m - 1)) = t - t div m * (m - 1)"
    using le assms by (simp_all add: in_i64_def)
  show ?thesis
    unfolding installments_def installments_split [OF assms(1)]
    by (simp add: installment_def g i comp_def)
qed

lemma installments_sum:
  assumes "1 \<le> m" "0 \<le> t" "in_i64 t"
  shows "sum_list (map li_AmountDueCents (installments lid t m now)) = t"
  using assms by (simp add: installment_amounts map_replicate_const sum_list_replicate)

text \<open>A fee of \<open>a / b\<close> of an amount, with the fraction as a double just above it, is the exact fee rounded down.\<close>

lemma percent_floor:
  assumes p: "0 \<le> p" "p \<le> 10 ^ 14" and ab: "0 \<le> a" "a \<le> b" "0 < b" "b \<le> 25"
    and r: "of_int a / of_int b \<le> r" "r \<le> of_int a / of_int b + 1 / 10 ^ 17"
  shows "trunc64 (f_mul (f_of_int p) r) = p * a div b"
proof -
  define x :: rat where "x = of_int p * r"
  define y :: rat where "y = of_int (p * a) / of_int b"
  define q where "q = p * a div b"
  have p': "(0 :: rat) \<le> of_int p" "(of_int p :: rat) \<le> 10 ^ 14"
    using p by (simp, metis of_int_le_iff of_int_numeral of_int_power)
  have b: "(0 :: rat) < of_int b" "(of_int b :: rat) \<le> 25" using ab by (simp, metis of_int_le_iff of_int_numeral)
  have y: "y = of_int p * (of_int a / of_int b)" by (simp add: y_def)
  have lo: "y \<le> x" unfolding x_def y by (rule mult_left_mono [OF r(1) p'(1)])
  have "x \<le> of_int p * (of_int a / of_int b + 1 / 10 ^ 17)" unfolding x_def by (rule mult_left_mono [OF r(2) p'(1)])
  also have "\<dots> = y + of_int p / 10 ^ 17" unfolding y by (simp add: distrib_left)
  finally have hi: "x \<le> y + 1 / 1000" using p' by (simp add: field_simps)
  have ab': "(of_int a / of_int b :: rat) \<le> 1" "(0 :: rat) \<le> of_int a / of_int b" using ab by (simp_all add: divide_le_eq_1)
  have yp: "0 \<le> y" "y \<le> of_int p" unfolding y by (rule mult_nonneg_nonneg [OF p'(1) ab'(2)], rule mult_left_le [OF ab'(1) p'(1)])
  have x0: "0 \<le> x" "x < 2 ^ 53" "x \<le> 10 ^ 14 + 1" using lo hi yp p' by simp_all
  have q1: "of_int q \<le> y" unfolding q_def y_def by (metis floor_divide_of_int_eq of_int_floor_le)
  have "p * a \<le> b * q + (b - 1)" unfolding q_def using ab(3) by (smt (verit) mult_div_mod_eq pos_mod_bound)
  then have "(of_int (p * a) :: rat) \<le> of_int (b * q + (b - 1))" by (simp only: of_int_le_iff)
  then have "y \<le> (of_int b * of_int q + (of_int b - 1)) / of_int b" unfolding y_def using b by (intro divide_right_mono) simp_all
  also have "\<dots> = of_int q + 1 - 1 / of_int b" using b by (simp add: field_simps)
  finally have "y \<le> of_int q + 1 - 1 / of_int b" .
  moreover have "(1 / 25 :: rat) \<le> 1 / of_int b" using b by (intro divide_left_mono) simp_all
  ultimately have q2: "y \<le> of_int q + 1 - 1 / 25" by linarith
  have lo': "of_int q \<le> fl x" using q1 lo x0 by (intro fl_lower) linarith+
  have e: "\<bar>fl x - x\<bar> \<le> x / 2 ^ 53" by (rule fl_error [OF x0(1)])
  have "x / 2 ^ 53 \<le> 1 / 50" using x0(3) by simp
  then have hi': "fl x < of_int q + 1" using q2 hi e by linarith
  have f: "f_of_int p = of_int p" using p by (intro f_of_int_exact) auto
  have "q \<le> p" unfolding q_def using q1 yp unfolding q_def by (metis dual_order.trans of_int_le_iff)
  have "0 \<le> q" unfolding q_def using p(1) ab by (simp add: pos_imp_zdiv_nonneg_iff)
  have "trunc64 (f_mul (f_of_int p) r) = trunc64 (fl x)" unfolding f_mul_def f x_def ..
  also have "\<dots> = q" using \<open>0 \<le> q\<close> \<open>q \<le> p\<close> p lo' hi' by (intro trunc64_eqI) auto
  finally show ?thesis unfolding q_def .
qed

lemma five_percent: "fl (5 / 100) = 3602879701896397 / 72057594037927936"
  by code_simp

lemma facilitation_fee_floor:
  assumes "0 \<le> p" "p \<le> 10 ^ 14"
  shows "facilitation_fee p = p div 20"
proof -
  have r: "of_int 1 / of_int 20 \<le> fl (5 / 100)" "fl (5 / 100) \<le> of_int 1 / of_int 20 + 1 / 10 ^ 17"
    unfolding five_percent by simp_all
  show ?thesis unfolding facilitation_fee_def using percent_floor [OF assms _ _ _ _ r] by simp
qed

lemma principal_portion_bounds:
  assumes "0 < ln_PrincipalAmountCents l" "ln_PrincipalAmountCents l \<le> ln_TotalDueCents l" "ln_TotalDueCents l < 2 ^ 53"
    and "0 \<le> n" "n < 2 ^ 53"
  shows "0 \<le> principal_portion l n" "principal_portion l n \<le> n"
proof -
  define k where "k = f_div (f_of_int (ln_PrincipalAmountCents l)) (f_of_int (ln_TotalDueCents l))"
  have "(of_int (ln_PrincipalAmountCents l) :: rat) \<le> of_int (ln_TotalDueCents l)" "(0 :: rat) < of_int (ln_TotalDueCents l)"
    using assms by simp_all
  then have q: "(of_int (ln_PrincipalAmountCents l) / of_int (ln_TotalDueCents l) :: rat) \<le> of_int 1"
      "(0 :: rat) \<le> of_int (ln_PrincipalAmountCents l) / of_int (ln_TotalDueCents l)"
    using assms(1) by simp_all
  then have "(of_int (ln_PrincipalAmountCents l) / of_int (ln_TotalDueCents l) :: rat) < 2 ^ 53"
    by (metis le_less_trans of_int_1 one_less_numeral_iff one_less_power pos2 semiring_norm(76) zero_less_numeral)
  then have k: "0 \<le> k" "k \<le> 1"
    using assms fl_upper [OF q(2) _ q(1)] fl_nonneg [OF q(2)] by (simp_all add: k_def f_div_def)
  have n: "(0 :: rat) \<le> of_int n" "(of_int n :: rat) < 2 ^ 53"
    using assms by (simp, metis of_int_less_iff of_int_numeral of_int_power)
  have m: "0 \<le> of_int n * k" "of_int n * k \<le> of_int n" using n k by (simp_all add: mult_left_le)
  then have f: "0 \<le> f_mul (of_int n) k" "f_mul (of_int n) k \<le> of_int n"
    using n fl_upper [of "of_int n * k" n] fl_nonneg [of "of_int n * k"] by (simp_all add: f_mul_def)
  have p: "principal_portion l n = \<lfloor>f_mul (of_int n) k\<rfloor>"
  proof -
    have "f_mul (of_int n) k < 2 ^ 63" using f(2) n(2) by simp
    then show ?thesis using assms f(1) by (simp add: principal_portion_def k_def Let_def trunc64_floor)
  qed
  show "0 \<le> principal_portion l n" "principal_portion l n \<le> n"
    using f by (simp_all add: p) (simp add: floor_le_iff)
qed

lemma trust_score_bounds: "300 \<le> trust_score i b late" "trust_score i b late \<le> 1000"
proof -
  have "300 \<le> trunc64 (max 300 (min 1000 s)) \<and> trunc64 (max 300 (min 1000 s)) \<le> 1000" for s :: rat
  proof -
    let ?x = "max 300 (min 1000 s)"
    have x: "300 \<le> ?x" "?x \<le> 1000" by auto
    then have "trunc64 ?x = \<lfloor>?x\<rfloor>" by (intro trunc64_floor) (linarith, rule le_less_trans [OF x(2)], simp)
    moreover have "300 \<le> \<lfloor>?x\<rfloor>" using x(1) by (simp only: le_floor_iff of_int_numeral)
    moreover have "\<lfloor>?x\<rfloor> \<le> 1000" using x(2) by (simp only: floor_le_iff of_int_numeral)
    ultimately show ?thesis by simp
  qed
  then show "300 \<le> trust_score i b late" "trust_score i b late \<le> 1000" by (simp_all add: trust_score_def Let_def)
qed

section \<open>What a disbursement does\<close>

lemma stable_loans:
  assumes "stable w' = stable w"
  shows "w_profiles w' = w_profiles w" "w_loans w' = w_loans w" "w_installments w' = w_installments w"
  using arg_cong [OF assms, of w_profiles] arg_cong [OF assms, of w_loans] arg_cong [OF assms, of w_installments]
  by (simp_all add: stable_def)

lemma read_run:
  "loan_GetCreditProfile E u w = (Inr p, w') \<Longrightarrow> p \<in> set (w_profiles w) \<and> cp_UserID p = u"
  "loan_ListActiveByUser E u w = (Inr ls, w') \<Longrightarrow>
     set ls = {l \<in> set (w_loans w). ln_UserID l = u \<and> ln_Status l \<in> {LoanActive, LoanInArrears}}"
  "loan_GetLoan E i w = (Inr l, w') \<Longrightarrow> l \<in> set (w_loans w) \<and> ln_ID l = i"
  by (auto simp: loan_GetCreditProfile_def loan_ListActiveByUser_def loan_GetLoan_def runs dbA_run dest!: select_one_Some)

lemma reader_blacklist [readers]: "readerA (check_blacklist nbe user)"
  unfolding check_blacklist_def by (rule readers)+

lemma reader_applicant: "readerA (loan_applicant E nbe uid req)"
  unfolding loan_applicant_def by (rule readers)+

definition may_borrow :: "'l world \<Rightarrow> string \<Rightarrow> int \<Rightarrow> bool" where
  "may_borrow w uid n \<longleftrightarrow>
     (\<exists>p \<in> set (w_profiles w). cp_UserID p = uid \<and> IsEligibleForLoan p \<and> n \<le> cp_ApprovedLimitCents p)
     \<and> (\<forall>l \<in> set (w_loans w). ln_UserID l = uid \<longrightarrow> ln_Status l \<notin> {LoanActive, LoanInArrears})"

lemma loan_applicant_run:
  assumes "loan_applicant E nbe uid req w = (Inr user, w')"
  shows "stable w' = stable w" "user \<in> set (w_users w)" "u_ID user = uid" "\<not> u_IsFrozen user"
    "may_borrow w uid (la_PrincipalCents req)" "0 < la_PrincipalCents req" "la_PrincipalCents req \<le> 10000000000"
proof -
  show "stable w' = stable w" using readerD [OF reader_applicant assms] .
  obtain w1 p w2 ls w3 where v: "apply_Validate E req = Inr ()" and u: "user_GetByID E uid w = (Inr user, w1)" "\<not> u_IsFrozen user"
    and p: "loan_GetCreditProfile E uid w1 = (Inr p, w2)" "IsEligibleForLoan p" "\<not> la_PrincipalCents req > cp_ApprovedLimitCents p"
    and l: "loan_ListActiveByUser E uid w2 = (Inr ls, w3)" "ls = []"
    using assms by (auto simp: loan_applicant_def runs)
  show "user \<in> set (w_users w)" "u_ID user = uid" "\<not> u_IsFrozen user" using user_GetByID_run [OF u(1)] u(2) by auto
  have st: "stable w1 = stable w" "stable w2 = stable w"
    using user_GetByID_run(3) [OF u(1)] readerD [OF reader_loans(1) p(1)] by auto
  show "may_borrow w uid (la_PrincipalCents req)"
    using read_run(1) [OF p(1)] read_run(2) [OF l(1)] p(2,3) l(2) stable_loans [OF st(1)] stable_loans [OF st(2)]
    by (auto simp: may_borrow_def)
  show "0 < la_PrincipalCents req" "la_PrincipalCents req \<le> 10000000000"
    using v AmountCents_iff [of "la_PrincipalCents req" "()"] by (auto simp: apply_Validate_def split: sum.splits)
qed

lemma newID_run [runs]: "newID E w = (Inr i, w') \<longleftrightarrow> i = e_uuid E (w_uuidn w) \<and> w' = w\<lparr>w_uuidn := Suc (w_uuidn w)\<rparr>"
  by (auto simp: newID_def)

lemma mapA_newID:
  assumes "mapA (\<lambda>i. bindA (newID E) (\<lambda>n. retA (f n i))) is w = (Inr rows, w')"
  shows "list_all2 (\<lambda>i r. \<exists>n. r = f n i) is rows \<and> w' = w\<lparr>w_uuidn := w_uuidn w'\<rparr>"
  using assms
proof (induction "is" arbitrary: w rows)
  case (Cons i "is")
  then obtain rs where rs: "rows = f (e_uuid E (w_uuidn w)) i # rs"
      "mapA (\<lambda>i. bindA (newID E) (\<lambda>n. retA (f n i))) is (w\<lparr>w_uuidn := Suc (w_uuidn w)\<rparr>) = (Inr rs, w')"
    by (auto simp: runs)
  from Cons.IH [OF rs(2)] show ?case by (auto simp: rs(1))
qed (simp add: runs)

lemma other_tables [simp]:
  "w_loans (snd (receipt_Create E r w)) = w_loans w" "w_installments (snd (receipt_Create E r w)) = w_installments w"
  "w_loans (snd (audit_Log E e w)) = w_loans w" "w_installments (snd (audit_Log E e w)) = w_installments w"
  by (simp_all add: receipt_Create_def audit_Log_def dbA_def bindA_def newID_def nowA_def getsA_def modifyA_def retA_def
      throwA_def Let_def)

definition unpaid_row :: "string \<Rightarrow> LoanInstallment \<Rightarrow> LoanInstallment" where
  "unpaid_row n i = i\<lparr>li_ID := n, li_AmountPaidCents := 0, li_IsPaid := False, li_PaidAt := None, li_LedgerRepaymentTx := None\<rparr>"

lemma CreateInstallments_run:
  assumes "loan_CreateInstallments E is w = (Inr u, w')" "is \<noteq> []"
  shows "\<exists>rows. list_all2 (\<lambda>i r. \<exists>n. r = unpaid_row n i) is rows \<and> w_installments w' = w_installments w @ rows
    \<and> w_loans w' = w_loans w \<and> list_all (\<lambda>i. 0 < li_AmountDueCents i) is"
proof -
  obtain rows w1 where m: "mapA (\<lambda>i. bindA (newID E) (\<lambda>n. retA (unpaid_row n i))) is (w\<lparr>w_dbn := Suc (w_dbn w)\<rparr>) = (Inr rows, w1)"
    and w': "w' = w1\<lparr>w_installments := w_installments w1 @ rows\<rparr>" "list_all (\<lambda>i. 0 < li_AmountDueCents i) is"
    using assms by (auto simp: loan_CreateInstallments_def unpaid_row_def [symmetric] dbA_run runs split: if_splits)
  note r = mapA_newID [OF m]
  have "w_installments w1 = w_installments w" "w_loans w1 = w_loans w"
    using arg_cong [OF conjunct2 [OF r], of w_installments] arg_cong [OF conjunct2 [OF r], of w_loans] by simp_all
  then show ?thesis using r w' by auto
qed

text \<open>The rows a disbursement writes.\<close>

definition loan_booked :: "string \<Rightarrow> LoanApplyRequest \<Rightarrow> Loan \<Rightarrow> LoanInstallment list \<Rightarrow> bool" where
  "loan_booked uid req row rows \<longleftrightarrow>
     ln_UserID row = uid \<and> ln_Status row = LoanActive \<and> ln_TotalPaidCents row = 0
     \<and> ln_PrincipalAmountCents row = la_PrincipalCents req
     \<and> ln_TotalDueCents row = la_PrincipalCents req + la_PrincipalCents req div 20
     \<and> list_all (\<lambda>i. li_LoanID i = ln_ID row \<and> \<not> li_IsPaid i \<and> 0 < li_AmountDueCents i) rows
     \<and> sum_list (map li_AmountDueCents rows) = ln_TotalDueCents row
     \<and> map li_InstallmentNumber rows = [1..installment_months (la_DurationDays req)]"

lemma record_loan_run:
  assumes "record_loan E uid req ik tx w = (Inr loan, w')"
    and n: "0 < la_PrincipalCents req" "la_PrincipalCents req \<le> 10000000000"
  shows "\<exists>row rows. w_loans w' = w_loans w @ [row] \<and> w_installments w' = w_installments w @ rows \<and> loan_booked uid req row rows
     \<and> ln_ID loan = ln_ID row"
proof -
  let ?m = "installment_months (la_DurationDays req)" and ?t = "la_PrincipalCents req + la_PrincipalCents req div 20"
  obtain w1 now w2 where c: "loan_CreateLoan E (new_loan uid req (w_now w) ik tx) w = (Inr loan, w1)"
    and i: "loan_CreateInstallments E (installments (ln_ID loan) (ln_TotalDueCents loan) ?m now) w1 = (Inr (), w2)"
    and e: "w_loans w' = w_loans w2" "w_installments w' = w_installments w2"
    using assms(1) by (auto simp: record_loan_def runs nowA_def)
  have "la_PrincipalCents req div 20 \<le> 10000000000" "0 \<le> la_PrincipalCents req div 20" using n by linarith+
  then have t64: "in_i64 ?t" using n by (simp add: in_i64_def)
  then have t: "ln_TotalDueCents (new_loan uid req (w_now w) ik tx) = ?t"
    using n by (simp add: new_loan_def facilitation_fee_floor)
  obtain row where row: "w_loans w1 = w_loans w @ [row]" "w_installments w1 = w_installments w" "ln_ID loan = ln_ID row"
      "ln_UserID row = uid" "ln_Status row = LoanActive" "ln_TotalPaidCents row = 0"
      "ln_PrincipalAmountCents row = la_PrincipalCents req" "ln_TotalDueCents row = ?t" "ln_TotalDueCents loan = ?t"
    using c t by (auto simp: loan_CreateLoan_def dbA_run runs nowA_def Let_def new_loan_def split: if_splits)
  have m: "1 \<le> ?m" by (simp add: installment_months_def Let_def)
  let ?is = "installments (ln_ID loan) (ln_TotalDueCents loan) ?m now"
  have ne: "?is \<noteq> []" using m by (simp add: installments_def)
  obtain rows where rows: "list_all2 (\<lambda>i r. \<exists>n. r = unpaid_row n i) ?is rows"
      "w_installments w2 = w_installments w1 @ rows" "w_loans w2 = w_loans w1" "list_all (\<lambda>i. 0 < li_AmountDueCents i) ?is"
    using CreateInstallments_run [OF i ne] by blast
  have a: "map li_AmountDueCents rows = map li_AmountDueCents ?is" "map li_InstallmentNumber rows = map li_InstallmentNumber ?is"
      "map li_LoanID rows = map li_LoanID ?is" "list_all (\<lambda>r. \<not> li_IsPaid r) rows"
    using rows(1) by (induction rule: list_all2_induct) (auto simp: unpaid_row_def)
  have "list_all (\<lambda>n. 0 < n) (map li_AmountDueCents rows)" "list_all (\<lambda>x. x = ln_ID row) (map li_LoanID rows)"
    unfolding a using rows(4) row(3)
    by (simp add: list.pred_map comp_def) (simp add: installments_def installment_def list_all_iff Let_def row(3))
  moreover have "sum_list (map li_AmountDueCents rows) = ?t"
    unfolding a row(9) using m n by (intro installments_sum t64) simp_all
  moreover have "map li_InstallmentNumber rows = [1..?m]"
    unfolding a by (simp add: installments_def installment_def comp_def Let_def)
  ultimately have "loan_booked uid req row rows"
    using row a(4) by (simp add: loan_booked_def list_all_iff)
  then show ?thesis using e row rows by auto
qed

lemma calm_record_loan: "calm (record_loan E uid req ik tx)"
  unfolding record_loan_def by (rule calms)+

text \<open>C9: a loan is disbursed only to a registered, unfrozen customer with an eligible credit profile, no open
  loan and a principal within the approved limit. Exactly the principal moves from the loan capital account to the
  customer's wallet; the loan is booked with a facilitation fee of five percent, rounded down, and with
  positive installments, numbered from one, that add up to the total due.\<close>

theorem loan_disbursed:
  assumes lc: "ledger_client L c view holdOf nexth"
    and run: "DisburseLoan' E L nbe userID req w = (Inr loan, w')"
    and fresh: "uuid_keys E \<inter> lv_used (view (w_ledger w)) = {}"
  shows "\<exists>user row rows.
    user \<in> set (w_users w) \<and> u_ID user = userID \<and> \<not> u_IsFrozen user \<and> may_borrow w userID (la_PrincipalCents req)
    \<and> lv_bal (view (w_ledger w')) = apply_postings
        [P (SystemLoanCapital c) (MainAccount c (u_LedgerWalletID user)) (la_PrincipalCents req) (FormatAsset [])]
        (lv_bal (view (w_ledger w)))
    \<and> w_loans w' = w_loans w @ [row] \<and> w_installments w' = w_installments w @ rows
    \<and> ln_ID loan = ln_ID row \<and> loan_booked userID req row rows"
proof -
  obtain user w1 tx w3 where a: "loan_applicant E nbe userID req w = (Inr user, w1)"
    and d: "ledA (DisburseLoan L (e_uuid E (w_uuidn w1)) (u_LedgerWalletID user) (la_PrincipalCents req) (FormatAsset []))
      (w1\<lparr>w_uuidn := Suc (w_uuidn w1)\<rparr>) = (Inr tx, w3)"
    and r: "record_loan E userID req (e_uuid E (w_uuidn w1)) tx w3 = (Inr loan, w')"
    using run by (auto simp: DisburseLoan'_def runs)
  note ap = loan_applicant_run [OF a]
  have l: "w_ledger w1 = w_ledger w" using stable_fields(1) [OF ap(1)] .
  have k: "{e_uuid E (w_uuidn w1)} \<inter> lv_used (view (w_ledger (w1\<lparr>w_uuidn := Suc (w_uuidn w1)\<rparr>))) = {}"
    using fresh l keys_ofI [of "e_uuid E (w_uuidn w1)" "[]"] by (auto simp: uuid_keys_def)
  have c3: "w_ledger w' = w_ledger w3" using calmD [OF calm_record_loan r] .
  from postsD [OF posts_write [OF ledger_client.disburse [OF lc]] k d] c3 l
  have bal: "lv_bal (view (w_ledger w')) = apply_postings
        [P (SystemLoanCapital c) (MainAccount c (u_LedgerWalletID user)) (la_PrincipalCents req) (FormatAsset [])]
        (lv_bal (view (w_ledger w)))" by auto
  have w3: "w_loans w3 = w_loans w" "w_installments w3 = w_installments w"
    using ledA_D [OF d] stable_loans [OF ap(1)] by auto
  from record_loan_run [OF r ap(6,7)] w3 obtain row rows where
    "w_loans w' = w_loans w @ [row]" "w_installments w' = w_installments w @ rows" "loan_booked userID req row rows"
    "ln_ID loan = ln_ID row" by auto
  then show ?thesis using ap(2-5) bal by blast
qed

section \<open>What a manual repayment does\<close>

definition paid_map :: "Loan list \<Rightarrow> (string \<times> int) list" where
  "paid_map ls = map (\<lambda>l. (ln_ID l, ln_TotalPaidCents l)) ls"

definition add_paid :: "string \<Rightarrow> int \<Rightarrow> (string \<times> int) list \<Rightarrow> (string \<times> int) list" where
  "add_paid i n ps = map (\<lambda>(j, m). (j, if j = i then m + n else m)) ps"

definition loan_row_wf :: "Loan \<Rightarrow> bool" where
  "loan_row_wf l \<longleftrightarrow> 0 < ln_PrincipalAmountCents l \<and> ln_PrincipalAmountCents l \<le> ln_TotalDueCents l \<and> ln_TotalDueCents l < 2 ^ 53
     \<and> 0 \<le> ln_TotalPaidCents l \<and> ln_TotalPaidCents l \<le> ln_TotalDueCents l"

lemma paid_map_status [simp]:
  "paid_map (update_where p (\<lambda>l. l\<lparr>ln_Status := st, ln_DaysPastDue := d\<rparr>) ls) = paid_map ls"
  by (auto simp: paid_map_def update_where_def)

lemma paid_map_kept [keeps]:
  "keepsA (\<lambda>w. paid_map (w_loans w) = v) (receipt_Create E r)" "keepsA (\<lambda>w. paid_map (w_loans w) = v) (audit_Log E e)"
  "keepsA (\<lambda>w. paid_map (w_loans w) = v) (loan_ListInstallmentsByLoan E i)"
  "keepsA (\<lambda>w. paid_map (w_loans w) = v) (loan_MarkInstallmentPaid E i ik)"
  "keepsA (\<lambda>w. paid_map (w_loans w) = v) (loan_UpdateLoanStatus E i st d)"
  by (simp_all add: keepsA_def loan_ListInstallmentsByLoan_def loan_MarkInstallmentPaid_def loan_UpdateLoanStatus_def
      dbA_def getsA_def modifyA_def Let_def)

lemma paid_map_mark [keeps]: "keepsA (\<lambda>w. paid_map (w_loans w) = v) (mark_covered E ik n k is)"
  by (induction "is" arbitrary: k) (simp_all add: keeps)

lemma IncrementPaid_run:
  "loan_IncrementPaid E i n w = (Inr u, w') \<Longrightarrow> paid_map (w_loans w') = add_paid i n (paid_map (w_loans w))"
  by (auto simp: loan_IncrementPaid_def dbA_run runs Let_def paid_map_def add_paid_def update_where_def split: if_splits)

lemma mark_calm [calms]: "calm (mark_covered E ik n k is)"
  by (induction "is" arbitrary: k) (simp_all add: calms)

lemma calm_record_repayment: "calm (record_repayment E uid loan i ik n fee)"
  unfolding record_repayment_def by (rule calms)+

lemma record_repayment_run:
  assumes "record_repayment E uid loan i ik n fee w = (Inr u, w')"
  shows "paid_map (w_loans w') = add_paid i n (paid_map (w_loans w))"
proof -
  let ?rest = "bindA (loan_ListInstallmentsByLoan E i) (\<lambda>is.
     bindA (mark_covered E ik n 0 is) (\<lambda>_.
     bindA (whenA (i64 (ln_TotalPaidCents loan + n) \<ge> ln_TotalDueCents loan)
       (ignoreA (loan_UpdateLoanStatus E i LoanRepaid 0))) (\<lambda>_.
     ignoreA (audit_Log E (audit_entry ''loan_manual_repayment'' ''user'' (Some uid) ''loan'' i)))))"
  obtain w1 w2 where "w1 = snd (receipt_Create E (repayment_receipt uid ik n fee) w)" "loan_IncrementPaid E i n w1 = (Inr (), w2)"
    and r: "?rest w2 = (Inr u, w')"
    using assms by (auto simp: record_repayment_def bindA_run ignoreA_run)
  then have "paid_map (w_loans w2) = add_paid i n (paid_map (w_loans w))" using IncrementPaid_run by fastforce
  moreover have "keepsA (\<lambda>w. paid_map (w_loans w) = v) ?rest" for v by (rule keeps)+
  ultimately show ?thesis using r unfolding keepsA_def by (metis snd_conv)
qed


lemma repayable_run:
  assumes "repayable E uid i req w = (Inr loan, w')"
  shows "stable w' = stable w" "loan \<in> set (w_loans w)" "ln_ID loan = i" "ln_UserID loan = uid"
    "ln_Status loan \<in> {LoanActive, LoanInArrears}" "0 < lr_AmountCents req"
proof -
  obtain w1 where v: "repay_Validate E req = Inr ()" and l: "loan_GetLoan E i w = (Inr loan, w')"
    and "ln_UserID loan = uid" "ln_Status loan \<in> {LoanActive, LoanInArrears}"
    using assms by (auto simp: repayable_def runs split: if_splits)
  then show "ln_UserID loan = uid" "ln_Status loan \<in> {LoanActive, LoanInArrears}" by auto
  show "stable w' = stable w" using readerD [OF reader_loans(2) l] .
  show "loan \<in> set (w_loans w)" "ln_ID loan = i" using read_run(3) [OF l] by auto
  show "0 < lr_AmountCents req"
    using v AmountCents_iff [of "lr_AmountCents req" "()"] by (auto simp: repay_Validate_def split: sum.splits)
qed

text \<open>C21: a manual repayment takes from the borrower's wallet exactly the smaller of the amount offered and what is
  still due, splits it without loss between the loan capital and the interest account, and adds the same
  amount to what the loan records as paid; only the borrower can repay an active or overdue loan.\<close>

theorem ManualRepay_repays:
  assumes lc: "ledger_client L c view holdOf nexth"
    and run: "ManualRepay E L userID loanID req w = (Inr u, w')"
    and fresh: "uuid_keys E \<inter> lv_used (view (w_ledger w)) = {}"
    and rows: "list_all loan_row_wf (w_loans w)"
  shows "\<exists>loan user n k.
    loan \<in> set (w_loans w) \<and> ln_ID loan = loanID \<and> ln_UserID loan = userID \<and> ln_Status loan \<in> {LoanActive, LoanInArrears}
    \<and> user \<in> set (w_users w) \<and> u_ID user = userID
    \<and> n = min (lr_AmountCents req) (ln_TotalDueCents loan - ln_TotalPaidCents loan) \<and> 0 \<le> k \<and> k \<le> n
    \<and> lv_bal (view (w_ledger w')) = apply_postings
        [P (MainAccount c (u_LedgerWalletID user)) (SystemLoanCapital c) k (FormatAsset []),
         P (MainAccount c (u_LedgerWalletID user)) (SystemInterest c) (n - k) (FormatAsset [])]
        (lv_bal (view (w_ledger w)))
    \<and> paid_map (w_loans w') = add_paid loanID n (paid_map (w_loans w))"
proof -
  let ?amt = "\<lambda>loan. if lr_AmountCents req > RemainingCents loan then RemainingCents loan else lr_AmountCents req"
  obtain loan w1 user w2 w4 where l: "repayable E userID loanID req w = (Inr loan, w1)"
    and us: "user_GetByID E userID w1 = (Inr user, w2)"
    and cl: "ledA (CollectLoanRepayment L (e_uuid E (w_uuidn w2)) (u_LedgerWalletID user) (principal_portion loan (?amt loan))
        (i64 (?amt loan - principal_portion loan (?amt loan))) (FormatAsset [])) (w2\<lparr>w_uuidn := Suc (w_uuidn w2)\<rparr>) = (Inr (), w4)"
    and r: "record_repayment E userID loan loanID (e_uuid E (w_uuidn w2)) (?amt loan)
        (i64 (?amt loan - principal_portion loan (?amt loan))) w4 = (Inr u, w')"
    using run by (auto simp: ManualRepay_def runs Let_def)
  note rl = repayable_run [OF l] and ur = user_GetByID_run [OF us]
  have st: "stable w2 = stable w" using rl(1) ur(3) by simp
  have row: "loan_row_wf loan" using rows rl(2) by (simp add: list_all_iff)
  define n where "n = min (lr_AmountCents req) (ln_TotalDueCents loan - ln_TotalPaidCents loan)"
  define k where "k = principal_portion loan n"
  have n: "?amt loan = n" "0 \<le> n" "n < 2 ^ 53"
    using row rl(6) by (auto simp: n_def RemainingCents_def loan_row_wf_def in_i64_def)
  have k: "0 \<le> k" "k \<le> n" using principal_portion_bounds [of loan n] row n by (simp_all add: k_def loan_row_wf_def)
  have f: "i64 (n - k) = n - k" using k n by (simp add: in_i64_def)
  have lw: "w_ledger w2 = w_ledger w" using stable_fields(1) [OF st] .
  have ky: "{e_uuid E (w_uuidn w2)} \<inter> lv_used (view (w_ledger (w2\<lparr>w_uuidn := Suc (w_uuidn w2)\<rparr>))) = {}"
    using fresh lw keys_ofI [of "e_uuid E (w_uuidn w2)" "[]"] by (auto simp: uuid_keys_def)
  from postsD [OF posts_write [OF ledger_client.collect [OF lc]] ky cl [unfolded n(1), folded k_def, unfolded f]]
    calmD [OF calm_record_repayment r] lw
  have bal: "lv_bal (view (w_ledger w')) = apply_postings
        [P (MainAccount c (u_LedgerWalletID user)) (SystemLoanCapital c) k (FormatAsset []),
         P (MainAccount c (u_LedgerWalletID user)) (SystemInterest c) (n - k) (FormatAsset [])]
        (lv_bal (view (w_ledger w)))" by auto
  have "w_loans w4 = w_loans w" using ledA_D [OF cl] stable_loans(2) [OF st] by auto
  then have pm: "paid_map (w_loans w') = add_paid loanID n (paid_map (w_loans w))"
    using record_repayment_run [OF r] n(1) by simp
  have ui: "user \<in> set (w_users w)" using ur(1) stable_fields(2) [OF rl(1)] by simp
  show ?thesis
    using rl(2-5) ui ur(2) k bal pm
    by (intro exI [of _ loan] exI [of _ user] exI [of _ n] exI [of _ k]) (simp add: n_def)
qed

section \<open>The sweep\<close>

definition status_map :: "Loan list \<Rightarrow> (string \<times> LoanStatus) list" where
  "status_map ls = map (\<lambda>l. (ln_ID l, ln_Status l)) ls"

lemma status_map_paid [simp]:
  "status_map (update_where p (\<lambda>l. l\<lparr>ln_TotalPaidCents := ln_TotalPaidCents l + n\<rparr>) ls) = status_map ls"
  by (auto simp: status_map_def update_where_def)

lemma keeps_reader: "readerA m \<Longrightarrow> keepsA (\<lambda>w. status_map (w_loans w) = v) m"
  unfolding keepsA_def readerA_def by (metis stable_loans(2))

lemma status_kept [keeps]:
  "keepsA (\<lambda>w. status_map (w_loans w) = v) (receipt_Create E r)" "keepsA (\<lambda>w. status_map (w_loans w) = v) (audit_Log E e)"
  "keepsA (\<lambda>w. status_map (w_loans w) = v) (loan_MarkInstallmentPaid E i ik)"
  "keepsA (\<lambda>w. status_map (w_loans w) = v) (loan_IncrementPaid E i n)"
  "keepsA (\<lambda>w. status_map (w_loans w) = v) (ledA m)" "keepsA (\<lambda>w. status_map (w_loans w) = v) (newID E)"
  by (simp_all add: keepsA_def loan_MarkInstallmentPaid_def loan_IncrementPaid_def bindA_def getsA_def throwA_def newID_def ledA_def
      dbA_def modifyA_def Let_def split: prod.splits)

text \<open>C32: the daily sweep collects installments but never closes a loan: whatever the sweep does, every loan
  keeps its status. A loan whose last installment was swept stays active, and its borrower cannot apply again.\<close>

theorem AutoSweep_never_closes:
  "status_map (w_loans (snd (AutoSweep E L w))) = status_map (w_loans w)"
proof -
  have p: "keepsA (\<lambda>w. status_map (w_loans w) = v) (processInstallment E L inst)" for v inst
    unfolding processInstallment_def Let_def by (rule keeps keeps_reader reader_loans reader_users)+
  have "keepsA (\<lambda>w. status_map (w_loans w) = v) (AutoSweep E L)" for v
    unfolding AutoSweep_def by (rule p keeps keeps_mapA keeps_reader [OF reader_loans(5)])+
  then show ?thesis by (simp add: keepsA_def)
qed

section \<open>Examples\<close>

definition lend_profile :: CreditProfile where
  "lend_profile = \<lparr>cp_UserID = ''ua'', cp_TrustScore = 700, cp_ApprovedLimitCents = 500000, cp_AvgMonthlyInflowCents = 0,
     cp_AvgMonthlyBalanceCents = 0, cp_ActiveDaysPerMonth = 0, cp_TotalLoansRepaid = 0, cp_LatePaymentsCount = 0,
     cp_CurrentOutstandingCents = 0, cp_IsNBEBlacklisted = False, cp_BlacklistCheckedAt = None, cp_LastCalculatedAt = 0\<rparr>"

definition lend_world :: "engine fclient world" where
  "lend_world = (empty_world (seeded [(SystemLoanCapital neo, 1000000, ''ETB/2'')]) 1000)
     \<lparr>w_users := [user0], w_profiles := [lend_profile]\<rparr>"

definition lend_req :: LoanApplyRequest where "lend_req = \<lparr>la_PrincipalCents = 100010, la_DurationDays = 65\<rparr>"

definition applied_world :: "engine fclient world" where
  "applied_world = snd (loan_applicant ok_env (\<lambda>_. Inr False) ''ua'' lend_req lend_world)"

lemma applied_run: "loan_applicant ok_env (\<lambda>_. Inr False) ''ua'' lend_req lend_world = (Inr user0, applied_world)"
  unfolding applied_world_def by (rule run_of) code_simp

definition lent_world :: "engine fclient world" where
  "lent_world = snd (ledA (DisburseLoan eclient ''b0'' ''wa'' 100010 ''ETB/2'') (applied_world\<lparr>w_uuidn := Suc (w_uuidn applied_world)\<rparr>))"

lemma lent_run: "case fst (ledA (DisburseLoan eclient ''b0'' ''wa'' 100010 ''ETB/2'') (applied_world\<lparr>w_uuidn := Suc (w_uuidn applied_world)\<rparr>)) of
    Inl _ \<Rightarrow> False | Inr _ \<Rightarrow> True"
  by code_simp

lemma ok_installments:
  assumes "\<And>n. e_db_ok E n" "list_all (\<lambda>i. 0 < li_AmountDueCents i) is"
  shows "\<exists>w'. loan_CreateInstallments E is w = (Inr (), w')"
proof -
  have "okA (mapA (\<lambda>i. bindA (newID E) (\<lambda>n. retA (f n i))) is)" for f :: "string \<Rightarrow> LoanInstallment \<Rightarrow> LoanInstallment" and E
    by (induction "is") (simp_all add: oks)
  from okD [OF this] obtain rows w1 where
    "mapA (\<lambda>i. bindA (newID E) (\<lambda>n. retA (unpaid_row n i))) is (w\<lparr>w_dbn := Suc (w_dbn w)\<rparr>) = (Inr rows, w1)" by blast
  then show ?thesis
    using assms by (cases "is = []") (simp_all add: loan_CreateInstallments_def unpaid_row_def dbA_def Let_def bindA_def retA_def modifyA_def)
qed

lemma record_loan_succeeds:
  assumes db: "\<And>n. e_db_ok E n" and n: "0 < la_PrincipalCents req" "la_PrincipalCents req \<le> 10000000000"
    and d: "0 < la_DurationDays req" "installment_months (la_DurationDays req) \<le> la_PrincipalCents req"
  shows "\<exists>loan w'. record_loan E uid req ik tx w = (Inr loan, w')"
proof -
  let ?t = "la_PrincipalCents req + la_PrincipalCents req div 20" and ?m = "installment_months (la_DurationDays req)"
  have "la_PrincipalCents req div 20 \<le> 10000000000" and f: "0 \<le> la_PrincipalCents req div 20" using n by linarith+
  then have t64: "in_i64 ?t" using n by (simp add: in_i64_def)
  let ?l = "new_loan uid req (w_now w) ik tx"
  have t: "ln_TotalDueCents ?l = ?t" using n t64 by (simp add: new_loan_def facilitation_fee_floor)
  have ok: "loan_row_ok (?l\<lparr>ln_ID := i, ln_TotalPaidCents := 0, ln_Status := LoanActive, ln_DaysPastDue := 0, ln_DisbursedAt := z\<rparr>)" for i z
    using n d(1) t f by (simp add: loan_row_ok_def new_loan_def facilitation_fee_floor)
  obtain w1 where c: "loan_CreateLoan E ?l w = (Inr (?l\<lparr>ln_ID := e_uuid E (w_uuidn w), ln_DisbursedAt := w_now w\<rparr>), w1)"
    using db ok by (simp add: loan_CreateLoan_def dbA_def Let_def bindA_def newID_def nowA_def getsA_def modifyA_def retA_def)
  have m: "1 \<le> ?m" by (simp add: installment_months_def Let_def)
  have q: "0 < ?t div ?m" using m d(2) n f by (simp add: pos_imp_zdiv_pos_iff)
  have "list_all (\<lambda>n. 0 < n) (map li_AmountDueCents (installments i ?t ?m z))" for i z
  proof -
    have "?t div ?m * (?m - 1) < ?t div ?m * ?m" using q by simp
    also have "\<dots> \<le> ?t" using m by (simp add: minus_mod_eq_div_mult [symmetric])
    finally show ?thesis unfolding installment_amounts [OF m _ t64] using q n f m t64 by (subst installment_amounts) (auto simp: list_all_iff)
  qed
  then have pos: "list_all (\<lambda>i. 0 < li_AmountDueCents i) (installments i ?t ?m z)" for i z by (simp add: list.pred_map comp_def)
  obtain w2 where i: "loan_CreateInstallments E (installments (e_uuid E (w_uuidn w)) ?t ?m (w_now w1)) w1 = (Inr (), w2)"
    using ok_installments [OF db pos] by blast
  show ?thesis
    using c i t by (simp add: record_loan_def bindA_def nowA_def getsA_def ignoreA_def retA_def)
qed

lemma disbursed_run: "\<exists>loan w'. DisburseLoan' ok_env eclient (\<lambda>_. Inr False) ''ua'' lend_req lend_world = (Inr loan, w')"
proof -
  have k: "e_uuid ok_env (w_uuidn applied_world) = ''b0''" by code_simp
  have a: "FormatAsset [] = ''ETB/2''" by code_simp
  have u: "u_LedgerWalletID user0 = ''wa''" "la_PrincipalCents lend_req = 100010" by (simp_all add: user0_def lend_req_def)
  obtain tx where 2: "ledA (DisburseLoan eclient ''b0'' ''wa'' 100010 ''ETB/2'') (applied_world\<lparr>w_uuidn := Suc (w_uuidn applied_world)\<rparr>)
      = (Inr tx, lent_world)"
    using lent_run unfolding lent_world_def by (metis (no_types, lifting) old.sum.simps(5) surjective_pairing sum.exhaust)
  have "\<exists>loan w'. record_loan ok_env ''ua'' lend_req ''b0'' tx lent_world = (Inr loan, w')"
    by (rule record_loan_succeeds) (simp_all add: ok_env_def lend_req_def installment_months_def go_div_pos)
  then obtain loan w' where 3: "record_loan ok_env ''ua'' lend_req ''b0'' tx lent_world = (Inr loan, w')" by blast
  have id: "newID ok_env applied_world = (Inr ''b0'', applied_world\<lparr>w_uuidn := Suc (w_uuidn applied_world)\<rparr>)"
    by (simp add: newID_def k)
  have "DisburseLoan' ok_env eclient (\<lambda>_. Inr False) ''ua'' lend_req lend_world = (Inr loan, w')"
    unfolding DisburseLoan'_def bindA_def applied_run using id 2 3 by (simp add: a u)
  then show ?thesis by blast
qed

lemma lend_world_fresh: "uuid_keys E \<inter> lv_used (fc_view e_ghost (w_ledger lend_world)) = {}"
  by (simp add: lend_world_def empty_world_def seeded_def e_ghost_def)

theorem loan_disbursed_witness:
  "\<exists>loan w'. DisburseLoan' ok_env eclient (\<lambda>_. Inr False) ''ua'' lend_req lend_world = (Inr loan, w')
     \<and> lv_bal (fc_view e_ghost (w_ledger w')) (MainAccount neo ''wa'') ''ETB/2'' = 100010
     \<and> map ln_TotalDueCents (w_loans w') = [105010]"
proof -
  obtain loan w' where r: "DisburseLoan' ok_env eclient (\<lambda>_. Inr False) ''ua'' lend_req lend_world = (Inr loan, w')"
    using disbursed_run by blast
  from loan_disbursed [OF eclient_contract r lend_world_fresh] obtain user row where
    u: "user \<in> set (w_users lend_world)" and l: "w_loans w' = w_loans lend_world @ [row]"
      "ln_TotalDueCents row = la_PrincipalCents lend_req + la_PrincipalCents lend_req div 20"
    and b: "lv_bal (fc_view e_ghost (w_ledger w')) = apply_postings
        [P (SystemLoanCapital neo) (MainAccount neo (u_LedgerWalletID user)) (la_PrincipalCents lend_req) (FormatAsset [])]
        (lv_bal (fc_view e_ghost (w_ledger lend_world)))"
    unfolding loan_booked_def by blast
  have u: "u_LedgerWalletID user = ''wa''" "la_PrincipalCents lend_req = 100010"
    using u by (simp_all add: lend_world_def user0_def lend_req_def)
  have f: "FormatAsset [] = ''ETB/2''" "SystemLoanCapital neo \<noteq> MainAccount neo ''wa''" "MainAccount neo ''wa'' \<noteq> SystemLoanCapital neo"
    "lv_bal (fc_view e_ghost (w_ledger lend_world)) (MainAccount neo ''wa'') ''ETB/2'' = 0"
    by (code_simp, code_simp, code_simp, code_simp)
  have "lv_bal (fc_view e_ghost (w_ledger w')) (MainAccount neo ''wa'') ''ETB/2'' = 100010"
    unfolding b u f(1) using f(2-4) by (simp add: apply_P)
  moreover have "map ln_TotalDueCents (w_loans w') = [105010]"
    using l u(2) by (simp add: lend_world_def empty_world_def)
  ultimately show ?thesis using r by (intro exI conjI)
qed


lemma ok_mark [oks]: "okA (mark_covered E ik n k is)"
  by (induction "is" arbitrary: k) (simp_all add: oks)

lemma paid_nonneg:
  assumes "list_all (\<lambda>l. 0 \<le> ln_TotalPaidCents l) ls" "0 \<le> n"
  shows "list_all (\<lambda>l. ln_ID l = i \<longrightarrow> 0 \<le> ln_TotalPaidCents l) (update_where (\<lambda>l. ln_ID l = i)
     (\<lambda>l. l\<lparr>ln_TotalPaidCents := ln_TotalPaidCents l + n\<rparr>) ls)"
  using assms by (induction ls) (simp_all add: update_where_def)

lemma record_repayment_succeeds:
  assumes db: "\<And>n. e_db_ok E n" and "list_all (\<lambda>l. 0 \<le> ln_TotalPaidCents l) (w_loans w)" "0 \<le> n"
  shows "\<exists>w'. record_repayment E uid loan i ik n fee w = (Inr (), w')"
proof -
  have o: "okA (loan_ListInstallmentsByLoan E i)"
    using db by (simp add: okA_def loan_ListInstallmentsByLoan_def dbA_def getsA_def Let_def)
  let ?w = "snd (receipt_Create E (repayment_receipt uid ik n fee) w)"
  have "list_all (\<lambda>l. ln_ID l = i \<longrightarrow> 0 \<le> ln_TotalPaidCents l) (update_where (\<lambda>l. ln_ID l = i)
     (\<lambda>l. l\<lparr>ln_TotalPaidCents := ln_TotalPaidCents l + n\<rparr>) (w_loans ?w))"
    unfolding other_tables by (rule paid_nonneg [OF assms(2,3)])
  then obtain w1 where "loan_IncrementPaid E i n ?w = (Inr (), w1)"
    using db by (simp add: loan_IncrementPaid_def dbA_def bindA_def getsA_def modifyA_def Let_def)
  moreover have "okA (bindA (loan_ListInstallmentsByLoan E i) (\<lambda>is.
     bindA (mark_covered E ik n 0 is) (\<lambda>_.
     bindA (whenA (i64 (ln_TotalPaidCents loan + n) \<ge> ln_TotalDueCents loan)
       (ignoreA (loan_UpdateLoanStatus E i LoanRepaid 0))) (\<lambda>_.
     ignoreA (audit_Log E (audit_entry ''loan_manual_repayment'' ''user'' (Some uid) ''loan'' i))))))"
    by (rule oks o)+
  from okD [OF this, of w1] obtain w' where "(bindA (loan_ListInstallmentsByLoan E i) (\<lambda>is.
     bindA (mark_covered E ik n 0 is) (\<lambda>_.
     bindA (whenA (i64 (ln_TotalPaidCents loan + n) \<ge> ln_TotalDueCents loan)
       (ignoreA (loan_UpdateLoanStatus E i LoanRepaid 0))) (\<lambda>_.
     ignoreA (audit_Log E (audit_entry ''loan_manual_repayment'' ''user'' (Some uid) ''loan'' i)))))) w1 = (Inr (), w')" by auto
  ultimately show ?thesis
    unfolding record_repayment_def by (subst bindA_def, simp add: ignoreA_def, subst bindA_def, simp)
qed

definition repay_loan :: Loan where
  "repay_loan = \<lparr>ln_ID = ''l1'', ln_UserID = ''ua'', ln_PrincipalAmountCents = 100010, ln_InterestFeeCents = 5000,
      ln_TotalDueCents = 105010, ln_TotalPaidCents = 0, ln_DurationDays = 65, ln_DisbursedAt = 0,
      ln_DueDate = 0, ln_Status = LoanActive, ln_DaysPastDue = 0,
      ln_LedgerLoanAccount = ''loan:k'', ln_LedgerDisbursementTx = None, ln_IdempotencyKey = None\<rparr>"

definition repay_world :: "engine fclient world" where
  "repay_world = (empty_world (seeded [(MainAccount neo ''wa'', 50000, ''ETB/2'')]) 1000)
     \<lparr>w_users := [user0], w_loans := [repay_loan]\<rparr>"

definition found_world :: "engine fclient world" where
  "found_world = snd (repayable ok_env ''ua'' ''l1'' \<lparr>lr_AmountCents = 20000\<rparr> repay_world)"

definition payer_world :: "engine fclient world" where
  "payer_world = snd (user_GetByID ok_env ''ua'' found_world)"

definition taken_world :: "engine fclient world" where
  "taken_world = snd (ledA (CollectLoanRepayment eclient ''b0'' ''wa'' 19047 953 ''ETB/2'') (payer_world\<lparr>w_uuidn := Suc (w_uuidn payer_world)\<rparr>))"

lemma repay_portion: "principal_portion repay_loan 20000 = 19047"
proof -
  have r: "f_div 100010 105010 = 4289162924800717 / 4503599627370496" by code_simp
  let ?x = "20000 * (4289162924800717 / 4503599627370496) :: rat"
  have "\<bar>fl ?x - ?x\<bar> \<le> ?x / 2 ^ 53" by (rule fl_error) simp
  then have "fl ?x - ?x \<le> ?x / 2 ^ 53" "- (?x / 2 ^ 53) \<le> fl ?x - ?x" by linarith+
  moreover have "?x / 2 ^ 53 < 1 / 10" "19047 + 1 / 2 < ?x" "?x < 19048 - 1 / 5" by simp_all
  ultimately have "19047 \<le> fl ?x" "fl ?x < 19047 + 1" by linarith+
  then have t: "trunc64 (fl ?x) = 19047" by (intro trunc64_eqI) simp_all
  have f: "f_of_int 100010 = 100010" "f_of_int 105010 = 105010" "f_of_int 20000 = 20000" by simp_all
  show ?thesis unfolding principal_portion_def repay_loan_def Let_def Loan.select_convs f r f_mul_def t ..
qed

lemma found_run: "repayable ok_env ''ua'' ''l1'' \<lparr>lr_AmountCents = 20000\<rparr> repay_world = (Inr repay_loan, found_world)"
  unfolding found_world_def by (rule run_of) code_simp

lemma payer_run: "user_GetByID ok_env ''ua'' found_world = (Inr user0, payer_world)"
  unfolding payer_world_def by (rule run_of) code_simp

lemma taken_run: "ledA (CollectLoanRepayment eclient ''b0'' ''wa'' 19047 953 ''ETB/2'') (payer_world\<lparr>w_uuidn := Suc (w_uuidn payer_world)\<rparr>)
    = (Inr (), taken_world)"
  unfolding taken_world_def by (rule run_of) code_simp

lemma taken_loans: "w_loans taken_world = [repay_loan]" by code_simp

lemma repaid_run: "\<exists>w'. ManualRepay ok_env eclient ''ua'' ''l1'' \<lparr>lr_AmountCents = 20000\<rparr> repay_world = (Inr (), w')"
proof -
  have "\<exists>w'. record_repayment ok_env ''ua'' repay_loan ''l1'' ''b0'' 20000 953 taken_world = (Inr (), w')"
    by (rule record_repayment_succeeds) (simp_all add: ok_env_def taken_loans repay_loan_def)
  then obtain w' where r: "record_repayment ok_env ''ua'' repay_loan ''l1'' ''b0'' 20000 953 taken_world = (Inr (), w')" by blast
  have k: "e_uuid ok_env (w_uuidn payer_world) = ''b0''" by code_simp
  have id: "newID ok_env payer_world = (Inr ''b0'', payer_world\<lparr>w_uuidn := Suc (w_uuidn payer_world)\<rparr>)"
    by (simp add: newID_def k)
  have c: "FormatAsset [] = ''ETB/2''" "RemainingCents repay_loan = 105010" "u_LedgerWalletID user0 = ''wa''"
    by (code_simp, code_simp, code_simp)
  have "ManualRepay ok_env eclient ''ua'' ''l1'' \<lparr>lr_AmountCents = 20000\<rparr> repay_world = (Inr (), w')"
    using found_run payer_run id taken_run r
    by (simp add: ManualRepay_def bindA_def c repay_portion in_i64_def)
  then show ?thesis by blast
qed


theorem ManualRepay_repays_witness:
  "\<exists>w'. ManualRepay ok_env eclient ''ua'' ''l1'' \<lparr>lr_AmountCents = 20000\<rparr> repay_world = (Inr (), w')
     \<and> lv_bal (fc_view e_ghost (w_ledger w')) (MainAccount neo ''wa'') ''ETB/2'' = 30000
     \<and> paid_map (w_loans w') = [(''l1'', 20000)]"
proof -
  obtain w' where r: "ManualRepay ok_env eclient ''ua'' ''l1'' \<lparr>lr_AmountCents = 20000\<rparr> repay_world = (Inr (), w')"
    using repaid_run by blast
  have fresh: "uuid_keys ok_env \<inter> lv_used (fc_view e_ghost (w_ledger repay_world)) = {}"
    by (simp add: repay_world_def empty_world_def seeded_def e_ghost_def)
  have rows: "list_all loan_row_wf (w_loans repay_world)"
    by (simp add: repay_world_def repay_loan_def loan_row_wf_def)
  from ManualRepay_repays [OF eclient_contract r fresh rows] obtain loan user n k where
    u: "loan \<in> set (w_loans repay_world)" "user \<in> set (w_users repay_world)"
    and n: "n = min (lr_AmountCents \<lparr>lr_AmountCents = 20000\<rparr>) (ln_TotalDueCents loan - ln_TotalPaidCents loan)"
    and b: "lv_bal (fc_view e_ghost (w_ledger w')) = apply_postings
        [P (MainAccount neo (u_LedgerWalletID user)) (SystemLoanCapital neo) k (FormatAsset []),
         P (MainAccount neo (u_LedgerWalletID user)) (SystemInterest neo) (n - k) (FormatAsset [])]
        (lv_bal (fc_view e_ghost (w_ledger repay_world)))"
    and p: "paid_map (w_loans w') = add_paid ''l1'' n (paid_map (w_loans repay_world))"
    by blast
  have u: "u_LedgerWalletID user = ''wa''" "n = 20000"
    using u n by (simp_all add: repay_world_def user0_def repay_loan_def)
  have f: "FormatAsset [] = ''ETB/2''" "SystemLoanCapital neo \<noteq> MainAccount neo ''wa''" "SystemInterest neo \<noteq> MainAccount neo ''wa''"
    "MainAccount neo ''wa'' \<noteq> SystemLoanCapital neo" "MainAccount neo ''wa'' \<noteq> SystemInterest neo"
    "lv_bal (fc_view e_ghost (w_ledger repay_world)) (MainAccount neo ''wa'') ''ETB/2'' = 50000"
    by (code_simp, code_simp, code_simp, code_simp, code_simp, code_simp)
  have "lv_bal (fc_view e_ghost (w_ledger w')) (MainAccount neo ''wa'') ''ETB/2'' = 30000"
    unfolding b u f(1) using f(2-6) by (simp add: apply_P)
  moreover have "paid_map (w_loans w') = [(''l1'', 20000)]"
    unfolding p u by (simp add: repay_world_def repay_loan_def paid_map_def add_paid_def)
  ultimately show ?thesis using r by (intro exI conjI)
qed

end
