(* ===== verification/Savings_Pots.thy ===== *)
theory Savings_Pots
  imports Validate Account_Tables
begin

text \<open>
  \<open>internal/services/pots\<close>: named sub-accounts of a wallet. The money of a pot sits on its own ledger
  account; archiving a pot first moves everything back to the wallet. The lemmas show that putting
  money into a pot and taking it out moves exactly the amount between two accounts of the same customer, and that
  an archived pot is empty.
\<close>

section \<open>Trimming\<close>

text \<open>\<open>strings.TrimSpace\<close> on the bytes of a UTF-8 string: the encodings of the Unicode white space.\<close>

definition space_seqs :: "string list" where
  "space_seqs = [[CHR 0x09], [CHR 0x0A], [CHR 0x0B], [CHR 0x0C], [CHR 0x0D], [CHR 0x20], [CHR 0xC2, CHR 0x85],
     [CHR 0xC2, CHR 0xA0], [CHR 0xE1, CHR 0x9A, CHR 0x80], [CHR 0xE2, CHR 0x80, CHR 0x80], [CHR 0xE2, CHR 0x80, CHR 0x81],
     [CHR 0xE2, CHR 0x80, CHR 0x82], [CHR 0xE2, CHR 0x80, CHR 0x83], [CHR 0xE2, CHR 0x80, CHR 0x84],
     [CHR 0xE2, CHR 0x80, CHR 0x85], [CHR 0xE2, CHR 0x80, CHR 0x86], [CHR 0xE2, CHR 0x80, CHR 0x87],
     [CHR 0xE2, CHR 0x80, CHR 0x88], [CHR 0xE2, CHR 0x80, CHR 0x89], [CHR 0xE2, CHR 0x80, CHR 0x8A],
     [CHR 0xE2, CHR 0x80, CHR 0xA8], [CHR 0xE2, CHR 0x80, CHR 0xA9], [CHR 0xE2, CHR 0x80, CHR 0xAF],
     [CHR 0xE2, CHR 0x81, CHR 0x9F], [CHR 0xE3, CHR 0x80, CHR 0x80]]"

lemma space_seqs_nonempty: "p \<in> set space_seqs \<Longrightarrow> p \<noteq> []"
  by (auto simp: space_seqs_def)

function strip_prefixes :: "string list \<Rightarrow> string \<Rightarrow> string" where
  "strip_prefixes ps s = (case find (\<lambda>p. p \<noteq> [] \<and> take (length p) s = p) ps of
     None \<Rightarrow> s | Some p \<Rightarrow> strip_prefixes ps (drop (length p) s))"
  by pat_completeness auto
termination
proof (relation "measure (\<lambda>(ps, s). length s)")
  fix ps s p assume "find (\<lambda>p. p \<noteq> [] \<and> take (length p) s = p) ps = Some p"
  then have "p \<noteq> []" "take (length p) s = p" by (auto simp: find_Some_iff)
  then show "((ps, drop (length p) s), ps, s) \<in> measure (\<lambda>(ps, s). length s)" by (cases s) auto
qed simp

definition TrimSpace :: "string \<Rightarrow> string" where
  "TrimSpace s = rev (strip_prefixes (map rev space_seqs) (rev (strip_prefixes space_seqs s)))"

section \<open>Requests\<close>

record CreatePotRequest =
  cpr_Name :: string
  cpr_CurrencyCode :: string
  cpr_TargetCents :: "int option"
  cpr_Emoji :: "string option"

definition createPot_Validate :: "env \<Rightarrow> CreatePotRequest \<Rightarrow> go_error + unit" where
  "createPot_Validate E r = Struct E [(FStr (cpr_Name r), [''required'', ''min=1'', ''max=50'']),
     (FStr (cpr_CurrencyCode r), [''required'', ''currency''])]"

record UpdatePotRequest =
  up_Name :: "string option"
  up_TargetCents :: "int option"
  up_Emoji :: "string option"

definition updatePot_Validate :: "env \<Rightarrow> UpdatePotRequest \<Rightarrow> go_error + unit" where
  "updatePot_Validate E r = Struct E (case up_Name r of None \<Rightarrow> [] | Some n \<Rightarrow> [(FStr n, [''min=1'', ''max=50''])])"

record PotTransferRequest =
  ptr_AmountCents :: int

definition potTransfer_Validate :: "env \<Rightarrow> PotTransferRequest \<Rightarrow> go_error + unit" where
  "potTransfer_Validate E r =
     (case Struct E [(FInt (ptr_AmountCents r), [''required'', ''gt=0''])] of
        Inl e \<Rightarrow> Inl e
      | Inr _ \<Rightarrow> AmountCents (ptr_AmountCents r))"

section \<open>The service\<close>

definition getPotForUser :: "env \<Rightarrow> string \<Rightarrow> string \<Rightarrow> ('l, Pot) go" where
  "getPotForUser E userID potID =
     bindA (pot_GetByID E potID) (\<lambda>pot.
     if pt_UserID pot \<noteq> userID then throwA (Pots ErrPotNotFound)
     else if pt_IsArchived pot then throwA (Pots ErrPotArchived)
     else retA pot)"

text \<open>The computed fields; the division runs inside an action, so that evaluation meets numbers only.\<close>

definition with_balance :: "Pot \<Rightarrow> int \<Rightarrow> ('l, Pot) go" where
  "with_balance pot bal w =
     (let cents = i64 bal;
          pot = pot\<lparr>pt_BalanceCents := cents, pt_Display := Display cents (pt_CurrencyCode pot)\<rparr> in
      (Inr (case pt_TargetCents pot of
          None \<Rightarrow> pot
        | Some t \<Rightarrow> if t > 0 then pot\<lparr>pt_ProgressPercent := f_mul (f_div (f_of_int cents) (f_of_int t)) 100\<rparr> else pot), w))"

definition enrichPot :: "env \<Rightarrow> 'l Client \<Rightarrow> Pot \<Rightarrow> ('l, Pot) go" where
  "enrichPot E L pot =
     bindA (user_GetByID E (pt_UserID pot)) (\<lambda>user.
     bindA (ledA (GetPotBalance L (u_LedgerWalletID user) (pt_ID pot) (FormatAsset [pt_CurrencyCode pot]))) (\<lambda>bal.
     with_balance pot bal))"

definition CreatePot :: "env \<Rightarrow> string \<Rightarrow> CreatePotRequest \<Rightarrow> ('l, Pot) go" where
  "CreatePot E userID req =
     bindA (liftE (createPot_Validate E req)) (\<lambda>_.
     let name = TrimSpace (cpr_Name req) in
     bindA (mapErrA (\<lambda>_. Wallets ErrCurrencyNotActive) (balance_GetByUserAndCurrency E userID (cpr_CurrencyCode req))) (\<lambda>_.
     bindA (pot_Create E \<lparr>pt_ID = '''', pt_UserID = userID, pt_Name = name, pt_CurrencyCode = cpr_CurrencyCode req,
       pt_TargetCents = cpr_TargetCents req, pt_Emoji = cpr_Emoji req, pt_IsArchived = False, pt_ArchivedAt = None,
       pt_CreatedAt = 0, pt_BalanceCents = 0, pt_Display = '''', pt_ProgressPercent = 0\<rparr>) (\<lambda>pot.
     retA (pot\<lparr>pt_BalanceCents := 0, pt_Display := Display 0 (cpr_CurrencyCode req)\<rparr>))))"

definition UpdatePot :: "env \<Rightarrow> 'l Client \<Rightarrow> string \<Rightarrow> string \<Rightarrow> UpdatePotRequest \<Rightarrow> ('l, Pot) go" where
  "UpdatePot E L userID potID req =
     bindA (liftE (updatePot_Validate E req)) (\<lambda>_.
     bindA (getPotForUser E userID potID) (\<lambda>pot.
     let pot = pot\<lparr>pt_Name := (case up_Name req of None \<Rightarrow> pt_Name pot | Some n \<Rightarrow> TrimSpace n),
           pt_TargetCents := (case up_TargetCents req of None \<Rightarrow> pt_TargetCents pot | Some t \<Rightarrow> Some t),
           pt_Emoji := (case up_Emoji req of None \<Rightarrow> pt_Emoji pot | Some e \<Rightarrow> Some e)\<rparr> in
     bindA (pot_Update E pot) (\<lambda>_.
     enrichPot E L pot)))"

definition empty_pot :: "env \<Rightarrow> 'l Client \<Rightarrow> User \<Rightarrow> Pot \<Rightarrow> int \<Rightarrow> ('l, unit) go" where
  "empty_pot E L user pot cents =
     whenA (cents > 0) (bindA (newID E) (\<lambda>ik.
       ledA (TransferFromPot L ik (u_LedgerWalletID user) (pt_ID pot) cents (FormatAsset [pt_CurrencyCode pot]))))"

definition ArchivePot :: "env \<Rightarrow> 'l Client \<Rightarrow> string \<Rightarrow> string \<Rightarrow> ('l, int \<times> string) go" where
  "ArchivePot E L userID potID =
     bindA (getPotForUser E userID potID) (\<lambda>pot.
     bindA (user_GetByID E userID) (\<lambda>user.
     bindA (ledA (GetPotBalance L (u_LedgerWalletID user) (pt_ID pot) (FormatAsset [pt_CurrencyCode pot]))) (\<lambda>bal.
     let cents = i64 bal in
     bindA (empty_pot E L user pot cents) (\<lambda>_.
     bindA (pot_Archive E potID userID) (\<lambda>_.
     retA (cents, pt_CurrencyCode pot))))))"

definition pot_receipt :: "string \<Rightarrow> Pot \<Rightarrow> string \<Rightarrow> ReceiptType \<Rightarrow> int \<Rightarrow> string \<Rightarrow> TransactionReceipt" where
  "pot_receipt userID pot ik ty n verb =
     receipt0\<lparr>rc_UserID := userID, rc_LedgerTransactionID := ik, rc_IdempotencyKey := Some ik, rc_Type := ty,
       rc_Status := ReceiptCompleted, rc_AmountCents := n, rc_Currency := pt_CurrencyCode pot,
       rc_Narration := Some (verb @ pt_Name pot), rc_Metadata := Some (MetaPotTransfer (pt_ID pot) (pt_Name pot))\<rparr>"

definition AddToPot :: "env \<Rightarrow> 'l Client \<Rightarrow> bool \<Rightarrow> string \<Rightarrow> string \<Rightarrow> PotTransferRequest \<Rightarrow> ('l, Pot) go" where
  "AddToPot E L receipts userID potID req =
     bindA (liftE (potTransfer_Validate E req)) (\<lambda>_.
     bindA (getPotForUser E userID potID) (\<lambda>pot.
     bindA (user_GetByID E userID) (\<lambda>user.
     let asset = FormatAsset [pt_CurrencyCode pot] in
     bindA (ledA (GetWalletBalance L (u_LedgerWalletID user) asset)) (\<lambda>mainBalance.
     if i64 mainBalance < ptr_AmountCents req then throwA (Financial ErrInsufficientFunds) else
     bindA (newID E) (\<lambda>ik.
     bindA (ledA (TransferToPot L ik (u_LedgerWalletID user) (pt_ID pot) (ptr_AmountCents req) asset)) (\<lambda>_.
     bindA (whenA receipts (ignoreA (receipt_Create E
       (pot_receipt userID pot ik ReceiptPotDeposit (ptr_AmountCents req) ''Added to '')))) (\<lambda>_.
     enrichPot E L pot)))))))"

definition WithdrawFromPot :: "env \<Rightarrow> 'l Client \<Rightarrow> bool \<Rightarrow> string \<Rightarrow> string \<Rightarrow> PotTransferRequest \<Rightarrow> ('l, Pot) go" where
  "WithdrawFromPot E L receipts userID potID req =
     bindA (liftE (potTransfer_Validate E req)) (\<lambda>_.
     bindA (getPotForUser E userID potID) (\<lambda>pot.
     bindA (user_GetByID E userID) (\<lambda>user.
     let asset = FormatAsset [pt_CurrencyCode pot] in
     bindA (ledA (GetPotBalance L (u_LedgerWalletID user) (pt_ID pot) asset)) (\<lambda>potBalance.
     if i64 potBalance < ptr_AmountCents req then throwA (Financial ErrInsufficientFunds) else
     bindA (newID E) (\<lambda>ik.
     bindA (ledA (TransferFromPot L ik (u_LedgerWalletID user) (pt_ID pot) (ptr_AmountCents req) asset)) (\<lambda>_.
     bindA (whenA receipts (ignoreA (receipt_Create E
       (pot_receipt userID pot ik ReceiptPotWithdraw (ptr_AmountCents req) ''Withdrawn from '')))) (\<lambda>_.
     enrichPot E L pot)))))))"

definition ListPots :: "env \<Rightarrow> 'l Client \<Rightarrow> string \<Rightarrow> ('l, Pot list) go" where
  "ListPots E L userID =
     bindA (user_GetByID E userID) (\<lambda>user.
     bindA (pot_ListActiveByUser E userID) (\<lambda>list.
     mapA (\<lambda>pot. bindA (ledA (GetPotBalance L (u_LedgerWalletID user) (pt_ID pot) (FormatAsset [pt_CurrencyCode pot])))
       (with_balance pot)) list))"

definition GetPot :: "env \<Rightarrow> 'l Client \<Rightarrow> string \<Rightarrow> string \<Rightarrow> ('l, Pot) go" where
  "GetPot E L userID potID = bindA (getPotForUser E userID potID) (enrichPot E L)"

definition GetPotTransactions :: "env \<Rightarrow> 'l Client \<Rightarrow> Chart \<Rightarrow> string \<Rightarrow> string \<Rightarrow> int \<Rightarrow> ('l, Transaction list) go" where
  "GetPotTransactions E L chart userID potID limit =
     bindA (getPotForUser E userID potID) (\<lambda>pot.
     bindA (user_GetByID E (pt_UserID pot)) (\<lambda>user.
     ledA (GetAccountHistory L (PotAccount chart (u_LedgerWalletID user) (pt_ID pot)) limit)))"

text \<open>Evaluation unfolds an action only when it runs.\<close>

lemmas savings_pots_code [code] =
  getPotForUser_def [THEN fun_cong]
  enrichPot_def [THEN fun_cong]
  CreatePot_def [THEN fun_cong]
  UpdatePot_def [THEN fun_cong]
  empty_pot_def [THEN fun_cong]
  ArchivePot_def [THEN fun_cong]
  AddToPot_def [THEN fun_cong]
  WithdrawFromPot_def [THEN fun_cong]
  ListPots_def [THEN fun_cong]
  GetPot_def [THEN fun_cong]
  GetPotTransactions_def [THEN fun_cong]

section \<open>Moving money in and out of a pot\<close>

lemma own_pot [simp]: "MainAccount c w \<noteq> PotAccount c w p" "PotAccount c w p \<noteq> MainAccount c w"
  by (simp_all add: MainAccount_def PotAccount_def)

lemma reader_pots [readers]: "readerA (pot_GetByID E i)" "readerA (getPotForUser E u i)"
  unfolding pot_GetByID_def getPotForUser_def by (rule readers)+

lemma getPotForUser_run:
  assumes "getPotForUser E uid i w = (Inr pot, w')"
  shows "pot \<in> set (w_pots w)" "pot_open i uid pot" "stable w' = stable w"
  using assms readerD [OF reader_pots(2) assms]
  by (auto simp: getPotForUser_def pot_GetByID_def pot_open_def runs dbA_run split: if_splits dest!: select_one_Some)

text \<open>The customer, the pot and the balance a transfer starts from.\<close>

lemma calm_with_balance [calms]: "calm (with_balance pot n)"
  by (simp add: calm_def with_balance_def Let_def)

context ledger_client
begin

lemma pot_balance_run:
  assumes "ledA (GetPotBalance L wid p a) w = (Inr n, w')"
  shows "n = lv_bal (view (w_ledger w)) (PotAccount c wid p) a" "view (w_ledger w') = view (w_ledger w)"
    "w' = w\<lparr>w_ledger := w_ledger w'\<rparr>"
  using assms pot_balance [of wid p a "w_ledger w" "Inr n" "w_ledger w'"] by (auto simp: ledA_run)

lemma wallet_balance_run:
  assumes "ledA (GetWalletBalance L wid a) w = (Inr n, w')"
  shows "n = lv_bal (view (w_ledger w)) (MainAccount c wid) a" "view (w_ledger w') = view (w_ledger w)"
    "w' = w\<lparr>w_ledger := w_ledger w'\<rparr>"
  using assms get_balance [of wid a "w_ledger w" "Inr n" "w_ledger w'"] by (auto simp: ledA_run)

lemma enrich_view:
  assumes "enrichPot E L pot w = (r, w')"
  shows "view (w_ledger w') = view (w_ledger w)"
proof -
  have "keepsA (\<lambda>w. view (w_ledger w) = v) (enrichPot E L pot)" for v
  proof -
    have "keepsA (\<lambda>w. view (w_ledger w) = v) (user_GetByID E i)" for i
      unfolding keepsA_def by (metis calm_snd calm_users(1))
    moreover have "keepsA (\<lambda>w. view (w_ledger w) = v) (ledA (GetPotBalance L x p a))" for x p a
      unfolding keepsA_def ledA_def by (auto split: prod.splits dest: pot_balance)
    moreover have "keepsA (\<lambda>w. view (w_ledger w) = v) (with_balance p n)" for p n
      unfolding keepsA_def by (metis calm_snd calm_with_balance)
    ultimately show ?thesis unfolding enrichPot_def by (intro keeps)
  qed
  then show ?thesis using assms unfolding keepsA_def by (metis snd_conv)
qed

end

lemma stable_pots:
  assumes "stable w' = stable w"
  shows "w_pots w' = w_pots w"
  using arg_cong [OF assms, of w_pots] by (simp add: stable_def)

lemma fresh_key: "uuid_keys E \<inter> lv_used v = {} \<Longrightarrow> {e_uuid E n} \<inter> lv_used v = {}"
  using keys_ofI [of "e_uuid E n" "[]"] by (auto simp: uuid_keys_def)

lemma pot_Archive_run:
  assumes "pot_Archive E i uid w = (Inr u, w')"
  shows "w_pots w' = update_where (pot_open i uid) (\<lambda>p. p\<lparr>pt_IsArchived := True, pt_ArchivedAt := Some (w_now w)\<rparr>) (w_pots w)"
  using assms by (auto simp: pot_Archive_def dbA_run runs nowA_def split: if_splits)

lemma empty_pot_run:
  assumes lc: "ledger_client L c view holdOf nexth" and run: "empty_pot E L user pot n w = (Inr u, w')"
    and fresh: "uuid_keys E \<inter> lv_used (view (w_ledger w)) = {}"
  shows "lv_bal (view (w_ledger w')) = apply_postings (if 0 < n then [P (PotAccount c (u_LedgerWalletID user) (pt_ID pot))
      (MainAccount c (u_LedgerWalletID user)) n (FormatAsset [pt_CurrencyCode pot])] else []) (lv_bal (view (w_ledger w)))"
    "w_pots w' = w_pots w" "w_now w' = w_now w"
proof -
  show "w_pots w' = w_pots w" "w_now w' = w_now w"
    using run by (auto simp: empty_pot_def runs newID_def dest!: ledA_D split: if_splits)
  show "lv_bal (view (w_ledger w')) = apply_postings (if 0 < n then [P (PotAccount c (u_LedgerWalletID user) (pt_ID pot))
      (MainAccount c (u_LedgerWalletID user)) n (FormatAsset [pt_CurrencyCode pot])] else []) (lv_bal (view (w_ledger w)))"
  proof (cases "0 < n")
    case True
    then have t: "ledA (TransferFromPot L (e_uuid E (w_uuidn w)) (u_LedgerWalletID user) (pt_ID pot) n (FormatAsset [pt_CurrencyCode pot]))
        (w\<lparr>w_uuidn := Suc (w_uuidn w)\<rparr>) = (Inr (), w')"
      using run by (simp add: empty_pot_def runs newID_def)
    have f: "{e_uuid E (w_uuidn w)} \<inter> lv_used (view (w_ledger (w\<lparr>w_uuidn := Suc (w_uuidn w)\<rparr>))) = {}"
      using fresh_key [OF fresh] by simp
    from postsD [OF posts_write [OF ledger_client.from_pot [OF lc]] f t] True show ?thesis by auto
  next
    case False
    then show ?thesis using run by (simp add: empty_pot_def runs)
  qed
qed

definition pot_balance_ok :: "int \<Rightarrow> bool" where
  "pot_balance_ok n \<longleftrightarrow> 0 \<le> n \<and> in_i64 n"

text \<open>C20: archiving a pot never loses money: it works only on an open pot of the caller, moves the whole
  balance of the pot back to the caller's wallet, reports it, leaves the pot's account empty and changes no
  other pot.\<close>

theorem ArchivePot_returns:
  assumes lc: "ledger_client L c view holdOf nexth"
    and run: "ArchivePot E L userID potID w = (Inr (cents, cur), w')"
    and fresh: "uuid_keys E \<inter> lv_used (view (w_ledger w)) = {}"
    and range: "\<forall>u \<in> set (w_users w). \<forall>p \<in> set (w_pots w). pot_balance_ok (lv_bal (view (w_ledger w))
      (PotAccount c (u_LedgerWalletID u) (pt_ID p)) (FormatAsset [pt_CurrencyCode p]))"
  shows "\<exists>pot user. pot \<in> set (w_pots w) \<and> pot_open potID userID pot \<and> user \<in> set (w_users w) \<and> u_ID user = userID
    \<and> cents = lv_bal (view (w_ledger w)) (PotAccount c (u_LedgerWalletID user) potID) (FormatAsset [pt_CurrencyCode pot])
    \<and> lv_bal (view (w_ledger w')) = apply_posting (P (PotAccount c (u_LedgerWalletID user) potID)
        (MainAccount c (u_LedgerWalletID user)) cents (FormatAsset [pt_CurrencyCode pot])) (lv_bal (view (w_ledger w)))
    \<and> lv_bal (view (w_ledger w')) (PotAccount c (u_LedgerWalletID user) potID) (FormatAsset [pt_CurrencyCode pot]) = 0
    \<and> w_pots w' = update_where (pot_open potID userID)
        (\<lambda>p. p\<lparr>pt_IsArchived := True, pt_ArchivedAt := Some (w_now w)\<rparr>) (w_pots w)"
proof -
  obtain pot w1 user w2 bal w3 w4 where p: "getPotForUser E userID potID w = (Inr pot, w1)"
    and u: "user_GetByID E userID w1 = (Inr user, w2)"
    and b: "ledA (GetPotBalance L (u_LedgerWalletID user) (pt_ID pot) (FormatAsset [pt_CurrencyCode pot])) w2 = (Inr bal, w3)"
    and e: "empty_pot E L user pot (i64 bal) w3 = (Inr (), w4)"
    and a: "pot_Archive E potID userID w4 = (Inr (), w')" and cents: "cents = i64 bal"
    using run by (auto simp: ArchivePot_def runs Let_def)
  let ?a = "FormatAsset [pt_CurrencyCode pot]" and ?wid = "u_LedgerWalletID user"
  note pr = getPotForUser_run [OF p] and ur = user_GetByID_run [OF u] and br = ledger_client.pot_balance_run [OF lc b]
  have id: "pt_ID pot = potID" using pr(2) by (simp add: pot_open_def)
  have st: "stable w2 = stable w" using pr(3) ur(3) by simp
  have l: "view (w_ledger w3) = view (w_ledger w)" using br(2) stable_fields(1) [OF st] by simp
  have now: "w_now w3 = w_now w" "w_pots w3 = w_pots w"
    using arg_cong [OF br(3), of w_now] arg_cong [OF br(3), of w_pots] stable_fields(4) [OF st] stable_pots [OF st] by simp_all
  have bal: "bal = lv_bal (view (w_ledger w)) (PotAccount c ?wid potID) ?a" using br(1) id stable_fields(1) [OF st] by simp
  have us: "user \<in> set (w_users w)" using ur(1) stable_fields(2) [OF pr(3)] by simp
  then have cb: "cents = bal" "0 \<le> bal" using range pr(1) cents bal id by (auto simp: pot_balance_ok_def)
  note er = empty_pot_run [OF lc e, unfolded l, OF fresh]
  have "w_ledger w' = w_ledger w4" using calmD [OF calm_pot_Archive a] .
  then have pb: "lv_bal (view (w_ledger w')) = apply_posting (P (PotAccount c ?wid potID) (MainAccount c ?wid) cents ?a) (lv_bal (view (w_ledger w)))"
    using er(1) cents cb id by (cases "bal = 0") (auto simp: apply_P fun_eq_iff)
  moreover have "lv_bal (view (w_ledger w')) (PotAccount c ?wid potID) ?a = 0"
    unfolding pb using bal cb by (simp add: apply_P)
  moreover have "w_pots w' = update_where (pot_open potID userID)
        (\<lambda>p. p\<lparr>pt_IsArchived := True, pt_ArchivedAt := Some (w_now w)\<rparr>) (w_pots w)"
    using pot_Archive_run [OF a] er(2,3) now by simp
  ultimately show ?thesis using us pr(1,2) ur(2) bal cb by blast
qed


definition pot_world :: "engine fclient world" where
  "pot_world = (empty_world (seeded [(PotAccount neo ''wa'' ''p1'', 700, ''ETB/2'')]) 1000)
     \<lparr>w_users := [user0], w_pots := [\<lparr>pt_ID = ''p1'', pt_UserID = ''ua'', pt_Name = ''car'', pt_CurrencyCode = ''ETB'',
       pt_TargetCents = None, pt_Emoji = None, pt_IsArchived = False, pt_ArchivedAt = None,
       pt_CreatedAt = 0, pt_BalanceCents = 0, pt_Display = '''', pt_ProgressPercent = 0\<rparr>]\<rparr>"

theorem ArchivePot_returns_witness:
  "\<exists>w'. ArchivePot ok_env eclient ''ua'' ''p1'' pot_world = (Inr (700, ''ETB''), w')
     \<and> lv_bal (fc_view e_ghost (w_ledger w')) (PotAccount neo ''wa'' ''p1'') ''ETB/2'' = 0"
proof -
  let ?r = "ArchivePot ok_env eclient ''ua'' ''p1'' pot_world"
  have r: "?r = (Inr (700, ''ETB''), snd ?r)" by (rule run_of) code_simp
  have f: "uuid_keys ok_env \<inter> lv_used (fc_view e_ghost (w_ledger pot_world)) = {}"
    by (simp add: pot_world_def empty_world_def seeded_def e_ghost_def)
  have ok: "\<forall>u \<in> set (w_users pot_world). \<forall>p \<in> set (w_pots pot_world). pot_balance_ok (lv_bal (fc_view e_ghost (w_ledger pot_world))
      (PotAccount neo (u_LedgerWalletID u) (pt_ID p)) (FormatAsset [pt_CurrencyCode p]))" by code_simp
  from ArchivePot_returns [OF eclient_contract r f ok] obtain pot user where
    "pot \<in> set (w_pots pot_world)" "user \<in> set (w_users pot_world)"
    "lv_bal (fc_view e_ghost (w_ledger (snd ?r))) (PotAccount neo (u_LedgerWalletID user) ''p1'') (FormatAsset [pt_CurrencyCode pot]) = 0"
    by blast
  moreover from this(1,2) have "u_LedgerWalletID user = ''wa''" "pt_CurrencyCode pot = ''ETB''"
    by (simp_all add: pot_world_def user0_def)
  moreover have "FormatAsset [''ETB''] = ''ETB/2''" by code_simp
  ultimately show ?thesis using r by (intro exI [of _ "snd ?r"]) simp
qed

end
