(* ===== verification/Conversion.thy ===== *)
theory Conversion
  imports Payments Account_Tables
begin

text \<open>
  \<open>internal/services/convert\<close>: exchange rates and conversions between the currencies of a wallet. The two
  HTTP rate feeds are outside: a \<open>RateSource\<close> is what \<open>FetchRates\<close> returned, built by \<open>buildCrossRates\<close> from
  the decoded table. \<open>GetRate\<close> is the database-backed provider with its cache, \<open>static_GetRate\<close> the test
  one. The JSON round trip of the cached rate is the identity.
\<close>

section \<open>Rate sources\<close>

record RawRate =
  raw_From :: string
  raw_To :: string
  raw_MidRate :: float64
  raw_FetchedAt :: int

record RateSource =
  rs_Name :: string
  rs_FetchRates :: "go_error + RawRate list"

definition cross_rate :: "(string \<rightharpoonup> float64) \<Rightarrow> int \<Rightarrow> string \<Rightarrow> string \<Rightarrow> RawRate list" where
  "cross_rate usdRates fetchedAt from to =
     (if from = to then [] else
      case (usdRates from, usdRates to) of
        (Some fromRate, Some toRate) \<Rightarrow>
          if fromRate \<le> 0 then []
          else [\<lparr>raw_From = from, raw_To = to, raw_MidRate = f_div toRate fromRate, raw_FetchedAt = fetchedAt\<rparr>]
      | _ \<Rightarrow> [])"

definition buildCrossRates :: "(string \<rightharpoonup> float64) \<Rightarrow> int \<Rightarrow> RawRate list" where
  "buildCrossRates usdRates fetchedAt =
     (let usdRates = usdRates(''USD'' \<mapsto> 1); codes = [''USD'', ''ETB'', ''EUR''] in
      concat (map (\<lambda>from. concat (map (\<lambda>to. cross_rate usdRates fetchedAt from to) codes)) codes))"

definition ChainedRateSource :: "RateSource \<Rightarrow> RateSource \<Rightarrow> RateSource" where
  "ChainedRateSource p fallback = \<lparr>rs_Name = rs_Name p,
     rs_FetchRates = (case rs_FetchRates p of Inr rates \<Rightarrow> Inr rates | Inl e \<Rightarrow> rs_FetchRates fallback)\<rparr>"

section \<open>Rate providers\<close>

text \<open>Bid and ask around the mid rate.\<close>

definition bid_of :: "float64 \<Rightarrow> float64 \<Rightarrow> float64" where
  "bid_of spreadPercent mid = f_mul mid (f_sub 1 (f_div (f_div spreadPercent 100) 2))"

definition ask_of :: "float64 \<Rightarrow> float64 \<Rightarrow> float64" where
  "ask_of spreadPercent mid = f_mul mid (f_add 1 (f_div (f_div spreadPercent 100) 2))"

fun source_name :: "FXRateSource \<Rightarrow> string" where
  "source_name FXRateSourceNBE = ''nbe_indicative''"
| "source_name FXRateSourceManual = ''manual''"
| "source_name FXRateSourceAPI = ''api''"

record rate_provider =
  rv_spreadPercent :: float64
  rv_cacheTTL :: int

definition identity_rate :: "string \<Rightarrow> int \<Rightarrow> string \<Rightarrow> Rate" where
  "identity_rate cur now src = \<lparr>rt_From = cur, rt_To = cur, rt_Mid = 1, rt_Bid = 1, rt_Ask = 1, rt_Spread = 0,
     rt_Timestamp = now, rt_Source = src\<rparr>"

definition quote :: "float64 \<Rightarrow> string \<Rightarrow> string \<Rightarrow> float64 \<Rightarrow> int \<Rightarrow> string \<Rightarrow> ('l, Rate) go" where
  "quote spread from to mid ts src w =
     (Inr \<lparr>rt_From = from, rt_To = to, rt_Mid = mid, rt_Bid = bid_of spread mid, rt_Ask = ask_of spread mid,
        rt_Spread = spread, rt_Timestamp = ts, rt_Source = src\<rparr>, w)"

definition fx_key :: "string \<Rightarrow> string \<Rightarrow> string" where
  "fx_key from to = ''neo:fx:'' @ from @ ''_'' @ to"

definition fetch_rate :: "env \<Rightarrow> rate_provider \<Rightarrow> string \<Rightarrow> string \<Rightarrow> ('l, Rate) go" where
  "fetch_rate E p from to =
     bindA (fx_GetLatest E from to) (\<lambda>dbRate.
     bindA (quote (rv_spreadPercent p) from to (fx_MidRate dbRate) (fx_FetchedAt dbRate) (source_name (fx_Source dbRate))) (\<lambda>rate.
     bindA (cacheSet (fx_key from to) (CRate rate) (rv_cacheTTL p)) (\<lambda>_.
     retA rate)))"

definition GetRate :: "env \<Rightarrow> rate_provider \<Rightarrow> string \<Rightarrow> string \<Rightarrow> ('l, Rate) go" where
  "GetRate E p from to =
     (if from = to then bindA nowA (\<lambda>now. retA (identity_rate from now ''identity''))
      else bindA (cacheGet (fx_key from to)) (\<lambda>hit.
        case hit of
          Some (CRate r) \<Rightarrow> retA r
        | _ \<Rightarrow> fetch_rate E p from to))"

definition static_GetRate :: "float64 \<Rightarrow> (string \<rightharpoonup> float64) \<Rightarrow> string \<Rightarrow> string \<Rightarrow> ('l, Rate) go" where
  "static_GetRate spread rates from to =
     bindA nowA (\<lambda>now.
     if from = to then retA (identity_rate from now ''static'')
     else case rates (from @ ''_'' @ to) of
       None \<Rightarrow> throwA (Financial ErrInvalidCurrency)
     | Some mid \<Rightarrow> if mid \<le> 0 then throwA (Financial ErrInvalidCurrency) else quote spread from to mid now ''static'')"

definition ConvertWithSpread :: "Rate \<Rightarrow> int \<Rightarrow> int \<times> float64" where
  "ConvertWithSpread rate amountCents =
     (let effectiveRate = rt_Ask rate in (trunc64 (math_Round (f_mul (f_of_int amountCents) effectiveRate)), effectiveRate))"

section \<open>Refreshing the rates\<close>

definition rate_row :: "float64 \<Rightarrow> string \<Rightarrow> RawRate \<Rightarrow> ('l, FXRate) go" where
  "rate_row spread name raw w =
     (if name \<in> source_name ` {FXRateSourceNBE, FXRateSourceManual, FXRateSourceAPI}
      then Inr \<lparr>fx_FromCurrency = raw_From raw, fx_ToCurrency = raw_To raw, fx_MidRate = raw_MidRate raw,
        fx_BidRate = bid_of spread (raw_MidRate raw), fx_AskRate = ask_of spread (raw_MidRate raw), fx_SpreadPercent = spread,
        fx_Source = (if name = ''nbe_indicative'' then FXRateSourceNBE else if name = ''manual'' then FXRateSourceManual
          else FXRateSourceAPI), fx_FetchedAt = raw_FetchedAt raw, fx_CreatedAt = 0\<rparr>
      else Inl db_error, w)"

text \<open>A row that cannot be inserted is skipped; the count is that of the inserted ones. The CHECK on the column
  \<open>source\<close> refuses a name outside the enumeration.\<close>

fun insert_rates :: "env \<Rightarrow> float64 \<Rightarrow> string \<Rightarrow> RawRate list \<Rightarrow> int \<Rightarrow> ('l, int) go" where
  "insert_rates E spread name [] inserted = retA inserted"
| "insert_rates E spread name (raw # rs) inserted =
     bindA (tryA (bindA (rate_row spread name raw) (fx_Insert E))) (\<lambda>r.
     insert_rates E spread name rs (case r of Inl e \<Rightarrow> inserted | Inr _ \<Rightarrow> inserted + 1))"

definition Refresh :: "env \<Rightarrow> float64 \<Rightarrow> RateSource \<Rightarrow> ('l, unit) go" where
  "Refresh E spread src =
     bindA (liftE (rs_FetchRates src)) (\<lambda>rawRates.
     bindA (insert_rates E spread (rs_Name src) rawRates 0) (\<lambda>inserted.
     ignoreA (audit_Log E ((audit_entry ''fx_rate_updated'' ''system'' None ''fx_rates'' ''batch'')
       \<lparr>au_Metadata := [(''source'', JS (rs_Name src)), (''pairs'', JI inserted)]\<rparr>))))"

definition Cleanup :: "env \<Rightarrow> ('l, int) go" where
  "Cleanup E = bindA nowA (\<lambda>now. fx_DeleteOlderThan E (now - 90 * day_ns))"

section \<open>Conversion\<close>

record 'l converter =
  cv_chart :: Chart
  cv_rates :: "string \<Rightarrow> string \<Rightarrow> ('l, Rate) go"
  cv_regulatory :: "'l regulatory option"
  cv_overdraft :: bool

definition convert_Validate :: "ConvertRequest \<Rightarrow> go_error + unit" where
  "convert_Validate req =
     (case CurrencyCode' (cq_FromCurrency req) of Inl e \<Rightarrow> Inl e | Inr _ \<Rightarrow>
      case CurrencyCode' (cq_ToCurrency req) of Inl e \<Rightarrow> Inl e | Inr _ \<Rightarrow>
      case ValidateAmountCents (cq_AmountCents req) of Inl e \<Rightarrow> Inl e | Inr _ \<Rightarrow>
      if cq_FromCurrency req = cq_ToCurrency req then Inl (General ErrInvalidInput) else Inr ())"

definition conversion_enabled :: "env \<Rightarrow> 'l regulatory option \<Rightarrow> User \<Rightarrow> ('l, unit) go" where
  "conversion_enabled E rg user =
     (case rg of
        None \<Rightarrow> retA ()
      | Some s \<Rightarrow> bindA (tryA (IsEnabled E s ''fx_conversion_enabled'' user)) (\<lambda>r.
          case r of Inl e \<Rightarrow> retA ()
          | Inr enabled \<Rightarrow> if \<not> enabled then throwA (Regulatory ErrFXConversionDisabled) else retA ()))"

text \<open>The customer and the quote. The float computation runs inside an action.\<close>

definition priced :: "Rate \<Rightarrow> int \<Rightarrow> ('l, int \<times> float64) go" where
  "priced rate amountCents w = (Inr (ConvertWithSpread rate amountCents), w)"

definition convert_quote :: "env \<Rightarrow> 'l converter \<Rightarrow> string \<Rightarrow> ConvertRequest \<Rightarrow> ('l, User \<times> Rate \<times> int \<times> float64) go" where
  "convert_quote E s userID req =
     bindA (liftE (convert_Validate req)) (\<lambda>_.
     bindA (user_GetByID E userID) (\<lambda>user.
     bindA (conversion_enabled E (cv_regulatory s) user) (\<lambda>_.
     bindA (cv_rates s (cq_FromCurrency req) (cq_ToCurrency req)) (\<lambda>rate.
     bindA (priced rate (cq_AmountCents req)) (\<lambda>(toCents, effectiveRate).
     retA (user, rate, toCents, effectiveRate))))))"

definition convert_receipt :: "string \<Rightarrow> ConvertRequest \<Rightarrow> int \<Rightarrow> string \<Rightarrow> string \<Rightarrow> TransactionReceipt" where
  "convert_receipt userID req toCents ik txID =
     receipt0\<lparr>rc_UserID := userID, rc_LedgerTransactionID := txID, rc_IdempotencyKey := Some ik, rc_Status := ReceiptCompleted,
       rc_Narration := Some (''Converted '' @ FormatMinorUnits (cq_AmountCents req) @ '' '' @ cq_FromCurrency req @ '' to ''
         @ FormatMinorUnits toCents @ '' '' @ cq_ToCurrency req)\<rparr>"

definition convert_repay :: "env \<Rightarrow> 'l Client \<Rightarrow> 'l converter \<Rightarrow> User \<Rightarrow> string \<Rightarrow> string \<Rightarrow> string \<Rightarrow> int \<Rightarrow>
    ('l, InflowOverdraftMetadata option) go" where
  "convert_repay E L s user userID ik toCurrency toCents =
     (if toCurrency = CurrencyETB \<and> cv_overdraft s then
        bindA (tryA (AutoRepayOnInflow E L userID (u_LedgerWalletID user) ik toCents)) (\<lambda>r.
        case r of
          Inl e \<Rightarrow> retA None
        | Inr repayCents \<Rightarrow> retA (if repayCents > 0 then Some \<lparr>io_TotalInflowCents = toCents,
            io_OverdraftRepaymentCents = repayCents, io_NetInflowCents = i64 (toCents - repayCents)\<rparr> else None))
      else retA None)"

definition convert_finish :: "env \<Rightarrow> 'l Client \<Rightarrow> 'l converter \<Rightarrow> string \<Rightarrow> ConvertRequest \<Rightarrow> User \<Rightarrow> Rate \<Rightarrow> int \<Rightarrow> float64 \<Rightarrow>
    string \<Rightarrow> string \<Rightarrow> ('l, ConvertResponse) go" where
  "convert_finish E L s userID req user rate toCents effectiveRate ik txID =
     (let base = convert_receipt userID req toCents ik txID;
          meta = (\<lambda>i. Some (MetaConvert \<lparr>cm_FromCurrency = cq_FromCurrency req, cm_ToCurrency = cq_ToCurrency req, cm_Inflow = i\<rparr>)) in
      bindA (ignoreA (receipt_Create E (base\<lparr>rc_Type := ReceiptConvertOut, rc_AmountCents := cq_AmountCents req,
        rc_Currency := cq_FromCurrency req, rc_Metadata := meta None\<rparr>))) (\<lambda>_.
      bindA (convert_repay E L s user userID (ik @ ''-od-repay'') (cq_ToCurrency req) toCents) (\<lambda>inflow.
      bindA (ignoreA (receipt_Create E (base\<lparr>rc_Type := ReceiptConvertIn, rc_AmountCents := toCents,
        rc_Currency := cq_ToCurrency req, rc_Metadata := meta inflow\<rparr>))) (\<lambda>_.
      retA \<lparr>cs_FromCurrency = cq_FromCurrency req, cs_ToCurrency = cq_ToCurrency req, cs_FromAmountCents = cq_AmountCents req,
        cs_ToAmountCents = toCents, cs_Rate = rt_Mid rate,
        cs_Spread = (if rt_Spread rate > 0 then Some (rt_Spread rate) else None),
        cs_EffectiveRate = (if rt_Spread rate > 0 then Some effectiveRate else None), cs_TransactionID = txID\<rparr>))))"

definition Convert :: "env \<Rightarrow> 'l Client \<Rightarrow> 'l converter \<Rightarrow> string \<Rightarrow> ConvertRequest \<Rightarrow> ('l, ConvertResponse) go" where
  "Convert E L s userID req =
     bindA (convert_quote E s userID req) (\<lambda>(user, rate, toCents, effectiveRate).
     bindA (ledA (GetWalletBalance L (u_LedgerWalletID user) (FormatAsset [cq_FromCurrency req]))) (\<lambda>balance.
     if balance < cq_AmountCents req then throwA (Financial ErrInsufficientFunds) else
     bindA (newID E) (\<lambda>ik.
     bindA (ledA (ConvertCurrency L ik (u_LedgerWalletID user) (cq_AmountCents req) (FormatAsset [cq_FromCurrency req])
       toCents (FormatAsset [cq_ToCurrency req]) (SystemFX (cv_chart s)))) (\<lambda>txID.
     convert_finish E L s userID req user rate toCents effectiveRate ik txID))))"

definition convert_GetRate :: "'l converter \<Rightarrow> string \<Rightarrow> string \<Rightarrow> ('l, Rate) go" where
  "convert_GetRate s fromCode toCode =
     bindA (liftE (CurrencyCode' fromCode)) (\<lambda>_.
     bindA (liftE (CurrencyCode' toCode)) (\<lambda>_.
     cv_rates s fromCode toCode))"

text \<open>Evaluation unfolds an action only when it runs.\<close>

lemmas conversion_code [code] =
  fetch_rate_def [THEN fun_cong]
  GetRate_def [THEN fun_cong]
  static_GetRate_def [THEN fun_cong]
  Refresh_def [THEN fun_cong]
  Cleanup_def [THEN fun_cong]
  conversion_enabled_def [THEN fun_cong]
  convert_quote_def [THEN fun_cong]
  convert_repay_def [THEN fun_cong]
  convert_finish_def [THEN fun_cong]
  Convert_def [THEN fun_cong]
  convert_GetRate_def [THEN fun_cong]

section \<open>What a conversion does\<close>

definition cv_rates_read :: "'l converter \<Rightarrow> bool" where
  "cv_rates_read s \<longleftrightarrow> (\<forall>a b. readerA (cv_rates s a b))"

lemma convert_quote_run:
  assumes "cv_rates_read s" "convert_quote E s uid req w = (Inr (user, rate, toCents, eff), w')"
  shows "stable w' = stable w" "user \<in> set (w_users w)" "u_ID user = uid" "0 < cq_AmountCents req"
    "cq_FromCurrency req \<noteq> cq_ToCurrency req" "(toCents, eff) = ConvertWithSpread rate (cq_AmountCents req)"
    "\<exists>w1 w2. cv_rates s (cq_FromCurrency req) (cq_ToCurrency req) w1 = (Inr rate, w2)"
proof -
  obtain w1 w2 where v: "convert_Validate req = Inr ()" and u: "user_GetByID E uid w = (Inr user, w1)"
    and e: "conversion_enabled E (cv_regulatory s) user w1 = (Inr (), w2)"
    and r: "cv_rates s (cq_FromCurrency req) (cq_ToCurrency req) w2 = (Inr rate, w')"
    and p: "(toCents, eff) = ConvertWithSpread rate (cq_AmountCents req)"
    using assms(2) by (auto simp: convert_quote_def runs priced_def)
  have "readerA (conversion_enabled E (cv_regulatory s) user)" unfolding conversion_enabled_def by (rule readers)+
  from readerD [OF this e] have "stable w2 = stable w" using user_GetByID_run(3) [OF u] by simp
  moreover have "readerA (cv_rates s (cq_FromCurrency req) (cq_ToCurrency req))" using assms(1) by (simp add: cv_rates_read_def)
  from readerD [OF this r] have "stable w' = stable w2" .
  ultimately show "stable w' = stable w" by simp
  show "user \<in> set (w_users w)" "u_ID user = uid" using user_GetByID_run [OF u] by simp_all
  show "0 < cq_AmountCents req" "cq_FromCurrency req \<noteq> cq_ToCurrency req"
    using v by (auto simp: convert_Validate_def ValidateAmountCents_def split: sum.splits if_splits)
  show "(toCents, eff) = ConvertWithSpread rate (cq_AmountCents req)" by (rule p)
  show "\<exists>w1 w2. cv_rates s (cq_FromCurrency req) (cq_ToCurrency req) w1 = (Inr rate, w2)" using r by blast
qed

lemma ok_convert_finish: "okA (convert_finish E L s uid req user rate toCents eff ik tx)"
  unfolding convert_finish_def convert_repay_def Let_def by (rule oks)+

context ledger_client
begin

lemma posts_convert_finish:
  "postsA view {ik @ ''-od-repay''} (convert_finish E L s uid req user rate toCents eff ik tx)
     (\<lambda>v r ps. repays c (u_LedgerWalletID user) toCents ps \<and> (cq_ToCurrency req \<noteq> CurrencyETB \<longrightarrow> ps = []))"
proof -
  have rep: "postsA view {k} (convert_repay E L s user uid k cur n) (\<lambda>v r ps. repays c (u_LedgerWalletID user) n ps \<and> (cur \<noteq> CurrencyETB \<longrightarrow> ps = []))"
    for k cur n
    unfolding convert_repay_def
    by (rule posts_if, rule posts_bind_calm [OF posts_try [OF posts_AutoRepay, where R = "\<lambda>v r ps. repays c (u_LedgerWalletID user) n ps"]])
      (auto intro!: calms posts_ret)
  show ?thesis
    unfolding convert_finish_def Let_def
    by (rule posts_calm_bind, (rule calms)+, rule posts_bind_calm [OF rep]) ((rule calms)+ | simp)+
qed

end

text \<open>C10: a conversion that reports success took exactly the amount from the customer's wallet in the source
  currency, which it had, and gave it exactly the quoted amount in the target currency, which is the amount at
  the rate the provider quoted; only a conversion to birr then repays the customer's overdraft, with at most the
  proceeds. Nothing else in the ledger changed but the exchange accounts.\<close>

theorem Convert_exchanges:
  assumes lc: "ledger_client L c view holdOf nexth" and s: "cv_rates_read s" "SystemFX (cv_chart s) \<noteq> ''world''"
    and run: "Convert E L s uid req w = (Inr resp, w')" and fresh: "uuid_keys E \<inter> lv_used (view (w_ledger w)) = {}"
  shows "\<exists>user rate k m w1 w2. user \<in> set (w_users w) \<and> u_ID user = uid
    \<and> 0 < cq_AmountCents req \<and> cq_FromCurrency req \<noteq> cq_ToCurrency req
    \<and> cq_AmountCents req \<le> lv_bal (view (w_ledger w)) (MainAccount c (u_LedgerWalletID user)) (FormatAsset [cq_FromCurrency req])
    \<and> cv_rates s (cq_FromCurrency req) (cq_ToCurrency req) w1 = (Inr rate, w2)
    \<and> cs_ToAmountCents resp = fst (ConvertWithSpread rate (cq_AmountCents req))
    \<and> 0 \<le> k \<and> k \<le> cs_ToAmountCents resp \<and> 0 \<le> m \<and> m \<le> cs_ToAmountCents resp \<and> (cq_ToCurrency req \<noteq> CurrencyETB \<longrightarrow> m = 0)
    \<and> lv_bal (view (w_ledger w')) = apply_postings
        ([P (MainAccount c (u_LedgerWalletID user)) (SystemFX (cv_chart s)) (cq_AmountCents req) (FormatAsset [cq_FromCurrency req]),
          P (SystemFX (cv_chart s)) (MainAccount c (u_LedgerWalletID user)) k (FormatAsset [cq_ToCurrency req]),
          P ''world'' (MainAccount c (u_LedgerWalletID user)) (cs_ToAmountCents resp - k) (FormatAsset [cq_ToCurrency req])]
         @ repay_postings c (u_LedgerWalletID user) m) (lv_bal (view (w_ledger w)))"
proof -
  obtain user rate toCents eff balance tx w1 w2 w3 where q: "convert_quote E s uid req w = (Inr (user, rate, toCents, eff), w1)"
    and g: "ledA (GetWalletBalance L (u_LedgerWalletID user) (FormatAsset [cq_FromCurrency req])) w1 = (Inr balance, w2)"
    and b: "\<not> balance < cq_AmountCents req"
    and v: "ledA (ConvertCurrency L (e_uuid E (w_uuidn w2)) (u_LedgerWalletID user) (cq_AmountCents req) (FormatAsset [cq_FromCurrency req])
       toCents (FormatAsset [cq_ToCurrency req]) (SystemFX (cv_chart s))) (w2\<lparr>w_uuidn := Suc (w_uuidn w2)\<rparr>) = (Inr tx, w3)"
    and f: "convert_finish E L s uid req user rate toCents eff (e_uuid E (w_uuidn w2)) tx w3 = (Inr resp, w')"
    using run by (auto simp: Convert_def runs newID_def)
  note qr = convert_quote_run [OF s(1) q]
  let ?W = "u_LedgerWalletID user" and ?ik = "e_uuid E (w_uuidn w2)"
  have "view (w_ledger w2) = view (w_ledger w1)" and bal: "balance = lv_bal (view (w_ledger w1)) (MainAccount c ?W) (FormatAsset [cq_FromCurrency req])"
    using g ledger_client.get_balance [OF lc] by (auto simp: ledA_run)
  then have v2: "view (w_ledger w2) = view (w_ledger w)" and bal: "balance = lv_bal (view (w_ledger w)) (MainAccount c ?W) (FormatAsset [cq_FromCurrency req])"
    using stable_fields(1) [OF qr(1)] by simp_all
  have keys: "?ik \<in> uuid_keys E" "?ik @ ''-od-repay'' \<in> uuid_keys E"
    using keys_ofI [of ?ik "[]"] keys_ofI [of ?ik "''-od-repay''"] by (auto simp: uuid_keys_def)
  then have "?ik \<notin> lv_used (view (w_ledger w2))" using fresh v2 by auto
  moreover have cc: "ConvertCurrency L ?ik ?W (cq_AmountCents req) (FormatAsset [cq_FromCurrency req]) toCents
      (FormatAsset [cq_ToCurrency req]) (SystemFX (cv_chart s)) (w_ledger w2) = (Inr tx, w_ledger w3)"
    using v by (simp add: ledA_run)
  ultimately obtain k where k: "0 \<le> k" "k \<le> toCents" "lv_used (view (w_ledger w3)) = insert ?ik (lv_used (view (w_ledger w)))"
    "lv_bal (view (w_ledger w3)) = apply_postings [P (MainAccount c ?W) (SystemFX (cv_chart s)) (cq_AmountCents req) (FormatAsset [cq_FromCurrency req]),
      P (SystemFX (cv_chart s)) (MainAccount c ?W) k (FormatAsset [cq_ToCurrency req]),
      P ''world'' (MainAccount c ?W) (toCents - k) (FormatAsset [cq_ToCurrency req])] (lv_bal (view (w_ledger w)))"
    using ledger_client.convert_ok [OF lc cc _ s(2)] v2 by auto
  have fr: "{?ik @ ''-od-repay''} \<inter> lv_used (view (w_ledger w3)) = {}" using k(3) fresh keys by auto
  obtain ps where ps: "repays c ?W toCents ps" "cq_ToCurrency req \<noteq> CurrencyETB \<longrightarrow> ps = []"
    "lv_bal (view (w_ledger w')) = apply_postings ps (lv_bal (view (w_ledger w3)))"
    by (rule postsD [OF ledger_client.posts_convert_finish [OF lc] fr f]) blast
  from ps(1) k(1,2) obtain m where m: "0 \<le> m" "m \<le> toCents" "ps = repay_postings c ?W m" by (auto simp: repays_def)
  have m0: "cq_ToCurrency req \<noteq> CurrencyETB \<longrightarrow> m = 0" using ps(2) m(3) by (auto simp: repay_postings_def split: if_splits)
  have r: "cs_ToAmountCents resp = toCents" using f by (auto simp: convert_finish_def Let_def runs)
  have to: "toCents = fst (ConvertWithSpread rate (cq_AmountCents req))" using qr(6) by (metis fst_conv)
  obtain w4 w5 where "cv_rates s (cq_FromCurrency req) (cq_ToCurrency req) w4 = (Inr rate, w5)" using qr(7) by blast
  then show ?thesis
    using qr(2-5) b bal r to k m m0 ps(3)
    by (intro exI [of _ user] exI [of _ rate] exI [of _ k] exI [of _ m] exI [of _ w4] exI [of _ w5]) (simp add: apply_postings_append)
qed

text \<open>Alice changes a hundred birr at the rate of one half.\<close>

definition half_rate :: Rate where
  "half_rate = \<lparr>rt_From = ''ETB'', rt_To = ''USD'', rt_Mid = 1 / 2, rt_Bid = 1 / 2, rt_Ask = 1 / 2, rt_Spread = 0, rt_Timestamp = 0,
     rt_Source = ''static''\<rparr>"

definition cv_svc :: "engine fclient converter" where
  "cv_svc = \<lparr>cv_chart = neo, cv_rates = (\<lambda>a b. retA half_rate), cv_regulatory = None, cv_overdraft = True\<rparr>"

definition cv_req :: ConvertRequest where
  "cv_req = \<lparr>cq_FromCurrency = ''ETB'', cq_ToCurrency = ''USD'', cq_AmountCents = 100\<rparr>"

theorem Convert_exchanges_witness:
  "\<exists>resp w'. Convert ok_env eclient cv_svc ''ua'' cv_req (pay_world 1000) = (Inr resp, w') \<and> cs_ToAmountCents resp = 50
     \<and> lv_bal (fc_view e_ghost (w_ledger w')) (MainAccount neo ''wa'') ''ETB/2'' = 900"
proof -
  let ?r = "Convert ok_env eclient cv_svc ''ua'' cv_req (pay_world 1000)" and ?v = "fc_view e_ghost (w_ledger (pay_world 1000))"
  have "case fst ?r of Inl _ \<Rightarrow> False | Inr r \<Rightarrow> cs_ToAmountCents r = 50" by code_simp
  then obtain resp where f: "fst ?r = Inr resp" "cs_ToAmountCents resp = 50" by (auto split: sum.splits)
  have s: "cv_rates_read cv_svc" "SystemFX (cv_chart cv_svc) \<noteq> ''world''"
    by (simp add: cv_rates_read_def cv_svc_def readers, code_simp)
  have q: "cq_FromCurrency cv_req = ''ETB''" "cq_ToCurrency cv_req = ''USD''" "cq_AmountCents cv_req = 100" "cv_chart cv_svc = neo"
    "FormatAsset [''ETB''] = ''ETB/2''" "FormatAsset [''USD''] = ''USD/2''" "CurrencyETB = ''ETB''"
    by (simp_all add: cv_req_def cv_svc_def CurrencyETB_def, code_simp, code_simp)
  from Convert_exchanges [OF eclient_contract s run_of [OF f(1)] pay_world_fresh]
  obtain user k m where u: "user \<in> set (w_users (pay_world 1000))" "u_ID user = ''ua''" and m: "m = 0"
    and b: "lv_bal (fc_view e_ghost (w_ledger (snd ?r))) = apply_postings
        ([P (MainAccount neo (u_LedgerWalletID user)) (SystemFX neo) 100 ''ETB/2'',
          P (SystemFX neo) (MainAccount neo (u_LedgerWalletID user)) k ''USD/2'',
          P ''world'' (MainAccount neo (u_LedgerWalletID user)) (50 - k) ''USD/2'']
         @ repay_postings neo (u_LedgerWalletID user) m) (lv_bal ?v)"
    unfolding q f(2) by auto
  have "u_LedgerWalletID user = ''wa''" using u by (auto simp: pay_world_def alice_def bob_def user0_def)
  moreover have "lv_bal ?v (MainAccount neo ''wa'') ''ETB/2'' = 1000" "SystemFX neo \<noteq> MainAccount neo ''wa''" by (code_simp, code_simp)
  ultimately have "lv_bal (fc_view e_ghost (w_ledger (snd ?r))) (MainAccount neo ''wa'') ''ETB/2'' = 900"
    unfolding b m by (simp add: apply_P repay_postings_def)
  then show ?thesis using f run_of [OF f(1)] by (intro exI [of _ resp] exI [of _ "snd ?r"]) simp
qed

end
