(* ===== verification/Frames.thy ===== *)
theory Frames
  imports Payments
begin

text \<open>
  What a transfer leaves alone. \<open>leavesA t m\<close> says that the action \<open>m\<close> never changes the part \<open>t\<close> of the
  state, on success and on error. The locale \<open>other_table\<close> is the interface of a part of the state that is
  independent of the tables the payment service writes; inside it the peer-to-peer transfer is shown to
  leave that part alone. The services that call it interpret the locale on their own tables.
\<close>

lemma keeps_prod [keeps]: "(\<And>a b. keepsA I (k a b)) \<Longrightarrow> keepsA I (case z of (a, b) \<Rightarrow> k a b)"
  by (cases z) simp

definition leavesA :: "('w \<Rightarrow> 'x) \<Rightarrow> ('w, 'e, 'a) act \<Rightarrow> bool" where
  "leavesA t m \<longleftrightarrow> (\<forall>w. t (snd (m w)) = t w)"

named_theorems leaves \<open>actions that leave a part of the state alone\<close>

lemma leaves_keeps: "leavesA t m \<longleftrightarrow> (\<forall>v. keepsA (\<lambda>w. t w = v) m)"
  by (auto simp: leavesA_def keepsA_def)

lemma leavesD: "leavesA t m \<Longrightarrow> m w = (r, w') \<Longrightarrow> t w' = t w"
  by (metis leavesA_def snd_conv)

lemma leaves_basic [leaves]:
  "leavesA t (retA x)" "leavesA t (throwA e)" "leavesA t (getsA f)" "leavesA t (liftE r)" "leavesA t (guardA b e)"
  by (simp_all add: leaves_keeps keeps)

lemma leaves_bind [leaves]: "leavesA t m \<Longrightarrow> (\<And>x. leavesA t (k x)) \<Longrightarrow> leavesA t (bindA m k)"
  by (simp add: leaves_keeps keeps)

lemma leaves_wrap [leaves]:
  "leavesA t m \<Longrightarrow> leavesA t (tryA m)" "leavesA t m \<Longrightarrow> leavesA t (mapErrA f m)" "leavesA t m \<Longrightarrow> leavesA t (ignoreA m)"
  by (simp_all add: leaves_keeps keeps)

lemma leaves_when [leaves]: "leavesA t m \<Longrightarrow> leavesA t (whenA b m)"
  by (simp add: leaves_keeps keeps)

lemma leaves_if [leaves]: "leavesA t m \<Longrightarrow> leavesA t n \<Longrightarrow> leavesA t (if b then m else n)"
  by simp

lemma leaves_option [leaves]: "leavesA t m \<Longrightarrow> (\<And>x. leavesA t (k x)) \<Longrightarrow> leavesA t (case z of None \<Rightarrow> m | Some x \<Rightarrow> k x)"
  by (cases z) simp_all

lemma leaves_sum [leaves]: "(\<And>e. leavesA t (h e)) \<Longrightarrow> (\<And>x. leavesA t (k x)) \<Longrightarrow> leavesA t (case z of Inl e \<Rightarrow> h e | Inr x \<Rightarrow> k x)"
  by (cases z) simp_all

lemma leaves_prod [leaves]: "(\<And>a b. leavesA t (k a b)) \<Longrightarrow> leavesA t (case z of (a, b) \<Rightarrow> k a b)"
  by (cases z) simp

lemma leaves_let [leaves]: "leavesA t (f x) \<Longrightarrow> leavesA t (Let x f)"
  by simp

lemma leaves_mapA [leaves]: "(\<And>x. leavesA t (f x)) \<Longrightarrow> leavesA t (mapA f xs)"
  by (simp add: leaves_keeps keeps_mapA)

lemma leaves_recipient_type [leaves]:
  "leavesA t m \<Longrightarrow> leavesA t n \<Longrightarrow> leavesA t (case z of RecipientNeoUser \<Rightarrow> m | RecipientBankAccount \<Rightarrow> n)"
  by (cases z) simp_all

locale other_table =
  fixes t :: "'l world \<Rightarrow> 'x"
  assumes other_ledger: "t (w\<lparr>w_ledger := a1\<rparr>) = t w"
    and other_dbn: "t (w\<lparr>w_dbn := a2\<rparr>) = t w"
    and other_uuidn: "t (w\<lparr>w_uuidn := a3\<rparr>) = t w"
    and other_cache: "t (w\<lparr>w_cache := a4\<rparr>) = t w"
    and other_receipts: "t (w\<lparr>w_receipts := a5\<rparr>) = t w"
    and other_audit: "t (w\<lparr>w_audit := a6\<rparr>) = t w"
    and other_totals: "t (w\<lparr>w_totals := a7\<rparr>) = t w"
    and other_recipients: "t (w\<lparr>w_recipients := a8\<rparr>) = t w"
    and other_overdrafts: "t (w\<lparr>w_overdrafts := a9\<rparr>) = t w"
begin

lemmas others = other_ledger other_dbn other_uuidn other_cache other_receipts other_audit other_totals other_recipients
  other_overdrafts

lemma leaves_reader: "readerA m \<Longrightarrow> leavesA t m"
  unfolding readerA_def leavesA_def stable_def by (metis other_dbn other_cache)

lemma leaves_db: "leavesA t m \<Longrightarrow> leavesA t (dbA E m)"
  by (simp add: leavesA_def dbA_def Let_def others)

lemma leaves_calls: "leavesA t (ledA m)" "leavesA t (newID E)" "leavesA t nowA"
  by (simp_all add: leavesA_def ledA_def newID_def nowA_def getsA_def others split: prod.splits)

lemma leaves_modify: "(\<And>w. t (f w) = t w) \<Longrightarrow> leavesA t (modifyA f)"
  by (simp add: leavesA_def modifyA_def)

lemma leaves_tables:
  "leavesA t (audit_Log E e)" "leavesA t (receipt_Create E rc)" "leavesA t (totals_Increment E u cur d n)"
  "leavesA t (recipient_Upsert E rp)" "leavesA t (overdraft_update E u f)"
  unfolding audit_Log_def receipt_Create_def totals_Increment_def recipient_Upsert_def overdraft_update_def
  by (rule leaves leaves_db leaves_calls leaves_modify | simp add: others Let_def)+

lemma leaves_overdraft:
  "leavesA t (UseCover E L u wl ik n a)" "leavesA t (AutoRepayOnInflow E L u wl ik n)"
proof -
  have rd: "leavesA t (overdraft_GetByUser E u)"
    unfolding overdraft_GetByUser_def by (rule leaves leaves_db)+
  note [leaves] = rd leaves_tables leaves_calls
  show "leavesA t (UseCover E L u wl ik n a)" "leavesA t (AutoRepayOnInflow E L u wl ik n)"
    unfolding UseCover_def AutoRepayOnInflow_def overdraft_UpdateUsedAndStatus_def overdraft_UpdateRepaid_def
    by (rule leaves)+
qed

lemma leaves_check_regulatory:
  assumes "rates_read s"
  shows "leavesA t (check_regulatory E s req)"
proof (cases "pm_regulatory s")
  case (Some rg)
  have "leavesA t (CheckTransferAllowed E rg req)"
    using assms Some by (intro leaves_reader reader_CheckTransferAllowed) (simp add: rates_read_def)
  then show ?thesis unfolding check_regulatory_def Some option.case by (intro leaves leaves_tables)
qed (simp add: check_regulatory_def leaves)

lemma leaves_SaveFromTransfer: "leavesA t (SaveFromTransferFireAndForget E u cp cur)"
  unfolding SaveFromTransferFireAndForget_def SaveFromTransfer_def upsert_and_log_def Let_def
  by (rule leaves leaves_tables leaves_calls)+

lemma leaves_transfer:
  assumes "rates_read s"
  shows "leavesA t (ProcessInboundTransfer E L s senderID req)"
proof -
  have "leavesA t (resolveRecipient E req)" "leavesA t (user_GetByID E i)" for i
    unfolding resolveRecipient_def by (intro leaves_reader readers)+
  then have p: "leavesA t (p2p_parties E s senderID req)"
    unfolding p2p_parties_def by (intro leaves leaves_check_regulatory [OF assms])
  have "leavesA t (p2p_move E L s senderID req sender recipient)" for sender recipient
    unfolding p2p_move_def cover_shortfall_def p2p_finish_def repay_recipient_def Let_def
    by (intro leaves leaves_calls leaves_tables leaves_overdraft leaves_SaveFromTransfer)
  then show ?thesis unfolding ProcessInboundTransfer_def by (intro leaves p)
qed

end

end
