(* ===== verification/Payment_Requests.thy ===== *)
theory Payment_Requests
  imports Frames Account_Tables
begin

text \<open>
  \<open>internal/services/payment_requests\<close>: asking another customer for money, one or several at a time, and what
  the two sides can do with a request. Paying runs the peer-to-peer transfer of \<open>Payments\<close>. A map of custom
  amounts is an association list with distinct keys.

  The lemmas show that a request only ever moves from pending to one final state, that it is paid only by its
  payer, that it is reminded of at most three times, and that the shares of a batch add up to its total.
\<close>

section \<open>Forms\<close>

record CreatePaymentRequestForm =
  cf_Recipient :: string
  cf_AmountCents :: int
  cf_CurrencyCode :: string
  cf_Narration :: string

definition createForm_Validate :: "env \<Rightarrow> CreatePaymentRequestForm \<Rightarrow> go_error + unit" where
  "createForm_Validate E f =
     (case Struct E [(FStr (cf_Recipient f), [''required'']), (FInt (cf_AmountCents f), [''required'', ''gt=0'']),
        (FStr (cf_CurrencyCode f), [''required'', ''currency'']),
        (FStr (cf_Narration f), [''required'', ''min=1'', ''max=140''])] of
        Inl e \<Rightarrow> Inl e
      | Inr _ \<Rightarrow> ValidateAmountCents (cf_AmountCents f))"

record BatchPaymentRequestForm =
  bf_TotalAmountCents :: int
  bf_CurrencyCode :: string
  bf_Narration :: string
  bf_Recipients :: "string list"
  bf_CustomAmounts :: "(string \<times> int) list"

definition IsCustomSplit :: "BatchPaymentRequestForm \<Rightarrow> bool" where
  "IsCustomSplit f \<longleftrightarrow> bf_CustomAmounts f \<noteq> []"

fun check_recipients :: "string list \<Rightarrow> string list \<Rightarrow> go_error + unit" where
  "check_recipients seen [] = Inr ()"
| "check_recipients seen (r # rs) =
     (if r = '''' then Inl ErrValidation
      else if r \<in> set seen then Inl ErrValidation
      else check_recipients (r # seen) rs)"

fun custom_total :: "(string \<times> int) list \<Rightarrow> string list \<Rightarrow> int \<Rightarrow> go_error + int" where
  "custom_total amounts [] t = Inr t"
| "custom_total amounts (r # rs) t =
     (case map_of amounts r of
        None \<Rightarrow> Inl ErrValidation
      | Some amt \<Rightarrow> if amt \<le> 0 then Inl ErrValidation else custom_total amounts rs (i64 (t + amt)))"

definition batchForm_Validate :: "env \<Rightarrow> BatchPaymentRequestForm \<Rightarrow> go_error + unit" where
  "batchForm_Validate E f =
     (case Struct E [(FInt (bf_TotalAmountCents f), [''required'', ''gt=0'']), (FStr (bf_CurrencyCode f), [''required'']),
        (FStr (bf_Narration f), [''required'']), (FLen (length (bf_Recipients f)), [''required'', ''min=2'', ''max=10''])] of
        Inl e \<Rightarrow> Inl e
      | Inr _ \<Rightarrow>
      case ValidateAmountCents (bf_TotalAmountCents f) of
        Inl e \<Rightarrow> Inl e
      | Inr _ \<Rightarrow>
      case check_recipients [] (bf_Recipients f) of
        Inl e \<Rightarrow> Inl e
      | Inr _ \<Rightarrow>
      if IsCustomSplit f then
        (case custom_total (bf_CustomAmounts f) (bf_Recipients f) 0 of
           Inl e \<Rightarrow> Inl e
         | Inr customTotal \<Rightarrow> if customTotal \<noteq> bf_TotalAmountCents f then Inl ErrValidation else Inr ())
      else Inr ())"

section \<open>One request\<close>

definition new_request :: "string \<Rightarrow> string option \<Rightarrow> PhoneNumber \<Rightarrow> int \<Rightarrow> string \<Rightarrow> string \<Rightarrow> int \<Rightarrow> PaymentRequest" where
  "new_request requesterID payerID payerPhone amount currency narration expires =
     \<lparr>pr_ID = '''', pr_RequesterID = requesterID, pr_PayerID = payerID, pr_PayerPhone = payerPhone, pr_AmountCents = amount,
      pr_CurrencyCode = currency, pr_Narration = narration, pr_Status = PaymentRequestPending, pr_TransactionID = None,
      pr_DeclineReason = None, pr_ReminderCount = 0, pr_LastRemindedAt = None, pr_PaidAt = None, pr_DeclinedAt = None,
      pr_CancelledAt = None, pr_ExpiresAt = expires, pr_CreatedAt = 0\<rparr>"

definition not_frozen :: "User \<Rightarrow> ('l, unit) go" where
  "not_frozen u = (if u_IsFrozen u then throwA (Identity ErrUserFrozen) else retA ())"

text \<open>A phone number need not belong to a customer yet; a user name must.\<close>

definition find_payer :: "env \<Rightarrow> string \<Rightarrow> ('l, string option \<times> PhoneNumber) go" where
  "find_payer E recipient =
     (case phone_Parse (e_phone E) recipient of
        Inr p \<Rightarrow> bindA (tryA (user_GetByPhone E p)) (\<lambda>r. case r of
            Inl e \<Rightarrow> retA (None, p)
          | Inr payer \<Rightarrow> bindA (not_frozen payer) (\<lambda>_. retA (Some (u_ID payer), p)))
      | Inl _ \<Rightarrow> bindA (tryA (user_GetByUsername E recipient)) (\<lambda>r. case r of
            Inl e \<Rightarrow> throwA (Identity ErrUserNotFound)
          | Inr payer \<Rightarrow> bindA (not_frozen payer) (\<lambda>_. retA (Some (u_ID payer), u_PhoneNumber payer))))"

definition pr_audit :: "string \<Rightarrow> string \<Rightarrow> string \<Rightarrow> AuditEntry" where
  "pr_audit action actorID requestID = audit_entry action ''user'' (Some actorID) ''payment_request'' requestID"

definition CreateRequest :: "env \<Rightarrow> string \<Rightarrow> CreatePaymentRequestForm \<Rightarrow> ('l, PaymentRequest) go" where
  "CreateRequest E requesterID form =
     bindA (liftE (createForm_Validate E form)) (\<lambda>_.
     bindA (user_GetByID E requesterID) (\<lambda>requester.
     bindA (not_frozen requester) (\<lambda>_.
     bindA (find_payer E (cf_Recipient form)) (\<lambda>(payerID, payerPhone).
     if payerID = Some requesterID then throwA (PaymentRequests ErrSelfRequest) else
     bindA nowA (\<lambda>now.
     bindA (request_Create E (new_request requesterID payerID payerPhone (cf_AmountCents form) (cf_CurrencyCode form)
       (cf_Narration form) (now + 30 * day_ns))) (\<lambda>pr.
     bindA (ignoreA (audit_Log E (pr_audit ''payment_request_created'' requesterID (pr_ID pr)))) (\<lambda>_.
     retA pr)))))))"

text \<open>The checks the four actions on a request share.\<close>

definition for_payer :: "env \<Rightarrow> string \<Rightarrow> string \<Rightarrow> ('l, PaymentRequest) go" where
  "for_payer E payerID requestID =
     bindA (request_GetByID E requestID) (\<lambda>pr.
     if pr_PayerID pr \<noteq> Some payerID then throwA (PaymentRequests ErrNotPayer)
     else if pr_Status pr \<noteq> PaymentRequestPending then throwA (PaymentRequests ErrPaymentRequestNotPending)
     else retA pr)"

definition for_requester :: "env \<Rightarrow> string \<Rightarrow> string \<Rightarrow> ('l, PaymentRequest) go" where
  "for_requester E requesterID requestID =
     bindA (request_GetByID E requestID) (\<lambda>pr.
     if pr_RequesterID pr \<noteq> requesterID then throwA (PaymentRequests ErrNotRequester)
     else if pr_Status pr \<noteq> PaymentRequestPending then throwA (PaymentRequests ErrPaymentRequestNotPending)
     else retA pr)"

definition request_transfer :: "env \<Rightarrow> User \<Rightarrow> PaymentRequest \<Rightarrow> InboundTransferRequest" where
  "request_transfer E requester pr = \<lparr>ib_Recipient = E164 (e_phone E) (u_PhoneNumber requester),
     ib_RecipientPhone = \<lparr>CountryCode = '''', Number = ''''\<rparr>, ib_AmountCents = pr_AmountCents pr,
     ib_Currency = pr_CurrencyCode pr, ib_Narration = pr_Narration pr, ib_Purpose = ''''\<rparr>"

definition PayRequest :: "env \<Rightarrow> 'l Client \<Rightarrow> 'l payments \<Rightarrow> string \<Rightarrow> string \<Rightarrow> ('l, unit) go" where
  "PayRequest E L s payerID requestID =
     bindA (for_payer E payerID requestID) (\<lambda>pr.
     bindA (user_GetByID E (pr_RequesterID pr)) (\<lambda>requester.
     bindA (ProcessInboundTransfer E L s payerID (request_transfer E requester pr)) (\<lambda>_.
     bindA (request_Pay E requestID requestID) (\<lambda>_.
     ignoreA (audit_Log E (pr_audit ''payment_request_paid'' payerID requestID))))))"

definition DeclineRequest :: "env \<Rightarrow> string \<Rightarrow> string \<Rightarrow> string option \<Rightarrow> ('l, unit) go" where
  "DeclineRequest E payerID requestID form =
     bindA (for_payer E payerID requestID) (\<lambda>pr.
     bindA (request_Decline E requestID (case form of None \<Rightarrow> '''' | Some reason \<Rightarrow> reason)) (\<lambda>_.
     ignoreA (audit_Log E (pr_audit ''payment_request_declined'' payerID requestID))))"

definition CancelRequest :: "env \<Rightarrow> string \<Rightarrow> string \<Rightarrow> ('l, unit) go" where
  "CancelRequest E requesterID requestID =
     bindA (for_requester E requesterID requestID) (\<lambda>pr.
     bindA (request_Cancel E requestID) (\<lambda>_.
     ignoreA (audit_Log E (pr_audit ''payment_request_cancelled'' requesterID requestID))))"

definition RemindRequest :: "env \<Rightarrow> string \<Rightarrow> string \<Rightarrow> ('l, unit) go" where
  "RemindRequest E requesterID requestID =
     bindA (for_requester E requesterID requestID) (\<lambda>pr.
     bindA (request_IncrementReminder E requestID) (\<lambda>_.
     ignoreA (audit_Log E (pr_audit ''payment_request_reminded'' requesterID requestID))))"

definition GetRequest :: "env \<Rightarrow> string \<Rightarrow> string \<Rightarrow> ('l, PaymentRequest) go" where
  "GetRequest E callerID requestID =
     bindA (request_GetByID E requestID) (\<lambda>pr.
     if pr_RequesterID pr \<noteq> callerID \<and> pr_PayerID pr \<noteq> Some callerID
     then throwA (PaymentRequests ErrPaymentRequestNotFound) else retA pr)"

definition ListSent :: "env \<Rightarrow> string \<Rightarrow> int \<Rightarrow> int \<Rightarrow> ('l, PaymentRequest list) go" where
  "ListSent E requesterID limit offset = request_ListByRequester E requesterID limit offset"

definition ListReceived :: "env \<Rightarrow> string \<Rightarrow> int \<Rightarrow> int \<Rightarrow> ('l, PaymentRequest list) go" where
  "ListReceived E payerID limit offset = request_ListByPayer E payerID limit offset"

definition PendingCount :: "env \<Rightarrow> string \<Rightarrow> ('l, int) go" where
  "PendingCount E payerID = request_CountPendingByPayer E payerID"

section \<open>A batch of requests\<close>

record BatchPaymentRequestResponse =
  br_Requests :: "PaymentRequest list"
  br_TotalAmountCents :: int
  br_RecipientCount :: int

definition resolve_payer :: "env \<Rightarrow> string \<Rightarrow> string \<Rightarrow> ('l, string \<times> PhoneNumber) go" where
  "resolve_payer E requesterID recipient =
     bindA (mapErrA (\<lambda>_. Identity ErrUserNotFound) (resolveBatchRecipient E recipient)) (\<lambda>payer.
     if u_IsFrozen payer then throwA (Identity ErrUserFrozen)
     else if u_ID payer = requesterID then throwA (PaymentRequests ErrSelfRequest)
     else retA (u_ID payer, u_PhoneNumber payer))"

text \<open>What the recipient at position \<open>i\<close> of \<open>n\<close> is asked for: the first one gets the remainder.\<close>

definition share :: "BatchPaymentRequestForm \<Rightarrow> nat \<Rightarrow> nat \<Rightarrow> int" where
  "share f n i =
     (if IsCustomSplit f then (case map_of (bf_CustomAmounts f) (bf_Recipients f ! i) of None \<Rightarrow> 0 | Some a \<Rightarrow> a)
      else let perRecipient = go_div (bf_TotalAmountCents f) (int n) in
           if i = 0 then i64 (perRecipient + go_mod (bf_TotalAmountCents f) (int n)) else perRecipient)"

definition batch_request :: "env \<Rightarrow> string \<Rightarrow> BatchPaymentRequestForm \<Rightarrow> nat \<Rightarrow> nat \<times> string \<times> PhoneNumber \<Rightarrow> ('l, PaymentRequest) go" where
  "batch_request E requesterID f n x =
     (case x of (i, payerID, payerPhone) \<Rightarrow>
      bindA nowA (\<lambda>now.
      request_Create E (new_request requesterID (Some payerID) payerPhone (share f n i) (bf_CurrencyCode f)
        (bf_Narration f) (now + 30 * day_ns))))"

text \<open>The division by the number of recipients panics when there is none.\<close>

definition divide_panic :: go_error where "divide_panic = Opaque ''runtime error: integer divide by zero''"

definition CreateBatch :: "env \<Rightarrow> string \<Rightarrow> BatchPaymentRequestForm \<Rightarrow> ('l, BatchPaymentRequestResponse) go" where
  "CreateBatch E requesterID form =
     bindA (liftE (batchForm_Validate E form)) (\<lambda>_.
     bindA (user_GetByID E requesterID) (\<lambda>requester.
     bindA (not_frozen requester) (\<lambda>_.
     bindA (mapA (resolve_payer E requesterID) (bf_Recipients form)) (\<lambda>recipients.
     if recipients = [] then throwA divide_panic else
     bindA (mapA (batch_request E requesterID form (length recipients)) (enumerate 0 recipients)) (\<lambda>created.
     retA \<lparr>br_Requests = created, br_TotalAmountCents = bf_TotalAmountCents form,
       br_RecipientCount = int (length recipients)\<rparr>)))))"

definition ExpireStale :: "env \<Rightarrow> ('l, int) go" where
  "ExpireStale E =
     bindA (request_ExpirePending E) (\<lambda>n.
     bindA (whenA (n > 0) (ignoreA (audit_Log E ((audit_entry ''payment_request_expired'' ''system'' None ''payment_request'' ''batch'')
       \<lparr>au_Metadata := [(''count'', JI n)]\<rparr>)))) (\<lambda>_.
     retA n))"

text \<open>Evaluation unfolds an action only when it runs.\<close>

lemmas payment_requests_code [code] =
  not_frozen_def [THEN fun_cong]
  find_payer_def [THEN fun_cong]
  CreateRequest_def [THEN fun_cong]
  for_payer_def [THEN fun_cong]
  for_requester_def [THEN fun_cong]
  PayRequest_def [THEN fun_cong]
  DeclineRequest_def [THEN fun_cong]
  CancelRequest_def [THEN fun_cong]
  RemindRequest_def [THEN fun_cong]
  GetRequest_def [THEN fun_cong]
  ListSent_def [THEN fun_cong]
  ListReceived_def [THEN fun_cong]
  PendingCount_def [THEN fun_cong]
  resolve_payer_def [THEN fun_cong]
  batch_request_def [THEN fun_cong]
  CreateBatch_def [THEN fun_cong]
  ExpireStale_def [THEN fun_cong]

section \<open>The life of a request\<close>

interpretation requests: other_table w_requests
  by unfold_locales simp_all

text \<open>A sound row: the amount is positive, at most three reminders were sent, and exactly the time stamp and
  the reference of its final state are set.\<close>

definition request_wf :: "PaymentRequest \<Rightarrow> bool" where
  "request_wf r \<longleftrightarrow> 0 < pr_AmountCents r \<and> 0 \<le> pr_ReminderCount r \<and> pr_ReminderCount r \<le> 3
     \<and> (pr_Status r = PaymentRequestPaid \<longleftrightarrow> pr_PaidAt r \<noteq> None) \<and> (pr_TransactionID r = None \<longleftrightarrow> pr_PaidAt r = None)
     \<and> (pr_Status r = PaymentRequestDeclined \<longleftrightarrow> pr_DeclinedAt r \<noteq> None)
     \<and> (pr_Status r = PaymentRequestCancelled \<longleftrightarrow> pr_CancelledAt r \<noteq> None)"

text \<open>What can become of a row: who asks, for how much and until when is fixed, a payer once known is fixed,
  reminders only add up, and a row that is no longer pending never changes again.\<close>

definition later :: "PaymentRequest \<Rightarrow> PaymentRequest \<Rightarrow> bool" where
  "later r r' \<longleftrightarrow> pr_ID r' = pr_ID r \<and> pr_RequesterID r' = pr_RequesterID r \<and> pr_AmountCents r' = pr_AmountCents r
     \<and> pr_CurrencyCode r' = pr_CurrencyCode r \<and> pr_ExpiresAt r' = pr_ExpiresAt r
     \<and> pr_ReminderCount r \<le> pr_ReminderCount r' \<and> (pr_PayerID r \<noteq> None \<longrightarrow> pr_PayerID r' = pr_PayerID r)
     \<and> (pr_Status r \<noteq> PaymentRequestPending \<longrightarrow> r' = r)"

definition requests_later :: "PaymentRequest list \<Rightarrow> PaymentRequest list \<Rightarrow> bool" where
  "requests_later rs rs' \<longleftrightarrow> length rs \<le> length rs' \<and> list_all2 later rs (take (length rs) rs')"

lemma later_refl [simp]: "later r r"
  by (simp add: later_def)

lemma later_trans: "later r s \<Longrightarrow> later s u \<Longrightarrow> later r u"
  unfolding later_def by (cases "pr_Status r = PaymentRequestPending") (fastforce, simp)

lemma requests_later_refl [simp]: "requests_later rs rs"
  by (simp add: requests_later_def list_all2_conv_all_nth)

lemma requests_later_append: "requests_later rs rs' \<Longrightarrow> requests_later rs (rs' @ new)"
  by (simp add: requests_later_def)

lemma requests_later_update:
  assumes "requests_later rs rs'" "\<And>r. r \<in> set rs' \<Longrightarrow> p r \<Longrightarrow> later r (f r)"
  shows "requests_later rs (update_where p f rs')"
proof -
  have "later (rs ! i) (update_where p f rs' ! i)" if "i < length rs" for i
    using assms that later_trans [of "rs ! i" "rs' ! i"]
    by (auto simp: requests_later_def list_all2_conv_all_nth update_where_def)
  then show ?thesis using assms(1) by (simp add: requests_later_def list_all2_conv_all_nth)
qed

lemma requests_laterD: "requests_later rs rs' \<Longrightarrow> i < length rs \<Longrightarrow> later (rs ! i) (rs' ! i)"
  by (simp add: requests_later_def list_all2_conv_all_nth)

definition requests_sound :: "PaymentRequest list \<Rightarrow> 'l world \<Rightarrow> bool" where
  "requests_sound rs w \<longleftrightarrow> list_all request_wf (w_requests w) \<and> requests_later rs (w_requests w)"

lemma sound_leaves: "leavesA w_requests m \<Longrightarrow> keepsA (requests_sound rs) m"
  by (simp add: keepsA_def leavesA_def requests_sound_def)

lemmas sound_reader = sound_leaves [OF requests.leaves_reader]

lemma sound_other [keeps]:
  "keepsA (requests_sound rs) (audit_Log E e)" "keepsA (requests_sound rs) nowA" "keepsA (requests_sound rs) (user_GetByID E i)"
  "keepsA (requests_sound rs) (user_GetByPhone E ph)" "keepsA (requests_sound rs) (user_GetByUsername E n)"
  "keepsA (requests_sound rs) (request_GetByID E i)" "keepsA (requests_sound rs) (resolveBatchRecipient E n)"
proof -
  show "keepsA (requests_sound rs) (audit_Log E e)" "keepsA (requests_sound rs) nowA"
    by (rule sound_leaves, rule requests.leaves_tables requests.leaves_calls)+
  show "keepsA (requests_sound rs) (request_GetByID E i)" "keepsA (requests_sound rs) (resolveBatchRecipient E n)"
    unfolding request_GetByID_def resolveBatchRecipient_def by (rule sound_reader, (rule readers)+)+
qed (rule sound_reader, rule readers)+

lemma sound_update [keeps]:
  assumes "\<And>now r. p r \<Longrightarrow> request_wf r \<Longrightarrow> request_wf (f now r) \<and> later r (f now r)"
  shows "keepsA (requests_sound rs) (request_update E p f e)"
proof (rule keepsAI)
  fix w :: "'l world" assume s: "requests_sound rs w"
  have "request_wf r" if "r \<in> set (w_requests w)" for r
    using s that by (simp add: requests_sound_def list_all_iff)
  then have "requests_later rs (update_where p (f (w_now w)) (w_requests w))" "list_all request_wf (update_where p (f (w_now w)) (w_requests w))"
    using s assms requests_later_update [of rs "w_requests w" p "f (w_now w)"]
    by (auto simp: requests_sound_def list_all_iff update_where_def)
  then show "requests_sound rs (snd (request_update E p f e w))"
    using s by (simp add: request_update_def dbA_def Let_def act_simps nowA_def requests_sound_def throwA_def retA_def)
qed

lemma sound_status_changes [keeps]:
  "keepsA (requests_sound rs) (request_Pay E i tx)" "keepsA (requests_sound rs) (request_Decline E i reason)"
  "keepsA (requests_sound rs) (request_Cancel E i)" "keepsA (requests_sound rs) (request_IncrementReminder E i)"
  unfolding request_Pay_def request_Decline_def request_Cancel_def request_IncrementReminder_def
  by (rule sound_update, auto simp: request_pending_def request_wf_def later_def)+

lemma sound_create [keeps]: "keepsA (requests_sound rs) (request_Create E pr)"
  unfolding request_Create_def
  by (rule keepsAI) (auto simp: dbA_def Let_def act_simps nowA_def bindA_def newID_def requests_sound_def throwA_def retA_def
      request_wf_def getsA_def modifyA_def intro: requests_later_append)

lemma sound_sweeps [keeps]:
  "keepsA (requests_sound rs) (request_ExpirePending E)" "keepsA (requests_sound rs) (request_ResolvePayer E ph u)"
  unfolding request_ExpirePending_def request_ResolvePayer_def
  by (rule keepsAI, auto simp: dbA_def Let_def act_simps nowA_def requests_sound_def retA_def list_all_iff update_where_def
      request_wf_def later_def intro!: requests_later_update [unfolded update_where_def])+

text \<open>The operations on requests, in any order, by any caller and with any failures, while the clock runs.\<close>

inductive pr_step :: "env \<Rightarrow> 'l Client \<Rightarrow> 'l payments \<Rightarrow> 'l world \<Rightarrow> 'l world \<Rightarrow> bool" for E L s where
  create: "CreateRequest E u f w = (x1, w') \<Longrightarrow> pr_step E L s w w'"
| batch: "CreateBatch E u b w = (x2, w') \<Longrightarrow> pr_step E L s w w'"
| pay: "PayRequest E L s u i w = (x3, w') \<Longrightarrow> pr_step E L s w w'"
| decline: "DeclineRequest E u i reason w = (x4, w') \<Longrightarrow> pr_step E L s w w'"
| cancel: "CancelRequest E u i w = (x5, w') \<Longrightarrow> pr_step E L s w w'"
| remind: "RemindRequest E u i w = (x6, w') \<Longrightarrow> pr_step E L s w w'"
| expire: "ExpireStale E w = (x7, w') \<Longrightarrow> pr_step E L s w w'"
| resolve: "request_ResolvePayer E ph u w = (x8, w') \<Longrightarrow> pr_step E L s w w'"
| transfer: "ProcessInboundTransfer E L s u req w = (x9, w') \<Longrightarrow> pr_step E L s w w'"
| tick: "w_now w \<le> now \<Longrightarrow> pr_step E L s w (w\<lparr>w_now := now\<rparr>)"

lemma sound_operations:
  "keepsA (requests_sound rs) (CreateRequest E u f)" "keepsA (requests_sound rs) (CreateBatch E u b)"
  "keepsA (requests_sound rs) (DeclineRequest E u i reason)" "keepsA (requests_sound rs) (CancelRequest E u i)"
  "keepsA (requests_sound rs) (RemindRequest E u i)" "keepsA (requests_sound rs) (ExpireStale E)"
  unfolding CreateRequest_def CreateBatch_def DeclineRequest_def CancelRequest_def RemindRequest_def ExpireStale_def
    find_payer_def for_payer_def for_requester_def not_frozen_def resolve_payer_def batch_request_def
  by (rule keeps)+

lemma sound_pay:
  assumes "rates_read s"
  shows "keepsA (requests_sound rs) (PayRequest E L s u i)"
  unfolding PayRequest_def for_payer_def by (intro keeps sound_leaves [OF requests.leaves_transfer [OF assms]])

lemma sound_step:
  assumes "pr_step E L s w w'" "rates_read s" "requests_sound rs w"
  shows "requests_sound rs w'"
  using assms(1)
proof cases
  case (tick now)
  then show ?thesis using assms(3) by (simp add: requests_sound_def)
qed (use assms(3) keepsA_run in \<open>metis sound_operations sound_pay [OF assms(2)] sound_sweeps(2) sound_leaves [OF requests.leaves_transfer [OF assms(2)]]\<close>)+

text \<open>C11: whatever the two sides, the batch form, the expiry job and failing databases do, a payment request
  goes from pending to at most one final state and stays there: its amount, currency, requester and due time
  never change, it is reminded of at most three times, and it carries the payment reference exactly when it is
  paid.\<close>

theorem request_life_cycle:
  assumes "(pr_step E L s)\<^sup>*\<^sup>* w w'" "rates_read s" "list_all request_wf (w_requests w)"
  shows "list_all request_wf (w_requests w') \<and> requests_later (w_requests w) (w_requests w')"
proof -
  have "requests_sound (w_requests w) w" using assms(3) by (simp add: requests_sound_def)
  with assms(1) have "requests_sound (w_requests w) w'"
    by (induction rule: rtranclp_induct) (auto intro: sound_step [OF _ assms(2)])
  then show ?thesis by (simp add: requests_sound_def)
qed

section \<open>Paying a request\<close>

interpretation clock: other_table w_now
  by unfold_locales simp_all

lemma stable_requests:
  assumes "stable w' = stable w"
  shows "w_requests w' = w_requests w"
  using arg_cong [OF assms, of w_requests] by (simp add: stable_def)

lemma request_GetByID_run:
  assumes "request_GetByID E i w = (Inr pr, w')"
  shows "pr \<in> set (w_requests w)" "pr_ID pr = i" "stable w' = stable w"
  using assms by (auto simp: request_GetByID_def runs dbA_run stable_def dest!: select_one_Some)

lemma for_payer_run:
  assumes "for_payer E uid i w = (Inr pr, w')"
  shows "pr \<in> set (w_requests w)" "request_pending i pr" "pr_PayerID pr = Some uid" "stable w' = stable w"
  using assms request_GetByID_run [of E i w pr w'] by (auto simp: for_payer_def runs request_pending_def)

lemma request_Pay_run:
  assumes "request_Pay E i tx w = (Inr u, w')"
  shows "w_ledger w' = w_ledger w"
    "w_requests w' = update_where (request_pending i)
       (\<lambda>p. p\<lparr>pr_Status := PaymentRequestPaid, pr_TransactionID := Some tx, pr_PaidAt := Some (w_now w)\<rparr>) (w_requests w)"
  using assms by (auto simp: request_Pay_def request_update_def dbA_run runs nowA_def)

text \<open>The column \<open>phone_number\<close> is unique, and a stored number is one the program parsed.\<close>

definition phones_ok :: "env \<Rightarrow> User list \<Rightarrow> bool" where
  "phones_ok E us \<longleftrightarrow> (\<forall>u \<in> set us. E164 (e_phone E) (u_PhoneNumber u) \<noteq> '''' \<and>
       phone_Parse (e_phone E) (E164 (e_phone E) (u_PhoneNumber u)) = Inr (u_PhoneNumber u)
       \<and> (\<forall>v \<in> set us. u_PhoneNumber v = u_PhoneNumber u \<longrightarrow> v = u))"

lemma p2p_recipient_run:
  assumes "rates_read s" "p2p_parties E s uid req w = (Inr (sender, recipient), w')"
  shows "\<exists>w1 w2. stable w1 = stable w \<and> resolveRecipient E req w1 = (Inr recipient, w2)"
proof -
  obtain w1 w2 w3 where "user_GetByID E uid w = (Inr sender, w1)"
    "check_regulatory E s \<lparr>tr_UserID = uid, tr_User = sender, tr_Direction = ''p2p'',
       tr_AmountCents = ib_AmountCents req, tr_Currency = ib_Currency req, tr_Purpose = ib_Purpose req,
       tr_Destination = ''domestic''\<rparr> w1 = (Inr (), w2)" "resolveRecipient E req w2 = (Inr recipient, w3)"
    using assms(2) by (auto simp: p2p_parties_def runs)
  then show ?thesis using user_GetByID_run(3) check_regulatory_run [OF assms(1)] by metis
qed

lemma resolve_by_phone:
  assumes "phones_ok E (w_users w)" "requester \<in> set (w_users w)" "ib_Recipient req = E164 (e_phone E) (u_PhoneNumber requester)"
    and "resolveRecipient E req w = (Inr recipient, w')"
  shows "recipient = requester"
proof -
  have "user_GetByPhone E (u_PhoneNumber requester) w = (Inr recipient, w')"
    using assms by (auto simp: resolveRecipient_def phones_ok_def)
  then have "recipient \<in> set (w_users w)" "u_PhoneNumber recipient = u_PhoneNumber requester"
    using user_query_run(1) select_one_Some unfolding user_GetByPhone_def by fastforce+
  then show ?thesis using assms(1,2) by (simp add: phones_ok_def)
qed

text \<open>C8: a request that was paid successfully was pending and addressed to the caller; the caller's wallet,
  topped up from the overdraft by what it lacked, paid exactly the requested amount into the requester's
  wallet, and the request, and no other, is now paid.\<close>

theorem PayRequest_pays:
  assumes lc: "ledger_client L c view holdOf nexth" and s: "pm_chart s = c" "rates_read s"
    and run: "PayRequest E L s payerID i w = (Inr u, w')"
    and fresh: "uuid_keys E \<inter> lv_used (view (w_ledger w)) = {}" and ph: "phones_ok E (w_users w)"
  shows "\<exists>pr payer requester m. pr \<in> set (w_requests w) \<and> request_pending i pr \<and> pr_PayerID pr = Some payerID
    \<and> payer \<in> set (w_users w) \<and> u_ID payer = payerID \<and> \<not> u_IsFrozen payer
    \<and> requester \<in> set (w_users w) \<and> u_ID requester = pr_RequesterID pr \<and> \<not> u_IsFrozen requester
    \<and> 0 \<le> m \<and> m \<le> pr_AmountCents pr
    \<and> lv_bal (view (w_ledger w')) = apply_postings
        (shortfall_postings c (view (w_ledger w)) (u_LedgerWalletID payer) (pr_AmountCents pr) (FormatAsset [pr_CurrencyCode pr])
         @ [P (MainAccount c (u_LedgerWalletID payer)) (MainAccount c (u_LedgerWalletID requester))
              (pr_AmountCents pr) (FormatAsset [pr_CurrencyCode pr])]
         @ repay_postings c (u_LedgerWalletID requester) m) (lv_bal (view (w_ledger w)))
    \<and> w_requests w' = update_where (request_pending i)
        (\<lambda>p. p\<lparr>pr_Status := PaymentRequestPaid, pr_TransactionID := Some i, pr_PaidAt := Some (w_now w)\<rparr>) (w_requests w)"
proof -
  obtain pr requester w1 w2 w3 w4 where fp: "for_payer E payerID i w = (Inr pr, w1)"
    and rq: "user_GetByID E (pr_RequesterID pr) w1 = (Inr requester, w2)"
    and t: "ProcessInboundTransfer E L s payerID (request_transfer E requester pr) w2 = (Inr (), w3)"
    and p: "request_Pay E i i w3 = (Inr (), w4)" and a: "w' = snd (audit_Log E (pr_audit ''payment_request_paid'' payerID i) w4)"
    using run by (auto simp: PayRequest_def runs)
  obtain payer recipient w5 where pa: "p2p_parties E s payerID (request_transfer E requester pr) w2 = (Inr (payer, recipient), w5)"
    and m: "p2p_move E L s payerID (request_transfer E requester pr) payer recipient w5 = (Inr (), w3)"
    using t by (auto simp: ProcessInboundTransfer_def runs)
  note party = p2p_parties_run [OF s(2) pa] and pr = for_payer_run [OF fp] and rqr = user_GetByID_run [OF rq]
  have st: "stable w2 = stable w" "stable w5 = stable w" using pr(4) rqr(3) party(1) by simp_all
  note us = stable_fields(2) [OF st(1)]
  have us1: "w_users w1 = w_users w" using stable_fields(2) [OF pr(4)] .
  have rec: "recipient = requester"
  proof -
    obtain w6 w7 where "stable w6 = stable w2" "resolveRecipient E (request_transfer E requester pr) w6 = (Inr recipient, w7)"
      using p2p_recipient_run [OF s(2) pa] by blast
    moreover from this(1) have "w_users w6 = w_users w" using stable_fields(2) us by metis
    moreover have "ib_Recipient (request_transfer E requester pr) = E164 (e_phone E) (u_PhoneNumber requester)"
      by (simp add: request_transfer_def)
    ultimately show ?thesis using resolve_by_phone [of E w6 requester] ph rqr(1) us1 by simp
  qed
  have l: "w_ledger w5 = w_ledger w" using stable_fields(1) [OF st(2)] .
  have fresh5: "uuid_keys E \<inter> lv_used (view (w_ledger w5)) = {}" using fresh l by simp
  obtain ps where ps: "p2p_postings c (u_LedgerWalletID payer) (u_LedgerWalletID requester) (pr_AmountCents pr)
      (FormatAsset [pr_CurrencyCode pr]) (view (w_ledger w)) (Inr ()) ps"
    and bal: "lv_bal (view (w_ledger w3)) = apply_postings ps (lv_bal (view (w_ledger w)))"
    by (rule postsD [OF ledger_client.posts_p2p_move [OF lc s(1)] fresh5 m]) (simp add: request_transfer_def rec l)
  have amt: "0 < pr_AmountCents pr" using party(8) by (simp add: request_transfer_def)
  from ps obtain qs where qs: "repays c (u_LedgerWalletID requester) (pr_AmountCents pr) qs"
    "ps = shortfall_postings c (view (w_ledger w)) (u_LedgerWalletID payer) (pr_AmountCents pr) (FormatAsset [pr_CurrencyCode pr])
         @ [P (MainAccount c (u_LedgerWalletID payer)) (MainAccount c (u_LedgerWalletID requester))
              (pr_AmountCents pr) (FormatAsset [pr_CurrencyCode pr])] @ qs"
    by (auto simp: p2p_postings_def)
  moreover from qs(1) obtain m where "0 \<le> m" "m \<le> pr_AmountCents pr" "qs = repay_postings c (u_LedgerWalletID requester) m"
    using amt by (auto simp: repays_def)
  moreover have "w_ledger w' = w_ledger w3" using request_Pay_run(1) [OF p] a by (simp add: audit_ledger)
  moreover have "w_requests w3 = w_requests w" "w_now w3 = w_now w"
    using leavesD [OF requests.leaves_transfer [OF s(2)] t] leavesD [OF clock.leaves_transfer [OF s(2)] t]
      stable_requests [OF st(1)] stable_fields(4) [OF st(1)] by simp_all
  moreover have "w_requests w' = w_requests w4"
    by (simp add: a requests.leaves_tables(1) [unfolded leavesA_def])
  ultimately show ?thesis
    using pr(1-3) party(2,4,6,7) rec us us1 rqr(1,2) bal request_Pay_run(2) [OF p]
    by (intro exI [of _ pr] exI [of _ payer] exI [of _ requester] exI [of _ m]) simp
qed

section \<open>The shares of a batch\<close>

text \<open>One request per recipient, in order.\<close>

lemma batch_request_run:
  assumes "batch_request E uid f n (i, pid, ph) w = (Inr pr, w')"
  shows "w_requests w' = w_requests w @ [pr]" "pr_AmountCents pr = share f n i" "pr_PayerID pr = Some pid"
    "pr_RequesterID pr = uid" "pr_Status pr = PaymentRequestPending" "0 < share f n i"
  using assms
  by (auto simp: batch_request_def request_Create_def new_request_def dbA_run runs nowA_def newID_def Let_def split: if_splits)

lemma batch_requests_run:
  assumes "mapA (batch_request E uid f n) (enumerate k rs) w = (Inr prs, w')"
  shows "w_requests w' = w_requests w @ prs \<and> map pr_AmountCents prs = map (share f n) [k ..< k + length rs]
    \<and> map pr_PayerID prs = map (Some \<circ> fst) rs
    \<and> list_all (\<lambda>r. pr_RequesterID r = uid \<and> pr_Status r = PaymentRequestPending \<and> 0 < pr_AmountCents r) prs"
  using assms
proof (induction rs arbitrary: k w prs)
  case (Cons r rs)
  obtain pid ph where r: "r = (pid, ph)" by fastforce
  obtain pr prs' w1 where one: "batch_request E uid f n (k, pid, ph) w = (Inr pr, w1)"
    and rest: "mapA (batch_request E uid f n) (enumerate (Suc k) rs) w1 = (Inr prs', w')" and prs: "prs = pr # prs'"
    using Cons.prems r by (auto simp: runs)
  show ?case using Cons.IH [OF rest] batch_request_run [OF one] prs r by (simp add: upt_conv_Cons del: upt_Suc)
qed (simp add: runs)

lemma sum_const_tail: "0 < n \<Longrightarrow> (\<Sum>i \<leftarrow> [0 ..< n]. if i = 0 then a else (b :: int)) = a + int (n - 1) * b"
proof -
  assume "0 < n"
  then have "[0 ..< n] = 0 # [1 ..< n]" by (simp add: upt_rec)
  moreover have "map (\<lambda>i. if i = 0 then a else b) [1 ..< n] = replicate (n - 1) b" by (auto simp: list_eq_iff_nth_eq)
  ultimately show ?thesis by (simp add: sum_list_replicate)
qed

definition custom_share :: "(string \<times> int) list \<Rightarrow> string \<Rightarrow> int" where
  "custom_share amounts r = (case map_of amounts r of None \<Rightarrow> 0 | Some a \<Rightarrow> a)"

lemma custom_total_sum:
  "custom_total amounts rs t = Inr total' \<Longrightarrow> in_i64 t \<Longrightarrow> total' = i64 (t + (\<Sum>r \<leftarrow> rs. custom_share amounts r))"
proof (induction rs arbitrary: t)
  case (Cons r rs)
  then obtain a where "map_of amounts r = Some a" "custom_total amounts rs (i64 (t + a)) = Inr total'"
    by (auto split: option.splits if_splits)
  then have "total' = i64 (i64 (t + a) + (\<Sum>r \<leftarrow> rs. custom_share amounts r))" and s: "custom_share amounts r = a"
    using Cons.IH by (simp_all add: custom_share_def)
  note this(1)
  also have "i64 (i64 (t + a) + (\<Sum>r \<leftarrow> rs. custom_share amounts r)) = i64 (t + (\<Sum>r \<leftarrow> r # rs. custom_share amounts r))"
    by (simp only: i64_add_left add.assoc list.map sum_list.Cons s)
  finally show ?case .
qed simp

lemma sum_share_custom:
  assumes "IsCustomSplit f"
  shows "(\<Sum>i \<leftarrow> [0 ..< length (bf_Recipients f)]. share f n i) = (\<Sum>r \<leftarrow> bf_Recipients f. custom_share (bf_CustomAmounts f) r)"
proof -
  have "map (share f n) [0 ..< length (bf_Recipients f)] = map (custom_share (bf_CustomAmounts f)) (bf_Recipients f)"
    using assms by (intro nth_equalityI) (simp_all add: share_def custom_share_def)
  then show ?thesis by simp
qed

lemma share_even:
  assumes "\<not> IsCustomSplit f" "0 < bf_TotalAmountCents f" "in_i64 (bf_TotalAmountCents f)" "0 < n"
  shows "share f n i = bf_TotalAmountCents f div int n + (if i = 0 then bf_TotalAmountCents f mod int n else 0)"
proof -
  let ?T = "bf_TotalAmountCents f"
  have "?T div int n \<le> int n * (?T div int n)"
    using mult_right_mono [of 1 "int n" "?T div int n"] assms(2,4) by (simp add: pos_imp_zdiv_nonneg_iff)
  then have "?T div int n + ?T mod int n \<le> ?T" using mult_div_mod_eq [of "int n" ?T] by linarith
  then have "in_i64 (?T div int n + ?T mod int n)"
    using assms(2-4) unfolding in_i64_def by (simp add: pos_imp_zdiv_nonneg_iff add_nonneg_nonneg order.trans [of _ 0])
  then show ?thesis using assms by (simp add: share_def Let_def go_div_pos go_mod_pos)
qed

lemma sum_shares:
  assumes "\<not> IsCustomSplit f" "0 < bf_TotalAmountCents f" "in_i64 (bf_TotalAmountCents f)" "0 < n"
  shows "(\<Sum>i \<leftarrow> [0 ..< n]. share f n i) = bf_TotalAmountCents f"
proof -
  let ?T = "bf_TotalAmountCents f"
  have "share f n = (\<lambda>i. if i = 0 then ?T div int n + ?T mod int n else ?T div int n)"
    using share_even [OF assms] by auto
  then have "(\<Sum>i \<leftarrow> [0 ..< n]. share f n i) = ?T div int n + ?T mod int n + int (n - 1) * (?T div int n)"
    by (simp add: sum_const_tail assms(4))
  also have "\<dots> = ?T mod int n + int n * (?T div int n)" using assms(4) by (simp add: of_nat_diff algebra_simps)
  finally show ?thesis by simp
qed

lemma leaves_resolve_payers: "leavesA w_requests (mapA (resolve_payer E uid) rs)"
proof -
  have "leavesA w_requests (resolveBatchRecipient E r)" for r
    unfolding resolveBatchRecipient_def by (intro requests.leaves_reader readers)
  then show ?thesis unfolding resolve_payer_def by (intro leaves)
qed

lemma resolve_payers_run:
  assumes "mapA (resolve_payer E uid) rs w = (Inr ps, w')"
  shows "length ps = length rs \<and> list_all (\<lambda>p. fst p \<noteq> uid) ps"
  using assms by (induction rs arbitrary: w ps) (auto simp: runs resolve_payer_def)


section \<open>Examples\<close>

text \<open>Bob asks Alice for 3 birr; she has ten.\<close>

definition lunch :: PaymentRequest where
  "lunch = (new_request ''ub'' (Some ''ua'') (u_PhoneNumber alice) 300 ''ETB'' ''lunch'' day_ns)\<lparr>pr_ID := ''r1''\<rparr>"

definition lunch_world :: "engine fclient world" where
  "lunch_world = (pay_world 1000)\<lparr>w_requests := [lunch]\<rparr>"

theorem request_life_cycle_witness:
  "list_all request_wf (w_requests (snd (CancelRequest ok_env ''ub'' ''r1'' (snd (DeclineRequest ok_env ''ua'' ''r1'' None lunch_world)))))
   \<and> requests_later [lunch] (w_requests (snd (CancelRequest ok_env ''ub'' ''r1'' (snd (DeclineRequest ok_env ''ua'' ''r1'' None lunch_world)))))"
proof -
  let ?w1 = "snd (DeclineRequest ok_env ''ua'' ''r1'' None lunch_world)"
  let ?w2 = "snd (CancelRequest ok_env ''ub'' ''r1'' ?w1)"
  have "pr_step ok_env eclient pay_svc lunch_world ?w1" by (rule pr_step.decline [OF prod.collapse [symmetric]])
  moreover have "pr_step ok_env eclient pay_svc ?w1 ?w2" by (rule pr_step.cancel [OF prod.collapse [symmetric]])
  ultimately have "(pr_step ok_env eclient pay_svc)\<^sup>*\<^sup>* lunch_world ?w2" by simp
  moreover have "list_all request_wf (w_requests lunch_world)" by code_simp
  ultimately show ?thesis using request_life_cycle [OF _ pay_svc_ok(2)] by (fastforce simp: lunch_world_def)
qed

text \<open>With the database up, a pending request can be marked as paid.\<close>

lemma request_Pay_succeeds:
  assumes "\<And>n. e_db_ok E n" "pr \<in> set (w_requests w)" "request_pending i pr"
  shows "\<exists>w'. request_Pay E i tx w = (Inr (), w')"
proof -
  have "rows_affected (request_pending i) (w_requests w) \<noteq> 0" using assms(2,3) rows_affected_pos by fastforce
  then show ?thesis using assms(1) by (simp add: request_Pay_def request_update_def dbA_def Let_def act_simps nowA_def)
qed

lemma PayRequest_succeeds:
  assumes "\<And>n. e_db_ok E n" "rates_read s" "for_payer E payerID i w = (Inr pr, w1)"
    and "user_GetByID E (pr_RequesterID pr) w1 = (Inr requester, w2)"
    and "ProcessInboundTransfer E L s payerID (request_transfer E requester pr) w2 = (Inr (), w3)"
  shows "\<exists>w'. PayRequest E L s payerID i w = (Inr (), w')"
proof -
  have "w_requests w3 = w_requests w"
    using leavesD [OF requests.leaves_transfer [OF assms(2)] assms(5)] for_payer_run(4) [OF assms(3)] user_GetByID_run(3) [OF assms(4)]
    by (metis stable_requests)
  then obtain w4 where "request_Pay E i i w3 = (Inr (), w4)"
    using request_Pay_succeeds [OF assms(1)] for_payer_run(1,2) [OF assms(3)] by metis
  then show ?thesis using assms(3-5) by (simp add: PayRequest_def bindA_def ignoreA_def)
qed

definition lunch_w2 :: "engine fclient world" where
  "lunch_w2 = snd (user_GetByID ok_env ''ub'' (snd (for_payer ok_env ''ua'' ''r1'' lunch_world)))"

text \<open>The phone numbers of the two, in and out of the library.\<close>

lemma et_numbers:
  "E164 et_lib (u_PhoneNumber bob) = ''+251922222222''" "phone_Parse et_lib ''+251922222222'' = Inr (u_PhoneNumber bob)"
  "E164 et_lib (u_PhoneNumber alice) = ''+251911111111''" "phone_Parse et_lib ''+251911111111'' = Inr (u_PhoneNumber alice)"
proof -
  have s: "show_nat 922222222 = ''922222222''" "show_nat 911111111 = ''911111111''" "show_nat 251 = ''251''"
    by (simp_all add: show_nat.simps)
  note digits = digits_val_def digit_val_def is_digit_def et_lib_def s alice_def bob_def user0_def
  show "E164 et_lib (u_PhoneNumber bob) = ''+251922222222''" "E164 et_lib (u_PhoneNumber alice) = ''+251911111111''"
    by (simp_all add: E164_def phone_parsed_def atoi_def parseUint_def pad0_def digits)
  show "phone_Parse et_lib ''+251922222222'' = Inr (u_PhoneNumber bob)" "phone_Parse et_lib ''+251911111111'' = Inr (u_PhoneNumber alice)"
    by (simp_all add: phone_Parse_def itoa_def digits)
qed

lemma lunch_phones: "phones_ok ok_env [alice, bob]"
proof -
  have "u_PhoneNumber alice \<noteq> u_PhoneNumber bob" by (simp add: alice_def bob_def user0_def)
  then show ?thesis by (auto simp: phones_ok_def et_numbers ok_env_def)
qed

definition lunch_wa :: "engine fclient world" where
  "lunch_wa = snd (user_GetByID ok_env ''ua'' lunch_w2)"

definition lunch_check :: TransferCheckRequest where
  "lunch_check = \<lparr>tr_UserID = ''ua'', tr_User = alice, tr_Direction = ''p2p'', tr_AmountCents = 300, tr_Currency = ''ETB'',
     tr_Purpose = '''', tr_Destination = ''domestic''\<rparr>"

definition lunch_wb :: "engine fclient world" where
  "lunch_wb = snd (check_regulatory ok_env pay_svc lunch_check lunch_wa)"

definition lunch_w3 :: "engine fclient world" where
  "lunch_w3 = snd (user_GetByPhone ok_env (u_PhoneNumber bob) lunch_wb)"

definition lunch_request :: InboundTransferRequest where
  "lunch_request = \<lparr>ib_Recipient = ''+251922222222'', ib_RecipientPhone = \<lparr>CountryCode = '''', Number = ''''\<rparr>,
     ib_AmountCents = 300, ib_Currency = ''ETB'', ib_Narration = ''lunch'', ib_Purpose = ''''\<rparr>"

lemma lunch_request: "request_transfer ok_env bob lunch = lunch_request"
  by (simp add: request_transfer_def lunch_request_def lunch_def new_request_def ok_env_def et_numbers)

lemma lunch_parties: "p2p_parties ok_env pay_svc ''ua'' lunch_request lunch_w2 = (Inr (alice, bob), lunch_w3)"
proof -
  have v: "inbound_Validate ok_env lunch_request = Inr ()"
    by (simp add: inbound_Validate_def Struct_def tag_ok_def ok_env_def lunch_request_def currencyValidator_def ValidateCurrency_iff
        ValidateAmountCents_def validateRecipient_def et_numbers to_upper_def char_upper_def)
  have u: "user_GetByID ok_env ''ua'' lunch_w2 = (Inr alice, lunch_wa)" unfolding lunch_wa_def by (rule run_of) code_simp
  have c: "check_regulatory ok_env pay_svc lunch_check lunch_wa = (Inr (), lunch_wb)" unfolding lunch_wb_def by (rule run_of) code_simp
  have p: "user_GetByPhone ok_env (u_PhoneNumber bob) lunch_wb = (Inr bob, lunch_w3)" unfolding lunch_w3_def by (rule run_of) code_simp
  have "ib_Recipient lunch_request = ''+251922222222''" "e_phone ok_env = et_lib" by (simp_all add: lunch_request_def ok_env_def)
  then have r: "resolveRecipient ok_env lunch_request lunch_wb = (Inr bob, lunch_w3)"
    using p by (simp add: resolveRecipient_def et_numbers)
  have q: "\<lparr>tr_UserID = ''ua'', tr_User = alice, tr_Direction = ''p2p'', tr_AmountCents = ib_AmountCents lunch_request,
      tr_Currency = ib_Currency lunch_request, tr_Purpose = ib_Purpose lunch_request, tr_Destination = ''domestic''\<rparr> = lunch_check"
    by (simp add: lunch_check_def lunch_request_def)
  have f: "\<not> u_IsFrozen alice" "\<not> u_IsFrozen bob" "u_ID alice \<noteq> u_ID bob" by (simp_all add: alice_def bob_def user0_def)
  show ?thesis using v u c r f by (simp add: p2p_parties_def bindA_def mapErrA_def liftE_def q retA_def)
qed

definition lunch_w4 :: "engine fclient world" where
  "lunch_w4 = snd (cover_shortfall ok_env eclient pay_svc ''ua'' alice (''b0'' @ ''-od'') ''ETB'' 300
     (lunch_w3\<lparr>w_uuidn := Suc (w_uuidn lunch_w3)\<rparr>))"

lemma lunch_transfer: "\<exists>w3. ProcessInboundTransfer ok_env eclient pay_svc ''ua'' (request_transfer ok_env bob lunch) lunch_w2 = (Inr (), w3)"
proof -
  let ?req = lunch_request
  have k: "e_uuid ok_env (w_uuidn lunch_w3) = ''b0''" by code_simp
  have r: "ib_Currency ?req = ''ETB''" "ib_AmountCents ?req = 300" by (simp_all add: lunch_request_def)
  have 2: "cover_shortfall ok_env eclient pay_svc ''ua'' alice (''b0'' @ ''-od'') (ib_Currency ?req) (ib_AmountCents ?req)
      (lunch_w3\<lparr>w_uuidn := Suc (w_uuidn lunch_w3)\<rparr>) = (Inr (), lunch_w4)"
    unfolding r lunch_w4_def by (rule run_of) code_simp
  have "case fst (ledA (DebitWallet eclient (''b0'' @ ''-debit'') (u_LedgerWalletID alice) (ib_AmountCents ?req)
      (FormatAsset [ib_Currency ?req]) (MainAccount (pm_chart pay_svc) (u_LedgerWalletID bob)) False) lunch_w4) of
      Inl _ \<Rightarrow> False | Inr _ \<Rightarrow> True" by code_simp
  then obtain tx where 3: "fst (ledA (DebitWallet eclient (''b0'' @ ''-debit'') (u_LedgerWalletID alice) (ib_AmountCents ?req)
      (FormatAsset [ib_Currency ?req]) (MainAccount (pm_chart pay_svc) (u_LedgerWalletID bob)) False) lunch_w4) = Inr tx"
    by (auto split: sum.splits)
  show ?thesis unfolding lunch_request by (rule p2p_succeeds [OF lunch_parties, unfolded k, OF 2 3])
qed

lemma lunch_paid: "\<exists>w'. PayRequest ok_env eclient pay_svc ''ua'' ''r1'' lunch_world = (Inr (), w')"
proof -
  let ?w1 = "snd (for_payer ok_env ''ua'' ''r1'' lunch_world)"
  have 1: "for_payer ok_env ''ua'' ''r1'' lunch_world = (Inr lunch, ?w1)" by (rule run_of) code_simp
  have 2: "user_GetByID ok_env (pr_RequesterID lunch) ?w1 = (Inr bob, lunch_w2)"
    unfolding lunch_w2_def lunch_def new_request_def by (simp, rule run_of) code_simp
  have db: "e_db_ok ok_env n" for n by (simp add: ok_env_def)
  obtain w3 where 3: "ProcessInboundTransfer ok_env eclient pay_svc ''ua'' (request_transfer ok_env bob lunch) lunch_w2 = (Inr (), w3)"
    using lunch_transfer by blast
  from PayRequest_succeeds [OF db pay_svc_ok(2) 1 2 3] show ?thesis .
qed

theorem PayRequest_pays_witness:
  "\<exists>w'. PayRequest ok_env eclient pay_svc ''ua'' ''r1'' lunch_world = (Inr (), w')
     \<and> w_requests w' = [lunch\<lparr>pr_Status := PaymentRequestPaid, pr_TransactionID := Some ''r1'', pr_PaidAt := Some 1000\<rparr>]"
proof -
  obtain w' where r: "PayRequest ok_env eclient pay_svc ''ua'' ''r1'' lunch_world = (Inr (), w')" using lunch_paid by blast
  have f: "uuid_keys ok_env \<inter> lv_used (fc_view e_ghost (w_ledger lunch_world)) = {}"
    using pay_world_fresh [of ok_env 1000] by (simp add: lunch_world_def)
  have p: "phones_ok ok_env (w_users lunch_world)" using lunch_phones by (simp add: lunch_world_def pay_world_def)
  have "w_requests w' = update_where (request_pending ''r1'') (\<lambda>p. p\<lparr>pr_Status := PaymentRequestPaid,
      pr_TransactionID := Some ''r1'', pr_PaidAt := Some (w_now lunch_world)\<rparr>) (w_requests lunch_world)"
    using PayRequest_pays [OF eclient_contract pay_svc_ok r f p] by blast
  moreover have "w_now lunch_world = 1000" "w_requests lunch_world = [lunch]"
    by (simp_all add: lunch_world_def pay_world_def empty_world_def)
  ultimately show ?thesis using r by (simp add: update_where_def request_pending_def lunch_def new_request_def)
qed

definition split_two :: BatchPaymentRequestForm where
  "split_two = \<lparr>bf_TotalAmountCents = 1001, bf_CurrencyCode = ''ETB'', bf_Narration = ''rent'',
     bf_Recipients = [''bobby'', ''carol''], bf_CustomAmounts = []\<rparr>"

definition split_world :: "engine fclient world" where
  "split_world = (pay_world 0)\<lparr>w_users := [alice, bob, user0\<lparr>u_ID := ''uc'', u_Username := Some ''carol''\<rparr>]\<rparr>"


end
