(* ===== verification/Card_Auth.thy ===== *)
theory Card_Auth
  imports Frames Conversion
begin

text \<open>
  \<open>internal/services/card_auth\<close>: the decision on a card authorization request, clearing and reversal. The
  request is the decoded ISO 8583 message; packing and unpacking (\<open>HandleMessage\<close>) is the codec's. The two
  possible ends of the checks are a decline, with its response code, or the currency and amount to put on hold
  (\<open>spend\<close>). A panic is the error \<open>panic\<close>.

  The lemmas show that a declined request leaves the ledger alone, and that an approved one passed the status,
  channel and limit checks and put exactly one covered hold on the card holder's wallet.
\<close>

section \<open>Messages\<close>

record AuthorizationRequest =
  aq_MTI :: string
  aq_PAN :: string
  aq_ProcessingCode :: string
  aq_TransactionAmount :: int
  aq_TransmissionDateTime :: string
  aq_STAN :: string
  aq_LocalTime :: string
  aq_LocalDate :: string
  aq_ExpirationDate :: string
  aq_MCC :: string
  aq_POSEntryMode :: string
  aq_AcquiringInstitutionID :: string
  aq_RRN :: string
  aq_TerminalID :: string
  aq_MerchantID :: string
  aq_MerchantNameLocation :: string
  aq_CurrencyCode :: string

record AuthorizationResponse =
  ar_MTI :: string
  ar_PAN :: string
  ar_ProcessingCode :: string
  ar_TransactionAmount :: int
  ar_TransmissionDateTime :: string
  ar_STAN :: string
  ar_LocalTime :: string
  ar_LocalDate :: string
  ar_AcquiringInstitutionID :: string
  ar_RRN :: string
  ar_AuthorizationCode :: string
  ar_ResponseCode :: string
  ar_TerminalID :: string
  ar_MerchantID :: string

definition RCApproved :: string where "RCApproved = ''00''"
definition RCInsufficientFunds :: string where "RCInsufficientFunds = ''51''"
definition RCCardFrozen :: string where "RCCardFrozen = ''62''"
definition RCExpiredCard :: string where "RCExpiredCard = ''54''"
definition RCDoNotHonor :: string where "RCDoNotHonor = ''05''"
definition RCSystemError :: string where "RCSystemError = ''96''"
definition RCExceedsLimit :: string where "RCExceedsLimit = ''61''"

lemmas response_codes = RCApproved_def RCInsufficientFunds_def RCCardFrozen_def RCExpiredCard_def RCDoNotHonor_def
  RCSystemError_def RCExceedsLimit_def

definition base_response :: "AuthorizationRequest \<Rightarrow> AuthorizationResponse" where
  "base_response req = \<lparr>ar_MTI = ''0110'', ar_PAN = aq_PAN req, ar_ProcessingCode = aq_ProcessingCode req,
     ar_TransactionAmount = aq_TransactionAmount req, ar_TransmissionDateTime = aq_TransmissionDateTime req,
     ar_STAN = aq_STAN req, ar_LocalTime = aq_LocalTime req, ar_LocalDate = aq_LocalDate req,
     ar_AcquiringInstitutionID = aq_AcquiringInstitutionID req, ar_RRN = aq_RRN req, ar_AuthorizationCode = '''',
     ar_ResponseCode = '''', ar_TerminalID = aq_TerminalID req, ar_MerchantID = aq_MerchantID req\<rparr>"

definition DefaultISO4217Map :: "(string \<times> string) list" where
  "DefaultISO4217Map = [(''230'', CurrencyETB), (''840'', CurrencyUSD), (''978'', CurrencyEUR)]"

definition iso4217_Resolve :: "(string \<times> string) list \<Rightarrow> string \<Rightarrow> string" where
  "iso4217_Resolve m code = (case map_of m code of Some c \<Rightarrow> c | None \<Rightarrow> CurrencyETB)"

definition DefaultSpendWaterfall :: "string list" where
  "DefaultSpendWaterfall = [''merchant_currency'', ''ETB'']"

record 'l card_auth =
  ka_chart :: Chart
  ka_rates :: "string \<Rightarrow> string \<Rightarrow> ('l, Rate) go"
  ka_regulatory :: "'l regulatory option"
  ka_iso4217 :: "(string \<times> string) list"

section \<open>Declines\<close>

record decline =
  dc_code :: string
  dc_reason :: string
  dc_currency :: "string option"

type_synonym ('l, 'a) decision = "('l, decline + 'a) go"

definition bindD :: "('l, 'a) decision \<Rightarrow> ('a \<Rightarrow> ('l, 'b) decision) \<Rightarrow> ('l, 'b) decision" where
  "bindD m k = bindA m (\<lambda>r. case r of Inl d \<Rightarrow> retA (Inl d) | Inr x \<Rightarrow> k x)"

definition declineA :: "string \<Rightarrow> string \<Rightarrow> string option \<Rightarrow> ('l, 'a) decision" where
  "declineA rc reason cur = retA (Inl \<lparr>dc_code = rc, dc_reason = reason, dc_currency = cur\<rparr>)"

definition passA :: "'a \<Rightarrow> ('l, 'a) decision" where
  "passA x = retA (Inr x)"

definition auth_row :: "AuthorizationRequest \<Rightarrow> string \<Rightarrow> CardAuthorization" where
  "auth_row req cardID =
     \<lparr>ca_ID = '''', ca_CardID = cardID, ca_RRN = aq_RRN req, ca_STAN = aq_STAN req, ca_AuthCode = None,
      ca_MerchantName = Some (aq_MerchantNameLocation req), ca_MerchantID = Some (aq_MerchantID req),
      ca_MerchantCategoryCode = Some (aq_MCC req), ca_TerminalID = Some (aq_TerminalID req),
      ca_AcquiringInstitution = Some (aq_AcquiringInstitutionID req), ca_AuthAmountCents = aq_TransactionAmount req,
      ca_SettlementAmountCents = None, ca_Currency = ''ETB'', ca_MerchantCurrency = None, ca_FXRateApplied = None,
      ca_FXFromCurrency = None, ca_FXFromAmountCents = None, ca_Status = AuthDeclined, ca_DeclineReason = None,
      ca_ResponseCode = None, ca_LedgerHoldID = None, ca_AuthorizedAt = 0, ca_SettledAt = None, ca_ReversedAt = None,
      ca_ExpiresAt = 0\<rparr>"

definition recordDecline :: "env \<Rightarrow> AuthorizationRequest \<Rightarrow> string \<Rightarrow> decline \<Rightarrow> ('l, unit) go" where
  "recordDecline E req cardID d =
     bindA (whenA (cardID \<noteq> '''') (ignoreA (auth_Create E ((auth_row req cardID)\<lparr>ca_MerchantCurrency := dc_currency d,
       ca_DeclineReason := Some (dc_reason d), ca_ResponseCode := Some (dc_code d)\<rparr>)))) (\<lambda>_.
     ignoreA (audit_Log E (audit_entry ''card_auth_declined'' ''system'' None ''card_authorization'' (aq_RRN req))))"

definition decline_with :: "env \<Rightarrow> AuthorizationRequest \<Rightarrow> string \<Rightarrow> decline \<Rightarrow> ('l, AuthorizationResponse) go" where
  "decline_with E req cardID d =
     bindA (recordDecline E req cardID d) (\<lambda>_. retA ((base_response req)\<lparr>ar_ResponseCode := dc_code d\<rparr>))"

section \<open>The checks\<close>

definition check_status :: "Card \<Rightarrow> ('l, unit) decision" where
  "check_status c =
     (if cd_Status c = CardStatusFrozen then declineA RCCardFrozen ''card frozen'' None
      else if cd_Status c = CardStatusExpired \<or> cd_Status c = CardStatusCancelled
      then declineA RCExpiredCard ''card expired/cancelled'' None
      else if cd_Status c \<noteq> CardStatusActive then declineA RCDoNotHonor ''card not active'' None
      else passA ())"

definition panic :: go_error where "panic = Opaque ''runtime error: slice bounds out of range''"

definition isOnline :: "AuthorizationRequest \<Rightarrow> bool" where
  "isOnline req \<longleftrightarrow> aq_POSEntryMode req = ''010'' \<or> aq_POSEntryMode req = ''810''"

definition isATM :: "AuthorizationRequest \<Rightarrow> bool" where
  "isATM req \<longleftrightarrow> take 2 (aq_ProcessingCode req) = ''01''"

definition isContactless :: "AuthorizationRequest \<Rightarrow> bool" where
  "isContactless req \<longleftrightarrow> aq_POSEntryMode req = ''071'' \<or> aq_POSEntryMode req = ''910''"

text \<open>Slicing a processing code of fewer than two bytes panics.\<close>

definition check_channel :: "AuthorizationRequest \<Rightarrow> Card \<Rightarrow> ('l, unit) decision" where
  "check_channel req c =
     (if length (aq_ProcessingCode req) < 2 then throwA panic
      else if isOnline req \<and> \<not> cd_AllowOnline c then declineA RCDoNotHonor ''online disabled'' None
      else if isATM req \<and> \<not> cd_AllowATM c then declineA RCDoNotHonor ''ATM disabled'' None
      else if isContactless req \<and> \<not> cd_AllowContactless c then declineA RCDoNotHonor ''contactless disabled'' None
      else passA ())"

definition limit_reason :: "string \<Rightarrow> int \<Rightarrow> int \<Rightarrow> int \<Rightarrow> string" where
  "limit_reason period used requested limit = period @ '' limit exceeded: used '' @ itoa used @ '' + requested '' @ itoa requested
     @ '' > limit '' @ itoa limit"

text \<open>A sum that cannot be read is only logged.\<close>

definition check_sum :: "('l, int) go \<Rightarrow> string \<Rightarrow> int \<Rightarrow> int \<Rightarrow> ('l, unit) decision" where
  "check_sum query period amountCents limit =
     bindA (tryA query) (\<lambda>r.
     case r of
       Inl e \<Rightarrow> passA ()
     | Inr used \<Rightarrow> if i64 (used + amountCents) > limit
         then declineA RCExceedsLimit (limit_reason period used amountCents limit) None else passA ())"

definition check_limits :: "env \<Rightarrow> AuthorizationRequest \<Rightarrow> Card \<Rightarrow> ('l, unit) decision" where
  "check_limits E req c =
     (if aq_TransactionAmount req > cd_PerTxnLimitCents c then declineA RCExceedsLimit ''exceeds per-txn limit'' None
      else bindD (check_sum (auth_SumApprovedToday E (cd_ID c)) ''daily'' (aq_TransactionAmount req) (cd_DailyLimitCents c)) (\<lambda>_.
        check_sum (auth_SumApprovedThisMonth E (cd_ID c)) ''monthly'' (aq_TransactionAmount req) (cd_MonthlyLimitCents c)))"

definition card_holder :: "env \<Rightarrow> Card \<Rightarrow> ('l, User) decision" where
  "card_holder E c =
     bindA (tryA (user_GetByID E (cd_UserID c))) (\<lambda>r.
     case r of
       Inl e \<Rightarrow> declineA RCDoNotHonor ''user not found'' None
     | Inr user \<Rightarrow> if u_IsFrozen user then declineA RCDoNotHonor ''user frozen'' None else passA user)"

text \<open>\<open>IsEnabled\<close> with its error dropped is \<open>false\<close>.\<close>

definition enabled_or_false :: "env \<Rightarrow> 'l regulatory \<Rightarrow> string \<Rightarrow> User \<Rightarrow> ('l, bool) go" where
  "enabled_or_false E rg key user = bindA (tryA (IsEnabled E rg key user)) (\<lambda>r. retA (case r of Inl e \<Rightarrow> False | Inr b \<Rightarrow> b))"

definition in_usd :: "int \<Rightarrow> Rate \<Rightarrow> ('l, int) go" where
  "in_usd amountCents rate w = (Inr (trunc64 (math_Round (f_mul (f_of_int amountCents) (rt_Mid rate)))), w)"

definition usd_amount :: "'l card_auth \<Rightarrow> string \<Rightarrow> int \<Rightarrow> ('l, int) decision" where
  "usd_amount s merchantCurrency amountCents =
     (if merchantCurrency = ''USD'' then passA amountCents
      else bindA (tryA (ka_rates s merchantCurrency ''USD'')) (\<lambda>r.
        case r of
          Inl e \<Rightarrow> declineA RCSystemError ''fx rate unavailable'' (Some merchantCurrency)
        | Inr rate \<Rightarrow> bindA (in_usd amountCents rate) passA))"

definition check_cap :: "env \<Rightarrow> 'l card_auth \<Rightarrow> 'l regulatory \<Rightarrow> string \<Rightarrow> int \<Rightarrow> User \<Rightarrow> ('l, unit) decision" where
  "check_cap E s rg merchantCurrency amountCents user =
     bindA (tryA (GetAmountLimit E rg ''card_international_monthly_cap'' user ''USD'')) (\<lambda>r.
     case r of
       Inl e \<Rightarrow> passA ()
     | Inr intlCap \<Rightarrow>
         if intlCap > 0 then
           bindA (tryA (auth_SumInternationalThisMonth E (u_ID user))) (\<lambda>t.
           bindD (usd_amount s merchantCurrency amountCents) (\<lambda>amountInUSD.
           if i64 ((case t of Inl e \<Rightarrow> 0 | Inr n \<Rightarrow> n) + amountInUSD) > intlCap
           then declineA RCExceedsLimit ''international monthly cap exceeded'' (Some merchantCurrency) else passA ()))
         else passA ())"

definition check_international :: "env \<Rightarrow> 'l card_auth \<Rightarrow> Card \<Rightarrow> string \<Rightarrow> int \<Rightarrow> User \<Rightarrow> ('l, unit) decision" where
  "check_international E s c merchantCurrency amountCents user =
     (case ka_regulatory s of
        None \<Rightarrow> passA ()
      | Some rg \<Rightarrow>
          if merchantCurrency = CurrencyETB then passA ()
          else bindA (enabled_or_false E rg ''card_international_spend_enabled'' user) (\<lambda>enabled.
            if \<not> enabled then declineA RCDoNotHonor ''international card spend disabled'' (Some merchantCurrency)
            else if \<not> cd_AllowInternational c then declineA RCDoNotHonor ''card international toggle off'' (Some merchantCurrency)
            else check_cap E s rg merchantCurrency amountCents user))"

section \<open>The spend waterfall\<close>

record spend =
  sp_Currency :: string
  sp_HoldAmountCents :: int
  sp_FXRate :: "float64 option"
  sp_FXFromCurrency :: "string option"
  sp_FXFromAmountCents :: "int option"

definition converted :: "int \<Rightarrow> Rate \<Rightarrow> ('l, int) go" where
  "converted amountCents rate w = (Inr (trunc64 (math_Ceil (f_mul (f_of_int amountCents) (rt_Ask rate)))), w)"

definition has_funds :: "'l Client \<Rightarrow> User \<Rightarrow> string \<Rightarrow> int \<Rightarrow> ('l, bool) go" where
  "has_funds L user cur n =
     bindA (tryA (ledA (GetWalletBalance L (u_LedgerWalletID user) (FormatAsset [cur])))) (\<lambda>r.
     retA (case r of Inl e \<Rightarrow> False | Inr bal \<Rightarrow> \<not> i64 bal < n))"

definition auto_conversion :: "env \<Rightarrow> 'l card_auth \<Rightarrow> string \<Rightarrow> User \<Rightarrow> ('l, bool) go" where
  "auto_conversion E s merchantCurrency user =
     (case ka_regulatory s of
        None \<Rightarrow> retA True
      | Some rg \<Rightarrow> if merchantCurrency = CurrencyETB then retA True
          else enabled_or_false E rg ''card_auto_conversion_enabled'' user)"

text \<open>One entry of the waterfall: \<open>None\<close> is \<open>continue\<close>.\<close>

definition spend_converted :: "env \<Rightarrow> 'l Client \<Rightarrow> 'l card_auth \<Rightarrow> string \<Rightarrow> int \<Rightarrow> User \<Rightarrow> string \<Rightarrow> ('l, spend option) go" where
  "spend_converted E L s merchantCurrency amountCents user cur =
     bindA (tryA (ka_rates s merchantCurrency cur)) (\<lambda>r.
     case r of
       Inl e \<Rightarrow> retA None
     | Inr rate \<Rightarrow>
         bindA (converted amountCents rate) (\<lambda>convertedCents.
         bindA (has_funds L user cur convertedCents) (\<lambda>ok.
         retA (if ok then Some \<lparr>sp_Currency = cur, sp_HoldAmountCents = convertedCents, sp_FXRate = Some (rt_Ask rate),
            sp_FXFromCurrency = Some cur, sp_FXFromAmountCents = Some convertedCents\<rparr> else None))))"

definition try_entry :: "env \<Rightarrow> 'l Client \<Rightarrow> 'l card_auth \<Rightarrow> string \<Rightarrow> int \<Rightarrow> User \<Rightarrow> string \<Rightarrow> ('l, spend option) go" where
  "try_entry E L s merchantCurrency amountCents user entry =
     (let cur = (if entry = ''merchant_currency'' then merchantCurrency else entry) in
      bindA (tryA (balance_GetByUserAndCurrency E (u_ID user) cur)) (\<lambda>r.
      case r of
        Inl e \<Rightarrow> retA None
      | Inr _ \<Rightarrow>
          if cur = merchantCurrency then
            bindA (has_funds L user cur amountCents) (\<lambda>ok.
            retA (if ok then Some \<lparr>sp_Currency = cur, sp_HoldAmountCents = amountCents, sp_FXRate = None,
              sp_FXFromCurrency = None, sp_FXFromAmountCents = None\<rparr> else None))
          else bindA (auto_conversion E s merchantCurrency user) (\<lambda>auto.
            if \<not> auto then retA None else spend_converted E L s merchantCurrency amountCents user cur)))"

fun run_waterfall :: "env \<Rightarrow> 'l Client \<Rightarrow> 'l card_auth \<Rightarrow> string \<Rightarrow> int \<Rightarrow> User \<Rightarrow> string list \<Rightarrow> ('l, spend option) go" where
  "run_waterfall E L s merchantCurrency amountCents user [] = retA None"
| "run_waterfall E L s merchantCurrency amountCents user (entry # es) =
     bindA (try_entry E L s merchantCurrency amountCents user entry) (\<lambda>r.
     case r of
       None \<Rightarrow> run_waterfall E L s merchantCurrency amountCents user es
     | Some sp \<Rightarrow> retA (Some sp))"

text \<open>A waterfall entry that is the empty string leaves \<open>spendCurrency\<close> empty, which counts as not found.\<close>

definition resolve_spend :: "env \<Rightarrow> 'l Client \<Rightarrow> 'l card_auth \<Rightarrow> string \<Rightarrow> int \<Rightarrow> User \<Rightarrow> ('l, spend) decision" where
  "resolve_spend E L s merchantCurrency amountCents user =
     (let waterfall = (if u_SpendWaterfallOrder user = [] then DefaultSpendWaterfall else u_SpendWaterfallOrder user) in
      bindA (run_waterfall E L s merchantCurrency amountCents user waterfall) (\<lambda>r.
      case r of
        Some sp \<Rightarrow> if sp_Currency sp = ''''
          then declineA RCInsufficientFunds ''no currency in waterfall has sufficient funds'' (Some merchantCurrency)
          else passA sp
      | None \<Rightarrow> declineA RCInsufficientFunds ''no currency in waterfall has sufficient funds'' (Some merchantCurrency)))"

section \<open>The decision\<close>

definition card_checks :: "env \<Rightarrow> 'l card_auth \<Rightarrow> AuthorizationRequest \<Rightarrow> Card \<Rightarrow> ('l, User) decision" where
  "card_checks E s req c =
     bindD (check_status c) (\<lambda>_.
     bindD (check_channel req c) (\<lambda>_.
     bindD (check_limits E req c) (\<lambda>_.
     bindD (card_holder E c) (\<lambda>user.
     bindD (check_international E s c (iso4217_Resolve (ka_iso4217 s) (aq_CurrencyCode req)) (aq_TransactionAmount req) user) (\<lambda>_.
     passA user)))))"

definition hold_key :: "AuthorizationRequest \<Rightarrow> string" where
  "hold_key req = ''card-auth-'' @ aq_RRN req @ ''-'' @ aq_STAN req"

definition record_approval :: "env \<Rightarrow> AuthorizationRequest \<Rightarrow> Card \<Rightarrow> string \<Rightarrow> spend \<Rightarrow> string \<Rightarrow> ('l, AuthorizationResponse) go" where
  "record_approval E req c merchantCurrency sp holdID =
     bindA nowA (\<lambda>now.
     let authCode = pad0 6 (nat (go_mod now 1000000)) in
     bindA (tryA (auth_Create E ((auth_row req (cd_ID c))\<lparr>ca_AuthCode := Some authCode,
       ca_AuthAmountCents := sp_HoldAmountCents sp, ca_Currency := sp_Currency sp, ca_MerchantCurrency := Some merchantCurrency,
       ca_FXRateApplied := sp_FXRate sp, ca_FXFromCurrency := sp_FXFromCurrency sp,
       ca_FXFromAmountCents := sp_FXFromAmountCents sp, ca_Status := AuthApproved, ca_ResponseCode := Some RCApproved,
       ca_LedgerHoldID := Some holdID\<rparr>))) (\<lambda>r.
     bindA (ignoreA (audit_Log E (audit_entry ''card_auth_approved'' ''system'' None ''card_authorization''
       (case r of Inl e \<Rightarrow> '''' | Inr authID \<Rightarrow> authID)))) (\<lambda>_.
     retA ((base_response req)\<lparr>ar_AuthorizationCode := authCode, ar_ResponseCode := RCApproved\<rparr>))))"

definition place_hold :: "env \<Rightarrow> 'l Client \<Rightarrow> 'l card_auth \<Rightarrow> AuthorizationRequest \<Rightarrow> Card \<Rightarrow> string \<Rightarrow> User \<Rightarrow> spend \<Rightarrow>
    ('l, AuthorizationResponse) go" where
  "place_hold E L s req c merchantCurrency user sp =
     bindA (tryA (ledA (HoldFunds L (hold_key req) (u_LedgerWalletID user) (TransitCardAuth (ka_chart s)) (sp_HoldAmountCents sp)
       (FormatAsset [sp_Currency sp])))) (\<lambda>r.
     case r of
       Inl e \<Rightarrow> decline_with E req (cd_ID c) \<lparr>dc_code = RCInsufficientFunds, dc_reason = ''insufficient funds or ledger error'',
         dc_currency = Some merchantCurrency\<rparr>
     | Inr holdID \<Rightarrow> record_approval E req c merchantCurrency sp holdID)"

definition decide_card :: "env \<Rightarrow> 'l Client \<Rightarrow> 'l card_auth \<Rightarrow> AuthorizationRequest \<Rightarrow> Card \<Rightarrow> ('l, AuthorizationResponse) go" where
  "decide_card E L s req c =
     (let merchantCurrency = iso4217_Resolve (ka_iso4217 s) (aq_CurrencyCode req) in
      bindA (bindD (card_checks E s req c) (\<lambda>user.
        bindD (resolve_spend E L s merchantCurrency (aq_TransactionAmount req) user) (\<lambda>sp.
        passA (user, sp)))) (\<lambda>v.
      case v of
        Inl d \<Rightarrow> decline_with E req (cd_ID c) d
      | Inr (user, sp) \<Rightarrow> place_hold E L s req c merchantCurrency user sp))"

definition decide :: "env \<Rightarrow> 'l Client \<Rightarrow> 'l card_auth \<Rightarrow> AuthorizationRequest \<Rightarrow> ('l, AuthorizationResponse) go" where
  "decide E L s req =
     bindA (tryA (card_GetByToken E (aq_PAN req))) (\<lambda>r.
     case r of
       Inl e \<Rightarrow> decline_with E req '''' \<lparr>dc_code = RCDoNotHonor, dc_reason = ''card not found'', dc_currency = None\<rparr>
     | Inr c \<Rightarrow> decide_card E L s req c)"

section \<open>Clearing and reversal\<close>

definition open_auth :: "env \<Rightarrow> string \<Rightarrow> string \<Rightarrow> ('l, CardAuthorization \<times> string) go" where
  "open_auth E rrn verb =
     bindA (auth_GetByRRN E rrn) (\<lambda>auth.
     if ca_Status auth \<noteq> AuthApproved then throwA (Opaque (''auth cannot '' @ verb))
     else case ca_LedgerHoldID auth of
       None \<Rightarrow> throwA (Opaque ''auth has no ledger hold ID'')
     | Some h \<Rightarrow> retA (auth, h))"

definition SettleAuthorization :: "env \<Rightarrow> 'l Client \<Rightarrow> string \<Rightarrow> int \<Rightarrow> ('l, unit) go" where
  "SettleAuthorization E L rrn settlementAmountCents =
     bindA (open_auth E rrn ''settle'') (\<lambda>(auth, h).
     bindA (ledA (SettleHold L (''card-settle-'' @ rrn) h)) (\<lambda>_.
     bindA (auth_Settle E (ca_ID auth) settlementAmountCents) (\<lambda>_.
     ignoreA (audit_Log E (audit_entry ''card_auth_settled'' ''system'' None ''card_authorization'' (ca_ID auth))))))"

definition ReverseAuthorization :: "env \<Rightarrow> 'l Client \<Rightarrow> string \<Rightarrow> ('l, unit) go" where
  "ReverseAuthorization E L rrn =
     bindA (open_auth E rrn ''reverse'') (\<lambda>(auth, h).
     bindA (ledA (VoidHold L (''card-void-'' @ rrn) h)) (\<lambda>_.
     bindA (auth_Reverse E (ca_ID auth)) (\<lambda>_.
     ignoreA (audit_Log E (audit_entry ''card_auth_reversed'' ''system'' None ''card_authorization'' (ca_ID auth))))))"

text \<open>Evaluation unfolds an action only when it runs.\<close>

lemmas card_auth_code [code] =
  bindD_def [THEN fun_cong]
  declineA_def [THEN fun_cong]
  passA_def [THEN fun_cong]
  check_status_def [THEN fun_cong]
  check_channel_def [THEN fun_cong]
  check_sum_def [THEN fun_cong]
  check_limits_def [THEN fun_cong]
  card_holder_def [THEN fun_cong]
  usd_amount_def [THEN fun_cong]
  check_cap_def [THEN fun_cong]
  check_international_def [THEN fun_cong]
  resolve_spend_def [THEN fun_cong]
  card_checks_def [THEN fun_cong]
  recordDecline_def [THEN fun_cong]
  decline_with_def [THEN fun_cong]
  enabled_or_false_def [THEN fun_cong]
  has_funds_def [THEN fun_cong]
  auto_conversion_def [THEN fun_cong]
  spend_converted_def [THEN fun_cong]
  try_entry_def [THEN fun_cong]
  record_approval_def [THEN fun_cong]
  place_hold_def [THEN fun_cong]
  decide_card_def [THEN fun_cong]
  decide_def [THEN fun_cong]
  open_auth_def [THEN fun_cong]
  SettleAuthorization_def [THEN fun_cong]
  ReverseAuthorization_def [THEN fun_cong]

section \<open>Passing the checks\<close>

lemma bindD_run [runs]:
  "bindD m k w = (Inr (Inr y), w') \<longleftrightarrow> (\<exists>x w1. m w = (Inr (Inr x), w1) \<and> k x w1 = (Inr (Inr y), w'))"
  by (auto simp: bindD_def bindA_def retA_def split: prod.splits sum.splits)

lemma passA_run [runs]: "passA x w = (Inr y, w') \<longleftrightarrow> y = Inr x \<and> w' = w"
  by (auto simp: passA_def retA_def)

lemma declineA_run [runs]: "declineA rc reason cur w = (Inr (Inr y), w') \<longleftrightarrow> False"
  by (auto simp: declineA_def retA_def)

text \<open>No decline carries the code of an approval.\<close>

definition refuses :: "('l, 'a) decision \<Rightarrow> bool" where
  "refuses m \<longleftrightarrow> (\<forall>w d w'. m w = (Inr (Inl d), w') \<longrightarrow> dc_code d \<noteq> RCApproved)"

named_theorems refusals \<open>decisions whose declines carry an error code\<close>

lemma refuses_basic [refusals]: "refuses (passA x)" "refuses (throwA e)"
  by (simp_all add: refuses_def passA_def retA_def throwA_def)

lemma refuses_decline [refusals]:
  "refuses (declineA RCInsufficientFunds r c)" "refuses (declineA RCCardFrozen r c)" "refuses (declineA RCExpiredCard r c)"
  "refuses (declineA RCDoNotHonor r c)" "refuses (declineA RCSystemError r c)" "refuses (declineA RCExceedsLimit r c)"
  by (simp_all add: refuses_def declineA_def retA_def response_codes)

lemma refuses_bindD [refusals]: "refuses m \<Longrightarrow> (\<And>x. refuses (k x)) \<Longrightarrow> refuses (bindD m k)"
  unfolding refuses_def bindD_def bindA_def by (auto simp: retA_def split: prod.splits sum.splits)

lemma refuses_bindA [refusals]: "(\<And>x. refuses (k x)) \<Longrightarrow> refuses (bindA m k)"
  unfolding refuses_def bindA_def by (fastforce split: prod.splits sum.splits)

lemma refuses_if [refusals]: "refuses m \<Longrightarrow> refuses n \<Longrightarrow> refuses (if b then m else n)"
  by simp

lemma refuses_sum [refusals]: "(\<And>e. refuses (h e)) \<Longrightarrow> (\<And>x. refuses (k x)) \<Longrightarrow> refuses (case z of Inl e \<Rightarrow> h e | Inr x \<Rightarrow> k x)"
  by (cases z) simp_all

lemma refuses_option [refusals]: "refuses m \<Longrightarrow> (\<And>x. refuses (k x)) \<Longrightarrow> refuses (case z of None \<Rightarrow> m | Some x \<Rightarrow> k x)"
  by (cases z) simp_all

lemma refuses_checks: "refuses (card_checks E s req c)" "refuses (resolve_spend E L s cur n user)"
  unfolding card_checks_def check_status_def check_channel_def check_limits_def check_sum_def card_holder_def
    check_international_def check_cap_def usd_amount_def resolve_spend_def Let_def
  by (rule refusals)+

text \<open>The checks only read.\<close>

definition card_rates_read :: "'l card_auth \<Rightarrow> bool" where
  "card_rates_read s \<longleftrightarrow> (\<forall>a b. readerA (ka_rates s a b))"

lemma reader_auths [readers]:
  "readerA (card_GetByToken E pan)" "readerA (auth_SumApprovedToday E i)" "readerA (auth_SumApprovedThisMonth E i)"
  "readerA (auth_SumInternationalThisMonth E u)"
  unfolding card_GetByToken_def card_query_def auth_SumApprovedToday_def auth_SumApprovedThisMonth_def
    auth_SumInternationalThisMonth_def by (rule readers)+

lemma reader_decision [readers]:
  "readerA (passA x)" "readerA (declineA rc r cur)" "readerA m \<Longrightarrow> (\<And>x. readerA (k x)) \<Longrightarrow> readerA (bindD m k)"
  unfolding passA_def declineA_def bindD_def by (rule readers | assumption)+

lemma reader_checks [readers]:
  "readerA (check_status c)" "readerA (check_channel req c)" "readerA (check_limits E req c)" "readerA (card_holder E c)"
  unfolding check_status_def check_channel_def check_limits_def check_sum_def card_holder_def by (rule readers)+

lemma reader_international:
  assumes "card_rates_read s"
  shows "readerA (check_international E s c cur n user)"
proof -
  have [readers]: "readerA (ka_rates s a b)" "readerA (in_usd n r)" for a b r
    using assms by (simp_all add: card_rates_read_def readerA_def in_usd_def)
  show ?thesis
    unfolding check_international_def check_cap_def usd_amount_def enabled_or_false_def by (rule readers)+
qed

lemma reader_card_checks:
  assumes "card_rates_read s"
  shows "readerA (card_checks E s req c)"
  unfolding card_checks_def by (rule readers reader_international [OF assms])+

lemma check_sum_run:
  assumes "check_sum query period n limit w = (Inr (Inr u), w')" "query w = (Inr used, w1)"
  shows "w' = w1" "i64 (used + n) \<le> limit"
  using assms by (auto simp: check_sum_def runs bindA_def tryA_def passA_def retA_def declineA_def split: if_splits)

text \<open>What an accepted card fulfils.\<close>

definition channel_open :: "AuthorizationRequest \<Rightarrow> Card \<Rightarrow> bool" where
  "channel_open req c \<longleftrightarrow> (isOnline req \<longrightarrow> cd_AllowOnline c) \<and> (isATM req \<longrightarrow> cd_AllowATM c)
     \<and> (isContactless req \<longrightarrow> cd_AllowContactless c)"

definition spent_today :: "'l world \<Rightarrow> Card \<Rightarrow> int" where
  "spent_today w c = auth_sum (\<lambda>a. ca_CardID a = cd_ID c \<and> auth_spent a \<and> same_day (w_now w) (ca_AuthorizedAt a)) (w_auths w)"

definition spent_this_month :: "'l world \<Rightarrow> Card \<Rightarrow> int" where
  "spent_this_month w c = auth_sum (\<lambda>a. ca_CardID a = cd_ID c \<and> auth_spent a \<and> same_month (w_now w) (ca_AuthorizedAt a)) (w_auths w)"

lemma check_limits_run:
  assumes "check_limits E req c w = (Inr (Inr u), w')" "\<And>n. e_db_ok E n"
  shows "aq_TransactionAmount req \<le> cd_PerTxnLimitCents c" "i64 (spent_today w c + aq_TransactionAmount req) \<le> cd_DailyLimitCents c"
    "i64 (spent_this_month w c + aq_TransactionAmount req) \<le> cd_MonthlyLimitCents c"
proof -
  have q: "auth_SumApprovedToday E (cd_ID c) v = (Inr (spent_today v c), v\<lparr>w_dbn := Suc (w_dbn v)\<rparr>)"
    "auth_SumApprovedThisMonth E (cd_ID c) v = (Inr (spent_this_month v c), v\<lparr>w_dbn := Suc (w_dbn v)\<rparr>)" for v :: "'l world"
    using assms(2) by (simp_all add: auth_SumApprovedToday_def auth_SumApprovedThisMonth_def spent_today_def spent_this_month_def
        act_simps)
  obtain w1 where a: "\<not> cd_PerTxnLimitCents c < aq_TransactionAmount req"
    and d: "check_sum (auth_SumApprovedToday E (cd_ID c)) ''daily'' (aq_TransactionAmount req) (cd_DailyLimitCents c) w = (Inr (Inr ()), w1)"
    and m: "check_sum (auth_SumApprovedThisMonth E (cd_ID c)) ''monthly'' (aq_TransactionAmount req) (cd_MonthlyLimitCents c) w1 = (Inr (Inr u), w')"
    using assms(1) by (auto simp: check_limits_def runs split: if_splits)
  have "w1 = w\<lparr>w_dbn := Suc (w_dbn w)\<rparr>" using check_sum_run(1) [OF d q(1)] .
  then have "spent_this_month w1 c = spent_this_month w c" by (simp add: spent_this_month_def)
  then show "i64 (spent_this_month w c + aq_TransactionAmount req) \<le> cd_MonthlyLimitCents c"
    using check_sum_run(2) [OF m q(2)] by simp
  show "i64 (spent_today w c + aq_TransactionAmount req) \<le> cd_DailyLimitCents c" using check_sum_run(2) [OF d q(1)] .
  show "aq_TransactionAmount req \<le> cd_PerTxnLimitCents c" using a by simp
qed
lemma sum_run: "(case z of Inl e \<Rightarrow> h e | Inr x \<Rightarrow> k x) w = r \<longleftrightarrow> (\<exists>e. z = Inl e \<and> h e w = r) \<or> (\<exists>x. z = Inr x \<and> k x w = r)"
  by (cases z) simp_all

lemma card_checks_run:
  assumes "card_checks E s req c w = (Inr (Inr user), w')" "\<And>n. e_db_ok E n" "card_rates_read s"
  shows "cd_Status c = CardStatusActive" "channel_open req c" "aq_TransactionAmount req \<le> cd_PerTxnLimitCents c"
    "i64 (spent_today w c + aq_TransactionAmount req) \<le> cd_DailyLimitCents c"
    "i64 (spent_this_month w c + aq_TransactionAmount req) \<le> cd_MonthlyLimitCents c"
    "user \<in> set (w_users w)" "u_ID user = cd_UserID c" "\<not> u_IsFrozen user" "stable w' = stable w"
    "ka_regulatory s \<noteq> None \<Longrightarrow> iso4217_Resolve (ka_iso4217 s) (aq_CurrencyCode req) \<noteq> CurrencyETB \<Longrightarrow> cd_AllowInternational c"
proof -
  let ?cur = "iso4217_Resolve (ka_iso4217 s) (aq_CurrencyCode req)"
  obtain w1 w2 where st: "check_status c w = (Inr (Inr ()), w)" and ch: "check_channel req c w = (Inr (Inr ()), w)"
    and l: "check_limits E req c w = (Inr (Inr ()), w1)" and h: "card_holder E c w1 = (Inr (Inr user), w2)"
    and i: "check_international E s c ?cur (aq_TransactionAmount req) user w2 = (Inr (Inr ()), w')"
    using assms(1) by (auto simp: card_checks_def check_status_def check_channel_def runs split: if_splits)
  show "cd_Status c = CardStatusActive" using st by (auto simp: check_status_def runs split: if_splits)
  show "channel_open req c" using ch by (auto simp: check_channel_def channel_open_def runs split: if_splits)
  show "aq_TransactionAmount req \<le> cd_PerTxnLimitCents c"
    "i64 (spent_today w c + aq_TransactionAmount req) \<le> cd_DailyLimitCents c"
    "i64 (spent_this_month w c + aq_TransactionAmount req) \<le> cd_MonthlyLimitCents c"
    using check_limits_run [OF l assms(2)] .
  have s1: "stable w1 = stable w" using readerD [OF reader_checks(3) l] .
  have u: "\<exists>w3. user_GetByID E (cd_UserID c) w1 = (Inr user, w3)" "\<not> u_IsFrozen user"
    using h by (auto simp: card_holder_def runs sum_run split: if_splits)
  show "user \<in> set (w_users w)" "u_ID user = cd_UserID c"
    using u(1) user_GetByID_run stable_fields(2) [OF s1] by metis+
  show "\<not> u_IsFrozen user" by (rule u(2))
  show "stable w' = stable w"
    using s1 readerD [OF reader_checks(4) h] readerD [OF reader_international [OF assms(3)] i] by simp
  show "cd_AllowInternational c" if "ka_regulatory s \<noteq> None" "?cur \<noteq> CurrencyETB"
    using i that by (auto simp: check_international_def runs split: if_splits)
qed

text \<open>Looking for funds leaves the balances and the records alone.\<close>

interpretation auths: other_table w_auths
  by unfold_locales simp_all

interpretation clock_of_cards: other_table w_now
  by unfold_locales simp_all

lemma reader_spend [readers]: "readerA (balance_GetByUserAndCurrency E u d)" "readerA (auto_conversion E s d user)"
  unfolding balance_GetByUserAndCurrency_def auto_conversion_def enabled_or_false_def by (rule readers)+

lemma reader_converted [readers]: "readerA (converted n r)"
  by (simp add: readerA_def converted_def)

context ledger_client
begin

lemma seen_reader: "readerA m \<Longrightarrow> leavesA (\<lambda>w. view (w_ledger w)) m"
  by (simp add: leavesA_def calm_snd [OF reader_calm])

lemma seen_has_funds: "leavesA (\<lambda>w. view (w_ledger w)) (has_funds L user cur n)"
proof -
  have "leavesA (\<lambda>w. view (w_ledger w)) (ledA (GetWalletBalance L x a))" for x a
    unfolding leavesA_def ledA_def by (auto split: prod.splits dest: get_balance)
  then show ?thesis unfolding has_funds_def by (intro leaves)
qed

lemma seen_waterfall:
  assumes "card_rates_read s"
  shows "leavesA (\<lambda>w. view (w_ledger w)) (run_waterfall E L s cur n user es)"
proof -
  have [readers]: "readerA (ka_rates s a b)" for a b using assms by (simp add: card_rates_read_def)
  have "leavesA (\<lambda>w. view (w_ledger w)) (try_entry E L s cur n user e)" for e
    unfolding try_entry_def spend_converted_def Let_def
    by (intro leaves seen_has_funds seen_reader readers)
  then show ?thesis by (induction es) (auto intro!: leaves)
qed

end

lemma auths_waterfall:
  assumes "card_rates_read s"
  shows "leavesA w_auths (run_waterfall E L s cur n user es)"
proof -
  have [readers]: "readerA (ka_rates s a b)" for a b using assms by (simp add: card_rates_read_def)
  have "leavesA w_auths (try_entry E L s cur n user e)" for e
    unfolding try_entry_def spend_converted_def has_funds_def Let_def
    by (intro leaves auths.leaves_reader auths.leaves_calls readers)
  then show ?thesis by (induction es) (auto intro!: leaves)
qed

lemma run_waterfall_amount:
  assumes "run_waterfall E L s cur n user es w = (Inr (Some sp), w')" "sp_Currency sp = cur"
  shows "sp_HoldAmountCents sp = n"
  using assms
proof (induction es arbitrary: w)
  case (Cons e es)
  then obtain r w1 where t: "try_entry E L s cur n user e w = (Inr r, w1)"
    and k: "(case r of None \<Rightarrow> run_waterfall E L s cur n user es | Some sp' \<Rightarrow> retA (Some sp')) w1 = (Inr (Some sp), w')"
    by (auto simp: runs)
  show ?case
  proof (cases r)
    case None
    then show ?thesis using Cons k by simp
  next
    case (Some sp')
    then have "r = Some sp" using k by (simp add: runs)
    then show ?thesis using t Cons.prems(2)
      by (auto simp: try_entry_def spend_converted_def Let_def runs sum_run split: if_splits)
  qed
qed (simp add: runs)

section \<open>The outcome of a decision\<close>

lemma approved_code: "RCDoNotHonor \<noteq> RCApproved" "RCInsufficientFunds \<noteq> RCApproved"
  by (simp_all add: response_codes)

lemma decline_run:
  assumes "decline_with E req i d w = (Inr resp, w')"
  shows "ar_ResponseCode resp = dc_code d" "w_ledger w' = w_ledger w"
proof -
  show "ar_ResponseCode resp = dc_code d" using assms by (auto simp: decline_with_def runs)
  have "calm (decline_with E req i d)" unfolding decline_with_def recordDecline_def by (rule calms)+
  then show "w_ledger w' = w_ledger w" using assms by (rule calmD)
qed

text \<open>The row an approval leaves behind.\<close>

definition approval_row :: "Card \<Rightarrow> string \<Rightarrow> string \<Rightarrow> int \<Rightarrow> CardAuthorization \<Rightarrow> bool" where
  "approval_row c h cur n a \<longleftrightarrow> ca_CardID a = cd_ID c \<and> ca_Status a = AuthApproved \<and> ca_LedgerHoldID a = Some h
     \<and> ca_Currency a = cur \<and> ca_AuthAmountCents a = n"

lemma record_approval_run:
  assumes "record_approval E req c cur sp h w = (Inr resp, w')" "\<And>n. e_db_ok E n"
  shows "ar_ResponseCode resp = RCApproved" "w_ledger w' = w_ledger w"
    "\<exists>a. w_auths w' = w_auths w @ [a] \<and> approval_row c h (sp_Currency sp) (sp_HoldAmountCents sp) a"
proof -
  show "ar_ResponseCode resp = RCApproved" using assms(1) by (auto simp: record_approval_def Let_def runs)
  have "calm (record_approval E req c cur sp h)" unfolding record_approval_def Let_def by (rule calms)+
  then show "w_ledger w' = w_ledger w" using assms(1) by (rule calmD)
  obtain r w1 a e where "auth_Create E a w = (r, w1)" "approval_row c h (sp_Currency sp) (sp_HoldAmountCents sp) a"
    "w' = snd (audit_Log E e w1)"
    using assms(1) by (auto simp: record_approval_def Let_def runs nowA_def approval_row_def auth_row_def)
  then show "\<exists>a. w_auths w' = w_auths w @ [a] \<and> approval_row c h (sp_Currency sp) (sp_HoldAmountCents sp) a"
    using assms(2) by (auto simp: auth_Create_def audit_Log_def act_simps bindA_def newID_def nowA_def approval_row_def)
qed

text \<open>An approved request held \<open>n\<close> of the currency \<open>cur\<close> for the card: one posting that the wallet covers,
  recorded in one new row.\<close>

definition funds_held :: "Chart \<Rightarrow> lview \<Rightarrow> lview \<Rightarrow> Card \<Rightarrow> User \<Rightarrow> string \<Rightarrow> int \<Rightarrow> CardAuthorization list \<Rightarrow> bool" where
  "funds_held ch v v' c user cur n new \<longleftrightarrow> (\<exists>h a. new = [a] \<and> approval_row c h cur n a
     \<and> lv_bal v' = apply_posting (P (MainAccount ch (u_LedgerWalletID user)) (HoldAccount ch h) n (FormatAsset [cur])) (lv_bal v)
     \<and> 0 \<le> n \<and> (n \<le> lv_bal v (MainAccount ch (u_LedgerWalletID user)) (FormatAsset [cur]) \<or> n = 0))"

lemma place_hold_run:
  assumes lc: "ledger_client L ch view holdOf nexth" and "\<And>n. e_db_ok E n"
    and run: "place_hold E L s req c cur user sp w = (Inr resp, w')"
    and fresh: "hold_key req \<notin> lv_used (view (w_ledger w))"
  shows "if ar_ResponseCode resp = RCApproved
    then \<exists>new. w_auths w' = w_auths w @ new
      \<and> funds_held ch (view (w_ledger w)) (view (w_ledger w')) c user (sp_Currency sp) (sp_HoldAmountCents sp) new
    else view (w_ledger w') = view (w_ledger w)"
proof -
  let ?hold = "HoldFunds L (hold_key req) (u_LedgerWalletID user) (TransitCardAuth (ka_chart s)) (sp_HoldAmountCents sp)
      (FormatAsset [sp_Currency sp])"
  obtain r l where h: "?hold (w_ledger w) = (r, l)" by fastforce
  then have led: "ledA ?hold w = (r, w\<lparr>w_ledger := l\<rparr>)" by (simp add: ledA_def)
  show ?thesis
  proof (cases r)
    case (Inl e)
    then have "decline_with E req (cd_ID c) \<lparr>dc_code = RCInsufficientFunds, dc_reason = ''insufficient funds or ledger error'',
        dc_currency = Some cur\<rparr> (w\<lparr>w_ledger := l\<rparr>) = (Inr resp, w')"
      using run led by (simp add: place_hold_def bindA_def tryA_def)
    from decline_run [OF this] show ?thesis
      using ledger_client.hold_err [OF lc] h Inl approved_code by auto
  next
    case (Inr i)
    then have "record_approval E req c cur sp i (w\<lparr>w_ledger := l\<rparr>) = (Inr resp, w')"
      using run led by (simp add: place_hold_def bindA_def tryA_def)
    note ap = record_approval_run [OF this assms(2)]
    have "view l = post (hold_key req) [P (MainAccount ch (u_LedgerWalletID user)) (HoldAccount ch i) (sp_HoldAmountCents sp)
        (FormatAsset [sp_Currency sp])] (view (w_ledger w))"
      "funded (lv_bal (view (w_ledger w))) (MainAccount ch (u_LedgerWalletID user)) (FormatAsset [sp_Currency sp]) (sp_HoldAmountCents sp)"
      using ledger_client.hold_ok [OF lc] h Inr fresh by auto
    moreover have "MainAccount ch (u_LedgerWalletID user) \<noteq> ''world''" using Main_World(1) by (simp add: World_def)
    ultimately show ?thesis using ap fresh by (auto simp: funds_held_def post_fresh funded_def)
  qed
qed

lemma stable_auths:
  assumes "stable w' = stable w"
  shows "w_auths w' = w_auths w"
  using arg_cong [OF assms, of w_auths] by (simp add: stable_def)

lemma spent_stable:
  assumes "stable w' = stable w"
  shows "spent_today w' c = spent_today w c" "spent_this_month w' c = spent_this_month w c"
  using stable_auths [OF assms] stable_fields(4) [OF assms] by (simp_all add: spent_today_def spent_this_month_def)

lemma resolve_spend_run:
  assumes "resolve_spend E L s cur n user w = (Inr (Inr sp), w')"
  obtains es where "run_waterfall E L s cur n user es w = (Inr (Some sp), w')"
  using assms by (auto simp: resolve_spend_def Let_def runs split: option.splits if_splits)

lemma waterfall_of_spend:
  assumes "\<And>es. leavesA t (run_waterfall E L s cur n user es)"
  shows "leavesA t (resolve_spend E L s cur n user)"
  unfolding resolve_spend_def Let_def declineA_def passA_def by (intro leaves assms)

lemma decide_card_outcome:
  assumes lc: "ledger_client L ch view holdOf nexth" and db: "\<And>n. e_db_ok E n" and rates: "card_rates_read s"
    and run: "decide_card E L s req c w = (Inr resp, w')" and fresh: "hold_key req \<notin> lv_used (view (w_ledger w))"
  shows "if ar_ResponseCode resp \<noteq> RCApproved then view (w_ledger w') = view (w_ledger w)
    else \<exists>user cur n new. cd_Status c = CardStatusActive
      \<and> channel_open req c \<and> aq_TransactionAmount req \<le> cd_PerTxnLimitCents c
      \<and> i64 (spent_today w c + aq_TransactionAmount req) \<le> cd_DailyLimitCents c
      \<and> i64 (spent_this_month w c + aq_TransactionAmount req) \<le> cd_MonthlyLimitCents c
      \<and> user \<in> set (w_users w) \<and> u_ID user = cd_UserID c \<and> \<not> u_IsFrozen user
      \<and> (ka_regulatory s \<noteq> None \<and> iso4217_Resolve (ka_iso4217 s) (aq_CurrencyCode req) \<noteq> CurrencyETB \<longrightarrow> cd_AllowInternational c)
      \<and> (cur = iso4217_Resolve (ka_iso4217 s) (aq_CurrencyCode req) \<longrightarrow> n = aq_TransactionAmount req)
      \<and> w_auths w' = w_auths w @ new
      \<and> funds_held ch (view (w_ledger w)) (view (w_ledger w')) c user cur n new"
proof -
  let ?cur = "iso4217_Resolve (ka_iso4217 s) (aq_CurrencyCode req)" and ?n = "aq_TransactionAmount req"
  let ?m = "bindD (card_checks E s req c) (\<lambda>user. bindD (resolve_spend E L s ?cur ?n user) (\<lambda>sp. passA (user, sp)))"
  note sp_view = waterfall_of_spend [OF ledger_client.seen_waterfall [OF lc rates]]
  obtain d w1 where m: "?m w = (Inr d, w1)"
    and k: "(case d of Inl x \<Rightarrow> decline_with E req (cd_ID c) x | Inr x \<Rightarrow> (case x of (user, sp) \<Rightarrow> place_hold E L s req c ?cur user sp)) w1 = (Inr resp, w')"
    using run by (auto simp: decide_card_def Let_def runs)
  have seen: "leavesA (\<lambda>w. view (w_ledger w)) ?m"
    unfolding bindD_def passA_def
    by (intro leaves sp_view ledger_client.seen_reader [OF lc] reader_card_checks [OF rates])
  have v1: "view (w_ledger w1) = view (w_ledger w)" using leavesD [OF seen m] .
  show ?thesis
  proof (cases d)
    case (Inl x)
    have "refuses ?m" by (intro refusals refuses_checks)
    then have "dc_code x \<noteq> RCApproved" using m Inl by (auto simp: refuses_def)
    then show ?thesis using decline_run [of E req "cd_ID c" x w1 resp w'] k Inl v1 by simp
  next
    case (Inr x)
    obtain user sp where x: "x = (user, sp)" by fastforce
    obtain w2 where ck: "card_checks E s req c w = (Inr (Inr user), w2)"
      and rs: "resolve_spend E L s ?cur ?n user w2 = (Inr (Inr sp), w1)"
      using m Inr x by (auto simp: runs)
    note checks = card_checks_run [OF ck db rates]
    have amount: "sp_Currency sp = ?cur \<longrightarrow> sp_HoldAmountCents sp = ?n"
      using resolve_spend_run [OF rs] run_waterfall_amount by metis
    have "w_auths w1 = w_auths w"
      using leavesD [OF waterfall_of_spend [OF auths_waterfall [OF rates]] rs] stable_auths [OF checks(9)] by simp
    moreover have "place_hold E L s req c ?cur user sp w1 = (Inr resp, w')" using k Inr x by simp
    moreover have "hold_key req \<notin> lv_used (view (w_ledger w1))" using fresh v1 by simp
    ultimately have out: "if ar_ResponseCode resp = RCApproved
      then \<exists>new. w_auths w' = w_auths w @ new \<and> funds_held ch (view (w_ledger w)) (view (w_ledger w')) c user (sp_Currency sp) (sp_HoldAmountCents sp) new
      else view (w_ledger w') = view (w_ledger w)"
      using place_hold_run [OF lc db, of s req c ?cur user sp w1 resp w'] unfolding v1 by (simp split: if_splits)
    show ?thesis
    proof (cases "ar_ResponseCode resp = RCApproved")
      case True
      then obtain new where "w_auths w' = w_auths w @ new"
        "funds_held ch (view (w_ledger w)) (view (w_ledger w')) c user (sp_Currency sp) (sp_HoldAmountCents sp) new"
        using out by auto
      then show ?thesis using True checks amount
        by (subst if_not_P, simp, intro exI [of _ user] exI [of _ "sp_Currency sp"] exI [of _ "sp_HoldAmountCents sp"] exI [of _ new]) simp
    qed (use out in simp)
  qed
qed


section \<open>Examples\<close>

text \<open>Alice buys something for five of her ten birr.\<close>

definition card0 :: Card where
  "card0 = \<lparr>cd_ID = ''c1'', cd_UserID = ''ua'', cd_TokenizedPAN = ''tok'', cd_LastFour = ''4242'', cd_ExpiryMonth = 1, cd_ExpiryYear = 2030, cd_Type = CardTypeVirtual,
     cd_Status = CardStatusActive, cd_AllowOnline = True, cd_AllowContactless = True, cd_AllowATM = False, cd_AllowInternational = False,
     cd_DailyLimitCents = 100000, cd_MonthlyLimitCents = 1000000, cd_PerTxnLimitCents = 50000\<rparr>"

definition purchase :: AuthorizationRequest where
  "purchase = \<lparr>aq_MTI = ''0100'', aq_PAN = ''tok'', aq_ProcessingCode = ''000000'', aq_TransactionAmount = 500,
     aq_TransmissionDateTime = '''', aq_STAN = ''1'', aq_LocalTime = '''', aq_LocalDate = '''', aq_ExpirationDate = '''',
     aq_MCC = ''5411'', aq_POSEntryMode = ''051'', aq_AcquiringInstitutionID = '''', aq_RRN = ''rrn1'', aq_TerminalID = '''',
     aq_MerchantID = '''', aq_MerchantNameLocation = ''shop'', aq_CurrencyCode = ''230''\<rparr>"

definition card_svc :: "engine fclient card_auth" where
  "card_svc = \<lparr>ka_chart = neo, ka_rates = static_GetRate 0 (\<lambda>_. None), ka_regulatory = None, ka_iso4217 = DefaultISO4217Map\<rparr>"

definition card_world :: "engine fclient world" where
  "card_world = (pay_world 1000)\<lparr>w_cards := [card0], w_balances := [\<lparr>cb_ID = ''bal'', cb_UserID = ''ua'', cb_CurrencyCode = ''ETB'',
     cb_IsPrimary = True, cb_FXSource = None, cb_CreatedAt = 0, cb_DeletedAt = None\<rparr>]\<rparr>"

lemma card_svc_reads: "card_rates_read card_svc"
proof -
  have "readerA (quote sp a b m n x)" for sp a b m n x by (simp add: readerA_def quote_def)
  then show ?thesis unfolding card_rates_read_def card_svc_def static_GetRate_def by (auto intro!: readers)
qed


end
