(* ===== verification/Business_Tables.thy ===== *)
theory Business_Tables
  imports Reads
begin

text \<open>
  The repositories of business banking (\<open>internal/repository\<close>): businesses, roles with their permissions,
  members and pending transfers. The conventions are those of \<open>Repositories\<close>; a constraint of the schema
  (unique key, foreign key, CHECK, enumeration) that a statement would violate makes it fail with a database
  error. \<open>ORDER BY\<close> on text is byte order. A role row in the table carries no permissions; they are rows of
  \<open>w_bperms\<close> and are loaded with the role.
\<close>

section \<open>Ordering\<close>

fun insert_by :: "('a \<Rightarrow> 'a \<Rightarrow> bool) \<Rightarrow> 'a \<Rightarrow> 'a list \<Rightarrow> 'a list" where
  "insert_by lt x [] = [x]"
| "insert_by lt x (y # ys) = (if lt y x then y # insert_by lt x ys else x # y # ys)"

definition order_by :: "('a \<Rightarrow> 'a \<Rightarrow> bool) \<Rightarrow> 'a list \<Rightarrow> 'a list" where
  "order_by lt xs = foldr (insert_by lt) xs []"

lemma set_insert_by [simp]: "set (insert_by lt x ys) = insert x (set ys)"
  by (induction ys) auto

lemma set_order_by [simp]: "set (order_by lt xs) = set xs"
  by (induction xs) (auto simp: order_by_def)

section \<open>Businesses\<close>

definition ValidIndustryCategories :: "string list" where
  "ValidIndustryCategories = [''retail'', ''wholesale'', ''manufacturing'', ''agriculture'', ''technology'', ''healthcare'',
     ''education'', ''construction'', ''transport'', ''hospitality'', ''financial_services'', ''import_export'',
     ''professional_services'', ''non_profit'', ''other'']"

definition business_row_ok :: "Business \<Rightarrow> bool" where
  "business_row_ok b \<longleftrightarrow> bz_IndustryCategory b \<in> set ValidIndustryCategories \<and> Number (bz_PhoneNumber b) \<noteq> ''''
     \<and> CountryCode (bz_PhoneNumber b) \<noteq> ''''"

definition business_Create :: "env \<Rightarrow> Business \<Rightarrow> ('l, unit) go" where
  "business_Create E b = dbA E (bindA (getsA w_businesses) (\<lambda>bs.
     if \<not> business_row_ok b \<or> list_ex (\<lambda>x. bz_ID x = bz_ID b \<or> bz_TINNumber x = bz_TINNumber b
          \<or> bz_TradeLicenseNumber x = bz_TradeLicenseNumber b \<or> bz_LedgerWalletID x = bz_LedgerWalletID b) bs
     then throwA db_error
     else modifyA (\<lambda>w. w\<lparr>w_businesses := bs @ [b\<lparr>bz_IsFrozen := False, bz_FrozenReason := None, bz_FrozenAt := None\<rparr>]\<rparr>)))"

definition business_GetByID :: "env \<Rightarrow> string \<Rightarrow> ('l, Business) go" where
  "business_GetByID E i = dbA E (bindA (getsA (\<lambda>w. select_one (\<lambda>b. bz_ID b = i) (w_businesses w)))
     (\<lambda>r. case r of None \<Rightarrow> throwA (Business ErrBusinessNotFound) | Some b \<Rightarrow> retA b))"

definition business_update :: "env \<Rightarrow> string \<Rightarrow> (int \<Rightarrow> Business \<Rightarrow> Business) \<Rightarrow> ('l, unit) go" where
  "business_update E i f = dbA E (bindA nowA (\<lambda>now. bindA (getsA w_businesses) (\<lambda>bs.
     let bs' = update_where (\<lambda>b. bz_ID b = i) (f now) bs in
     if rows_affected (\<lambda>b. bz_ID b = i) bs = 0 then throwA (Business ErrBusinessNotFound)
     else if list_all (\<lambda>b. bz_ID b = i \<longrightarrow> business_row_ok b) bs' then modifyA (\<lambda>w. w\<lparr>w_businesses := bs'\<rparr>)
     else throwA db_error)))"

definition business_Update :: "env \<Rightarrow> Business \<Rightarrow> ('l, unit) go" where
  "business_Update E b = business_update E (bz_ID b) (\<lambda>now x. x\<lparr>bz_Name := bz_Name b, bz_TradeName := bz_TradeName b,
     bz_IndustryCategory := bz_IndustryCategory b, bz_IndustrySubCategory := bz_IndustrySubCategory b, bz_Address := bz_Address b,
     bz_City := bz_City b, bz_SubCity := bz_SubCity b, bz_Woreda := bz_Woreda b, bz_PhoneNumber := bz_PhoneNumber b,
     bz_Email := bz_Email b, bz_Website := bz_Website b\<rparr>)"

definition business_UpdateStatus :: "env \<Rightarrow> string \<Rightarrow> BusinessStatus \<Rightarrow> ('l, unit) go" where
  "business_UpdateStatus E i status = business_update E i (\<lambda>now x. x\<lparr>bz_Status := status\<rparr>)"

definition business_Freeze :: "env \<Rightarrow> string \<Rightarrow> string \<Rightarrow> ('l, unit) go" where
  "business_Freeze E i reason = business_update E i
     (\<lambda>now x. x\<lparr>bz_IsFrozen := True, bz_FrozenReason := Some reason, bz_FrozenAt := Some now\<rparr>)"

definition business_Unfreeze :: "env \<Rightarrow> string \<Rightarrow> ('l, unit) go" where
  "business_Unfreeze E i = business_update E i (\<lambda>now x. x\<lparr>bz_IsFrozen := False, bz_FrozenReason := None, bz_FrozenAt := None\<rparr>)"

text \<open>The newest first; rows are appended as they are created.\<close>

definition business_ListByOwner :: "env \<Rightarrow> string \<Rightarrow> ('l, Business list) go" where
  "business_ListByOwner E uid = dbA E (getsA (\<lambda>w. rev (filter (\<lambda>b. bz_OwnerUserID b = uid) (w_businesses w))))"

definition business_ListByMember :: "env \<Rightarrow> string \<Rightarrow> ('l, Business list) go" where
  "business_ListByMember E uid = dbA E (getsA (\<lambda>w. rev (filter (\<lambda>b.
     list_ex (\<lambda>m. bm_BusinessID m = bz_ID b \<and> bm_UserID m = uid \<and> bm_IsActive m) (w_members w)) (w_businesses w))))"

section \<open>Roles\<close>

definition role_GetPermissions :: "env \<Rightarrow> string \<Rightarrow> ('l, string list) go" where
  "role_GetPermissions E i = dbA E (getsA (\<lambda>w. order_by string_less (map snd (filter (\<lambda>p. fst p = i) (w_bperms w)))))"

definition scanRole :: "env \<Rightarrow> (BusinessRole \<Rightarrow> bool) \<Rightarrow> ('l, BusinessRole) go" where
  "scanRole E p = dbA E (bindA (getsA (\<lambda>w. select_one p (w_broles w)))
     (\<lambda>r. case r of None \<Rightarrow> throwA (Business ErrRoleNotFound) | Some x \<Rightarrow> retA x))"

definition with_permissions :: "env \<Rightarrow> BusinessRole \<Rightarrow> ('l, BusinessRole) go" where
  "with_permissions E role = bindA (role_GetPermissions E (ro_ID role)) (\<lambda>perms. retA (role\<lparr>ro_Permissions := perms\<rparr>))"

definition role_GetByID :: "env \<Rightarrow> string \<Rightarrow> ('l, BusinessRole) go" where
  "role_GetByID E i = bindA (scanRole E (\<lambda>r. ro_ID r = i)) (with_permissions E)"

definition role_GetSystemRoleByName :: "env \<Rightarrow> string \<Rightarrow> ('l, BusinessRole) go" where
  "role_GetSystemRoleByName E n = bindA (scanRole E (\<lambda>r. ro_Name r = n \<and> ro_IsSystem r \<and> ro_BusinessID r = None)) (with_permissions E)"

definition role_less :: "BusinessRole \<Rightarrow> BusinessRole \<Rightarrow> bool" where
  "role_less a b \<longleftrightarrow> ro_IsSystem a \<and> \<not> ro_IsSystem b \<or> ro_IsSystem a = ro_IsSystem b \<and> string_less (ro_Name a) (ro_Name b)"

definition role_ListByBusiness :: "env \<Rightarrow> string \<Rightarrow> ('l, BusinessRole list) go" where
  "role_ListByBusiness E bid =
     bindA (dbA E (getsA (\<lambda>w. order_by role_less (filter (\<lambda>r. ro_BusinessID r = Some bid \<or> ro_BusinessID r = None) (w_broles w))))) (\<lambda>roles.
     mapA (with_permissions E) roles)"

text \<open>\<open>UNIQUE (business_id, name)\<close>; NULLs differ.\<close>

definition role_name_taken :: "BusinessRole \<Rightarrow> BusinessRole list \<Rightarrow> bool" where
  "role_name_taken role rs \<longleftrightarrow> ro_BusinessID role \<noteq> None
     \<and> list_ex (\<lambda>r. ro_ID r \<noteq> ro_ID role \<and> ro_BusinessID r = ro_BusinessID role \<and> ro_Name r = ro_Name role) rs"

definition role_Create :: "env \<Rightarrow> BusinessRole \<Rightarrow> ('l, BusinessRole) go" where
  "role_Create E role = dbA E (bindA (newID E) (\<lambda>i. bindA (getsA (\<lambda>w. (w_broles w, w_businesses w))) (\<lambda>(rs, bs).
     let row = role\<lparr>ro_ID := i, ro_Permissions := []\<rparr> in
     if role_name_taken row rs \<or> (case ro_BusinessID role of None \<Rightarrow> False | Some b \<Rightarrow> \<not> list_ex (\<lambda>x. bz_ID x = b) bs)
     then throwA db_error
     else bindA (modifyA (\<lambda>w. w\<lparr>w_broles := rs @ [row]\<rparr>)) (\<lambda>_. retA (role\<lparr>ro_ID := i\<rparr>)))))"

definition role_open :: "string \<Rightarrow> BusinessRole \<Rightarrow> bool" where
  "role_open i r \<longleftrightarrow> ro_ID r = i \<and> \<not> ro_IsSystem r"

definition role_Update :: "env \<Rightarrow> BusinessRole \<Rightarrow> ('l, unit) go" where
  "role_Update E role = dbA E (bindA (getsA w_broles) (\<lambda>rs.
     if rows_affected (role_open (ro_ID role)) rs = 0 then throwA (Business ErrSystemRoleImmutable)
     else if role_name_taken role rs then throwA db_error
     else modifyA (\<lambda>w. w\<lparr>w_broles := update_where (role_open (ro_ID role)) (\<lambda>r. r\<lparr>ro_Name := ro_Name role,
       ro_Description := ro_Description role, ro_MaxTransferCents := ro_MaxTransferCents role,
       ro_DailyTransferLimitCents := ro_DailyTransferLimitCents role,
       ro_RequiresApprovalAboveCents := ro_RequiresApprovalAboveCents role\<rparr>) rs\<rparr>)))"

text \<open>A role that any member, active or not, refers to cannot be deleted; its permissions go with it.\<close>

definition role_Delete :: "env \<Rightarrow> string \<Rightarrow> ('l, unit) go" where
  "role_Delete E i = dbA E (bindA (getsA (\<lambda>w. (w_broles w, w_members w))) (\<lambda>(rs, ms).
     if rows_affected (role_open i) rs = 0 then throwA (Business ErrSystemRoleImmutable)
     else if list_ex (\<lambda>m. bm_RoleID m = i) ms then throwA db_error
     else modifyA (\<lambda>w. w\<lparr>w_broles := filter (\<lambda>r. \<not> role_open i r) rs, w_bperms := filter (\<lambda>p. fst p \<noteq> i) (w_bperms w)\<rparr>)))"

definition perm_Insert :: "env \<Rightarrow> string \<Rightarrow> string \<Rightarrow> ('l, unit) go" where
  "perm_Insert E i p = dbA E (bindA (getsA w_bperms) (\<lambda>ps.
     if (i, p) \<in> set ps then throwA db_error else modifyA (\<lambda>w. w\<lparr>w_bperms := ps @ [(i, p)]\<rparr>)))"

definition role_SetPermissions :: "env \<Rightarrow> string \<Rightarrow> string list \<Rightarrow> ('l, unit) go" where
  "role_SetPermissions E i perms =
     bindA (dbA E (modifyA (\<lambda>w. w\<lparr>w_bperms := filter (\<lambda>p. fst p \<noteq> i) (w_bperms w)\<rparr>))) (\<lambda>_.
     bindA (mapA (perm_Insert E i) perms) (\<lambda>_. retA ()))"

definition role_CountMembersByRole :: "env \<Rightarrow> string \<Rightarrow> ('l, int) go" where
  "role_CountMembersByRole E i = dbA E (getsA (\<lambda>w. int (rows_affected (\<lambda>m. bm_RoleID m = i \<and> bm_IsActive m) (w_members w))))"

section \<open>Members\<close>

text \<open>The primary key, \<open>uq_business_member\<close>, which counts removed members too, and the foreign keys.\<close>

definition member_Create :: "env \<Rightarrow> BusinessMember \<Rightarrow> ('l, BusinessMember) go" where
  "member_Create E m = dbA E (bindA (newID E) (\<lambda>i. bindA nowA (\<lambda>now. bindA (getsA (\<lambda>w. w)) (\<lambda>w.
     let row = m\<lparr>bm_ID := i, bm_JoinedAt := now, bm_IsActive := True, bm_RemovedAt := None, bm_RemovedBy := None\<rparr> in
     if list_ex (\<lambda>x. bm_ID x = i \<or> bm_BusinessID x = bm_BusinessID m \<and> bm_UserID x = bm_UserID m) (w_members w)
        \<or> \<not> list_ex (\<lambda>r. ro_ID r = bm_RoleID m) (w_broles w) \<or> \<not> list_ex (\<lambda>b. bz_ID b = bm_BusinessID m) (w_businesses w)
        \<or> \<not> list_ex (\<lambda>u. u_ID u = bm_UserID m) (w_users w) \<or> \<not> list_ex (\<lambda>u. u_ID u = bm_InvitedBy m) (w_users w)
     then throwA db_error
     else bindA (modifyA (\<lambda>w. w\<lparr>w_members := w_members w @ [row]\<rparr>)) (\<lambda>_. retA (m\<lparr>bm_ID := i, bm_JoinedAt := now\<rparr>))))))"

definition member_query :: "env \<Rightarrow> (BusinessMember \<Rightarrow> bool) \<Rightarrow> ('l, BusinessMember) go" where
  "member_query E p = dbA E (bindA (getsA (\<lambda>w. select_one p (w_members w)))
     (\<lambda>r. case r of None \<Rightarrow> throwA (Business ErrMemberNotFound) | Some m \<Rightarrow> retA m))"

definition member_GetByID :: "env \<Rightarrow> string \<Rightarrow> ('l, BusinessMember) go" where
  "member_GetByID E i = member_query E (\<lambda>m. bm_ID m = i)"

definition member_active :: "string \<Rightarrow> string \<Rightarrow> BusinessMember \<Rightarrow> bool" where
  "member_active bid uid m \<longleftrightarrow> bm_BusinessID m = bid \<and> bm_UserID m = uid \<and> bm_IsActive m"

definition member_GetByBusinessAndUser :: "env \<Rightarrow> string \<Rightarrow> string \<Rightarrow> ('l, BusinessMember) go" where
  "member_GetByBusinessAndUser E bid uid = member_query E (member_active bid uid)"

definition member_UpdateRole :: "env \<Rightarrow> string \<Rightarrow> string \<Rightarrow> ('l, unit) go" where
  "member_UpdateRole E i roleID = dbA E (bindA (getsA (\<lambda>w. (w_members w, w_broles w))) (\<lambda>(ms, rs).
     let p = (\<lambda>m. bm_ID m = i \<and> bm_IsActive m) in
     if rows_affected p ms = 0 then throwA (Business ErrMemberNotFound)
     else if \<not> list_ex (\<lambda>r. ro_ID r = roleID) rs then throwA db_error
     else modifyA (\<lambda>w. w\<lparr>w_members := update_where p (\<lambda>m. m\<lparr>bm_RoleID := roleID\<rparr>) ms\<rparr>)))"

definition member_Remove :: "env \<Rightarrow> string \<Rightarrow> string \<Rightarrow> ('l, unit) go" where
  "member_Remove E i removedBy = dbA E (bindA nowA (\<lambda>now. bindA (getsA w_members) (\<lambda>ms.
     let p = (\<lambda>m. bm_ID m = i \<and> bm_IsActive m) in
     if rows_affected p ms = 0 then throwA (Business ErrMemberNotFound)
     else modifyA (\<lambda>w. w\<lparr>w_members := update_where p
       (\<lambda>m. m\<lparr>bm_IsActive := False, bm_RemovedAt := Some now, bm_RemovedBy := Some removedBy\<rparr>) ms\<rparr>))))"

definition member_ListByBusiness :: "env \<Rightarrow> string \<Rightarrow> ('l, BusinessMember list) go" where
  "member_ListByBusiness E bid = dbA E (getsA (\<lambda>w. sort_key bm_JoinedAt (filter (\<lambda>m. bm_BusinessID m = bid \<and> bm_IsActive m) (w_members w))))"

definition member_ListByUser :: "env \<Rightarrow> string \<Rightarrow> ('l, BusinessMember list) go" where
  "member_ListByUser E uid = dbA E (getsA (\<lambda>w. sort_key bm_JoinedAt (filter (\<lambda>m. bm_UserID m = uid \<and> bm_IsActive m) (w_members w))))"

text \<open>What a member has initiated today for a business, approved or waiting.\<close>

definition initiated_today :: "int \<Rightarrow> string \<Rightarrow> string \<Rightarrow> PendingTransfer \<Rightarrow> bool" where
  "initiated_today now uid bid t \<longleftrightarrow> pd_InitiatedBy t = uid \<and> pd_BusinessID t = bid
     \<and> pd_Status t \<in> {PendingTransferApproved, PendingTransferPending} \<and> day_of now \<le> day_of (pd_CreatedAt t)"

definition member_SumTransfersToday :: "env \<Rightarrow> string \<Rightarrow> string \<Rightarrow> ('l, int) go" where
  "member_SumTransfersToday E uid bid = dbA E (getsA (\<lambda>w.
     sum_list (map pd_AmountCents (filter (initiated_today (w_now w) uid bid) (w_pending w)))))"

section \<open>Pending transfers\<close>

definition pending_Create :: "env \<Rightarrow> PendingTransfer \<Rightarrow> ('l, PendingTransfer) go" where
  "pending_Create E t = dbA E (bindA (newID E) (\<lambda>i. bindA nowA (\<lambda>now.
     let row = t\<lparr>pd_ID := i, pd_Status := PendingTransferPending, pd_Reason := None, pd_ApprovedBy := None, pd_ApprovedAt := None,
       pd_RejectedBy := None, pd_RejectedAt := None, pd_CreatedAt := now\<rparr> in
     if pd_AmountCents t \<le> 0 then throwA db_error
     else bindA (modifyA (\<lambda>w. w\<lparr>w_pending := w_pending w @ [row]\<rparr>)) (\<lambda>_.
       retA (t\<lparr>pd_ID := i, pd_Status := PendingTransferPending, pd_CreatedAt := now\<rparr>)))))"

definition pending_GetByID :: "env \<Rightarrow> string \<Rightarrow> ('l, PendingTransfer) go" where
  "pending_GetByID E i = dbA E (bindA (getsA (\<lambda>w. select_one (\<lambda>t. pd_ID t = i) (w_pending w)))
     (\<lambda>r. case r of None \<Rightarrow> throwA (Business ErrPendingTransferNotFound) | Some t \<Rightarrow> retA t))"

definition transfer_waiting :: "string \<Rightarrow> PendingTransfer \<Rightarrow> bool" where
  "transfer_waiting i t \<longleftrightarrow> pd_ID t = i \<and> pd_Status t = PendingTransferPending"

definition pending_update :: "env \<Rightarrow> string \<Rightarrow> (int \<Rightarrow> PendingTransfer \<Rightarrow> PendingTransfer) \<Rightarrow> ('l, unit) go" where
  "pending_update E i f = dbA E (bindA nowA (\<lambda>now. bindA (getsA w_pending) (\<lambda>ts.
     if rows_affected (transfer_waiting i) ts = 0 then throwA (Business ErrPendingTransferNotFound)
     else modifyA (\<lambda>w. w\<lparr>w_pending := update_where (transfer_waiting i) (f now) ts\<rparr>))))"

definition pending_Approve :: "env \<Rightarrow> string \<Rightarrow> string \<Rightarrow> ('l, unit) go" where
  "pending_Approve E i approverID = pending_update E i
     (\<lambda>now t. t\<lparr>pd_Status := PendingTransferApproved, pd_ApprovedBy := Some approverID, pd_ApprovedAt := Some now\<rparr>)"

definition pending_Reject :: "env \<Rightarrow> string \<Rightarrow> string \<Rightarrow> string \<Rightarrow> ('l, unit) go" where
  "pending_Reject E i rejectorID reason = pending_update E i
     (\<lambda>now t. t\<lparr>pd_Status := PendingTransferRejected, pd_RejectedBy := Some rejectorID, pd_RejectedAt := Some now,
        pd_Reason := Some reason\<rparr>)"

definition pending_ListByBusiness :: "env \<Rightarrow> string \<Rightarrow> int \<Rightarrow> int \<Rightarrow> ('l, PendingTransfer list) go" where
  "pending_ListByBusiness E bid limit offset = dbA E (if limit < 0 \<or> offset < 0 then throwA db_error else getsA (\<lambda>w.
     take (nat limit) (drop (nat offset) (sort_key (\<lambda>t. - pd_CreatedAt t)
       (filter (\<lambda>t. pd_BusinessID t = bid \<and> pd_Status t = PendingTransferPending) (w_pending w))))))"

definition pending_CountByBusiness :: "env \<Rightarrow> string \<Rightarrow> ('l, int) go" where
  "pending_CountByBusiness E bid = dbA E (getsA (\<lambda>w. int (rows_affected
     (\<lambda>t. pd_BusinessID t = bid \<and> pd_Status t = PendingTransferPending) (w_pending w))))"

definition pending_ExpireOlderThan :: "env \<Rightarrow> ('l, int) go" where
  "pending_ExpireOlderThan E = dbA E (bindA nowA (\<lambda>now. bindA (getsA w_pending) (\<lambda>ts.
     let p = (\<lambda>t. pd_Status t = PendingTransferPending \<and> pd_ExpiresAt t < now) in
     bindA (modifyA (\<lambda>w. w\<lparr>w_pending := update_where p (\<lambda>t. t\<lparr>pd_Status := PendingTransferExpired\<rparr>) ts\<rparr>)) (\<lambda>_.
     retA (int (rows_affected p ts))))))"

text \<open>Evaluation unfolds an action only when it runs.\<close>

lemmas business_tables_code [code] =
  business_GetByID_def [THEN fun_cong]
  business_update_def [THEN fun_cong]
  business_Update_def [THEN fun_cong]
  business_UpdateStatus_def [THEN fun_cong]
  business_Freeze_def [THEN fun_cong]
  business_Unfreeze_def [THEN fun_cong]
  business_ListByOwner_def [THEN fun_cong]
  business_ListByMember_def [THEN fun_cong]
  role_GetPermissions_def [THEN fun_cong]
  scanRole_def [THEN fun_cong]
  with_permissions_def [THEN fun_cong]
  role_GetByID_def [THEN fun_cong]
  role_GetSystemRoleByName_def [THEN fun_cong]
  role_ListByBusiness_def [THEN fun_cong]
  role_Create_def [THEN fun_cong]
  role_Update_def [THEN fun_cong]
  role_Delete_def [THEN fun_cong]
  perm_Insert_def [THEN fun_cong]
  role_SetPermissions_def [THEN fun_cong]
  role_CountMembersByRole_def [THEN fun_cong]
  member_Create_def [THEN fun_cong]
  member_query_def [THEN fun_cong]
  member_GetByID_def [THEN fun_cong]
  member_GetByBusinessAndUser_def [THEN fun_cong]
  member_UpdateRole_def [THEN fun_cong]
  member_Remove_def [THEN fun_cong]
  member_ListByBusiness_def [THEN fun_cong]
  member_ListByUser_def [THEN fun_cong]
  member_SumTransfersToday_def [THEN fun_cong]
  pending_Create_def [THEN fun_cong]
  pending_GetByID_def [THEN fun_cong]
  pending_update_def [THEN fun_cong]
  pending_Approve_def [THEN fun_cong]
  pending_Reject_def [THEN fun_cong]
  pending_ListByBusiness_def [THEN fun_cong]
  pending_CountByBusiness_def [THEN fun_cong]
  pending_ExpireOlderThan_def [THEN fun_cong]

end
