(* ===== verification/Business.thy ===== *)
theory Business
  imports Business_Tables Frames
begin

text \<open>
  Business banking: the permission service (\<open>internal/services/permissions\<close>) with its cache of roles, the
  business service (\<open>internal/services/business\<close>) for businesses, members and roles, the middleware
  \<open>BusinessContext\<close> and \<open>RequireBusinessPermission\<close>, the handlers for pending transfers, and the guarded routes
  that combine them. A response that is written without an error value of the domain is an \<open>Opaque\<close> error. The
  JSON round trip of a cached role is the identity.
\<close>

section \<open>Permissions\<close>

definition BPermTransferInternal :: string where "BPermTransferInternal = ''biz:transfers:initiate:internal''"
definition BPermTransferExternal :: string where "BPermTransferExternal = ''biz:transfers:initiate:external''"
definition BPermApproveTransfer :: string where "BPermApproveTransfer = ''biz:transfers:approve''"
definition BPermManageMembers :: string where "BPermManageMembers = ''biz:members:manage''"
definition BPermManageRoles :: string where "BPermManageRoles = ''biz:roles:manage''"
definition BPermManageSettings :: string where "BPermManageSettings = ''biz:settings:manage''"

definition AllBusinessPermissions :: "string list" where
  "AllBusinessPermissions = [''biz:dashboard:view'', ''biz:balances:view'', ''biz:transactions:view'', ''biz:documents:view'',
     ''biz:loans:view'', BPermTransferInternal, BPermTransferExternal, BPermApproveTransfer, ''biz:convert:initiate'',
     ''biz:batch:create'', ''biz:batch:approve'', ''biz:batch:execute'', ''biz:transactions:export'', ''biz:transactions:label'',
     ''biz:invoices:manage'', ''biz:invoices:view'', ''biz:pots:manage'', ''biz:tax_pots:manage'', ''biz:tax_pots:withdraw'',
     ''biz:documents:manage'', BPermManageMembers, BPermManageRoles, BPermManageSettings, ''biz:loans:apply'']"

definition ValidBusinessPermission :: "string \<Rightarrow> bool" where
  "ValidBusinessPermission p \<longleftrightarrow> p \<in> set AllBusinessPermissions"

definition SystemRoleOwnerID :: string where
  "SystemRoleOwnerID = ''00000000-0000-0000-0000-000000000001''"

definition roles_prefix :: "string \<Rightarrow> string" where
  "roles_prefix businessID = ''neo:roles:'' @ businessID @ '':''"

text \<open>The constructor's default for the time to live is five minutes.\<close>

definition permissions_ttl :: "int \<Rightarrow> int" where
  "permissions_ttl cacheTTL = (if cacheTTL = 0 then 300 * second else cacheTTL)"

definition getMemberRole :: "env \<Rightarrow> int \<Rightarrow> string \<Rightarrow> string \<Rightarrow> ('l, BusinessRole) go" where
  "getMemberRole E ttl memberUserID businessID =
     bindA (member_GetByBusinessAndUser E businessID memberUserID) (\<lambda>member.
     if \<not> bm_IsActive member then throwA (Business ErrMemberNotActive) else
     let cacheKey = roles_prefix businessID @ bm_RoleID member in
     bindA (cacheGet cacheKey) (\<lambda>hit.
     case hit of
       Some (CRole role) \<Rightarrow> retA role
     | _ \<Rightarrow>
       bindA (role_GetByID E (bm_RoleID member)) (\<lambda>role.
       bindA (cacheSet cacheKey (CRole role) ttl) (\<lambda>_.
       retA role))))"

definition HasPermission :: "env \<Rightarrow> int \<Rightarrow> string \<Rightarrow> string \<Rightarrow> string \<Rightarrow> ('l, bool) go" where
  "HasPermission E ttl memberUserID businessID perm =
     bindA (getMemberRole E ttl memberUserID businessID) (\<lambda>role. retA (role_HasPermission role perm))"

definition needed_permission :: "string \<Rightarrow> string" where
  "needed_permission transferType = (if transferType = ''internal'' then BPermTransferInternal
     else if transferType = ''external'' then BPermTransferExternal else BPermTransferInternal)"

definition member_CheckTransferAllowed :: "env \<Rightarrow> int \<Rightarrow> string \<Rightarrow> string \<Rightarrow> int \<Rightarrow> string \<Rightarrow> ('l, unit) go" where
  "member_CheckTransferAllowed E ttl memberUserID businessID amountCents transferType =
     bindA (getMemberRole E ttl memberUserID businessID) (\<lambda>role.
     if \<not> role_HasPermission role (needed_permission transferType) then throwA (Identity ErrForbidden)
     else if (case ro_MaxTransferCents role of None \<Rightarrow> False | Some m \<Rightarrow> amountCents > m) then throwA (Business ErrTransferExceedsLimit)
     else
     bindA (case ro_DailyTransferLimitCents role of
         None \<Rightarrow> retA ()
       | Some limit \<Rightarrow> bindA (member_SumTransfersToday E memberUserID businessID) (\<lambda>todayTotal.
           if i64 (todayTotal + amountCents) > limit then throwA (Business ErrDailyLimitExceeded) else retA ())) (\<lambda>_.
     if (case ro_RequiresApprovalAboveCents role of None \<Rightarrow> False | Some m \<Rightarrow> amountCents > m)
     then throwA (Business ErrApprovalRequired) else retA ()))"

definition GetMemberPermissions :: "env \<Rightarrow> int \<Rightarrow> string \<Rightarrow> string \<Rightarrow> ('l, string list) go" where
  "GetMemberPermissions E ttl memberUserID businessID =
     bindA (getMemberRole E ttl memberUserID businessID) (\<lambda>role. retA (ro_Permissions role))"

definition roles_InvalidateCache :: "string \<Rightarrow> ('l, unit) go" where
  "roles_InvalidateCache businessID = cacheDeleteByPrefix (roles_prefix businessID)"

section \<open>Forms\<close>

record RegisterRequest =
  rg_Name :: string
  rg_TradeName :: string
  rg_TINNumber :: string
  rg_TradeLicenseNumber :: string
  rg_IndustryCategory :: string
  rg_IndustrySubCategory :: string
  rg_PhoneNumber :: PhoneNumber
  rg_Email :: string
  rg_City :: string
  rg_SubCity :: string

definition register_Validate :: "env \<Rightarrow> RegisterRequest \<Rightarrow> go_error + unit" where
  "register_Validate E r =
     (case Struct E [(FStr (rg_Name r), [''required'', ''min=2'', ''max=200'']), (FStr (rg_TINNumber r), [''required'', ''min=8'', ''max=20'']),
        (FStr (rg_TradeLicenseNumber r), [''required'', ''min=5'', ''max=30'']), (FStr (rg_IndustryCategory r), [''required'']),
        (FPhone (rg_PhoneNumber r), [''required''])] of
        Inl e \<Rightarrow> Inl e
      | Inr _ \<Rightarrow> EnumValue (rg_IndustryCategory r) ''industryCategory'' ValidIndustryCategories)"

record UpdateBusinessRequest =
  ub_Name :: string
  ub_TradeName :: string
  ub_IndustryCategory :: string
  ub_IndustrySubCategory :: string
  ub_Address :: string
  ub_City :: string
  ub_SubCity :: string
  ub_Woreda :: string
  ub_PhoneNumber :: PhoneNumber
  ub_Email :: string
  ub_Website :: string

record InviteMemberRequest =
  im_PhoneNumber :: PhoneNumber
  im_RoleID :: string
  im_Title :: "string option"

definition invite_Validate :: "env \<Rightarrow> InviteMemberRequest \<Rightarrow> go_error + unit" where
  "invite_Validate E r = Struct E [(FPhone (im_PhoneNumber r), [''required'']), (FStr (im_RoleID r), [''required''])]"

record RoleRequest =
  rq_Name :: string
  rq_Description :: string
  rq_MaxTransferCents :: "int option"
  rq_DailyTransferLimitCents :: "int option"
  rq_RequiresApprovalAboveCents :: "int option"
  rq_Permissions :: "string list"

definition check_permissions :: "string list \<Rightarrow> go_error + unit" where
  "check_permissions ps = (if list_all ValidBusinessPermission ps then Inr () else Inl (General ErrInvalidInput))"

definition createRole_Validate :: "env \<Rightarrow> RoleRequest \<Rightarrow> go_error + unit" where
  "createRole_Validate E r =
     (case Struct E [(FStr (rq_Name r), [''required'', ''min=2'', ''max=50'']), (FLen (length (rq_Permissions r)), [''required'', ''min=1''])] of
        Inl e \<Rightarrow> Inl e
      | Inr _ \<Rightarrow> check_permissions (rq_Permissions r))"

definition updateRole_Validate :: "RoleRequest \<Rightarrow> go_error + unit" where
  "updateRole_Validate r = check_permissions (rq_Permissions r)"

section \<open>The business service\<close>

definition biz_audit :: "string \<Rightarrow> string option \<Rightarrow> string \<Rightarrow> (string \<times> json) list \<Rightarrow> AuditEntry" where
  "biz_audit action actor bizID meta = (audit_entry action ''user'' actor ''business'' bizID)\<lparr>au_Metadata := (''business_id'', JS bizID) # meta\<rparr>"

definition new_member :: "string \<Rightarrow> string \<Rightarrow> string \<Rightarrow> string option \<Rightarrow> string \<Rightarrow> BusinessMember" where
  "new_member bizID userID roleID title invitedBy = \<lparr>bm_ID = '''', bm_BusinessID = bizID, bm_UserID = userID, bm_RoleID = roleID,
     bm_Title = title, bm_InvitedBy = invitedBy, bm_JoinedAt = 0, bm_IsActive = True, bm_RemovedAt = None, bm_RemovedBy = None\<rparr>"

definition new_business :: "string \<Rightarrow> string \<Rightarrow> string \<Rightarrow> RegisterRequest \<Rightarrow> Business" where
  "new_business bizID walletID ownerUserID req =
     \<lparr>bz_ID = bizID, bz_OwnerUserID = ownerUserID, bz_Name = rg_Name req, bz_TradeName = non_empty (rg_TradeName req),
      bz_TINNumber = rg_TINNumber req, bz_TradeLicenseNumber = rg_TradeLicenseNumber req,
      bz_IndustryCategory = rg_IndustryCategory req, bz_IndustrySubCategory = non_empty (rg_IndustrySubCategory req),
      bz_Address = None, bz_City = non_empty (rg_City req), bz_SubCity = non_empty (rg_SubCity req), bz_Woreda = None,
      bz_PhoneNumber = rg_PhoneNumber req, bz_Email = non_empty (rg_Email req), bz_Website = None,
      bz_Status = BusinessStatusPendingVerification, bz_LedgerWalletID = ''biz-wallet:'' @ walletID, bz_KYBLevel = 0,
      bz_IsFrozen = False, bz_FrozenReason = None, bz_FrozenAt = None\<rparr>"

definition RegisterBusiness :: "env \<Rightarrow> 'l Client \<Rightarrow> string \<Rightarrow> RegisterRequest \<Rightarrow> ('l, Business) go" where
  "RegisterBusiness E L ownerUserID req =
     bindA (liftE (register_Validate E req)) (\<lambda>_.
     bindA (user_GetByID E ownerUserID) (\<lambda>_.
     bindA (newID E) (\<lambda>walletID.
     bindA (newID E) (\<lambda>bizID.
     let biz = new_business bizID walletID ownerUserID req in
     bindA (ledA (CreateWallet L walletID (rg_Name req))) (\<lambda>_.
     bindA (business_Create E biz) (\<lambda>_.
     bindA (role_GetSystemRoleByName E ''owner'') (\<lambda>ownerRole.
     bindA (member_Create E (new_member bizID ownerUserID (ro_ID ownerRole) None ownerUserID)) (\<lambda>_.
     bindA (ignoreA (audit_Log E (biz_audit ''business_registered'' (Some ownerUserID) bizID []))) (\<lambda>_.
     retA biz)))))))))"

definition GetBusiness :: "env \<Rightarrow> string \<Rightarrow> ('l, Business) go" where
  "GetBusiness E i = business_GetByID E i"

definition set_opt :: "string \<Rightarrow> string option \<Rightarrow> string option" where
  "set_opt s old = (if s \<noteq> '''' then Some s else old)"

definition apply_update :: "UpdateBusinessRequest \<Rightarrow> Business \<Rightarrow> Business" where
  "apply_update req b = b\<lparr>bz_Name := (if ub_Name req \<noteq> '''' then ub_Name req else bz_Name b),
     bz_TradeName := set_opt (ub_TradeName req) (bz_TradeName b),
     bz_IndustryCategory := (if ub_IndustryCategory req \<noteq> '''' then ub_IndustryCategory req else bz_IndustryCategory b),
     bz_IndustrySubCategory := set_opt (ub_IndustrySubCategory req) (bz_IndustrySubCategory b),
     bz_Address := set_opt (ub_Address req) (bz_Address b), bz_City := set_opt (ub_City req) (bz_City b),
     bz_SubCity := set_opt (ub_SubCity req) (bz_SubCity b), bz_Woreda := set_opt (ub_Woreda req) (bz_Woreda b),
     bz_PhoneNumber := (if ub_PhoneNumber req \<noteq> zero_phone then ub_PhoneNumber req else bz_PhoneNumber b),
     bz_Email := set_opt (ub_Email req) (bz_Email b), bz_Website := set_opt (ub_Website req) (bz_Website b)\<rparr>"

definition UpdateBusiness :: "env \<Rightarrow> string \<Rightarrow> UpdateBusinessRequest \<Rightarrow> ('l, Business) go" where
  "UpdateBusiness E bizID req =
     bindA (business_GetByID E bizID) (\<lambda>biz.
     let biz' = apply_update req biz in
     bindA (business_Update E biz') (\<lambda>_.
     bindA (ignoreA (audit_Log E (biz_audit ''business_updated'' None bizID []))) (\<lambda>_.
     retA biz')))"

definition ListMyBusinesses :: "env \<Rightarrow> string \<Rightarrow> ('l, Business list) go" where
  "ListMyBusinesses E userID = business_ListByMember E userID"

definition InviteMember :: "env \<Rightarrow> string \<Rightarrow> string \<Rightarrow> InviteMemberRequest \<Rightarrow> ('l, BusinessMember) go" where
  "InviteMember E bizID inviterUserID req =
     bindA (liftE (invite_Validate E req)) (\<lambda>_.
     bindA (user_GetByPhone E (im_PhoneNumber req)) (\<lambda>user.
     bindA (role_GetByID E (im_RoleID req)) (\<lambda>_.
     bindA (tryA (member_GetByBusinessAndUser E bizID (u_ID user))) (\<lambda>existing.
     if (case existing of Inl e \<Rightarrow> False | Inr m \<Rightarrow> bm_IsActive m) then throwA (Business ErrAlreadyMember) else
     bindA (member_Create E (new_member bizID (u_ID user) (im_RoleID req) (im_Title req) inviterUserID)) (\<lambda>member.
     bindA (ignoreA (audit_Log E (biz_audit ''business_member_invited'' (Some inviterUserID) bizID
       [(''member_user_id'', JS (u_ID user)), (''role_id'', JS (im_RoleID req))]))) (\<lambda>_.
     retA member))))))"

text \<open>The member a change is about: of this business, and not its owner.\<close>

definition changeable_member :: "env \<Rightarrow> string \<Rightarrow> string \<Rightarrow> ('l, BusinessMember) go" where
  "changeable_member E bizID memberID =
     bindA (member_GetByID E memberID) (\<lambda>member.
     if bm_BusinessID member \<noteq> bizID then throwA (Business ErrMemberNotFound)
     else if bm_RoleID member = SystemRoleOwnerID then throwA (Business ErrCannotRemoveOwner)
     else retA member)"

definition UpdateMemberRole :: "env \<Rightarrow> string \<Rightarrow> string \<Rightarrow> string \<Rightarrow> string \<Rightarrow> ('l, unit) go" where
  "UpdateMemberRole E bizID memberID actorUserID roleID =
     bindA (liftE (Struct E [(FStr roleID, [''required''])])) (\<lambda>_.
     bindA (changeable_member E bizID memberID) (\<lambda>member.
     bindA (role_GetByID E roleID) (\<lambda>_.
     bindA (member_UpdateRole E memberID roleID) (\<lambda>_.
     bindA (roles_InvalidateCache bizID) (\<lambda>_.
     ignoreA (audit_Log E (biz_audit ''business_member_role_changed'' (Some actorUserID) bizID
       [(''member_id'', JS memberID), (''old_role_id'', JS (bm_RoleID member)), (''new_role_id'', JS roleID)])))))))"

definition RemoveMember :: "env \<Rightarrow> string \<Rightarrow> string \<Rightarrow> string \<Rightarrow> ('l, unit) go" where
  "RemoveMember E bizID memberID actorUserID =
     bindA (changeable_member E bizID memberID) (\<lambda>member.
     bindA (member_Remove E memberID actorUserID) (\<lambda>_.
     ignoreA (audit_Log E (biz_audit ''business_member_removed'' (Some actorUserID) bizID
       [(''member_id'', JS memberID), (''member_user_id'', JS (bm_UserID member))]))))"

text \<open>A role that cannot be loaded is left empty.\<close>

definition with_role :: "env \<Rightarrow> BusinessMember \<Rightarrow> ('l, BusinessMember \<times> BusinessRole option) go" where
  "with_role E m = bindA (tryA (role_GetByID E (bm_RoleID m))) (\<lambda>r. retA (m, case r of Inl e \<Rightarrow> None | Inr role \<Rightarrow> Some role))"

definition ListMembers :: "env \<Rightarrow> string \<Rightarrow> ('l, (BusinessMember \<times> BusinessRole option) list) go" where
  "ListMembers E bizID = bindA (member_ListByBusiness E bizID) (mapA (with_role E))"

definition new_role :: "string \<Rightarrow> RoleRequest \<Rightarrow> BusinessRole" where
  "new_role bizID req = \<lparr>ro_ID = '''', ro_BusinessID = Some bizID, ro_Name = rq_Name req, ro_Description = non_empty (rq_Description req),
     ro_IsSystem = False, ro_IsDefault = False, ro_MaxTransferCents = rq_MaxTransferCents req,
     ro_DailyTransferLimitCents = rq_DailyTransferLimitCents req,
     ro_RequiresApprovalAboveCents = rq_RequiresApprovalAboveCents req, ro_Permissions = []\<rparr>"

definition CreateRole :: "env \<Rightarrow> string \<Rightarrow> string \<Rightarrow> RoleRequest \<Rightarrow> ('l, BusinessRole) go" where
  "CreateRole E bizID actorUserID req =
     bindA (liftE (createRole_Validate E req)) (\<lambda>_.
     bindA (role_Create E (new_role bizID req)) (\<lambda>role.
     bindA (role_SetPermissions E (ro_ID role) (rq_Permissions req)) (\<lambda>_.
     bindA (roles_InvalidateCache bizID) (\<lambda>_.
     bindA (ignoreA (audit_Log E (biz_audit ''business_role_created'' (Some actorUserID) bizID
       [(''role_id'', JS (ro_ID role)), (''role_name'', JS (rq_Name req))]))) (\<lambda>_.
     retA (role\<lparr>ro_Permissions := rq_Permissions req\<rparr>))))))"

definition or_old :: "'a option \<Rightarrow> 'a option \<Rightarrow> 'a option" where
  "or_old new old = (case new of None \<Rightarrow> old | Some x \<Rightarrow> Some x)"

definition changed_role :: "RoleRequest \<Rightarrow> BusinessRole \<Rightarrow> BusinessRole" where
  "changed_role req r = r\<lparr>ro_Name := (if rq_Name req \<noteq> '''' then rq_Name req else ro_Name r),
     ro_Description := set_opt (rq_Description req) (ro_Description r),
     ro_MaxTransferCents := or_old (rq_MaxTransferCents req) (ro_MaxTransferCents r),
     ro_DailyTransferLimitCents := or_old (rq_DailyTransferLimitCents req) (ro_DailyTransferLimitCents r),
     ro_RequiresApprovalAboveCents := or_old (rq_RequiresApprovalAboveCents req) (ro_RequiresApprovalAboveCents r)\<rparr>"

definition UpdateRole :: "env \<Rightarrow> string \<Rightarrow> string \<Rightarrow> string \<Rightarrow> RoleRequest \<Rightarrow> ('l, BusinessRole) go" where
  "UpdateRole E bizID roleID actorUserID req =
     bindA (liftE (updateRole_Validate req)) (\<lambda>_.
     bindA (role_GetByID E roleID) (\<lambda>role.
     if ro_IsSystem role then throwA (Business ErrSystemRoleImmutable) else
     let role' = changed_role req role in
     bindA (role_Update E role') (\<lambda>_.
     bindA (whenA (rq_Permissions req \<noteq> []) (role_SetPermissions E roleID (rq_Permissions req))) (\<lambda>_.
     bindA (roles_InvalidateCache bizID) (\<lambda>_.
     bindA (ignoreA (audit_Log E (biz_audit ''business_role_updated'' (Some actorUserID) bizID [(''role_id'', JS roleID)]))) (\<lambda>_.
     retA (if rq_Permissions req \<noteq> [] then role'\<lparr>ro_Permissions := rq_Permissions req\<rparr> else role')))))))"

definition DeleteRole :: "env \<Rightarrow> string \<Rightarrow> string \<Rightarrow> string \<Rightarrow> ('l, unit) go" where
  "DeleteRole E bizID roleID actorUserID =
     bindA (role_GetByID E roleID) (\<lambda>role.
     if ro_IsSystem role then throwA (Business ErrSystemRoleImmutable) else
     bindA (role_CountMembersByRole E roleID) (\<lambda>count.
     if count > 0 then throwA (Business ErrRoleInUse) else
     bindA (role_Delete E roleID) (\<lambda>_.
     bindA (roles_InvalidateCache bizID) (\<lambda>_.
     ignoreA (audit_Log E (biz_audit ''business_role_deleted'' (Some actorUserID) bizID
       [(''role_id'', JS roleID), (''role_name'', JS (ro_Name role))]))))))"

definition ListRoles :: "env \<Rightarrow> string \<Rightarrow> ('l, BusinessRole list) go" where
  "ListRoles E bizID = role_ListByBusiness E bizID"

definition GetRole :: "env \<Rightarrow> string \<Rightarrow> ('l, BusinessRole) go" where
  "GetRole E roleID = role_GetByID E roleID"

definition GetMyPermissions :: "env \<Rightarrow> int \<Rightarrow> string \<Rightarrow> string \<Rightarrow> ('l, string list) go" where
  "GetMyPermissions E ttl userID bizID = GetMemberPermissions E ttl userID bizID"

section \<open>Guarded routes\<close>

definition BusinessContext :: "env \<Rightarrow> string \<Rightarrow> string \<Rightarrow> ('l, Business \<times> BusinessMember) go" where
  "BusinessContext E userID bizID =
     (if bizID = '''' then throwA (Opaque ''business ID is required'') else
      bindA (business_GetByID E bizID) (\<lambda>biz.
      if bz_IsFrozen biz then throwA (Business ErrBusinessFrozen) else
      bindA (mapErrA (\<lambda>_. Identity ErrForbidden) (member_GetByBusinessAndUser E bizID userID)) (\<lambda>member.
      if \<not> bm_IsActive member then throwA (Business ErrMemberNotActive) else retA (biz, member))))"

definition RequireBusinessPermission :: "env \<Rightarrow> int \<Rightarrow> string \<Rightarrow> Business \<times> BusinessMember \<Rightarrow> ('l, unit) go" where
  "RequireBusinessPermission E ttl perm = (\<lambda>(biz, member).
     bindA (HasPermission E ttl (bm_UserID member) (bz_ID biz) perm) (\<lambda>ok.
     if \<not> ok then throwA (Opaque ''insufficient permissions'') else retA ()))"

text \<open>A route under \<open>/business/{id}\<close> with a permission, and its handler.\<close>

definition guarded :: "env \<Rightarrow> int \<Rightarrow> string \<Rightarrow> string \<Rightarrow> string \<Rightarrow> (Business \<Rightarrow> ('l, 'a) go) \<Rightarrow> ('l, 'a) go" where
  "guarded E ttl perm userID bizID handler =
     bindA (BusinessContext E userID bizID) (\<lambda>ctx.
     bindA (RequireBusinessPermission E ttl perm ctx) (\<lambda>_.
     handler (fst ctx)))"

definition pending_List :: "env \<Rightarrow> int \<Rightarrow> int \<Rightarrow> Business \<Rightarrow> ('l, PendingTransfer list) go" where
  "pending_List E limit offset biz = pending_ListByBusiness E (bz_ID biz) limit offset"

definition pending_Get :: "env \<Rightarrow> string \<Rightarrow> Business \<Rightarrow> ('l, PendingTransfer) go" where
  "pending_Get E transferID biz = pending_GetByID E transferID"

definition transfer_audit :: "string \<Rightarrow> string \<Rightarrow> string \<Rightarrow> (string \<times> json) list \<Rightarrow> AuditEntry" where
  "transfer_audit action userID transferID meta = (audit_entry action ''user'' (Some userID) ''pending_transfer'' transferID)\<lparr>au_Metadata := meta\<rparr>"

definition ApproveTransfer :: "env \<Rightarrow> string \<Rightarrow> string \<Rightarrow> Business \<Rightarrow> ('l, unit) go" where
  "ApproveTransfer E userID transferID biz =
     bindA (pending_GetByID E transferID) (\<lambda>pt.
     if pd_InitiatedBy pt = userID then throwA (Business ErrSelfApproval) else
     bindA (pending_Approve E transferID userID) (\<lambda>_.
     ignoreA (audit_Log E (transfer_audit ''business_transfer_approved'' userID transferID
       [(''business_id'', JS (bz_ID biz)), (''transfer_type'', JS (pd_TransferType pt)), (''approver_id'', JS userID)]))))"

definition RejectTransfer :: "env \<Rightarrow> string \<Rightarrow> string \<Rightarrow> string \<Rightarrow> Business \<Rightarrow> ('l, unit) go" where
  "RejectTransfer E userID transferID reason biz =
     (if reason = '''' then throwA (Opaque ''reason is required'') else
      bindA (pending_Reject E transferID userID reason) (\<lambda>_.
      ignoreA (audit_Log E (transfer_audit ''business_transfer_rejected'' userID transferID
        [(''business_id'', JS (bz_ID biz)), (''reason'', JS reason)]))))"

definition pending_Count :: "env \<Rightarrow> Business \<Rightarrow> ('l, int) go" where
  "pending_Count E biz = pending_CountByBusiness E (bz_ID biz)"

text \<open>The routes that change something: who may call them.\<close>

definition route_UpdateBusiness :: "env \<Rightarrow> int \<Rightarrow> string \<Rightarrow> string \<Rightarrow> UpdateBusinessRequest \<Rightarrow> ('l, Business) go" where
  "route_UpdateBusiness E ttl userID bizID req = guarded E ttl BPermManageSettings userID bizID (\<lambda>biz. UpdateBusiness E (bz_ID biz) req)"

definition route_InviteMember :: "env \<Rightarrow> int \<Rightarrow> string \<Rightarrow> string \<Rightarrow> InviteMemberRequest \<Rightarrow> ('l, BusinessMember) go" where
  "route_InviteMember E ttl userID bizID req = guarded E ttl BPermManageMembers userID bizID (\<lambda>biz. InviteMember E (bz_ID biz) userID req)"

definition route_UpdateMemberRole :: "env \<Rightarrow> int \<Rightarrow> string \<Rightarrow> string \<Rightarrow> string \<Rightarrow> string \<Rightarrow> ('l, unit) go" where
  "route_UpdateMemberRole E ttl userID bizID memberID roleID =
     guarded E ttl BPermManageMembers userID bizID (\<lambda>biz. UpdateMemberRole E (bz_ID biz) memberID userID roleID)"

definition route_RemoveMember :: "env \<Rightarrow> int \<Rightarrow> string \<Rightarrow> string \<Rightarrow> string \<Rightarrow> ('l, unit) go" where
  "route_RemoveMember E ttl userID bizID memberID =
     guarded E ttl BPermManageMembers userID bizID (\<lambda>biz. RemoveMember E (bz_ID biz) memberID userID)"

definition route_CreateRole :: "env \<Rightarrow> int \<Rightarrow> string \<Rightarrow> string \<Rightarrow> RoleRequest \<Rightarrow> ('l, BusinessRole) go" where
  "route_CreateRole E ttl userID bizID req = guarded E ttl BPermManageRoles userID bizID (\<lambda>biz. CreateRole E (bz_ID biz) userID req)"

definition route_UpdateRole :: "env \<Rightarrow> int \<Rightarrow> string \<Rightarrow> string \<Rightarrow> string \<Rightarrow> RoleRequest \<Rightarrow> ('l, BusinessRole) go" where
  "route_UpdateRole E ttl userID bizID roleID req =
     guarded E ttl BPermManageRoles userID bizID (\<lambda>biz. UpdateRole E (bz_ID biz) roleID userID req)"

definition route_DeleteRole :: "env \<Rightarrow> int \<Rightarrow> string \<Rightarrow> string \<Rightarrow> string \<Rightarrow> ('l, unit) go" where
  "route_DeleteRole E ttl userID bizID roleID =
     guarded E ttl BPermManageRoles userID bizID (\<lambda>biz. DeleteRole E (bz_ID biz) roleID userID)"

definition route_ApproveTransfer :: "env \<Rightarrow> int \<Rightarrow> string \<Rightarrow> string \<Rightarrow> string \<Rightarrow> ('l, unit) go" where
  "route_ApproveTransfer E ttl userID bizID transferID =
     guarded E ttl BPermApproveTransfer userID bizID (ApproveTransfer E userID transferID)"

definition route_RejectTransfer :: "env \<Rightarrow> int \<Rightarrow> string \<Rightarrow> string \<Rightarrow> string \<Rightarrow> string \<Rightarrow> ('l, unit) go" where
  "route_RejectTransfer E ttl userID bizID transferID reason =
     guarded E ttl BPermApproveTransfer userID bizID (RejectTransfer E userID transferID reason)"

text \<open>Evaluation unfolds an action only when it runs.\<close>

lemmas business_code [code] =
  getMemberRole_def [THEN fun_cong]
  HasPermission_def [THEN fun_cong]
  member_CheckTransferAllowed_def [THEN fun_cong]
  GetMemberPermissions_def [THEN fun_cong]
  roles_InvalidateCache_def [THEN fun_cong]
  RegisterBusiness_def [THEN fun_cong]
  GetBusiness_def [THEN fun_cong]
  UpdateBusiness_def [THEN fun_cong]
  ListMyBusinesses_def [THEN fun_cong]
  InviteMember_def [THEN fun_cong]
  changeable_member_def [THEN fun_cong]
  UpdateMemberRole_def [THEN fun_cong]
  RemoveMember_def [THEN fun_cong]
  with_role_def [THEN fun_cong]
  ListMembers_def [THEN fun_cong]
  CreateRole_def [THEN fun_cong]
  UpdateRole_def [THEN fun_cong]
  DeleteRole_def [THEN fun_cong]
  ListRoles_def [THEN fun_cong]
  GetRole_def [THEN fun_cong]
  GetMyPermissions_def [THEN fun_cong]
  BusinessContext_def [THEN fun_cong]
  RequireBusinessPermission_def [THEN fun_cong]
  guarded_def [THEN fun_cong]
  pending_List_def [THEN fun_cong]
  pending_Get_def [THEN fun_cong]
  ApproveTransfer_def [THEN fun_cong]
  RejectTransfer_def [THEN fun_cong]
  pending_Count_def [THEN fun_cong]
  route_UpdateBusiness_def [THEN fun_cong]
  route_InviteMember_def [THEN fun_cong]
  route_UpdateMemberRole_def [THEN fun_cong]
  route_RemoveMember_def [THEN fun_cong]
  route_CreateRole_def [THEN fun_cong]
  route_UpdateRole_def [THEN fun_cong]
  route_DeleteRole_def [THEN fun_cong]
  route_ApproveTransfer_def [THEN fun_cong]
  route_RejectTransfer_def [THEN fun_cong]

section \<open>Who may do what\<close>

lemma reader_business [readers]:
  "readerA (business_GetByID E i)" "readerA (member_query E p)" "readerA (scanRole E q)" "readerA (role_GetPermissions E i)"
  "readerA (pending_GetByID E i)"
  unfolding business_GetByID_def member_query_def scanRole_def role_GetPermissions_def pending_GetByID_def by (rule readers)+

lemma reader_roles [readers]:
  "readerA (member_GetByID E i)" "readerA (member_GetByBusinessAndUser E b u)" "readerA (role_GetByID E i)"
  unfolding member_GetByID_def member_GetByBusinessAndUser_def role_GetByID_def with_permissions_def by (rule readers)+

lemma reader_member_role [readers]: "readerA (getMemberRole E ttl u b)" "readerA (HasPermission E ttl u b p)"
  unfolding HasPermission_def getMemberRole_def Let_def by (rule readers)+

lemma stable_business:
  assumes "stable w' = stable w"
  shows "w_businesses w' = w_businesses w" "w_members w' = w_members w" "w_broles w' = w_broles w" "w_bperms w' = w_bperms w"
    "w_pending w' = w_pending w"
  using arg_cong [OF assms, of w_businesses] arg_cong [OF assms, of w_members] arg_cong [OF assms, of w_broles]
    arg_cong [OF assms, of w_bperms] arg_cong [OF assms, of w_pending] by (simp_all add: stable_def)

text \<open>The permissions of a member: those stored for the role, or those of the copy in the cache.\<close>

definition stored_permission :: "'l world \<Rightarrow> string \<Rightarrow> string \<Rightarrow> bool" where
  "stored_permission w roleID perm \<longleftrightarrow> (roleID, perm) \<in> set (w_bperms w)"

definition cached_permission :: "'l world \<Rightarrow> string \<Rightarrow> string \<Rightarrow> string \<Rightarrow> bool" where
  "cached_permission w bizID roleID perm \<longleftrightarrow>
     (case fst (cache_Get (w_cache w) (w_now w) (roles_prefix bizID @ roleID)) of
        Some (Some (CRole role)) \<Rightarrow> role_HasPermission role perm | _ \<Rightarrow> False)"

definition may :: "'l world \<Rightarrow> string \<Rightarrow> string \<Rightarrow> string \<Rightarrow> bool" where
  "may w userID bizID perm \<longleftrightarrow> (\<exists>m \<in> set (w_members w). member_active bizID userID m
     \<and> (stored_permission w (bm_RoleID m) perm \<or> cached_permission w bizID (bm_RoleID m) perm))"

lemma member_query_run:
  assumes "member_query E p w = (Inr m, w')"
  shows "m \<in> set (w_members w)" "p m" "w' = w\<lparr>w_dbn := Suc (w_dbn w)\<rparr>"
  using assms by (auto simp: member_query_def runs dbA_run dest!: select_one_Some)

lemma role_GetByID_run:
  assumes "role_GetByID E i w = (Inr role, w')"
  shows "role_HasPermission role perm \<longleftrightarrow> stored_permission w i perm"
  using assms
  by (auto simp: role_GetByID_def scanRole_def with_permissions_def role_GetPermissions_def runs dbA_run role_HasPermission_def
      stored_permission_def image_iff dest!: select_one_Some)

lemma HasPermission_run:
  assumes "HasPermission E ttl userID bizID perm w = (Inr True, w')"
  shows "may w userID bizID perm"
proof -
  obtain role m w1 where m: "member_GetByBusinessAndUser E bizID userID w = (Inr m, w1)" and p: "role_HasPermission role perm"
    and k: "bindA (cacheGet (roles_prefix bizID @ bm_RoleID m)) (\<lambda>hit. case hit of Some (CRole role) \<Rightarrow> retA role
       | _ \<Rightarrow> bindA (role_GetByID E (bm_RoleID m)) (\<lambda>role. bindA (cacheSet (roles_prefix bizID @ bm_RoleID m) (CRole role) ttl) (\<lambda>_. retA role)))
       w1 = (Inr role, w')"
    using assms by (auto simp: HasPermission_def getMemberRole_def Let_def runs)
  have mr: "m \<in> set (w_members w)" "member_active bizID userID m" "w1 = w\<lparr>w_dbn := Suc (w_dbn w)\<rparr>"
    using member_query_run m unfolding member_GetByBusinessAndUser_def by blast+
  obtain hit w2 where h: "cacheGet (roles_prefix bizID @ bm_RoleID m) w1 = (Inr hit, w2)"
    and k2: "(case hit of Some (CRole role) \<Rightarrow> retA role
       | _ \<Rightarrow> bindA (role_GetByID E (bm_RoleID m)) (\<lambda>role. bindA (cacheSet (roles_prefix bizID @ bm_RoleID m) (CRole role) ttl) (\<lambda>_. retA role)))
       w2 = (Inr role, w')"
    using k by (auto simp: runs)
  have w2: "w_bperms w2 = w_bperms w" using h mr(3) by (auto simp: cacheGet_def split: prod.splits)
  have "stored_permission w (bm_RoleID m) perm \<or> cached_permission w bizID (bm_RoleID m) perm"
  proof (cases "\<exists>r. hit = Some (CRole r)")
    case True
    then have "hit = Some (CRole role)" using k2 by (auto simp: runs)
    then have "cached_permission w bizID (bm_RoleID m) perm"
      using h mr(3) p by (auto simp: cacheGet_def cached_permission_def split: prod.splits option.splits)
    then show ?thesis ..
  next
    case False
    then obtain w3 where "role_GetByID E (bm_RoleID m) w2 = (Inr role, w3)"
      using k2 by (auto simp: runs split: option.splits cached.splits)
    then have "stored_permission w2 (bm_RoleID m) perm" using p role_GetByID_run by blast
    then show ?thesis using w2 by (simp add: stored_permission_def)
  qed
  then show ?thesis using mr by (auto simp: may_def)
qed

lemma BusinessContext_run:
  assumes "BusinessContext E userID bizID w = (Inr (biz, m), w')"
  shows "biz \<in> set (w_businesses w)" "bz_ID biz = bizID" "\<not> bz_IsFrozen biz" "bm_UserID m = userID"
    "w' = w\<lparr>w_dbn := Suc (Suc (w_dbn w))\<rparr>"
  using assms
  by (auto simp: BusinessContext_def business_GetByID_def member_GetByBusinessAndUser_def member_query_def member_active_def runs dbA_run
      dest!: select_one_Some)

lemma guarded_run:
  assumes "guarded E ttl perm userID bizID handler w = (Inr x, w')"
  obtains biz w1 where "biz \<in> set (w_businesses w)" "bz_ID biz = bizID" "\<not> bz_IsFrozen biz" "may w userID bizID perm"
    "stable w1 = stable w" "handler biz w1 = (Inr x, w')"
proof -
  obtain biz m w1 w2 where c: "BusinessContext E userID bizID w = (Inr (biz, m), w1)"
    and p: "HasPermission E ttl (bm_UserID m) (bz_ID biz) perm w1 = (Inr True, w2)" and h: "handler biz w2 = (Inr x, w')"
    using assms by (auto simp: guarded_def RequireBusinessPermission_def runs)
  note ctx = BusinessContext_run [OF c]
  have "may w1 userID bizID perm" using HasPermission_run p ctx by simp
  then have "may w userID bizID perm"
    using ctx(5) by (simp add: may_def stored_permission_def cached_permission_def)
  moreover have "stable w2 = stable w" using readerD [OF reader_member_role(2) p] ctx(5) by (simp add: stable_def)
  ultimately show thesis using that ctx(1-3) h by blast
qed

text \<open>C12: a pending business transfer is approved only by an active member of an unfrozen business who holds the
  approval permission there and did not initiate the transfer; it was still pending, and it alone changes.\<close>

theorem ApproveTransfer_authorized:
  assumes "route_ApproveTransfer E ttl userID bizID transferID w = (Inr u, w')"
  shows "(\<exists>biz \<in> set (w_businesses w). bz_ID biz = bizID \<and> \<not> bz_IsFrozen biz) \<and> may w userID bizID BPermApproveTransfer
    \<and> (\<exists>t \<in> set (w_pending w). transfer_waiting transferID t)
    \<and> (\<exists>t \<in> set (w_pending w). pd_ID t = transferID \<and> pd_InitiatedBy t \<noteq> userID)
    \<and> w_pending w' = update_where (transfer_waiting transferID)
        (\<lambda>t. t\<lparr>pd_Status := PendingTransferApproved, pd_ApprovedBy := Some userID, pd_ApprovedAt := Some (w_now w)\<rparr>) (w_pending w)
    \<and> w_ledger w' = w_ledger w"
proof -
  obtain biz w1 where b: "biz \<in> set (w_businesses w)" "bz_ID biz = bizID" "\<not> bz_IsFrozen biz" "may w userID bizID BPermApproveTransfer"
    and st: "stable w1 = stable w" and h: "ApproveTransfer E userID transferID biz w1 = (Inr u, w')"
    using assms unfolding route_ApproveTransfer_def by (rule guarded_run)
  obtain pt w2 w3 e where g: "pending_GetByID E transferID w1 = (Inr pt, w2)" and i: "pd_InitiatedBy pt \<noteq> userID"
    and a: "pending_Approve E transferID userID w2 = (Inr (), w3)" and l: "w' = snd (audit_Log E e w3)"
    using h by (auto simp: ApproveTransfer_def runs)
  have st2: "stable w2 = stable w" using readerD [OF reader_business(5) g] st by simp
  have pt: "pt \<in> set (w_pending w)" "pd_ID pt = transferID"
    using g stable_business(5) [OF st] by (auto simp: pending_GetByID_def runs dbA_run dest!: select_one_Some)
  have ok: "rows_affected (transfer_waiting transferID) (w_pending w) \<noteq> 0" and w3: "w3 = w2\<lparr>w_dbn := Suc (w_dbn w2),
      w_pending := update_where (transfer_waiting transferID) (\<lambda>t. t\<lparr>pd_Status := PendingTransferApproved,
        pd_ApprovedBy := Some userID, pd_ApprovedAt := Some (w_now w)\<rparr>) (w_pending w)\<rparr>"
    using a stable_business(5) [OF st2] stable_fields(4) [OF st2]
    by (auto simp: pending_Approve_def pending_update_def dbA_run runs nowA_def split: if_splits)
  have "\<exists>t \<in> set (w_pending w). transfer_waiting transferID t" using ok rows_affected_pos by fastforce
  moreover have "w_pending w' = w_pending w3" using l by (simp add: audit_Log_def dbA_def Let_def act_simps)
  moreover have "w_ledger w' = w_ledger w" using l w3 stable_fields(1) [OF st2] by (simp add: audit_ledger)
  ultimately show ?thesis using b pt i w3 by auto
qed
text \<open>Alice may approve for her company; Bob asked.\<close>

definition shop :: Business where
  "shop = \<lparr>bz_ID = ''z1'', bz_OwnerUserID = ''ua'', bz_Name = ''shop'', bz_TradeName = None, bz_TINNumber = ''12345678'',
     bz_TradeLicenseNumber = ''55555'', bz_IndustryCategory = ''retail'', bz_IndustrySubCategory = None, bz_Address = None,
     bz_City = None, bz_SubCity = None, bz_Woreda = None, bz_PhoneNumber = u_PhoneNumber user0, bz_Email = None, bz_Website = None,
     bz_Status = BusinessStatusActive, bz_LedgerWalletID = ''wz'', bz_KYBLevel = 0, bz_IsFrozen = False, bz_FrozenReason = None,
     bz_FrozenAt = None\<rparr>"

definition owner_role :: BusinessRole where
  "owner_role = \<lparr>ro_ID = SystemRoleOwnerID, ro_BusinessID = None, ro_Name = ''owner'', ro_Description = None, ro_IsSystem = True,
     ro_IsDefault = False, ro_MaxTransferCents = None, ro_DailyTransferLimitCents = None, ro_RequiresApprovalAboveCents = None,
     ro_Permissions = []\<rparr>"

definition waiting :: PendingTransfer where
  "waiting = \<lparr>pd_ID = ''t1'', pd_BusinessID = ''z1'', pd_InitiatedBy = ''ub'', pd_TransferType = ''external'', pd_AmountCents = 100,
     pd_CurrencyCode = ''ETB'', pd_RecipientInfo = '''', pd_Status = PendingTransferPending, pd_Reason = None, pd_ApprovedBy = None,
     pd_ApprovedAt = None, pd_RejectedBy = None, pd_RejectedAt = None, pd_ExpiresAt = day_ns, pd_CreatedAt = 0\<rparr>"

definition shop_world :: "unit world" where
  "shop_world = (empty_world () 1000)\<lparr>w_users := [user0], w_businesses := [shop], w_broles := [owner_role],
     w_bperms := [(SystemRoleOwnerID, BPermApproveTransfer), (SystemRoleOwnerID, BPermManageMembers)],
     w_members := [(new_member ''z1'' ''ua'' SystemRoleOwnerID None ''ua'')\<lparr>bm_ID := ''m1''\<rparr>,
       (new_member ''z1'' ''ub'' ''r2'' None ''ua'')\<lparr>bm_ID := ''m2''\<rparr>], w_pending := [waiting]\<rparr>"

theorem ApproveTransfer_authorized_witness:
  "fst (route_ApproveTransfer ok_env (300 * second) ''ua'' ''z1'' ''t1'' shop_world) = Inr ()
   \<and> may shop_world ''ua'' ''z1'' BPermApproveTransfer"
proof -
  let ?r = "route_ApproveTransfer ok_env (300 * second) ''ua'' ''z1'' ''t1'' shop_world"
  have f: "fst ?r = Inr ()" by code_simp
  from ApproveTransfer_authorized [OF run_of [OF f]] f show ?thesis by blast
qed

section \<open>The owner stays\<close>

text \<open>The member services, by any actor and with any failures.\<close>

inductive biz_step :: "env \<Rightarrow> 'l Client \<Rightarrow> 'l world \<Rightarrow> 'l world \<Rightarrow> bool" for E L where
  register: "RegisterBusiness E L u rg w = (x1, w') \<Longrightarrow> biz_step E L w w'"
| update: "UpdateBusiness E b ub w = (x2, w') \<Longrightarrow> biz_step E L w w'"
| invite: "InviteMember E b u im w = (x3, w') \<Longrightarrow> biz_step E L w w'"
| update_member: "UpdateMemberRole E b m u r w = (x4, w') \<Longrightarrow> biz_step E L w w'"
| remove: "RemoveMember E b m u w = (x5, w') \<Longrightarrow> biz_step E L w w'"
| create_role: "CreateRole E b u rq w = (x6, w') \<Longrightarrow> biz_step E L w w'"
| update_role: "UpdateRole E b r u rq w = (x7, w') \<Longrightarrow> biz_step E L w w'"
| delete_role: "DeleteRole E b r u w = (x8, w') \<Longrightarrow> biz_step E L w w'"
| approve: "route_ApproveTransfer E ttl u b t w = (x9, w') \<Longrightarrow> biz_step E L w w'"
| reject: "route_RejectTransfer E ttl u b t s w = (x10, w') \<Longrightarrow> biz_step E L w w'"
| tick: "w_now w \<le> now \<Longrightarrow> biz_step E L w (w\<lparr>w_now := now\<rparr>)"

definition is_owner :: "BusinessMember \<Rightarrow> bool" where
  "is_owner m \<longleftrightarrow> bm_RoleID m = SystemRoleOwnerID \<and> bm_IsActive m"

definition owners_kept :: "BusinessMember list \<Rightarrow> BusinessMember list \<Rightarrow> bool" where
  "owners_kept ms ms' \<longleftrightarrow> distinct (map bm_ID ms') \<and> (\<forall>m \<in> set ms. is_owner m \<longrightarrow> m \<in> set ms')"

definition owners_inv :: "BusinessMember list \<Rightarrow> 'l world \<Rightarrow> bool" where
  "owners_inv ms w \<longleftrightarrow> owners_kept ms (w_members w)"

lemma owners_same: "(\<And>w. w_members (snd (m w)) = w_members w) \<Longrightarrow> keepsA (owners_inv ms) m"
  by (simp add: keepsA_def owners_inv_def)

lemma owners_reader: "readerA m \<Longrightarrow> keepsA (owners_inv ms) m"
  by (rule owners_same) (metis readerA_def stable_business(2))

lemma owners_readers [keeps]:
  "keepsA (owners_inv ms) (business_GetByID E i)" "keepsA (owners_inv ms) (user_GetByID E i)" "keepsA (owners_inv ms) (user_GetByPhone E ph)"
  "keepsA (owners_inv ms) (member_GetByID E i)" "keepsA (owners_inv ms) (member_GetByBusinessAndUser E b u)"
  "keepsA (owners_inv ms) (role_GetByID E i)" "keepsA (owners_inv ms) (pending_GetByID E i)" "keepsA (owners_inv ms) (getMemberRole E ttl u b)"
  by (rule owners_reader, rule readers)+

lemma owners_writers [keeps]:
  "keepsA (owners_inv ms) (audit_Log E e)" "keepsA (owners_inv ms) (ledA l)" "keepsA (owners_inv ms) (newID E)"
  "keepsA (owners_inv ms) (roles_InvalidateCache b)" "keepsA (owners_inv ms) (business_Create E bz)"
  "keepsA (owners_inv ms) (business_Update E bz)" "keepsA (owners_inv ms) (role_Create E ro)" "keepsA (owners_inv ms) (role_Update E ro)"
  "keepsA (owners_inv ms) (role_Delete E i)" "keepsA (owners_inv ms) (perm_Insert E i p)"
  "keepsA (owners_inv ms) (pending_update E i f)" "keepsA (owners_inv ms) (role_GetSystemRoleByName E n)"
  "keepsA (owners_inv ms) (role_CountMembersByRole E i)"
  by (rule owners_same; simp add: audit_Log_def ledA_def newID_def roles_InvalidateCache_def cacheDeleteByPrefix_def business_Create_def
      business_Update_def business_update_def role_Create_def role_Update_def role_Delete_def perm_Insert_def pending_update_def
      role_GetSystemRoleByName_def scanRole_def with_permissions_def role_GetPermissions_def role_CountMembersByRole_def
      dbA_def Let_def bindA_def getsA_def modifyA_def throwA_def retA_def nowA_def split: prod.splits option.splits)+

lemma owners_create [keeps]: "keepsA (owners_inv ms) (member_Create E m)"
  by (rule keepsAI) (auto simp: member_Create_def owners_inv_def owners_kept_def dbA_def Let_def bindA_def getsA_def modifyA_def throwA_def
      retA_def nowA_def newID_def list_ex_iff)

text \<open>A member that may be changed is no owner; the rows of owners have other identifiers.\<close>

definition not_owner :: "BusinessMember list \<Rightarrow> string \<Rightarrow> 'l world \<Rightarrow> bool" where
  "not_owner ms i w \<longleftrightarrow> owners_inv ms w \<and> (\<exists>m \<in> set (w_members w). bm_ID m = i \<and> bm_RoleID m \<noteq> SystemRoleOwnerID)"

lemma not_owner_D: "not_owner ms i w \<Longrightarrow> m \<in> set (w_members w) \<Longrightarrow> is_owner m \<Longrightarrow> bm_ID m \<noteq> i"
  unfolding not_owner_def owners_inv_def owners_kept_def is_owner_def
  by (metis (mono_tags, lifting) distinct_map inj_onD)

lemma owners_update:
  assumes "not_owner ms i w" "\<And>m. bm_ID (f m) = bm_ID m"
  shows "owners_kept ms (update_where (\<lambda>m. bm_ID m = i \<and> bm_IsActive m) f (w_members w))"
proof -
  let ?ms = "update_where (\<lambda>m. bm_ID m = i \<and> bm_IsActive m) f (w_members w)"
  have "map bm_ID ?ms = map bm_ID (w_members w)" using assms(2) by (simp add: update_where_def)
  moreover have "m \<in> set ?ms" if "m \<in> set ms" "is_owner m" for m
  proof -
    have "m \<in> set (w_members w)" using assms(1) that by (auto simp: not_owner_def owners_inv_def owners_kept_def)
    moreover from not_owner_D [OF assms(1) this that(2)] have "bm_ID m \<noteq> i" .
    ultimately show ?thesis by (force simp: update_where_def)
  qed
  ultimately show ?thesis using assms(1) by (simp add: owners_kept_def not_owner_def owners_inv_def)
qed

lemma owners_change [leads]:
  "leadsA (not_owner ms i) (owners_inv ms) (member_UpdateRole E i r)" "leadsA (not_owner ms i) (owners_inv ms) (member_Remove E i u)"
proof -
  have inv: "not_owner ms i w \<Longrightarrow> owners_kept ms (w_members w)" for w :: "'l world" by (simp add: not_owner_def owners_inv_def)
  show "leadsA (not_owner ms i) (owners_inv ms) (member_UpdateRole E i r)" "leadsA (not_owner ms i) (owners_inv ms) (member_Remove E i u)"
    by (rule leadsAI; auto simp: member_UpdateRole_def member_Remove_def owners_inv_def dbA_def Let_def bindA_def getsA_def modifyA_def
        throwA_def retA_def nowA_def inv owners_update)+
qed

lemma not_owner_reader: "readerA m \<Longrightarrow> keepsA (not_owner ms i) m"
  unfolding readerA_def keepsA_def not_owner_def owners_inv_def by (metis stable_business(2))

lemma owners_changeable:
  fixes k :: "BusinessMember \<Rightarrow> ('l, 'a) go"
  assumes "\<And>m. leadsA (not_owner ms i) (owners_inv ms) (k m)"
  shows "keepsA (owners_inv ms) (bindA (changeable_member E b i) k)"
proof (rule keepsAI)
  fix w :: "'l world" assume o: "owners_inv ms w"
  obtain r w1 where c: "changeable_member E b i w = (r, w1)" by fastforce
  have "readerA (changeable_member E b i)" unfolding changeable_member_def by (rule readers)+
  from readerD [OF this c] have m1: "w_members w1 = w_members w" by (rule stable_business)
  show "owners_inv ms (snd (bindA (changeable_member E b i) k w))"
  proof (cases r)
    case (Inl e)
    then show ?thesis using c o m1 by (simp add: bindA_def owners_inv_def)
  next
    case (Inr m)
    then have "m \<in> set (w_members w)" "bm_ID m = i" "bm_RoleID m \<noteq> SystemRoleOwnerID"
      using c member_query_run unfolding changeable_member_def member_GetByID_def by (auto simp: runs) blast+
    then have "not_owner ms i w1" using o m1 by (auto simp: not_owner_def owners_inv_def)
    then show ?thesis using assms c Inr by (simp add: bindA_def leadsA_def)
  qed
qed

lemma owners_members [keeps]: "keepsA (owners_inv ms) (UpdateMemberRole E b i u r)" "keepsA (owners_inv ms) (RemoveMember E b i u)"
proof -
  have rd: "keepsA (not_owner ms i) (role_GetByID E r)" by (rule not_owner_reader, rule readers)
  have inv: "not_owner ms i w \<Longrightarrow> owners_inv ms w" for w :: "'l world" by (simp add: not_owner_def)
  show "keepsA (owners_inv ms) (UpdateMemberRole E b i u r)"
    unfolding UpdateMemberRole_def
    by (rule keeps_bind, rule keeps, rule owners_changeable, rule leads_bind [OF rd inv], assumption, rule leads_then [OF owners_change(1)],
        (rule keeps)+)
  show "keepsA (owners_inv ms) (RemoveMember E b i u)"
    unfolding RemoveMember_def by (rule owners_changeable, rule leads_then [OF owners_change(2)], (rule keeps)+)
qed

lemma owners_operations:
  "keepsA (owners_inv ms) (RegisterBusiness E L u rg)" "keepsA (owners_inv ms) (UpdateBusiness E b ub)"
  "keepsA (owners_inv ms) (InviteMember E b u im)" "keepsA (owners_inv ms) (CreateRole E b u rq)"
  "keepsA (owners_inv ms) (UpdateRole E b r u rq)" "keepsA (owners_inv ms) (DeleteRole E b r u)"
  "keepsA (owners_inv ms) (route_ApproveTransfer E ttl u b t)" "keepsA (owners_inv ms) (route_RejectTransfer E ttl u b t s)"
proof -
  have [keeps]: "keepsA (owners_inv ms) (dbA E (modifyA (\<lambda>w. w\<lparr>w_bperms := f (w_bperms w)\<rparr>)))" for f
    by (rule owners_same) (simp add: dbA_def Let_def modifyA_def)
  show "keepsA (owners_inv ms) (RegisterBusiness E L u rg)" "keepsA (owners_inv ms) (UpdateBusiness E b ub)"
    "keepsA (owners_inv ms) (InviteMember E b u im)" "keepsA (owners_inv ms) (CreateRole E b u rq)"
    "keepsA (owners_inv ms) (UpdateRole E b r u rq)" "keepsA (owners_inv ms) (DeleteRole E b r u)"
    unfolding RegisterBusiness_def UpdateBusiness_def InviteMember_def CreateRole_def UpdateRole_def DeleteRole_def role_SetPermissions_def Let_def
    by (rule keeps)+
  show "keepsA (owners_inv ms) (route_ApproveTransfer E ttl u b t)" "keepsA (owners_inv ms) (route_RejectTransfer E ttl u b t s)"
    unfolding route_ApproveTransfer_def route_RejectTransfer_def guarded_def BusinessContext_def RequireBusinessPermission_def HasPermission_def
      ApproveTransfer_def RejectTransfer_def pending_Approve_def pending_Reject_def case_prod_beta
    by (rule keeps)+
qed

text \<open>C16: whoever invites, removes or re-assigns members, creates, changes or deletes roles, and approves or
  rejects transfers, an active owner of a business keeps the membership and its role.\<close>

theorem owner_stays:
  assumes "(biz_step E L)\<^sup>*\<^sup>* w w'" "distinct (map bm_ID (w_members w))" "m \<in> set (w_members w)" "is_owner m"
  shows "m \<in> set (w_members w')"
proof -
  have "owners_inv (w_members w) w'"
    using assms(1)
  proof (induction rule: rtranclp_induct)
    case base
    then show ?case using assms(2) by (simp add: owners_inv_def owners_kept_def)
  next
    case (step v v')
    from step.hyps(2) show ?case
    proof cases
      case (tick now)
      then show ?thesis using step.IH by (simp add: owners_inv_def)
    qed (use step.IH keepsA_run in \<open>metis owners_operations owners_members\<close>)+
  qed
  then show ?thesis using assms(3,4) by (simp add: owners_inv_def owners_kept_def)
qed

theorem owner_stays_witness:
  "fst (RemoveMember ok_env ''z1'' ''m1'' ''ub'' shop_world) = Inl (Business ErrCannotRemoveOwner)
   \<and> (new_member ''z1'' ''ua'' SystemRoleOwnerID None ''ua'')\<lparr>bm_ID := ''m1''\<rparr>
       \<in> set (w_members (snd (RemoveMember ok_env ''z1'' ''m1'' ''ub'' shop_world)))"
proof -
  let ?r = "RemoveMember ok_env ''z1'' ''m1'' ''ub'' shop_world"
  have "biz_step ok_env undefined shop_world (snd ?r)" by (rule biz_step.remove [OF prod.collapse [symmetric]])
  then have "(biz_step ok_env undefined)\<^sup>*\<^sup>* shop_world (snd ?r)" by (rule r_into_rtranclp)
  moreover have "distinct (map bm_ID (w_members shop_world))" by (simp add: shop_world_def)
  ultimately have "(new_member ''z1'' ''ua'' SystemRoleOwnerID None ''ua'')\<lparr>bm_ID := ''m1''\<rparr> \<in> set (w_members (snd ?r))"
    by (rule owner_stays) (simp_all add: shop_world_def is_owner_def new_member_def)
  moreover have "fst ?r = Inl (Business ErrCannotRemoveOwner)" by code_simp
  ultimately show ?thesis by blast
qed

end
