(* ===== verification/Sha256.thy ===== *)
theory Sha256
  imports Prelude "HOL-Library.Word"
begin

unbundle bit_operations_syntax

text \<open>
  SHA-256 of the standard library's \<open>crypto/sha256\<close> (FIPS 180-4) on byte strings, and \<open>HashPayload\<close> of
  \<open>internal/repository/idempotency.go\<close>, which prints the digest in hexadecimal.
\<close>

type_synonym w32 = "32 word"

section \<open>Constants\<close>

definition sha_init :: "w32 list" where
  "sha_init = [0x6a09e667, 0xbb67ae85, 0x3c6ef372, 0xa54ff53a, 0x510e527f, 0x9b05688c, 0x1f83d9ab, 0x5be0cd19]"

definition sha_k :: "w32 list" where
  "sha_k = [
    0x428a2f98, 0x71374491, 0xb5c0fbcf, 0xe9b5dba5, 0x3956c25b, 0x59f111f1, 0x923f82a4, 0xab1c5ed5,
    0xd807aa98, 0x12835b01, 0x243185be, 0x550c7dc3, 0x72be5d74, 0x80deb1fe, 0x9bdc06a7, 0xc19bf174,
    0xe49b69c1, 0xefbe4786, 0x0fc19dc6, 0x240ca1cc, 0x2de92c6f, 0x4a7484aa, 0x5cb0a9dc, 0x76f988da,
    0x983e5152, 0xa831c66d, 0xb00327c8, 0xbf597fc7, 0xc6e00bf3, 0xd5a79147, 0x06ca6351, 0x14292967,
    0x27b70a85, 0x2e1b2138, 0x4d2c6dfc, 0x53380d13, 0x650a7354, 0x766a0abb, 0x81c2c92e, 0x92722c85,
    0xa2bfe8a1, 0xa81a664b, 0xc24b8b70, 0xc76c51a3, 0xd192e819, 0xd6990624, 0xf40e3585, 0x106aa070,
    0x19a4c116, 0x1e376c08, 0x2748774c, 0x34b0bcb5, 0x391c0cb3, 0x4ed8aa4a, 0x5b9cca4f, 0x682e6ff3,
    0x748f82ee, 0x78a5636f, 0x84c87814, 0x8cc70208, 0x90befffa, 0xa4506ceb, 0xbef9a3f7, 0xc67178f2]"

section \<open>Padding\<close>

text \<open>A one bit, zeros up to eight bytes short of a multiple of 64, and the length in bits.\<close>

definition be_bytes :: "nat \<Rightarrow> nat \<Rightarrow> nat list" where
  "be_bytes k n = map (\<lambda>i. n div 256 ^ (k - 1 - i) mod 256) [0..<k]"

definition sha_pad :: "nat list \<Rightarrow> nat list" where
  "sha_pad bs = bs @ [128] @ replicate ((55 + 63 * length bs) mod 64) 0 @ be_bytes 8 (8 * length bs)"

fun words_of :: "nat list \<Rightarrow> w32 list" where
  "words_of (a # b # c # d # r) = of_nat (a * 256 ^ 3 + b * 256 ^ 2 + c * 256 + d) # words_of r"
| "words_of _ = []"

section \<open>Compression\<close>

definition rotr :: "nat \<Rightarrow> w32 \<Rightarrow> w32" where
  "rotr n x = (drop_bit n x) OR (push_bit (32 - n) x)"

definition ssig0 :: "w32 \<Rightarrow> w32" where "ssig0 x = rotr 7 x XOR rotr 18 x XOR drop_bit 3 x"
definition ssig1 :: "w32 \<Rightarrow> w32" where "ssig1 x = rotr 17 x XOR rotr 19 x XOR drop_bit 10 x"
definition bsig0 :: "w32 \<Rightarrow> w32" where "bsig0 x = rotr 2 x XOR rotr 13 x XOR rotr 22 x"
definition bsig1 :: "w32 \<Rightarrow> w32" where "bsig1 x = rotr 6 x XOR rotr 11 x XOR rotr 25 x"
definition sha_ch :: "w32 \<Rightarrow> w32 \<Rightarrow> w32 \<Rightarrow> w32" where "sha_ch x y z = (x AND y) XOR (NOT x AND z)"
definition sha_maj :: "w32 \<Rightarrow> w32 \<Rightarrow> w32 \<Rightarrow> w32" where "sha_maj x y z = (x AND y) XOR (x AND z) XOR (y AND z)"

primrec schedule :: "nat \<Rightarrow> w32 list \<Rightarrow> w32 list" where
  "schedule 0 ws = ws"
| "schedule (Suc n) ws = (let t = length ws in
     schedule n (ws @ [ssig1 (ws ! (t - 2)) + ws ! (t - 7) + ssig0 (ws ! (t - 15)) + ws ! (t - 16)]))"

type_synonym sha_state = "w32 \<times> w32 \<times> w32 \<times> w32 \<times> w32 \<times> w32 \<times> w32 \<times> w32"

fun sha_round :: "w32 \<times> w32 \<Rightarrow> sha_state \<Rightarrow> sha_state" where
  "sha_round (k, w) (a, b, c, d, e, f, g, h) =
     (let t1 = h + bsig1 e + sha_ch e f g + k + w;
          t2 = bsig0 a + sha_maj a b c
      in (t1 + t2, a, b, c, d + t1, e, f, g))"

fun sha_add :: "sha_state \<Rightarrow> sha_state \<Rightarrow> sha_state" where
  "sha_add (a, b, c, d, e, f, g, h) (a', b', c', d', e', f', g', h') =
     (a + a', b + b', c + c', d + d', e + e', f + f', g + g', h + h')"

definition sha_block :: "sha_state \<Rightarrow> w32 list \<Rightarrow> sha_state" where
  "sha_block st ws = sha_add st (fold sha_round (zip sha_k (schedule 48 ws)) st)"

function sha_blocks :: "sha_state \<Rightarrow> w32 list \<Rightarrow> sha_state" where
  "sha_blocks st ws = (if ws = [] then st else sha_blocks (sha_block st (take 16 ws)) (drop 16 ws))"
  by auto
termination by (relation "measure (\<lambda>(st, ws). length ws)") (auto simp: length_greater_0_conv)

declare sha_blocks.simps [simp del]

fun state_words :: "sha_state \<Rightarrow> w32 list" where
  "state_words (a, b, c, d, e, f, g, h) = [a, b, c, d, e, f, g, h]"

definition sha_start :: sha_state where
  "sha_start = (sha_init ! 0, sha_init ! 1, sha_init ! 2, sha_init ! 3, sha_init ! 4, sha_init ! 5, sha_init ! 6, sha_init ! 7)"

definition sha256_Sum256 :: "nat list \<Rightarrow> nat list" where
  "sha256_Sum256 bs = concat (map (\<lambda>w. be_bytes 4 (unat w)) (state_words (sha_blocks sha_start (words_of (sha_pad bs)))))"

section \<open>Hexadecimal\<close>

definition hex_char :: "nat \<Rightarrow> char" where
  "hex_char d = char_of (if d < 10 then 48 + d else 87 + d)"

definition EncodeToString :: "nat list \<Rightarrow> string" where
  "EncodeToString bs = concat (map (\<lambda>b. [hex_char (b div 16), hex_char (b mod 16)]) bs)"

definition HashPayload :: "string \<Rightarrow> string" where
  "HashPayload payload = EncodeToString (sha256_Sum256 (map of_char payload))"

section \<open>Shape of the digest\<close>

lemma length_be_bytes [simp]: "length (be_bytes k n) = k"
  by (simp add: be_bytes_def)

lemma be_bytes_byte: "b \<in> set (be_bytes k n) \<Longrightarrow> b < 256"
  by (auto simp: be_bytes_def)

lemma length_state_words [simp]: "length (state_words st) = 8"
  by (cases st rule: state_words.cases) simp

lemma length_Sum256 [simp]: "length (sha256_Sum256 bs) = 32"
proof -
  have "length (concat (map (\<lambda>w. be_bytes 4 (unat w)) ws)) = 4 * length ws" for ws :: "w32 list"
    by (induction ws) simp_all
  then show ?thesis by (simp add: sha256_Sum256_def)
qed

lemma length_EncodeToString [simp]: "length (EncodeToString bs) = 2 * length bs"
  by (induction bs) (simp_all add: EncodeToString_def)

lemma length_HashPayload [simp]: "length (HashPayload p) = 64"
  by (simp add: HashPayload_def)

lemma sha_pad_blocks: "length (sha_pad bs) mod 64 = 0"
proof -
  have "(9 + length bs + (55 + 63 * length bs) mod 64) mod 64 = (9 + length bs + (55 + 63 * length bs)) mod 64"
    by (simp add: mod_simps)
  also have "9 + length bs + (55 + 63 * length bs) = 64 * (1 + length bs)" by simp
  finally show ?thesis by (simp add: sha_pad_def add.assoc [symmetric] add.commute [of _ 9])
qed

end
