(* ===== verification/Middleware.thy ===== *)
theory Middleware
  imports Reads Sha256
begin

text \<open>
  The HTTP middleware (\<open>internal/transport/http/middleware\<close>) with the idempotency table
  (\<open>internal/repository/idempotency.go\<close>), the tokens of \<open>internal/services/auth/jwt.go\<close>, the staff
  permissions of \<open>internal/domain/staff.go\<close> and the chains \<open>cmd/api/routes.go\<close> builds from them. A handler is an
  action that returns the response it writes; an error of the action is a panic. A request carries the headers
  the middleware reads and the values it puts into the context. CORS, request ids, client addresses and logging
  do not touch status, body or state and are left out.

  Outside the repository: the JWT library (\<open>jwtlib\<close>, signature and time checks of HS256 tokens) and
  PostgreSQL's reading of a UUID and of a JSONB value (\<open>pgtypes\<close>).
\<close>

section \<open>Requests and responses\<close>

record Request =
  hr_Method :: string
  hr_Path :: string
  hr_IdempotencyKey :: string
  hr_Authorization :: string
  hr_RemoteAddr :: string
  hr_Body :: string
  hr_MaxBytes :: "int option"
  hr_UserID :: string
  hr_StaffID :: string
  hr_StaffRole :: string

record Response =
  hs_Code :: int
  hs_Body :: string
  hs_Replayed :: bool

type_synonym 'l Handler = "Request \<Rightarrow> ('l, Response) go"

text \<open>A string as \<open>encoding/json\<close> writes it.\<close>

definition json_char :: "char \<Rightarrow> string" where
  "json_char c = (let n = (of_char c :: nat) in
     if c = CHR 0x22 then [CHR 0x5C, CHR 0x22] else if c = CHR 0x5C then [CHR 0x5C, CHR 0x5C]
     else if n = 8 then [CHR 0x5C, CHR ''b''] else if n = 12 then [CHR 0x5C, CHR ''f'']
     else if n = 10 then [CHR 0x5C, CHR ''n''] else if n = 13 then [CHR 0x5C, CHR ''r''] else if n = 9 then [CHR 0x5C, CHR ''t'']
     else if n < 32 \<or> c \<in> {CHR ''<'', CHR ''>'', CHR ''&''} then CHR 0x5C # ''u00'' @ [hex_char (n div 16), hex_char (n mod 16)]
     else [c])"

definition error_response :: "int \<Rightarrow> string \<Rightarrow> Response" where
  "error_response status message = \<lparr>hs_Code = status,
     hs_Body = ''{'' @ [CHR 0x22] @ ''error'' @ [CHR 0x22, CHR '':'', CHR 0x22] @ concat (map json_char message) @ [CHR 0x22] @ ''}'' @ [CHR 0x0A],
     hs_Replayed = False\<rparr>"

definition WriteError :: "int \<Rightarrow> string \<Rightarrow> ('l, Response) go" where
  "WriteError status message = retA (error_response status message)"

definition read_body :: "Request \<Rightarrow> string option" where
  "read_body r = (case hr_MaxBytes r of None \<Rightarrow> Some (hr_Body r)
     | Some n \<Rightarrow> if int (length (hr_Body r)) \<le> n then Some (hr_Body r) else None)"

definition BodyLimit :: "int \<Rightarrow> 'l Handler \<Rightarrow> 'l Handler" where
  "BodyLimit maxBytes next r = next (r\<lparr>hr_MaxBytes := Some maxBytes\<rparr>)"

definition Recovery :: "'l Handler \<Rightarrow> 'l Handler" where
  "Recovery next r = bindA (tryA (next r)) (\<lambda>res. case res of Inr resp \<Rightarrow> retA resp | Inl e \<Rightarrow> WriteError 500 ''internal server error'')"

section \<open>Rate limit\<close>

definition cacheIncrement :: "string \<Rightarrow> int \<Rightarrow> ('l, int) go" where
  "cacheIncrement k ttl w = (case cache_Increment (w_cache w) (w_now w) k ttl of (n, c) \<Rightarrow> (Inr n, w\<lparr>w_cache := c\<rparr>))"

definition rate_key :: "Request \<Rightarrow> int \<Rightarrow> string" where
  "rate_key r now = ''neo:rl:'' @ (if hr_UserID r = '''' then hr_RemoteAddr r else hr_UserID r) @ '':'' @ itoa (now div second)"

definition RateLimit :: "int \<Rightarrow> 'l Handler \<Rightarrow> 'l Handler" where
  "RateLimit burst next r =
     bindA nowA (\<lambda>now.
     bindA (cacheIncrement (rate_key r now) (2 * second)) (\<lambda>count.
     if count > burst then WriteError 429 ''rate limit exceeded'' else next r))"

section \<open>Idempotency\<close>

record pgtypes =
  pg_uuid :: "string \<Rightarrow> string option"
  pg_jsonb :: "string \<Rightarrow> string option"

definition row_of :: "pgtypes \<Rightarrow> string \<Rightarrow> IdempotencyRecord \<Rightarrow> bool" where
  "row_of D key rec \<longleftrightarrow> pg_uuid D key = Some (ir_Key rec)"

definition new_lock :: "string \<Rightarrow> string \<Rightarrow> string \<Rightarrow> string \<Rightarrow> int \<Rightarrow> IdempotencyRecord" where
  "new_lock key userID requestHash endpoint now =
     \<lparr>ir_Key = key, ir_UserID = userID, ir_RequestHash = requestHash, ir_Endpoint = endpoint, ir_Status = IdempotencyStarted,
      ir_ResponseCode = None, ir_ResponseBody = None, ir_LockExpiresAt = now + 300 * second, ir_CreatedAt = now\<rparr>"

definition insert_lock :: "env \<Rightarrow> pgtypes \<Rightarrow> string \<Rightarrow> string \<Rightarrow> string \<Rightarrow> string \<Rightarrow> ('l, IdempotencyRecord) go" where
  "insert_lock E D key userID requestHash endpoint = dbA E (bindA nowA (\<lambda>now. bindA (getsA (\<lambda>w. (w_idem w, w_users w))) (\<lambda>(rs, us).
     case pg_uuid D key of
       None \<Rightarrow> throwA db_error
     | Some k \<Rightarrow>
       if \<not> e_is_uuid E userID then throwA db_error else
       (case select_one (row_of D key) rs of
          Some rec \<Rightarrow> retA rec
        | None \<Rightarrow>
          let rec = new_lock k userID requestHash endpoint now in
          if \<not> list_ex (\<lambda>u. u_ID u = userID) us then throwA db_error
          else bindA (modifyA (\<lambda>w. w\<lparr>w_idem := rs @ [rec]\<rparr>)) (\<lambda>_. retA rec)))))"

definition AcquireLock :: "env \<Rightarrow> pgtypes \<Rightarrow> string \<Rightarrow> string \<Rightarrow> string \<Rightarrow> string \<Rightarrow> ('l, IdempotencyRecord) go" where
  "AcquireLock E D key userID endpoint payload =
     (let requestHash = HashPayload payload in
      bindA (insert_lock E D key userID requestHash endpoint) (\<lambda>rec.
      if ir_RequestHash rec \<noteq> requestHash then throwA (Idempotency ErrIdempotencyPayloadMismatch) else retA rec))"

definition row_started :: "pgtypes \<Rightarrow> string \<Rightarrow> IdempotencyRecord \<Rightarrow> bool" where
  "row_started D key rec \<longleftrightarrow> row_of D key rec \<and> ir_Status rec = IdempotencyStarted"

definition idem_update :: "env \<Rightarrow> pgtypes \<Rightarrow> string \<Rightarrow> (IdempotencyRecord \<Rightarrow> IdempotencyRecord) \<Rightarrow> ('l, unit) go" where
  "idem_update E D key f = dbA E (bindA (getsA w_idem) (\<lambda>rs.
     if pg_uuid D key = None then throwA db_error
     else if rows_affected (row_started D key) rs = 0 then throwA (Opaque ''not in started state or does not exist'')
     else modifyA (\<lambda>w. w\<lparr>w_idem := update_where (row_started D key) f rs\<rparr>)))"

text \<open>An empty response is stored as NULL; a response that is not JSON cannot be stored.\<close>

definition MarkCompleted :: "env \<Rightarrow> pgtypes \<Rightarrow> string \<Rightarrow> int \<Rightarrow> string option \<Rightarrow> ('l, unit) go" where
  "MarkCompleted E D key responseCode responseBody =
     (case responseBody of
        None \<Rightarrow> idem_update E D key (\<lambda>rec. rec\<lparr>ir_Status := IdempotencyCompleted, ir_ResponseCode := Some responseCode, ir_ResponseBody := None\<rparr>)
      | Some b \<Rightarrow> (case pg_jsonb D b of
          None \<Rightarrow> dbA E (throwA db_error)
        | Some j \<Rightarrow> idem_update E D key (\<lambda>rec. rec\<lparr>ir_Status := IdempotencyCompleted, ir_ResponseCode := Some responseCode, ir_ResponseBody := Some j\<rparr>)))"

definition MarkFailed :: "env \<Rightarrow> pgtypes \<Rightarrow> string \<Rightarrow> ('l, unit) go" where
  "MarkFailed E D key = idem_update E D key (\<lambda>rec. rec\<lparr>ir_Status := IdempotencyFailed\<rparr>)"

definition PurgeExpired :: "env \<Rightarrow> int \<Rightarrow> ('l, int) go" where
  "PurgeExpired E olderThan = dbA E (bindA nowA (\<lambda>now. bindA (getsA w_idem) (\<lambda>rs.
     let p = (\<lambda>rec. ir_CreatedAt rec < now - olderThan) in
     bindA (modifyA (\<lambda>w. w\<lparr>w_idem := filter (\<lambda>rec. \<not> p rec) rs\<rparr>)) (\<lambda>_. retA (int (rows_affected p rs))))))"

definition is_read :: "Request \<Rightarrow> bool" where
  "is_read r \<longleftrightarrow> hr_Method r \<in> {''GET'', ''HEAD'', ''OPTIONS''}"

definition replay :: "IdempotencyRecord \<Rightarrow> Response" where
  "replay rec = \<lparr>hs_Code = (case ir_ResponseCode rec of None \<Rightarrow> 200 | Some c \<Rightarrow> c),
     hs_Body = (case ir_ResponseBody rec of None \<Rightarrow> '''' | Some b \<Rightarrow> b), hs_Replayed = True\<rparr>"

definition run_recorded :: "env \<Rightarrow> pgtypes \<Rightarrow> 'l Handler \<Rightarrow> 'l Handler" where
  "run_recorded E D next r =
     bindA (next r) (\<lambda>resp.
     bindA (ignoreA (MarkCompleted E D (hr_IdempotencyKey r) (hs_Code resp)
       (if hs_Body resp = '''' then None else Some (hs_Body resp)))) (\<lambda>_.
     retA resp))"

definition endpoint_of :: "Request \<Rightarrow> string" where
  "endpoint_of r = hr_Method r @ '' '' @ hr_Path r"

definition locked :: "env \<Rightarrow> pgtypes \<Rightarrow> 'l Handler \<Rightarrow> 'l Handler" where
  "locked E D next r =
     (case read_body r of
        None \<Rightarrow> WriteError 400 ''failed to read request body''
      | Some bodyBytes \<Rightarrow>
        bindA (tryA (AcquireLock E D (hr_IdempotencyKey r) (hr_UserID r) (endpoint_of r) bodyBytes)) (\<lambda>res.
        case res of
          Inl e \<Rightarrow> if e = Idempotency ErrIdempotencyPayloadMismatch
            then WriteError 422 ''idempotency key reused with different payload''
            else WriteError 500 ''idempotency lock failure''
        | Inr rec \<Rightarrow>
          bindA nowA (\<lambda>now.
          if IsCompleted rec then retA (replay rec)
          else if IsInFlight rec now then WriteError 409 ''request with this idempotency key is already in progress''
          else run_recorded E D next r)))"

definition IdempotencyMW :: "env \<Rightarrow> pgtypes \<Rightarrow> 'l Handler \<Rightarrow> 'l Handler" where
  "IdempotencyMW E D next r =
     (if is_read r then next r
      else if hr_IdempotencyKey r = '''' then WriteError 400 ''idempotency key header is required''
      else if length (hr_IdempotencyKey r) > 64 then WriteError 400 ''idempotency key must be at most 64 characters''
      else if hr_UserID r = '''' then next r
      else locked E D next r)"

section \<open>Authentication\<close>

text \<open>The claims of a token: a subject or role that is missing or is not a string is \<open>None\<close>. The JWT library
  checks the signature with the given key, the method HS256 and the times, and answers claims or a message.\<close>

record MapClaims =
  mc_sub :: "string option"
  mc_session :: "string option"
  mc_exp :: "int option"
  mc_iss :: string
  mc_aud :: "string list"
  mc_role :: "string option"

type_synonym jwtlib = "string \<Rightarrow> int \<Rightarrow> string \<Rightarrow> string + MapClaims"

record TokenClaims =
  tc_UserID :: string
  tc_SessionID :: string
  tc_ExpiresAt :: "int option"

definition ParseToken :: "jwtlib \<Rightarrow> string \<Rightarrow> int \<Rightarrow> string \<Rightarrow> string + TokenClaims" where
  "ParseToken J signingKey now token =
     (case J signingKey now token of
        Inl m \<Rightarrow> Inl (''parsing token: '' @ m)
      | Inr c \<Rightarrow>
        (case mc_sub c of
           None \<Rightarrow> Inl ''missing subject claim''
         | Some sub \<Rightarrow> if sub = '''' then Inl ''missing subject claim''
             else Inr \<lparr>tc_UserID = sub, tc_SessionID = (case mc_session c of None \<Rightarrow> '''' | Some s \<Rightarrow> s), tc_ExpiresAt = mc_exp c\<rparr>))"

definition ParseTokenUserID :: "jwtlib \<Rightarrow> string \<Rightarrow> int \<Rightarrow> string \<Rightarrow> string + string" where
  "ParseTokenUserID J signingKey now token =
     (case ParseToken J signingKey now token of Inl m \<Rightarrow> Inl m | Inr c \<Rightarrow> Inr (tc_UserID c))"

definition TrimPrefix :: "string \<Rightarrow> string \<Rightarrow> string" where
  "TrimPrefix s p = (if take (length p) s = p then drop (length p) s else s)"

definition bearer :: "Request \<Rightarrow> string" where
  "bearer r = TrimPrefix (hr_Authorization r) ''Bearer ''"

definition Auth :: "jwtlib \<Rightarrow> string \<Rightarrow> 'l Handler \<Rightarrow> 'l Handler" where
  "Auth J signingKey next r =
     (if hr_Authorization r = '''' then WriteError 401 ''missing authorization header''
      else if bearer r = hr_Authorization r then WriteError 401 ''invalid authorization format, expected: Bearer <token>''
      else bindA nowA (\<lambda>now.
        case ParseTokenUserID J signingKey now (bearer r) of
          Inl m \<Rightarrow> WriteError 401 (''invalid token: '' @ m)
        | Inr userID \<Rightarrow> next (r\<lparr>hr_UserID := userID\<rparr>)))"

record AdminJWT =
  aj_Secret :: string
  aj_Issuer :: string
  aj_Audience :: string

definition validateAdminJWT :: "jwtlib \<Rightarrow> AdminJWT \<Rightarrow> int \<Rightarrow> string \<Rightarrow> string + string \<times> string" where
  "validateAdminJWT J cfg now token =
     (case J (aj_Secret cfg) now token of
        Inl m \<Rightarrow> Inl (''parsing token: '' @ m)
      | Inr c \<Rightarrow>
        if aj_Issuer cfg \<noteq> '''' \<and> mc_iss c \<noteq> aj_Issuer cfg then Inl ''invalid issuer''
        else if aj_Audience cfg \<noteq> '''' \<and> aj_Audience cfg \<notin> set (mc_aud c) then Inl ''invalid audience''
        else (case mc_sub c of
            None \<Rightarrow> Inl ''missing subject claim''
          | Some sub \<Rightarrow> if sub = '''' then Inl ''missing subject claim''
              else (case mc_role c of
                  None \<Rightarrow> Inl ''missing role claim''
                | Some role \<Rightarrow> if role = '''' then Inl ''missing role claim'' else Inr (sub, role))))"

definition AdminAuth :: "jwtlib \<Rightarrow> AdminJWT \<Rightarrow> 'l Handler \<Rightarrow> 'l Handler" where
  "AdminAuth J cfg next r =
     (if hr_Authorization r = '''' then WriteError 401 ''missing authorization header''
      else if bearer r = hr_Authorization r then WriteError 401 ''invalid authorization format''
      else bindA nowA (\<lambda>now.
        case validateAdminJWT J cfg now (bearer r) of
          Inl m \<Rightarrow> WriteError 401 (''invalid token: '' @ m)
        | Inr (staffID, role) \<Rightarrow> next (r\<lparr>hr_StaffID := staffID, hr_StaffRole := role\<rparr>)))"

section \<open>Staff permissions\<close>

definition allPermissions :: "string list" where
  "allPermissions = [''users:read'', ''users:freeze'', ''users:kyc_override'', ''transactions:read'', ''transactions:reverse'',
     ''transactions:export'', ''loans:read'', ''loans:write_off'', ''loans:credit_override'', ''cards:read'', ''cards:manage'',
     ''recon:read'', ''recon:manage'', ''audit:read'', ''analytics:read'', ''staff:manage'', ''system:accounts'', ''flags:manage'',
     ''business:read'', ''business:manage'', ''config:manage'']"

definition RolePermissions :: "(string \<times> string list) list" where
  "RolePermissions = [
     (''super_admin'', allPermissions),
     (''customer_support'', [''users:read'', ''transactions:read'', ''cards:read'', ''loans:read'', ''audit:read'', ''business:read'']),
     (''customer_support_lead'', [''users:read'', ''users:freeze'', ''transactions:read'', ''transactions:reverse'', ''cards:read'',
        ''loans:read'', ''audit:read'', ''business:read'', ''flags:manage'']),
     (''compliance_officer'', [''users:read'', ''users:freeze'', ''transactions:read'', ''transactions:export'', ''loans:read'',
        ''cards:read'', ''recon:read'', ''audit:read'', ''analytics:read'', ''flags:manage'', ''business:read'']),
     (''lending_officer'', [''users:read'', ''loans:read'', ''loans:write_off'', ''loans:credit_override'', ''audit:read'', ''business:read'']),
     (''reconciliation_analyst'', [''transactions:read'', ''recon:read'', ''recon:manage'', ''audit:read'']),
     (''card_operations'', [''users:read'', ''cards:read'', ''cards:manage'', ''audit:read'']),
     (''treasury'', [''transactions:read'', ''analytics:read'', ''system:accounts'', ''audit:read'', ''recon:read'', ''business:read'']),
     (''auditor'', [''users:read'', ''transactions:read'', ''loans:read'', ''cards:read'', ''recon:read'', ''audit:read'',
        ''analytics:read'', ''system:accounts'', ''business:read''])]"

definition staff_HasPermission :: "string \<Rightarrow> string \<Rightarrow> bool" where
  "staff_HasPermission role perm = (case map_of RolePermissions role of None \<Rightarrow> False | Some perms \<Rightarrow> perm \<in> set perms)"

definition RequirePermission :: "string \<Rightarrow> 'l Handler \<Rightarrow> 'l Handler" where
  "RequirePermission perm next r =
     (if hr_StaffRole r = '''' then WriteError 401 ''missing staff context''
      else if \<not> staff_HasPermission (hr_StaffRole r) perm then WriteError 403 ''insufficient permissions''
      else next r)"

section \<open>Chains\<close>

definition applyGlobalMiddleware :: "env \<Rightarrow> pgtypes \<Rightarrow> int \<Rightarrow> 'l Handler \<Rightarrow> 'l Handler" where
  "applyGlobalMiddleware E D burst next = Recovery (BodyLimit (2 ^ 20) (RateLimit burst (IdempotencyMW E D next)))"

definition v1_route :: "env \<Rightarrow> pgtypes \<Rightarrow> int \<Rightarrow> jwtlib \<Rightarrow> string \<Rightarrow> 'l Handler \<Rightarrow> 'l Handler" where
  "v1_route E D burst J signingKey handler = applyGlobalMiddleware E D burst (Auth J signingKey handler)"

definition admin_route :: "env \<Rightarrow> pgtypes \<Rightarrow> int \<Rightarrow> jwtlib \<Rightarrow> AdminJWT \<Rightarrow> string \<Rightarrow> 'l Handler \<Rightarrow> 'l Handler" where
  "admin_route E D burst J cfg perm handler = applyGlobalMiddleware E D burst (AdminAuth J cfg (RequirePermission perm handler))"

section \<open>The idempotency lock\<close>

text \<open>A request for which the lock is taken: a mutating request of a known user with a well-formed key, whose body
  can be read, while the database answers.\<close>

definition enforced :: "env \<Rightarrow> pgtypes \<Rightarrow> Request \<Rightarrow> 'l world \<Rightarrow> bool" where
  "enforced E D r w \<longleftrightarrow> \<not> is_read r \<and> hr_IdempotencyKey r \<noteq> '''' \<and> length (hr_IdempotencyKey r) \<le> 64
     \<and> hr_UserID r \<noteq> '''' \<and> e_is_uuid E (hr_UserID r) \<and> pg_uuid D (hr_IdempotencyKey r) \<noteq> None
     \<and> read_body r = Some (hr_Body r) \<and> e_db_ok E (w_dbn w)"

definition busy :: Response where
  "busy = error_response 409 ''request with this idempotency key is already in progress''"

lemma enforced_locked: "enforced E D r w \<Longrightarrow> IdempotencyMW E D nxt r = locked E D nxt r"
  by (simp add: enforced_def IdempotencyMW_def)

lemma locked_known:
  assumes "enforced E D r w" "select_one (row_of D (hr_IdempotencyKey r)) (w_idem w) = Some rec"
    and "ir_RequestHash rec = HashPayload (hr_Body r)"
  shows "IdempotencyMW E D nxt r w =
    (let v = w\<lparr>w_dbn := Suc (w_dbn w)\<rparr> in
     if IsCompleted rec then (Inr (replay rec), v)
     else if IsInFlight rec (w_now w) then (Inr busy, v)
     else run_recorded E D nxt r v)"
  using assms unfolding enforced_locked [OF assms(1)]
  by (auto simp: enforced_def locked_def AcquireLock_def insert_lock_def act_simps bindA_def tryA_def nowA_def Let_def WriteError_def busy_def)

lemma locked_fresh:
  assumes "enforced E D r w" "select_one (row_of D (hr_IdempotencyKey r)) (w_idem w) = None"
    and "list_ex (\<lambda>u. u_ID u = hr_UserID r) (w_users w)" "pg_uuid D (hr_IdempotencyKey r) = Some k"
  shows "IdempotencyMW E D nxt r w =
    (Inr busy, w\<lparr>w_dbn := Suc (w_dbn w), w_idem := w_idem w @ [new_lock k (hr_UserID r) (HashPayload (hr_Body r)) (endpoint_of r) (w_now w)]\<rparr>)"
  using assms unfolding enforced_locked [OF assms(1)]
  by (auto simp: enforced_def locked_def AcquireLock_def insert_lock_def act_simps bindA_def tryA_def nowA_def Let_def WriteError_def busy_def new_lock_def
      IsCompleted_def IsInFlight_def second_def)

lemma locked_mismatch:
  assumes "enforced E D r w" "select_one (row_of D (hr_IdempotencyKey r)) (w_idem w) = Some rec"
    and "ir_RequestHash rec \<noteq> HashPayload (hr_Body r)"
  shows "IdempotencyMW E D nxt r w =
    (Inr (error_response 422 ''idempotency key reused with different payload''), w\<lparr>w_dbn := Suc (w_dbn w)\<rparr>)"
  using assms unfolding enforced_locked [OF assms(1)]
  by (auto simp: enforced_def locked_def AcquireLock_def insert_lock_def act_simps bindA_def tryA_def nowA_def Let_def WriteError_def busy_def)

lemma select_one_update_other:
  assumes "\<And>y. q y \<Longrightarrow> p (f y) = p y"
  shows "select_one p (update_where q f xs) = map_option (\<lambda>x. if q x then f x else x) (select_one p xs)"
  using assms by (induction xs) (auto simp: select_one_def update_where_def)

lemma select_one_snoc: "select_one p xs = None \<Longrightarrow> p x \<Longrightarrow> select_one p (xs @ [x]) = Some x"
  by (induction xs) (auto simp: select_one_def split: if_splits)

lemma rows_affected_mem: "x \<in> set xs \<Longrightarrow> p x \<Longrightarrow> rows_affected p xs \<noteq> 0"
  by (auto simp: rows_affected_def filter_empty_conv)

text \<open>The body a response is stored with.\<close>

definition stored_body :: "pgtypes \<Rightarrow> Response \<Rightarrow> string option" where
  "stored_body D resp = (if hs_Body resp = '''' then None else pg_jsonb D (hs_Body resp))"

definition storable :: "pgtypes \<Rightarrow> Response \<Rightarrow> bool" where
  "storable D resp \<longleftrightarrow> hs_Body resp = '''' \<or> pg_jsonb D (hs_Body resp) \<noteq> None"

lemma run_recorded_run:
  assumes "nxt r w = (Inr resp, v)" "select_one (row_of D (hr_IdempotencyKey r)) (w_idem v) = Some rec"
    and "ir_Status rec = IdempotencyStarted" "e_db_ok E (w_dbn v)" "storable D resp"
  obtains w' where "run_recorded E D nxt r w = (Inr resp, w')"
    "select_one (row_of D (hr_IdempotencyKey r)) (w_idem w') =
       Some (rec\<lparr>ir_Status := IdempotencyCompleted, ir_ResponseCode := Some (hs_Code resp), ir_ResponseBody := stored_body D resp\<rparr>)"
proof -
  let ?k = "hr_IdempotencyKey r"
  let ?f = "\<lambda>rec. rec\<lparr>ir_Status := IdempotencyCompleted, ir_ResponseCode := Some (hs_Code resp), ir_ResponseBody := stored_body D resp\<rparr>"
  have rec: "rec \<in> set (w_idem v)" "row_started D ?k rec"
    using assms(2,3) by (auto simp: row_started_def dest: select_one_Some)
  have k: "pg_uuid D ?k \<noteq> None" using rec by (auto simp: row_started_def row_of_def)
  have u: "idem_update E D ?k ?f v = (Inr (), v\<lparr>w_dbn := Suc (w_dbn v), w_idem := update_where (row_started D ?k) ?f (w_idem v)\<rparr>)"
    using assms(4) k rows_affected_mem [of rec "w_idem v" "row_started D ?k"] rec by (simp add: idem_update_def act_simps)
  have "MarkCompleted E D ?k (hs_Code resp) (if hs_Body resp = '''' then None else Some (hs_Body resp)) v
      = idem_update E D ?k ?f v"
    using assms(5) by (auto simp: MarkCompleted_def storable_def stored_body_def)
  then have "run_recorded E D nxt r w =
      (Inr resp, v\<lparr>w_dbn := Suc (w_dbn v), w_idem := update_where (row_started D ?k) ?f (w_idem v)\<rparr>)"
    using u by (simp add: run_recorded_def bindA_Inr [of "nxt r", OF assms(1)] act_simps)
  moreover have "select_one (row_of D ?k) (update_where (row_started D ?k) ?f (w_idem v)) = Some (?f rec)"
    using assms(2) rec(2) by (subst select_one_update_other) (auto simp: row_of_def)
  ultimately show thesis using that by simp
qed

section \<open>Properties\<close>


text \<open>A concrete payment request of Alice, and a handler that answers it.\<close>

definition any_pg :: pgtypes where
  "any_pg = \<lparr>pg_uuid = Some, pg_jsonb = Some\<rparr>"

definition pay_request :: Request where
  "pay_request = \<lparr>hr_Method = ''POST'', hr_Path = ''/v1/transfers/outbound'', hr_IdempotencyKey = ''k1'', hr_Authorization = '''',
     hr_RemoteAddr = ''10.0.0.1:5'', hr_Body = ''{}'', hr_MaxBytes = None, hr_UserID = replicate 36 (CHR ''a''), hr_StaffID = '''', hr_StaffRole = ''''\<rparr>"

definition created :: Response where
  "created = \<lparr>hs_Code = 201, hs_Body = ''{1}'', hs_Replayed = False\<rparr>"

definition pay_lock :: IdempotencyRecord where
  "pay_lock = new_lock ''k1'' (replicate 36 (CHR ''a'')) (HashPayload ''{}'') ''POST /v1/transfers/outbound'' 0"

definition locked_world :: "unit world" where
  "locked_world = (empty_world () (400 * second))\<lparr>w_idem := [pay_lock]\<rparr>"

lemma pay_enforced: "enforced ok_env any_pg pay_request w"
  by (simp add: enforced_def pay_request_def any_pg_def ok_env_def is_read_def read_body_def)




definition require_key :: "'l Handler \<Rightarrow> 'l Handler" where
  "require_key nxt r = (if is_read r then nxt r
     else if hr_IdempotencyKey r = '''' then WriteError 400 ''idempotency key header is required''
     else if length (hr_IdempotencyKey r) > 64 then WriteError 400 ''idempotency key must be at most 64 characters''
     else nxt r)"

text \<open>C35: the lock is never taken. The middleware is installed before authentication, which is what puts the user
  into the request, so a request under \<open>/v1\<close> is handled exactly as if the middleware only asked for a key: the
  idempotency table plays no part, and a repeated payment is executed again.\<close>

theorem v1_route_never_locks:
  assumes "hr_UserID r = ''''"
  shows "v1_route E D burst J signingKey handler r =
    Recovery (BodyLimit (2 ^ 20) (RateLimit burst (require_key (Auth J signingKey handler)))) r"
  using assms by (simp add: v1_route_def applyGlobalMiddleware_def Recovery_def BodyLimit_def RateLimit_def IdempotencyMW_def
      require_key_def is_read_def cong: if_cong)

text \<open>Alice's payment goes through twice under the same key.\<close>

definition any_jwt :: jwtlib where
  "any_jwt key now token = Inr \<lparr>mc_sub = Some token, mc_session = None, mc_exp = None, mc_iss = '''', mc_aud = [], mc_role = Some ''treasury''\<rparr>"

definition count_payment :: "unit Handler" where
  "count_payment r = bindA (modifyA (\<lambda>w. w\<lparr>w_acctseq := w_acctseq w + 1\<rparr>)) (\<lambda>_. retA created)"

theorem v1_route_never_locks_witness:
  "let route = v1_route ok_env any_pg 5 any_jwt ''s'' count_payment
         (pay_request\<lparr>hr_UserID := '''', hr_Authorization := ''Bearer '' @ replicate 36 (CHR ''a'')\<rparr>);
       w = (empty_world () 0)\<lparr>w_users := [user0\<lparr>u_ID := replicate 36 (CHR ''a'')\<rparr>]\<rparr>
   in fst (route w) = Inr created \<and> fst (route (snd (route w))) = Inr created
      \<and> w_acctseq (snd (route (snd (route w)))) = w_acctseq w + 2 \<and> w_idem (snd (route (snd (route w)))) = []"
proof -
  let ?r = "pay_request\<lparr>hr_UserID := '''', hr_Authorization := ''Bearer '' @ replicate 36 (CHR ''a'')\<rparr>"
  have route: "v1_route ok_env any_pg 5 any_jwt ''s'' count_payment ?r =
    Recovery (BodyLimit (2 ^ 20) (RateLimit 5 (require_key (Auth any_jwt ''s'' count_payment)))) ?r"
    by (rule v1_route_never_locks) simp
  show ?thesis unfolding Let_def route by code_simp
qed

text \<open>What a staff token must say to reach a route.\<close>

definition staff_token :: "AdminJWT \<Rightarrow> string \<Rightarrow> MapClaims \<Rightarrow> string \<Rightarrow> string \<Rightarrow> bool" where
  "staff_token cfg perm c sub role \<longleftrightarrow> mc_sub c = Some sub \<and> sub \<noteq> '''' \<and> mc_role c = Some role \<and> role \<noteq> ''''
     \<and> (aj_Issuer cfg = '''' \<or> mc_iss c = aj_Issuer cfg) \<and> (aj_Audience cfg = '''' \<or> aj_Audience cfg \<in> set (mc_aud c))
     \<and> (\<exists>perms. (role, perms) \<in> set RolePermissions \<and> perm \<in> set perms)"

text \<open>The handler of a staff route runs only for a bearer token that the library accepts under the administration
  secret, with the configured issuer and audience, a subject, and a role that holds the route's permission; it sees
  that subject and role. Every other request is answered with 401 or 403 and changes nothing.\<close>

lemma staff_route_guarded:
  "(\<exists>resp. AdminAuth J cfg (RequirePermission perm handler) r w = (Inr resp, w) \<and> hs_Code resp \<in> {401, 403})
   \<or> (\<exists>token c sub role. hr_Authorization r = ''Bearer '' @ token \<and> J (aj_Secret cfg) (w_now w) token = Inr c
        \<and> staff_token cfg perm c sub role
        \<and> AdminAuth J cfg (RequirePermission perm handler) r w = handler (r\<lparr>hr_StaffID := sub, hr_StaffRole := role\<rparr>) w)"
proof (cases "hr_Authorization r = '''' \<or> bearer r = hr_Authorization r")
  case True
  then show ?thesis by (auto simp: AdminAuth_def WriteError_def act_simps error_response_def)
next
  case False
  then have token: "hr_Authorization r = ''Bearer '' @ bearer r"
    using append_take_drop_id [of "length ''Bearer ''" "hr_Authorization r"]
    unfolding bearer_def TrimPrefix_def by (auto split: if_splits simp del: append_take_drop_id)
  have run: "AdminAuth J cfg (RequirePermission perm handler) r w =
      (case validateAdminJWT J cfg (w_now w) (bearer r) of
         Inl m \<Rightarrow> (Inr (error_response 401 (''invalid token: '' @ m)), w)
       | Inr (staffID, role) \<Rightarrow> RequirePermission perm handler (r\<lparr>hr_StaffID := staffID, hr_StaffRole := role\<rparr>) w)"
    using False by (auto simp: AdminAuth_def WriteError_def act_simps nowA_def split: sum.splits prod.splits)
  show ?thesis
  proof (cases "validateAdminJWT J cfg (w_now w) (bearer r)")
    case (Inl m)
    then show ?thesis by (simp add: run error_response_def)
  next
    case (Inr p)
    obtain sub role where p: "p = (sub, role)" by (cases p)
    obtain c where c: "J (aj_Secret cfg) (w_now w) (bearer r) = Inr c" "mc_sub c = Some sub" "sub \<noteq> ''''" "mc_role c = Some role" "role \<noteq> ''''"
      "aj_Issuer cfg = '''' \<or> mc_iss c = aj_Issuer cfg" "aj_Audience cfg = '''' \<or> aj_Audience cfg \<in> set (mc_aud c)"
      using Inr p unfolding validateAdminJWT_def by (auto split: sum.splits if_splits option.splits)
    show ?thesis
    proof (cases "staff_HasPermission role perm")
      case True
      then have "staff_token cfg perm c sub role"
        using c unfolding staff_HasPermission_def staff_token_def by (auto split: option.splits dest: map_of_SomeD)
      moreover have "AdminAuth J cfg (RequirePermission perm handler) r w = handler (r\<lparr>hr_StaffID := sub, hr_StaffRole := role\<rparr>) w"
        using run Inr p True c(5) by (simp add: RequirePermission_def)
      ultimately show ?thesis using token c(1) by blast
    next
      case False
      then show ?thesis using run Inr p c(5) by (simp add: RequirePermission_def WriteError_def act_simps error_response_def)
    qed
  qed
qed

section \<open>The rate limit\<close>

text \<open>Requests served one after the other, each at its time.\<close>

primrec serve :: "int \<Rightarrow> 'l Handler \<Rightarrow> (int \<times> Request) list \<Rightarrow> 'l world \<Rightarrow> (go_error + Response) list" where
  "serve burst h [] w = []"
| "serve burst h (q # qs) w = (case RateLimit burst h (snd q) (w\<lparr>w_now := fst q\<rparr>) of (res, w') \<Rightarrow> res # serve burst h qs w')"

text \<open>The counter of a window stands at \<open>n\<close> and outlives the window.\<close>

definition counted :: "string \<Rightarrow> int \<Rightarrow> int \<Rightarrow> 'l world \<Rightarrow> bool" where
  "counted k win n w \<longleftrightarrow> (case w_cache w k of None \<Rightarrow> n = 0
     | Some e \<Rightarrow> me_counter e = n \<and> (case me_expiresAt e of None \<Rightarrow> True | Some d \<Rightarrow> (win + 1) * second \<le> d))"

lemma window_bounds:
  assumes "t div second = win"
  shows "win * second \<le> t" "t < (win + 1) * second"
  using assms minus_mod_eq_div_mult [of t second] pos_mod_bound [of second t] pos_mod_sign [of second t]
  by (auto simp: second_def algebra_simps)

lemma RateLimit_counts:
  assumes "counted (rate_key r t) win n w" "t div second = win" "0 \<le> n" "n < 2 ^ 62"
  obtains w1 where "counted (rate_key r t) win (n + 1) w1"
    "RateLimit burst h r (w\<lparr>w_now := t\<rparr>) = (if n + 1 > burst then (Inr (error_response 429 ''rate limit exceeded''), w1) else h r w1)"
proof -
  let ?k = "rate_key r t"
  note b = window_bounds [OF assms(2)]
  obtain c where c: "cache_Increment (w_cache w) t ?k (2 * second) = (n + 1, c)" "counted ?k win (n + 1) (w\<lparr>w_now := t, w_cache := c\<rparr>)"
  proof (cases "w_cache w ?k")
    case None
    then show thesis
      using assms(1) b that by (simp add: cache_Increment_def counted_def deadline_def second_def)
  next
    case (Some e)
    have "\<not> me_expired e t" "me_counter e = n" using assms(1) Some b by (auto simp: counted_def me_expired_def split: option.splits)
    moreover have "i64 (n + 1) = n + 1" using assms(3,4) by (intro i64_id) (simp add: in_i64_def)
    ultimately show thesis using assms(1) Some that by (simp add: cache_Increment_def counted_def)
  qed
  have "RateLimit burst h r (w\<lparr>w_now := t\<rparr>) =
      (if n + 1 > burst then (Inr (error_response 429 ''rate limit exceeded''), w\<lparr>w_now := t, w_cache := c\<rparr>) else h r (w\<lparr>w_now := t, w_cache := c\<rparr>))"
    using c(1) by (simp add: RateLimit_def nowA_def cacheIncrement_def bindA_def act_simps WriteError_def)
  with c(2) show thesis by (rule that)
qed

lemma serve_counted:
  assumes "\<And>r v. w_cache (snd (h r v)) k = w_cache v k"
    and "\<forall>q \<in> set qs. rate_key (snd q) (fst q) = k \<and> fst q div second = win"
    and "counted k win n w" "0 \<le> n" "n + int (length qs) < 2 ^ 62" "i < length qs"
  shows "if n + int i < burst then \<exists>v. serve burst h qs w ! i = fst (h (snd (qs ! i)) v)
    else serve burst h qs w ! i = Inr (error_response 429 ''rate limit exceeded'')"
  using assms(2-)
proof (induction qs arbitrary: n w i)
  case (Cons q qs)
  have k: "rate_key (snd q) (fst q) = k" "fst q div second = win" using Cons.prems(1) by auto
  obtain w1 where w1: "counted k win (n + 1) w1"
    and run: "RateLimit burst h (snd q) (w\<lparr>w_now := fst q\<rparr>) =
      (if n + 1 > burst then (Inr (error_response 429 ''rate limit exceeded''), w1) else h (snd q) w1)"
    using RateLimit_counts [of "snd q" "fst q" win n w burst h] Cons.prems(2,3,4) k by auto
  obtain res w2 where r2: "RateLimit burst h (snd q) (w\<lparr>w_now := fst q\<rparr>) = (res, w2)" by fastforce
  have "w_cache w2 k = w_cache w1 k"
    using run r2 assms(1) [of "snd q" w1] by (cases "h (snd q) w1") (simp split: if_splits)
  then have c2: "counted k win (n + 1) w2" using w1 by (simp add: counted_def)
  show ?case
  proof (cases i)
    case 0
    then show ?thesis using run r2 by (cases "h (snd q) w1") (auto split: if_splits intro: exI [of _ w1])
  next
    case (Suc j)
    then show ?thesis using Cons.IH [of "n + 1" w2 j] c2 Cons.prems r2 by (simp add: add.assoc)
  qed
qed simp

text \<open>C36: of the requests one client sends within one second, exactly the first \<open>burst\<close> reach the handler and all
  others are answered with 429, whatever the handler does as long as it leaves the client's counter alone.\<close>

theorem RateLimit_burst:
  assumes "\<And>r v. w_cache (snd (h r v)) k = w_cache v k"
    and "\<forall>q \<in> set qs. rate_key (snd q) (fst q) = k \<and> fst q div second = win"
    and "w_cache w k = None" "int (length qs) < 2 ^ 62" "i < length qs"
  shows "if int i < burst then \<exists>v. serve burst h qs w ! i = fst (h (snd (qs ! i)) v)
    else serve burst h qs w ! i = Inr (error_response 429 ''rate limit exceeded'')"
  using serve_counted [of h k qs win 0 w i burst] assms by (simp add: counted_def)

theorem RateLimit_burst_witness:
  "serve 2 (\<lambda>r. retA created) (replicate 3 (5, pay_request)) (empty_world () 0) ! 1 = Inr created
   \<and> serve 2 (\<lambda>r. retA created) (replicate 3 (5, pay_request)) (empty_world () 0) ! 2 = Inr (error_response 429 ''rate limit exceeded'')"
proof -
  let ?h = "\<lambda>r :: Request. retA created :: (unit, Response) go"
  have "w_cache (snd (?h r v)) k = w_cache v k" for r v k by (simp add: act_simps)
  note burst = RateLimit_burst [of ?h "rate_key pay_request 5" "replicate 3 (5, pay_request)" 0 "empty_world () 0" _ 2, OF this]
  show ?thesis using burst [of 1] burst [of 2] by (simp add: empty_world_def NewMemoryCache_def second_def act_simps)
qed

end
