(* ===== verification/Accounts.thy ===== *)
theory Accounts
  imports Iban Regulatory Savings_Pots Conversion
begin

text \<open>
  The services around a customer's accounts: currency balances with their account details
  (\<open>internal/services/balances\<close>), the wallet views (\<open>internal/services/wallet\<close>) and the registered family members
  (\<open>internal/services/beneficiary\<close>), with the statements of \<open>internal/repository/transactions.go\<close> and
  \<open>internal/repository/beneficiaries.go\<close> they use. A relationship that is none of the three of the domain is stopped by
  the request's validation, so the column holds the domain's values.
\<close>

section \<open>Repositories\<close>

definition receipt_GetByEthSwitchReference :: "env \<Rightarrow> string \<Rightarrow> ('l, TransactionReceipt) go" where
  "receipt_GetByEthSwitchReference E ref = dbA E (bindA (getsA (\<lambda>w. select_one (\<lambda>r. rc_EthSwitchReference r = Some ref) (w_receipts w)))
     (\<lambda>r. case r of None \<Rightarrow> throwA (General ErrNotFound) | Some x \<Rightarrow> retA x))"

definition receipt_page :: "env \<Rightarrow> (TransactionReceipt \<Rightarrow> bool) \<Rightarrow> int \<Rightarrow> int \<Rightarrow> ('l, TransactionReceipt list) go" where
  "receipt_page E p limit offset = dbA E (if limit < 0 \<or> offset < 0 then throwA db_error else getsA (\<lambda>w.
     take (nat limit) (drop (nat offset) (sort_key (\<lambda>r. - rc_CreatedAt r) (filter p (w_receipts w))))))"

definition receipt_ListByUserID :: "env \<Rightarrow> string \<Rightarrow> int \<Rightarrow> int \<Rightarrow> ('l, TransactionReceipt list) go" where
  "receipt_ListByUserID E uid limit offset = receipt_page E (\<lambda>r. rc_UserID r = uid) limit offset"

definition receipt_ListByUserIDFiltered :: "env \<Rightarrow> string \<Rightarrow> string option \<Rightarrow> int \<Rightarrow> int \<Rightarrow> ('l, TransactionReceipt list) go" where
  "receipt_ListByUserIDFiltered E uid currency limit offset =
     (if currency \<notin> {None, Some ''''} then receipt_page E (\<lambda>r. rc_UserID r = uid \<and> Some (rc_Currency r) = currency) limit offset
      else receipt_page E (\<lambda>r. rc_UserID r = uid) limit offset)"

definition receipt_UpdateStatus :: "env \<Rightarrow> string \<Rightarrow> ReceiptStatus \<Rightarrow> ('l, unit) go" where
  "receipt_UpdateStatus E i status = dbA E (modifyA (\<lambda>w. w\<lparr>w_receipts := update_where (\<lambda>r. rc_ID r = i)
     (\<lambda>r. r\<lparr>rc_Status := status\<rparr>) (w_receipts w)\<rparr>))"

definition beneficiary_Create :: "env \<Rightarrow> Beneficiary \<Rightarrow> ('l, Beneficiary) go" where
  "beneficiary_Create E b = dbA E (bindA (newID E) (\<lambda>i. bindA nowA (\<lambda>now. bindA (getsA w_users) (\<lambda>us.
     if \<not> list_ex (\<lambda>u. u_ID u = bf_UserID b) us then throwA db_error
     else bindA (modifyA (\<lambda>w. w\<lparr>w_beneficiaries := w_beneficiaries w @ [b\<lparr>bf_ID := i, bf_CreatedAt := now, bf_DeletedAt := None\<rparr>]\<rparr>))
       (\<lambda>_. retA (b\<lparr>bf_ID := i, bf_CreatedAt := now\<rparr>))))))"

definition beneficiary_GetByID :: "env \<Rightarrow> string \<Rightarrow> ('l, Beneficiary) go" where
  "beneficiary_GetByID E i = dbA E (bindA (getsA (\<lambda>w. select_one (\<lambda>b. bf_ID b = i \<and> bf_DeletedAt b = None) (w_beneficiaries w)))
     (\<lambda>r. case r of None \<Rightarrow> throwA (Regulatory ErrBeneficiaryNotFound) | Some b \<Rightarrow> retA b))"

definition beneficiary_ListByUser :: "env \<Rightarrow> string \<Rightarrow> ('l, Beneficiary list) go" where
  "beneficiary_ListByUser E uid = dbA E (getsA (\<lambda>w. sort_key (\<lambda>b. - bf_CreatedAt b)
     (filter (\<lambda>b. bf_UserID b = uid \<and> bf_DeletedAt b = None) (w_beneficiaries w))))"

definition beneficiary_SoftDelete :: "env \<Rightarrow> string \<Rightarrow> string \<Rightarrow> ('l, unit) go" where
  "beneficiary_SoftDelete E i uid = dbA E (bindA nowA (\<lambda>now. bindA (getsA w_beneficiaries) (\<lambda>bs.
     let p = (\<lambda>b. bf_ID b = i \<and> bf_UserID b = uid \<and> bf_DeletedAt b = None) in
     if rows_affected p bs = 0 then throwA (Regulatory ErrBeneficiaryNotFound)
     else modifyA (\<lambda>w. w\<lparr>w_beneficiaries := update_where p (\<lambda>b. b\<lparr>bf_DeletedAt := Some now\<rparr>) bs\<rparr>))))"

section \<open>Currency balances\<close>

record CreateBalanceRequest =
  cbr_CurrencyCode :: string
  cbr_FXSource :: "string option"

definition createBalance_Validate :: "env \<Rightarrow> CreateBalanceRequest \<Rightarrow> go_error + unit" where
  "createBalance_Validate E r = Struct E [(FStr (cbr_CurrencyCode r), [''required'', ''currency''])]"

definition new_details :: "string \<Rightarrow> string \<Rightarrow> string \<Rightarrow> string \<Rightarrow> AccountDetails" where
  "new_details balanceID currencyCode accountNumber iban =
     \<lparr>ad_ID = '''', ad_CurrencyBalanceID = balanceID, ad_IBAN = iban, ad_AccountNumber = accountNumber,
      ad_BankName = ''Neo Bank Ethiopia'', ad_SwiftCode = ''NEOBETET'',
      ad_RoutingNumber = (if currencyCode = CurrencyUSD then Some ''021000021'' else None)\<rparr>"

text \<open>An IBAN that cannot be computed is a nil dereference.\<close>

definition generateAccountDetails :: "env \<Rightarrow> string \<Rightarrow> string \<Rightarrow> ('l, AccountDetails) go" where
  "generateAccountDetails E balanceID currencyCode =
     bindA (tryA (details_GetByCurrencyBalanceID E balanceID)) (\<lambda>existing.
     case existing of
       Inr (Some d) \<Rightarrow> retA d
     | _ \<Rightarrow>
       bindA (details_NextAccountNumber E) (\<lambda>seq.
       let accountNumber = FormatAccountNumber seq in
       case Generate accountNumber currencyCode of
         None \<Rightarrow> throwA (Opaque ''nil pointer dereference'')
       | Some iban \<Rightarrow> details_Create E (new_details balanceID currencyCode accountNumber iban)))"

definition new_balance :: "string \<Rightarrow> string \<Rightarrow> bool \<Rightarrow> string option \<Rightarrow> CurrencyBalance" where
  "new_balance userID currencyCode isPrimary fx =
     \<lparr>cb_ID = '''', cb_UserID = userID, cb_CurrencyCode = currencyCode, cb_IsPrimary = isPrimary, cb_FXSource = fx,
      cb_CreatedAt = 0, cb_DeletedAt = None\<rparr>"

definition check_kyc :: "env \<Rightarrow> string \<Rightarrow> string \<Rightarrow> ('l, unit) go" where
  "check_kyc E userID currencyCode =
     whenA (currencyCode \<noteq> CurrencyETB)
       (bindA (user_GetByID E userID) (\<lambda>user.
        if u_KYCLevel user < KYCVerified then throwA (Regulatory ErrKYCInsufficientForFX) else retA ()))"

definition open_balance :: "env \<Rightarrow> string \<Rightarrow> CreateBalanceRequest \<Rightarrow> ('l, CurrencyBalance) go" where
  "open_balance E userID req =
     (let currencyCode = cbr_CurrencyCode req in
      bindA (tryA (balance_GetSoftDeleted E userID currencyCode)) (\<lambda>softDeleted.
      case softDeleted of
        Inr _ \<Rightarrow> balance_Reactivate E userID currencyCode
      | Inl _ \<Rightarrow> balance_Create E (new_balance userID currencyCode False (cbr_FXSource req))))"

definition CreateCurrencyBalance :: "env \<Rightarrow> string \<Rightarrow> CreateBalanceRequest \<Rightarrow> ('l, CurrencyBalanceWithDetails) go" where
  "CreateCurrencyBalance E userID req =
     bindA (liftE (createBalance_Validate E req)) (\<lambda>_.
     let currencyCode = cbr_CurrencyCode req in
     bindA (liftE (LookupCurrency currencyCode)) (\<lambda>cur.
     bindA (check_kyc E userID currencyCode) (\<lambda>_.
     bindA (tryA (balance_GetByUserAndCurrency E userID currencyCode)) (\<lambda>existing.
     if (case existing of Inl e \<Rightarrow> False | Inr b \<Rightarrow> True) then throwA (Wallets ErrBalanceAlreadyActive) else
     bindA (open_balance E userID req) (\<lambda>bal.
     bindA (if HasAccountDetails cur then bindA (generateAccountDetails E (cb_ID bal) currencyCode) (\<lambda>d. retA (Some d)) else retA None) (\<lambda>details.
     retA \<lparr>cw_CurrencyBalance = bal, cw_AccountDetails = details, cw_BalanceCents = 0, cw_Display = Display 0 currencyCode\<rparr>))))))"

definition DeleteCurrencyBalance :: "env \<Rightarrow> 'l Client \<Rightarrow> string \<Rightarrow> string \<Rightarrow> ('l, unit) go" where
  "DeleteCurrencyBalance E L userID currencyCode =
     bindA (balance_GetByUserAndCurrency E userID currencyCode) (\<lambda>bal.
     if cb_IsPrimary bal then throwA (Wallets ErrCannotDeletePrimary) else
     bindA (user_GetByID E userID) (\<lambda>user.
     bindA (ledA (GetWalletBalance L (u_LedgerWalletID user) (FormatAsset [currencyCode]))) (\<lambda>formanceBalance.
     if i64 formanceBalance \<noteq> 0 then throwA (Wallets ErrBalanceNotEmpty) else
     balance_SoftDelete E userID currencyCode)))"

definition enrich_balance :: "env \<Rightarrow> (string \<times> int) list \<Rightarrow> CurrencyBalance \<Rightarrow> ('l, CurrencyBalanceWithDetails) go" where
  "enrich_balance E formanceBalances b =
     (let cents = (case map_of formanceBalances (FormatAsset [cb_CurrencyCode b]) of None \<Rightarrow> 0 | Some n \<Rightarrow> i64 n) in
      bindA (tryA (details_GetByCurrencyBalanceID E (cb_ID b))) (\<lambda>details.
      retA \<lparr>cw_CurrencyBalance = b, cw_AccountDetails = (case details of Inr d \<Rightarrow> d | Inl e \<Rightarrow> None), cw_BalanceCents = cents,
        cw_Display = Display cents (cb_CurrencyCode b)\<rparr>))"

definition ListActiveCurrencyBalances :: "env \<Rightarrow> 'l Client \<Rightarrow> string \<Rightarrow> ('l, CurrencyBalanceWithDetails list) go" where
  "ListActiveCurrencyBalances E L userID =
     bindA (user_GetByID E userID) (\<lambda>user.
     bindA (balance_ListActiveByUser E userID) (\<lambda>active.
     bindA (ledA (GetMultiCurrencyBalances L (u_LedgerWalletID user) (map (\<lambda>b. FormatAsset [cb_CurrencyCode b]) active))) (\<lambda>formanceBalances.
     mapA (enrich_balance E formanceBalances) active)))"

definition CreateDefaultBalance :: "env \<Rightarrow> string \<Rightarrow> ('l, CurrencyBalance \<times> AccountDetails) go" where
  "CreateDefaultBalance E userID =
     bindA (balance_Create E (new_balance userID CurrencyETB True None)) (\<lambda>bal.
     bindA (generateAccountDetails E (cb_ID bal) CurrencyETB) (\<lambda>details.
     retA (bal, details)))"

section \<open>Wallet views\<close>

record BalanceView =
  bv_WalletID :: string
  bv_Currency :: string
  bv_Symbol :: string
  bv_BalanceCents :: int
  bv_Display :: string

definition GetBalance :: "env \<Rightarrow> 'l Client \<Rightarrow> string \<Rightarrow> string \<Rightarrow> ('l, BalanceView) go" where
  "GetBalance E L userID currencyCode =
     bindA (user_GetByID E userID) (\<lambda>user.
     bindA (liftE (LookupCurrency (to_upper (if currencyCode = '''' then CurrencyETB else currencyCode)))) (\<lambda>cur.
     bindA (ledA (GetWalletBalance L (u_LedgerWalletID user) (FormatAsset [Code cur]))) (\<lambda>balance.
     retA \<lparr>bv_WalletID = u_LedgerWalletID user, bv_Currency = Code cur, bv_Symbol = Symbol cur, bv_BalanceCents = i64 balance,
       bv_Display = Display (i64 balance) (Code cur)\<rparr>)))"

definition active_currencies :: "CurrencyBalance list \<Rightarrow> (string \<times> currency) list" where
  "active_currencies bs = concat (map (\<lambda>b. case LookupCurrency (cb_CurrencyCode b) of Inl e \<Rightarrow> [] | Inr cur \<Rightarrow> [(FormatAsset [cb_CurrencyCode b], cur)]) bs)"

definition code_of_asset :: "string \<Rightarrow> string" where
  "code_of_asset asset = takeWhile (\<lambda>ch. ch \<noteq> CHR ''/'') asset"

definition balance_by_currency :: "(string \<times> int) list \<Rightarrow> string \<Rightarrow> int" where
  "balance_by_currency m code = (case map_of (map (\<lambda>(asset, n). (code_of_asset asset, i64 n)) m) code of None \<Rightarrow> 0 | Some n \<Rightarrow> n)"

definition mid_rate :: "(string \<Rightarrow> string \<Rightarrow> ('l, Rate) go) \<Rightarrow> currency \<Rightarrow> ('l, (string \<times> float64) list) go" where
  "mid_rate rates cur =
     (if Code cur = CurrencyETB then retA [] else
      bindA (tryA (rates (Code cur) CurrencyETB)) (\<lambda>r. retA (case r of Inl e \<Rightarrow> [] | Inr rate \<Rightarrow> [(Code cur, rt_Mid rate)])))"

definition GetSummary :: "env \<Rightarrow> 'l Client \<Rightarrow> (string \<Rightarrow> string \<Rightarrow> ('l, Rate) go) \<Rightarrow> string \<Rightarrow> ('l, account_summary) go" where
  "GetSummary E L rates userID =
     bindA (user_GetByID E userID) (\<lambda>user.
     bindA (tryA (balance_ListActiveByUser E userID)) (\<lambda>res.
     let activeBalances = (case res of Inl e \<Rightarrow> [] | Inr bs \<Rightarrow> bs);
         found = active_currencies activeBalances;
         assets = (if activeBalances = [] then AllAssets else map fst found);
         activeCurrencies = (if activeBalances = [] then SupportedCurrencies else map snd found) in
     bindA (ledA (GetMultiCurrencyBalances L (u_LedgerWalletID user) assets)) (\<lambda>balanceMap.
     bindA (mapA (mid_rate rates) activeCurrencies) (\<lambda>rs.
     retA (BuildAccountSummary (u_LedgerWalletID user) (balance_by_currency balanceMap) (map_of (concat rs))
       (if activeCurrencies = [] then None else Some activeCurrencies))))))"

record TransactionView =
  tv_Receipt :: TransactionReceipt
  tv_ConvertedCurrency :: "string option"
  tv_ConvertedAmountCents :: "int option"

text \<open>An incoming half of a conversion whose outgoing half is on the page is folded into it.\<close>

definition has_out :: "TransactionReceipt list \<Rightarrow> TransactionReceipt \<Rightarrow> bool" where
  "has_out receipts tx \<longleftrightarrow> list_ex (\<lambda>o'. rc_Type o' = ReceiptConvertOut \<and> rc_LedgerTransactionID o' = rc_LedgerTransactionID tx) receipts"

definition find_in :: "TransactionReceipt list \<Rightarrow> TransactionReceipt \<Rightarrow> TransactionReceipt option" where
  "find_in receipts tx = find (\<lambda>i. rc_Type i = ReceiptConvertIn \<and> rc_LedgerTransactionID i = rc_LedgerTransactionID tx) receipts"

definition transaction_view :: "TransactionReceipt list \<Rightarrow> TransactionReceipt \<Rightarrow> TransactionView" where
  "transaction_view receipts tx =
     (case (if rc_Type tx = ReceiptConvertOut then find_in receipts tx else None) of
        None \<Rightarrow> \<lparr>tv_Receipt = tx, tv_ConvertedCurrency = None, tv_ConvertedAmountCents = None\<rparr>
      | Some i \<Rightarrow> \<lparr>tv_Receipt = tx\<lparr>rc_Metadata := rc_Metadata i\<rparr>, tv_ConvertedCurrency = Some (rc_Currency i),
          tv_ConvertedAmountCents = Some (rc_AmountCents i)\<rparr>)"

definition transaction_views :: "TransactionReceipt list \<Rightarrow> TransactionView list" where
  "transaction_views receipts =
     map (transaction_view receipts) (filter (\<lambda>tx. \<not> (rc_Type tx = ReceiptConvertIn \<and> has_out receipts tx)) receipts)"

definition ListTransactions :: "env \<Rightarrow> string \<Rightarrow> string option \<Rightarrow> int \<Rightarrow> int \<Rightarrow> ('l, TransactionView list) go" where
  "ListTransactions E userID currency limit offset =
     bindA (receipt_ListByUserIDFiltered E userID currency limit offset) (\<lambda>receipts. retA (transaction_views receipts))"

section \<open>Beneficiaries\<close>

record CreateBeneficiaryRequest =
  cbf_FullName :: string
  cbf_Relationship :: string
  cbf_DocumentURL :: string

definition relationship_of :: "string \<Rightarrow> BeneficiaryRelType option" where
  "relationship_of s = map_of [(''spouse'', BeneficiarySpouse), (''child'', BeneficiaryChild), (''parent'', BeneficiaryParent)] s"

definition createBeneficiary_Validate :: "env \<Rightarrow> CreateBeneficiaryRequest \<Rightarrow> go_error + BeneficiaryRelType" where
  "createBeneficiary_Validate E r =
     (case Struct E [(FStr (cbf_FullName r), [''required'', ''min=2'', ''max=200'']),
        (FStr (cbf_Relationship r), [''required'', ''oneof=spouse child parent''])] of
        Inl e \<Rightarrow> Inl e
      | Inr _ \<Rightarrow> (case relationship_of (cbf_Relationship r) of None \<Rightarrow> Inl (General ErrInvalidInput) | Some rel \<Rightarrow> Inr rel))"

definition CreateBeneficiary :: "env \<Rightarrow> string \<Rightarrow> CreateBeneficiaryRequest \<Rightarrow> ('l, Beneficiary) go" where
  "CreateBeneficiary E userID req =
     bindA (liftE (createBeneficiary_Validate E req)) (\<lambda>rel.
     bindA (beneficiary_Create E \<lparr>bf_ID = '''', bf_UserID = userID, bf_FullName = cbf_FullName req, bf_Relationship = rel,
       bf_DocumentURL = (if cbf_DocumentURL req \<noteq> '''' then Some (cbf_DocumentURL req) else None), bf_IsVerified = False,
       bf_CreatedAt = 0, bf_DeletedAt = None\<rparr>) (\<lambda>b.
     bindA (ignoreA (audit_Log E (audit_entry ''beneficiary_added'' ''user'' (Some userID) ''beneficiary'' (bf_ID b)))) (\<lambda>_.
     retA b)))"

definition ListBeneficiaries :: "env \<Rightarrow> string \<Rightarrow> ('l, Beneficiary list) go" where
  "ListBeneficiaries E userID = beneficiary_ListByUser E userID"

definition DeleteBeneficiary :: "env \<Rightarrow> string \<Rightarrow> string \<Rightarrow> ('l, unit) go" where
  "DeleteBeneficiary E i userID =
     bindA (beneficiary_SoftDelete E i userID) (\<lambda>_.
     ignoreA (audit_Log E (audit_entry ''beneficiary_removed'' ''user'' (Some userID) ''beneficiary'' i)))"

text \<open>Evaluation unfolds an action only when it runs.\<close>

lemmas accounts_code [code] =
  receipt_GetByEthSwitchReference_def [THEN fun_cong]
  receipt_page_def [THEN fun_cong]
  receipt_ListByUserID_def [THEN fun_cong]
  receipt_ListByUserIDFiltered_def [THEN fun_cong]
  receipt_UpdateStatus_def [THEN fun_cong]
  beneficiary_Create_def [THEN fun_cong]
  beneficiary_GetByID_def [THEN fun_cong]
  beneficiary_ListByUser_def [THEN fun_cong]
  beneficiary_SoftDelete_def [THEN fun_cong]
  generateAccountDetails_def [THEN fun_cong]
  check_kyc_def [THEN fun_cong]
  open_balance_def [THEN fun_cong]
  CreateCurrencyBalance_def [THEN fun_cong]
  DeleteCurrencyBalance_def [THEN fun_cong]
  enrich_balance_def [THEN fun_cong]
  ListActiveCurrencyBalances_def [THEN fun_cong]
  CreateDefaultBalance_def [THEN fun_cong]
  GetBalance_def [THEN fun_cong]
  mid_rate_def [THEN fun_cong]
  GetSummary_def [THEN fun_cong]
  ListTransactions_def [THEN fun_cong]
  CreateBeneficiary_def [THEN fun_cong]
  ListBeneficiaries_def [THEN fun_cong]
  DeleteBeneficiary_def [THEN fun_cong]

section \<open>Well-formed accounts\<close>

text \<open>At most one active balance per customer and currency; account details with valid check digits, one per balance,
  and no IBAN or account number given out twice.\<close>

definition balances_ok :: "CurrencyBalance list \<Rightarrow> bool" where
  "balances_ok bs \<longleftrightarrow> (\<forall>u c. rows_affected (bal_active u c) bs \<le> 1)"

definition details_ok :: "AccountDetails list \<Rightarrow> bool" where
  "details_ok ds \<longleftrightarrow> (\<forall>d \<in> set ds. Validate (ad_IBAN d)) \<and> distinct (map ad_IBAN ds) \<and> distinct (map ad_AccountNumber ds)
     \<and> distinct (map ad_CurrencyBalanceID ds)"

definition accounts_ok :: "'l world \<Rightarrow> bool" where
  "accounts_ok w \<longleftrightarrow> balances_ok (w_balances w) \<and> details_ok (w_details w) \<and> 0 \<le> w_acctseq w"

lemma rows_affected_update: "rows_affected p (update_where q f xs) \<le> rows_affected p xs + rows_affected q xs"
  by (induction xs) (auto simp: rows_affected_def update_where_def)

lemma rows_affected_update_other:
  "(\<And>x. q x \<Longrightarrow> \<not> p (f x)) \<Longrightarrow> rows_affected p (update_where q f xs) \<le> rows_affected p xs"
  by (induction xs) (auto simp: rows_affected_def update_where_def)

lemma balances_ok_add:
  assumes "balances_ok bs" "rows_affected (bal_active (cb_UserID b) (cb_CurrencyCode b)) bs = 0"
  shows "balances_ok (bs @ [b])"
  unfolding balances_ok_def
proof (intro allI)
  fix u c
  show "rows_affected (bal_active u c) (bs @ [b]) \<le> 1"
    using assms by (cases "bal_active u c b") (auto simp: balances_ok_def rows_affected_def bal_active_def)
qed

lemma balances_ok_delete:
  "balances_ok bs \<Longrightarrow> balances_ok (update_where (bal_active u c) (\<lambda>b. b\<lparr>cb_DeletedAt := Some t\<rparr>) bs)"
  unfolding balances_ok_def
  by (intro allI le_trans [OF rows_affected_update_other]) (auto simp: bal_active_def)

lemma balances_ok_reactivate:
  assumes "balances_ok bs" "\<not> 1 < rows_affected (bal_deleted u c) bs"
    and "\<not> (rows_affected (bal_deleted u c) bs = 1 \<and> rows_affected (bal_active u c) bs \<noteq> 0)"
  shows "balances_ok (update_where (bal_deleted u c) (\<lambda>b. b\<lparr>cb_DeletedAt := None\<rparr>) bs)"
  unfolding balances_ok_def
proof (intro allI)
  fix u' c'
  let ?bs = "update_where (bal_deleted u c) (\<lambda>b. b\<lparr>cb_DeletedAt := None\<rparr>) bs"
  have one: "rows_affected (bal_active u' c') bs \<le> 1" using assms(1) by (simp add: balances_ok_def)
  show "rows_affected (bal_active u' c') ?bs \<le> 1"
  proof (cases "u' = u \<and> c' = c")
    case True
    then show ?thesis
      using rows_affected_update [of "bal_active u c" "bal_deleted u c" "\<lambda>b. b\<lparr>cb_DeletedAt := None\<rparr>" bs] assms(2,3) one by auto
  next
    case False
    then have "rows_affected (bal_active u' c') ?bs \<le> rows_affected (bal_active u' c') bs"
      by (intro rows_affected_update_other) (auto simp: bal_active_def bal_deleted_def)
    with one show ?thesis by linarith
  qed
qed

lemma accounts_same:
  "(\<And>w. w_balances (snd (m w)) = w_balances w \<and> w_details (snd (m w)) = w_details w \<and> w_acctseq (snd (m w)) = w_acctseq w)
   \<Longrightarrow> keepsA accounts_ok m"
  by (simp add: keepsA_def accounts_ok_def)

lemmas run_defs = dbA_def Let_def bindA_def getsA_def modifyA_def throwA_def retA_def nowA_def newID_def tryA_def

lemma accounts_reads:
  "keepsA accounts_ok (ledA m)" "keepsA accounts_ok (balance_GetByUserAndCurrency E u c)" "keepsA accounts_ok (balance_GetSoftDeleted E u c)"
  "keepsA accounts_ok (user_GetByID E u)" "keepsA accounts_ok (check_kyc E u c)"
  by (rule accounts_same; simp add: ledA_def balance_GetByUserAndCurrency_def balance_GetSoftDeleted_def user_GetByID_def user_query_def
      check_kyc_def whenA_def run_defs split: prod.splits option.splits)+

lemma accounts_balances:
  "keepsA accounts_ok (balance_Create E b)" "keepsA accounts_ok (balance_SoftDelete E u c)" "keepsA accounts_ok (balance_Reactivate E u c)"
  by (rule keepsAI; auto simp: balance_Create_def balance_SoftDelete_def balance_Reactivate_def accounts_ok_def run_defs
      balances_ok_add balances_ok_delete balances_ok_reactivate split: option.splits)+
text \<open>Generated account details.\<close>

lemma FormatAccountNumber_alnum: "0 \<le> seq \<Longrightarrow> alnum (FormatAccountNumber seq)"
  using pad0_digits by (simp add: FormatAccountNumber_def alnum_def list_all_iff)

lemma LookupCurrency_alnum:
  assumes "LookupCurrency c = Inr cur"
  shows "alnum c"
proof -
  have "to_upper c \<in> {''ETB'', ''USD'', ''EUR''}"
    using assms by (auto simp: LookupCurrency_def registry_def split: option.splits if_splits)
  then show ?thesis
    by (auto simp: alnum_def to_upper_def is_upper_def)
qed

lemma accounts_generate:
  assumes "alnum cur"
  shows "keepsA accounts_ok (generateAccountDetails E b cur)"
proof (rule keepsAI)
  fix w :: "'l world"
  assume ok: "accounts_ok w"
  have iban: "Validate s" if "Generate (FormatAccountNumber (w_acctseq v)) cur = Some s" "accounts_ok v" for s and v :: "'l world"
    using Generate_ok [OF FormatAccountNumber_alnum assms, of "w_acctseq v"] that by (auto simp: accounts_ok_def)
  have "keepsA accounts_ok (details_Create E (new_details b cur n s))" if "Validate s" for n s
    by (rule keepsAI) (use that in \<open>auto simp: details_Create_def accounts_ok_def details_ok_def new_details_def run_defs list_ex_iff\<close>)
  then have create: "accounts_ok (snd (details_Create E (new_details b cur n s) v))" if "Validate s" "accounts_ok v" for n s and v :: "'l world"
    using that unfolding keepsA_def by blast
  have fresh: "accounts_ok (snd (bindA (details_NextAccountNumber E) (\<lambda>seq. case Generate (FormatAccountNumber seq) cur of
         None \<Rightarrow> throwA (Opaque ''nil pointer dereference'')
       | Some iban \<Rightarrow> details_Create E (new_details b cur (FormatAccountNumber seq) iban)) v))" if "accounts_ok v" for v :: "'l world"
    using that iban create
    by (auto simp: details_NextAccountNumber_def run_defs accounts_ok_def split: option.splits)
  have "accounts_ok (snd (details_GetByCurrencyBalanceID E b w))"
    using ok by (simp add: details_GetByCurrencyBalanceID_def run_defs accounts_ok_def)
  then show "accounts_ok (snd (generateAccountDetails E b cur w))"
    using fresh by (cases "details_GetByCurrencyBalanceID E b w") (auto simp: generateAccountDetails_def act_simps Let_def split: sum.splits option.splits)
qed

lemma accounts_open [keeps]: "keepsA accounts_ok (open_balance E u req)"
  unfolding open_balance_def Let_def by (intro keeps accounts_reads accounts_balances)

lemma accounts_operations:
  "keepsA accounts_ok (CreateCurrencyBalance E u req)" "keepsA accounts_ok (DeleteCurrencyBalance E L u c)"
  "keepsA accounts_ok (CreateDefaultBalance E u)"
proof -
  show "keepsA accounts_ok (CreateCurrencyBalance E u req)"
  proof (cases "LookupCurrency (cbr_CurrencyCode req)")
    case (Inl e)
    then show ?thesis unfolding CreateCurrencyBalance_def Let_def by (simp add: bindA_simps) (intro keeps)
  next
    case (Inr cur)
    note g = accounts_generate [OF LookupCurrency_alnum [OF Inr]]
    show ?thesis unfolding CreateCurrencyBalance_def Let_def by (intro keeps accounts_reads g)
  qed
  show "keepsA accounts_ok (DeleteCurrencyBalance E L u c)"
    unfolding DeleteCurrencyBalance_def by (intro keeps accounts_reads accounts_balances)
  have "alnum CurrencyETB" by code_simp
  then show "keepsA accounts_ok (CreateDefaultBalance E u)"
    unfolding CreateDefaultBalance_def by (intro keeps accounts_balances accounts_generate)
qed

text \<open>The operations of the balances service, in any order, for any customers, with any failures, and whatever else
  happens to the other tables in between.\<close>

inductive account_step :: "env \<Rightarrow> 'l Client \<Rightarrow> 'l world \<Rightarrow> 'l world \<Rightarrow> bool" for E L where
  create: "CreateCurrencyBalance E u req w = (x1, w') \<Longrightarrow> account_step E L w w'"
| delete: "DeleteCurrencyBalance E L u c w = (x2, w') \<Longrightarrow> account_step E L w w'"
| default: "CreateDefaultBalance E u w = (x3, w') \<Longrightarrow> account_step E L w w'"
| other: "w_balances w' = w_balances w \<Longrightarrow> w_details w' = w_details w \<Longrightarrow> w_acctseq w' = w_acctseq w \<Longrightarrow> account_step E L w w'"

section \<open>Properties\<close>

text \<open>C37: accounts stay well formed: whatever sequence of openings, closings, reopenings and failures, a customer has at
  most one active balance per currency, every IBAN that was given out carries valid check digits, and no IBAN, account
  number or balance appears twice among the account details.\<close>

theorem accounts_well_formed:
  assumes "(account_step E L)\<^sup>*\<^sup>* w w'" "accounts_ok w"
  shows "accounts_ok w'"
  using assms
proof (induction rule: rtranclp_induct)
  case (step v v')
  from step.hyps(2) show ?case
  proof cases
    case other
    then show ?thesis using step by (simp add: accounts_ok_def)
  qed (use step accounts_operations keepsA_run in \<open>metis\<close>)+
qed

text \<open>The database fails after the balance was opened.\<close>

theorem accounts_well_formed_witness:
  "let E = ok_env\<lparr>e_db_ok := (\<lambda>n. n < 4)\<rparr>; w = (empty_world () 5)\<lparr>w_users := [user0\<lparr>u_KYCLevel := 2\<rparr>]\<rparr>;
       r = CreateCurrencyBalance E ''ua'' \<lparr>cbr_CurrencyCode = ''USD'', cbr_FXSource = None\<rparr> w
   in accounts_ok (snd r) \<and> fst r = Inl db_error \<and> map cb_CurrencyCode (w_balances (snd r)) = [''USD'']"
proof -
  let ?E = "ok_env\<lparr>e_db_ok := (\<lambda>n. n < 4)\<rparr>" and ?w = "(empty_world () 5)\<lparr>w_users := [user0\<lparr>u_KYCLevel := 2\<rparr>]\<rparr>"
  let ?r = "CreateCurrencyBalance ?E ''ua'' \<lparr>cbr_CurrencyCode = ''USD'', cbr_FXSource = None\<rparr> ?w"
  have "account_step ?E undefined ?w (snd ?r)" by (rule account_step.create [OF prod.collapse [symmetric]])
  then have "(account_step ?E undefined)\<^sup>*\<^sup>* ?w (snd ?r)" by (rule r_into_rtranclp)
  moreover have "accounts_ok ?w"
    by (simp add: accounts_ok_def balances_ok_def details_ok_def empty_world_def rows_affected_def)
  ultimately have "accounts_ok (snd ?r)" by (rule accounts_well_formed)
  moreover have "fst ?r = Inl db_error" "map cb_CurrencyCode (w_balances (snd ?r)) = [''USD'']" by code_simp+
  ultimately show ?thesis by simp
qed

text \<open>A currency balance is closed only when it is active, not the primary one, and the customer's wallet in the
  ledger holds nothing in that currency; closing marks that balance alone and moves no money.\<close>

lemma DeleteCurrencyBalance_only_empty:
  assumes lc: "ledger_client L c view holdOf nexth"
    and run: "DeleteCurrencyBalance E L userID cur w = (Inr u, w')"
    and range: "\<forall>x \<in> set (w_users w). in_i64 (lv_bal (view (w_ledger w)) (MainAccount c (u_LedgerWalletID x)) (FormatAsset [cur]))"
  shows "\<exists>b user. b \<in> set (w_balances w) \<and> bal_active userID cur b \<and> \<not> cb_IsPrimary b \<and> user \<in> set (w_users w) \<and> u_ID user = userID
    \<and> lv_bal (view (w_ledger w)) (MainAccount c (u_LedgerWalletID user)) (FormatAsset [cur]) = 0
    \<and> w_balances w' = update_where (bal_active userID cur) (\<lambda>b. b\<lparr>cb_DeletedAt := Some (w_now w)\<rparr>) (w_balances w)
    \<and> view (w_ledger w') = view (w_ledger w)"
proof -
  obtain b w1 user w2 n w3 where g: "balance_GetByUserAndCurrency E userID cur w = (Inr b, w1)" and np: "\<not> cb_IsPrimary b"
    and us: "user_GetByID E userID w1 = (Inr user, w2)"
    and bl: "ledA (GetWalletBalance L (u_LedgerWalletID user) (FormatAsset [cur])) w2 = (Inr n, w3)" and z: "i64 n = 0"
    and d: "balance_SoftDelete E userID cur w3 = (Inr (), w')"
    using run by (auto simp: DeleteCurrencyBalance_def runs)
  have b: "b \<in> set (w_balances w)" "bal_active userID cur b" and w1: "w1 = w\<lparr>w_dbn := Suc (w_dbn w)\<rparr>"
    using g by (auto simp: balance_GetByUserAndCurrency_def runs dbA_run dest!: select_one_Some split: option.splits)
  note ur = user_GetByID_run [OF us] and br = ledger_client.wallet_balance_run [OF lc bl]
  have user: "user \<in> set (w_users w)" using ur(1) w1 by simp
  have st: "w_ledger w2 = w_ledger w" "w_now w2 = w_now w" using stable_fields [OF ur(3)] w1 by simp_all
  have bals: "w_balances w2 = w_balances w" using arg_cong [OF ur(3), of w_balances] w1 by (simp add: stable_def)
  have "n = 0" using z br(1) st range user by simp
  moreover have "w' = w3\<lparr>w_dbn := Suc (w_dbn w3), w_balances := update_where (bal_active userID cur) (\<lambda>b. b\<lparr>cb_DeletedAt := Some (w_now w3)\<rparr>) (w_balances w3)\<rparr>"
    using d by (auto simp: balance_SoftDelete_def runs dbA_run nowA_def split: if_splits)
  moreover have "w_balances w3 = w_balances w" "w_now w3 = w_now w"
    using arg_cong [OF br(3), of w_balances] arg_cong [OF br(3), of w_now] bals st by simp_all
  ultimately show ?thesis using b np user ur(2) br st by (intro exI [of _ b] exI [of _ user]) simp
qed

definition usd_world :: "engine fclient world" where
  "usd_world = (empty_world (seeded [(MainAccount neo ''wa'', 500, ''ETB/2'')]) 1000)
     \<lparr>w_users := [user0], w_balances := [(new_balance ''ua'' ''USD'' False None)\<lparr>cb_ID := ''c1''\<rparr>]\<rparr>"

lemma DeleteCurrencyBalance_only_empty_witness:
  "\<exists>w'. DeleteCurrencyBalance ok_env eclient ''ua'' ''USD'' usd_world = (Inr (), w')
     \<and> fc_view e_ghost (w_ledger w') = fc_view e_ghost (w_ledger usd_world)"
proof -
  let ?r = "DeleteCurrencyBalance ok_env eclient ''ua'' ''USD'' usd_world"
  have r: "?r = (Inr (), snd ?r)" by (rule run_of) code_simp
  have ok: "\<forall>x \<in> set (w_users usd_world). in_i64 (lv_bal (fc_view e_ghost (w_ledger usd_world)) (MainAccount neo (u_LedgerWalletID x)) (FormatAsset [''USD'']))"
    by code_simp
  from DeleteCurrencyBalance_only_empty [OF eclient_contract r ok] r show ?thesis by blast
qed

end
