(* ===== verification/Reconciliation.thy ===== *)
theory Reconciliation
  imports Accounts
begin

text \<open>
  End-of-day reconciliation (\<open>internal/services/reconciliation\<close>) with its tables
  (\<open>internal/repository/reconciliation.go\<close>). The clearing file is given by what opening it and the calls of the CSV
  reader return, up to the end of the file: an error, or the records that follow each other, each a list of fields
  or a parse error. Dates are day numbers.
\<close>

section \<open>Tables\<close>

definition recon_CreateException :: "env \<Rightarrow> ReconException \<Rightarrow> ('l, unit) go" where
  "recon_CreateException E x = dbA E (bindA (newID E) (\<lambda>i. bindA nowA (\<lambda>now.
     modifyA (\<lambda>w. w\<lparr>w_exceptions := w_exceptions w @ [x\<lparr>re_ID := i, re_Status := ExceptionOpen, re_ResolutionNotes := None,
       re_ResolutionAction := None, re_CreatedAt := now, re_ResolvedAt := None\<rparr>]\<rparr>))))"

definition recon_ListOpenExceptions :: "env \<Rightarrow> ('l, ReconException list) go" where
  "recon_ListOpenExceptions E = dbA E (getsA (\<lambda>w. sort_key re_CreatedAt
     (filter (\<lambda>x. re_Status x \<in> {ExceptionOpen, ExceptionInvestigating}) (w_exceptions w))))"

definition recon_ResolveException :: "env \<Rightarrow> string \<Rightarrow> string \<Rightarrow> string \<Rightarrow> ('l, unit) go" where
  "recon_ResolveException E i notes action = dbA E (bindA nowA (\<lambda>now. modifyA (\<lambda>w. w\<lparr>w_exceptions :=
     update_where (\<lambda>x. re_ID x = i) (\<lambda>x. x\<lparr>re_Status := ExceptionResolved, re_ResolutionNotes := Some notes,
       re_ResolutionAction := Some action, re_ResolvedAt := Some now\<rparr>) (w_exceptions w)\<rparr>)))"

text \<open>One run a day.\<close>

definition recon_CreateRun :: "env \<Rightarrow> int \<Rightarrow> string \<Rightarrow> ('l, string) go" where
  "recon_CreateRun E runDate fileName = dbA E (bindA (newID E) (\<lambda>i. bindA nowA (\<lambda>now. bindA (getsA w_runs) (\<lambda>rs.
     if list_ex (\<lambda>r. rn_RunDate r = runDate) rs then throwA db_error
     else bindA (modifyA (\<lambda>w. w\<lparr>w_runs := rs @ [\<lparr>rn_ID = i, rn_RunDate = runDate, rn_ClearingFileName = fileName,
         rn_TotalRecords = 0, rn_MatchedCount = 0, rn_ExceptionCount = 0, rn_StartedAt = now, rn_FinishedAt = None,
         rn_Status = ''running'', rn_ErrorMessage = None\<rparr>]\<rparr>)) (\<lambda>_. retA i)))))"

definition recon_FinishRun :: "env \<Rightarrow> string \<Rightarrow> int \<Rightarrow> int \<Rightarrow> string option \<Rightarrow> ('l, unit) go" where
  "recon_FinishRun E i matched exceptions errMsg = dbA E (bindA nowA (\<lambda>now. modifyA (\<lambda>w. w\<lparr>w_runs :=
     update_where (\<lambda>r. rn_ID r = i) (\<lambda>r. r\<lparr>rn_MatchedCount := matched, rn_ExceptionCount := exceptions,
       rn_TotalRecords := matched + exceptions, rn_Status := (if errMsg \<noteq> None then ''failed'' else ''completed''),
       rn_ErrorMessage := errMsg, rn_FinishedAt := Some now\<rparr>) (w_runs w)\<rparr>)))"

definition recon_GetRunByDate :: "env \<Rightarrow> int \<Rightarrow> ('l, ReconRun) go" where
  "recon_GetRunByDate E date = dbA E (bindA (getsA (\<lambda>w. select_one (\<lambda>r. rn_RunDate r = date) (w_runs w)))
     (\<lambda>r. case r of None \<Rightarrow> throwA (Opaque ''getting recon run: no rows in result set'') | Some x \<Rightarrow> retA x))"

section \<open>The daily run\<close>

text \<open>\<open>strconv.ParseInt\<close> in base 10, with 0 for what is no 64-bit number.\<close>

definition parseAmount :: "string \<Rightarrow> int" where
  "parseAmount s =
     (let neg = (s \<noteq> '''' \<and> hd s = CHR ''-''); digits = (if s \<noteq> '''' \<and> hd s \<in> {CHR ''-'', CHR ''+''} then tl s else s);
          v = (if neg then - int (digits_val digits) else int (digits_val digits))
      in if digits = '''' \<or> \<not> list_all is_digit digits \<or> \<not> in_i64 v then 0 else v)"

definition new_exception :: "string \<Rightarrow> ExceptionType \<Rightarrow> int \<Rightarrow> int option \<Rightarrow> int option \<Rightarrow> int \<Rightarrow> string \<Rightarrow> ReconException" where
  "new_exception ethRef errType ethAmount pgAmount diff runDate fileName =
     \<lparr>re_ID = '''', re_EthSwitchReference = ethRef, re_ErrorType = errType, re_EthSwitchReportedAmountCents = ethAmount,
      re_PostgresReportedAmountCents = pgAmount, re_AmountDifferenceCents = diff, re_Status = ExceptionOpen, re_AssignedTo = None,
      re_ResolutionNotes = None, re_ResolutionAction = None, re_ReconRunDate = runDate, re_ClearingFileName = Some fileName,
      re_CreatedAt = 0, re_ResolvedAt = None\<rparr>"

definition flagException :: "env \<Rightarrow> ReconException \<Rightarrow> ('l, unit) go" where
  "flagException E x =
     bindA (ignoreA (recon_CreateException E x)) (\<lambda>_.
     ignoreA (audit_Log E (audit_entry ''recon_exception_opened'' ''cron'' None ''recon_exception'' (re_EthSwitchReference x))))"

definition amount_difference :: "int \<Rightarrow> int \<Rightarrow> int" where
  "amount_difference a b = trunc64 \<bar>f_of_int (i64 (a - b))\<bar>"

text \<open>One record: whether it matches. The ledger is asked for the history of an account that is named by the
  receipt's transaction id.\<close>

definition recon_record :: "env \<Rightarrow> 'l Client \<Rightarrow> int \<Rightarrow> string \<Rightarrow> string list \<Rightarrow> ('l, bool) go" where
  "recon_record E L runDate fileName record =
     (if length record < 3 then throwA (Opaque ''index out of range'') else
      let ethRef = record ! 0; amountCents = parseAmount (record ! 2);
          flag = (\<lambda>errType pgAmount diff. bindA (flagException E (new_exception ethRef errType amountCents pgAmount diff runDate fileName)) (\<lambda>_. retA False)) in
      bindA (tryA (receipt_GetByEthSwitchReference E ethRef)) (\<lambda>res.
      case res of
        Inl e \<Rightarrow> flag ExceptionMissingInLedger None None
      | Inr receipt \<Rightarrow>
        bindA (tryA (ledA (GetAccountHistory L (rc_LedgerTransactionID receipt) 1))) (\<lambda>txs.
        if (case txs of Inl e \<Rightarrow> True | Inr ts \<Rightarrow> ts = []) then flag ExceptionStatusMismatch (Some (rc_AmountCents receipt)) None
        else if amountCents \<noteq> rc_AmountCents receipt
        then flag ExceptionAmountMismatch (Some (rc_AmountCents receipt)) (Some (amount_difference amountCents (rc_AmountCents receipt)))
        else retA True)))"

primrec recon_loop :: "env \<Rightarrow> 'l Client \<Rightarrow> int \<Rightarrow> string \<Rightarrow> (go_error + string list) list \<Rightarrow> int \<Rightarrow> int \<Rightarrow> ('l, int \<times> int) go" where
  "recon_loop E L d f [] matched exceptions = retA (matched, exceptions)"
| "recon_loop E L d f (r # rs) matched exceptions =
     (case r of
        Inl e \<Rightarrow> recon_loop E L d f rs matched exceptions
      | Inr record \<Rightarrow> bindA (recon_record E L d f record) (\<lambda>ok.
          if ok then recon_loop E L d f rs (matched + 1) exceptions else recon_loop E L d f rs matched (exceptions + 1)))"

definition RunDailyReconciliation ::
    "env \<Rightarrow> 'l Client \<Rightarrow> string \<Rightarrow> go_error + (go_error + string list) list \<Rightarrow> ('l, unit) go" where
  "RunDailyReconciliation E L fileName file =
     bindA nowA (\<lambda>now.
     let runDate = day_of now in
     bindA (recon_CreateRun E runDate fileName) (\<lambda>runID.
     case file of
       Inl e \<Rightarrow> bindA (ignoreA (recon_FinishRun E runID 0 0 (Some ''could not open clearing file''))) (\<lambda>_. throwA e)
     | Inr [] \<Rightarrow> throwA (Opaque ''reading csv header: EOF'')
     | Inr (Inl e # rs) \<Rightarrow> throwA e
     | Inr (Inr header # rs) \<Rightarrow>
       bindA (recon_loop E L runDate fileName rs 0 0) (\<lambda>(matched, exceptions).
       recon_FinishRun E runID matched exceptions None)))"

section \<open>What a run does\<close>

text \<open>The exception a record is reported with.\<close>

definition the_receipt :: "TransactionReceipt list \<Rightarrow> string \<Rightarrow> TransactionReceipt option" where
  "the_receipt rs ref = select_one (\<lambda>r. rc_EthSwitchReference r = Some ref) rs"

definition exception_for :: "int \<Rightarrow> TransactionReceipt list \<Rightarrow> string list \<Rightarrow> ReconException \<Rightarrow> bool" where
  "exception_for d rs record x \<longleftrightarrow> re_Status x = ExceptionOpen \<and> re_ReconRunDate x = d
     \<and> re_EthSwitchReference x = record ! 0 \<and> re_EthSwitchReportedAmountCents x = parseAmount (record ! 2)
     \<and> (case the_receipt rs (record ! 0) of
          None \<Rightarrow> re_ErrorType x = ExceptionMissingInLedger \<and> re_PostgresReportedAmountCents x = None
        | Some r \<Rightarrow> re_PostgresReportedAmountCents x = Some (rc_AmountCents r)
            \<and> (re_ErrorType x = ExceptionStatusMismatch
               \<or> re_ErrorType x = ExceptionAmountMismatch \<and> parseAmount (record ! 2) \<noteq> rc_AmountCents r))"

definition record_matches :: "TransactionReceipt list \<Rightarrow> string list \<Rightarrow> bool" where
  "record_matches rs record \<longleftrightarrow>
     (case the_receipt rs (record ! 0) of None \<Rightarrow> False | Some r \<Rightarrow> rc_AmountCents r = parseAmount (record ! 2))"

text \<open>A record changes neither receipts nor runs nor the ledger's balances.\<close>

definition recon_frame :: "('l \<Rightarrow> lview) \<Rightarrow> 'l world \<Rightarrow> 'l world \<Rightarrow> bool" where
  "recon_frame view w w' \<longleftrightarrow> w_receipts w' = w_receipts w \<and> w_runs w' = w_runs w \<and> w_now w' = w_now w
     \<and> view (w_ledger w') = view (w_ledger w)"

lemma recon_frame_trans: "recon_frame view w w1 \<Longrightarrow> recon_frame view w1 w2 \<Longrightarrow> recon_frame view w w2"
  by (simp add: recon_frame_def)

lemma recon_frame_refl: "recon_frame view w w"
  by (simp add: recon_frame_def)

lemma flag_run:
  assumes "\<And>n. e_db_ok E n"
  obtains w' i where "flagException E x w = (Inr (), w')" "recon_frame view w w'"
    "w_exceptions w' = w_exceptions w @ [x\<lparr>re_ID := i, re_Status := ExceptionOpen, re_ResolutionNotes := None,
       re_ResolutionAction := None, re_CreatedAt := w_now w, re_ResolvedAt := None\<rparr>]"
  by (rule that [of "snd (flagException E x w)" "e_uuid E (w_uuidn w)"])
    (simp_all add: flagException_def recon_CreateException_def audit_Log_def dbA_def assms act_simps newID_def nowA_def bindA_def
      recon_frame_def Let_def)

lemma record_run:
  assumes db: "\<And>n. e_db_ok E n" and rd: "\<And>x n. reads view (GetAccountHistory L x n)"
    and run: "recon_record E L d f record w = (Inr ok, w')"
  obtains xs where "recon_frame view w w'" "w_exceptions w' = w_exceptions w @ xs"
    "if ok then xs = [] \<and> record_matches (w_receipts w) record else \<exists>x. xs = [x] \<and> exception_for d (w_receipts w) record x"
proof -
  note result = that
  let ?w1 = "w\<lparr>w_dbn := Suc (w_dbn w)\<rparr>"
  let ?x = "\<lambda>ty pg df. new_exception (record ! 0) ty (parseAmount (record ! 2)) pg df d f"
  have len: "\<not> length record < 3" using run by (auto simp: recon_record_def act_simps)
  have get: "receipt_GetByEthSwitchReference E (record ! 0) w =
      ((case the_receipt (w_receipts w) (record ! 0) of None \<Rightarrow> Inl (General ErrNotFound) | Some r \<Rightarrow> Inr r), ?w1)"
    using db by (simp add: receipt_GetByEthSwitchReference_def act_simps the_receipt_def split: option.splits)
  have flagged: thesis
    if "bindA (flagException E (?x ty pg df)) (\<lambda>_. retA False) v = (Inr ok, w')" "recon_frame view w v" "w_exceptions v = w_exceptions w"
      "exception_for d (w_receipts w) record (?x ty pg df)" for ty pg df v
  proof -
    obtain v' i where v': "flagException E (?x ty pg df) v = (Inr (), v')" "recon_frame view v v'"
        "w_exceptions v' = w_exceptions v @ [(?x ty pg df)\<lparr>re_ID := i, re_Status := ExceptionOpen, re_ResolutionNotes := None,
          re_ResolutionAction := None, re_CreatedAt := w_now v, re_ResolvedAt := None\<rparr>]"
      by (rule flag_run [OF db])
    have "\<not> ok" "w' = v'" using that(1) v'(1) by (auto simp: bindA_def act_simps)
    let ?y = "(?x ty pg df)\<lparr>re_ID := i, re_Status := ExceptionOpen, re_ResolutionNotes := None,
          re_ResolutionAction := None, re_CreatedAt := w_now v, re_ResolvedAt := None\<rparr>"
    have "exception_for d (w_receipts w) record ?y" using that(4) by (simp add: exception_for_def cong: option.case_cong)
    then show thesis
      using recon_frame_trans [OF that(2) v'(2)] v'(3) that(3) \<open>\<not> ok\<close> \<open>w' = v'\<close> by (intro result [of "[?y]"]) simp_all
  qed
  show thesis
  proof (cases "the_receipt (w_receipts w) (record ! 0)")
    case None
    then show ?thesis
      using run len get by (intro flagged [of ExceptionMissingInLedger None None ?w1])
        (simp_all add: recon_record_def Let_def act_simps recon_frame_def exception_for_def new_exception_def)
  next
    case (Some r)
    obtain txs l where h: "GetAccountHistory L (rc_LedgerTransactionID r) 1 (w_ledger w) = (txs, l)" by fastforce
    have l: "view l = view (w_ledger w)" using rd h unfolding reads_def by (metis snd_conv)
    let ?w2 = "?w1\<lparr>w_ledger := l\<rparr>"
    have led: "ledA (GetAccountHistory L (rc_LedgerTransactionID r) 1) ?w1 = (txs, ?w2)" using h by (simp add: ledA_def)
    have fr: "recon_frame view w ?w2" "w_exceptions ?w2 = w_exceptions w" using l by (simp_all add: recon_frame_def)
    consider (none) "case txs of Inl e \<Rightarrow> True | Inr ts \<Rightarrow> ts = []"
      | (differs) "\<not> (case txs of Inl e \<Rightarrow> True | Inr ts \<Rightarrow> ts = [])" "parseAmount (record ! 2) \<noteq> rc_AmountCents r"
      | (same) "\<not> (case txs of Inl e \<Rightarrow> True | Inr ts \<Rightarrow> ts = [])" "parseAmount (record ! 2) = rc_AmountCents r" by blast
    then show ?thesis
    proof cases
      case none
      then show ?thesis
        using run len get Some led by (intro flagged [OF _ fr, of ExceptionStatusMismatch "Some (rc_AmountCents r)" None])
          (simp_all add: recon_record_def Let_def act_simps exception_for_def new_exception_def)
    next
      case differs
      then show ?thesis
        using run len get Some led by (intro flagged [OF _ fr, of ExceptionAmountMismatch "Some (rc_AmountCents r)"
            "Some (amount_difference (parseAmount (record ! 2)) (rc_AmountCents r))"])
          (simp_all add: recon_record_def Let_def act_simps exception_for_def new_exception_def)
    next
      case same
      then have "ok" "w' = ?w2" using run len get Some led by (simp_all add: recon_record_def Let_def act_simps)
      then show ?thesis using that [of "[]"] fr Some same by (simp add: record_matches_def)
    qed
  qed
qed

definition readable :: "(go_error + string list) list \<Rightarrow> string list list" where
  "readable rs = concat (map (\<lambda>r. case r of Inl e \<Rightarrow> [] | Inr record \<Rightarrow> [record]) rs)"

lemma loop_run:
  assumes db: "\<And>n. e_db_ok E n" and rd: "\<And>x n. reads view (GetAccountHistory L x n)"
    and run: "recon_loop E L d f rs m e w = (Inr (m', e'), w')"
  shows "\<exists>xs. recon_frame view w w' \<and> w_exceptions w' = w_exceptions w @ xs \<and> e' = e + int (length xs)
    \<and> m' + e' = m + e + int (length (readable rs))
    \<and> (\<forall>x \<in> set xs. \<exists>record \<in> set (readable rs). exception_for d (w_receipts w) record x)
    \<and> (\<forall>record \<in> set (readable rs). record_matches (w_receipts w) record \<or> (\<exists>x \<in> set xs. exception_for d (w_receipts w) record x))"
  using run
proof (induction rs arbitrary: m e w)
  case Nil
  then show ?case by (auto simp: act_simps readable_def recon_frame_refl)
next
  case (Cons r rs)
  show ?case
  proof (cases r)
    case (Inl err)
    then show ?thesis using Cons by (simp add: readable_def)
  next
    case (Inr rec)
    obtain ok w1 where r1: "recon_record E L d f rec w = (Inr ok, w1)"
      and k: "recon_loop E L d f rs (if ok then m + 1 else m) (if ok then e else e + 1) w1 = (Inr (m', e'), w')"
      using Cons.prems Inr by (auto simp: runs split: if_splits)
    obtain ys where ys: "recon_frame view w w1" "w_exceptions w1 = w_exceptions w @ ys"
      "if ok then ys = [] \<and> record_matches (w_receipts w) rec else \<exists>x. ys = [x] \<and> exception_for d (w_receipts w) rec x"
      by (rule record_run [OF db rd r1])
    obtain xs where xs: "recon_frame view w1 w'" "w_exceptions w' = w_exceptions w1 @ xs"
      "e' = (if ok then e else e + 1) + int (length xs)"
      "m' + e' = (if ok then m + 1 else m) + (if ok then e else e + 1) + int (length (readable rs))"
      "\<forall>x \<in> set xs. \<exists>record \<in> set (readable rs). exception_for d (w_receipts w1) record x"
      "\<forall>record \<in> set (readable rs). record_matches (w_receipts w1) record \<or> (\<exists>x \<in> set xs. exception_for d (w_receipts w1) record x)"
      using Cons.IH [OF k] by blast
    have same: "w_receipts w1 = w_receipts w" using ys(1) by (simp add: recon_frame_def)
    have rd: "readable (r # rs) = rec # readable rs" using Inr by (simp add: readable_def)
    show ?thesis
    proof (intro exI [of _ "ys @ xs"] conjI)
      show "recon_frame view w w'" by (rule recon_frame_trans [OF ys(1) xs(1)])
      show "w_exceptions w' = w_exceptions w @ ys @ xs" using ys(2) xs(2) by simp
      show "e' = e + int (length (ys @ xs))" using ys(3) xs(3) by (auto split: if_splits)
      show "m' + e' = m + e + int (length (readable (r # rs)))" using xs(4) rd by (simp split: if_splits)
      show "\<forall>x \<in> set (ys @ xs). \<exists>record \<in> set (readable (r # rs)). exception_for d (w_receipts w) record x"
        using ys(3) xs(5) same rd by (auto split: if_splits)
      show "\<forall>record \<in> set (readable (r # rs)). record_matches (w_receipts w) record
          \<or> (\<exists>x \<in> set (ys @ xs). exception_for d (w_receipts w) record x)"
        using ys(3) xs(6) same rd by (auto split: if_splits)
    qed
  qed
qed

section \<open>Properties\<close>


definition recon_world :: "engine fclient world" where
  "recon_world = (empty_world (seeded []) 1000)
     \<lparr>w_receipts := [receipt0\<lparr>rc_ID := ''r1'', rc_EthSwitchReference := Some ''E1'', rc_LedgerTransactionID := ''1'', rc_AmountCents := 50\<rparr>]\<rparr>"

definition clearing_file :: "(go_error + string list) list" where
  "clearing_file = [Inr [''ref'', ''date'', ''amount''], Inr [''E1'', ''d'', ''50''], Inl (Opaque ''bad quote''), Inr [''E2'', ''d'', ''70'']]"


end
