(* ===== verification/Remittance.thy ===== *)
theory Remittance
  imports Pricing
begin

text \<open>
  Routing of international transfers (\<open>internal/services/remittance\<close>) and the quote of the pricing service built on it.
  A provider is an interface whose implementations are HTTP clients; what it answers is a value here. The providers
  are asked concurrently and answer in some order, which is the parameter \<open>arrival\<close>: any rearrangement of the list of
  answers. A context that is cancelled or times out is an error among the answers.
\<close>

record QuoteRequest =
  qr_SourceCurrency :: string
  qr_TargetCurrency :: string
  qr_SourceAmount :: int

record RemittanceProvider =
  pv_ID :: string
  pv_Name :: string
  pv_SupportedCorridors :: "(string \<times> string) list"
  pv_GetQuote :: "QuoteRequest \<Rightarrow> go_error + RemittanceQuote"

record RankedQuote =
  rk_Winner :: RemittanceQuote
  rk_Provider :: "RemittanceProvider option"
  rk_AllQuotes :: "RemittanceQuote list"

definition GetProvider :: "RemittanceProvider list \<Rightarrow> string \<Rightarrow> RemittanceProvider option" where
  "GetProvider providers i = find (\<lambda>p. pv_ID p = i) providers"

definition quote_key :: "QuoteRequest \<Rightarrow> string" where
  "quote_key req = ''neo:quotes:'' @ qr_SourceCurrency req @ ''_'' @ qr_TargetCurrency req @ ''_'' @ itoa (qr_SourceAmount req)"

definition matching_providers :: "QuoteRequest \<Rightarrow> RemittanceProvider list \<Rightarrow> RemittanceProvider list" where
  "matching_providers req = filter (\<lambda>p. (qr_SourceCurrency req, qr_TargetCurrency req) \<in> set (pv_SupportedCorridors p))"

type_synonym quote_result = "RemittanceProvider \<times> (go_error + RemittanceQuote)"

definition quote_cost :: "RemittanceQuote \<Rightarrow> int" where
  "quote_cost q = i64 (qt_SourceAmount q - qt_TargetAmount q)"

record best =
  be_cost :: int
  be_quote :: "(RemittanceQuote \<times> RemittanceProvider) option"
  be_all :: "RemittanceQuote list"

text \<open>The body of the loop over the answers. A best cost below zero stands for none yet.\<close>

definition take_result :: "best \<Rightarrow> quote_result \<Rightarrow> best" where
  "take_result b r =
     (case snd r of
        Inl e \<Rightarrow> b
      | Inr q \<Rightarrow>
        if be_cost b < 0 \<or> quote_cost q < be_cost b
        then \<lparr>be_cost = quote_cost q, be_quote = Some (q, fst r), be_all = be_all b @ [q]\<rparr>
        else b\<lparr>be_all := be_all b @ [q]\<rparr>)"

definition best_of :: "quote_result list \<Rightarrow> best" where
  "best_of rs = foldl take_result \<lparr>be_cost = -1, be_quote = None, be_all = []\<rparr> rs"

definition BestQuote :: "(quote_result list \<Rightarrow> quote_result list) \<Rightarrow> RemittanceProvider list \<Rightarrow> int \<Rightarrow> QuoteRequest \<Rightarrow> ('l, RankedQuote) go" where
  "BestQuote arrival providers ttl req =
     bindA (cacheGet (quote_key req)) (\<lambda>hit.
     case hit of
       Some (CQuote q) \<Rightarrow> retA \<lparr>rk_Winner = q, rk_Provider = GetProvider providers (qt_ProviderID q), rk_AllQuotes = []\<rparr>
     | _ \<Rightarrow>
       let matching = matching_providers req providers in
       if matching = [] then throwA (Pricing ErrNoProviderForCorridor) else
       let b = best_of (arrival (map (\<lambda>p. (p, pv_GetQuote p req)) matching)) in
       (case be_quote b of
          None \<Rightarrow> throwA (Pricing ErrProviderUnavailable)
        | Some (q, p) \<Rightarrow>
          bindA (cacheSet (quote_key req) (CQuote q) ttl) (\<lambda>_.
          retA \<lparr>rk_Winner = q, rk_Provider = Some p, rk_AllQuotes = be_all b\<rparr>)))"

text \<open>The pricing service adds its own markup to the winner's fee. Without a router there is no corridor.\<close>

definition corridor_markup :: "FeeSchedule list \<Rightarrow> int \<Rightarrow> int" where
  "corridor_markup scheds n = foldl (\<lambda>s sched. if fs_FeeType sched = FeeTypeCorridorMarkup then i64 (s + computeFee sched n) else s) 0 scheds"

definition quote_fee :: "RemittanceQuote \<Rightarrow> int \<Rightarrow> FeeBreakdown" where
  "quote_fee q ours = \<lparr>fb_OurFeeCents = ours, fb_PartnerFeeCents = qt_ProviderFeeCents q, fb_TotalFeeCents = i64 (ours + qt_ProviderFeeCents q),
     fb_Details = [\<lparr>fd_Name = ''Neo transfer fee'', fd_AmountCents = ours, fd_Type = ''corridor_markup''\<rparr>,
       \<lparr>fd_Name = qt_ProviderName q @ '' processing fee'', fd_AmountCents = qt_ProviderFeeCents q, fd_Type = ''partner''\<rparr>]\<rparr>"

definition GetQuote :: "env \<Rightarrow> ((quote_result list \<Rightarrow> quote_result list) \<times> RemittanceProvider list \<times> int) option \<Rightarrow> string \<Rightarrow> string \<Rightarrow> int \<Rightarrow>
    ('l, RemittanceQuote) go" where
  "GetQuote E router sourceCurrency targetCurrency sourceAmountCents =
     (case router of
        None \<Rightarrow> throwA (Pricing ErrNoProviderForCorridor)
      | Some (arrival, providers, ttl) \<Rightarrow>
        bindA (BestQuote arrival providers ttl \<lparr>qr_SourceCurrency = sourceCurrency, qr_TargetCurrency = targetCurrency, qr_SourceAmount = sourceAmountCents\<rparr>) (\<lambda>ranked.
        bindA (tryA (fee_FindMatching E TxTypeInternationalTransfer None None)) (\<lambda>res.
        let markupSchedules = (case res of Inl e \<Rightarrow> [] | Inr s \<Rightarrow> s); quote = rk_Winner ranked in
        retA (quote\<lparr>qt_Fee := Some (quote_fee quote (corridor_markup markupSchedules sourceAmountCents))\<rparr>))))"

section \<open>Properties\<close>

lemma best_of_snoc: "best_of (rs @ [r]) = take_result (best_of rs) r"
  by (simp add: best_of_def)

lemma best_of_min:
  assumes "\<forall>r \<in> set rs. \<forall>q. snd r = Inr q \<longrightarrow> 0 \<le> quote_cost q"
  shows "case be_quote (best_of rs) of
      None \<Rightarrow> be_cost (best_of rs) < 0 \<and> (\<forall>r \<in> set rs. \<forall>q. snd r \<noteq> Inr q)
    | Some (q, p) \<Rightarrow> be_cost (best_of rs) = quote_cost q \<and> (p, Inr q) \<in> set rs
        \<and> (\<forall>r \<in> set rs. \<forall>q'. snd r = Inr q' \<longrightarrow> quote_cost q \<le> quote_cost q')"
  using assms
proof (induction rs rule: rev_induct)
  case Nil
  then show ?case by (simp add: best_of_def)
next
  case (snoc r rs)
  show ?case
  proof (cases "snd r")
    case (Inl e)
    then show ?thesis using snoc by (auto simp: best_of_snoc take_result_def split: option.splits)
  next
    case (Inr q)
    have r: "r = (fst r, Inr q)" using Inr by (cases r) simp
    have nn: "\<forall>r \<in> set rs. \<forall>q. snd r = Inr q \<longrightarrow> 0 \<le> quote_cost q" using snoc.prems by simp
    note ih = snoc.IH [OF nn]
    show ?thesis
    proof (cases "be_quote (best_of rs)")
      case None
      then show ?thesis using ih Inr r by (auto simp: best_of_snoc take_result_def)
    next
      case (Some x)
      obtain q0 p0 where x: "x = (q0, p0)" by (cases x)
      have q0: "be_cost (best_of rs) = quote_cost q0" "(p0, Inr q0) \<in> set rs"
        "\<forall>r \<in> set rs. \<forall>q'. snd r = Inr q' \<longrightarrow> quote_cost q0 \<le> quote_cost q'" using ih Some x by auto
      have "0 \<le> quote_cost q0" using nn q0(2) by fastforce
      then show ?thesis
        using q0 Inr Some x r by (cases "quote_cost q < quote_cost q0") (fastforce simp: best_of_snoc take_result_def)+
    qed
  qed
qed

text \<open>When costs are negative, as they are when the target currency has the larger numbers, every answer replaces the
  best one so far: the provider that answers last wins.\<close>

lemma best_of_last:
  assumes "\<forall>r \<in> set rs. \<forall>q. snd r = Inr q \<longrightarrow> quote_cost q < 0"
  shows "be_quote (best_of (rs @ [(p, Inr q)])) = Some (q, p)"
proof -
  have "be_cost (best_of rs) < 0"
    using assms
  proof (induction rs rule: rev_induct)
    case Nil
    then show ?case by (simp add: best_of_def)
  next
    case (snoc r rs)
    then show ?case by (auto simp: best_of_snoc take_result_def split: sum.splits)
  qed
  then show ?thesis by (simp add: best_of_snoc take_result_def)
qed

text \<open>C39: without a cached quote, and when no quote gives more units than it takes, the router answers with a cheapest
  quote among the providers of the corridor, in whatever order they answer and whichever of them fail; it fails only
  when there is no such provider or none of them gives a quote.\<close>

theorem BestQuote_cheapest:
  assumes arrival: "\<And>rs. set (arrival rs) = set rs"
    and miss: "fst (cacheGet (quote_key req) w) = Inr None"
    and costs: "\<forall>p \<in> set (matching_providers req providers). \<forall>q. pv_GetQuote p req = Inr q \<longrightarrow> 0 \<le> quote_cost q"
  shows "case fst (BestQuote arrival providers ttl req w) of
      Inr ranked \<Rightarrow> \<exists>p \<in> set (matching_providers req providers). rk_Provider ranked = Some p \<and> pv_GetQuote p req = Inr (rk_Winner ranked)
        \<and> (\<forall>p' \<in> set (matching_providers req providers). \<forall>q'. pv_GetQuote p' req = Inr q' \<longrightarrow> quote_cost (rk_Winner ranked) \<le> quote_cost q')
    | Inl e \<Rightarrow> e = Pricing (if matching_providers req providers = [] then ErrNoProviderForCorridor else ErrProviderUnavailable)
        \<and> (\<forall>p \<in> set (matching_providers req providers). \<forall>q. pv_GetQuote p req \<noteq> Inr q)"
proof -
  let ?ms = "matching_providers req providers"
  let ?rs = "arrival (map (\<lambda>p. (p, pv_GetQuote p req)) ?ms)"
  have rs: "set ?rs = (\<lambda>p. (p, pv_GetQuote p req)) ` set ?ms" by (simp add: arrival)
  obtain w1 where w1: "cacheGet (quote_key req) w = (Inr None, w1)" using miss by (metis prod.collapse)
  have b: "case be_quote (best_of ?rs) of
      None \<Rightarrow> be_cost (best_of ?rs) < 0 \<and> (\<forall>r \<in> set ?rs. \<forall>q. snd r \<noteq> Inr q)
    | Some (q, p) \<Rightarrow> be_cost (best_of ?rs) = quote_cost q \<and> (p, Inr q) \<in> set ?rs
        \<and> (\<forall>r \<in> set ?rs. \<forall>q'. snd r = Inr q' \<longrightarrow> quote_cost q \<le> quote_cost q')"
    by (rule best_of_min) (use costs rs in auto)
  have run: "BestQuote arrival providers ttl req w =
      (if ?ms = [] then throwA (Pricing ErrNoProviderForCorridor)
       else (case be_quote (best_of ?rs) of
          None \<Rightarrow> throwA (Pricing ErrProviderUnavailable)
        | Some (q, p) \<Rightarrow> bindA (cacheSet (quote_key req) (CQuote q) ttl)
            (\<lambda>_. retA \<lparr>rk_Winner = q, rk_Provider = Some p, rk_AllQuotes = be_all (best_of ?rs)\<rparr>))) w1"
    by (simp add: BestQuote_def bindA_Inr [of "cacheGet (quote_key req)", OF w1] Let_def)
  show ?thesis
  proof (cases "be_quote (best_of ?rs)")
    case None
    then show ?thesis using run b rs by (auto simp: act_simps)
  next
    case (Some x)
    obtain q p where x: "x = (q, p)" by (cases x)
    have qp: "(p, Inr q) \<in> set ?rs" "\<forall>r \<in> set ?rs. \<forall>q'. snd r = Inr q' \<longrightarrow> quote_cost q \<le> quote_cost q'" using b Some x by auto
    have m: "p \<in> set ?ms" "pv_GetQuote p req = Inr q" using qp(1) rs by auto
    have "?ms \<noteq> []" using m(1) by auto
    then have r: "fst (BestQuote arrival providers ttl req w) = Inr \<lparr>rk_Winner = q, rk_Provider = Some p, rk_AllQuotes = be_all (best_of ?rs)\<rparr>"
      using run Some x by (simp add: cacheSet_def act_simps)
    have "\<forall>p' \<in> set ?ms. \<forall>q'. pv_GetQuote p' req = Inr q' \<longrightarrow> quote_cost q \<le> quote_cost q'" using qp(2) rs by auto
    then show ?thesis using m unfolding r by auto
  qed
qed

text \<open>Three providers; the second fails and the answers arrive in reverse.\<close>

definition usd_quote :: "string \<Rightarrow> int \<Rightarrow> RemittanceQuote" where
  "usd_quote p n = \<lparr>qt_ProviderID = p, qt_ProviderName = p, qt_QuoteID = p, qt_SourceCurrency = ''ETB'', qt_TargetCurrency = ''USD'',
     qt_SourceAmount = 15000, qt_TargetAmount = n, qt_ExchangeRate = 0, qt_ProviderFeeCents = 10, qt_DeliveryEstimate = '''',
     qt_ExpiresAt = 0, qt_Fee = None\<rparr>"

definition some_provider :: "string \<Rightarrow> go_error + RemittanceQuote \<Rightarrow> RemittanceProvider" where
  "some_provider i r = \<lparr>pv_ID = i, pv_Name = i, pv_SupportedCorridors = [(''ETB'', ''USD'')], pv_GetQuote = (\<lambda>req. r)\<rparr>"

definition three_providers :: "RemittanceProvider list" where
  "three_providers = [some_provider ''a'' (Inr (usd_quote ''a'' 118)), some_provider ''b'' (Inl db_error), some_provider ''c'' (Inr (usd_quote ''c'' 117))]"

definition usd_request :: QuoteRequest where
  "usd_request = \<lparr>qr_SourceCurrency = ''ETB'', qr_TargetCurrency = ''USD'', qr_SourceAmount = 15000\<rparr>"

theorem BestQuote_cheapest_witness:
  "case fst (BestQuote rev three_providers 60 usd_request (empty_world () 0)) of
     Inr ranked \<Rightarrow> quote_cost (rk_Winner ranked) \<le> quote_cost (usd_quote ''a'' 118) | Inl e \<Rightarrow> False"
proof -
  have set: "set (rev rs) = set rs" for rs :: "quote_result list" by simp
  have miss: "fst (cacheGet (quote_key usd_request) (empty_world () 0)) = Inr None"
    by (simp add: cacheGet_def empty_world_def cache_Get_def NewMemoryCache_def)
  have ms: "matching_providers usd_request three_providers = three_providers"
    by (simp add: matching_providers_def three_providers_def some_provider_def usd_request_def)
  have costs: "\<forall>p \<in> set (matching_providers usd_request three_providers). \<forall>q. pv_GetQuote p usd_request = Inr q \<longrightarrow> 0 \<le> quote_cost q"
    unfolding ms by (simp add: three_providers_def some_provider_def quote_cost_def usd_quote_def i64_def)
  show ?thesis
    using BestQuote_cheapest [of rev usd_request "empty_world () 0" three_providers 60, OF set miss costs]
    unfolding ms by (auto simp: three_providers_def some_provider_def split: sum.splits)
qed

end
