(* ===== verification/Password.thy ===== *)
theory Password
  imports Phone
begin

text \<open>
  Package \<open>pkg/password\<close>: salted password hashes. The key derivation \<open>golang.org/x/crypto/pbkdf2\<close> is a parameter: a
  function of password, salt, iterations and length that returns bytes. Base64 is \<open>StdEncoding\<close> of the standard
  library. The random numbers behind a salt are the indices \<open>Intn\<close> returned.

  The lemmas show that decoding undoes encoding and that a generated hash accepts exactly the passwords with the
  same derived key.
\<close>

section \<open>Base64\<close>

definition b64_char :: "nat \<Rightarrow> char" where
  "b64_char n = char_of (if n < 26 then n + 65 else if n < 52 then n + 71 else if n < 62 then n - 4 else if n = 62 then 43 else 47)"

definition b64_val :: "char \<Rightarrow> nat option" where
  "b64_val c =
     (let n = of_char c in
      if 65 \<le> n \<and> n \<le> 90 then Some (n - 65) else if 97 \<le> n \<and> n \<le> 122 then Some (n - 71)
      else if 48 \<le> n \<and> n \<le> 57 then Some (n + 4) else if n = 43 then Some 62 else if n = 47 then Some 63 else None)"

fun base64_Encode :: "nat list \<Rightarrow> string" where
  "base64_Encode [] = []"
| "base64_Encode [a] = [b64_char (a div 4), b64_char (a mod 4 * 16), CHR ''='', CHR ''='']"
| "base64_Encode [a, b] = [b64_char (a div 4), b64_char (a mod 4 * 16 + b div 16), b64_char (b mod 16 * 4), CHR ''='']"
| "base64_Encode (a # b # c # bs) =
     [b64_char (a div 4), b64_char (a mod 4 * 16 + b div 16), b64_char (b mod 16 * 4 + c div 64), b64_char (c mod 64)]
     @ base64_Encode bs"

text \<open>Padding may only end the last group of four; the bits a padded group leaves over are not checked.\<close>

fun b64_groups :: "string \<Rightarrow> nat list option" where
  "b64_groups [] = Some []"
| "b64_groups (p # q # r # s # rest) =
     (case (b64_val p, b64_val q) of
        (Some x, Some y) \<Rightarrow>
          if r = CHR ''='' then (if s = CHR ''='' \<and> rest = [] then Some [x * 4 + y div 16] else None)
          else (case b64_val r of
            None \<Rightarrow> None
          | Some z \<Rightarrow>
            if s = CHR ''='' then (if rest = [] then Some [x * 4 + y div 16, y mod 16 * 16 + z div 4] else None)
            else (case (b64_val s, b64_groups rest) of
              (Some u, Some bs) \<Rightarrow> Some ((x * 4 + y div 16) # (y mod 16 * 16 + z div 4) # (z mod 4 * 64 + u) # bs)
            | _ \<Rightarrow> None))
      | _ \<Rightarrow> None)"
| "b64_groups _ = None"

text \<open>Line breaks are skipped wherever they are.\<close>

definition base64_DecodeString :: "string \<Rightarrow> nat list option" where
  "base64_DecodeString s = b64_groups (filter (\<lambda>c. c \<noteq> CHR 0x0A \<and> c \<noteq> CHR 0x0D) s)"

section \<open>Hashes\<close>

type_synonym kdf = "string \<Rightarrow> string \<Rightarrow> int \<Rightarrow> nat \<Rightarrow> nat list"

definition salt_charset :: string where
  "salt_charset = ''0123456789'' @ ''abcdefghijklmnopqrstuvwxyz'' @ ''ABCDEFGHIJKLMNOPQRSTUVWXYZ''"

definition generateRandomString :: "string \<Rightarrow> nat list \<Rightarrow> string" where
  "generateRandomString charset picks = map (\<lambda>k. charset ! k) picks"

definition GenerateSalt :: "nat list \<Rightarrow> string" where
  "GenerateSalt picks = generateRandomString salt_charset (take 12 picks)"

fun split_on :: "char \<Rightarrow> string \<Rightarrow> string list" where
  "split_on c [] = [[]]"
| "split_on c (x # xs) = (if x = c then [] # split_on c xs
     else case split_on c xs of [] \<Rightarrow> [[x]] | y # ys \<Rightarrow> (x # y) # ys)"

definition GeneratePasswordHash :: "kdf \<Rightarrow> nat list \<Rightarrow> string \<Rightarrow> string" where
  "GeneratePasswordHash kdf picks pw =
     (let salt = GenerateSalt picks
      in ''pbkdf2_sha256$'' @ itoa 24000 @ ''$'' @ salt @ ''$'' @ base64_Encode (kdf pw salt 24000 32))"

definition MatchPassword :: "kdf \<Rightarrow> string \<Rightarrow> string \<Rightarrow> go_error + unit" where
  "MatchPassword kdf passwordHash pw =
     (case split_on (CHR ''$'') passwordHash of
        [scheme, iterations, salt, hash] \<Rightarrow>
          if scheme \<noteq> ''pbkdf2_sha256'' then Inl (Opaque ''invalid password hash'')
          else (case atoi iterations of
            None \<Rightarrow> Inl (Opaque ''invalid syntax'')
          | Some it \<Rightarrow>
            if \<not> in_i64 it then Inl (Opaque ''value out of range'')
            else (case base64_DecodeString hash of
              None \<Rightarrow> Inl (Opaque ''illegal base64 data'')
            | Some b \<Rightarrow> if b = kdf pw salt it 32 then Inr () else Inl (Opaque ''incorrect password'')))
      | _ \<Rightarrow> Inl (Opaque ''invalid password hash''))"

definition ValidatePassword :: "string \<Rightarrow> int \<Rightarrow> go_error + unit" where
  "ValidatePassword pw minLength = (if int (length pw) < minLength then Inl (Opaque ''password too short'') else Inr ())"

definition CheckMatchingPasswords :: "string \<Rightarrow> string \<Rightarrow> go_error + unit" where
  "CheckMatchingPasswords pw confirmation = (if pw \<noteq> confirmation then Inl (Opaque ''passwords do not match'') else Inr ())"

section \<open>Round trips\<close>

lemma b64_val_char [simp]: "n < 64 \<Longrightarrow> b64_val (b64_char n) = Some n"
  by (auto simp: b64_val_def b64_char_def Let_def)

lemma b64_char_plain [simp]:
  assumes "n < 64"
  shows "b64_char n \<noteq> CHR ''=''" "b64_char n \<noteq> CHR ''$''" "b64_char n \<noteq> CHR 0x0A" "b64_char n \<noteq> CHR 0x0D"
  using b64_val_char [OF assms] by (auto simp: b64_val_def)

lemmas b64_char_plain' [simp] = b64_char_plain [THEN not_sym]

lemma b64_bits [simp]:
  "(a :: nat) < 256 \<Longrightarrow> a div 4 < 64" "(b :: nat) < 256 \<Longrightarrow> a mod 4 * 16 + b div 16 < 64"
  "(c :: nat) < 256 \<Longrightarrow> b mod 16 * 4 + c div 64 < 64" "b mod 16 * 4 < 64" "a mod 4 * 16 < 64"
  by auto

lemma b64_plain: "set bs \<subseteq> {..<256} \<Longrightarrow> c \<in> {CHR ''$'', CHR 0x0A, CHR 0x0D} \<Longrightarrow> c \<notin> set (base64_Encode bs)"
  by (induction bs rule: base64_Encode.induct) auto

lemma b64_round_trip: "set bs \<subseteq> {..<256} \<Longrightarrow> b64_groups (base64_Encode bs) = Some bs"
proof (induction bs rule: base64_Encode.induct)
  case (4 a b c bs)
  have "(a mod 4 * 16 + b div 16) div 16 = a mod 4" "(a mod 4 * 16 + b div 16) mod 16 = b div 16"
    "(b mod 16 * 4 + c div 64) div 4 = b mod 16" "(b mod 16 * 4 + c div 64) mod 4 = c div 64" using 4 by auto
  then show ?case using 4 by simp
next
  case (3 a b)
  have "(a mod 4 * 16 + b div 16) div 16 = a mod 4" "(a mod 4 * 16 + b div 16) mod 16 = b div 16" using 3 by auto
  then show ?case using 3 by simp
qed simp_all

lemma base64_round_trip: "set bs \<subseteq> {..<256} \<Longrightarrow> base64_DecodeString (base64_Encode bs) = Some bs"
proof -
  assume a: "set bs \<subseteq> {..<256}"
  then have "filter (\<lambda>c. c \<noteq> CHR 0x0A \<and> c \<noteq> CHR 0x0D) (base64_Encode bs) = base64_Encode bs"
    using b64_plain [OF a] by (subst filter_id_conv) blast
  then show ?thesis by (simp add: base64_DecodeString_def b64_round_trip [OF a])
qed

lemma split_on_plain: "c \<notin> set xs \<Longrightarrow> split_on c xs = [xs]"
  by (induction xs) auto

lemma split_on_append: "c \<notin> set xs \<Longrightarrow> split_on c (xs @ c # ys) = xs # split_on c ys"
  by (induction xs) auto

lemma split_on_four:
  assumes "c \<notin> set p" "c \<notin> set q" "c \<notin> set r" "c \<notin> set s"
  shows "split_on c (p @ c # q @ c # r @ c # s) = [p, q, r, s]"
  using assms by (simp add: split_on_append split_on_plain)

lemma salt_plain:
  assumes "set picks \<subseteq> {..<62}"
  shows "CHR ''$'' \<notin> set (GenerateSalt picks)"
proof -
  have len: "length salt_charset = 62" and no: "CHR ''$'' \<notin> set salt_charset" by code_simp+
  have "set (GenerateSalt picks) \<subseteq> set salt_charset"
  proof
    fix x assume "x \<in> set (GenerateSalt picks)"
    then obtain k where k: "x = salt_charset ! k" "k \<in> set (take 12 picks)"
      unfolding GenerateSalt_def generateRandomString_def set_map by (elim imageE)
    from k(2) have "k \<in> set picks" by (rule in_set_takeD)
    then have "k < length salt_charset" using assms unfolding len by blast
    then show "x \<in> set salt_charset" unfolding k(1) by (rule nth_mem)
  qed
  then show ?thesis using no by blast
qed

text \<open>A hash that was generated for a password accepts that password, and another one exactly when the key derivation
  maps both to the same key; whatever salt was drawn.\<close>

lemma MatchPassword_generated:
  assumes picks: "set picks \<subseteq> {..<62}" and bytes: "\<And>pw salt it n. set (kdf pw salt it n) \<subseteq> {..<256}"
  shows "MatchPassword kdf (GeneratePasswordHash kdf picks pw) pw' = Inr ()
    \<longleftrightarrow> kdf pw' (GenerateSalt picks) 24000 32 = kdf pw (GenerateSalt picks) 24000 32"
proof -
  let ?salt = "GenerateSalt picks" and ?h = "base64_Encode (kdf pw (GenerateSalt picks) 24000 32)"
  have it: "itoa 24000 = ''24000''" by (simp add: itoa_def show_nat.simps)
  have at: "atoi ''24000'' = Some 24000" using atoi_itoa [of 24000] unfolding it by simp
  have "GeneratePasswordHash kdf picks pw = ''pbkdf2_sha256'' @ CHR ''$'' # ''24000'' @ CHR ''$'' # ?salt @ CHR ''$'' # ?h"
    unfolding GeneratePasswordHash_def Let_def it by simp
  then have "split_on (CHR ''$'') (GeneratePasswordHash kdf picks pw) = [''pbkdf2_sha256'', ''24000'', ?salt, ?h]"
    using split_on_four [of "CHR ''$''" "''pbkdf2_sha256''" "''24000''" ?salt ?h] salt_plain [OF picks] b64_plain [OF bytes]
    by simp
  then show ?thesis using base64_round_trip [OF bytes] by (auto simp: MatchPassword_def at in_i64_def)
qed

text \<open>A stand-in for the key derivation: every password has its own key.\<close>

definition plain_kdf :: kdf where
  "plain_kdf pw salt it n = map of_char (salt @ pw)"

lemma MatchPassword_generated_witness:
  "MatchPassword plain_kdf (GeneratePasswordHash plain_kdf [1, 40, 61] ''s3cret!!'') ''s3cret!!'' = Inr ()
   \<and> MatchPassword plain_kdf (GeneratePasswordHash plain_kdf [1, 40, 61] ''s3cret!!'') ''s3cret!?'' \<noteq> Inr ()"
proof -
  have bytes: "set (plain_kdf pw salt it n) \<subseteq> {..<256}" for pw salt it n by (auto simp: plain_kdf_def)
  have picks: "set [1, 40, 61 :: nat] \<subseteq> {..<62}" by simp
  show ?thesis
    using MatchPassword_generated [of "[1, 40, 61]" plain_kdf "''s3cret!!''" "''s3cret!!''", OF picks bytes]
      MatchPassword_generated [of "[1, 40, 61]" plain_kdf "''s3cret!!''" "''s3cret!?''", OF picks bytes]
    by (simp add: plain_kdf_def)
qed

end
