(* ===== verification/Sessions.thy ===== *)
theory Sessions
  imports Accounts Middleware Password
begin

text \<open>
  Who a customer is: sign-up, login and refresh tokens (\<open>internal/services/auth\<close>), onboarding with the national
  identity system (\<open>internal/services/onboarding\<close>) and linking of a Telegram account (\<open>internal/services/telegram\<close>),
  with the tables \<open>sessions\<close>, \<open>kyc_verifications\<close> and \<open>telegram_link_tokens\<close>.

  Outside the repository: signing and checking of tokens by the JWT library, the key derivation, the two sources of
  randomness (\<open>crypto/rand\<close> for tokens, \<open>math/rand\<close> for salts), the identity system Fayda and the Telegram API. The
  randomness is read at the position of the stream of random identifiers. The issue time of an access token is read
  nowhere and left out of the claims.
\<close>

section \<open>Randomness and tokens\<close>

record secrets =
  sx_kdf :: kdf
  sx_picks :: "nat \<Rightarrow> nat list"
  sx_rand :: "nat \<Rightarrow> nat list option"

definition drawA :: "(nat \<Rightarrow> 'a) \<Rightarrow> ('l, 'a) go" where
  "drawA f w = (Inr (f (w_uuidn w)), w\<lparr>w_uuidn := Suc (w_uuidn w)\<rparr>)"

definition hashPassword :: "secrets \<Rightarrow> string \<Rightarrow> ('l, string) go" where
  "hashPassword X pw = bindA (drawA (sx_picks X)) (\<lambda>picks. retA (GeneratePasswordHash (sx_kdf X) picks pw))"

definition generateToken :: "secrets \<Rightarrow> ('l, string) go" where
  "generateToken X = bindA (drawA (sx_rand X)) (\<lambda>b.
     case b of None \<Rightarrow> throwA (Opaque ''generating random token'') | Some bytes \<Rightarrow> retA (EncodeToString bytes))"

type_synonym jwtsign = "string \<Rightarrow> MapClaims \<Rightarrow> string + string"

definition CreateToken :: "jwtsign \<Rightarrow> string \<Rightarrow> string \<Rightarrow> string \<Rightarrow> int \<Rightarrow> ('l, string) go" where
  "CreateToken sign signingKey userID sessionID ttl =
     bindA nowA (\<lambda>now.
     case sign signingKey \<lparr>mc_sub = Some userID, mc_session = Some sessionID, mc_exp = Some ((now + ttl) div second),
            mc_iss = '''', mc_aud = [], mc_role = None\<rparr> of
       Inl m \<Rightarrow> throwA (Opaque m) | Inr token \<Rightarrow> retA token)"

section \<open>Sessions\<close>

text \<open>A session belongs to a customer and its token is unique.\<close>

definition session_Create :: "env \<Rightarrow> Session \<Rightarrow> ('l, Session) go" where
  "session_Create E s = dbA E (bindA (newID E) (\<lambda>i. bindA nowA (\<lambda>now. bindA (getsA id) (\<lambda>w.
     if \<not> list_ex (\<lambda>u. u_ID u = ss_UserID s) (w_users w)
        \<or> list_ex (\<lambda>x. ss_RefreshToken x = ss_RefreshToken s) (w_sessions w)
     then throwA db_error
     else let row = s\<lparr>ss_ID := i, ss_RevokedAt := None, ss_CreatedAt := now\<rparr> in
       bindA (modifyA (\<lambda>w. w\<lparr>w_sessions := w_sessions w @ [row]\<rparr>)) (\<lambda>_. retA (s\<lparr>ss_ID := i, ss_CreatedAt := now\<rparr>))))))"

definition session_GetByRefreshToken :: "env \<Rightarrow> string \<Rightarrow> ('l, Session) go" where
  "session_GetByRefreshToken E token = dbA E (bindA (getsA (\<lambda>w. select_one (\<lambda>s. ss_RefreshToken s = token) (w_sessions w)))
     (\<lambda>r. case r of None \<Rightarrow> throwA (Identity ErrSessionNotFound) | Some s \<Rightarrow> retA s))"

definition session_Revoke :: "env \<Rightarrow> string \<Rightarrow> ('l, unit) go" where
  "session_Revoke E i = dbA E (bindA (getsA (\<lambda>w. rows_affected (\<lambda>s. ss_ID s = i \<and> ss_RevokedAt s = None) (w_sessions w))) (\<lambda>n.
     bindA (modifyA (\<lambda>w. w\<lparr>w_sessions := update_where (\<lambda>s. ss_ID s = i \<and> ss_RevokedAt s = None)
       (\<lambda>s. s\<lparr>ss_RevokedAt := Some (w_now w)\<rparr>) (w_sessions w)\<rparr>)) (\<lambda>_.
     if n = 0 then throwA (Identity ErrSessionNotFound) else retA ())))"

definition session_RevokeAllForUser :: "env \<Rightarrow> string \<Rightarrow> ('l, unit) go" where
  "session_RevokeAllForUser E userID = dbA E (modifyA (\<lambda>w. w\<lparr>w_sessions :=
     update_where (\<lambda>s. ss_UserID s = userID \<and> ss_RevokedAt s = None) (\<lambda>s. s\<lparr>ss_RevokedAt := Some (w_now w)\<rparr>) (w_sessions w)\<rparr>))"

definition session_DeleteExpired :: "env \<Rightarrow> ('l, int) go" where
  "session_DeleteExpired E = dbA E (bindA (getsA (\<lambda>w. filter (\<lambda>s. ss_ExpiresAt s < w_now w \<or> ss_RevokedAt s \<noteq> None) (w_sessions w))) (\<lambda>gone.
     bindA (modifyA (\<lambda>w. w\<lparr>w_sessions := filter (\<lambda>s. \<not> (ss_ExpiresAt s < w_now w \<or> ss_RevokedAt s \<noteq> None)) (w_sessions w)\<rparr>)) (\<lambda>_.
     retA (int (length gone)))))"

definition IsRevoked :: "Session \<Rightarrow> bool" where
  "IsRevoked s \<longleftrightarrow> ss_RevokedAt s \<noteq> None"

definition IsExpired :: "int \<Rightarrow> Session \<Rightarrow> bool" where
  "IsExpired now s \<longleftrightarrow> ss_ExpiresAt s < now"

section \<open>Sign-up, login, refresh\<close>

definition accessTokenTTL :: int where "accessTokenTTL = 15 * 60 * second"
definition refreshTokenTTL :: int where "refreshTokenTTL = 30 * 24 * 3600 * second"

record AuthService =
  as_secrets :: secrets
  as_sign :: jwtsign
  as_key :: string
  as_defaultBalance :: bool

record RegisterRequest =
  rr_PhoneNumber :: PhoneNumber
  rr_Username :: string
  rr_Password :: string

definition RegisterRequest_Validate :: "env \<Rightarrow> RegisterRequest \<Rightarrow> go_error + unit" where
  "RegisterRequest_Validate E r = Struct E [(FPhone (rr_PhoneNumber r), [''required'']),
     (FStr (rr_Username r), [''required'', ''min=3'', ''max=30'']), (FStr (rr_Password r), [''required'', ''min=8''])]"

record LoginRequest =
  lq_Identifier :: string
  lq_Password :: string

definition LoginRequest_Validate :: "env \<Rightarrow> LoginRequest \<Rightarrow> go_error + unit" where
  "LoginRequest_Validate E r = Struct E [(FStr (lq_Identifier r), [''required'']), (FStr (lq_Password r), [''required''])]"

definition RefreshRequest_Validate :: "env \<Rightarrow> string \<Rightarrow> go_error + unit" where
  "RefreshRequest_Validate E refreshToken = Struct E [(FStr refreshToken, [''required''])]"

record ChangePasswordRequest =
  ch_CurrentPassword :: string
  ch_NewPassword :: string

definition ChangePasswordRequest_Validate :: "env \<Rightarrow> ChangePasswordRequest \<Rightarrow> go_error + unit" where
  "ChangePasswordRequest_Validate E r = Struct E [(FStr (ch_CurrentPassword r), [''required'']),
     (FStr (ch_NewPassword r), [''required'', ''min=8''])]"

record UserInfo =
  ui_ID :: string
  ui_PhoneNumber :: PhoneNumber
  ui_Username :: "string option"
  ui_FirstName :: "string option"
  ui_LastName :: "string option"
  ui_KYCLevel :: int

definition userInfoFromDomain :: "User \<Rightarrow> UserInfo" where
  "userInfoFromDomain u = \<lparr>ui_ID = u_ID u, ui_PhoneNumber = u_PhoneNumber u, ui_Username = u_Username u,
     ui_FirstName = u_FirstName u, ui_LastName = u_LastName u, ui_KYCLevel = u_KYCLevel u\<rparr>"

record TokenResponse =
  tk_AccessToken :: string
  tk_RefreshToken :: string
  tk_ExpiresAt :: int
  tk_User :: UserInfo

definition nonempty :: "string \<Rightarrow> string option" where
  "nonempty s = (if s \<noteq> '''' then Some s else None)"

definition createSession :: "env \<Rightarrow> AuthService \<Rightarrow> User \<Rightarrow> string \<Rightarrow> string \<Rightarrow> ('l, TokenResponse) go" where
  "createSession E s user userAgent ipAddress =
     bindA (generateToken (as_secrets s)) (\<lambda>refreshToken.
     bindA nowA (\<lambda>now.
     bindA (session_Create E \<lparr>ss_ID = '''', ss_UserID = u_ID user, ss_RefreshToken = refreshToken,
       ss_UserAgent = nonempty userAgent, ss_IPAddress = nonempty ipAddress, ss_ExpiresAt = now + refreshTokenTTL,
       ss_RevokedAt = None, ss_CreatedAt = 0\<rparr>) (\<lambda>session.
     bindA (CreateToken (as_sign s) (as_key s) (u_ID user) (ss_ID session) accessTokenTTL) (\<lambda>accessToken.
     retA \<lparr>tk_AccessToken = accessToken, tk_RefreshToken = refreshToken, tk_ExpiresAt = now + accessTokenTTL,
       tk_User = userInfoFromDomain user\<rparr>))))"

text \<open>The value of \<open>domain.User\<close> with the fields a literal leaves out.\<close>

definition new_user :: "string \<Rightarrow> PhoneNumber \<Rightarrow> string option \<Rightarrow> string \<Rightarrow> string \<Rightarrow> User" where
  "new_user i p name hash wallet = \<lparr>u_ID = i, u_PhoneNumber = p, u_Username = name, u_PasswordHash = hash,
     u_AccountType = AccountTypePersonal, u_FaydaIDNumber = None, u_FirstName = None, u_MiddleName = None, u_LastName = None,
     u_DateOfBirth = None, u_Gender = None, u_FaydaPhotoURL = None, u_KYCLevel = 1, u_IsFrozen = False, u_FrozenReason = None,
     u_FrozenAt = None, u_LedgerWalletID = wallet, u_TelegramID = None, u_TelegramUsername = None,
     u_SpendWaterfallOrder = [], u_CreatedAt = 0, u_UpdatedAt = 0\<rparr>"

text \<open>The tail that sign-up and onboarding share: the row, the wallet, the first balance, the audit entry.\<close>

definition provision_user :: "env \<Rightarrow> 'l Client \<Rightarrow> bool \<Rightarrow> string \<Rightarrow> User \<Rightarrow> ('l, User) go" where
  "provision_user E L defaultBalance walletID user =
     bindA (user_Create E user) (\<lambda>user.
     bindA (ledA (CreateWallet L walletID (E164 (e_phone E) (u_PhoneNumber user)))) (\<lambda>_.
     bindA (whenA defaultBalance (bindA (CreateDefaultBalance E (u_ID user)) (\<lambda>_. retA ()))) (\<lambda>_.
     bindA (ignoreA (audit_Log E (audit_entry ''user_created'' ''system'' None ''user'' (u_ID user)))) (\<lambda>_.
     retA user))))"

definition Register :: "env \<Rightarrow> 'l Client \<Rightarrow> AuthService \<Rightarrow> RegisterRequest \<Rightarrow> string \<Rightarrow> string \<Rightarrow> ('l, TokenResponse) go" where
  "Register E L s req userAgent ipAddress =
     bindA (liftE (RegisterRequest_Validate E req)) (\<lambda>_.
     bindA (tryA (user_GetByPhone E (rr_PhoneNumber req))) (\<lambda>r1.
     case r1 of Inr _ \<Rightarrow> throwA (General ErrConflict) | Inl _ \<Rightarrow>
     bindA (tryA (user_GetByUsername E (rr_Username req))) (\<lambda>r2.
     case r2 of Inr _ \<Rightarrow> throwA (Identity ErrUsernameTaken) | Inl _ \<Rightarrow>
     bindA (hashPassword (as_secrets s) (rr_Password req)) (\<lambda>hash.
     bindA (newID E) (\<lambda>walletID.
     bindA (newID E) (\<lambda>userID.
     bindA (provision_user E L (as_defaultBalance s) walletID
       (new_user userID (rr_PhoneNumber req) (Some (rr_Username req)) hash (''wallet:'' @ walletID))) (\<lambda>user.
     createSession E s user userAgent ipAddress)))))))"

definition auth_resolveUser :: "env \<Rightarrow> string \<Rightarrow> ('l, User) go" where
  "auth_resolveUser E identifier =
     (case phone_Parse (e_phone E) identifier of
        Inr p \<Rightarrow> user_GetByPhone E p
      | Inl _ \<Rightarrow> mapErrA (\<lambda>_. Identity ErrUserNotFound) (user_GetByUsername E identifier))"

definition Login :: "env \<Rightarrow> AuthService \<Rightarrow> LoginRequest \<Rightarrow> string \<Rightarrow> string \<Rightarrow> ('l, TokenResponse) go" where
  "Login E s req userAgent ipAddress =
     bindA (liftE (LoginRequest_Validate E req)) (\<lambda>_.
     bindA (mapErrA (\<lambda>_. Admin ErrInvalidCredentials) (auth_resolveUser E (lq_Identifier req))) (\<lambda>user.
     if u_PasswordHash user = '''' then throwA (Admin ErrInvalidCredentials)
     else if MatchPassword (sx_kdf (as_secrets s)) (u_PasswordHash user) (lq_Password req) \<noteq> Inr ()
     then throwA (Admin ErrInvalidCredentials)
     else if u_IsFrozen user then throwA (Identity ErrUserFrozen)
     else createSession E s user userAgent ipAddress))"

definition auth_Refresh :: "env \<Rightarrow> AuthService \<Rightarrow> string \<Rightarrow> string \<Rightarrow> string \<Rightarrow> ('l, TokenResponse) go" where
  "auth_Refresh E s refreshToken userAgent ipAddress =
     bindA (liftE (RefreshRequest_Validate E refreshToken)) (\<lambda>_.
     bindA (mapErrA (\<lambda>_. Admin ErrInvalidCredentials) (session_GetByRefreshToken E refreshToken)) (\<lambda>session.
     bindA nowA (\<lambda>now.
     if IsRevoked session then throwA (Identity ErrSessionRevoked)
     else if IsExpired now session then throwA (Identity ErrSessionExpired)
     else bindA (ignoreA (session_Revoke E (ss_ID session))) (\<lambda>_.
     bindA (user_GetByID E (ss_UserID session)) (\<lambda>user.
     if u_IsFrozen user then throwA (Identity ErrUserFrozen)
     else createSession E s user userAgent ipAddress)))))"

definition Logout :: "env \<Rightarrow> string \<Rightarrow> ('l, unit) go" where
  "Logout E refreshToken =
     bindA (tryA (session_GetByRefreshToken E refreshToken)) (\<lambda>r.
     case r of Inl _ \<Rightarrow> retA () | Inr session \<Rightarrow> session_Revoke E (ss_ID session))"

definition ChangePassword :: "env \<Rightarrow> secrets \<Rightarrow> string \<Rightarrow> ChangePasswordRequest \<Rightarrow> ('l, unit) go" where
  "ChangePassword E X userID req =
     bindA (liftE (ChangePasswordRequest_Validate E req)) (\<lambda>_.
     bindA (user_GetByID E userID) (\<lambda>user.
     if u_PasswordHash user = '''' then throwA (Admin ErrInvalidCredentials)
     else if MatchPassword (sx_kdf X) (u_PasswordHash user) (ch_CurrentPassword req) \<noteq> Inr ()
     then throwA (Admin ErrInvalidCredentials)
     else bindA (hashPassword X (ch_NewPassword req)) (\<lambda>hash.
     bindA (user_UpdatePassword E userID hash) (\<lambda>_.
     ignoreA (session_RevokeAllForUser E userID)))))"


section \<open>Onboarding\<close>

definition kyc_Create :: "env \<Rightarrow> KYCVerification \<Rightarrow> ('l, unit) go" where
  "kyc_Create E v = dbA E (bindA (newID E) (\<lambda>i. bindA nowA (\<lambda>now. bindA (getsA w_users) (\<lambda>us.
     if \<not> list_ex (\<lambda>u. u_ID u = ky_UserID v) us then throwA db_error
     else modifyA (\<lambda>w. w\<lparr>w_kyc := w_kyc w @ [v\<lparr>ky_ID := i, ky_VerifiedAt := None, ky_FaydaExpiryDate := None, ky_CreatedAt := now\<rparr>]\<rparr>)))))"

definition kyc_GetByUserID :: "env \<Rightarrow> string \<Rightarrow> ('l, KYCVerification list) go" where
  "kyc_GetByUserID E userID = dbA E (getsA (\<lambda>w. sort_key (\<lambda>v. - ky_CreatedAt v) (filter (\<lambda>v. ky_UserID v = userID) (w_kyc w))))"

definition kyc_UpdateStatus :: "env \<Rightarrow> string \<Rightarrow> KYCVerificationStatus \<Rightarrow> ('l, unit) go" where
  "kyc_UpdateStatus E i status = dbA E (modifyA (\<lambda>w. w\<lparr>w_kyc := update_where (\<lambda>v. ky_ID v = i)
     (\<lambda>v. if status = KYCStatusVerified then v\<lparr>ky_Status := status, ky_VerifiedAt := Some (w_now w)\<rparr> else v\<lparr>ky_Status := status\<rparr>)
     (w_kyc w)\<rparr>))"

record KYCIdentity =
  id_FullName :: string
  id_DOB :: string
  id_Gender :: string

record OnboardingService =
  on_RequestOTP :: "string \<Rightarrow> string \<Rightarrow> go_error + unit"
  on_VerifyAndFetchKYC :: "string \<Rightarrow> string \<Rightarrow> string \<Rightarrow> go_error + KYCIdentity"
  on_pgdate :: "string \<Rightarrow> int option"
  on_defaultBalance :: bool

definition RegisterUser :: "env \<Rightarrow> 'l Client \<Rightarrow> OnboardingService \<Rightarrow> PhoneNumber \<Rightarrow> ('l, User) go" where
  "RegisterUser E L s phoneNumber =
     bindA (liftE (Struct E [(FPhone phoneNumber, [''required''])])) (\<lambda>_.
     bindA (tryA (user_GetByPhone E phoneNumber)) (\<lambda>r.
     case r of
       Inr existing \<Rightarrow> retA existing
     | Inl e \<Rightarrow>
       if e \<noteq> Identity ErrUserNotFound then throwA e
       else bindA (newID E) (\<lambda>walletID.
         bindA (newID E) (\<lambda>userID.
         provision_user E L (on_defaultBalance s) walletID (new_user userID phoneNumber None '''' (''wallet:'' @ walletID))))))"

definition RequestOTP :: "env \<Rightarrow> OnboardingService \<Rightarrow> string \<Rightarrow> string \<Rightarrow> ('l, string) go" where
  "RequestOTP E s userID faydaFIN =
     bindA (liftE (Struct E [(FStr faydaFIN, [''required'', ''min=5''])])) (\<lambda>_.
     bindA (user_GetByID E userID) (\<lambda>_.
     bindA (newID E) (\<lambda>txID.
     bindA (liftE (on_RequestOTP s faydaFIN txID)) (\<lambda>_.
     bindA (kyc_Create E \<lparr>ky_ID = '''', ky_UserID = userID, ky_FaydaFIN = faydaFIN, ky_FaydaTransactionID = txID,
       ky_Status = KYCStatusPending, ky_VerifiedAt = None, ky_FaydaExpiryDate = None, ky_RawResponseHash = None,
       ky_CreatedAt = 0\<rparr>) (\<lambda>_.
     bindA (ignoreA (audit_Log E (audit_entry ''kyc_otp_requested'' ''user'' (Some userID) ''user'' userID))) (\<lambda>_.
     retA txID))))))"

record KYCVerifyRequest =
  kv_FaydaFIN :: string
  kv_OTP :: string
  kv_TransactionID :: string

definition VerifyOTP :: "env \<Rightarrow> OnboardingService \<Rightarrow> string \<Rightarrow> KYCVerifyRequest \<Rightarrow> ('l, unit) go" where
  "VerifyOTP E s userID req =
     bindA (liftE (Struct E [(FStr (kv_FaydaFIN req), [''required'', ''min=5'']), (FStr (kv_OTP req), [''required'', ''len=6'']),
       (FStr (kv_TransactionID req), [''required''])])) (\<lambda>_.
     case on_VerifyAndFetchKYC s (kv_FaydaFIN req) (kv_OTP req) (kv_TransactionID req) of
       Inl e \<Rightarrow>
         bindA (ignoreA (kyc_UpdateStatus E (kv_TransactionID req) KYCStatusFailed)) (\<lambda>_.
         bindA (ignoreA (audit_Log E (audit_entry ''kyc_failed'' ''user'' (Some userID) ''user'' userID))) (\<lambda>_.
         throwA e))
     | Inr ident \<Rightarrow>
         bindA (user_UpdateDemographics E (on_pgdate s) userID (Some (id_FullName ident)) None None (Some (id_DOB ident))
           (Some (id_Gender ident)) None) (\<lambda>_.
         bindA (user_UpdateKYCLevel E userID 2) (\<lambda>_.
         ignoreA (audit_Log E (audit_entry ''kyc_verified'' ''user'' (Some userID) ''user'' userID)))))"

section \<open>Telegram\<close>

definition link_token_Create :: "env \<Rightarrow> secrets \<Rightarrow> string \<Rightarrow> int \<Rightarrow> ('l, string) go" where
  "link_token_Create E X userID ttl =
     bindA (generateToken X) (\<lambda>token.
     bindA nowA (\<lambda>now.
     dbA E (bindA (getsA id) (\<lambda>w.
       if \<not> list_ex (\<lambda>u. u_ID u = userID) (w_users w) \<or> list_ex (\<lambda>t. tl_Token t = token) (w_link_tokens w) then throwA db_error
       else bindA (modifyA (\<lambda>w. w\<lparr>w_link_tokens := w_link_tokens w @ [\<lparr>tl_Token = token, tl_UserID = userID, tl_Consumed = False,
         tl_ExpiresAt = now + ttl, tl_CreatedAt = now\<rparr>]\<rparr>)) (\<lambda>_. retA token)))))"

definition link_token_valid :: "int \<Rightarrow> string \<Rightarrow> TelegramLinkToken \<Rightarrow> bool" where
  "link_token_valid now token t \<longleftrightarrow> tl_Token t = token \<and> \<not> tl_Consumed t \<and> now < tl_ExpiresAt t"

definition link_token_Consume :: "env \<Rightarrow> string \<Rightarrow> ('l, string) go" where
  "link_token_Consume E token = dbA E (bindA (getsA (\<lambda>w. select_one (link_token_valid (w_now w) token) (w_link_tokens w))) (\<lambda>r.
     bindA (modifyA (\<lambda>w. w\<lparr>w_link_tokens := update_where (link_token_valid (w_now w) token) (\<lambda>t. t\<lparr>tl_Consumed := True\<rparr>) (w_link_tokens w)\<rparr>))
       (\<lambda>_. case r of None \<Rightarrow> throwA (General ErrNotFound) | Some t \<Rightarrow> retA (tl_UserID t))))"

definition link_token_stale :: "int \<Rightarrow> int \<Rightarrow> TelegramLinkToken \<Rightarrow> bool" where
  "link_token_stale now olderThan t \<longleftrightarrow> tl_ExpiresAt t < now - olderThan \<or> (tl_Consumed t \<and> tl_CreatedAt t < now - olderThan)"

definition link_token_PurgeExpired :: "env \<Rightarrow> int \<Rightarrow> ('l, int) go" where
  "link_token_PurgeExpired E olderThan = dbA E (bindA (getsA (\<lambda>w. filter (link_token_stale (w_now w) olderThan) (w_link_tokens w))) (\<lambda>gone.
     bindA (modifyA (\<lambda>w. w\<lparr>w_link_tokens := filter (\<lambda>t. \<not> link_token_stale (w_now w) olderThan t) (w_link_tokens w)\<rparr>)) (\<lambda>_.
     retA (int (length gone)))))"

text \<open>\<open>SendMessage\<close> of the Telegram API, by chat and text.\<close>

type_synonym send_message = "int \<Rightarrow> string \<Rightarrow> go_error + unit"

definition nl :: string where "nl = [CHR 0x0A]"

definition handleDeepLink :: "env \<Rightarrow> send_message \<Rightarrow> int \<Rightarrow> int \<Rightarrow> string \<Rightarrow> string \<Rightarrow> ('l, unit) go" where
  "handleDeepLink E send chatID telegramID username token =
     bindA (tryA (link_token_Consume E token)) (\<lambda>r1.
     case r1 of
       Inl _ \<Rightarrow> liftE (send chatID ''Invalid or expired link token. Please generate a new one from the app.'')
     | Inr userID \<Rightarrow>
       bindA (tryA (user_GetByID E userID)) (\<lambda>r2.
       case r2 of
         Inl _ \<Rightarrow> liftE (send chatID ''Account not found. Please contact support.'')
       | Inr user \<Rightarrow>
         bindA (user_BindTelegram E (u_ID user) telegramID username) (\<lambda>_.
         bindA (ignoreA (audit_Log E (audit_entry ''telegram_bound'' ''user'' (Some (u_ID user)) ''user'' (u_ID user)))) (\<lambda>_.
         liftE (send chatID (''Successfully linked! Welcome, '' @ FullName user @ ''.''))))))"

definition balance_line :: "(string \<times> int) list \<Rightarrow> currency \<Rightarrow> string option" where
  "balance_line balances cur =
     (case map_of balances (FormatAsset [Code cur]) of
        None \<Rightarrow> None
      | Some bal \<Rightarrow> let cents = i64 bal in
          Some (if cents = 0 then ''  '' @ Flag cur @ '' '' @ Code cur @ '': '' @ Symbol cur @ '' 0.00''
            else ''  '' @ Flag cur @ '' '' @ Code cur @ '': '' @ Display cents (Code cur)))"

text \<open>A balance missing from the map is a nil pointer, whose use panics.\<close>

definition balance_message :: "User \<Rightarrow> (string \<times> int) list \<Rightarrow> string option" where
  "balance_message user balances =
     (let rows = map (balance_line balances) SupportedCurrencies in
      if None \<in> set rows then None
      else Some ((''Hi '' @ FullName user @ ''! Your balances:'') @ concat (map (\<lambda>r. case r of None \<Rightarrow> [] | Some l \<Rightarrow> nl @ l) rows)))"

definition handleBalance :: "env \<Rightarrow> 'l Client \<Rightarrow> send_message \<Rightarrow> int \<Rightarrow> int \<Rightarrow> ('l, unit) go" where
  "handleBalance E L send chatID telegramID =
     bindA (tryA (user_GetByTelegramID E telegramID)) (\<lambda>r1.
     case r1 of
       Inl _ \<Rightarrow> liftE (send chatID ''Your Telegram account is not linked yet. Open the app and go to Settings > Link Telegram.'')
     | Inr user \<Rightarrow>
       bindA (tryA (ledA (GetMultiCurrencyBalances L (u_LedgerWalletID user) AllAssets))) (\<lambda>r2.
       case r2 of
         Inl _ \<Rightarrow> liftE (send chatID ''Could not fetch your balances. Please try again later.'')
       | Inr balances \<Rightarrow>
         (case balance_message user balances of
            None \<Rightarrow> throwA (Opaque ''nil pointer dereference'') | Some text \<Rightarrow> liftE (send chatID text))))"

record TelegramMessage =
  tm_ChatID :: int
  tm_From :: "(int \<times> string) option"
  tm_Text :: string

definition HandleUpdate :: "env \<Rightarrow> 'l Client \<Rightarrow> send_message \<Rightarrow> TelegramMessage option \<Rightarrow> ('l, unit) go" where
  "HandleUpdate E L send message =
     (case message of
        None \<Rightarrow> retA ()
      | Some msg \<Rightarrow> (case tm_From msg of
          None \<Rightarrow> retA ()
        | Some (fromID, username) \<Rightarrow>
          let text = TrimSpace (tm_Text msg) in
          if take 7 text = ''/start '' then handleDeepLink E send (tm_ChatID msg) fromID username (TrimPrefix text ''/start '')
          else if text = ''/balance'' then handleBalance E L send (tm_ChatID msg) fromID
          else if text = ''/help'' then liftE (send (tm_ChatID msg)
            (''Available commands:'' @ nl @ ''/balance - Check your wallet balance'' @ nl @ ''/help - Show this help message''))
          else liftE (send (tm_ChatID msg) ''Unknown command. Type /help for available commands.'')))"


section \<open>Spent refresh tokens\<close>

text \<open>\<open>spent X tok\<close>: every session of the token is revoked, and the random tokens still to be drawn differ from it.\<close>

definition dead :: "string \<Rightarrow> 'l world \<Rightarrow> bool" where
  "dead tok w \<longleftrightarrow> (\<forall>s \<in> set (w_sessions w). ss_RefreshToken s = tok \<longrightarrow> IsRevoked s)"

text \<open>Evaluation unfolds an action only when it runs.\<close>

lemmas sessions_code [code] =
  hashPassword_def [THEN fun_cong]
  generateToken_def [THEN fun_cong]
  CreateToken_def [THEN fun_cong]
  session_Create_def [THEN fun_cong]
  session_GetByRefreshToken_def [THEN fun_cong]
  session_Revoke_def [THEN fun_cong]
  session_RevokeAllForUser_def [THEN fun_cong]
  session_DeleteExpired_def [THEN fun_cong]
  createSession_def [THEN fun_cong]
  provision_user_def [THEN fun_cong]
  Register_def [THEN fun_cong]
  auth_resolveUser_def [THEN fun_cong]
  Login_def [THEN fun_cong]
  auth_Refresh_def [THEN fun_cong]
  Logout_def [THEN fun_cong]
  ChangePassword_def [THEN fun_cong]
  kyc_Create_def [THEN fun_cong]
  kyc_GetByUserID_def [THEN fun_cong]
  kyc_UpdateStatus_def [THEN fun_cong]
  RegisterUser_def [THEN fun_cong]
  RequestOTP_def [THEN fun_cong]
  VerifyOTP_def [THEN fun_cong]
  link_token_Create_def [THEN fun_cong]
  link_token_Consume_def [THEN fun_cong]
  handleDeepLink_def [THEN fun_cong]
  handleBalance_def [THEN fun_cong]
  HandleUpdate_def [THEN fun_cong]

definition undrawn :: "secrets \<Rightarrow> string \<Rightarrow> nat \<Rightarrow> bool" where
  "undrawn X tok n \<longleftrightarrow> (\<forall>k \<ge> n. \<forall>b. sx_rand X k = Some b \<longrightarrow> EncodeToString b \<noteq> tok)"

definition spent :: "secrets \<Rightarrow> string \<Rightarrow> 'l world \<Rightarrow> bool" where
  "spent X tok w \<longleftrightarrow> dead tok w \<and> undrawn X tok (w_uuidn w)"

lemma undrawn_mono:
  assumes "undrawn X tok m" "m \<le> n"
  shows "undrawn X tok n"
  unfolding undrawn_def
proof (intro allI impI)
  fix k b assume k: "n \<le> k" "sx_rand X k = Some b"
  with assms(2) have "m \<le> k" by simp
  with assms(1) k(2) show "EncodeToString b \<noteq> tok" unfolding undrawn_def by blast
qed

lemma undrawn_Suc: "undrawn X tok n \<Longrightarrow> undrawn X tok (Suc n)"
  using undrawn_mono [of X tok n "Suc n"] by simp

text \<open>Actions that leave the sessions alone and never rewind the randomness.\<close>

lemma spent_same:
  assumes "\<And>w. w_sessions (snd (m w)) = w_sessions w" "\<And>w. w_uuidn w \<le> w_uuidn (snd (m w))"
  shows "keepsA (spent X tok) m"
  using assms undrawn_mono by (intro keepsAI) (fastforce simp: spent_def dead_def)

lemma spent_reads [keeps]:
  "keepsA (spent X tok) (user_GetByID E i)" "keepsA (spent X tok) (user_GetByPhone E p)" "keepsA (spent X tok) (user_GetByUsername E n)"
  "keepsA (spent X tok) (session_GetByRefreshToken E t)" "keepsA (spent X tok) (newID E)" "keepsA (spent X tok) nowA"
  "keepsA (spent X tok) (drawA f)" "keepsA (spent X tok) (ledA l)" "keepsA (spent X tok) (audit_Log E e)"
  by (rule spent_same; simp add: user_GetByID_def user_GetByPhone_def user_GetByUsername_def user_query_def
      session_GetByRefreshToken_def newID_def nowA_def drawA_def ledA_def audit_Log_def dbA_def Let_def bindA_def getsA_def
      modifyA_def throwA_def retA_def split: prod.splits option.splits)+

lemma spent_writes [keeps]:
  "keepsA (spent X tok) (user_Create E u)" "keepsA (spent X tok) (user_UpdatePassword E i h)"
  "keepsA (spent X tok) (balance_Create E b)" "keepsA (spent X tok) (details_Create E d)"
  "keepsA (spent X tok) (details_GetByCurrencyBalanceID E i)" "keepsA (spent X tok) (details_NextAccountNumber E)"
  by (rule spent_same; simp add: user_Create_def user_UpdatePassword_def user_update_def balance_Create_def details_Create_def
      details_GetByCurrencyBalanceID_def details_NextAccountNumber_def newID_def nowA_def dbA_def Let_def bindA_def getsA_def
      modifyA_def throwA_def retA_def split: prod.splits option.splits)+

lemma spent_default_balance [keeps]: "keepsA (spent X tok) (CreateDefaultBalance E u)"
proof -
  have "keepsA (spent X tok) (case r of Inr (Some d) \<Rightarrow> retA d | _ \<Rightarrow> m)" if "keepsA (spent X tok) m"
    for r :: "go_error + AccountDetails option" and m :: "('a, AccountDetails) go"
    using that by (auto intro: keeps split: sum.splits option.splits)
  then show ?thesis unfolding CreateDefaultBalance_def generateAccountDetails_def Let_def by (intro keeps)
qed

lemma spent_revocations [keeps]:
  "keepsA (spent X tok) (session_Revoke E i)" "keepsA (spent X tok) (session_RevokeAllForUser E u)"
  "keepsA (spent X tok) (session_DeleteExpired E)"
  by (rule keepsAI; auto simp: session_Revoke_def session_RevokeAllForUser_def session_DeleteExpired_def spent_def dead_def IsRevoked_def
      update_where_def dbA_def Let_def bindA_def getsA_def modifyA_def throwA_def retA_def)+

lemma spent_session [keeps]:
  "ss_RefreshToken s \<noteq> tok \<Longrightarrow> keepsA (spent X tok) (session_Create E s)"
  by (rule keepsAI) (auto simp: session_Create_def spent_def dead_def undrawn_Suc newID_def nowA_def dbA_def Let_def bindA_def getsA_def
      modifyA_def throwA_def retA_def)

lemma spent_token:
  assumes "\<And>t. t \<noteq> tok \<Longrightarrow> keepsA (spent X tok) (k t)"
  shows "keepsA (spent X tok) (bindA (generateToken X) k)"
proof (rule keepsAI)
  fix w :: "'a world" assume w: "spent X tok w"
  let ?w = "w\<lparr>w_uuidn := Suc (w_uuidn w)\<rparr>"
  have w1: "spent X tok ?w" using w by (simp add: spent_def dead_def undrawn_Suc)
  show "spent X tok (snd (bindA (generateToken X) k w))"
  proof (cases "sx_rand X (w_uuidn w)")
    case (Some b)
    then have "EncodeToString b \<noteq> tok" using w by (auto simp: spent_def undrawn_def)
    from keepsAD [OF assms [OF this] w1] show ?thesis
      using Some by (simp add: generateToken_def drawA_def bindA_def retA_def)
  qed (use w1 in \<open>simp add: generateToken_def drawA_def bindA_def throwA_def\<close>)
qed

lemma spent_services [keeps]:
  "keepsA (spent (as_secrets s) tok) (createSession E s u ua ip)"
  "keepsA (spent X tok) (provision_user E L b wid u)"
  "keepsA (spent X tok) (hashPassword X' pw)"
  "keepsA (spent X tok) (auth_resolveUser E i)"
  unfolding createSession_def CreateToken_def provision_user_def hashPassword_def auth_resolveUser_def
  by (intro spent_token keeps; simp)+

lemma spent_operations:
  "keepsA (spent (as_secrets s) tok) (Register E L s req ua ip)"
  "keepsA (spent (as_secrets s) tok) (Login E s lreq ua ip)"
  "keepsA (spent (as_secrets s) tok) (auth_Refresh E s t ua ip)"
  "keepsA (spent X tok) (Logout E t)"
  "keepsA (spent X tok) (ChangePassword E X' u creq)"
  unfolding Register_def Login_def auth_Refresh_def Logout_def ChangePassword_def by (intro keeps)+

text \<open>The operations on sessions in any order, with any failures, and whatever else changes in between: other tables, the
  ledger, the clock.\<close>

inductive auth_step :: "'l Client \<Rightarrow> AuthService \<Rightarrow> 'l world \<Rightarrow> 'l world \<Rightarrow> bool" for L s where
  register: "Register E L s req ua ip w = (x1, w') \<Longrightarrow> auth_step L s w w'"
| login: "Login E s lreq ua ip w = (x2, w') \<Longrightarrow> auth_step L s w w'"
| refresh: "auth_Refresh E s t ua ip w = (x3, w') \<Longrightarrow> auth_step L s w w'"
| logout: "Logout E t w = (x4, w') \<Longrightarrow> auth_step L s w w'"
| password: "ChangePassword E (as_secrets s) u creq w = (x5, w') \<Longrightarrow> auth_step L s w w'"
| cleanup: "session_DeleteExpired E w = (x6, w') \<Longrightarrow> auth_step L s w w'"
| other: "w_sessions w' = w_sessions w \<Longrightarrow> w_uuidn w \<le> w_uuidn w' \<Longrightarrow> auth_step L s w w'"

lemma spent_steps:
  assumes "(auth_step L s)\<^sup>*\<^sup>* w w'" "spent (as_secrets s) tok w"
  shows "spent (as_secrets s) tok w'"
  using assms
proof (induction rule: rtranclp_induct)
  case (step w1 w2)
  from step.hyps(2) step.IH [OF step.prems] show ?case
  proof cases
    case other
    then show ?thesis using step.IH [OF step.prems] undrawn_mono by (auto simp: spent_def dead_def)
  qed (blast intro: keepsA_run spent_operations spent_revocations(3))+
qed

lemma refresh_refused:
  assumes "dead tok w"
  shows "\<exists>e w'. auth_Refresh E s tok ua ip w = (Inl e, w')"
proof -
  have "\<exists>e w'. auth_Refresh E s tok ua ip w = (Inl e, w')"
    if "select_one (\<lambda>s. ss_RefreshToken s = tok) (w_sessions w) = Some x" for x
    using select_one_Some [OF that] assms that
    by (auto simp: auth_Refresh_def dead_def session_GetByRefreshToken_def bindA_def liftE_def mapErrA_def dbA_def Let_def getsA_def
        nowA_def throwA_def retA_def split: sum.splits prod.splits)
  moreover have "\<exists>e w'. auth_Refresh E s tok ua ip w = (Inl e, w')"
    if "select_one (\<lambda>s. ss_RefreshToken s = tok) (w_sessions w) = None"
    using that
    by (auto simp: auth_Refresh_def session_GetByRefreshToken_def bindA_def liftE_def mapErrA_def dbA_def Let_def getsA_def
        throwA_def split: sum.splits prod.splits)
  ultimately show ?thesis by (cases "select_one (\<lambda>s. ss_RefreshToken s = tok) (w_sessions w)") auto
qed


section \<open>What a successful call shows\<close>

lemma createSession_run:
  assumes "createSession E s user ua ip w = (Inr resp, w')"
  obtains row sid where "w_sessions w' = w_sessions w @ [row]" "ss_UserID row = u_ID user" "ss_RefreshToken row = tk_RefreshToken resp"
    "\<not> IsRevoked row" "ss_ExpiresAt row = w_now w + refreshTokenTTL" "tk_User resp = userInfoFromDomain user"
    "as_sign s (as_key s) \<lparr>mc_sub = Some (u_ID user), mc_session = Some sid, mc_exp = Some ((w_now w + accessTokenTTL) div second),
       mc_iss = '''', mc_aud = [], mc_role = None\<rparr> = Inr (tk_AccessToken resp)"
    "w_ledger w' = w_ledger w" "w_users w' = w_users w"
  using assms
  by (auto simp: createSession_def generateToken_def drawA_def session_Create_def CreateToken_def newID_def nowA_def IsRevoked_def
      runs dbA_run Let_def split: option.splits sum.splits if_splits)

lemma session_GetByRefreshToken_run:
  assumes "session_GetByRefreshToken E tok w = (Inr x, w')"
  shows "x \<in> set (w_sessions w)" "ss_RefreshToken x = tok" "w' = w\<lparr>w_dbn := Suc (w_dbn w)\<rparr>"
  using assms select_one_Some [of "\<lambda>s. ss_RefreshToken s = tok" "w_sessions w" x]
  by (auto simp: session_GetByRefreshToken_def runs dbA_run split: option.splits if_splits)

lemma revoked_dead:
  assumes "\<And>n. e_db_ok E n" "distinct (map ss_RefreshToken (w_sessions w))" "x \<in> set (w_sessions w)" "\<not> IsRevoked x"
  shows "dead (ss_RefreshToken x) (snd (session_Revoke E (ss_ID x) w))" "w_uuidn (snd (session_Revoke E (ss_ID x) w)) = w_uuidn w"
proof -
  have "y = x" if "y \<in> set (w_sessions w)" "ss_RefreshToken y = ss_RefreshToken x" for y
    using that assms(2,3) by (auto simp: distinct_map dest: inj_onD)
  then show "dead (ss_RefreshToken x) (snd (session_Revoke E (ss_ID x) w))"
    using assms(1,4)
    by (auto simp: session_Revoke_def dead_def IsRevoked_def update_where_def dbA_def Let_def bindA_def getsA_def modifyA_def throwA_def retA_def)
qed (use assms(1) in \<open>simp add: session_Revoke_def dbA_def Let_def bindA_def getsA_def modifyA_def throwA_def retA_def\<close>)


lemma auth_Refresh_run:
  assumes run: "auth_Refresh E s tok ua ip w = (Inr resp, w')" and db: "\<And>n. e_db_ok E n"
    and tokens: "distinct (map ss_RefreshToken (w_sessions w))"
  obtains x user w3 where "x \<in> set (w_sessions w)" "ss_RefreshToken x = tok" "\<not> IsRevoked x" "\<not> IsExpired (w_now w) x"
    "user \<in> set (w_users w)" "u_ID user = ss_UserID x" "\<not> u_IsFrozen user" "dead tok w3" "w_uuidn w3 = w_uuidn w"
    "createSession E s user ua ip w3 = (Inr resp, w')"
proof -
  let ?w1 = "w\<lparr>w_dbn := Suc (w_dbn w)\<rparr>"
  obtain x v user w3 where found: "session_GetByRefreshToken E tok w = (Inr x, v)" and live: "\<not> IsRevoked x" "\<not> IsExpired (w_now v) x"
    and get: "user_GetByID E (ss_UserID x) (snd (session_Revoke E (ss_ID x) v)) = (Inr user, w3)" and u: "\<not> u_IsFrozen user"
    and c: "createSession E s user ua ip w3 = (Inr resp, w')"
    using run unfolding auth_Refresh_def by (auto simp: runs nowA_def ignoreA_def split: if_splits)
  note f = session_GetByRefreshToken_run [OF found]
  let ?w2 = "snd (session_Revoke E (ss_ID x) ?w1)"
  have x: "x \<in> set (w_sessions w)" "ss_RefreshToken x = tok" "\<not> IsRevoked x" "\<not> IsExpired (w_now w) x"
    using f live by simp_all
  note get = get [unfolded f(3)]
  have dead: "dead tok ?w2" "w_uuidn ?w2 = w_uuidn w"
    using revoked_dead [OF db, of ?w1 x] tokens x by simp_all
  have users: "w_users ?w2 = w_users w"
    by (simp add: session_Revoke_def dbA_def Let_def bindA_def getsA_def modifyA_def throwA_def retA_def)
  note g = user_GetByID_run [OF get]
  have "w_sessions w3 = w_sessions ?w2"
    using get by (auto simp: user_GetByID_def user_query_def runs dbA_run split: option.splits if_splits)
  then have "dead tok w3" using dead by (simp add: dead_def)
  moreover have "w_uuidn w3 = w_uuidn w" using stable_fields(5) [OF g(3)] dead(2) by simp
  ultimately show ?thesis using that x u g users c by simp
qed

section \<open>Properties\<close>

text \<open>The documented behaviour of the JWT library: before its expiry a signed token parses under the same key to the claims
  that were signed.\<close>

definition jwt_ok :: "jwtlib \<Rightarrow> jwtsign \<Rightarrow> bool" where
  "jwt_ok J sign \<longleftrightarrow> (\<forall>key c tok now. sign key c = Inr tok \<longrightarrow> (\<forall>e. mc_exp c = Some e \<longrightarrow> now < e * second) \<longrightarrow> J key now tok = Inr c)"

text \<open>Whether a customer is the one an identifier names: by phone number if it reads as one, by username otherwise.\<close>

definition identified :: "env \<Rightarrow> string \<Rightarrow> User \<Rightarrow> bool" where
  "identified E identifier u \<longleftrightarrow> (case phone_Parse (e_phone E) identifier of
     Inr p \<Rightarrow> CountryCode (u_PhoneNumber u) = CountryCode p \<and> Number (u_PhoneNumber u) = Number p
   | Inl _ \<Rightarrow> u_Username u = Some identifier)"

lemma auth_resolveUser_run:
  assumes "auth_resolveUser E i w = (Inr u, w')"
  shows "u \<in> set (w_users w)" "identified E i u" "stable w' = stable w" "w_sessions w' = w_sessions w"
proof -
  obtain p where q: "user_query E p w = (Inr u, w')" and p: "p u \<Longrightarrow> identified E i u"
    using assms by (auto simp: auth_resolveUser_def identified_def user_GetByPhone_def user_GetByUsername_def runs split: sum.splits)
  show "u \<in> set (w_users w)" "identified E i u" using select_one_Some [OF user_query_run(1) [OF q]] p by auto
  show "stable w' = stable w" by (rule user_query_run(2) [OF q])
  show "w_sessions w' = w_sessions w" using q by (auto simp: user_query_def runs dbA_run split: option.splits if_splits)
qed

text \<open>C14: a login that succeeds was made by a customer who is not frozen, under that customer's phone number or username and with a
  password that matches the stored hash. It adds one session, open for thirty days, and until the quarter of an hour is over (in
  whole seconds) every route behind the authentication middleware runs its handler for exactly this customer when the request
  carries the access token.\<close>

theorem Login_authenticates:
  assumes run: "Login E s req ua ip w = (Inr resp, w')" and jwt: "jwt_ok J (as_sign s)"
    and ids: "\<forall>u \<in> set (w_users w). u_ID u \<noteq> ''''"
  shows "\<exists>user row. user \<in> set (w_users w) \<and> identified E (lq_Identifier req) user \<and> \<not> u_IsFrozen user
    \<and> MatchPassword (sx_kdf (as_secrets s)) (u_PasswordHash user) (lq_Password req) = Inr ()
    \<and> tk_User resp = userInfoFromDomain user
    \<and> w_sessions w' = w_sessions w @ [row] \<and> ss_UserID row = u_ID user \<and> ss_RefreshToken row = tk_RefreshToken resp
    \<and> \<not> IsRevoked row \<and> ss_ExpiresAt row = w_now w + refreshTokenTTL
    \<and> w_ledger w' = w_ledger w \<and> w_users w' = w_users w
    \<and> (\<forall>(v :: 'k world) r handler. hr_Authorization r = ''Bearer '' @ tk_AccessToken resp
         \<longrightarrow> w_now v < (w_now w + accessTokenTTL) div second * second
         \<longrightarrow> Auth J (as_key s) handler r v = handler (r\<lparr>hr_UserID := u_ID user\<rparr>) v)"
proof -
  obtain user w1 where r: "auth_resolveUser E (lq_Identifier req) w = (Inr user, w1)" and f: "\<not> u_IsFrozen user"
    and m: "MatchPassword (sx_kdf (as_secrets s)) (u_PasswordHash user) (lq_Password req) = Inr ()"
    and c: "createSession E s user ua ip w1 = (Inr resp, w')"
    using run unfolding Login_def by (auto simp: runs split: if_splits)
  note u = auth_resolveUser_run [OF r]
  note st = stable_fields [OF u(3)]
  obtain row sid where row: "w_sessions w' = w_sessions w1 @ [row]" "ss_UserID row = u_ID user" "ss_RefreshToken row = tk_RefreshToken resp"
    "\<not> IsRevoked row" "ss_ExpiresAt row = w_now w1 + refreshTokenTTL" "tk_User resp = userInfoFromDomain user"
    and sign: "as_sign s (as_key s) \<lparr>mc_sub = Some (u_ID user), mc_session = Some sid,
       mc_exp = Some ((w_now w1 + accessTokenTTL) div second), mc_iss = '''', mc_aud = [], mc_role = None\<rparr> = Inr (tk_AccessToken resp)"
    and same: "w_ledger w' = w_ledger w1" "w_users w' = w_users w1"
    using createSession_run [OF c] by metis
  have "Auth J (as_key s) handler r v = handler (r\<lparr>hr_UserID := u_ID user\<rparr>) v"
    if "hr_Authorization r = ''Bearer '' @ tk_AccessToken resp" "w_now v < (w_now w + accessTokenTTL) div second * second"
    for v :: "'k world" and r handler
  proof -
    have "J (as_key s) (w_now v) (tk_AccessToken resp) = Inr \<lparr>mc_sub = Some (u_ID user), mc_session = Some sid,
       mc_exp = Some ((w_now w1 + accessTokenTTL) div second), mc_iss = '''', mc_aud = [], mc_role = None\<rparr>"
      using jwt sign that(2) st(4) by (simp add: jwt_ok_def)
    then show ?thesis using that(1) ids u(1)
      by (simp add: Auth_def bearer_def TrimPrefix_def ParseTokenUserID_def ParseToken_def bindA_def nowA_def getsA_def)
  qed
  then show ?thesis using u f m row same st by (intro exI [of _ user] exI [of _ row]) simp
qed


section \<open>Examples\<close>

text \<open>A customer with a password, and a service whose tokens are short. Its JWT library signs the one set of claims of the
  example and recognises that token until it expires.\<close>

definition alice_login :: User where
  "alice_login = user0\<lparr>u_PasswordHash := ''pbkdf2_sha256$1$ab$'' @ base64_Encode (map of_char (''ab'' @ ''s3cret!!''))\<rparr>"

definition alice_claims :: MapClaims where
  "alice_claims = \<lparr>mc_sub = Some ''ua'', mc_session = Some ''b1'', mc_exp = Some 1900, mc_iss = '''', mc_aud = [], mc_role = None\<rparr>"

definition one_sign :: jwtsign where
  "one_sign key c = (if c = alice_claims then Inr ''signed'' else Inl ''cannot sign'')"

definition one_jwt :: jwtlib where
  "one_jwt key now token = (if token = ''signed'' \<and> now < 1900 * second then Inr alice_claims else Inl ''bad token'')"

definition any_sign :: jwtsign where
  "any_sign key c = Inr ''token''"

definition login_svc :: "jwtsign \<Rightarrow> AuthService" where
  "login_svc sign = \<lparr>as_secrets = \<lparr>sx_kdf = plain_kdf, sx_picks = (\<lambda>n. []), sx_rand = (\<lambda>n. Some [n mod 256])\<rparr>, as_sign = sign,
     as_key = ''k'', as_defaultBalance = False\<rparr>"

definition login_world :: "unit world" where
  "login_world = (empty_world () (1000 * second))\<lparr>w_users := [alice_login], w_sessions := [\<lparr>ss_ID = ''s'', ss_UserID = ''ua'',
     ss_RefreshToken = ''old token'', ss_UserAgent = None, ss_IPAddress = None, ss_ExpiresAt = 2000 * second,
     ss_RevokedAt = None, ss_CreatedAt = 0\<rparr>]\<rparr>"

lemma one_jwt_ok: "jwt_ok one_jwt one_sign"
  by (auto simp: jwt_ok_def one_jwt_def one_sign_def alice_claims_def split: if_splits)

lemma login_run:
  "fst (Login ok_env (login_svc one_sign) \<lparr>lq_Identifier = ''alice'', lq_Password = ''s3cret!!''\<rparr> '''' '''' login_world) =
     Inr \<lparr>tk_AccessToken = ''signed'', tk_RefreshToken = ''00'', tk_ExpiresAt = 1900 * second, tk_User = userInfoFromDomain alice_login\<rparr>"
  by code_simp

theorem Login_authenticates_witness:
  "(let w' = snd (Login ok_env (login_svc one_sign) \<lparr>lq_Identifier = ''alice'', lq_Password = ''s3cret!!''\<rparr> '''' '''' login_world)
    in length (w_sessions w') = 2)
   \<and> (\<exists>user \<in> set (w_users login_world). \<forall>(v :: unit world) r handler. hr_Authorization r = ''Bearer signed''
        \<longrightarrow> w_now v < 1900 * second \<longrightarrow> Auth one_jwt ''k'' handler r v = handler (r\<lparr>hr_UserID := u_ID user\<rparr>) v)"
proof -
  have now: "(w_now login_world + accessTokenTTL) div second * second = 1900 * second"
    by (simp add: login_world_def empty_world_def accessTokenTTL_def second_def)
  have ids: "\<forall>u \<in> set (w_users login_world). u_ID u \<noteq> ''''" by (simp add: login_world_def alice_login_def user0_def)
  have sessions: "length (w_sessions login_world) = 1" by (simp add: login_world_def)
  note l = Login_authenticates [OF run_of [OF login_run], of one_jwt, unfolded now, where 'k = unit]
  have "jwt_ok one_jwt (as_sign (login_svc one_sign))" using one_jwt_ok by (simp add: login_svc_def)
  from l [OF this ids] show ?thesis using sessions by (auto simp: login_svc_def Let_def)
qed

lemma refresh_run:
  "fst (auth_Refresh ok_env (login_svc any_sign) ''old token'' '''' '''' login_world) =
     Inr \<lparr>tk_AccessToken = ''token'', tk_RefreshToken = ''00'', tk_ExpiresAt = 1900 * second, tk_User = userInfoFromDomain alice_login\<rparr>"
  by code_simp


end
