(* ===== verification/Back_Office.thy ===== *)
theory Back_Office
  imports Sessions Reconciliation
begin

text \<open>
  The services of the bank's staff (\<open>internal/services/admin\<close>) with the tables \<open>staff\<close>, \<open>customer_flags\<close> and
  \<open>system_config\<close>: accounts and logins of the staff, freezing of customers, identity levels and notes, reversal of
  transactions, write-offs and credit limits, cards, reconciliation exceptions, flags and settings. The searches and
  reports over the tables (\<open>internal/repository/admin_queries.go\<close>) are not modelled.

  The metadata of an audit entry is a JSON object with sorted keys. A setting holds a string, a number or a boolean.
\<close>

section \<open>Tables\<close>

definition staff_ref :: "'l world \<Rightarrow> string option \<Rightarrow> bool" where
  "staff_ref w r \<longleftrightarrow> (case r of None \<Rightarrow> True | Some i \<Rightarrow> list_ex (\<lambda>x. sf_ID x = i) (w_staff w))"

text \<open>The role is an enumeration with the roles of \<open>RolePermissions\<close>, the e-mail address is unique.\<close>

definition staff_Create :: "env \<Rightarrow> Staff \<Rightarrow> ('l, Staff) go" where
  "staff_Create E s = dbA E (bindA nowA (\<lambda>now. bindA (getsA id) (\<lambda>w.
     if list_ex (\<lambda>x. sf_ID x = sf_ID s \<or> sf_Email x = sf_Email s) (w_staff w) \<or> sf_Role s \<notin> set (map fst RolePermissions)
        \<or> \<not> staff_ref w (sf_CreatedBy s)
     then throwA db_error
     else bindA (modifyA (\<lambda>w. w\<lparr>w_staff := w_staff w @ [s\<lparr>sf_IsActive := True, sf_LastLoginAt := None, sf_CreatedAt := now,
         sf_DeactivatedAt := None\<rparr>]\<rparr>)) (\<lambda>_. retA (s\<lparr>sf_CreatedAt := now\<rparr>)))))"

definition staff_query :: "env \<Rightarrow> (Staff \<Rightarrow> bool) \<Rightarrow> ('l, Staff) go" where
  "staff_query E p = dbA E (bindA (getsA (\<lambda>w. select_one p (w_staff w)))
     (\<lambda>r. case r of None \<Rightarrow> throwA (Admin ErrStaffNotFound) | Some s \<Rightarrow> retA s))"

definition staff_GetByID :: "env \<Rightarrow> string \<Rightarrow> ('l, Staff) go" where
  "staff_GetByID E i = staff_query E (\<lambda>s. sf_ID s = i)"

definition staff_GetByEmail :: "env \<Rightarrow> string \<Rightarrow> ('l, Staff) go" where
  "staff_GetByEmail E email = staff_query E (\<lambda>s. sf_Email s = email)"

definition staff_set :: "string \<Rightarrow> (int \<Rightarrow> Staff \<Rightarrow> Staff) \<Rightarrow> 'l world \<Rightarrow> 'l world" where
  "staff_set i f w = w\<lparr>w_staff := update_where (\<lambda>s. sf_ID s = i) (f (w_now w)) (w_staff w)\<rparr>"

definition staff_change :: "env \<Rightarrow> string \<Rightarrow> (int \<Rightarrow> Staff \<Rightarrow> Staff) \<Rightarrow> ('l, unit) go" where
  "staff_change E i f = dbA E (bindA (getsA (\<lambda>w. rows_affected (\<lambda>s. sf_ID s = i) (w_staff w))) (\<lambda>n.
     bindA (modifyA (staff_set i f)) (\<lambda>_. if n = 0 then throwA (Admin ErrStaffNotFound) else retA ())))"

definition staff_Update :: "env \<Rightarrow> Staff \<Rightarrow> ('l, unit) go" where
  "staff_Update E s =
     (if sf_Role s \<notin> set (map fst RolePermissions) then dbA E (throwA db_error)
      else staff_change E (sf_ID s) (\<lambda>now x. x\<lparr>sf_FullName := sf_FullName s, sf_Role := sf_Role s,
        sf_Department := sf_Department s, sf_PasswordHash := sf_PasswordHash s\<rparr>))"

definition staff_Deactivate :: "env \<Rightarrow> string \<Rightarrow> ('l, unit) go" where
  "staff_Deactivate E i = staff_change E i (\<lambda>now x. x\<lparr>sf_IsActive := False, sf_DeactivatedAt := Some now\<rparr>)"

definition staff_UpdateLastLogin :: "env \<Rightarrow> string \<Rightarrow> ('l, unit) go" where
  "staff_UpdateLastLogin E i = dbA E (modifyA (staff_set i (\<lambda>now x. x\<lparr>sf_LastLoginAt := Some now\<rparr>)))"

definition flag_severities :: "string list" where
  "flag_severities = [''info'', ''warning'', ''critical'']"

definition flag_Create :: "env \<Rightarrow> CustomerFlag \<Rightarrow> ('l, CustomerFlag) go" where
  "flag_Create E f = dbA E (bindA (newID E) (\<lambda>i. bindA nowA (\<lambda>now. bindA (getsA id) (\<lambda>w.
     if \<not> list_ex (\<lambda>u. u_ID u = fg_UserID f) (w_users w) \<or> fg_Severity f \<notin> set flag_severities \<or> \<not> staff_ref w (fg_CreatedBy f)
     then throwA db_error
     else bindA (modifyA (\<lambda>w. w\<lparr>w_flags := w_flags w @ [f\<lparr>fg_ID := i, fg_IsResolved := False, fg_ResolvedBy := None,
         fg_ResolvedAt := None, fg_ResolutionNote := None, fg_CreatedAt := now\<rparr>]\<rparr>)) (\<lambda>_.
       retA (f\<lparr>fg_ID := i, fg_CreatedAt := now\<rparr>))))))"

definition flag_GetByID :: "env \<Rightarrow> string \<Rightarrow> ('l, CustomerFlag) go" where
  "flag_GetByID E i = dbA E (bindA (getsA (\<lambda>w. select_one (\<lambda>f. fg_ID f = i) (w_flags w)))
     (\<lambda>r. case r of None \<Rightarrow> throwA (Admin ErrFlagNotFound) | Some f \<Rightarrow> retA f))"

definition flag_ListByUser :: "env \<Rightarrow> string \<Rightarrow> ('l, CustomerFlag list) go" where
  "flag_ListByUser E userID = dbA E (getsA (\<lambda>w. sort_key (\<lambda>f. - fg_CreatedAt f) (filter (\<lambda>f. fg_UserID f = userID) (w_flags w))))"

definition flag_open :: "string \<Rightarrow> CustomerFlag \<Rightarrow> bool" where
  "flag_open i f \<longleftrightarrow> fg_ID f = i \<and> \<not> fg_IsResolved f"

definition flag_Resolve :: "env \<Rightarrow> string \<Rightarrow> string \<Rightarrow> string \<Rightarrow> ('l, unit) go" where
  "flag_Resolve E i resolvedBy note = dbA E (bindA (getsA id) (\<lambda>w.
     if rows_affected (flag_open i) (w_flags w) \<noteq> 0 \<and> \<not> staff_ref w (Some resolvedBy) then throwA db_error
     else bindA (modifyA (\<lambda>w. w\<lparr>w_flags := update_where (flag_open i) (\<lambda>f. f\<lparr>fg_IsResolved := True, fg_ResolvedBy := Some resolvedBy,
         fg_ResolvedAt := Some (w_now w), fg_ResolutionNote := Some note\<rparr>) (w_flags w)\<rparr>)) (\<lambda>_.
       if rows_affected (flag_open i) (w_flags w) = 0 then throwA (Admin ErrFlagNotFound) else retA ())))"

definition flag_CountOpen :: "env \<Rightarrow> ('l, int) go" where
  "flag_CountOpen E = dbA E (getsA (\<lambda>w. int (length (filter (\<lambda>f. \<not> fg_IsResolved f) (w_flags w)))))"

text \<open>Pages of a listing.\<close>

record 'a PaginatedResult =
  pg_Data :: "'a list"
  pg_Total :: int
  pg_Limit :: int
  pg_Offset :: int
  pg_HasMore :: bool

definition NewPaginatedResult :: "'a list \<Rightarrow> int \<Rightarrow> int \<Rightarrow> int \<Rightarrow> 'a PaginatedResult" where
  "NewPaginatedResult xs n limit offset = \<lparr>pg_Data = xs, pg_Total = n, pg_Limit = limit, pg_Offset = offset,
     pg_HasMore = i64 (offset + limit) < n\<rparr>"

definition NormalizePagination :: "int \<Rightarrow> int \<Rightarrow> int \<times> int" where
  "NormalizePagination limit offset =
     (let l = (if limit \<le> 0 then 20 else limit); l = (if l > 100 then 100 else l) in (l, if offset < 0 then 0 else offset))"

definition page :: "int \<Rightarrow> int \<Rightarrow> 'a list \<Rightarrow> 'a list" where
  "page limit offset xs = take (nat limit) (drop (nat offset) xs)"

record FlagFilter =
  ff_UserID :: "string option"
  ff_FlagType :: "string option"
  ff_Severity :: "string option"
  ff_Resolved :: "bool option"
  ff_SortOrder :: string
  ff_Limit :: int
  ff_Offset :: int

definition matches :: "'a option \<Rightarrow> 'a \<Rightarrow> bool" where
  "matches o' x \<longleftrightarrow> (case o' of None \<Rightarrow> True | Some y \<Rightarrow> x = y)"

definition flag_where :: "FlagFilter \<Rightarrow> CustomerFlag \<Rightarrow> bool" where
  "flag_where ft f \<longleftrightarrow> matches (ff_UserID ft) (fg_UserID f) \<and> matches (ff_FlagType ft) (fg_FlagType f)
     \<and> matches (ff_Severity ft) (fg_Severity f) \<and> matches (ff_Resolved ft) (fg_IsResolved f)"

text \<open>A severity that is no value of the enumeration makes the query fail.\<close>

definition flag_ListAll :: "env \<Rightarrow> FlagFilter \<Rightarrow> ('l, CustomerFlag PaginatedResult) go" where
  "flag_ListAll E ft =
     (case NormalizePagination (ff_Limit ft) (ff_Offset ft) of (limit, offset) \<Rightarrow>
      if (case ff_Severity ft of None \<Rightarrow> False | Some s \<Rightarrow> s \<notin> set flag_severities) then dbA E (throwA db_error)
      else bindA (dbA E (getsA (\<lambda>w. int (length (filter (flag_where ft) (w_flags w)))))) (\<lambda>n.
        bindA (dbA E (getsA (\<lambda>w. page limit offset (sort_key (\<lambda>f. if to_upper (ff_SortOrder ft) = ''ASC'' then fg_CreatedAt f else - fg_CreatedAt f)
          (filter (flag_where ft) (w_flags w)))))) (\<lambda>flags.
        retA (NewPaginatedResult flags n limit offset))))"

definition config_Get :: "env \<Rightarrow> string \<Rightarrow> ('l, SystemConfig) go" where
  "config_Get E key = dbA E (bindA (getsA (\<lambda>w. select_one (\<lambda>c. sc_Key c = key) (w_config w)))
     (\<lambda>r. case r of None \<Rightarrow> throwA (Admin ErrConfigNotFound) | Some c \<Rightarrow> retA c))"

definition config_Set :: "env \<Rightarrow> string \<Rightarrow> json \<Rightarrow> string option \<Rightarrow> ('l, unit) go" where
  "config_Set E key val updatedBy = dbA E (bindA (getsA id) (\<lambda>w.
     if rows_affected (\<lambda>c. sc_Key c = key) (w_config w) \<noteq> 0 \<and> \<not> staff_ref w updatedBy then throwA db_error
     else bindA (modifyA (\<lambda>w. w\<lparr>w_config := update_where (\<lambda>c. sc_Key c = key)
         (\<lambda>c. c\<lparr>sc_Value := val, sc_UpdatedBy := updatedBy, sc_UpdatedAt := w_now w\<rparr>) (w_config w)\<rparr>)) (\<lambda>_.
       if rows_affected (\<lambda>c. sc_Key c = key) (w_config w) = 0 then throwA (Admin ErrConfigNotFound) else retA ())))"

definition BoolValue :: "SystemConfig \<Rightarrow> bool" where
  "BoolValue c = (case sc_Value c of JB b \<Rightarrow> b | _ \<Rightarrow> False)"

definition Int64Value :: "SystemConfig \<Rightarrow> int" where
  "Int64Value c = (case sc_Value c of JI n \<Rightarrow> if in_i64 n then n else 0 | _ \<Rightarrow> 0)"

definition StringValue :: "SystemConfig \<Rightarrow> string" where
  "StringValue c = (case sc_Value c of JS s \<Rightarrow> s | _ \<Rightarrow> '''')"

definition exception_change :: "env \<Rightarrow> string \<Rightarrow> (ReconException \<Rightarrow> ReconException) \<Rightarrow> ('l, unit) go" where
  "exception_change E i f = dbA E (bindA (getsA (\<lambda>w. rows_affected (\<lambda>x. re_ID x = i) (w_exceptions w))) (\<lambda>n.
     bindA (modifyA (\<lambda>w. w\<lparr>w_exceptions := update_where (\<lambda>x. re_ID x = i) f (w_exceptions w)\<rparr>)) (\<lambda>_.
     if n = 0 then throwA (General ErrNotFound) else retA ())))"

definition AssignException :: "env \<Rightarrow> string \<Rightarrow> string \<Rightarrow> ('l, unit) go" where
  "AssignException E i assignedTo = exception_change E i (\<lambda>x. x\<lparr>re_AssignedTo := Some assignedTo, re_Status := ExceptionInvestigating\<rparr>)"

definition EscalateException :: "env \<Rightarrow> string \<Rightarrow> string \<Rightarrow> ('l, unit) go" where
  "EscalateException E i notes = exception_change E i (\<lambda>x. x\<lparr>re_Status := ExceptionEscalated, re_ResolutionNotes := Some notes\<rparr>)"

definition UpdateExceptionStatus :: "env \<Rightarrow> string \<Rightarrow> ExceptionStatus \<Rightarrow> ('l, unit) go" where
  "UpdateExceptionStatus E i status = exception_change E i (\<lambda>x. x\<lparr>re_Status := status\<rparr>)"

text \<open>A database error of this query is passed on, and so is a missing row.\<close>

definition GetPairedReceipt :: "env \<Rightarrow> string \<Rightarrow> string \<Rightarrow> ('l, TransactionReceipt) go" where
  "GetPairedReceipt E ledgerTxID excludeID = dbA E (bindA (getsA (\<lambda>w.
     select_one (\<lambda>r. rc_LedgerTransactionID r = ledgerTxID \<and> rc_ID r \<noteq> excludeID) (w_receipts w)))
     (\<lambda>r. case r of None \<Rightarrow> throwA (Opaque ''no rows in result set'') | Some x \<Rightarrow> retA x))"

section \<open>Staff accounts\<close>

definition admin_audit :: "string \<Rightarrow> string \<Rightarrow> string \<Rightarrow> string \<Rightarrow> (string \<times> json) list \<Rightarrow> AuditEntry" where
  "admin_audit action staffID resourceType resourceID meta =
     (audit_entry action ''admin'' (Some staffID) resourceType resourceID)\<lparr>au_Metadata := meta\<rparr>"

definition GenerateAdminJWT :: "jwtsign \<Rightarrow> AdminJWT \<Rightarrow> string \<Rightarrow> string \<Rightarrow> int \<Rightarrow> ('l, string) go" where
  "GenerateAdminJWT sign cfg staffID role ttl =
     bindA nowA (\<lambda>now.
     case sign (aj_Secret cfg) \<lparr>mc_sub = Some staffID, mc_session = None, mc_exp = Some ((now + ttl) div second),
            mc_iss = aj_Issuer cfg, mc_aud = [aj_Audience cfg], mc_role = Some role\<rparr> of
       Inl m \<Rightarrow> throwA (Opaque m) | Inr token \<Rightarrow> retA token)"

record AdminAuthService =
  aa_secrets :: secrets
  aa_sign :: jwtsign
  aa_cfg :: AdminJWT

definition tokenTTL :: int where "tokenTTL = 8 * 3600 * second"

record StaffLoginResponse =
  sl_Token :: string
  sl_ExpiresAt :: int
  sl_Staff :: Staff

definition staff_Login :: "env \<Rightarrow> AdminAuthService \<Rightarrow> string \<Rightarrow> string \<Rightarrow> ('l, StaffLoginResponse) go" where
  "staff_Login E s email pw =
     bindA (mapErrA (\<lambda>_. Admin ErrInvalidCredentials) (staff_GetByEmail E email)) (\<lambda>staff.
     if \<not> sf_IsActive staff then throwA (Admin ErrStaffDeactivated)
     else if MatchPassword (sx_kdf (aa_secrets s)) (sf_PasswordHash staff) pw \<noteq> Inr () then throwA (Admin ErrInvalidCredentials)
     else bindA (GenerateAdminJWT (aa_sign s) (aa_cfg s) (sf_ID staff) (sf_Role staff) tokenTTL) (\<lambda>token.
       bindA (ignoreA (staff_UpdateLastLogin E (sf_ID staff))) (\<lambda>_.
       bindA nowA (\<lambda>now.
       retA \<lparr>sl_Token = token, sl_ExpiresAt = now + tokenTTL, sl_Staff = staff\<rparr>))))"

definition staff_ChangePassword :: "env \<Rightarrow> secrets \<Rightarrow> string \<Rightarrow> ChangePasswordRequest \<Rightarrow> ('l, unit) go" where
  "staff_ChangePassword E X staffID req =
     bindA (staff_GetByID E staffID) (\<lambda>staff.
     if MatchPassword (sx_kdf X) (sf_PasswordHash staff) (ch_CurrentPassword req) \<noteq> Inr () then throwA (Admin ErrInvalidCredentials)
     else bindA (hashPassword X (ch_NewPassword req)) (\<lambda>hash.
       staff_Update E (staff\<lparr>sf_PasswordHash := hash\<rparr>)))"

record CreateStaffRequest =
  cs_Email :: string
  cs_FullName :: string
  cs_Role :: string
  cs_Department :: string
  cs_Password :: string

definition CreateStaff :: "env \<Rightarrow> secrets \<Rightarrow> string \<Rightarrow> CreateStaffRequest \<Rightarrow> ('l, Staff) go" where
  "CreateStaff E X createdBy req =
     bindA (newID E) (\<lambda>i.
     bindA (hashPassword X (cs_Password req)) (\<lambda>hash.
     bindA (staff_Create E \<lparr>sf_ID = i, sf_Email = cs_Email req, sf_FullName = cs_FullName req, sf_Role = cs_Role req,
       sf_Department = cs_Department req, sf_IsActive = True, sf_PasswordHash = hash, sf_LastLoginAt = None,
       sf_CreatedBy = Some createdBy, sf_CreatedAt = 0, sf_DeactivatedAt = None\<rparr>) (\<lambda>staff.
     bindA (ignoreA (audit_Log E (admin_audit ''staff_created'' createdBy ''staff'' i []))) (\<lambda>_.
     retA staff))))"

record UpdateStaffRequest =
  us_FullName :: "string option"
  us_Role :: "string option"
  us_Department :: "string option"

definition or_keep :: "'a option \<Rightarrow> 'a \<Rightarrow> 'a" where
  "or_keep o' x = (case o' of None \<Rightarrow> x | Some y \<Rightarrow> y)"

definition UpdateStaff :: "env \<Rightarrow> string \<Rightarrow> string \<Rightarrow> UpdateStaffRequest \<Rightarrow> ('l, Staff) go" where
  "UpdateStaff E actorID staffID req =
     bindA (staff_GetByID E staffID) (\<lambda>staff.
     let staff = staff\<lparr>sf_FullName := or_keep (us_FullName req) (sf_FullName staff), sf_Role := or_keep (us_Role req) (sf_Role staff),
           sf_Department := or_keep (us_Department req) (sf_Department staff)\<rparr> in
     bindA (staff_Update E staff) (\<lambda>_.
     bindA (ignoreA (audit_Log E (admin_audit ''staff_updated'' actorID ''staff'' staffID []))) (\<lambda>_.
     retA staff)))"

definition DeactivateStaff :: "env \<Rightarrow> string \<Rightarrow> string \<Rightarrow> ('l, unit) go" where
  "DeactivateStaff E actorID staffID =
     bindA (staff_Deactivate E staffID) (\<lambda>_.
     ignoreA (audit_Log E (admin_audit ''staff_deactivated'' actorID ''staff'' staffID [])))"

section \<open>Customers\<close>

definition FreezeCustomer :: "env \<Rightarrow> string \<Rightarrow> string \<Rightarrow> string \<Rightarrow> ('l, unit) go" where
  "FreezeCustomer E staffID userID reason =
     bindA (user_Freeze E userID reason) (\<lambda>_.
     ignoreA (audit_Log E (admin_audit ''admin_freeze'' staffID ''user'' userID [(''reason'', JS reason)])))"

definition UnfreezeCustomer :: "env \<Rightarrow> string \<Rightarrow> string \<Rightarrow> ('l, unit) go" where
  "UnfreezeCustomer E staffID userID =
     bindA (user_Unfreeze E userID) (\<lambda>_.
     ignoreA (audit_Log E (admin_audit ''admin_unfreeze'' staffID ''user'' userID [])))"

definition OverrideKYC :: "env \<Rightarrow> string \<Rightarrow> string \<Rightarrow> int \<Rightarrow> string \<Rightarrow> ('l, unit) go" where
  "OverrideKYC E staffID userID level reason =
     bindA (user_UpdateKYCLevel E userID level) (\<lambda>_.
     ignoreA (audit_Log E (admin_audit ''admin_kyc_override'' staffID ''user'' userID [(''level'', JI level), (''reason'', JS reason)])))"

definition AddNote :: "env \<Rightarrow> string \<Rightarrow> string \<Rightarrow> string \<Rightarrow> ('l, unit) go" where
  "AddNote E staffID userID note = audit_Log E (admin_audit ''admin_note'' staffID ''user'' userID [(''note'', JS note)])"

section \<open>Transactions, loans, cards\<close>

record ConversionView =
  vc_ID :: string
  vc_UserID :: string
  vc_FromCurrency :: string
  vc_ToCurrency :: string
  vc_FromAmountCents :: int
  vc_ToAmountCents :: int
  vc_Status :: ReceiptStatus
  vc_Narration :: "string option"
  vc_LedgerTxID :: string
  vc_CreatedAt :: int

definition conversion_view :: "TransactionReceipt \<Rightarrow> TransactionReceipt \<Rightarrow> ConversionView" where
  "conversion_view out inn = \<lparr>vc_ID = rc_ID out, vc_UserID = rc_UserID out, vc_FromCurrency = rc_Currency out,
     vc_ToCurrency = rc_Currency inn, vc_FromAmountCents = rc_AmountCents out, vc_ToAmountCents = rc_AmountCents inn,
     vc_Status = rc_Status out, vc_Narration = rc_Narration out, vc_LedgerTxID = rc_LedgerTransactionID out,
     vc_CreatedAt = rc_CreatedAt out\<rparr>"

definition GetConversion :: "env \<Rightarrow> string \<Rightarrow> ('l, ConversionView) go" where
  "GetConversion E i =
     bindA (receipt_GetByID E i) (\<lambda>receipt.
     if rc_Type receipt \<noteq> ReceiptConvertOut \<and> rc_Type receipt \<noteq> ReceiptConvertIn then throwA (General ErrInvalidInput)
     else bindA (GetPairedReceipt E (rc_LedgerTransactionID receipt) (rc_ID receipt)) (\<lambda>paired.
       retA (if rc_Type receipt = ReceiptConvertIn then conversion_view paired receipt else conversion_view receipt paired)))"

definition ReverseTransaction :: "env \<Rightarrow> string \<Rightarrow> string \<Rightarrow> string \<Rightarrow> string \<Rightarrow> ('l, unit) go" where
  "ReverseTransaction E staffID txnID reason ticket =
     bindA (receipt_GetByID E txnID) (\<lambda>txn.
     if rc_Status txn \<noteq> ReceiptCompleted then throwA (General ErrInvalidInput)
     else bindA (receipt_UpdateStatus E txnID ReceiptReversed) (\<lambda>_.
       ignoreA (audit_Log E (admin_audit ''admin_txn_reversed'' staffID ''transaction'' txnID
         [(''reason'', JS reason), (''reference_ticket'', JS ticket)]))))"

definition WriteOff :: "env \<Rightarrow> string \<Rightarrow> string \<Rightarrow> string \<Rightarrow> string \<Rightarrow> ('l, unit) go" where
  "WriteOff E staffID loanID reason ticket =
     bindA (loan_GetLoan E loanID) (\<lambda>loan.
     if ln_Status loan \<noteq> LoanDefaulted then throwA (General ErrInvalidInput)
     else bindA (loan_UpdateLoanStatus E loanID LoanWrittenOff (ln_DaysPastDue loan)) (\<lambda>_.
       ignoreA (audit_Log E (admin_audit ''admin_loan_writeoff'' staffID ''loan'' loanID
         [(''reason'', JS reason), (''reference_ticket'', JS ticket)]))))"

definition OverrideCredit :: "env \<Rightarrow> string \<Rightarrow> string \<Rightarrow> int \<Rightarrow> string \<Rightarrow> ('l, unit) go" where
  "OverrideCredit E staffID userID limit reason =
     bindA (loan_GetCreditProfile E userID) (\<lambda>p.
     bindA (loan_UpsertCreditProfile E (p\<lparr>cp_ApprovedLimitCents := limit\<rparr>)) (\<lambda>_.
     ignoreA (audit_Log E (admin_audit ''admin_credit_override'' staffID ''credit_profile'' userID
       [(''approved_limit_cents'', JI limit), (''reason'', JS reason)]))))"

definition card_set_status :: "env \<Rightarrow> string \<Rightarrow> string \<Rightarrow> string \<Rightarrow> CardStatus \<Rightarrow> (string \<times> json) list \<Rightarrow> ('l, unit) go" where
  "card_set_status E action staffID cardID status meta =
     bindA (card_UpdateStatus E cardID status) (\<lambda>_.
     ignoreA (audit_Log E (admin_audit action staffID ''card'' cardID meta)))"

definition FreezeCard :: "env \<Rightarrow> string \<Rightarrow> string \<Rightarrow> ('l, unit) go" where
  "FreezeCard E staffID cardID = card_set_status E ''admin_card_freeze'' staffID cardID CardStatusFrozen []"

definition CancelCard :: "env \<Rightarrow> string \<Rightarrow> string \<Rightarrow> string \<Rightarrow> ('l, unit) go" where
  "CancelCard E staffID cardID reason = card_set_status E ''admin_card_cancel'' staffID cardID CardStatusCancelled [(''reason'', JS reason)]"

definition UnfreezeCard :: "env \<Rightarrow> string \<Rightarrow> string \<Rightarrow> ('l, unit) go" where
  "UnfreezeCard E staffID cardID = card_set_status E ''card_unfrozen'' staffID cardID CardStatusActive []"

definition UpdateCardLimits :: "env \<Rightarrow> string \<Rightarrow> string \<Rightarrow> int \<Rightarrow> int \<Rightarrow> int \<Rightarrow> ('l, unit) go" where
  "UpdateCardLimits E staffID cardID daily monthly perTxn =
     bindA (card_UpdateLimits E cardID daily monthly perTxn) (\<lambda>_.
     ignoreA (audit_Log E (admin_audit ''card_limit_changed'' staffID ''card'' cardID
       [(''daily_limit_cents'', JI daily), (''monthly_limit_cents'', JI monthly), (''per_txn_limit_cents'', JI perTxn)])))"

section \<open>Exceptions, flags, settings\<close>

definition AssignReconException :: "env \<Rightarrow> string \<Rightarrow> string \<Rightarrow> string \<Rightarrow> ('l, unit) go" where
  "AssignReconException E staffID i assignedTo =
     bindA (AssignException E i assignedTo) (\<lambda>_.
     ignoreA (audit_Log E (admin_audit ''recon_assigned'' staffID ''recon_exception'' i [(''assigned_to'', JS assignedTo)])))"

definition Investigate :: "env \<Rightarrow> string \<Rightarrow> string \<Rightarrow> ('l, unit) go" where
  "Investigate E staffID i =
     bindA (UpdateExceptionStatus E i ExceptionInvestigating) (\<lambda>_.
     ignoreA (audit_Log E (admin_audit ''recon_investigating'' staffID ''recon_exception'' i [])))"

definition ResolveReconException :: "env \<Rightarrow> string \<Rightarrow> string \<Rightarrow> string \<Rightarrow> string \<Rightarrow> ('l, unit) go" where
  "ResolveReconException E staffID i notes action =
     bindA (UpdateExceptionStatus E i ExceptionResolved) (\<lambda>_.
     ignoreA (audit_Log E (admin_audit ''recon_exception_resolved'' staffID ''recon_exception'' i
       [(''action'', JS action), (''notes'', JS notes)])))"

definition EscalateReconException :: "env \<Rightarrow> string \<Rightarrow> string \<Rightarrow> string \<Rightarrow> ('l, unit) go" where
  "EscalateReconException E staffID i notes =
     bindA (EscalateException E i notes) (\<lambda>_.
     ignoreA (audit_Log E (admin_audit ''recon_escalated'' staffID ''recon_exception'' i [(''notes'', JS notes)])))"

record CreateFlagRequest =
  cg_UserID :: string
  cg_FlagType :: string
  cg_Severity :: string
  cg_Description :: string

definition CreateFlag :: "env \<Rightarrow> string \<Rightarrow> CreateFlagRequest \<Rightarrow> ('l, CustomerFlag) go" where
  "CreateFlag E staffID req =
     bindA (flag_Create E \<lparr>fg_ID = '''', fg_UserID = cg_UserID req, fg_FlagType = cg_FlagType req, fg_Severity = cg_Severity req,
       fg_Description = cg_Description req, fg_CreatedBy = Some staffID, fg_IsResolved = False, fg_ResolvedBy = None,
       fg_ResolvedAt = None, fg_ResolutionNote = None, fg_CreatedAt = 0\<rparr>) (\<lambda>flag.
     bindA (ignoreA (audit_Log E (admin_audit ''flag_created'' staffID ''user'' (cg_UserID req)
       [(''flag_type'', JS (cg_FlagType req)), (''severity'', JS (cg_Severity req))]))) (\<lambda>_.
     retA flag))"

definition ResolveFlag :: "env \<Rightarrow> string \<Rightarrow> string \<Rightarrow> string \<Rightarrow> ('l, unit) go" where
  "ResolveFlag E staffID flagID note =
     bindA (flag_GetByID E flagID) (\<lambda>flag.
     bindA (flag_Resolve E flagID staffID note) (\<lambda>_.
     ignoreA (audit_Log E (admin_audit ''flag_resolved'' staffID ''user'' (fg_UserID flag) [(''note'', JS note)]))))"

definition config_IsEnabled :: "env \<Rightarrow> string \<Rightarrow> ('l, bool) go" where
  "config_IsEnabled E key = bindA (config_Get E key) (\<lambda>c. retA (BoolValue c))"

definition UpdateConfig :: "env \<Rightarrow> string \<Rightarrow> string \<Rightarrow> json \<Rightarrow> ('l, unit) go" where
  "UpdateConfig E staffID key val =
     bindA (config_Set E key val (Some staffID)) (\<lambda>_.
     ignoreA (audit_Log E (admin_audit ''config_changed'' staffID ''system_config'' key [(''key'', JS key), (''value'', val)])))"

text \<open>Evaluation unfolds an action only when it runs.\<close>

lemmas back_office_code [code] =
  staff_Create_def [THEN fun_cong]
  staff_query_def [THEN fun_cong]
  staff_GetByID_def [THEN fun_cong]
  staff_GetByEmail_def [THEN fun_cong]
  staff_change_def [THEN fun_cong]
  staff_Update_def [THEN fun_cong]
  staff_Deactivate_def [THEN fun_cong]
  staff_UpdateLastLogin_def [THEN fun_cong]
  flag_Create_def [THEN fun_cong]
  flag_GetByID_def [THEN fun_cong]
  flag_ListByUser_def [THEN fun_cong]
  flag_Resolve_def [THEN fun_cong]
  flag_CountOpen_def [THEN fun_cong]
  config_Get_def [THEN fun_cong]
  config_Set_def [THEN fun_cong]
  exception_change_def [THEN fun_cong]
  AssignException_def [THEN fun_cong]
  EscalateException_def [THEN fun_cong]
  UpdateExceptionStatus_def [THEN fun_cong]
  GetPairedReceipt_def [THEN fun_cong]
  GenerateAdminJWT_def [THEN fun_cong]
  staff_Login_def [THEN fun_cong]
  staff_ChangePassword_def [THEN fun_cong]
  CreateStaff_def [THEN fun_cong]
  UpdateStaff_def [THEN fun_cong]
  DeactivateStaff_def [THEN fun_cong]
  FreezeCustomer_def [THEN fun_cong]
  UnfreezeCustomer_def [THEN fun_cong]
  OverrideKYC_def [THEN fun_cong]
  AddNote_def [THEN fun_cong]
  GetConversion_def [THEN fun_cong]
  ReverseTransaction_def [THEN fun_cong]
  WriteOff_def [THEN fun_cong]
  OverrideCredit_def [THEN fun_cong]
  card_set_status_def [THEN fun_cong]
  FreezeCard_def [THEN fun_cong]
  CancelCard_def [THEN fun_cong]
  UnfreezeCard_def [THEN fun_cong]
  UpdateCardLimits_def [THEN fun_cong]
  AssignReconException_def [THEN fun_cong]
  Investigate_def [THEN fun_cong]
  ResolveReconException_def [THEN fun_cong]
  EscalateReconException_def [THEN fun_cong]
  CreateFlag_def [THEN fun_cong]
  ResolveFlag_def [THEN fun_cong]
  config_IsEnabled_def [THEN fun_cong]
  UpdateConfig_def [THEN fun_cong]

end
