(* ===== verification/Business_Books.thy ===== *)
theory Business_Books
  imports Business Lending
begin

text \<open>
  The books of a business: batch payments, invoices, tax pots, categories and labels of transactions, documents and
  business loans. Their rules are in the repositories (\<open>internal/repository\<close>) and in the handlers
  (\<open>internal/transport/http/handlers/business\<close>), which call them directly; the routes are guarded as in
  \<open>cmd/api/routes.go\<close>. A date sent by the client is text that PostgreSQL converts (\<open>e_date\<close>), a decimal column keeps
  two places (\<open>e_numeric\<close>), and a phone number is stored as its E.164 text, so that a row holds what a later read parses.
\<close>

section \<open>Columns\<close>

definition read_phone :: "env \<Rightarrow> PhoneNumber option \<Rightarrow> PhoneNumber option" where
  "read_phone E p = map_option (\<lambda>q. case phone_Parse (e_phone E) (E164 (e_phone E) q) of
     Inr r \<Rightarrow> r | Inl _ \<Rightarrow> \<lparr>CountryCode = '''', Number = ''''\<rparr>) p"

definition opt_column :: "('a \<Rightarrow> 'b option) \<Rightarrow> 'a option \<Rightarrow> 'b option option" where
  "opt_column f x = (case x of None \<Rightarrow> Some None | Some y \<Rightarrow> map_option Some (f y))"

definition has_business :: "'l world \<Rightarrow> string \<Rightarrow> bool" where
  "has_business w i \<longleftrightarrow> list_ex (\<lambda>b. bz_ID b = i) (w_businesses w)"

definition has_user :: "'l world \<Rightarrow> string \<Rightarrow> bool" where
  "has_user w i \<longleftrightarrow> list_ex (\<lambda>u. u_ID u = i) (w_users w)"

definition has_category :: "'l world \<Rightarrow> string option \<Rightarrow> bool" where
  "has_category w c \<longleftrightarrow> (case c of None \<Rightarrow> True | Some i \<Rightarrow> list_ex (\<lambda>k. kt_ID k = i) (w_categories w))"

definition find_row :: "env \<Rightarrow> ('l world \<Rightarrow> 'a list) \<Rightarrow> ('a \<Rightarrow> bool) \<Rightarrow> go_error \<Rightarrow> ('l, 'a) go" where
  "find_row E t p e = dbA E (bindA (getsA (\<lambda>w. select_one p (t w))) (\<lambda>r. case r of None \<Rightarrow> throwA e | Some x \<Rightarrow> retA x))"

definition page :: "env \<Rightarrow> int \<Rightarrow> int \<Rightarrow> ('l world \<Rightarrow> 'a list) \<Rightarrow> ('l, 'a list) go" where
  "page E limit offset t = dbA E (if limit < 0 \<or> offset < 0 then throwA db_error else
     getsA (\<lambda>w. take (nat limit) (drop (nat offset) (t w))))"

definition strPtrOrNil :: "string \<Rightarrow> string option" where
  "strPtrOrNil s = (if s = '''' then None else Some s)"

section \<open>Batch payments\<close>

definition batch_CreateBatch :: "env \<Rightarrow> BatchPayment \<Rightarrow> ('l, BatchPayment) go" where
  "batch_CreateBatch E b = dbA E (bindA (newID E) (\<lambda>i. bindA nowA (\<lambda>now. bindA (getsA id) (\<lambda>w.
     if list_ex (\<lambda>x. ba_ID x = i) (w_batches w) \<or> \<not> has_business w (ba_BusinessID b) \<or> \<not> has_user w (ba_InitiatedBy b)
     then throwA db_error
     else bindA (modifyA (\<lambda>w. w\<lparr>w_batches := w_batches w @ [b\<lparr>ba_ID := i, ba_ApprovedBy := None, ba_ApprovedAt := None,
         ba_ProcessedAt := None, ba_CompletedAt := None, ba_CreatedAt := now\<rparr>]\<rparr>)) (\<lambda>_.
       retA (b\<lparr>ba_ID := i, ba_CreatedAt := now\<rparr>))))))"

definition batch_GetBatch :: "env \<Rightarrow> string \<Rightarrow> ('l, BatchPayment) go" where
  "batch_GetBatch E i = find_row E w_batches (\<lambda>b. ba_ID b = i) (Business ErrBatchNotFound)"

definition batch_update :: "env \<Rightarrow> (BatchPayment \<Rightarrow> bool) \<Rightarrow> (int \<Rightarrow> BatchPayment \<Rightarrow> BatchPayment) \<Rightarrow> go_error \<Rightarrow> ('l, unit) go" where
  "batch_update E p f e = dbA E (bindA nowA (\<lambda>now. bindA (getsA w_batches) (\<lambda>bs.
     if rows_affected p bs = 0 then throwA e else modifyA (\<lambda>w. w\<lparr>w_batches := update_where p (f now) bs\<rparr>))))"

definition batch_UpdateBatchStatus :: "env \<Rightarrow> string \<Rightarrow> BatchStatus \<Rightarrow> ('l, unit) go" where
  "batch_UpdateBatchStatus E i status = batch_update E (\<lambda>b. ba_ID b = i) (\<lambda>now b. b\<lparr>ba_Status := status\<rparr>) (Business ErrBatchNotFound)"

definition batch_draft :: "string \<Rightarrow> BatchPayment \<Rightarrow> bool" where
  "batch_draft i b \<longleftrightarrow> ba_ID b = i \<and> ba_Status b = BatchDraft"

text \<open>The approver must be a user.\<close>

definition batch_ApproveBatch :: "env \<Rightarrow> string \<Rightarrow> string \<Rightarrow> ('l, unit) go" where
  "batch_ApproveBatch E i approverID = dbA E (bindA nowA (\<lambda>now. bindA (getsA id) (\<lambda>w.
     if rows_affected (batch_draft i) (w_batches w) = 0 then throwA (Business ErrBatchNotDraft)
     else if \<not> has_user w approverID then throwA db_error
     else modifyA (\<lambda>w. w\<lparr>w_batches := update_where (batch_draft i) (\<lambda>b. b\<lparr>ba_Status := BatchApproved,
       ba_ApprovedBy := Some approverID, ba_ApprovedAt := Some now\<rparr>) (w_batches w)\<rparr>))))"

definition batch_ListByBusiness :: "env \<Rightarrow> string \<Rightarrow> int \<Rightarrow> int \<Rightarrow> ('l, BatchPayment list) go" where
  "batch_ListByBusiness E bid limit offset = page E limit offset
     (\<lambda>w. sort_key (\<lambda>b. - ba_CreatedAt b) (filter (\<lambda>b. ba_BusinessID b = bid) (w_batches w)))"

definition batch_CreateItem :: "env \<Rightarrow> BatchPaymentItem \<Rightarrow> ('l, unit) go" where
  "batch_CreateItem E x = dbA E (bindA (newID E) (\<lambda>i. bindA nowA (\<lambda>now. bindA (getsA id) (\<lambda>w.
     if list_ex (\<lambda>y. bx_ID y = i) (w_batch_items w) \<or> \<not> list_ex (\<lambda>b. ba_ID b = bx_BatchID x) (w_batches w)
        \<or> bx_AmountCents x \<le> 0 \<or> \<not> has_category w (bx_CategoryID x)
     then throwA db_error
     else modifyA (\<lambda>w. w\<lparr>w_batch_items := w_batch_items w @ [x\<lparr>bx_ID := i, bx_RecipientPhone := read_phone E (bx_RecipientPhone x),
       bx_Status := BatchItemPending, bx_TransactionID := None, bx_ErrorMessage := None, bx_CreatedAt := now\<rparr>]\<rparr>)))))"

definition batch_CreateItems :: "env \<Rightarrow> BatchPaymentItem list \<Rightarrow> ('l, unit) go" where
  "batch_CreateItems E xs = bindA (mapA (batch_CreateItem E) xs) (\<lambda>_. retA ())"

definition batch_ListItems :: "env \<Rightarrow> string \<Rightarrow> ('l, BatchPaymentItem list) go" where
  "batch_ListItems E i = dbA E (getsA (\<lambda>w. sort_key bx_CreatedAt (filter (\<lambda>x. bx_BatchID x = i) (w_batch_items w))))"

definition batch_UpdateItemStatus :: "env \<Rightarrow> string \<Rightarrow> BatchItemStatus \<Rightarrow> string option \<Rightarrow> string option \<Rightarrow> ('l, unit) go" where
  "batch_UpdateItemStatus E i status txID errMsg = dbA E (bindA (getsA id) (\<lambda>w.
     if (case txID of None \<Rightarrow> False | Some t \<Rightarrow> list_ex (\<lambda>x. bx_ID x = i) (w_batch_items w) \<and> \<not> list_ex (\<lambda>r. rc_ID r = t) (w_receipts w))
     then throwA db_error
     else modifyA (\<lambda>w. w\<lparr>w_batch_items := update_where (\<lambda>x. bx_ID x = i)
       (\<lambda>x. x\<lparr>bx_Status := status, bx_TransactionID := txID, bx_ErrorMessage := errMsg\<rparr>) (w_batch_items w)\<rparr>)))"

record BatchItemRequest =
  xq_RecipientName :: string
  xq_RecipientPhone :: "PhoneNumber option"
  xq_RecipientBank :: "string option"
  xq_RecipientAccount :: "string option"
  xq_AmountCents :: int
  xq_Narration :: "string option"
  xq_CategoryID :: "string option"

record BatchRequest =
  xr_Name :: string
  xr_CurrencyCode :: string
  xr_Items :: "BatchItemRequest list"

definition batch_total :: "BatchItemRequest list \<Rightarrow> int" where
  "batch_total items = foldl (\<lambda>t x. i64 (t + xq_AmountCents x)) 0 items"

definition batch_item :: "string \<Rightarrow> BatchItemRequest \<Rightarrow> BatchPaymentItem" where
  "batch_item batchID x = \<lparr>bx_ID = '''', bx_BatchID = batchID, bx_RecipientName = xq_RecipientName x,
     bx_RecipientPhone = xq_RecipientPhone x, bx_RecipientBank = xq_RecipientBank x, bx_RecipientAccount = xq_RecipientAccount x,
     bx_AmountCents = xq_AmountCents x, bx_Narration = xq_Narration x, bx_CategoryID = xq_CategoryID x, bx_Status = BatchItemPending,
     bx_TransactionID = None, bx_ErrorMessage = None, bx_CreatedAt = 0\<rparr>"

definition new_batch :: "string \<Rightarrow> string \<Rightarrow> BatchRequest \<Rightarrow> BatchPayment" where
  "new_batch bizID userID req = \<lparr>ba_ID = '''', ba_BusinessID = bizID, ba_Name = xr_Name req, ba_TotalCents = batch_total (xr_Items req),
     ba_CurrencyCode = (if xr_CurrencyCode req = '''' then ''ETB'' else xr_CurrencyCode req), ba_ItemCount = int (length (xr_Items req)),
     ba_Status = BatchDraft, ba_InitiatedBy = userID, ba_ApprovedBy = None, ba_ApprovedAt = None, ba_ProcessedAt = None,
     ba_CompletedAt = None, ba_CreatedAt = 0\<rparr>"

definition Batch_Create :: "env \<Rightarrow> string \<Rightarrow> BatchRequest \<Rightarrow> Business \<Rightarrow> ('l, BatchPayment) go" where
  "Batch_Create E userID req biz =
     bindA (batch_CreateBatch E (new_batch (bz_ID biz) userID req)) (\<lambda>batch.
     bindA (batch_CreateItems E (map (batch_item (ba_ID batch)) (xr_Items req))) (\<lambda>_.
     bindA (ignoreA (audit_Log E ((audit_entry ''business_batch_created'' ''user'' (Some userID) ''batch_payment'' (ba_ID batch))
       \<lparr>au_Metadata := [(''batch_id'', JS (ba_ID batch)), (''business_id'', JS (bz_ID biz))]\<rparr>))) (\<lambda>_.
     retA batch)))"

definition Batch_List :: "env \<Rightarrow> int \<Rightarrow> int \<Rightarrow> Business \<Rightarrow> ('l, BatchPayment list) go" where
  "Batch_List E limit offset biz = batch_ListByBusiness E (bz_ID biz) limit offset"

definition Batch_Get :: "env \<Rightarrow> string \<Rightarrow> Business \<Rightarrow> ('l, BatchPayment \<times> BatchPaymentItem list) go" where
  "Batch_Get E batchID biz =
     bindA (batch_GetBatch E batchID) (\<lambda>batch. bindA (batch_ListItems E batchID) (\<lambda>items. retA (batch, items)))"

definition Batch_Approve :: "env \<Rightarrow> string \<Rightarrow> string \<Rightarrow> Business \<Rightarrow> ('l, unit) go" where
  "Batch_Approve E userID batchID biz = batch_ApproveBatch E batchID userID"

definition Batch_Process :: "env \<Rightarrow> string \<Rightarrow> Business \<Rightarrow> ('l, unit) go" where
  "Batch_Process E batchID biz =
     bindA (batch_GetBatch E batchID) (\<lambda>batch.
     if ba_Status batch \<noteq> BatchApproved then throwA (Opaque ''batch must be approved before processing'')
     else batch_UpdateBatchStatus E batchID BatchProcessing)"

section \<open>Invoices\<close>

text \<open>The two dates and the number of an invoice; the number is unique among the invoices of all businesses.\<close>

definition invoice_Create :: "env \<Rightarrow> Invoice \<Rightarrow> ('l, Invoice) go" where
  "invoice_Create E v = dbA E (bindA (newID E) (\<lambda>i. bindA nowA (\<lambda>now. bindA (getsA id) (\<lambda>w.
     case (e_date E (iv_IssueDate v), e_date E (iv_DueDate v)) of (Some issue, Some due) \<Rightarrow>
       if list_ex (\<lambda>x. iv_ID x = i \<or> iv_InvoiceNumber x = iv_InvoiceNumber v) (w_invoices w) \<or> \<not> has_business w (iv_BusinessID v)
          \<or> \<not> has_user w (iv_CreatedBy v) \<or> (case iv_CustomerUserID v of None \<Rightarrow> False | Some u \<Rightarrow> \<not> has_user w u)
       then throwA db_error
       else bindA (modifyA (\<lambda>w. w\<lparr>w_invoices := w_invoices w @ [v\<lparr>iv_ID := i, iv_CustomerPhone := read_phone E (iv_CustomerPhone v),
           iv_PaidCents := 0, iv_IssueDate := issue, iv_DueDate := due, iv_CreatedAt := now, iv_UpdatedAt := now, iv_LineItems := []\<rparr>]\<rparr>)) (\<lambda>_.
         retA (v\<lparr>iv_ID := i, iv_CreatedAt := now, iv_UpdatedAt := now\<rparr>))
     | _ \<Rightarrow> throwA db_error))))"

definition invoice_GetByID :: "env \<Rightarrow> string \<Rightarrow> ('l, Invoice) go" where
  "invoice_GetByID E i = find_row E w_invoices (\<lambda>v. iv_ID v = i) (Business ErrInvoiceNotFound)"

definition invoice_update :: "env \<Rightarrow> (Invoice \<Rightarrow> bool) \<Rightarrow> (int \<Rightarrow> Invoice \<Rightarrow> Invoice) \<Rightarrow> ('l, unit) go" where
  "invoice_update E p f = dbA E (bindA nowA (\<lambda>now. bindA (getsA w_invoices) (\<lambda>vs.
     if rows_affected p vs = 0 then throwA (Business ErrInvoiceNotFound)
     else modifyA (\<lambda>w. w\<lparr>w_invoices := update_where p (\<lambda>v. (f now v)\<lparr>iv_UpdatedAt := now\<rparr>) vs\<rparr>))))"

definition invoice_draft :: "string \<Rightarrow> Invoice \<Rightarrow> bool" where
  "invoice_draft i v \<longleftrightarrow> iv_ID v = i \<and> iv_Status v = InvoiceDraft"

text \<open>A date that is no date makes the statement fail, whether or not a row matches.\<close>

definition invoice_Update :: "env \<Rightarrow> Invoice \<Rightarrow> ('l, unit) go" where
  "invoice_Update E v = (case e_date E (iv_DueDate v) of
     None \<Rightarrow> dbA E (throwA db_error)
   | Some due \<Rightarrow> invoice_update E (invoice_draft (iv_ID v)) (\<lambda>now x. x\<lparr>iv_CustomerName := iv_CustomerName v,
       iv_CustomerPhone := read_phone E (iv_CustomerPhone v), iv_CustomerEmail := iv_CustomerEmail v,
       iv_SubtotalCents := iv_SubtotalCents v, iv_TaxCents := iv_TaxCents v, iv_TotalCents := iv_TotalCents v,
       iv_DueDate := due, iv_Notes := iv_Notes v\<rparr>))"

definition invoice_UpdateStatus :: "env \<Rightarrow> string \<Rightarrow> InvoiceStatus \<Rightarrow> ('l, unit) go" where
  "invoice_UpdateStatus E i status = invoice_update E (\<lambda>v. iv_ID v = i) (\<lambda>now v. v\<lparr>iv_Status := status\<rparr>)"

definition invoice_UpdatePaidCents :: "env \<Rightarrow> string \<Rightarrow> int \<Rightarrow> InvoiceStatus \<Rightarrow> ('l, unit) go" where
  "invoice_UpdatePaidCents E i paid status = invoice_update E (\<lambda>v. iv_ID v = i) (\<lambda>now v. v\<lparr>iv_PaidCents := paid, iv_Status := status\<rparr>)"

fun invoice_status_name :: "InvoiceStatus \<Rightarrow> string" where
  "invoice_status_name InvoiceDraft = ''draft''"
| "invoice_status_name InvoiceSent = ''sent''"
| "invoice_status_name InvoiceViewed = ''viewed''"
| "invoice_status_name InvoicePartiallyPaid = ''partially_paid''"
| "invoice_status_name InvoicePaid = ''paid''"
| "invoice_status_name InvoiceOverdue = ''overdue''"
| "invoice_status_name InvoiceCancelled = ''cancelled''"

definition invoice_ListByBusiness :: "env \<Rightarrow> string \<Rightarrow> string option \<Rightarrow> int \<Rightarrow> int \<Rightarrow> ('l, Invoice list) go" where
  "invoice_ListByBusiness E bid status limit offset = page E limit offset (\<lambda>w. sort_key (\<lambda>v. - iv_CreatedAt v)
     (filter (\<lambda>v. iv_BusinessID v = bid \<and> (status = None \<or> status = Some (invoice_status_name (iv_Status v)))) (w_invoices w)))"

definition invoice_number :: "int \<Rightarrow> string" where
  "invoice_number n = ''INV-2026-'' @ pad0 5 (nat n)"

definition invoice_NextInvoiceNumber :: "env \<Rightarrow> string \<Rightarrow> ('l, string) go" where
  "invoice_NextInvoiceNumber E bid = dbA E (getsA (\<lambda>w. invoice_number (int (rows_affected (\<lambda>v. iv_BusinessID v = bid) (w_invoices w)) + 1)))"

definition invoice_CreateLineItem :: "env \<Rightarrow> InvoiceLineItem \<Rightarrow> ('l, unit) go" where
  "invoice_CreateLineItem E x = dbA E (bindA (newID E) (\<lambda>i. bindA nowA (\<lambda>now. bindA (getsA id) (\<lambda>w.
     case e_numeric E (il_Quantity x) of None \<Rightarrow> throwA db_error | Some q \<Rightarrow>
     if list_ex (\<lambda>y. il_ID y = i) (w_line_items w) \<or> \<not> list_ex (\<lambda>v. iv_ID v = il_InvoiceID x) (w_invoices w)
        \<or> \<not> has_category w (il_CategoryID x)
     then throwA db_error
     else modifyA (\<lambda>w. w\<lparr>w_line_items := w_line_items w @ [x\<lparr>il_ID := i, il_Quantity := q, il_CreatedAt := now\<rparr>]\<rparr>)))))"

definition invoice_ListLineItems :: "env \<Rightarrow> string \<Rightarrow> ('l, InvoiceLineItem list) go" where
  "invoice_ListLineItems E i = dbA E (getsA (\<lambda>w. sort_key il_SortOrder (filter (\<lambda>x. il_InvoiceID x = i) (w_line_items w))))"

definition invoice_DeleteLineItems :: "env \<Rightarrow> string \<Rightarrow> ('l, unit) go" where
  "invoice_DeleteLineItems E i = dbA E (modifyA (\<lambda>w. w\<lparr>w_line_items := filter (\<lambda>x. il_InvoiceID x \<noteq> i) (w_line_items w)\<rparr>))"

record InvoiceSummary =
  is_TotalOutstandingCents :: int
  is_TotalOverdueCents :: int
  is_PaidThisMonthCents :: int
  is_InvoiceCount :: int

definition invoice_Summary :: "env \<Rightarrow> string \<Rightarrow> ('l, InvoiceSummary) go" where
  "invoice_Summary E bid = dbA E (getsA (\<lambda>w.
     let vs = filter (\<lambda>v. iv_BusinessID v = bid) (w_invoices w);
         due = (\<lambda>v. iv_TotalCents v - iv_PaidCents v) in
     \<lparr>is_TotalOutstandingCents = sum_list (map (\<lambda>v. if iv_Status v \<notin> {InvoicePaid, InvoiceCancelled} then due v else 0) vs),
      is_TotalOverdueCents = sum_list (map (\<lambda>v. if iv_Status v = InvoiceOverdue then due v else 0) vs),
      is_PaidThisMonthCents = sum_list (map (\<lambda>v. if iv_Status v = InvoicePaid \<and> month_start (day_of (w_now w)) * day_ns \<le> iv_UpdatedAt v
        then iv_PaidCents v else 0) vs),
      is_InvoiceCount = int (length vs)\<rparr>))"

record LineItemRequest =
  lq_Description :: string
  lq_Quantity :: rat
  lq_UnitPriceCents :: int
  lq_TotalCents :: int
  lq_CategoryID :: "string option"
  lq_SortOrder :: int

text \<open>A new invoice, or, without currency, issue date and items, the new values of one.\<close>

record InvoiceRequest =
  vq_CustomerName :: string
  vq_CustomerPhone :: "PhoneNumber option"
  vq_CustomerEmail :: string
  vq_CurrencyCode :: string
  vq_SubtotalCents :: int
  vq_TaxCents :: int
  vq_TotalCents :: int
  vq_IssueDate :: string
  vq_DueDate :: string
  vq_Notes :: string
  vq_LineItems :: "LineItemRequest list"

definition line_item :: "string \<Rightarrow> LineItemRequest \<Rightarrow> InvoiceLineItem" where
  "line_item invoiceID x = \<lparr>il_ID = '''', il_InvoiceID = invoiceID, il_Description = lq_Description x, il_Quantity = lq_Quantity x,
     il_UnitPriceCents = lq_UnitPriceCents x, il_TotalCents = lq_TotalCents x, il_CategoryID = lq_CategoryID x,
     il_SortOrder = lq_SortOrder x, il_CreatedAt = 0\<rparr>"

definition new_invoice :: "string \<Rightarrow> string \<Rightarrow> string \<Rightarrow> InvoiceRequest \<Rightarrow> Invoice" where
  "new_invoice bizID userID number req = \<lparr>iv_ID = '''', iv_BusinessID = bizID, iv_InvoiceNumber = number,
     iv_CustomerName = vq_CustomerName req, iv_CustomerPhone = vq_CustomerPhone req, iv_CustomerEmail = strPtrOrNil (vq_CustomerEmail req),
     iv_CustomerUserID = None, iv_CurrencyCode = (if vq_CurrencyCode req = '''' then ''ETB'' else vq_CurrencyCode req),
     iv_SubtotalCents = vq_SubtotalCents req, iv_TaxCents = vq_TaxCents req, iv_TotalCents = vq_TotalCents req, iv_PaidCents = 0,
     iv_Status = InvoiceDraft, iv_IssueDate = vq_IssueDate req, iv_DueDate = vq_DueDate req, iv_Notes = strPtrOrNil (vq_Notes req),
     iv_PaymentLink = None, iv_CreatedBy = userID, iv_CreatedAt = 0, iv_UpdatedAt = 0, iv_LineItems = []\<rparr>"

definition Invoice_Create :: "env \<Rightarrow> string \<Rightarrow> InvoiceRequest \<Rightarrow> Business \<Rightarrow> ('l, Invoice) go" where
  "Invoice_Create E userID req biz =
     bindA (invoice_NextInvoiceNumber E (bz_ID biz)) (\<lambda>number.
     bindA (invoice_Create E (new_invoice (bz_ID biz) userID number req)) (\<lambda>inv.
     bindA (mapA (\<lambda>li. invoice_CreateLineItem E (line_item (iv_ID inv) li)) (vq_LineItems req)) (\<lambda>_.
     retA inv)))"

definition Invoice_List :: "env \<Rightarrow> string option \<Rightarrow> int \<Rightarrow> int \<Rightarrow> Business \<Rightarrow> ('l, Invoice list) go" where
  "Invoice_List E status limit offset biz = invoice_ListByBusiness E (bz_ID biz) status limit offset"

definition Invoice_Get :: "env \<Rightarrow> string \<Rightarrow> Business \<Rightarrow> ('l, Invoice) go" where
  "Invoice_Get E invID biz =
     bindA (invoice_GetByID E invID) (\<lambda>inv. bindA (invoice_ListLineItems E invID) (\<lambda>items. retA (inv\<lparr>iv_LineItems := items\<rparr>)))"

definition invoice_changes :: "string \<Rightarrow> InvoiceRequest \<Rightarrow> Invoice" where
  "invoice_changes invID req = \<lparr>iv_ID = invID, iv_BusinessID = '''', iv_InvoiceNumber = '''', iv_CustomerName = vq_CustomerName req,
     iv_CustomerPhone = vq_CustomerPhone req, iv_CustomerEmail = strPtrOrNil (vq_CustomerEmail req), iv_CustomerUserID = None,
     iv_CurrencyCode = '''', iv_SubtotalCents = vq_SubtotalCents req, iv_TaxCents = vq_TaxCents req, iv_TotalCents = vq_TotalCents req,
     iv_PaidCents = 0, iv_Status = InvoiceDraft, iv_IssueDate = '''', iv_DueDate = vq_DueDate req, iv_Notes = strPtrOrNil (vq_Notes req),
     iv_PaymentLink = None, iv_CreatedBy = '''', iv_CreatedAt = 0, iv_UpdatedAt = 0, iv_LineItems = []\<rparr>"

definition Invoice_Update :: "env \<Rightarrow> string \<Rightarrow> InvoiceRequest \<Rightarrow> Business \<Rightarrow> ('l, unit) go" where
  "Invoice_Update E invID req biz = invoice_Update E (invoice_changes invID req)"

definition Invoice_Send :: "env \<Rightarrow> string \<Rightarrow> Business \<Rightarrow> ('l, unit) go" where
  "Invoice_Send E invID biz = invoice_UpdateStatus E invID InvoiceSent"

definition Invoice_Cancel :: "env \<Rightarrow> string \<Rightarrow> Business \<Rightarrow> ('l, unit) go" where
  "Invoice_Cancel E invID biz = invoice_UpdateStatus E invID InvoiceCancelled"

definition Invoice_RecordPayment :: "env \<Rightarrow> string \<Rightarrow> int \<Rightarrow> Business \<Rightarrow> ('l, int \<times> InvoiceStatus) go" where
  "Invoice_RecordPayment E invID amountCents biz =
     bindA (invoice_GetByID E invID) (\<lambda>inv.
     let newPaid = i64 (iv_PaidCents inv + amountCents);
         status = (if newPaid \<ge> iv_TotalCents inv then InvoicePaid else InvoicePartiallyPaid) in
     bindA (invoice_UpdatePaidCents E invID newPaid status) (\<lambda>_.
     retA (newPaid, status)))"

definition Invoice_Summary :: "env \<Rightarrow> Business \<Rightarrow> ('l, InvoiceSummary) go" where
  "Invoice_Summary E biz = invoice_Summary E (bz_ID biz)"

section \<open>Categories and labels\<close>

definition category_Create :: "env \<Rightarrow> TransactionCategory \<Rightarrow> ('l, TransactionCategory) go" where
  "category_Create E c = dbA E (bindA (newID E) (\<lambda>i. bindA nowA (\<lambda>now. bindA (getsA id) (\<lambda>w.
     if list_ex (\<lambda>x. kt_ID x = i) (w_categories w) \<or> (case kt_BusinessID c of None \<Rightarrow> False | Some b \<Rightarrow> \<not> has_business w b)
     then throwA db_error
     else let row = c\<lparr>kt_ID := i, kt_CreatedAt := now\<rparr> in
       bindA (modifyA (\<lambda>w. w\<lparr>w_categories := w_categories w @ [row]\<rparr>)) (\<lambda>_. retA row)))))"

definition category_GetByID :: "env \<Rightarrow> string \<Rightarrow> ('l, TransactionCategory) go" where
  "category_GetByID E i = find_row E w_categories (\<lambda>c. kt_ID c = i) (Business ErrCategoryNotFound)"

definition category_own :: "string \<Rightarrow> TransactionCategory \<Rightarrow> bool" where
  "category_own i c \<longleftrightarrow> kt_ID c = i \<and> \<not> kt_IsSystem c"

definition category_Update :: "env \<Rightarrow> TransactionCategory \<Rightarrow> ('l, unit) go" where
  "category_Update E c = dbA E (bindA (getsA w_categories) (\<lambda>cs.
     if rows_affected (category_own (kt_ID c)) cs = 0 then throwA (Business ErrCategoryNotFound)
     else modifyA (\<lambda>w. w\<lparr>w_categories := update_where (category_own (kt_ID c))
       (\<lambda>x. x\<lparr>kt_Name := kt_Name c, kt_Color := kt_Color c, kt_Icon := kt_Icon c\<rparr>) cs\<rparr>)))"

text \<open>A category in use cannot be deleted.\<close>

definition category_used :: "'l world \<Rightarrow> string \<Rightarrow> bool" where
  "category_used w i \<longleftrightarrow> list_ex (\<lambda>l. lb_CategoryID l = Some i) (w_labels w) \<or> list_ex (\<lambda>x. bx_CategoryID x = Some i) (w_batch_items w)
     \<or> list_ex (\<lambda>x. il_CategoryID x = Some i) (w_line_items w)"

definition category_Delete :: "env \<Rightarrow> string \<Rightarrow> ('l, unit) go" where
  "category_Delete E i = dbA E (bindA (getsA id) (\<lambda>w.
     if rows_affected (category_own i) (w_categories w) = 0 then throwA (Business ErrCategoryNotFound)
     else if category_used w i then throwA db_error
     else modifyA (\<lambda>w. w\<lparr>w_categories := filter (\<lambda>c. \<not> category_own i c) (w_categories w)\<rparr>)))"

definition category_less :: "TransactionCategory \<Rightarrow> TransactionCategory \<Rightarrow> bool" where
  "category_less a b \<longleftrightarrow> kt_IsSystem a \<and> \<not> kt_IsSystem b \<or> kt_IsSystem a = kt_IsSystem b \<and> string_less (kt_Name a) (kt_Name b)"

definition category_ListByBusiness :: "env \<Rightarrow> string \<Rightarrow> ('l, TransactionCategory list) go" where
  "category_ListByBusiness E bid = dbA E (getsA (\<lambda>w. order_by category_less
     (filter (\<lambda>c. kt_BusinessID c = Some bid \<or> kt_BusinessID c = None) (w_categories w))))"

definition label_Create :: "env \<Rightarrow> TransactionLabel \<Rightarrow> ('l, TransactionLabel) go" where
  "label_Create E l = dbA E (bindA (newID E) (\<lambda>i. bindA nowA (\<lambda>now. bindA (getsA id) (\<lambda>w.
     if list_ex (\<lambda>x. lb_ID x = i) (w_labels w) \<or> \<not> list_ex (\<lambda>r. rc_ID r = lb_TransactionID l) (w_receipts w)
        \<or> \<not> has_category w (lb_CategoryID l) \<or> \<not> has_user w (lb_TaggedBy l)
     then throwA db_error
     else let row = l\<lparr>lb_ID := i, lb_CreatedAt := now\<rparr> in
       bindA (modifyA (\<lambda>w. w\<lparr>w_labels := w_labels w @ [row]\<rparr>)) (\<lambda>_. retA row)))))"

definition label_GetByTransactionID :: "env \<Rightarrow> string \<Rightarrow> ('l, TransactionLabel) go" where
  "label_GetByTransactionID E txID = find_row E w_labels (\<lambda>l. lb_TransactionID l = txID) (General ErrNotFound)"

definition label_Update :: "env \<Rightarrow> TransactionLabel \<Rightarrow> ('l, unit) go" where
  "label_Update E l = dbA E (bindA (getsA id) (\<lambda>w.
     if rows_affected (\<lambda>x. lb_TransactionID x = lb_TransactionID l) (w_labels w) = 0 then throwA (General ErrNotFound)
     else if \<not> has_category w (lb_CategoryID l) then throwA db_error
     else modifyA (\<lambda>w. w\<lparr>w_labels := update_where (\<lambda>x. lb_TransactionID x = lb_TransactionID l)
       (\<lambda>x. x\<lparr>lb_CategoryID := lb_CategoryID l, lb_CustomLabel := lb_CustomLabel l, lb_Notes := lb_Notes l,
          lb_TaxDeductible := lb_TaxDeductible l\<rparr>) (w_labels w)\<rparr>)))"

definition label_Delete :: "env \<Rightarrow> string \<Rightarrow> ('l, unit) go" where
  "label_Delete E txID = dbA E (bindA (getsA w_labels) (\<lambda>ls.
     if rows_affected (\<lambda>x. lb_TransactionID x = txID) ls = 0 then throwA (General ErrNotFound)
     else modifyA (\<lambda>w. w\<lparr>w_labels := filter (\<lambda>x. lb_TransactionID x \<noteq> txID) ls\<rparr>)))"

text \<open>The labels of the transactions of a business's owner, each with its receipt.\<close>

definition owned_receipt :: "'l world \<Rightarrow> string \<Rightarrow> TransactionReceipt \<Rightarrow> bool" where
  "owned_receipt w bid r \<longleftrightarrow> list_ex (\<lambda>b. bz_ID b = bid \<and> bz_OwnerUserID b = rc_UserID r) (w_businesses w)"

definition labeled :: "'l world \<Rightarrow> string \<Rightarrow> (TransactionLabel \<times> TransactionReceipt) list" where
  "labeled w bid = concat (map (\<lambda>l. map (Pair l) (filter (\<lambda>r. rc_ID r = lb_TransactionID l \<and> owned_receipt w bid r) (w_receipts w)))
     (w_labels w))"

definition label_ListLabeled :: "env \<Rightarrow> string \<Rightarrow> string option \<Rightarrow> bool option \<Rightarrow> int \<Rightarrow> int \<Rightarrow> ('l, TransactionLabel list) go" where
  "label_ListLabeled E bid categoryID taxDeductible limit offset = page E limit offset (\<lambda>w. sort_key (\<lambda>l. - lb_CreatedAt l)
     (filter (\<lambda>l. (categoryID = None \<or> lb_CategoryID l = categoryID) \<and> (taxDeductible = None \<or> taxDeductible = Some (lb_TaxDeductible l)))
       (map fst (labeled w bid))))"

record TaxSummaryRow =
  ts_CategoryName :: string
  ts_TotalCents :: int
  ts_Count :: int

definition category_name :: "'l world \<Rightarrow> string option \<Rightarrow> string option" where
  "category_name w c = (case c of None \<Rightarrow> None | Some i \<Rightarrow> map_option kt_Name (select_one (\<lambda>k. kt_ID k = i) (w_categories w)))"

definition label_TaxSummary :: "env \<Rightarrow> string \<Rightarrow> ('l, TaxSummaryRow list) go" where
  "label_TaxSummary E bid = dbA E (getsA (\<lambda>w.
     let rows = map (\<lambda>(l, r). (category_name w (lb_CategoryID l), rc_AmountCents r)) (filter (lb_TaxDeductible \<circ> fst) (labeled w bid));
         group = (\<lambda>n. filter (\<lambda>x. fst x = n) rows) in
     sort_key (\<lambda>t. - ts_TotalCents t) (map (\<lambda>n. \<lparr>ts_CategoryName = (case n of None \<Rightarrow> ''Uncategorized'' | Some s \<Rightarrow> s),
       ts_TotalCents = sum_list (map snd (group n)), ts_Count = int (length (group n))\<rparr>) (remdups (map fst rows)))))"

definition Categories_List :: "env \<Rightarrow> Business \<Rightarrow> ('l, TransactionCategory list) go" where
  "Categories_List E biz = category_ListByBusiness E (bz_ID biz)"

definition Categories_Create :: "env \<Rightarrow> string \<Rightarrow> string option \<Rightarrow> string option \<Rightarrow> Business \<Rightarrow> ('l, TransactionCategory) go" where
  "Categories_Create E name color icon biz = category_Create E \<lparr>kt_ID = '''', kt_BusinessID = Some (bz_ID biz), kt_Name = name,
     kt_Color = color, kt_Icon = icon, kt_IsSystem = False, kt_CreatedAt = 0\<rparr>"

definition Categories_Update :: "env \<Rightarrow> string \<Rightarrow> string \<Rightarrow> string option \<Rightarrow> string option \<Rightarrow> Business \<Rightarrow> ('l, unit) go" where
  "Categories_Update E catID name color icon biz = category_Update E \<lparr>kt_ID = catID, kt_BusinessID = None, kt_Name = name,
     kt_Color = color, kt_Icon = icon, kt_IsSystem = False, kt_CreatedAt = 0\<rparr>"

definition Categories_Delete :: "env \<Rightarrow> string \<Rightarrow> Business \<Rightarrow> ('l, unit) go" where
  "Categories_Delete E catID biz = category_Delete E catID"

definition Categories_ListLabeled :: "env \<Rightarrow> string \<Rightarrow> string \<Rightarrow> int \<Rightarrow> int \<Rightarrow> Business \<Rightarrow> ('l, TransactionLabel list) go" where
  "Categories_ListLabeled E catID tax limit offset biz = label_ListLabeled E (bz_ID biz) (strPtrOrNil catID)
     (if tax = '''' then None else Some (tax = ''true'')) limit offset"

definition Categories_TaxSummary :: "env \<Rightarrow> Business \<Rightarrow> ('l, TaxSummaryRow list) go" where
  "Categories_TaxSummary E biz = label_TaxSummary E (bz_ID biz)"

definition ExportTransactions :: "env \<Rightarrow> int \<Rightarrow> int \<Rightarrow> Business \<Rightarrow> ('l, TransactionLabel list) go" where
  "ExportTransactions E limit offset biz = label_ListLabeled E (bz_ID biz) None None limit offset"

definition ProfitAndLoss :: "env \<Rightarrow> Business \<Rightarrow> ('l, TaxSummaryRow list) go" where
  "ProfitAndLoss E biz = label_TaxSummary E (bz_ID biz)"

definition TaxReport :: "env \<Rightarrow> Business \<Rightarrow> ('l, TaxSummaryRow list) go" where
  "TaxReport E biz = label_TaxSummary E (bz_ID biz)"

section \<open>Tax pots\<close>

definition taxpot_Create :: "env \<Rightarrow> TaxPot \<Rightarrow> ('l, TaxPot) go" where
  "taxpot_Create E t = dbA E (bindA (newID E) (\<lambda>i. bindA nowA (\<lambda>now. bindA (getsA id) (\<lambda>w.
     case (opt_column (e_numeric E) (tp_AutoSweepPercent t), opt_column (e_date E) (tp_DueDate t)) of (Some percent, Some due) \<Rightarrow>
       if list_ex (\<lambda>x. tp_ID x = i \<or> tp_BusinessID x = tp_BusinessID t \<and> tp_TaxType x = tp_TaxType t) (w_tax_pots w)
          \<or> tp_TaxType t \<notin> set ValidTaxTypes \<or> \<not> has_business w (tp_BusinessID t) \<or> \<not> list_ex (\<lambda>p. pt_ID p = tp_PotID t) (w_pots w)
       then throwA db_error
       else bindA (modifyA (\<lambda>w. w\<lparr>w_tax_pots := w_tax_pots w @ [t\<lparr>tp_ID := i, tp_AutoSweepPercent := percent, tp_DueDate := due,
           tp_CreatedAt := now, tp_Pot := None\<rparr>]\<rparr>)) (\<lambda>_. retA (t\<lparr>tp_ID := i, tp_CreatedAt := now\<rparr>))
     | _ \<Rightarrow> throwA db_error))))"

definition taxpot_GetByID :: "env \<Rightarrow> string \<Rightarrow> ('l, TaxPot) go" where
  "taxpot_GetByID E i = find_row E w_tax_pots (\<lambda>t. tp_ID t = i) (Business ErrTaxPotNotFound)"

definition taxpot_Update :: "env \<Rightarrow> TaxPot \<Rightarrow> ('l, unit) go" where
  "taxpot_Update E t = dbA E (bindA (getsA w_tax_pots) (\<lambda>ts.
     case opt_column (e_date E) (tp_DueDate t) of None \<Rightarrow> throwA db_error | Some due \<Rightarrow>
     if rows_affected (\<lambda>x. tp_ID x = tp_ID t) ts = 0 then throwA (Business ErrTaxPotNotFound)
     else case opt_column (e_numeric E) (tp_AutoSweepPercent t) of None \<Rightarrow> throwA db_error | Some percent \<Rightarrow>
     modifyA (\<lambda>w. w\<lparr>w_tax_pots := update_where (\<lambda>x. tp_ID x = tp_ID t)
       (\<lambda>x. x\<lparr>tp_AutoSweepPercent := percent, tp_DueDate := due, tp_Notes := tp_Notes t\<rparr>) ts\<rparr>)))"

definition taxpot_Delete :: "env \<Rightarrow> string \<Rightarrow> ('l, unit) go" where
  "taxpot_Delete E i = dbA E (bindA (getsA w_tax_pots) (\<lambda>ts.
     if rows_affected (\<lambda>x. tp_ID x = i) ts = 0 then throwA (Business ErrTaxPotNotFound)
     else modifyA (\<lambda>w. w\<lparr>w_tax_pots := filter (\<lambda>x. tp_ID x \<noteq> i) ts\<rparr>)))"

text \<open>\<open>ORDER BY\<close> of an enumeration follows the order of its values.\<close>

definition tax_rank :: "string \<Rightarrow> nat" where
  "tax_rank t = length (takeWhile (\<lambda>x. x \<noteq> t) ValidTaxTypes)"

definition taxpot_ListByBusiness :: "env \<Rightarrow> string \<Rightarrow> ('l, TaxPot list) go" where
  "taxpot_ListByBusiness E bid = dbA E (getsA (\<lambda>w. sort_key (\<lambda>t. tax_rank (tp_TaxType t))
     (filter (\<lambda>t. tp_BusinessID t = bid) (w_tax_pots w))))"

definition taxpot_GetByBusinessAndType :: "env \<Rightarrow> string \<Rightarrow> string \<Rightarrow> ('l, TaxPot) go" where
  "taxpot_GetByBusinessAndType E bid ty = find_row E w_tax_pots (\<lambda>t. tp_BusinessID t = bid \<and> tp_TaxType t = ty) (Business ErrTaxPotNotFound)"

definition taxpot_ListWithAutoSweep :: "env \<Rightarrow> string \<Rightarrow> ('l, TaxPot list) go" where
  "taxpot_ListWithAutoSweep E bid = dbA E (getsA (\<lambda>w. sort_key (\<lambda>t. tax_rank (tp_TaxType t))
     (filter (\<lambda>t. tp_BusinessID t = bid \<and> (case tp_AutoSweepPercent t of None \<Rightarrow> False | Some p \<Rightarrow> p > 0)) (w_tax_pots w))))"

definition TaxPot_Create :: "env \<Rightarrow> string \<Rightarrow> string \<Rightarrow> rat option \<Rightarrow> string option \<Rightarrow> string option \<Rightarrow> Business \<Rightarrow> ('l, TaxPot) go" where
  "TaxPot_Create E potID taxType percent due notes biz = taxpot_Create E \<lparr>tp_ID = '''', tp_BusinessID = bz_ID biz, tp_PotID = potID,
     tp_TaxType = taxType, tp_AutoSweepPercent = percent, tp_DueDate = due, tp_Notes = notes, tp_CreatedAt = 0, tp_Pot = None\<rparr>"

definition TaxPot_List :: "env \<Rightarrow> Business \<Rightarrow> ('l, TaxPot list) go" where
  "TaxPot_List E biz =
     bindA (taxpot_ListByBusiness E (bz_ID biz)) (\<lambda>pots.
     mapA (\<lambda>t. bindA (tryA (pot_GetByID E (tp_PotID t))) (\<lambda>r. retA (case r of Inl _ \<Rightarrow> t | Inr p \<Rightarrow> t\<lparr>tp_Pot := Some p\<rparr>))) pots)"

definition TaxPot_Update :: "env \<Rightarrow> string \<Rightarrow> rat option \<Rightarrow> string option \<Rightarrow> string option \<Rightarrow> Business \<Rightarrow> ('l, unit) go" where
  "TaxPot_Update E tpID percent due notes biz = taxpot_Update E \<lparr>tp_ID = tpID, tp_BusinessID = '''', tp_PotID = '''', tp_TaxType = '''',
     tp_AutoSweepPercent = percent, tp_DueDate = due, tp_Notes = notes, tp_CreatedAt = 0, tp_Pot = None\<rparr>"

definition TaxPot_Delete :: "env \<Rightarrow> string \<Rightarrow> Business \<Rightarrow> ('l, unit) go" where
  "TaxPot_Delete E tpID biz = taxpot_Delete E tpID"

text \<open>The type, due date and pot of each tax pot.\<close>

definition TaxPot_Summary :: "env \<Rightarrow> Business \<Rightarrow> ('l, (string \<times> string option \<times> string) list) go" where
  "TaxPot_Summary E biz =
     bindA (taxpot_ListByBusiness E (bz_ID biz)) (\<lambda>pots. retA (map (\<lambda>t. (tp_TaxType t, tp_DueDate t, tp_PotID t)) pots))"

section \<open>Documents\<close>

definition document_Create :: "env \<Rightarrow> BusinessDocument \<Rightarrow> ('l, BusinessDocument) go" where
  "document_Create E d = dbA E (bindA (newID E) (\<lambda>i. bindA nowA (\<lambda>now. bindA (getsA id) (\<lambda>w.
     case opt_column (e_date E) (dm_ExpiresAt d) of None \<Rightarrow> throwA db_error | Some expires \<Rightarrow>
     if list_ex (\<lambda>x. dm_ID x = i) (w_documents w) \<or> dm_DocumentType d \<notin> set DocumentTypes \<or> \<not> has_business w (dm_BusinessID d)
        \<or> \<not> has_user w (dm_UploadedBy d)
     then throwA db_error
     else bindA (modifyA (\<lambda>w. w\<lparr>w_documents := w_documents w @ [d\<lparr>dm_ID := i, dm_IsArchived := False, dm_ExpiresAt := expires,
         dm_CreatedAt := now\<rparr>]\<rparr>)) (\<lambda>_. retA (d\<lparr>dm_ID := i, dm_CreatedAt := now\<rparr>))))))"

definition document_GetByID :: "env \<Rightarrow> string \<Rightarrow> ('l, BusinessDocument) go" where
  "document_GetByID E i = find_row E w_documents (\<lambda>d. dm_ID d = i) (Business ErrDocumentNotFound)"

definition document_open :: "string \<Rightarrow> BusinessDocument \<Rightarrow> bool" where
  "document_open i d \<longleftrightarrow> dm_ID d = i \<and> \<not> dm_IsArchived d"

definition document_update :: "env \<Rightarrow> string \<Rightarrow> (BusinessDocument \<Rightarrow> BusinessDocument) \<Rightarrow> ('l, unit) go" where
  "document_update E i f = dbA E (bindA (getsA w_documents) (\<lambda>ds.
     if rows_affected (document_open i) ds = 0 then throwA (Business ErrDocumentNotFound)
     else modifyA (\<lambda>w. w\<lparr>w_documents := update_where (document_open i) f ds\<rparr>)))"

definition document_Update :: "env \<Rightarrow> BusinessDocument \<Rightarrow> ('l, unit) go" where
  "document_Update E d = document_update E (dm_ID d)
     (\<lambda>x. x\<lparr>dm_Name := dm_Name d, dm_Description := dm_Description d, dm_Tags := dm_Tags d\<rparr>)"

definition document_Archive :: "env \<Rightarrow> string \<Rightarrow> ('l, unit) go" where
  "document_Archive E i = document_update E i (\<lambda>d. d\<lparr>dm_IsArchived := True\<rparr>)"

definition document_ListByBusiness :: "env \<Rightarrow> string \<Rightarrow> string option \<Rightarrow> int \<Rightarrow> int \<Rightarrow> ('l, BusinessDocument list) go" where
  "document_ListByBusiness E bid docType limit offset = page E limit offset (\<lambda>w. sort_key (\<lambda>d. - dm_CreatedAt d)
     (filter (\<lambda>d. dm_BusinessID d = bid \<and> \<not> dm_IsArchived d \<and> (docType = None \<or> docType = Some (dm_DocumentType d))) (w_documents w)))"

definition Document_Create :: "env \<Rightarrow> string \<Rightarrow> string \<Rightarrow> string \<Rightarrow> string \<Rightarrow> int \<Rightarrow> string \<Rightarrow> string \<Rightarrow> string list \<Rightarrow> string
    \<Rightarrow> Business \<Rightarrow> ('l, BusinessDocument) go" where
  "Document_Create E userID name docType fileKey bytes mime descr tags expires biz = document_Create E
     \<lparr>dm_ID = '''', dm_BusinessID = bz_ID biz, dm_Name = name, dm_DocumentType = docType, dm_FileKey = fileKey,
      dm_FileSizeBytes = bytes, dm_MimeType = mime, dm_UploadedBy = userID, dm_Description = strPtrOrNil descr, dm_Tags = tags,
      dm_IsArchived = False, dm_ExpiresAt = strPtrOrNil expires, dm_CreatedAt = 0\<rparr>"

definition Document_List :: "env \<Rightarrow> string \<Rightarrow> int \<Rightarrow> int \<Rightarrow> Business \<Rightarrow> ('l, BusinessDocument list) go" where
  "Document_List E docType limit offset biz = document_ListByBusiness E (bz_ID biz) (strPtrOrNil docType) limit offset"

definition Document_Get :: "env \<Rightarrow> string \<Rightarrow> Business \<Rightarrow> ('l, BusinessDocument) go" where
  "Document_Get E docID biz = document_GetByID E docID"

definition Document_Update :: "env \<Rightarrow> string \<Rightarrow> string \<Rightarrow> string \<Rightarrow> string list \<Rightarrow> Business \<Rightarrow> ('l, unit) go" where
  "Document_Update E docID name descr tags biz = document_Update E
     \<lparr>dm_ID = docID, dm_BusinessID = '''', dm_Name = name, dm_DocumentType = '''', dm_FileKey = '''', dm_FileSizeBytes = 0,
      dm_MimeType = '''', dm_UploadedBy = '''', dm_Description = strPtrOrNil descr, dm_Tags = tags, dm_IsArchived = False,
      dm_ExpiresAt = None, dm_CreatedAt = 0\<rparr>"

definition Document_Archive :: "env \<Rightarrow> string \<Rightarrow> Business \<Rightarrow> ('l, unit) go" where
  "Document_Archive E docID biz = document_Archive E docID"

section \<open>Business loans\<close>

definition bprofile_Upsert :: "env \<Rightarrow> BusinessCreditProfile \<Rightarrow> ('l, unit) go" where
  "bprofile_Upsert E cp = dbA E (bindA nowA (\<lambda>now. bindA (getsA id) (\<lambda>w.
     let row = cp\<lparr>bc_LastCalculatedAt := now\<rparr>; same = (\<lambda>x. bc_BusinessID x = bc_BusinessID cp) in
     if \<not> (300 \<le> bc_TrustScore cp \<and> bc_TrustScore cp \<le> 1000) \<or> \<not> has_business w (bc_BusinessID cp) then throwA db_error
     else modifyA (\<lambda>w. w\<lparr>w_bprofiles := (if rows_affected same (w_bprofiles w) = 0 then w_bprofiles w @ [row]
       else update_where same (\<lambda>_. row) (w_bprofiles w))\<rparr>))))"

definition bprofile_Get :: "env \<Rightarrow> string \<Rightarrow> ('l, BusinessCreditProfile) go" where
  "bprofile_Get E bid = find_row E w_bprofiles (\<lambda>p. bc_BusinessID p = bid) (Lending ErrNoEligibleProfile)"

definition bloan_Create :: "env \<Rightarrow> BusinessLoan \<Rightarrow> ('l, BusinessLoan) go" where
  "bloan_Create E l = dbA E (bindA (newID E) (\<lambda>i. bindA nowA (\<lambda>now. bindA (getsA id) (\<lambda>w.
     if list_ex (\<lambda>x. bl_ID x = i) (w_bloans w) \<or> bl_PrincipalAmountCents l \<le> 0 \<or> bl_InterestFeeCents l < 0 \<or> bl_DurationDays l \<le> 0
        \<or> \<not> has_business w (bl_BusinessID l) \<or> \<not> has_user w (bl_AppliedBy l)
     then throwA db_error
     else bindA (modifyA (\<lambda>w. w\<lparr>w_bloans := w_bloans w @ [l\<lparr>bl_ID := i, bl_TotalPaidCents := 0, bl_DisbursedAt := now,
         bl_Status := LoanActive, bl_DaysPastDue := 0, bl_LedgerDisbursementTx := None, bl_ApprovedBy := None, bl_CreatedAt := now\<rparr>]\<rparr>)) (\<lambda>_.
       retA (l\<lparr>bl_ID := i, bl_DisbursedAt := now, bl_CreatedAt := now\<rparr>))))))"

definition bloan_GetLoan :: "env \<Rightarrow> string \<Rightarrow> ('l, BusinessLoan) go" where
  "bloan_GetLoan E i = find_row E w_bloans (\<lambda>l. bl_ID l = i) (Lending ErrLoanNotFound)"

definition bloan_ListByBusiness :: "env \<Rightarrow> string \<Rightarrow> int \<Rightarrow> int \<Rightarrow> ('l, BusinessLoan list) go" where
  "bloan_ListByBusiness E bid limit offset = page E limit offset
     (\<lambda>w. sort_key (\<lambda>l. - bl_CreatedAt l) (filter (\<lambda>l. bl_BusinessID l = bid) (w_bloans w)))"

definition bloan_update :: "env \<Rightarrow> string \<Rightarrow> (BusinessLoan \<Rightarrow> BusinessLoan) \<Rightarrow> ('l, unit) go" where
  "bloan_update E i f = dbA E (bindA (getsA w_bloans) (\<lambda>ls.
     if rows_affected (\<lambda>l. bl_ID l = i) ls = 0 then throwA (Lending ErrLoanNotFound)
     else modifyA (\<lambda>w. w\<lparr>w_bloans := update_where (\<lambda>l. bl_ID l = i) f ls\<rparr>)))"

definition bloan_UpdateLoanStatus :: "env \<Rightarrow> string \<Rightarrow> LoanStatus \<Rightarrow> ('l, unit) go" where
  "bloan_UpdateLoanStatus E i status = bloan_update E i (\<lambda>l. l\<lparr>bl_Status := status\<rparr>)"

text \<open>A sum that does not fit the column makes the statement fail.\<close>

definition bloan_IncrementPaid :: "env \<Rightarrow> string \<Rightarrow> int \<Rightarrow> ('l, unit) go" where
  "bloan_IncrementPaid E i amountCents = dbA E (bindA (getsA w_bloans) (\<lambda>ls.
     if rows_affected (\<lambda>l. bl_ID l = i) ls = 0 then throwA (Lending ErrLoanNotFound)
     else if list_ex (\<lambda>l. bl_ID l = i \<and> \<not> in_i64 (bl_TotalPaidCents l + amountCents)) ls then throwA db_error
     else modifyA (\<lambda>w. w\<lparr>w_bloans := update_where (\<lambda>l. bl_ID l = i)
       (\<lambda>l. l\<lparr>bl_TotalPaidCents := bl_TotalPaidCents l + amountCents\<rparr>) ls\<rparr>)))"

definition binstallment_Create :: "env \<Rightarrow> BusinessLoanInstallment \<Rightarrow> ('l, unit) go" where
  "binstallment_Create E n = dbA E (bindA (newID E) (\<lambda>i. bindA nowA (\<lambda>now. bindA (getsA id) (\<lambda>w.
     if list_ex (\<lambda>x. bn_ID x = i \<or> bn_LoanID x = bn_LoanID n \<and> bn_InstallmentNumber x = bn_InstallmentNumber n) (w_binstallments w)
        \<or> \<not> list_ex (\<lambda>l. bl_ID l = bn_LoanID n) (w_bloans w)
     then throwA db_error
     else modifyA (\<lambda>w. w\<lparr>w_binstallments := w_binstallments w @ [n\<lparr>bn_ID := i, bn_AmountPaidCents := 0, bn_IsPaid := False,
       bn_PaidAt := None, bn_LedgerRepaymentTx := None, bn_CreatedAt := now\<rparr>]\<rparr>)))))"

definition bloan_CreateInstallments :: "env \<Rightarrow> BusinessLoanInstallment list \<Rightarrow> ('l, unit) go" where
  "bloan_CreateInstallments E ns = bindA (mapA (binstallment_Create E) ns) (\<lambda>_. retA ())"

definition bloan_ListInstallments :: "env \<Rightarrow> string \<Rightarrow> ('l, BusinessLoanInstallment list) go" where
  "bloan_ListInstallments E i = dbA E (getsA (\<lambda>w. sort_key bn_InstallmentNumber (filter (\<lambda>n. bn_LoanID n = i) (w_binstallments w))))"

definition bloan_MarkInstallmentPaid :: "env \<Rightarrow> string \<Rightarrow> string \<Rightarrow> ('l, unit) go" where
  "bloan_MarkInstallmentPaid E i tx = dbA E (bindA nowA (\<lambda>now. modifyA (\<lambda>w. w\<lparr>w_binstallments := update_where (\<lambda>n. bn_ID n = i)
     (\<lambda>n. n\<lparr>bn_IsPaid := True, bn_PaidAt := Some now, bn_LedgerRepaymentTx := Some tx\<rparr>) (w_binstallments w)\<rparr>)))"

text \<open>The profile, whether it is eligible and what may be borrowed.\<close>

definition BusinessLoan_GetEligibility :: "env \<Rightarrow> Business \<Rightarrow> ('l, BusinessCreditProfile \<times> bool \<times> int) go" where
  "BusinessLoan_GetEligibility E biz =
     bindA (bprofile_Get E (bz_ID biz)) (\<lambda>cp. retA (cp, business_IsEligibleForLoan cp, business_AvailableBorrowingCents cp))"

definition BusinessLoan_List :: "env \<Rightarrow> int \<Rightarrow> int \<Rightarrow> Business \<Rightarrow> ('l, BusinessLoan list) go" where
  "BusinessLoan_List E limit offset biz = bloan_ListByBusiness E (bz_ID biz) limit offset"

definition BusinessLoan_Get :: "env \<Rightarrow> string \<Rightarrow> Business \<Rightarrow> ('l, BusinessLoan \<times> BusinessLoanInstallment list) go" where
  "BusinessLoan_Get E loanID biz =
     bindA (bloan_GetLoan E loanID) (\<lambda>loan. bindA (bloan_ListInstallments E loanID) (\<lambda>ns. retA (loan, ns)))"

definition business_interest :: "int \<Rightarrow> int" where
  "business_interest amountCents = trunc64 (f_mul (f_of_int amountCents) (fl (8 / 100)))"

definition new_bloan :: "string \<Rightarrow> string \<Rightarrow> int \<Rightarrow> int \<Rightarrow> string \<Rightarrow> string \<Rightarrow> int \<Rightarrow> BusinessLoan" where
  "new_bloan bizID userID amountCents durationDays purpose collateral now = \<lparr>bl_ID = '''', bl_BusinessID = bizID,
     bl_PrincipalAmountCents = amountCents, bl_InterestFeeCents = business_interest amountCents,
     bl_TotalDueCents = i64 (amountCents + business_interest amountCents), bl_TotalPaidCents = 0, bl_DurationDays = durationDays,
     bl_DisbursedAt = 0, bl_DueDate = add_days now durationDays, bl_Status = LoanActive, bl_DaysPastDue = 0,
     bl_Purpose = strPtrOrNil purpose, bl_CollateralDescription = strPtrOrNil collateral, bl_LedgerLoanAccount = ''biz-loan:'' @ bizID,
     bl_LedgerDisbursementTx = None, bl_AppliedBy = userID, bl_ApprovedBy = None, bl_CreatedAt = 0\<rparr>"

definition BusinessLoan_Apply :: "env \<Rightarrow> string \<Rightarrow> int \<Rightarrow> int \<Rightarrow> string \<Rightarrow> string \<Rightarrow> Business \<Rightarrow> ('l, BusinessLoan) go" where
  "BusinessLoan_Apply E userID amountCents durationDays purpose collateral biz =
     bindA (bprofile_Get E (bz_ID biz)) (\<lambda>cp.
     if \<not> business_IsEligibleForLoan cp then throwA (Lending ErrNoEligibleProfile)
     else if amountCents > business_AvailableBorrowingCents cp then throwA (Lending ErrLoanLimitExceeded)
     else bindA nowA (\<lambda>now. bloan_Create E (new_bloan (bz_ID biz) userID amountCents durationDays purpose collateral now)))"

section \<open>Guarded routes\<close>

definition route_Batch_Create :: "env \<Rightarrow> int \<Rightarrow> string \<Rightarrow> string \<Rightarrow> BatchRequest \<Rightarrow> ('l, BatchPayment) go" where
  "route_Batch_Create E ttl u b req = guarded E ttl ''biz:batch:create'' u b (Batch_Create E u req)"

definition route_Batch_Approve :: "env \<Rightarrow> int \<Rightarrow> string \<Rightarrow> string \<Rightarrow> string \<Rightarrow> ('l, unit) go" where
  "route_Batch_Approve E ttl u b i = guarded E ttl ''biz:batch:approve'' u b (Batch_Approve E u i)"

definition route_Batch_Process :: "env \<Rightarrow> int \<Rightarrow> string \<Rightarrow> string \<Rightarrow> string \<Rightarrow> ('l, unit) go" where
  "route_Batch_Process E ttl u b i = guarded E ttl ''biz:batch:execute'' u b (Batch_Process E i)"

definition route_Invoice_Create :: "env \<Rightarrow> int \<Rightarrow> string \<Rightarrow> string \<Rightarrow> InvoiceRequest \<Rightarrow> ('l, Invoice) go" where
  "route_Invoice_Create E ttl u b req = guarded E ttl ''biz:invoices:manage'' u b (Invoice_Create E u req)"

definition route_Invoice_Update :: "env \<Rightarrow> int \<Rightarrow> string \<Rightarrow> string \<Rightarrow> string \<Rightarrow> InvoiceRequest \<Rightarrow> ('l, unit) go" where
  "route_Invoice_Update E ttl u b i req = guarded E ttl ''biz:invoices:manage'' u b (Invoice_Update E i req)"

definition route_Invoice_Send :: "env \<Rightarrow> int \<Rightarrow> string \<Rightarrow> string \<Rightarrow> string \<Rightarrow> ('l, unit) go" where
  "route_Invoice_Send E ttl u b i = guarded E ttl ''biz:invoices:manage'' u b (Invoice_Send E i)"

definition route_Invoice_Cancel :: "env \<Rightarrow> int \<Rightarrow> string \<Rightarrow> string \<Rightarrow> string \<Rightarrow> ('l, unit) go" where
  "route_Invoice_Cancel E ttl u b i = guarded E ttl ''biz:invoices:manage'' u b (Invoice_Cancel E i)"

definition route_Invoice_RecordPayment :: "env \<Rightarrow> int \<Rightarrow> string \<Rightarrow> string \<Rightarrow> string \<Rightarrow> int \<Rightarrow> ('l, int \<times> InvoiceStatus) go" where
  "route_Invoice_RecordPayment E ttl u b i n = guarded E ttl ''biz:invoices:manage'' u b (Invoice_RecordPayment E i n)"

definition route_BusinessLoan_Apply :: "env \<Rightarrow> int \<Rightarrow> string \<Rightarrow> string \<Rightarrow> int \<Rightarrow> int \<Rightarrow> string \<Rightarrow> string \<Rightarrow> ('l, BusinessLoan) go" where
  "route_BusinessLoan_Apply E ttl u b n days purpose collateral =
     guarded E ttl ''biz:loans:apply'' u b (BusinessLoan_Apply E u n days purpose collateral)"

text \<open>Evaluation unfolds an action only when it runs.\<close>

lemmas business_books_code [code] =
  find_row_def [THEN fun_cong]
  page_def [THEN fun_cong]
  batch_CreateBatch_def [THEN fun_cong]
  batch_GetBatch_def [THEN fun_cong]
  batch_update_def [THEN fun_cong]
  batch_UpdateBatchStatus_def [THEN fun_cong]
  batch_ApproveBatch_def [THEN fun_cong]
  batch_ListByBusiness_def [THEN fun_cong]
  batch_CreateItem_def [THEN fun_cong]
  batch_CreateItems_def [THEN fun_cong]
  batch_ListItems_def [THEN fun_cong]
  batch_UpdateItemStatus_def [THEN fun_cong]
  Batch_Create_def [THEN fun_cong]
  Batch_List_def [THEN fun_cong]
  Batch_Get_def [THEN fun_cong]
  Batch_Approve_def [THEN fun_cong]
  Batch_Process_def [THEN fun_cong]
  invoice_Create_def [THEN fun_cong]
  invoice_GetByID_def [THEN fun_cong]
  invoice_update_def [THEN fun_cong]
  invoice_Update_def [THEN fun_cong]
  invoice_UpdateStatus_def [THEN fun_cong]
  invoice_UpdatePaidCents_def [THEN fun_cong]
  invoice_ListByBusiness_def [THEN fun_cong]
  invoice_NextInvoiceNumber_def [THEN fun_cong]
  invoice_CreateLineItem_def [THEN fun_cong]
  invoice_ListLineItems_def [THEN fun_cong]
  invoice_DeleteLineItems_def [THEN fun_cong]
  invoice_Summary_def [THEN fun_cong]
  Invoice_Create_def [THEN fun_cong]
  Invoice_List_def [THEN fun_cong]
  Invoice_Get_def [THEN fun_cong]
  Invoice_Update_def [THEN fun_cong]
  Invoice_Send_def [THEN fun_cong]
  Invoice_Cancel_def [THEN fun_cong]
  Invoice_RecordPayment_def [THEN fun_cong]
  Invoice_Summary_def [THEN fun_cong]
  category_Create_def [THEN fun_cong]
  category_GetByID_def [THEN fun_cong]
  category_Update_def [THEN fun_cong]
  category_Delete_def [THEN fun_cong]
  category_ListByBusiness_def [THEN fun_cong]
  label_Create_def [THEN fun_cong]
  label_GetByTransactionID_def [THEN fun_cong]
  label_Update_def [THEN fun_cong]
  label_Delete_def [THEN fun_cong]
  label_ListLabeled_def [THEN fun_cong]
  label_TaxSummary_def [THEN fun_cong]
  Categories_List_def [THEN fun_cong]
  Categories_Create_def [THEN fun_cong]
  Categories_Update_def [THEN fun_cong]
  Categories_Delete_def [THEN fun_cong]
  Categories_ListLabeled_def [THEN fun_cong]
  Categories_TaxSummary_def [THEN fun_cong]
  ExportTransactions_def [THEN fun_cong]
  ProfitAndLoss_def [THEN fun_cong]
  TaxReport_def [THEN fun_cong]
  taxpot_Create_def [THEN fun_cong]
  taxpot_GetByID_def [THEN fun_cong]
  taxpot_Update_def [THEN fun_cong]
  taxpot_Delete_def [THEN fun_cong]
  taxpot_ListByBusiness_def [THEN fun_cong]
  taxpot_GetByBusinessAndType_def [THEN fun_cong]
  taxpot_ListWithAutoSweep_def [THEN fun_cong]
  TaxPot_Create_def [THEN fun_cong]
  TaxPot_List_def [THEN fun_cong]
  TaxPot_Update_def [THEN fun_cong]
  TaxPot_Delete_def [THEN fun_cong]
  TaxPot_Summary_def [THEN fun_cong]
  document_Create_def [THEN fun_cong]
  document_GetByID_def [THEN fun_cong]
  document_update_def [THEN fun_cong]
  document_Update_def [THEN fun_cong]
  document_Archive_def [THEN fun_cong]
  document_ListByBusiness_def [THEN fun_cong]
  Document_Create_def [THEN fun_cong]
  Document_List_def [THEN fun_cong]
  Document_Get_def [THEN fun_cong]
  Document_Update_def [THEN fun_cong]
  Document_Archive_def [THEN fun_cong]
  bprofile_Upsert_def [THEN fun_cong]
  bprofile_Get_def [THEN fun_cong]
  bloan_Create_def [THEN fun_cong]
  bloan_GetLoan_def [THEN fun_cong]
  bloan_ListByBusiness_def [THEN fun_cong]
  bloan_update_def [THEN fun_cong]
  bloan_UpdateLoanStatus_def [THEN fun_cong]
  bloan_IncrementPaid_def [THEN fun_cong]
  binstallment_Create_def [THEN fun_cong]
  bloan_CreateInstallments_def [THEN fun_cong]
  bloan_ListInstallments_def [THEN fun_cong]
  bloan_MarkInstallmentPaid_def [THEN fun_cong]
  BusinessLoan_GetEligibility_def [THEN fun_cong]
  BusinessLoan_List_def [THEN fun_cong]
  BusinessLoan_Get_def [THEN fun_cong]
  BusinessLoan_Apply_def [THEN fun_cong]
  route_Batch_Create_def [THEN fun_cong]
  route_Batch_Approve_def [THEN fun_cong]
  route_Batch_Process_def [THEN fun_cong]
  route_Invoice_Create_def [THEN fun_cong]
  route_Invoice_Update_def [THEN fun_cong]
  route_Invoice_Send_def [THEN fun_cong]
  route_Invoice_Cancel_def [THEN fun_cong]
  route_Invoice_RecordPayment_def [THEN fun_cong]
  route_BusinessLoan_Apply_def [THEN fun_cong]

section \<open>Invoice numbers\<close>

text \<open>Everything the books consist of, and how they change: by the handlers, behind the guard of the routes, or not at all.\<close>

definition books :: "'l world \<Rightarrow> BatchPayment list \<times> BatchPaymentItem list \<times> Invoice list \<times> BusinessLoan list" where
  "books w = (w_batches w, w_batch_items w, w_invoices w, w_bloans w)"

inductive book_step :: "env \<Rightarrow> 'l world \<Rightarrow> 'l world \<Rightarrow> bool" for E where
  batch_create: "route_Batch_Create E ttl u b br w = (x1, w') \<Longrightarrow> book_step E w w'"
| batch_approve: "route_Batch_Approve E ttl u b i w = (x2, w') \<Longrightarrow> book_step E w w'"
| batch_process: "route_Batch_Process E ttl u b i w = (x3, w') \<Longrightarrow> book_step E w w'"
| invoice_create: "route_Invoice_Create E ttl u b vr w = (x4, w') \<Longrightarrow> book_step E w w'"
| invoice_update: "route_Invoice_Update E ttl u b i vr w = (x5, w') \<Longrightarrow> book_step E w w'"
| invoice_send: "route_Invoice_Send E ttl u b i w = (x6, w') \<Longrightarrow> book_step E w w'"
| invoice_cancel: "route_Invoice_Cancel E ttl u b i w = (x7, w') \<Longrightarrow> book_step E w w'"
| invoice_payment: "route_Invoice_RecordPayment E ttl u b i n w = (x8, w') \<Longrightarrow> book_step E w w'"
| loan_apply: "route_BusinessLoan_Apply E ttl u b n days purpose collateral w = (x9, w') \<Longrightarrow> book_step E w w'"
| elsewhere: "books w' = books w \<Longrightarrow> book_step E w w'"

lemma stable_books:
  assumes "stable w' = stable w"
  shows "books w' = books w"
  using arg_cong [OF assms, of w_batches] arg_cong [OF assms, of w_batch_items] arg_cong [OF assms, of w_invoices]
    arg_cong [OF assms, of w_bloans] by (simp add: stable_def books_def)

lemma reader_books [readers]: "readerA (find_row E t p e)"
  unfolding find_row_def by (rule readers)+

text \<open>A guarded handler runs for the business of the route on books as they were, or nothing happens to the books.\<close>

lemma guarded_cases:
  assumes "guarded E ttl perm u b handler w = (r, w')"
  obtains e where "r = Inl e" "books w' = books w"
  | biz w1 where "bz_ID biz = b" "books w1 = books w" "handler biz w1 = (r, w')"
proof -
  have rd: "readerA (BusinessContext E u b)" "readerA (RequireBusinessPermission E ttl perm ctx)" for ctx
    unfolding BusinessContext_def RequireBusinessPermission_def by (rule readers)+
  obtain rc w1 where c: "BusinessContext E u b w = (rc, w1)" by fastforce
  have w1: "books w1 = books w" by (rule stable_books [OF readerD [OF rd(1) c]])
  show thesis
  proof (cases rc)
    case (Inl e)
    then show ?thesis using assms c w1 that(1) by (auto simp: guarded_def bindA_def)
  next
    case (Inr ctx)
    obtain rp w2 where p: "RequireBusinessPermission E ttl perm ctx w1 = (rp, w2)" by fastforce
    have w2: "books w2 = books w" using stable_books [OF readerD [OF rd(2) p]] w1 by simp
    have b: "bz_ID (fst ctx) = b" using c Inr BusinessContext_run(2) [of E u b w "fst ctx" "snd ctx" w1] by simp
    show ?thesis
    proof (cases rp)
      case (Inl e)
      then show ?thesis using assms c p \<open>rc = Inr ctx\<close> w2 that(1) by (auto simp: guarded_def bindA_def)
    next
      case (Inr x)
      then show ?thesis using assms c p \<open>rc = Inr ctx\<close> w2 b that(2) by (auto simp: guarded_def bindA_def)
    qed
  qed
qed

lemma leaves_guarded:
  assumes "\<And>w w'. books w' = books w \<Longrightarrow> t w' = t w" "\<And>biz. leavesA t (handler biz)"
  shows "leavesA t (guarded E ttl perm u b handler)"
  unfolding leavesA_def
proof
  fix w
  obtain r w' where "guarded E ttl perm u b handler w = (r, w')" by fastforce
  then show "t (snd (guarded E ttl perm u b handler w)) = t w"
  proof (rule guarded_cases)
    fix biz w1 assume "books w1 = books w" and h: "handler biz w1 = (r, w')"
    then have "t w1 = t w" by (rule_tac assms(1))
    moreover have "t w' = t w1" by (rule leavesD [OF assms(2) h])
    ultimately show ?thesis using \<open>guarded E ttl perm u b handler w = (r, w')\<close> by simp
  next
    fix e assume "books w' = books w"
    then have "t w' = t w" by (rule assms(1))
    then show ?thesis using \<open>guarded E ttl perm u b handler w = (r, w')\<close> by simp
  qed
qed

lemmas book_actions = leavesA_def dbA_def Let_def bindA_def getsA_def modifyA_def throwA_def retA_def nowA_def newID_def

definition numbers :: "'l world \<Rightarrow> (string \<times> string) list" where
  "numbers w = map (\<lambda>v. (iv_BusinessID v, iv_InvoiceNumber v)) (w_invoices w)"

lemma numbers_update: "(\<And>now v. iv_BusinessID (f now v) = iv_BusinessID v \<and> iv_InvoiceNumber (f now v) = iv_InvoiceNumber v) \<Longrightarrow>
    leavesA numbers (invoice_update E p f)"
  by (auto simp: invoice_update_def book_actions numbers_def update_where_def)

lemma leaves_numbers [leaves]:
  "leavesA numbers (audit_Log E a)" "leavesA numbers (find_row E t p e)" "leavesA numbers nowA"
  "leavesA numbers (batch_CreateBatch E ba)" "leavesA numbers (batch_CreateItem E bx)" "leavesA numbers (batch_ApproveBatch E i u)"
  "leavesA numbers (batch_update E q g e)" "leavesA numbers (invoice_CreateLineItem E il)" "leavesA numbers (bloan_Create E bl)"
  "leavesA numbers (invoice_NextInvoiceNumber E b)"
  by (simp_all add: audit_Log_def find_row_def batch_CreateBatch_def batch_CreateItem_def batch_ApproveBatch_def batch_update_def
      invoice_CreateLineItem_def bloan_Create_def invoice_NextInvoiceNumber_def book_actions numbers_def split: option.splits)

lemma numbers_changes [leaves]:
  "leavesA numbers (invoice_Update E v)" "leavesA numbers (invoice_UpdateStatus E i st)" "leavesA numbers (invoice_UpdatePaidCents E i n st)"
proof -
  have "leavesA numbers (dbA E (throwA e))" for e :: go_error by (simp add: book_actions numbers_def)
  then show "leavesA numbers (invoice_Update E v)" "leavesA numbers (invoice_UpdateStatus E i st)"
    "leavesA numbers (invoice_UpdatePaidCents E i n st)"
    unfolding invoice_Update_def invoice_UpdateStatus_def invoice_UpdatePaidCents_def
    by (cases "e_date E (iv_DueDate v)") (simp_all add: numbers_update)
qed

lemma numbers_guarded: "(\<And>biz. leavesA numbers (handler biz)) \<Longrightarrow> leavesA numbers (guarded E ttl perm u b handler)"
  by (rule leaves_guarded) (simp_all add: books_def numbers_def)

lemma numbers_handlers:
  "leavesA numbers (route_Batch_Create E ttl u b br)" "leavesA numbers (route_Batch_Approve E ttl u b i)"
  "leavesA numbers (route_Batch_Process E ttl u b i)" "leavesA numbers (route_Invoice_Update E ttl u b i vr)"
  "leavesA numbers (route_Invoice_Send E ttl u b i)" "leavesA numbers (route_Invoice_Cancel E ttl u b i)"
  "leavesA numbers (route_Invoice_RecordPayment E ttl u b i n)" "leavesA numbers (route_BusinessLoan_Apply E ttl u b n days p c)"
  unfolding route_Batch_Create_def route_Batch_Approve_def route_Batch_Process_def route_Invoice_Update_def route_Invoice_Send_def
    route_Invoice_Cancel_def route_Invoice_RecordPayment_def route_BusinessLoan_Apply_def Batch_Create_def batch_CreateItems_def
    Batch_Approve_def Batch_Process_def batch_GetBatch_def batch_UpdateBatchStatus_def Invoice_Update_def Invoice_Send_def
    Invoice_Cancel_def Invoice_RecordPayment_def invoice_GetByID_def BusinessLoan_Apply_def bprofile_Get_def Let_def
  by (rule numbers_guarded, (rule leaves)+)+

text \<open>The number of a new invoice counts those of its business.\<close>

definition next_number :: "(string \<times> string) list \<Rightarrow> string \<Rightarrow> string" where
  "next_number ns bizID = invoice_number (int (length (filter (\<lambda>n. fst n = bizID) ns)) + 1)"

lemma next_number_run: "invoice_NextInvoiceNumber E b w = (r, w1) \<Longrightarrow> \<forall>n. r = Inr n \<longrightarrow> n = next_number (numbers w) b"
  by (auto simp: invoice_NextInvoiceNumber_def dbA_def Let_def getsA_def throwA_def next_number_def numbers_def rows_affected_def
      filter_map comp_def split: if_splits)

lemma invoice_Create_run:
  assumes "invoice_Create E v w = (r, w1)"
  shows "numbers w1 = (case r of Inl _ \<Rightarrow> numbers w | Inr _ \<Rightarrow> numbers w @ [(iv_BusinessID v, iv_InvoiceNumber v)])"
    "\<forall>x. r = Inr x \<longrightarrow> iv_InvoiceNumber v \<notin> snd ` set (numbers w)"
  using assms
  by (auto simp: invoice_Create_def book_actions numbers_def list_ex_iff split: if_splits option.splits)

lemma Invoice_Create_numbers:
  assumes "Invoice_Create E u req biz w = (r, w')"
  shows "numbers w' = numbers w \<and> (next_number (numbers w) (bz_ID biz) \<in> snd ` set (numbers w) \<longrightarrow> (\<exists>e. r = Inl e))
    \<or> numbers w' = numbers w @ [(bz_ID biz, next_number (numbers w) (bz_ID biz))]
      \<and> next_number (numbers w) (bz_ID biz) \<notin> snd ` set (numbers w)"
proof -
  obtain rn w1 where n: "invoice_NextInvoiceNumber E (bz_ID biz) w = (rn, w1)" by fastforce
  have w1: "numbers w1 = numbers w" by (rule leavesD [OF leaves_numbers(10) n])
  show ?thesis
  proof (cases rn)
    case (Inl e)
    then show ?thesis using assms n w1 by (auto simp: Invoice_Create_def bindA_def)
  next
    case (Inr k)
    then have k: "k = next_number (numbers w) (bz_ID biz)" using next_number_run [OF n] by blast
    obtain rc w2 where c: "invoice_Create E (new_invoice (bz_ID biz) u k req) w1 = (rc, w2)" by fastforce
    note run = invoice_Create_run [OF c]
    show ?thesis
    proof (cases rc)
      case (Inl e)
      then show ?thesis using assms n Inr c run w1 by (auto simp: Invoice_Create_def bindA_def)
    next
      case (Inr inv)
      have "leavesA numbers (bindA (mapA (\<lambda>li. invoice_CreateLineItem E (line_item (iv_ID inv) li)) (vq_LineItems req)) (\<lambda>_. retA inv))"
        by (rule leaves)+
      moreover have "bindA (mapA (\<lambda>li. invoice_CreateLineItem E (line_item (iv_ID inv) li)) (vq_LineItems req)) (\<lambda>_. retA inv) w2 = (r, w')"
        using assms n \<open>rn = Inr k\<close> c Inr by (simp add: Invoice_Create_def bindA_def)
      ultimately have "numbers w' = numbers w2" by (rule leavesD)
      then show ?thesis using run Inr w1 k by (simp add: new_invoice_def)
    qed
  qed
qed

text \<open>The numbers of one issuer, without a gap.\<close>

definition issued :: "string \<Rightarrow> nat \<Rightarrow> (string \<times> string) list" where
  "issued b n = map (\<lambda>k. (b, invoice_number (int k))) [1 ..< Suc n]"

lemma issued_0 [simp]: "issued b 0 = []"
  by (simp add: issued_def)

lemma length_issued: "length (issued b n) = n"
  by (simp add: issued_def del: upt_Suc)

lemma next_issued: "next_number (issued b n) c = invoice_number ((if c = b then int n else 0) + 1)"
proof -
  have "filter (\<lambda>x. fst x = c) (issued b n) = (if c = b then issued b n else [])"
    by (induction n) (auto simp: issued_def)
  then show ?thesis by (simp add: next_number_def length_issued)
qed

lemma issued_Suc: "issued b (Suc n) = issued b n @ [(b, invoice_number (int n + 1))]"
  by (simp add: issued_def add.commute)

lemma next_none: "next_number [] c = invoice_number 1"
  by (simp add: next_number_def)

lemma first_issued: "0 < n \<Longrightarrow> invoice_number 1 \<in> snd ` set (issued b n)"
  by (force simp: issued_def simp del: upt_Suc)

lemma route_Invoice_Create_numbers:
  assumes "route_Invoice_Create E ttl u bizID req w = (r, w')"
  shows "numbers w' = numbers w \<and> (next_number (numbers w) bizID \<in> snd ` set (numbers w) \<longrightarrow> (\<exists>e. r = Inl e))
    \<or> numbers w' = numbers w @ [(bizID, next_number (numbers w) bizID)] \<and> next_number (numbers w) bizID \<notin> snd ` set (numbers w)"
  using assms unfolding route_Invoice_Create_def
proof (rule guarded_cases)
  fix biz w1 assume "bz_ID biz = bizID" "books w1 = books w" "Invoice_Create E u req biz w1 = (r, w')"
  moreover from this(2) have "numbers w1 = numbers w" by (simp add: books_def numbers_def)
  ultimately show ?thesis using Invoice_Create_numbers by metis
qed (simp add: books_def numbers_def)

lemma book_step_issued:
  assumes "book_step E w w'" "numbers w = issued b n"
  shows "\<exists>b n. numbers w' = issued b n"
  using assms(1)
proof cases
  case (invoice_create ttl u c req r)
  have "numbers w' = numbers w \<or> numbers w' = issued c 1 \<or> numbers w' = issued b (Suc n)"
    using route_Invoice_Create_numbers [OF invoice_create] assms(2) first_issued [of n b]
    by (cases "n = 0"; cases "c = b") (auto simp: next_issued issued_Suc next_none)
  then show ?thesis using assms(2) by metis
next
  case elsewhere
  then show ?thesis using assms(2) by (auto simp: books_def numbers_def)
qed (metis assms(2) leavesD numbers_handlers)+

text \<open>C17: the invoices of the whole system, whatever is done with the books, belong to one business and are numbered from one
  without a gap; as soon as there is one, every attempt of another business to create an invoice fails and adds none.\<close>

theorem invoices_of_one_business:
  assumes "(book_step E)\<^sup>*\<^sup>* w\<^sub>0 w" "w_invoices w\<^sub>0 = []"
  shows "\<exists>b. map (\<lambda>v. (iv_BusinessID v, iv_InvoiceNumber v)) (w_invoices w)
        = map (\<lambda>k. (b, invoice_number (int k))) [1 ..< Suc (length (w_invoices w))]
    \<and> (w_invoices w \<noteq> [] \<longrightarrow> (\<forall>ttl u bizID req. bizID \<noteq> b \<longrightarrow>
        (\<exists>e w'. route_Invoice_Create E ttl u bizID req w = (Inl e, w') \<and> length (w_invoices w') = length (w_invoices w))))"
proof -
  have "numbers w\<^sub>0 = issued b 0" for b using assms(2) by (simp add: numbers_def issued_def)
  with assms(1) have "\<exists>b n. numbers w = issued b n"
    by (induction rule: rtranclp_induct) (use book_step_issued in blast)+
  then obtain b n where b: "numbers w = issued b n" by blast
  then have n: "n = length (w_invoices w)" by (metis length_issued length_map numbers_def)
  have "\<exists>e w'. route_Invoice_Create E ttl u bizID req w = (Inl e, w') \<and> length (w_invoices w') = length (w_invoices w)"
    if "w_invoices w \<noteq> []" "bizID \<noteq> b" for ttl u bizID req
  proof -
    obtain r w' where run: "route_Invoice_Create E ttl u bizID req w = (r, w')" by fastforce
    have "next_number (numbers w) bizID \<in> snd ` set (numbers w)" using that n b first_issued [of n b] by (simp add: next_issued)
    then obtain e where "r = Inl e" "numbers w' = numbers w" using route_Invoice_Create_numbers [OF run] by blast
    then show ?thesis using run by (metis length_map numbers_def)
  qed
  then show ?thesis using b n unfolding numbers_def issued_def by blast
qed

text \<open>Two shops of Alice; the first to send an invoice is the only one that ever can.\<close>

definition books_world :: "unit world" where
  "books_world = shop_world\<lparr>w_businesses := [shop, shop\<lparr>bz_ID := ''z2''\<rparr>], w_bperms := [(SystemRoleOwnerID, ''biz:invoices:manage''),
     (SystemRoleOwnerID, ''biz:batch:create''), (SystemRoleOwnerID, ''biz:batch:approve''), (SystemRoleOwnerID, ''biz:loans:apply'')],
     w_members := [(new_member ''z1'' ''ua'' SystemRoleOwnerID None ''ua'')\<lparr>bm_ID := ''m1''\<rparr>,
       (new_member ''z2'' ''ua'' SystemRoleOwnerID None ''ua'')\<lparr>bm_ID := ''m2''\<rparr>]\<rparr>"

definition bill :: InvoiceRequest where
  "bill = \<lparr>vq_CustomerName = ''Bob'', vq_CustomerPhone = None, vq_CustomerEmail = '''', vq_CurrencyCode = ''ETB'', vq_SubtotalCents = 1000,
     vq_TaxCents = 150, vq_TotalCents = 1150, vq_IssueDate = ''2026-01-05'', vq_DueDate = ''2026-02-05'', vq_Notes = '''',
     vq_LineItems = []\<rparr>"

theorem invoices_of_one_business_witness:
  "let w = snd (route_Invoice_Create ok_env 300 ''ua'' ''z1'' bill books_world)
   in length (w_invoices w) = 1 \<and> (\<exists>e w'. route_Invoice_Create ok_env 300 ''ua'' ''z2'' bill w = (Inl e, w'))"
proof -
  define w where "w = snd (route_Invoice_Create ok_env 300 ''ua'' ''z1'' bill books_world)"
  have n: "map iv_BusinessID (w_invoices w) = [''z1'']" unfolding w_def by code_simp
  have "book_step ok_env books_world w" unfolding w_def by (rule book_step.invoice_create) (rule surjective_pairing)
  moreover have "w_invoices books_world = []" by (simp add: books_world_def shop_world_def empty_world_def)
  ultimately obtain b where b: "map (\<lambda>v. (iv_BusinessID v, iv_InvoiceNumber v)) (w_invoices w)
        = map (\<lambda>k. (b, invoice_number (int k))) [1 ..< Suc (length (w_invoices w))]"
      "w_invoices w \<noteq> [] \<longrightarrow> (\<forall>ttl u bizID req. bizID \<noteq> b \<longrightarrow> (\<exists>e w'. route_Invoice_Create ok_env ttl u bizID req w = (Inl e, w')
        \<and> length (w_invoices w') = length (w_invoices w)))"
    using invoices_of_one_business [OF r_into_rtranclp] by blast
  have len: "length (w_invoices w) = 1" using arg_cong [OF n, of length] by simp
  have "b = ''z1''" using arg_cong [OF b(1), of "map fst"] n len by (simp add: comp_def)
  then have "''z2'' \<noteq> b" by simp
  moreover have "w_invoices w \<noteq> []" using len by auto
  ultimately have "\<exists>e w'. route_Invoice_Create ok_env 300 ''ua'' ''z2'' bill w = (Inl e, w')" using b(2) by blast
  then show ?thesis using len unfolding w_def by (simp only: Let_def simp_thms)
qed

section \<open>What a batch adds up to\<close>

definition batch_rows :: "BatchPayment \<Rightarrow> BatchPaymentItem list \<Rightarrow> BatchPaymentItem list" where
  "batch_rows b items = filter (\<lambda>x. bx_BatchID x = ba_ID b) items"

definition batch_ok :: "BatchPaymentItem list \<Rightarrow> BatchPayment \<Rightarrow> bool" where
  "batch_ok items b \<longleftrightarrow> ba_Status b \<in> {BatchDraft, BatchApproved, BatchProcessing} \<and> (ba_Status b = BatchDraft \<longleftrightarrow> ba_ApprovedBy b = None)
     \<and> int (length (batch_rows b items)) \<le> ba_ItemCount b \<and> list_all (\<lambda>x. 0 < bx_AmountCents x) (batch_rows b items)
     \<and> (int (length (batch_rows b items)) = ba_ItemCount b \<longrightarrow> ba_TotalCents b = i64 (\<Sum>x \<leftarrow> batch_rows b items. bx_AmountCents x))"

definition batches_ok :: "BatchPayment list \<Rightarrow> BatchPaymentItem list \<Rightarrow> bool" where
  "batches_ok bs items \<longleftrightarrow> distinct (map ba_ID bs) \<and> list_all (batch_ok items) bs \<and> bx_BatchID ` set items \<subseteq> ba_ID ` set bs"

definition batches_inv :: "'l world \<Rightarrow> bool" where
  "batches_inv w \<longleftrightarrow> batches_ok (w_batches w) (w_batch_items w)"

lemma batch_total_sum: "batch_total xs = i64 (\<Sum>x \<leftarrow> xs. xq_AmountCents x)"
proof -
  have "foldl (\<lambda>t x. i64 (t + xq_AmountCents x)) (i64 t) xs = i64 (t + (\<Sum>x \<leftarrow> xs. xq_AmountCents x))" for t
    by (induction xs arbitrary: t) (simp_all add: i64_add_left add.assoc)
  from this [of 0] show ?thesis by (simp add: batch_total_def i64_def)
qed

text \<open>An update of a batch that keeps its identifier, count and total.\<close>

lemma batches_ok_update:
  assumes "batches_ok bs items"
    and "\<And>b. b \<in> set bs \<Longrightarrow> p b \<Longrightarrow> ba_ID (f b) = ba_ID b \<and> ba_ItemCount (f b) = ba_ItemCount b \<and> ba_TotalCents (f b) = ba_TotalCents b
      \<and> ba_Status (f b) \<in> {BatchApproved, BatchProcessing} \<and> ba_ApprovedBy (f b) \<noteq> None"
  shows "batches_ok (update_where p f bs) items"
proof -
  have "map ba_ID (update_where p f bs) = map ba_ID bs" using assms(2) by (auto simp: update_where_def)
  moreover from this have "ba_ID ` set (update_where p f bs) = ba_ID ` set bs" by (metis list.set_map)
  moreover have "batch_ok items (if p b then f b else b)" if "b \<in> set bs" for b
  proof (cases "p b")
    case True
    then show ?thesis using assms(1) that assms(2) [OF that True] by (force simp: batches_ok_def batch_ok_def list_all_iff batch_rows_def)
  qed (use assms(1) that in \<open>simp add: batches_ok_def list_all_iff\<close>)
  ultimately show ?thesis
    using assms(1) by (simp add: batches_ok_def list_all_iff) (auto dest!: update_where_set)
qed

text \<open>A new batch with the items that were stored for it before a failure, or all of them.\<close>

lemma batches_ok_new:
  assumes ok: "batches_ok bs items" and new: "ba_ID b \<notin> ba_ID ` set bs"
    and b: "ba_Status b = BatchDraft" "ba_ApprovedBy b = None" "ba_ItemCount b = int (length reqs)" "ba_TotalCents b = batch_total reqs"
    and ys: "map (\<lambda>y. (bx_BatchID y, bx_AmountCents y)) ys = take (length ys) (map (\<lambda>x. (ba_ID b, xq_AmountCents x)) reqs)"
      "list_all (\<lambda>y. 0 < bx_AmountCents y) ys"
  shows "batches_ok (bs @ [b]) (items @ ys)"
proof -
  have ids: "bx_BatchID y = ba_ID b" if "y \<in> set ys" for y
  proof -
    have "(bx_BatchID y, bx_AmountCents y) \<in> set (map (\<lambda>x. (ba_ID b, xq_AmountCents x)) reqs)"
      using that arg_cong [OF ys(1), of set] by (metis (no_types, lifting) image_eqI in_set_takeD list.set_map)
    then show ?thesis by auto
  qed
  have old: "batch_rows c (items @ ys) = batch_rows c items" if "c \<in> set bs" for c
  proof -
    have "ba_ID c \<noteq> ba_ID b" using new that by (metis image_eqI)
    then have "filter (\<lambda>x. bx_BatchID x = ba_ID c) ys = []" using ids by (auto simp: filter_empty_conv)
    then show ?thesis by (simp add: batch_rows_def)
  qed
  have "filter (\<lambda>x. bx_BatchID x = ba_ID b) items = []" using ok new unfolding batches_ok_def filter_empty_conv by (metis image_eqI subsetD)
  then have rows: "batch_rows b (items @ ys) = ys" using ids by (simp add: batch_rows_def)
  have "length ys \<le> length reqs" using arg_cong [OF ys(1), of length] by simp
  moreover have "map bx_AmountCents ys = map xq_AmountCents reqs" if "length ys = length reqs"
    using arg_cong [OF ys(1), of "map snd"] that by (simp add: comp_def)
  ultimately have "batch_ok (items @ ys) b" using b ys(2) by (simp add: batch_ok_def rows batch_total_sum)
  moreover have "batch_ok (items @ ys) c = batch_ok items c" if "c \<in> set bs" for c using old [OF that] by (simp only: batch_ok_def)
  then have "list_all (batch_ok (items @ ys)) bs" using ok by (simp add: batches_ok_def list_all_iff)
  ultimately show ?thesis using ok new ids by (auto simp: batches_ok_def)
qed

lemma CreateItem_run:
  assumes "batch_CreateItem E x w = (r, w')"
  shows "w_batches w' = w_batches w \<and> (case r of Inl _ \<Rightarrow> w_batch_items w' = w_batch_items w
    | Inr _ \<Rightarrow> \<exists>y. w_batch_items w' = w_batch_items w @ [y] \<and> bx_BatchID y = bx_BatchID x \<and> bx_AmountCents y = bx_AmountCents x
        \<and> 0 < bx_AmountCents y)"
  using assms by (auto simp: batch_CreateItem_def book_actions split: if_splits)

lemma CreateItems_run:
  assumes "mapA (batch_CreateItem E) xs w = (r, w')"
  shows "w_batches w' = w_batches w \<and> (\<exists>ys. w_batch_items w' = w_batch_items w @ ys \<and> list_all (\<lambda>y. 0 < bx_AmountCents y) ys
    \<and> map (\<lambda>y. (bx_BatchID y, bx_AmountCents y)) ys = take (length ys) (map (\<lambda>x. (bx_BatchID x, bx_AmountCents x)) xs))"
  using assms
proof (induction xs arbitrary: w r)
  case Nil
  then show ?case by (auto simp: retA_def)
next
  case (Cons x xs)
  obtain r1 w1 where c: "batch_CreateItem E x w = (r1, w1)" by fastforce
  note run = CreateItem_run [OF c]
  show ?case
  proof (cases r1)
    case (Inl e)
    then show ?thesis using Cons.prems c run by (auto simp: bindA_def)
  next
    case (Inr u)
    then obtain y where y: "w_batch_items w1 = w_batch_items w @ [y]" "bx_BatchID y = bx_BatchID x" "bx_AmountCents y = bx_AmountCents x"
        "0 < bx_AmountCents y" and b: "w_batches w1 = w_batches w"
      using run by auto
    obtain r2 where "mapA (batch_CreateItem E) xs w1 = (r2, w')"
      using Cons.prems c Inr by (auto simp: bindA_def retA_def split: prod.splits sum.splits)
    then obtain ys where "w_batches w' = w_batches w1" "w_batch_items w' = w_batch_items w1 @ ys"
        "list_all (\<lambda>y. 0 < bx_AmountCents y) ys"
        "map (\<lambda>y. (bx_BatchID y, bx_AmountCents y)) ys = take (length ys) (map (\<lambda>x. (bx_BatchID x, bx_AmountCents x)) xs)"
      using Cons.IH by blast
    then show ?thesis using y b by (intro conjI exI [of _ "y # ys"]) simp_all
  qed
qed

lemma CreateBatch_run:
  assumes "batch_CreateBatch E b w = (r, w')"
  shows "w_batch_items w' = w_batch_items w \<and> (case r of Inl _ \<Rightarrow> w_batches w' = w_batches w
    | Inr b' \<Rightarrow> ba_ID b' \<notin> ba_ID ` set (w_batches w) \<and> (\<exists>row. w_batches w' = w_batches w @ [row] \<and> ba_ID row = ba_ID b'
        \<and> ba_Status row = ba_Status b \<and> ba_ApprovedBy row = None \<and> ba_ItemCount row = ba_ItemCount b \<and> ba_TotalCents row = ba_TotalCents b))"
  using assms by (auto simp: batch_CreateBatch_def book_actions list_ex_iff split: if_splits) blast

lemma Batch_Create_keeps: "keepsA batches_inv (Batch_Create E u req biz)"
proof (rule keepsAI)
  fix w :: "'l world" assume inv: "batches_inv w"
  obtain r w1 where c: "batch_CreateBatch E (new_batch (bz_ID biz) u req) w = (r, w1)" by fastforce
  note run = CreateBatch_run [OF c]
  show "batches_inv (snd (Batch_Create E u req biz w))"
  proof (cases r)
    case (Inl e)
    then show ?thesis using run c inv by (simp add: Batch_Create_def bindA_def batches_inv_def)
  next
    case (Inr batch)
    obtain r2 w2 where m: "mapA (batch_CreateItem E) (map (batch_item (ba_ID batch)) (xr_Items req)) w1 = (r2, w2)" by fastforce
    obtain row where row: "w_batches w1 = w_batches w @ [row]" "ba_ID row = ba_ID batch" "ba_Status row = BatchDraft" "ba_ApprovedBy row = None"
        "ba_ItemCount row = int (length (xr_Items req))" "ba_TotalCents row = batch_total (xr_Items req)"
      and new: "ba_ID batch \<notin> ba_ID ` set (w_batches w)" and i: "w_batch_items w1 = w_batch_items w"
      using run Inr by (auto simp: new_batch_def)
    obtain ys where ys: "w_batches w2 = w_batches w1" "w_batch_items w2 = w_batch_items w1 @ ys" "list_all (\<lambda>y. 0 < bx_AmountCents y) ys"
        "map (\<lambda>y. (bx_BatchID y, bx_AmountCents y)) ys
          = take (length ys) (map (\<lambda>x. (bx_BatchID x, bx_AmountCents x)) (map (batch_item (ba_ID batch)) (xr_Items req)))"
      using CreateItems_run [OF m] by blast
    have "batches_ok (w_batches w @ [row]) (w_batch_items w @ ys)"
      using batches_ok_new [OF inv [unfolded batches_inv_def], of row "xr_Items req" ys] row new ys(3,4)
      by (simp add: batch_item_def comp_def)
    then have "batches_inv w2" using ys(1,2) row(1) i by (simp add: batches_inv_def)
    moreover have "keepsA batches_inv (audit_Log E a)" for a
      by (simp add: keepsA_def audit_Log_def book_actions batches_inv_def)
    then have "keepsA batches_inv (bindA (ignoreA (audit_Log E a)) (\<lambda>_. retA batch))" for a by (intro keeps)
    ultimately have "batches_inv (snd (bindA (ignoreA (audit_Log E a)) (\<lambda>_. retA batch) w2))" for a by (rule_tac keepsAD)
    then show ?thesis
      using c Inr m \<open>batches_inv w2\<close> by (cases r2) (simp_all add: Batch_Create_def batch_CreateItems_def bindA_def retA_def)
  qed
qed

lemma batches_leaves: "leavesA (\<lambda>w. (w_batches w, w_batch_items w)) m \<Longrightarrow> keepsA batches_inv m"
  by (simp add: leavesA_def keepsA_def batches_inv_def)

lemma leaves_batches:
  "leavesA (\<lambda>w. (w_batches w, w_batch_items w)) (find_row E t p e)" "leavesA (\<lambda>w. (w_batches w, w_batch_items w)) nowA"
  "leavesA (\<lambda>w. (w_batches w, w_batch_items w)) (invoice_NextInvoiceNumber E b)"
  "leavesA (\<lambda>w. (w_batches w, w_batch_items w)) (invoice_Create E v)" "leavesA (\<lambda>w. (w_batches w, w_batch_items w)) (invoice_CreateLineItem E il)"
  "leavesA (\<lambda>w. (w_batches w, w_batch_items w)) (invoice_update E q f)" "leavesA (\<lambda>w. (w_batches w, w_batch_items w)) (bloan_Create E bl)"
  "leavesA (\<lambda>w. (w_batches w, w_batch_items w)) (dbA E (throwA e))"
  by (simp_all add: find_row_def invoice_NextInvoiceNumber_def invoice_Create_def invoice_CreateLineItem_def invoice_update_def
      bloan_Create_def book_actions split: option.splits)

lemma batches_guarded:
  fixes handler :: "Business \<Rightarrow> ('l, 'a) go"
  assumes "\<And>biz. keepsA batches_inv (handler biz)"
  shows "keepsA batches_inv (guarded E ttl perm u b handler)"
proof (rule keepsAI)
  fix w :: "'l world" assume inv: "batches_inv w"
  obtain r w' where g: "guarded E ttl perm u b handler w = (r, w')" by fastforce
  then have "batches_inv w'"
  proof (rule guarded_cases)
    fix biz w1 assume "books w1 = books w" and h: "handler biz w1 = (r, w')"
    then have "batches_inv w1" using inv by (simp add: books_def batches_inv_def)
    then show ?thesis by (rule keepsA_run [OF assms _ h])
  qed (use inv in \<open>simp add: books_def batches_inv_def\<close>)
  then show "batches_inv (snd (guarded E ttl perm u b handler w))" using g by simp
qed

lemma Batch_Approve_keeps: "keepsA batches_inv (Batch_Approve E u i biz)"
  by (rule keepsAI) (auto simp: Batch_Approve_def batch_ApproveBatch_def book_actions batches_inv_def batch_draft_def intro!: batches_ok_update)

lemma Batch_Process_keeps: "keepsA batches_inv (Batch_Process E i biz)"
proof (rule keepsAI)
  fix w :: "'l world" assume inv: "batches_inv w"
  then have ids: "distinct (map ba_ID (w_batches w))" and ok: "list_all (batch_ok (w_batch_items w)) (w_batches w)"
    by (simp_all add: batches_inv_def batches_ok_def)
  obtain r w1 where g: "batch_GetBatch E i w = (r, w1)" by fastforce
  have w1: "books w1 = books w" using g by (intro stable_books readerD [OF reader_books]) (simp add: batch_GetBatch_def)
  show "batches_inv (snd (Batch_Process E i biz w))"
  proof (cases "\<exists>b. r = Inr b \<and> ba_Status b = BatchApproved")
    case True
    then obtain b where b: "r = Inr b" "ba_Status b = BatchApproved" by blast
    then have row: "b \<in> set (w_batches w)" "ba_ID b = i"
      using g by (auto simp: batch_GetBatch_def find_row_def runs dbA_run dest!: select_one_Some)
    have only: "c = b" if "c \<in> set (w_batches w)" "ba_ID c = i" for c
      using ids that row by (metis distinct_map inj_onD)
    have "ba_ApprovedBy b \<noteq> None" using ok row(1) b(2) by (auto simp: list_all_iff batch_ok_def)
    then have "batches_ok (update_where (\<lambda>b. ba_ID b = i) (\<lambda>b. b\<lparr>ba_Status := BatchProcessing\<rparr>) (w_batches w)) (w_batch_items w)"
      using inv only by (intro batches_ok_update) (auto simp: batches_inv_def)
    then show ?thesis
      using g b inv w1 by (auto simp: Batch_Process_def batch_UpdateBatchStatus_def batch_update_def book_actions batches_inv_def books_def)
  next
    case False
    then show ?thesis
      using g inv w1 by (cases r) (auto simp: Batch_Process_def bindA_def throwA_def batches_inv_def books_def)
  qed
qed

lemma batches_routes:
  "keepsA batches_inv (route_Batch_Create E ttl u b br)" "keepsA batches_inv (route_Batch_Approve E ttl u b i)"
  "keepsA batches_inv (route_Batch_Process E ttl u b i)" "keepsA batches_inv (route_Invoice_Create E ttl u b vr)"
  "keepsA batches_inv (route_Invoice_Update E ttl u b i vr)" "keepsA batches_inv (route_Invoice_Send E ttl u b i)"
  "keepsA batches_inv (route_Invoice_Cancel E ttl u b i)" "keepsA batches_inv (route_Invoice_RecordPayment E ttl u b i n)"
  "keepsA batches_inv (route_BusinessLoan_Apply E ttl u b n days p c)"
proof -
  show "keepsA batches_inv (route_Batch_Create E ttl u b br)" "keepsA batches_inv (route_Batch_Approve E ttl u b i)"
    "keepsA batches_inv (route_Batch_Process E ttl u b i)"
    unfolding route_Batch_Create_def route_Batch_Approve_def route_Batch_Process_def
    by (rule batches_guarded, rule Batch_Create_keeps Batch_Approve_keeps Batch_Process_keeps)+
  show "keepsA batches_inv (route_Invoice_Create E ttl u b vr)"
    "keepsA batches_inv (route_Invoice_Update E ttl u b i vr)" "keepsA batches_inv (route_Invoice_Send E ttl u b i)"
    "keepsA batches_inv (route_Invoice_Cancel E ttl u b i)" "keepsA batches_inv (route_Invoice_RecordPayment E ttl u b i n)"
    "keepsA batches_inv (route_BusinessLoan_Apply E ttl u b n days p c)"
    unfolding route_Invoice_Create_def route_Invoice_Update_def route_Invoice_Send_def route_Invoice_Cancel_def
      route_Invoice_RecordPayment_def route_BusinessLoan_Apply_def Invoice_Create_def Invoice_Update_def invoice_Update_def
      Invoice_Send_def Invoice_Cancel_def invoice_UpdateStatus_def Invoice_RecordPayment_def invoice_GetByID_def
      invoice_UpdatePaidCents_def BusinessLoan_Apply_def bprofile_Get_def Let_def
    by (rule batches_guarded, rule batches_leaves, (rule leaves leaves_batches)+)+
qed

text \<open>C18: whatever is done with the books, a batch payment is a draft, or approved by someone, or on its way after an approval; its
  items are positive and at most as many as it says, and when all are there they add up to its total (in 64 bits).\<close>

theorem batches_add_up:
  assumes "(book_step E)\<^sup>*\<^sup>* w\<^sub>0 w" "w_batches w\<^sub>0 = []" "w_batch_items w\<^sub>0 = []" "b \<in> set (w_batches w)"
  shows "let items = filter (\<lambda>x. bx_BatchID x = ba_ID b) (w_batch_items w) in
    ba_Status b \<in> {BatchDraft, BatchApproved, BatchProcessing} \<and> (ba_Status b = BatchDraft \<longleftrightarrow> ba_ApprovedBy b = None)
    \<and> int (length items) \<le> ba_ItemCount b \<and> list_all (\<lambda>x. 0 < bx_AmountCents x) items
    \<and> (int (length items) = ba_ItemCount b \<longrightarrow> ba_TotalCents b = i64 (\<Sum>x \<leftarrow> items. bx_AmountCents x))"
proof -
  have "batches_inv w"
    using assms(1)
  proof (induction rule: rtranclp_induct)
    case base
    show ?case using assms by (simp add: batches_inv_def batches_ok_def)
  next
    case (step v v')
    from step.hyps(2) step.IH show ?case
      by cases (erule (1) keepsA_run [OF batches_routes(1)] keepsA_run [OF batches_routes(2)] keepsA_run [OF batches_routes(3)]
        | rule keepsA_run [OF batches_routes(4)] keepsA_run [OF batches_routes(5)] keepsA_run [OF batches_routes(6)]
            keepsA_run [OF batches_routes(7)] keepsA_run [OF batches_routes(8)] keepsA_run [OF batches_routes(9)], assumption, assumption
        | simp add: books_def batches_inv_def)+
  qed
  then have "batch_ok (w_batch_items w) b" using assms(4) by (simp add: batches_inv_def batches_ok_def list_all_iff)
  then show ?thesis unfolding batch_ok_def batch_rows_def Let_def .
qed

text \<open>Alice's shop pays two people.\<close>

definition payroll :: BatchRequest where
  "payroll = \<lparr>xr_Name = ''salaries'', xr_CurrencyCode = '''', xr_Items = map (\<lambda>n. \<lparr>xq_RecipientName = ''Bob'', xq_RecipientPhone = None,
     xq_RecipientBank = None, xq_RecipientAccount = None, xq_AmountCents = n, xq_Narration = None, xq_CategoryID = None\<rparr>) [100, 250]\<rparr>"

theorem batches_add_up_witness:
  "let w = snd (route_Batch_Approve ok_env 300 ''ua'' ''z1'' ''b0'' (snd (route_Batch_Create ok_env 300 ''ua'' ''z1'' payroll books_world)))
   in map ba_Status (w_batches w) = [BatchApproved] \<and> map ba_TotalCents (w_batches w) = [350]
     \<and> (\<forall>b \<in> set (w_batches w). int (length (filter (\<lambda>x. bx_BatchID x = ba_ID b) (w_batch_items w))) \<le> ba_ItemCount b)"
proof -
  define w\<^sub>1 where "w\<^sub>1 = snd (route_Batch_Create ok_env 300 ''ua'' ''z1'' payroll books_world)"
  define w\<^sub>2 where "w\<^sub>2 = snd (route_Batch_Approve ok_env 300 ''ua'' ''z1'' ''b0'' w\<^sub>1)"
  have run: "map (\<lambda>b. (ba_Status b, ba_TotalCents b)) (w_batches w\<^sub>2) = [(BatchApproved, 350)]"
    unfolding w\<^sub>2_def w\<^sub>1_def by code_simp
  have "book_step ok_env books_world w\<^sub>1" unfolding w\<^sub>1_def by (rule book_step.batch_create) (rule surjective_pairing)
  moreover have "book_step ok_env w\<^sub>1 w\<^sub>2" unfolding w\<^sub>2_def by (rule book_step.batch_approve) (rule surjective_pairing)
  ultimately have "(book_step ok_env)\<^sup>*\<^sup>* books_world w\<^sub>2" by (meson converse_rtranclp_into_rtranclp r_into_rtranclp)
  moreover have "w_batches books_world = []" "w_batch_items books_world = []"
    by (simp_all add: books_world_def shop_world_def empty_world_def)
  ultimately have "int (length (filter (\<lambda>x. bx_BatchID x = ba_ID b) (w_batch_items w\<^sub>2))) \<le> ba_ItemCount b" if "b \<in> set (w_batches w\<^sub>2)" for b
    using batches_add_up [OF _ _ _ that] unfolding Let_def by blast
  moreover have "map ba_Status (w_batches w\<^sub>2) = [BatchApproved]" "map ba_TotalCents (w_batches w\<^sub>2) = [350]" using run by auto
  ultimately show ?thesis unfolding Let_def w\<^sub>2_def w\<^sub>1_def by blast
qed

section \<open>Borrowing\<close>

lemma business_interest_floor:
  assumes "0 \<le> p" "p \<le> 10 ^ 14"
  shows "business_interest p = p * 2 div 25"
proof -
  have "fl (8 / 100) = 5764607523034235 / 72057594037927936" by code_simp
  then have r: "of_int 2 / of_int 25 \<le> fl (8 / 100)" "fl (8 / 100) \<le> of_int 2 / of_int 25 + 1 / 10 ^ 17" by simp_all
  show ?thesis unfolding business_interest_def using percent_floor [OF assms _ _ _ _ r] by simp
qed

lemma business_interest_code [code]:
  "business_interest p = (if 0 \<le> p \<and> p \<le> 10 ^ 14 then p * 2 div 25 else trunc64 (f_mul (f_of_int p) (fl (8 / 100))))"
  by (cases "0 \<le> p \<and> p \<le> 10 ^ 14") (simp add: business_interest_floor, simp only: business_interest_def if_False)

lemma bloan_Create_books:
  assumes "bloan_Create E l w = (Inr r, w')"
  shows "0 < bl_PrincipalAmountCents l" "0 < bl_DurationDays l"
    "w_bloans w' = w_bloans w @ [l\<lparr>bl_ID := e_uuid E (w_uuidn w), bl_TotalPaidCents := 0, bl_DisbursedAt := w_now w,
       bl_Status := LoanActive, bl_DaysPastDue := 0, bl_LedgerDisbursementTx := None, bl_ApprovedBy := None, bl_CreatedAt := w_now w\<rparr>]"
    "w_bprofiles w' = w_bprofiles w" "w_ledger w' = w_ledger w"
  using assms by (auto simp: bloan_Create_def book_actions split: if_splits)

text \<open>C22: a business gets a loan only through a member who may apply for it, within what its profile leaves it; it is booked
  as active at once, unapproved, with eight percent of interest rounded down. The profile stays as it was and no money moves.\<close>

theorem business_loan_booked:
  assumes "route_BusinessLoan_Apply E ttl u bizID n days purpose collateral w = (Inr loan, w')" "n \<le> 10 ^ 14"
  shows "may w u bizID ''biz:loans:apply'' \<and> (\<exists>cp \<in> set (w_bprofiles w). bc_BusinessID cp = bizID \<and> 600 < bc_TrustScore cp
      \<and> \<not> bc_IsNBEBlacklisted cp \<and> n \<le> business_AvailableBorrowingCents cp)
    \<and> 0 < n \<and> 0 < days
    \<and> (\<exists>l. w_bloans w' = w_bloans w @ [l] \<and> bl_BusinessID l = bizID \<and> bl_PrincipalAmountCents l = n \<and> bl_InterestFeeCents l = n * 2 div 25
        \<and> bl_TotalDueCents l = n + n * 2 div 25 \<and> bl_DueDate l = add_days (w_now w) days \<and> bl_Status l = LoanActive
        \<and> bl_AppliedBy l = u \<and> bl_ApprovedBy l = None)
    \<and> w_bprofiles w' = w_bprofiles w \<and> w_ledger w' = w_ledger w"
proof -
  obtain biz w1 where b: "bz_ID biz = bizID" "may w u bizID ''biz:loans:apply''" and st: "stable w1 = stable w"
    and h: "BusinessLoan_Apply E u n days purpose collateral biz w1 = (Inr loan, w')"
    using assms(1) unfolding route_BusinessLoan_Apply_def by (rule guarded_run)
  have same: "w_bprofiles w1 = w_bprofiles w" "w_bloans w1 = w_bloans w" "w_now w1 = w_now w" "w_ledger w1 = w_ledger w"
    using arg_cong [OF st, of w_bprofiles] arg_cong [OF st, of w_bloans] stable_fields [OF st] arg_cong [OF st, of w_now]
    by (simp_all add: stable_def)
  obtain cp where cp: "cp \<in> set (w_bprofiles w1)" "bc_BusinessID cp = bizID" "business_IsEligibleForLoan cp"
      "n \<le> business_AvailableBorrowingCents cp"
    and c: "bloan_Create E (new_bloan bizID u n days purpose collateral (w_now w1)) (w1\<lparr>w_dbn := Suc (w_dbn w1)\<rparr>) = (Inr loan, w')"
    using h b by (auto simp: BusinessLoan_Apply_def bprofile_Get_def find_row_def runs dbA_run nowA_def split: if_splits dest!: select_one_Some)
  note created = bloan_Create_books [OF c]
  have pos: "0 < n" "0 < days" using created(1,2) by (simp_all add: new_bloan_def)
  have int: "business_interest n = n * 2 div 25" using pos assms(2) by (intro business_interest_floor) simp_all
  have "0 \<le> n * 2 div 25" using pos by (simp add: pos_imp_zdiv_nonneg_iff)
  moreover have "n * 2 div 25 \<le> n * 25 div 25" using pos by (intro zdiv_mono1) simp_all
  ultimately have "in_i64 (n + n * 2 div 25)" using pos(1) assms(2) by (simp add: in_i64_def)
  then have total: "i64 (n + n * 2 div 25) = n + n * 2 div 25" by (rule i64_id)
  obtain l where l: "w_bloans w' = w_bloans w @ [l]" and fields: "bl_BusinessID l = bizID" "bl_PrincipalAmountCents l = n"
      "bl_InterestFeeCents l = n * 2 div 25" "bl_TotalDueCents l = n + n * 2 div 25" "bl_DueDate l = add_days (w_now w) days"
      "bl_Status l = LoanActive" "bl_AppliedBy l = u" "bl_ApprovedBy l = None"
    using created(3) int total same by (auto simp: new_bloan_def Let_def)
  have profile: "cp \<in> set (w_bprofiles w)" "600 < bc_TrustScore cp" "\<not> bc_IsNBEBlacklisted cp"
    using cp same by (simp_all add: business_IsEligibleForLoan_def)
  have kept: "w_bprofiles w' = w_bprofiles w" "w_ledger w' = w_ledger w" using created(4,5) same by simp_all
  show ?thesis using b(2) cp(2,4) pos l fields profile kept by blast
qed

definition shop_profile :: BusinessCreditProfile where
  "shop_profile = \<lparr>bc_BusinessID = ''z1'', bc_TrustScore = 700, bc_ApprovedLimitCents = 100000, bc_AvgMonthlyRevenueCents = 0,
     bc_AvgMonthlyExpensesCents = 0, bc_CashFlowScore = 0, bc_TimeInBusinessMonths = 12, bc_IndustryRiskScore = 50,
     bc_TotalLoansRepaid = 0, bc_LatePaymentsCount = 0, bc_CurrentOutstandingCents = 0, bc_CollateralValueCents = 0,
     bc_IsNBEBlacklisted = False, bc_LastCalculatedAt = 0\<rparr>"

text \<open>The whole limit, twice.\<close>

theorem business_loan_booked_witness:
  "let w\<^sub>1 = snd (route_BusinessLoan_Apply ok_env 300 ''ua'' ''z1'' 100000 90 '''' '''' (books_world\<lparr>w_bprofiles := [shop_profile]\<rparr>));
       w\<^sub>2 = snd (route_BusinessLoan_Apply ok_env 300 ''ua'' ''z1'' 100000 90 '''' '''' w\<^sub>1)
   in map bl_TotalDueCents (w_bloans w\<^sub>2) = [108000, 108000] \<and> w_bprofiles w\<^sub>2 = w_bprofiles w\<^sub>1"
proof -
  let ?w\<^sub>0 = "books_world\<lparr>w_bprofiles := [shop_profile]\<rparr>"
  let ?apply = "route_BusinessLoan_Apply ok_env 300 ''ua'' ''z1'' 100000 90 '''' ''''"
  define w\<^sub>1 where "w\<^sub>1 = snd (?apply ?w\<^sub>0)"
  define w\<^sub>2 where "w\<^sub>2 = snd (?apply w\<^sub>1)"
  have run: "r = (Inr (projr (fst r)), snd r)" if "\<not> isl (fst r)" for r :: "(go_error + BusinessLoan) \<times> unit world"
    using that by (cases r; cases "fst r") simp_all
  have twice: "\<not> isl (fst (?apply ?w\<^sub>0)) \<and> \<not> isl (fst (?apply w\<^sub>1))" unfolding w\<^sub>1_def by code_simp
  from run [OF conjunct1 [OF twice]] have "?apply ?w\<^sub>0 = (Inr (projr (fst (?apply ?w\<^sub>0))), w\<^sub>1)" unfolding w\<^sub>1_def .
  from business_loan_booked [OF this] have first: "map bl_TotalDueCents (w_bloans w\<^sub>1) = [108000]"
    by (auto simp: books_world_def shop_world_def empty_world_def)
  from run [OF conjunct2 [OF twice]] have "?apply w\<^sub>1 = (Inr (projr (fst (?apply w\<^sub>1))), w\<^sub>2)" unfolding w\<^sub>2_def .
  from business_loan_booked [OF this] first
  have "map bl_TotalDueCents (w_bloans w\<^sub>2) = [108000, 108000] \<and> w_bprofiles w\<^sub>2 = w_bprofiles w\<^sub>1" by auto
  then show ?thesis unfolding Let_def w\<^sub>2_def w\<^sub>1_def .
qed

end
