(* ===== verification/Personal.thy ===== *)
theory Personal
  imports Business_Books Card_Auth Savings_Pots
begin

text \<open>
  The handlers of \<open>internal/transport/http/handlers/personal\<close> that work on the tables themselves: cards and their switches,
  the order in which currencies are spent, labels of transactions and the lookup of a recipient. The last four digits of a
  new card come from \<open>math/rand\<close>, a stream that is read at the position of the random identifiers.
\<close>

section \<open>Cards\<close>

text \<open>The token is unique, the month is one, the year is not before 2024 and the holder is a user.\<close>

definition card_Create :: "env \<Rightarrow> Card \<Rightarrow> ('l, Card) go" where
  "card_Create E c = dbA E (bindA (newID E) (\<lambda>i. bindA (getsA id) (\<lambda>w.
     if list_ex (\<lambda>x. cd_ID x = i \<or> cd_TokenizedPAN x = cd_TokenizedPAN c) (w_cards w) \<or> \<not> has_user w (cd_UserID c)
        \<or> \<not> (1 \<le> cd_ExpiryMonth c \<and> cd_ExpiryMonth c \<le> 12) \<or> cd_ExpiryYear c < 2024
     then throwA db_error
     else bindA (modifyA (\<lambda>w. w\<lparr>w_cards := w_cards w @ [c\<lparr>cd_ID := i\<rparr>]\<rparr>)) (\<lambda>_. retA (c\<lparr>cd_ID := i\<rparr>)))))"

text \<open>The newest first; rows are appended as they are created.\<close>

definition card_ListByUserID :: "env \<Rightarrow> string \<Rightarrow> ('l, Card list) go" where
  "card_ListByUserID E uid = dbA E (getsA (\<lambda>w. rev (filter (\<lambda>c. cd_UserID c = uid) (w_cards w))))"

fun card_type_name :: "CardType \<Rightarrow> string" where
  "card_type_name CardTypePhysical = ''physical''"
| "card_type_name CardTypeVirtual = ''virtual''"
| "card_type_name CardTypeEphemeral = ''ephemeral''"

definition card_type_of :: "string \<Rightarrow> CardType option" where
  "card_type_of s = (if s = '''' then Some CardTypeVirtual
     else find (\<lambda>t. card_type_name t = s) [CardTypePhysical, CardTypeVirtual, CardTypeEphemeral])"

fun card_status_name :: "CardStatus \<Rightarrow> string" where
  "card_status_name CardStatusActive = ''active''"
| "card_status_name CardStatusFrozen = ''frozen''"
| "card_status_name CardStatusCancelled = ''cancelled''"
| "card_status_name CardStatusExpired = ''expired''"
| "card_status_name CardStatusPendingActivation = ''pending_activation''"

definition card_status_of :: "string \<Rightarrow> CardStatus option" where
  "card_status_of s = find (\<lambda>t. card_status_name t = s)
     [CardStatusActive, CardStatusFrozen, CardStatusCancelled, CardStatusExpired, CardStatusPendingActivation]"

record CardRequest =
  dq_Type :: string
  dq_DailyLimitCents :: int
  dq_MonthlyLimitCents :: int
  dq_PerTxnLimitCents :: int
  dq_AllowOnline :: bool
  dq_AllowContactless :: bool
  dq_AllowATM :: bool
  dq_AllowInternational :: bool

definition or_default :: "int \<Rightarrow> int \<Rightarrow> int" where
  "or_default n d = (if n = 0 then d else n)"

definition new_card :: "string \<Rightarrow> CardRequest \<Rightarrow> CardType \<Rightarrow> string \<Rightarrow> int \<Rightarrow> Card" where
  "new_card userID req ty lastFour now =
     (let k = month_index (day_of now) + 2 in
      \<lparr>cd_ID = '''', cd_UserID = userID, cd_TokenizedPAN = ''tok_'' @ card_type_name ty @ ''_'' @ lastFour @ ''_'' @ itoa now,
       cd_LastFour = lastFour, cd_ExpiryMonth = k mod 12 + 1, cd_ExpiryYear = k div 12 + 3, cd_Type = ty, cd_Status = CardStatusActive,
       cd_AllowOnline = dq_AllowOnline req, cd_AllowContactless = dq_AllowContactless req, cd_AllowATM = dq_AllowATM req,
       cd_AllowInternational = dq_AllowInternational req, cd_DailyLimitCents = or_default (dq_DailyLimitCents req) 500000,
       cd_MonthlyLimitCents = or_default (dq_MonthlyLimitCents req) 5000000,
       cd_PerTxnLimitCents = or_default (dq_PerTxnLimitCents req) 200000\<rparr>)"

definition randInt :: "(nat \<Rightarrow> nat) \<Rightarrow> nat \<Rightarrow> ('l, nat) go" where
  "randInt rnd n w = (Inr (rnd (w_uuidn w) mod n), w\<lparr>w_uuidn := Suc (w_uuidn w)\<rparr>)"

definition CreateCard :: "env \<Rightarrow> (nat \<Rightarrow> nat) \<Rightarrow> string \<Rightarrow> CardRequest \<Rightarrow> ('l, Card) go" where
  "CreateCard E rnd userID req =
     (case card_type_of (dq_Type req) of
        None \<Rightarrow> throwA (Opaque ''type must be virtual, physical, or ephemeral'')
      | Some ty \<Rightarrow>
          bindA nowA (\<lambda>now. bindA (randInt rnd 10000) (\<lambda>n.
          card_Create E (new_card userID req ty (pad0 4 n) now))))"

definition ListCards :: "env \<Rightarrow> string \<Rightarrow> ('l, Card list) go" where
  "ListCards E userID = card_ListByUserID E userID"

definition GetCard :: "env \<Rightarrow> string \<Rightarrow> string \<Rightarrow> ('l, Card) go" where
  "GetCard E userID cardID =
     bindA (card_GetByID E cardID) (\<lambda>card.
     if cd_UserID card \<noteq> userID then throwA (Opaque ''card does not belong to you'') else retA card)"

text \<open>A status the enumeration does not have makes the update fail.\<close>

definition Card_UpdateStatus :: "env \<Rightarrow> string \<Rightarrow> string \<Rightarrow> string \<Rightarrow> ('l, unit) go" where
  "Card_UpdateStatus E userID cardID status =
     bindA (card_GetByID E cardID) (\<lambda>card.
     if cd_UserID card \<noteq> userID then throwA (Opaque ''card does not belong to you'')
     else case card_status_of status of
       None \<Rightarrow> dbA E (throwA db_error)
     | Some s \<Rightarrow> card_UpdateStatus E cardID s)"

definition Card_UpdateLimits :: "env \<Rightarrow> string \<Rightarrow> string \<Rightarrow> int \<Rightarrow> int \<Rightarrow> int \<Rightarrow> ('l, unit) go" where
  "Card_UpdateLimits E userID cardID daily monthly perTxn =
     bindA (card_GetByID E cardID) (\<lambda>card.
     if cd_UserID card \<noteq> userID then throwA (Opaque ''card does not belong to you'')
     else card_UpdateLimits E cardID daily monthly perTxn)"

definition Card_UpdateToggles :: "env \<Rightarrow> string \<Rightarrow> string \<Rightarrow> bool \<Rightarrow> bool \<Rightarrow> bool \<Rightarrow> bool \<Rightarrow> ('l, unit) go" where
  "Card_UpdateToggles E userID cardID online contactless atm international =
     bindA (card_GetByID E cardID) (\<lambda>card.
     if cd_UserID card \<noteq> userID then throwA (Opaque ''card does not belong to you'')
     else card_UpdateToggles E cardID online contactless atm international)"

section \<open>The order of spending\<close>

definition Waterfall_Get :: "env \<Rightarrow> string \<Rightarrow> ('l, string list \<times> bool) go" where
  "Waterfall_Get E userID =
     bindA (user_GetByID E userID) (\<lambda>user.
     let isDefault = (u_SpendWaterfallOrder user = []) in
     retA (if isDefault then DefaultSpendWaterfall else u_SpendWaterfallOrder user, isDefault))"

definition waterfall_entry_ok :: "string \<Rightarrow> bool" where
  "waterfall_entry_ok e \<longleftrightarrow> e = ''merchant_currency'' \<or> (case LookupCurrency e of Inl _ \<Rightarrow> False | Inr _ \<Rightarrow> True)"

text \<open>The active balances are read and not used.\<close>

definition Waterfall_Update :: "env \<Rightarrow> string \<Rightarrow> string list \<Rightarrow> ('l, unit) go" where
  "Waterfall_Update E userID waterfall =
     (if waterfall = [] then throwA (Opaque ''waterfall must not be empty'')
      else if last waterfall \<noteq> CurrencyETB then throwA (Opaque ''ETB must be the last entry in the waterfall'')
      else bindA (tryA (balance_ListActiveByUser E userID)) (\<lambda>_.
        if \<not> list_all waterfall_entry_ok waterfall then throwA (General ErrInvalidInput)
        else user_UpdateSpendWaterfall E userID waterfall))"

section \<open>Labels and recipients\<close>

definition LabelTransaction :: "env \<Rightarrow> string \<Rightarrow> string \<Rightarrow> string option \<Rightarrow> string option \<Rightarrow> string option \<Rightarrow> bool
    \<Rightarrow> ('l, TransactionLabel) go" where
  "LabelTransaction E userID txID categoryID customLabel notes tax = label_Create E \<lparr>lb_ID = '''', lb_TransactionID = txID,
     lb_CategoryID = categoryID, lb_CustomLabel = customLabel, lb_Notes = notes, lb_TaggedBy = userID, lb_TaxDeductible = tax,
     lb_CreatedAt = 0\<rparr>"

definition UpdateLabel :: "env \<Rightarrow> string \<Rightarrow> string option \<Rightarrow> string option \<Rightarrow> string option \<Rightarrow> bool \<Rightarrow> ('l, unit) go" where
  "UpdateLabel E txID categoryID customLabel notes tax = label_Update E \<lparr>lb_ID = '''', lb_TransactionID = txID,
     lb_CategoryID = categoryID, lb_CustomLabel = customLabel, lb_Notes = notes, lb_TaggedBy = '''', lb_TaxDeductible = tax,
     lb_CreatedAt = 0\<rparr>"

definition DeleteLabel :: "env \<Rightarrow> string \<Rightarrow> ('l, unit) go" where
  "DeleteLabel E txID = label_Delete E txID"

definition resolveUserByIdentifier :: "env \<Rightarrow> string \<Rightarrow> ('l, User) go" where
  "resolveUserByIdentifier E identifier =
     (case phone_Parse (e_phone E) identifier of
        Inl _ \<Rightarrow> user_GetByUsername E identifier
      | Inr p \<Rightarrow> bindA (tryA (user_GetByPhone E p)) (\<lambda>r. case r of
          Inr user \<Rightarrow> retA user
        | Inl _ \<Rightarrow> user_GetByUsername E identifier))"

definition Resolve :: "env \<Rightarrow> string \<Rightarrow> ('l, User) go" where
  "Resolve E query =
     (let identifier = TrimSpace query in
      if identifier = [] then throwA (Opaque ''identifier query parameter is required'')
      else resolveUserByIdentifier E identifier)"

text \<open>Evaluation unfolds an action only when it runs.\<close>

lemmas personal_code [code] =
  card_Create_def [THEN fun_cong]
  card_ListByUserID_def [THEN fun_cong]
  CreateCard_def [THEN fun_cong]
  GetCard_def [THEN fun_cong]
  Card_UpdateStatus_def [THEN fun_cong]
  Card_UpdateLimits_def [THEN fun_cong]
  Card_UpdateToggles_def [THEN fun_cong]
  Waterfall_Get_def [THEN fun_cong]
  Waterfall_Update_def [THEN fun_cong]
  LabelTransaction_def [THEN fun_cong]
  UpdateLabel_def [THEN fun_cong]
  DeleteLabel_def [THEN fun_cong]
  resolveUserByIdentifier_def [THEN fun_cong]
  Resolve_def [THEN fun_cong]

section \<open>A customer's own cards\<close>

text \<open>A request for the card of someone else changes no card.\<close>

lemma foreign_card:
  assumes "\<forall>c \<in> set (w_cards w). cd_ID c = cardID \<longrightarrow> cd_UserID c \<noteq> userID"
  shows "w_cards (snd (Card_UpdateStatus E userID cardID s w)) = w_cards w"
    "w_cards (snd (Card_UpdateLimits E userID cardID d m p w)) = w_cards w"
    "w_cards (snd (Card_UpdateToggles E userID cardID b1 b2 b3 b4 w)) = w_cards w"
proof -
  obtain r w1 where g: "card_GetByID E cardID w = (r, w1)" by fastforce
  have w1: "w_cards w1 = w_cards w" "\<And>c. r = Inr c \<Longrightarrow> cd_UserID c \<noteq> userID"
    using g assms by (auto simp: card_GetByID_def card_query_def book_actions split: if_splits option.splits dest!: select_one_Some)
  show "w_cards (snd (Card_UpdateStatus E userID cardID s w)) = w_cards w"
    "w_cards (snd (Card_UpdateLimits E userID cardID d m p w)) = w_cards w"
    "w_cards (snd (Card_UpdateToggles E userID cardID b1 b2 b3 b4 w)) = w_cards w"
    using g w1 by (cases r; simp add: Card_UpdateStatus_def Card_UpdateLimits_def Card_UpdateToggles_def bindA_def throwA_def)+
qed

text \<open>The stored order ends with ETB and names only currencies the registry knows, or that of the merchant.\<close>

lemma user_UpdateSpendWaterfall_rows:
  assumes "user_UpdateSpendWaterfall E userID order w = (Inr (), w')"
  shows "userID \<in> u_ID ` set (w_users w')" "\<forall>u \<in> set (w_users w'). u_ID u = userID \<longrightarrow> u_SpendWaterfallOrder u = order"
proof -
  have users: "w_users w' = update_where (\<lambda>u. u_ID u = userID) (\<lambda>u. u\<lparr>u_SpendWaterfallOrder := order, u_UpdatedAt := w_now w\<rparr>) (w_users w)"
    and found: "userID \<in> u_ID ` set (w_users w)"
    using assms by (auto simp: user_UpdateSpendWaterfall_def user_update_def book_actions rows_affected_def filter_empty_conv
        split: if_splits)
  have "map u_ID (w_users w') = map u_ID (w_users w)" unfolding users update_where_def by simp
  from arg_cong [OF this, of set] found show "userID \<in> u_ID ` set (w_users w')" by simp
  show "\<forall>u \<in> set (w_users w'). u_ID u = userID \<longrightarrow> u_SpendWaterfallOrder u = order"
    unfolding users update_where_def set_map by (intro ballI impI) (elim imageE, simp split: if_splits)
qed

lemma Waterfall_Update_ends:
  assumes "Waterfall_Update E userID waterfall w = (Inr (), w')"
  shows "waterfall \<noteq> [] \<and> last waterfall = CurrencyETB \<and> list_all waterfall_entry_ok waterfall
    \<and> userID \<in> u_ID ` set (w_users w') \<and> (\<forall>u \<in> set (w_users w'). u_ID u = userID \<longrightarrow> u_SpendWaterfallOrder u = waterfall)"
proof -
  obtain r w1 where read: "tryA (balance_ListActiveByUser E userID) w = (Inr r, w1)"
    by (cases "balance_ListActiveByUser E userID w") (auto simp: tryA_def)
  have ok: "waterfall \<noteq> []" "last waterfall = CurrencyETB" "list_all waterfall_entry_ok waterfall"
    and "user_UpdateSpendWaterfall E userID waterfall w1 = (Inr (), w')"
    using assms read unfolding Waterfall_Update_def bindA_def throwA_def by (simp_all split: if_splits)
  from user_UpdateSpendWaterfall_rows [OF this(4)] ok show ?thesis by simp
qed

text \<open>The requests of one customer, and anything that leaves the cards alone.\<close>

inductive own_step :: "env \<Rightarrow> (nat \<Rightarrow> nat) \<Rightarrow> string \<Rightarrow> 'l world \<Rightarrow> 'l world \<Rightarrow> bool" for E rnd u where
  own_create: "CreateCard E rnd u req w = (x1, w') \<Longrightarrow> own_step E rnd u w w'"
| own_status: "Card_UpdateStatus E u cardID s w = (x2, w') \<Longrightarrow> own_step E rnd u w w'"
| own_limits: "Card_UpdateLimits E u cardID d m p w = (x3, w') \<Longrightarrow> own_step E rnd u w w'"
| own_toggles: "Card_UpdateToggles E u cardID b1 b2 b3 b4 w = (x4, w') \<Longrightarrow> own_step E rnd u w w'"
| own_elsewhere: "w_cards w' = w_cards w \<Longrightarrow> own_step E rnd u w w'"

definition card_identity :: "Card \<Rightarrow> string \<times> string \<times> string \<times> string \<times> int \<times> int \<times> CardType" where
  "card_identity c = (cd_ID c, cd_UserID c, cd_TokenizedPAN c, cd_LastFour c, cd_ExpiryMonth c, cd_ExpiryYear c, cd_Type c)"

text \<open>What one customer may do to the table: change rows of their own but not what identifies a card, and append rows.\<close>

definition own_change :: "string \<Rightarrow> Card list \<Rightarrow> Card list \<Rightarrow> bool" where
  "own_change u cs cs' \<longleftrightarrow> distinct (map cd_ID cs') \<and>
     (\<exists>f new. cs' = map f cs @ new \<and> (\<forall>c. card_identity (f c) = card_identity c)
        \<and> (\<forall>c \<in> set cs. cd_UserID c \<noteq> u \<longrightarrow> f c = c) \<and> (\<forall>c \<in> set new. cd_UserID c = u))"

lemma own_change_refl:
  assumes "distinct (map cd_ID cs)"
  shows "own_change u cs cs"
  unfolding own_change_def using assms by (intro conjI exI [of _ "\<lambda>c. c"] exI [of _ "[]"]) simp_all

lemma own_change_trans:
  assumes "own_change u cs cs'" "own_change u cs' cs''"
  shows "own_change u cs cs''"
proof -
  obtain f new where f: "cs' = map f cs @ new" "\<And>c. card_identity (f c) = card_identity c"
      "\<And>c. c \<in> set cs \<Longrightarrow> cd_UserID c \<noteq> u \<Longrightarrow> f c = c" "\<And>c. c \<in> set new \<Longrightarrow> cd_UserID c = u"
    using assms(1) unfolding own_change_def by blast
  obtain g more where g: "cs'' = map g cs' @ more" "\<And>c. card_identity (g c) = card_identity c"
      "\<And>c. c \<in> set cs' \<Longrightarrow> cd_UserID c \<noteq> u \<Longrightarrow> g c = c" "\<And>c. c \<in> set more \<Longrightarrow> cd_UserID c = u"
    and d: "distinct (map cd_ID cs'')"
    using assms(2) unfolding own_change_def by blast
  have user: "cd_UserID (f c) = cd_UserID c" "cd_UserID (g c) = cd_UserID c" for c
    using f(2) [of c] g(2) [of c] by (simp_all add: card_identity_def)
  have "cs'' = map (g \<circ> f) cs @ (map g new @ more)" using f(1) g(1) by simp
  moreover have "card_identity ((g \<circ> f) c) = card_identity c" for c using f(2) g(2) by simp
  moreover have "(g \<circ> f) c = c" if "c \<in> set cs" "cd_UserID c \<noteq> u" for c
    using f(1,3) g(3) that user(1) [of c] by force
  moreover have "cd_UserID c = u" if "c \<in> set (map g new @ more)" for c
    using that f(4) g(4) user(2) by auto
  ultimately show ?thesis unfolding own_change_def using d by blast
qed

lemma own_change_append:
  assumes "distinct (map cd_ID cs)" "cd_ID c \<notin> cd_ID ` set cs" "cd_UserID c = u"
  shows "own_change u cs (cs @ [c])"
  unfolding own_change_def using assms by (intro conjI exI [of _ "\<lambda>c. c"] exI [of _ "[c]"]) auto

lemma own_change_update:
  assumes "distinct (map cd_ID cs)" "\<forall>c \<in> set cs. cd_ID c = i \<longrightarrow> cd_UserID c = u" "\<And>c. card_identity (g c) = card_identity c"
  shows "own_change u cs (update_where (\<lambda>c. cd_ID c = i) g cs)"
proof -
  let ?f = "\<lambda>c. if cd_ID c = i then g c else c"
  have ids: "cd_ID (?f c) = cd_ID c" for c using assms(3) [of c] by (simp add: card_identity_def)
  then have "map cd_ID (update_where (\<lambda>c. cd_ID c = i) g cs) = map cd_ID cs" unfolding update_where_def by simp
  then have ids: "distinct (map cd_ID (update_where (\<lambda>c. cd_ID c = i) g cs))" using assms(1) by argo
  have rows: "update_where (\<lambda>c. cd_ID c = i) g cs = map ?f cs @ []" by (simp add: update_where_def)
  have same: "card_identity (?f c) = card_identity c" for c using assms(3) by simp
  have others: "?f c = c" if "c \<in> set cs" "cd_UserID c \<noteq> u" for c using assms(2) that by auto
  show ?thesis unfolding own_change_def
    by (rule conjI [OF ids], rule exI [of _ ?f], rule exI [of _ "[]"]) (use rows same others in simp)
qed

lemma card_update_cards:
  assumes "card_update E i g w = (r, w')"
  shows "w_cards w' = w_cards w \<or> w_cards w' = update_where (\<lambda>c. cd_ID c = i) g (w_cards w)"
  using assms by (auto simp: card_update_def book_actions split: if_splits)

lemma own_guarded_update:
  assumes "bindA (card_GetByID E i) (\<lambda>card. if cd_UserID card \<noteq> u then throwA e else k) w = (r, w')"
    and k: "\<And>w0 r0 w1. k w0 = (r0, w1) \<Longrightarrow> w_cards w1 = w_cards w0 \<or> w_cards w1 = update_where (\<lambda>c. cd_ID c = i) g (w_cards w0)"
    and d: "distinct (map cd_ID (w_cards w))" and g: "\<And>c. card_identity (g c) = card_identity c"
  shows "own_change u (w_cards w) (w_cards w')"
proof -
  obtain q w1 where q: "card_GetByID E i w = (q, w1)" by fastforce
  have w1: "w_cards w1 = w_cards w" and found: "\<And>c. q = Inr c \<Longrightarrow> c \<in> set (w_cards w) \<and> cd_ID c = i"
    using q by (auto simp: card_GetByID_def card_query_def book_actions split: if_splits option.splits dest!: select_one_Some)
  show ?thesis
  proof (cases "\<exists>c. q = Inr c \<and> cd_UserID c = u")
    case False
    then have "w_cards w' = w_cards w" using assms(1) q w1 by (cases q) (auto simp: bindA_def throwA_def)
    then show ?thesis using own_change_refl [OF d] by simp
  next
    case True
    then obtain c where c: "q = Inr c" "cd_UserID c = u" by blast
    then have "k w1 = (r, w')" using assms(1) q by (simp add: bindA_def)
    from k [OF this] have "w_cards w' = w_cards w \<or> w_cards w' = update_where (\<lambda>c. cd_ID c = i) g (w_cards w)" unfolding w1 .
    moreover have "\<forall>x \<in> set (w_cards w). cd_ID x = i \<longrightarrow> cd_UserID x = u"
      using found [OF c(1)] c(2) d unfolding distinct_map inj_on_def by blast
    ultimately show ?thesis using own_change_refl [OF d] own_change_update [OF d _ g] by metis
  qed
qed

lemma card_Create_cards:
  assumes "card_Create E c w = (r, w')" "distinct (map cd_ID (w_cards w))"
  shows "own_change (cd_UserID c) (w_cards w) (w_cards w')"
proof -
  let ?i = "e_uuid E (w_uuidn w)"
  have "w_cards w' = w_cards w \<or> w_cards w' = w_cards w @ [c\<lparr>cd_ID := ?i\<rparr>] \<and> ?i \<notin> cd_ID ` set (w_cards w)"
    using assms(1) by (auto simp: card_Create_def book_actions list_ex_iff split: if_splits)
  then show ?thesis using own_change_refl [OF assms(2)] own_change_append [OF assms(2), of "c\<lparr>cd_ID := ?i\<rparr>" "cd_UserID c"] by auto
qed

lemma own_step_change:
  assumes "own_step E rnd u w w'" "distinct (map cd_ID (w_cards w))"
  shows "own_change u (w_cards w) (w_cards w')"
  using assms(1)
proof cases
  case (own_create req x1)
  have u: "cd_UserID (new_card u req ty l now) = u" for ty l now by (simp add: new_card_def Let_def)
  show ?thesis
  proof (cases "card_type_of (dq_Type req)")
    case None
    then show ?thesis using own_create own_change_refl [OF assms(2)] by (simp add: CreateCard_def throwA_def)
  next
    case (Some ty)
    let ?w1 = "w\<lparr>w_uuidn := Suc (w_uuidn w)\<rparr>" and ?card = "new_card u req ty (pad0 4 (rnd (w_uuidn w) mod 10000)) (w_now w)"
    have "card_Create E ?card ?w1 = (x1, w')"
      using own_create Some by (simp add: CreateCard_def bindA_def nowA_def getsA_def randInt_def)
    from card_Create_cards [OF this] assms(2) u show ?thesis by simp
  qed
next
  case (own_status cardID s x2)
  show ?thesis
    by (rule own_guarded_update [OF own_status [unfolded Card_UpdateStatus_def] _ assms(2), where g = "\<lambda>c. c\<lparr>cd_Status := the (card_status_of s)\<rparr>"])
      (auto simp: card_UpdateStatus_def dbA_def Let_def throwA_def card_identity_def split: option.splits if_splits dest!: card_update_cards)
next
  case (own_limits cardID d m p x3)
  show ?thesis
    by (rule own_guarded_update [OF own_limits [unfolded Card_UpdateLimits_def card_UpdateLimits_def] _ assms(2)], erule card_update_cards)
      (simp add: card_identity_def)
next
  case (own_toggles cardID b1 b2 b3 b4 x4)
  show ?thesis
    by (rule own_guarded_update [OF own_toggles [unfolded Card_UpdateToggles_def card_UpdateToggles_def] _ assms(2)], erule card_update_cards)
      (simp add: card_identity_def)
next
  case own_elsewhere
  then show ?thesis using own_change_refl [OF assms(2)] by simp
qed

text \<open>C19: whatever requests about cards a customer sends, in whatever order and whatever fails, the cards of every other customer stay
  as they are, what identifies a card never changes, every card that is new belongs to the customer, and no identifier appears twice.\<close>

theorem own_cards_only:
  assumes "(own_step E rnd u)\<^sup>*\<^sup>* w w'" "distinct (map cd_ID (w_cards w))"
  shows "filter (\<lambda>c. cd_UserID c \<noteq> u) (w_cards w') = filter (\<lambda>c. cd_UserID c \<noteq> u) (w_cards w)
    \<and> (\<exists>new. map card_identity (w_cards w') = map card_identity (w_cards w) @ map card_identity new \<and> (\<forall>c \<in> set new. cd_UserID c = u))
    \<and> distinct (map cd_ID (w_cards w'))"
proof -
  have "own_change u (w_cards w) (w_cards w')"
    using assms(1)
  proof (induction rule: rtranclp_induct)
    case base
    show ?case by (rule own_change_refl [OF assms(2)])
  next
    case (step w1 w2)
    have "distinct (map cd_ID (w_cards w1))" using step.IH by (simp add: own_change_def)
    from own_change_trans [OF step.IH own_step_change [OF step.hyps(2) this]] show ?case .
  qed
  then obtain f new where d: "distinct (map cd_ID (w_cards w'))" and f: "w_cards w' = map f (w_cards w) @ new"
      "\<And>c. card_identity (f c) = card_identity c" "\<And>c. c \<in> set (w_cards w) \<Longrightarrow> cd_UserID c \<noteq> u \<Longrightarrow> f c = c"
      "\<And>c. c \<in> set new \<Longrightarrow> cd_UserID c = u"
    unfolding own_change_def by blast
  have user: "cd_UserID (f c) = cd_UserID c" for c using f(2) [of c] by (simp add: card_identity_def)
  have "filter (\<lambda>c. cd_UserID c \<noteq> u) (map f cs) = filter (\<lambda>c. cd_UserID c \<noteq> u) cs" if "set cs \<subseteq> set (w_cards w)" for cs
    using that by (induction cs) (auto simp: user f(3))
  moreover have "filter (\<lambda>c. cd_UserID c \<noteq> u) new = []" using f(4) by (simp add: filter_empty_conv)
  ultimately have "filter (\<lambda>c. cd_UserID c \<noteq> u) (w_cards w') = filter (\<lambda>c. cd_UserID c \<noteq> u) (w_cards w)" unfolding f(1) by simp
  moreover have "map card_identity (w_cards w') = map card_identity (w_cards w) @ map card_identity new" unfolding f(1) by (simp add: f(2))
  ultimately show ?thesis using d f(4) by blast
qed

text \<open>A cancelled card of \<open>ua\<close>: \<open>ub\<close> cannot touch it, its holder makes it active again.\<close>

definition wallet_world :: "unit world" where
  "wallet_world = (empty_world () 1000)\<lparr>w_users := [user0, user0\<lparr>u_ID := ''ub''\<rparr>],
     w_cards := [card0\<lparr>cd_ID := ''k1'', cd_UserID := ''ua'', cd_Status := CardStatusCancelled\<rparr>,
                 card0\<lparr>cd_ID := ''k2'', cd_UserID := ''ub''\<rparr>]\<rparr>"

theorem own_cards_only_witness:
  "let w\<^sub>1 = snd (Card_UpdateLimits ok_env ''ub'' ''k2'' 10 20 30 wallet_world);
       w\<^sub>2 = snd (Card_UpdateStatus ok_env ''ub'' ''k1'' ''active'' w\<^sub>1);
       w\<^sub>3 = snd (Card_UpdateStatus ok_env ''ua'' ''k1'' ''active'' w\<^sub>1)
   in map cd_DailyLimitCents (filter (\<lambda>c. cd_UserID c = ''ub'') (w_cards w\<^sub>2)) = [10]
     \<and> filter (\<lambda>c. cd_UserID c \<noteq> ''ub'') (w_cards w\<^sub>2) = filter (\<lambda>c. cd_UserID c \<noteq> ''ub'') (w_cards wallet_world)
     \<and> map cd_Status (filter (\<lambda>c. cd_UserID c = ''ua'') (w_cards w\<^sub>3)) = [CardStatusActive]"
proof -
  define w\<^sub>1 where "w\<^sub>1 = snd (Card_UpdateLimits ok_env ''ub'' ''k2'' 10 20 30 wallet_world)"
  define w\<^sub>2 where "w\<^sub>2 = snd (Card_UpdateStatus ok_env ''ub'' ''k1'' ''active'' w\<^sub>1)"
  define w\<^sub>3 where "w\<^sub>3 = snd (Card_UpdateStatus ok_env ''ua'' ''k1'' ''active'' w\<^sub>1)"
  have run: "map cd_DailyLimitCents (filter (\<lambda>c. cd_UserID c = ''ub'') (w_cards w\<^sub>2)) = [10]"
      "map cd_Status (filter (\<lambda>c. cd_UserID c = ''ua'') (w_cards w\<^sub>3)) = [CardStatusActive]"
    unfolding w\<^sub>3_def w\<^sub>2_def w\<^sub>1_def by code_simp+
  have "own_step ok_env id ''ub'' wallet_world w\<^sub>1" unfolding w\<^sub>1_def by (rule own_limits) (rule surjective_pairing)
  moreover have "own_step ok_env id ''ub'' w\<^sub>1 w\<^sub>2" unfolding w\<^sub>2_def by (rule own_status) (rule surjective_pairing)
  ultimately have "(own_step ok_env id ''ub'')\<^sup>*\<^sup>* wallet_world w\<^sub>2" by (meson converse_rtranclp_into_rtranclp r_into_rtranclp)
  moreover have "distinct (map cd_ID (w_cards wallet_world))" by code_simp
  ultimately have "filter (\<lambda>c. cd_UserID c \<noteq> ''ub'') (w_cards w\<^sub>2) = filter (\<lambda>c. cd_UserID c \<noteq> ''ub'') (w_cards wallet_world)"
    using own_cards_only by blast
  then show ?thesis using run unfolding Let_def w\<^sub>3_def w\<^sub>2_def w\<^sub>1_def by blast
qed

end
