(* ===== verification/Spec2Isabelle.thy ===== *)
theory Spec2Isabelle
  imports Prelude Float64 Errors Money Iban Cache Chart Ledger Ledger_Client Phone Domain World Effects Repositories
    Pricing Overdraft Validate Recipient Regulatory Payments Outbound Reads Account_Tables Lending Savings_Pots Conversion Frames
    Payment_Requests Card_Auth Business_Tables Business Sha256 Middleware Accounts Reconciliation Remittance Password Sessions
    Back_Office Business_Books Personal
begin

text \<open>
  Neo is the back end of a digital bank for Ethiopia, written in Go. Customers sign up with a phone number, prove their
  identity with the national identity system, hold wallets in several currencies, pay each other and other banks, save in pots,
  borrow, overdraw, convert currencies and pay by card; businesses act through members with roles; staff freeze customers and
  correct mistakes. This development translates the program's data, services, tables and middleware into HOL definitions and
  proves what makes them correct.

  \<^bold>\<open>The program and its state.\<close> A service (\<open>internal/services\<close>) is a struct with repositories, a ledger client and the other
  services it calls. Money lives in the ledger: an external Formance server, reached through the interface
  \<open>ledger.Client\<close>, which moves amounts between named accounts by Numscript programs. Everything else lives in PostgreSQL tables,
  one repository each (\<open>internal/repository\<close>), and in a cache with expiry. Handlers behind a chain of middleware call the services;
  a few services are also called by scheduled jobs and by the switch of the card network.

  \<^item> \<open>'l world\<close> (World) is the whole state: the ledger client's state \<open>'l\<close>, the clock, the cache, one list of rows per table, and
    the counts of database round trips and of random identifiers drawn so far. \<open>env\<close> is what the outside world decides: the
    identifiers, which round trip fails, the phone library, the validator's tags, when the caller's context is cancelled.
  \<^item> An operation is an \<open>act\<close> (Prelude): a function from the state to an error or a result, and the state after it. \<open>bindA\<close> runs
    one after another and stops at an error, as \<open>if err != nil { return }\<close> does; \<open>ignoreA\<close> is \<open>_ = f()\<close>, \<open>tryA\<close> an error that is looked at.
    An error never undoes what happened before it, except inside one round trip.
  \<^item> \<open>dbA E m\<close> is one round trip: it fails without an effect when \<open>e_db_ok\<close> says so, otherwise it is the SQL statement on
    the lists, with the uniqueness, foreign keys and enumerations of \<open>migrations/*.sql\<close> that the statement can violate. \<open>ledA\<close> is
    one call of the ledger client.
  \<^item> Sequences of operations are step relations (\<open>od_step\<close>, \<open>rp_step\<close>, \<open>pr_step\<close>, \<open>biz_step\<close>, \<open>book_step\<close>, \<open>account_step\<close>, \<open>auth_step\<close>,
    \<open>own_step\<close>):
    any operation of the component with any arguments, successful or not, and the passing of time; invariants are proved over their
    reflexive-transitive closure.

  \<^bold>\<open>Theories and sources.\<close> Definitions have the names of the code; a method of a repository carries a prefix for its table.

  \<^item> Prelude: \<open>int64\<close> arithmetic with its wrap-around, Go division, decimal text, actions and their rules, tables as lists.
    Float64: \<open>float64\<close> as exact rationals rounded to 53 bits, half to even.
  \<^item> Errors: the sentinel errors and \<open>ErrToCode\<close> (\<open>internal/domain/errors.go\<close>, \<open>pkg/httputil\<close>). Money, Iban, Phone, Cache,
    Validate, Password: the packages of those names under \<open>pkg\<close>.
  \<^item> Chart, Ledger, Ledger_Client: \<open>internal/ledger\<close>, the account names, the Numscript templates with the meaning of the statements
    they use, every method of \<open>FormanceClient\<close>, and the contract the services rely on.
  \<^item> Domain, World: \<open>internal/domain\<close>. Repositories, Account_Tables, Business_Tables: \<open>internal/repository\<close>. Reads, Effects, Frames:
    what actions read, post to the ledger and leave alone.
  \<^item> Pricing, Overdraft, Recipient, Regulatory, Payments with Outbound, Lending, Savings_Pots, Conversion, Payment_Requests, Card_Auth,
    Business (with \<open>internal/services/permissions\<close> and the approval handlers), Reconciliation, Remittance: the services of those names.
    Accounts: \<open>internal/services/balances\<close>, \<open>wallet\<close> and \<open>beneficiary\<close>. Sessions: \<open>auth\<close>, \<open>onboarding\<close> and \<open>telegram\<close>. Back_Office:
    \<open>internal/services/admin\<close>.
  \<^item> Business_Books, Personal: the handlers that work on repositories without a service in between. Business_Books: batch payments,
    invoices, categories, labels, tax pots, documents and business loans (\<open>internal/transport/http/handlers/business\<close> and their
    repositories), with the guards of the writing routes. Personal: cards, the order of spending, labels and the lookup of a recipient
    (\<open>internal/transport/http/handlers/personal\<close>).
  \<^item> Middleware: \<open>internal/transport/http/middleware\<close> and the chains that \<open>cmd/api/routes.go\<close> builds of it, on Sha256.
  \<^item> This theory: what spans components, the effect of freezing a customer.

  \<^bold>\<open>Interfaces.\<close> \<open>cache_api\<close> is the interface \<open>Cache\<close> with its laws over a map with expiry; \<open>mem\<close> interprets it on \<open>MemoryCache\<close>.
  \<open>formance_service\<close> is the documented behaviour of the Formance server: a transaction is atomic, an idempotency key commits once, a read
  reports what is recorded. \<open>formance_wallets\<close> extends it with the client's chart and identifiers, and \<open>ledger_client\<close> is what the
  services expect of \<open>ledger.Client\<close>: each operation posts exactly its transfers, or changes nothing and reports an error. A sublocale
  proves that \<open>FormanceClient\<close> over any \<open>formance_service\<close> is a \<open>ledger_client\<close> (\<open>FormanceClient_contract\<close>), and \<open>eng\<close>, \<open>eng_client\<close>
  interpret the locales on a ledger in memory, so the assumptions can be met. The theorems of the services take a
  \<open>ledger_client\<close> as their hypothesis, and their witnesses run the operation on that ledger. \<open>other_table\<close> collects what a part of the
  state must not depend on for a transfer to leave it alone; it is interpreted on the payment requests, the card authorizations and
  the clock.

  \<^bold>\<open>The lemmas.\<close> The collections \<open>runs\<close> and \<open>act_simps\<close> take a successful run apart. \<open>calms\<close>: actions that leave the ledger alone;
  \<open>readers\<close>: actions that only read; \<open>leaves\<close>: actions that leave a part of the state alone; \<open>keeps\<close> and \<open>leads\<close>: actions that preserve
  an invariant, also between a read and the write that depends on it; \<open>posts\<close>: the postings and idempotency keys an action adds to the
  ledger; \<open>oks\<close>: actions that cannot fail in an environment where the database works; \<open>refusals\<close>: checks of a card that decline
  with an error code. Each follows the shape of the action, so a service is one or two applications of the collection.

  \<^item> Money: transfers, conversions, loans, repayments, pots and paid requests move exactly the amounts they report between the wallets
    they name, and a failed peer-to-peer transfer leaves at most an overdraft cover behind; a settled or voided hold is the end of it.
  \<^item> Invariants: overdrafts stay within their limits, payment requests only move forward, saved recipients and currency balances
    stay unique, owners of businesses stay, batch payments add up, invoices are numbered without a gap, a customer's requests about
    cards leave those of others alone, a refresh token works once.
  \<^item> Guards: limits of rules and cards, approval by a second person, staff permissions, login, freezing.
  \<^item> Reference definitions: the rule loop finds a most specific rule, the quote loop a cheapest quote, the floating-point conversion is
    within a cent of the exact one; IBANs, account numbers and password hashes are accepted by their own checks.

  \<^bold>\<open>Numbers, loops and fuel.\<close> Amounts are \<open>int64\<close>: every addition and multiplication of the code is followed by \<open>i64\<close>, and theorems
  state the range they need. Times are nanoseconds, dates day numbers. Floating point is rounded after every operation; values beyond
  the range of \<open>float64\<close> cannot arise from amounts and are not represented. Every loop of the code runs over a list or a small count, so
  all definitions are structurally recursive, and no fuel is used; the retry loop of the outbound transfer makes three attempts.

  \<^bold>\<open>Parameters.\<close> What is not in the repository is an argument: the Formance server, the phone number and validator libraries, the JWT
  library, the key derivation, the two sources of randomness, the identity system Fayda, the Telegram API, the switch EthSwitch, the central
  bank's blacklist, the feeds of exchange rates, the remittance providers, a reader of CSV files. Random identifiers are assumed fresh only
  where a theorem says so.

  \<^bold>\<open>Not modelled.\<close>

  \<^item> Column widths and the encoding of JSON and HTTP: a request is its decoded form, a response its status and value. The remaining
    handlers decode, call one service operation and encode.
  \<^item> The Redis cache and the gateways (EthSwitch, Fayda, Telegram, Wise), which are protocol clients of external systems, with the packing
    of ISO 8583 messages by a third-party library.
  \<^item> Read-only listings, searches and reports over the tables, among them all of \<open>internal/repository/admin_queries.go\<close>.
  \<^item> The list of expiring documents, the upload URL and the balance sheet of a business, a read and two fixed answers.
  \<^item> Configuration, wiring, logging and the start of the binaries.
  \<^item> Interleaving of concurrent requests inside one operation: steps interleave between operations, a database round trip and a ledger
    call are atomic.
\<close>

section \<open>Freezing a customer\<close>

text \<open>\<open>frozen uid w\<close>: in the state \<open>w\<close> every row of the customer \<open>uid\<close> is frozen.\<close>

definition frozen :: "string \<Rightarrow> 'l world \<Rightarrow> bool" where
  "frozen uid w \<longleftrightarrow> (\<forall>u \<in> set (w_users w). u_ID u = uid \<longrightarrow> u_IsFrozen u)"

lemma freeze_run:
  assumes "FreezeCustomer E staffID uid reason w = (Inr (), w')"
  shows "frozen uid w'" "\<exists>u \<in> set (w_users w'). u_ID u = uid"
proof -
  obtain w1 where f: "user_Freeze E uid reason w = (Inr (), w1)" and a: "w' = snd (audit_Log E (admin_audit ''admin_freeze'' staffID ''user'' uid [(''reason'', JS reason)]) w1)"
    using assms by (auto simp: FreezeCustomer_def runs ignoreA_def)
  have users: "w_users w' = w_users w1"
    unfolding a by (simp add: audit_Log_def dbA_def Let_def modifyA_def throwA_def)
  have n: "rows_affected (\<lambda>u. u_ID u = uid) (w_users w) \<noteq> 0"
    and w1: "w_users w1 = update_where (\<lambda>u. u_ID u = uid) (\<lambda>u. u\<lparr>u_IsFrozen := True, u_FrozenReason := Some reason,
      u_FrozenAt := Some (w_now w), u_UpdatedAt := w_now w\<rparr>) (w_users w)"
    using f by (auto simp: user_Freeze_def user_update_def runs dbA_run split: if_splits)
  from n obtain u where "u \<in> set (w_users w)" "u_ID u = uid" by (auto simp: rows_affected_def filter_empty_conv)
  define g where "g = (\<lambda>u :: User. if u_ID u = uid then u\<lparr>u_IsFrozen := True, u_FrozenReason := Some reason,
      u_FrozenAt := Some (w_now w), u_UpdatedAt := w_now w\<rparr> else u)"
  have all: "w_users w' = map g (w_users w)" unfolding users w1 update_where_def g_def ..
  have "g u \<in> set (w_users w')" using \<open>u \<in> set (w_users w)\<close> unfolding all set_map by (rule imageI)
  moreover have "u_ID (g u) = uid" using \<open>u_ID u = uid\<close> by (simp add: g_def)
  ultimately show "\<exists>u \<in> set (w_users w'). u_ID u = uid" by blast
  have "u_ID (g v) = uid \<longrightarrow> u_IsFrozen (g v)" for v by (simp add: g_def)
  then show "frozen uid w'" by (simp add: frozen_def all)
qed

lemma refused:
  assumes "\<And>x w'. m w \<noteq> (Inr x, w')" "calm m"
  shows "\<exists>e w'. bindA m k w = (Inl e, w') \<and> w_ledger w' = w_ledger w"
proof -
  obtain r w' where m: "m w = (r, w')" by fastforce
  with assms(1) obtain e where "r = Inl e" by (cases r) auto
  then show ?thesis using m calmD [OF assms(2) m] by (simp add: bindA_def)
qed

lemma frozenD: "frozen uid w \<Longrightarrow> u \<in> set (w_users w) \<Longrightarrow> u_ID u = uid \<Longrightarrow> u_IsFrozen u"
  by (simp add: frozen_def)

lemma frozen_transfers:
  assumes f: "frozen uid w" and s: "rates_read s"
  shows "\<exists>e w'. ProcessInboundTransfer E L s uid req w = (Inl e, w') \<and> w_ledger w' = w_ledger w"
    and "\<exists>e w'. ProcessOutboundTransfer E L s sw uid req' w = (Inl e, w') \<and> w_ledger w' = w_ledger w"
    and "\<exists>e w'. ProcessBatchTransfer E L s uid req'' w = (Inl e, w') \<and> w_ledger w' = w_ledger w"
    and "\<exists>e w'. DisburseLoan' E L nbe uid lreq w = (Inl e, w') \<and> w_ledger w' = w_ledger w"
proof -
  have "p2p_parties E s uid req w \<noteq> (Inr x, w')" for x w'
    using p2p_parties_run(2,4,6) [OF s, of E uid req w] frozenD [OF f] by (cases x) metis
  then show "\<exists>e w'. ProcessInboundTransfer E L s uid req w = (Inl e, w') \<and> w_ledger w' = w_ledger w"
    unfolding ProcessInboundTransfer_def by (rule refused) (rule calm_p2p_parties [OF s])
  have "outbound_sender E s uid req' w \<noteq> (Inr x, w')" for x w'
    using outbound_sender_run(2-4) [OF s, of E uid req' w x w'] frozenD [OF f] by metis
  then show "\<exists>e w'. ProcessOutboundTransfer E L s sw uid req' w = (Inl e, w') \<and> w_ledger w' = w_ledger w"
    unfolding ProcessOutboundTransfer_def by (rule refused) (rule calm_outbound_sender [OF s])
  have "batch_parties E uid req'' w \<noteq> (Inr x, w')" for x w'
    using user_GetByID_run [of E uid w] frozenD [OF f] by (auto simp: batch_parties_def runs)
  moreover have "calm (batch_parties E uid req'')"
    unfolding batch_parties_def resolve_item_def resolveBatchRecipient_def by (rule calms)+
  ultimately show "\<exists>e w'. ProcessBatchTransfer E L s uid req'' w = (Inl e, w') \<and> w_ledger w' = w_ledger w"
    unfolding ProcessBatchTransfer_def by (rule refused)
  have "loan_applicant E nbe uid lreq w \<noteq> (Inr x, w')" for x w'
    using loan_applicant_run(2-4) [of E nbe uid lreq w x w'] frozenD [OF f] by metis
  then show "\<exists>e w'. DisburseLoan' E L nbe uid lreq w = (Inl e, w') \<and> w_ledger w' = w_ledger w"
    unfolding DisburseLoan'_def by (rule refused) (rule reader_calm [OF reader_applicant])
qed

lemma frozen_access:
  assumes f: "frozen uid w"
  shows "Login E a lreq ua ip w = (Inr resp, w') \<Longrightarrow> ui_ID (tk_User resp) \<noteq> uid"
    and "auth_Refresh E a tok ua ip w = (Inr resp, w') \<Longrightarrow> ui_ID (tk_User resp) \<noteq> uid"
proof -
  assume "Login E a lreq ua ip w = (Inr resp, w')"
  then obtain user w1 where r: "auth_resolveUser E (lq_Identifier lreq) w = (Inr user, w1)" "\<not> u_IsFrozen user"
    and c: "createSession E a user ua ip w1 = (Inr resp, w')"
    unfolding Login_def by (auto simp: runs split: if_splits)
  have "tk_User resp = userInfoFromDomain user" using createSession_run [OF c] by metis
  then show "ui_ID (tk_User resp) \<noteq> uid"
    using frozenD [OF f auth_resolveUser_run(1) [OF r(1)]] r(2) by (auto simp: userInfoFromDomain_def)
next
  assume "auth_Refresh E a tok ua ip w = (Inr resp, w')"
  then obtain x v user w3 where found: "session_GetByRefreshToken E tok w = (Inr x, v)"
    and get: "user_GetByID E (ss_UserID x) (snd (session_Revoke E (ss_ID x) v)) = (Inr user, w3)" and u: "\<not> u_IsFrozen user"
    and c: "createSession E a user ua ip w3 = (Inr resp, w')"
    unfolding auth_Refresh_def by (auto simp: runs nowA_def ignoreA_def split: if_splits)
  have "w_users (snd (session_Revoke E (ss_ID x) v)) = w_users w"
    unfolding session_GetByRefreshToken_run(3) [OF found]
    by (simp add: session_Revoke_def dbA_def Let_def bindA_def getsA_def modifyA_def throwA_def retA_def)
  moreover have "tk_User resp = userInfoFromDomain user" using createSession_run [OF c] by metis
  ultimately show "ui_ID (tk_User resp) \<noteq> uid"
    using frozenD [OF f, of user] user_GetByID_run(1) [OF get] u by (auto simp: userInfoFromDomain_def)
qed

lemma frozen_card:
  assumes f: "frozen uid w" and db: "\<And>n. e_db_ok E n" and rates: "card_rates_read k"
    and own: "\<forall>c \<in> set (w_cards w). cd_TokenizedPAN c = aq_PAN req \<longrightarrow> cd_UserID c = uid"
    and run: "decide E L k req w = (Inr resp, w')"
  shows "ar_ResponseCode resp \<noteq> RCApproved \<and> w_ledger w' = w_ledger w"
proof -
  obtain r w1 where g: "card_GetByToken E (aq_PAN req) w = (r, w1)" by fastforce
  note s1 = stable_fields [OF readerD [OF reader_auths(1) g]]
  show ?thesis
  proof (cases r)
    case (Inl e)
    then have "decline_with E req '''' \<lparr>dc_code = RCDoNotHonor, dc_reason = ''card not found'', dc_currency = None\<rparr> w1 = (Inr resp, w')"
      using run g by (simp add: decide_def bindA_def tryA_def)
    from decline_run [OF this] show ?thesis using s1(1) approved_code by simp
  next
    case (Inr c)
    have "cd_UserID c = uid"
      using own g Inr by (auto simp: card_GetByToken_def card_query_def runs dbA_run dest!: select_one_Some)
    then have no: "card_checks E k req c w1 \<noteq> (Inr (Inr user), w2)" for user w2
      using card_checks_run(6-8) [of E k req c w1 user w2, OF _ db rates] frozenD [OF f, of user] s1(2) by auto
    have "decide_card E L k req c w1 = (Inr resp, w')" using run g Inr by (simp add: decide_def bindA_def tryA_def)
    moreover obtain q w2 where ck: "card_checks E k req c w1 = (q, w2)" by fastforce
    ultimately obtain d where q: "q = Inr (Inl d)" and dec: "decline_with E req (cd_ID c) d w2 = (Inr resp, w')"
      using no by (cases q; cases "projr q") (auto simp: decide_card_def Let_def bindD_def bindA_def retA_def)
    note ck = ck [unfolded q]
    have "dc_code d \<noteq> RCApproved" using refuses_checks(1) [of E k req c] ck unfolding refuses_def by blast
    then show ?thesis using decline_run [OF dec] s1(1) stable_fields(1) [OF readerD [OF reader_card_checks [OF rates] ck]] by simp
  qed
qed



end
